(* ===== verification/Prelude.thy ===== *)
theory Prelude
  imports Complex_Main
begin

text \<open>
  What every component shares: the JavaScript string and truthiness helpers the source uses, the
  exceptions of the NestJS services, the state-and-exception programs in which the async methods
  are written, external calls that may fail, and two contracts (locales) about running operations.
\<close>

named_theorems keeps_intro
named_theorems prog_simps

subsection \<open>Strings\<close>

text \<open>Decimal digits, as a template literal or \<open>toString\<close> prints an integer.\<close>

fun show_nat :: "nat \<Rightarrow> string" where
  "show_nat n =
     (if n < 10 then [char_of (48 + n)] else show_nat (n div 10) @ [char_of (48 + n mod 10)])"

declare show_nat.simps [simp del]

definition show_int :: "int \<Rightarrow> string" where
  "show_int i = (if i < 0 then ''-'' @ show_nat (nat (- i)) else show_nat (nat i))"

definition is_digit :: "char \<Rightarrow> bool" where
  "is_digit c \<longleftrightarrow> (48::nat) \<le> of_char c \<and> (of_char c :: nat) \<le> 57"

definition is_upper :: "char \<Rightarrow> bool" where
  "is_upper c \<longleftrightarrow> (65::nat) \<le> of_char c \<and> (of_char c :: nat) \<le> 90"

text \<open>\<open>toUpperCase\<close>, \<open>toLowerCase\<close> and \<open>trim\<close> on ASCII strings.\<close>

definition upper_char :: "char \<Rightarrow> char" where
  "upper_char c =
     (if (97::nat) \<le> of_char c \<and> (of_char c :: nat) \<le> 122 then char_of (of_char c - 32 :: nat) else c)"

definition lower_char :: "char \<Rightarrow> char" where
  "lower_char c =
     (if (65::nat) \<le> of_char c \<and> (of_char c :: nat) \<le> 90 then char_of (of_char c + 32 :: nat) else c)"

definition to_upper :: "string \<Rightarrow> string" where
  "to_upper s = map upper_char s"

definition to_lower :: "string \<Rightarrow> string" where
  "to_lower s = map lower_char s"

definition is_space :: "char \<Rightarrow> bool" where
  "is_space c \<longleftrightarrow> (of_char c :: nat) \<in> {9, 10, 11, 12, 13, 32}"

definition trim :: "string \<Rightarrow> string" where
  "trim s = rev (dropWhile is_space (rev (dropWhile is_space s)))"

text \<open>\<open>xs.join(sep)\<close> and \<open>s.split(c)\<close> with a one-character separator.\<close>

fun join :: "string \<Rightarrow> string list \<Rightarrow> string" where
  "join sep [] = ''''"
| "join sep [x] = x"
| "join sep (x # y # zs) = x @ sep @ join sep (y # zs)"

fun split_on :: "char \<Rightarrow> string \<Rightarrow> string list" where
  "split_on c [] = [[]]"
| "split_on c (x # xs) =
     (if x = c then [] # split_on c xs
      else (case split_on c xs of [] \<Rightarrow> [[x]] | y # ys \<Rightarrow> (x # y) # ys))"

text \<open>\<open>new Set(xs)\<close> keeps the first occurrence of every element, in order.\<close>

definition js_set :: "'a list \<Rightarrow> 'a list" where
  "js_set xs = rev (remdups (rev xs))"

subsection \<open>Truthiness\<close>

text \<open>
  An optional string of the source is \<open>string option\<close>; \<open>undefined\<close> and \<open>null\<close> are \<open>None\<close>.
  \<open>x || d\<close> takes the default for a missing and for an empty string, and for the number zero.
\<close>

fun truthy :: "string option \<Rightarrow> bool" where
  "truthy None = False"
| "truthy (Some s) = (s \<noteq> '''')"

definition or_str :: "string option \<Rightarrow> string \<Rightarrow> string" where
  "or_str x d = (if truthy x then the x else d)"

definition or_opt :: "string option \<Rightarrow> string option \<Rightarrow> string option" where
  "or_opt x y = (if truthy x then x else y)"

definition or_int :: "int \<Rightarrow> int \<Rightarrow> int" where
  "or_int n d = (if n = 0 then d else n)"

lemma or_str_simps [simp]:
  "or_str None d = d" "or_str (Some '''') d = d" "s \<noteq> '''' \<Longrightarrow> or_str (Some s) d = s"
  by (simp_all add: or_str_def)

lemma or_opt_simps [simp]:
  "or_opt None y = y" "or_opt (Some '''') y = y" "s \<noteq> '''' \<Longrightarrow> or_opt (Some s) y = Some s"
  by (simp_all add: or_opt_def)

lemma or_int_simps [simp]: "or_int 0 d = d" "n \<noteq> 0 \<Longrightarrow> or_int n d = n"
  by (simp_all add: or_int_def)

subsection \<open>Lemmas on the string helpers\<close>

lemma char_of_digit: "n < 10 \<Longrightarrow> of_char (char_of (48 + n) :: char) = (48 + n :: nat)"
  by (simp add: of_char_of)

lemma show_nat_digits: "c \<in> set (show_nat n) \<Longrightarrow> is_digit c"
proof (induction n rule: show_nat.induct)
  case (1 n)
  have last: "is_digit (char_of (48 + n mod 10))" and small: "n < 10 \<Longrightarrow> is_digit (char_of (48 + n))"
    by (simp_all add: is_digit_def char_of_digit)
  show ?case
    using 1 last small by (cases "n < 10") (auto simp: show_nat.simps [of n])
qed

lemma show_nat_nonempty [simp]: "show_nat n \<noteq> []"
  by (subst show_nat.simps) simp

text \<open>Reading the digits back, which makes printing injective.\<close>

definition read_nat :: "string \<Rightarrow> nat" where
  "read_nat s = foldl (\<lambda>acc c. 10 * acc + (of_char c - 48)) 0 s"

lemma read_show_nat: "read_nat (show_nat n) = n"
proof (induction n rule: show_nat.induct)
  case (1 n)
  show ?case
  proof (cases "n < 10")
    case True
    then show ?thesis by (simp add: show_nat.simps [of n] read_nat_def char_of_digit)
  next
    case False
    then have "read_nat (show_nat n) = 10 * read_nat (show_nat (n div 10)) + n mod 10"
      by (simp add: show_nat.simps [of n] read_nat_def char_of_digit)
    with False 1 show ?thesis by simp
  qed
qed

lemma show_nat_inject [simp]: "show_nat m = show_nat n \<longleftrightarrow> m = n"
  by (metis read_show_nat)

lemma show_nat_hd: "hd (show_nat n) \<noteq> CHR ''-''"
  using show_nat_digits [of "hd (show_nat n)" n] by (auto simp: is_digit_def)

lemma show_nat_not_minus [simp]: "show_nat n \<noteq> CHR ''-'' # s"
  using show_nat_hd [of n] by auto

lemma show_int_inject [simp]: "show_int i = show_int j \<longleftrightarrow> i = j"
  by (auto simp: show_int_def nat_eq_iff dest: sym split: if_splits)

lemma show_int_chars: "c \<in> set (show_int i) \<Longrightarrow> c = CHR ''-'' \<or> is_digit c"
  by (auto simp: show_int_def dest: show_nat_digits split: if_splits)

text \<open>A separator that does not occur on the left pins down both sides of a concatenation.\<close>

lemma append_sep_eq:
  assumes "c \<notin> set xs" "c \<notin> set ys" "xs @ c # us = ys @ c # vs"
  shows "xs = ys \<and> us = vs"
  using assms
proof (induction xs arbitrary: ys)
  case Nil
  then show ?case by (cases ys) auto
next
  case (Cons x xs)
  then show ?case by (cases ys) auto
qed

lemma find_last: "(\<forall>x\<in>set xs. \<not> P x) \<Longrightarrow> P y \<Longrightarrow> find P (xs @ [y]) = Some y"
  by (induction xs) auto

lemma set_js_set [simp]: "set (js_set xs) = set xs"
  by (simp add: js_set_def)

lemma distinct_js_set [simp]: "distinct (js_set xs)"
  by (simp add: js_set_def)

lemma js_set_distinct: "distinct xs \<Longrightarrow> js_set xs = xs"
  by (simp add: js_set_def distinct_remdups_id)

lemma length_to_upper [simp]: "length (to_upper s) = length s"
  by (simp add: to_upper_def)

lemma to_upper_Nil_iff [simp]: "to_upper s = [] \<longleftrightarrow> s = []"
  by (simp add: to_upper_def)

lemma of_upper_char:
  "(of_char (upper_char c) :: nat) =
     (if 97 \<le> (of_char c :: nat) \<and> (of_char c :: nat) \<le> 122 then of_char c - 32 else of_char c)"
  by (auto simp: upper_char_def of_char_of)

lemma upper_char_idem: "upper_char (upper_char c) = upper_char c"
  unfolding upper_char_def [of "upper_char c"] of_upper_char by auto

lemma to_upper_idem [simp]: "to_upper (to_upper s) = to_upper s"
  by (simp add: to_upper_def upper_char_idem)

subsection \<open>Exceptions and programs\<close>

text \<open>
  What a service throws: a NestJS \<open>HttpException\<close> with its status, its message and the optional
  machine-readable code some services attach, a plain \<open>Error\<close>, or the plain object
  \<open>{ status: 'error', message }\<close> with which a call of another service is rejected when no filter of that
  service shapes the error. An async method over a world \<open>'s\<close> is a program: it returns a value or throws,
  and leaves a world behind either way.
\<close>

datatype exn = HttpExn int string "string option" | JsError string | RpcError string

abbreviation BadRequest :: "string \<Rightarrow> exn" where "BadRequest m \<equiv> HttpExn 400 m None"
abbreviation NotFound :: "string \<Rightarrow> exn" where "NotFound m \<equiv> HttpExn 404 m None"
abbreviation Conflict :: "string \<Rightarrow> exn" where "Conflict m \<equiv> HttpExn 409 m None"
abbreviation NotImplemented :: "string \<Rightarrow> exn" where "NotImplemented m \<equiv> HttpExn 501 m None"

fun exn_message :: "exn \<Rightarrow> string" where
  "exn_message (HttpExn st m c) = m"
| "exn_message (JsError m) = m"
| "exn_message (RpcError m) = m"

text \<open>\<open>error instanceof Error ? error.message : String(error)\<close>.\<close>

fun error_text :: "exn \<Rightarrow> string" where
  "error_text (HttpExn st m c) = m"
| "error_text (JsError m) = m"
| "error_text (RpcError m) = ''[object Object]''"

type_synonym ('s, 'a) prog = "'s \<Rightarrow> (exn + 'a) \<times> 's"

definition ret :: "'a \<Rightarrow> ('s, 'a) prog" where
  "ret a w = (Inr a, w)"

definition throw :: "exn \<Rightarrow> ('s, 'a) prog" where
  "throw e w = (Inl e, w)"

text \<open>Sequencing: the rest of the method runs on the result and the world of the first part.\<close>

definition andThen :: "('s, 'a) prog \<Rightarrow> ('a \<Rightarrow> ('s, 'b) prog) \<Rightarrow> ('s, 'b) prog" where
  "andThen m f w = (case m w of (Inl e, w') \<Rightarrow> (Inl e, w') | (Inr a, w') \<Rightarrow> f a w')"

text \<open>\<open>try { m } catch (error) { h error }\<close>.\<close>

definition tryCatch :: "('s, 'a) prog \<Rightarrow> (exn \<Rightarrow> ('s, 'a) prog) \<Rightarrow> ('s, 'a) prog" where
  "tryCatch m h w = (case m w of (Inl e, w') \<Rightarrow> h e w' | (Inr a, w') \<Rightarrow> (Inr a, w'))"

definition gets :: "('s \<Rightarrow> 'a) \<Rightarrow> ('s, 'a) prog" where
  "gets f w = (Inr (f w), w)"

definition modify :: "('s \<Rightarrow> 's) \<Rightarrow> ('s, unit) prog" where
  "modify f w = (Inr (), f w)"

text \<open>\<open>for (const x of xs) { await f(x) }\<close>.\<close>

fun forEach :: "('x \<Rightarrow> ('s, unit) prog) \<Rightarrow> 'x list \<Rightarrow> ('s, unit) prog" where
  "forEach f [] = ret ()"
| "forEach f (x # xs) = andThen (f x) (\<lambda>_. forEach f xs)"

declare ret_def [prog_simps] throw_def [prog_simps] gets_def [prog_simps] modify_def [prog_simps]
  andThen_def [prog_simps] tryCatch_def [prog_simps]

text \<open>Successful runs, inverted: every part of a sequence succeeded.\<close>

lemma andThen_Inr [simp]:
  "andThen m f w = (Inr b, w') \<longleftrightarrow> (\<exists>a v. m w = (Inr a, v) \<and> f a v = (Inr b, w'))"
  by (auto simp: andThen_def split: prod.splits sum.splits)

lemma ret_Inr [simp]: "ret a w = (Inr b, w') \<longleftrightarrow> b = a \<and> w' = w"
  by (auto simp: ret_def)

lemma throw_Inr [simp]: "throw e w \<noteq> (Inr b, w')"
  by (simp add: throw_def)

lemma gets_Inr [simp]: "gets f w = (Inr b, w') \<longleftrightarrow> b = f w \<and> w' = w"
  by (auto simp: gets_def)

lemma modify_Inr [simp]: "modify f w = (Inr b, w') \<longleftrightarrow> w' = f w"
  by (auto simp: modify_def)

text \<open>An invariant of the world that a program keeps, whether it returns or throws.\<close>

definition keeps :: "('s \<Rightarrow> bool) \<Rightarrow> ('s, 'a) prog \<Rightarrow> bool" where
  "keeps I m \<longleftrightarrow> (\<forall>w. I w \<longrightarrow> I (snd (m w)))"

lemma keepsI: "(\<And>w. I w \<Longrightarrow> I (snd (m w))) \<Longrightarrow> keeps I m"
  by (simp add: keeps_def)

lemma keepsD: "keeps I m \<Longrightarrow> I w \<Longrightarrow> I (snd (m w))"
  by (simp add: keeps_def)

lemma keeps_ret [keeps_intro]: "keeps I (ret a)"
  by (simp add: keeps_def ret_def)

lemma keeps_throw [keeps_intro]: "keeps I (throw e)"
  by (simp add: keeps_def throw_def)

lemma keeps_gets [keeps_intro]: "keeps I (gets f)"
  by (simp add: keeps_def gets_def)

lemma keeps_modify: "(\<And>w. I w \<Longrightarrow> I (f w)) \<Longrightarrow> keeps I (modify f)"
  by (simp add: keeps_def modify_def)

lemma keeps_andThen [keeps_intro]:
  assumes "keeps I m" and "\<And>a. keeps I (f a)"
  shows "keeps I (andThen m f)"
proof (rule keepsI)
  fix w
  assume "I w"
  with assms(1) have "I (snd (m w))" by (rule keepsD)
  then show "I (snd (andThen m f w))"
    using assms(2) by (auto simp: andThen_def keeps_def split: prod.splits sum.splits)
qed

text \<open>The same at one world, where only the first part needs an argument of its own.\<close>

lemma tryCatch_at: "I (snd (m w)) \<Longrightarrow> (\<And>e. keeps I (h e)) \<Longrightarrow> I (snd (tryCatch m h w))"
  by (auto simp: tryCatch_def keeps_def split: prod.splits sum.splits)

lemma andThen_at: "I (snd (m w)) \<Longrightarrow> (\<And>a. keeps I (f a)) \<Longrightarrow> I (snd (andThen m f w))"
  by (auto simp: andThen_def keeps_def split: prod.splits sum.splits)

lemma keeps_tryCatch [keeps_intro]:
  assumes "keeps I m" and "\<And>e. keeps I (h e)"
  shows "keeps I (tryCatch m h)"
proof (rule keepsI)
  fix w
  assume "I w"
  with assms(1) have "I (snd (m w))" by (rule keepsD)
  then show "I (snd (tryCatch m h w))"
    using assms(2) by (auto simp: tryCatch_def keeps_def split: prod.splits sum.splits)
qed

lemma keeps_if [keeps_intro]: "keeps I m \<Longrightarrow> keeps I n \<Longrightarrow> keeps I (if b then m else n)"
  by simp

lemma keeps_option_case:
  "keeps I m \<Longrightarrow> (\<And>x. keeps I (f x)) \<Longrightarrow> keeps I (case y of None \<Rightarrow> m | Some x \<Rightarrow> f x)"
  by (cases y) auto

lemma keeps_pair_case: "(\<And>a b. keeps I (f a b)) \<Longrightarrow> keeps I (case y of (a, b) \<Rightarrow> f a b)"
  by (cases y) auto

lemma keeps_forEach [keeps_intro]: "(\<And>x. keeps I (f x)) \<Longrightarrow> keeps I (forEach f xs)"
  by (induction xs) (auto intro: keeps_intro)

lemma keeps_forEach_set: "(\<And>x. x \<in> set xs \<Longrightarrow> keeps I (f x)) \<Longrightarrow> keeps I (forEach f xs)"
  by (induction xs) (auto intro!: keeps_intro)

subsection \<open>The environment: clock, fresh identifiers, calls that fail\<close>

text \<open>
  Every service world extends this record. \<open>now\<close> is \<open>Date.now()\<close> in milliseconds, \<open>uuidSrc\<close> the
  values \<open>uuidv4()\<close> and \<open>randomUUID()\<close> will return and \<open>uuidCtr\<close> how many were taken, \<open>serial\<close>
  the next value of a database sequence. A call to the database, to Redis or to the broker may
  fail: \<open>faults\<close> is the script of what will happen, one entry per call, \<open>True\<close> for a failure; calls
  after the end of the script succeed.
\<close>

record env =
  now :: int
  uuidSrc :: "nat \<Rightarrow> string"
  uuidCtr :: nat
  serial :: int
  faults :: "bool list"

definition down :: exn where
  "down = JsError ''Connection terminated''"

definition external :: "('x env_scheme, unit) prog" where
  "external w =
     (if faults w \<noteq> [] \<and> hd (faults w) then Inl down else Inr (), w\<lparr>faults := tl (faults w)\<rparr>)"

definition freshUuid :: "('x env_scheme, string) prog" where
  "freshUuid w = (Inr (uuidSrc w (uuidCtr w)), w\<lparr>uuidCtr := Suc (uuidCtr w)\<rparr>)"

definition nextSerial :: "('x env_scheme, int) prog" where
  "nextSerial w = (Inr (serial w), w\<lparr>serial := serial w + 1\<rparr>)"

lemma external_ok [simp]: "faults w = [] \<Longrightarrow> external w = (Inr (), w)"
  by (simp add: external_def)

lemma external_cases:
  obtains (ok) "external w = (Inr (), w\<lparr>faults := tl (faults w)\<rparr>)"
  | (fail) "external w = (Inl down, w\<lparr>faults := tl (faults w)\<rparr>)"
  by (cases "faults w \<noteq> [] \<and> hd (faults w)") (simp_all add: external_def)

text \<open>
  A statement of a database is one call; a transaction is begin, body and commit, and when any of it
  throws, \<open>restore w w'\<close> gives the world that is left: the tables of \<open>w\<close>, everything else of \<open>w'\<close>.
\<close>

definition dbcall :: "('x env_scheme \<Rightarrow> (exn + 'a) \<times> 'x env_scheme) \<Rightarrow> ('x env_scheme, 'a) prog" where
  "dbcall f = andThen external (\<lambda>_. f)"

definition dbquery :: "('x env_scheme \<Rightarrow> 'a) \<Rightarrow> ('x env_scheme, 'a) prog" where
  "dbquery f = dbcall (\<lambda>w. (Inr (f w), w))"

definition atomic ::
  "('x env_scheme \<Rightarrow> 'x env_scheme \<Rightarrow> 'x env_scheme) \<Rightarrow> ('x env_scheme, 'a) prog \<Rightarrow> ('x env_scheme, 'a) prog" where
  "atomic restore body w =
     (case andThen external (\<lambda>_. andThen body (\<lambda>a. andThen external (\<lambda>_. ret a))) w of
        (Inl e, w') \<Rightarrow> (Inl e, restore w w')
      | (Inr a, w') \<Rightarrow> (Inr a, w'))"

lemma dbcall_ok [simp]: "faults w = [] \<Longrightarrow> dbcall f w = f w"
  by (simp add: dbcall_def andThen_def)

lemma dbquery_ok [simp]: "faults w = [] \<Longrightarrow> dbquery f w = (Inr (f w), w)"
  by (simp add: dbquery_def)

lemma dbcall_eq:
  "dbcall f w = (if faults w \<noteq> [] \<and> hd (faults w) then (Inl down, w\<lparr>faults := tl (faults w)\<rparr>)
     else f (w\<lparr>faults := tl (faults w)\<rparr>))"
  by (simp add: dbcall_def andThen_def external_def)

lemma dbquery_eq:
  "dbquery f w = (if faults w \<noteq> [] \<and> hd (faults w) then (Inl down, w\<lparr>faults := tl (faults w)\<rparr>)
     else (Inr (f (w\<lparr>faults := tl (faults w)\<rparr>)), w\<lparr>faults := tl (faults w)\<rparr>))"
  by (simp add: dbquery_def dbcall_eq)

lemma atomic_ok:
  "faults w = [] \<Longrightarrow> body w = (Inr a, v) \<Longrightarrow> faults v = [] \<Longrightarrow> atomic restore body w = (Inr a, v)"
  by (simp add: atomic_def andThen_def ret_def)

lemma atomic_fails:
  "faults w = [] \<Longrightarrow> body w = (Inl e, v) \<Longrightarrow> atomic restore body w = (Inl e, restore w v)"
  by (simp add: atomic_def andThen_def)

text \<open>Invariants of statements and transactions, for worlds in which the fault script plays no role.\<close>

lemma keeps_dbcall:
  "(\<And>w fs. I w \<Longrightarrow> I (w\<lparr>faults := fs\<rparr>)) \<Longrightarrow> (\<And>w. I w \<Longrightarrow> I (snd (f w))) \<Longrightarrow> keeps I (dbcall f)"
  by (auto simp: keeps_def dbcall_eq)

lemma keeps_dbquery: "(\<And>w fs. I w \<Longrightarrow> I (w\<lparr>faults := fs\<rparr>)) \<Longrightarrow> keeps I (dbquery f)"
  by (auto simp: keeps_def dbquery_eq)

lemma keeps_atomic:
  assumes "\<And>w fs. I w \<Longrightarrow> I (w\<lparr>faults := fs\<rparr>)" and "keeps I body"
    and "\<And>w w'. I w \<Longrightarrow> I (restore w w')"
  shows "keeps I (atomic restore body)"
proof (rule keepsI)
  fix w
  assume w: "I w"
  then have b: "I (snd (body (w\<lparr>faults := tl (faults w)\<rparr>)))" using assms(1,2) by (simp add: keeps_def)
  obtain r v where "body (w\<lparr>faults := tl (faults w)\<rparr>) = (r, v)" by fastforce
  then show "I (snd (atomic restore body w))"
    using w b assms(1,3) by (cases r) (auto simp: atomic_def andThen_def external_def ret_def)
qed

text \<open>
  What a program leaves alone: \<open>stays R m\<close> says that the world before and the world after are related
  by \<open>R\<close>, for example that some tables are equal. For a preorder it composes.
\<close>

definition stays :: "('s \<Rightarrow> 's \<Rightarrow> bool) \<Rightarrow> ('s, 'a) prog \<Rightarrow> bool" where
  "stays R m \<longleftrightarrow> (\<forall>w. R w (snd (m w)))"

lemma staysI: "(\<And>w. R w (snd (m w))) \<Longrightarrow> stays R m"
  by (simp add: stays_def)

lemma staysD: "stays R m \<Longrightarrow> m w = (r, v) \<Longrightarrow> R w v"
  by (metis snd_conv stays_def)

lemma stays_mono: "stays R m \<Longrightarrow> (\<And>w v. R w v \<Longrightarrow> S w v) \<Longrightarrow> stays S m"
  by (simp add: stays_def)

lemma stays_keeps: "stays R m \<Longrightarrow> (\<And>w v. R w v \<Longrightarrow> I w \<Longrightarrow> I v) \<Longrightarrow> keeps I m"
  by (auto simp: stays_def keeps_def)

locale world_relation =
  fixes R :: "'s \<Rightarrow> 's \<Rightarrow> bool"
  assumes refl: "R w w"
    and trans: "R u v \<Longrightarrow> R v w \<Longrightarrow> R u w"
begin

lemma stays_ret: "stays R (ret a)"
  by (simp add: stays_def ret_def refl)

lemma stays_throw: "stays R (throw e)"
  by (simp add: stays_def throw_def refl)

lemma stays_gets: "stays R (gets f)"
  by (simp add: stays_def gets_def refl)

lemma stays_andThen:
  assumes "stays R m" and "\<And>a. stays R (f a)"
  shows "stays R (andThen m f)"
proof (rule staysI)
  fix w
  obtain r v where m: "m w = (r, v)" by fastforce
  have first: "R w v" by (rule staysD [OF assms(1) m])
  have "\<And>a. R v (snd (f a v))" using assms(2) by (simp add: stays_def)
  then show "R w (snd (andThen m f w))"
    using m first by (cases r) (auto simp: andThen_def intro: trans [OF first])
qed

lemma stays_tryCatch:
  assumes "stays R m" and "\<And>e. stays R (h e)"
  shows "stays R (tryCatch m h)"
proof (rule staysI)
  fix w
  obtain r v where m: "m w = (r, v)" by fastforce
  have first: "R w v" by (rule staysD [OF assms(1) m])
  have "\<And>a. R v (snd (h a v))" using assms(2) by (simp add: stays_def)
  then show "R w (snd (tryCatch m h w))"
    using m first by (cases r) (auto simp: tryCatch_def intro: trans [OF first])
qed

lemma stays_if: "stays R m \<Longrightarrow> stays R n \<Longrightarrow> stays R (if b then m else n)"
  by simp

lemma stays_option: "stays R m \<Longrightarrow> (\<And>x. stays R (f x)) \<Longrightarrow> stays R (case y of None \<Rightarrow> m | Some x \<Rightarrow> f x)"
  by (cases y) auto

lemma stays_sum: "(\<And>x. stays R (g x)) \<Longrightarrow> (\<And>x. stays R (f x)) \<Longrightarrow> stays R (case y of Inl x \<Rightarrow> g x | Inr x \<Rightarrow> f x)"
  by (cases y) auto

lemma stays_prod: "(\<And>a b. stays R (f a b)) \<Longrightarrow> stays R (case y of (a, b) \<Rightarrow> f a b)"
  by (cases y) auto

lemma stays_let: "(\<And>x. stays R (f x)) \<Longrightarrow> stays R (let x = y in f x)"
  by simp

lemma stays_forEach: "(\<And>x. stays R (f x)) \<Longrightarrow> stays R (forEach f xs)"
  by (induction xs) (auto intro: stays_ret stays_andThen)

lemmas stays_intros = stays_ret stays_throw stays_gets stays_andThen stays_tryCatch stays_if stays_option
  stays_sum stays_prod stays_let stays_forEach

end

text \<open>Column types of the schemas: \<open>varchar(n)\<close>, nullable, and \<open>int\<close>.\<close>

definition varchar_ok :: "nat \<Rightarrow> string option \<Rightarrow> bool" where
  "varchar_ok n x = (case x of None \<Rightarrow> True | Some s \<Rightarrow> length s \<le> n)"

definition int4_ok :: "int \<Rightarrow> bool" where
  "int4_ok i \<longleftrightarrow> - 2147483648 \<le> i \<and> i < 2147483648"

subsection \<open>Contracts on sequences of operations\<close>

text \<open>
  A component with an invariant: \<open>step\<close> is its operation, \<open>ok\<close> the condition under which its callers
  run it. Running any list of admitted operations keeps the invariant.
\<close>

fun run_steps :: "('s \<Rightarrow> 'o \<Rightarrow> 's) \<Rightarrow> 's \<Rightarrow> 'o list \<Rightarrow> 's" where
  "run_steps f s [] = s"
| "run_steps f s (x # xs) = run_steps f (f s x) xs"

fun all_ok :: "('s \<Rightarrow> 'o \<Rightarrow> 's) \<Rightarrow> ('s \<Rightarrow> 'o \<Rightarrow> bool) \<Rightarrow> 's \<Rightarrow> 'o list \<Rightarrow> bool" where
  "all_ok f ok s [] = True"
| "all_ok f ok s (x # xs) = (ok s x \<and> all_ok f ok (f s x) xs)"

lemma run_steps_append [simp]: "run_steps f s (xs @ ys) = run_steps f (run_steps f s xs) ys"
  by (induction xs arbitrary: s) auto

locale guarded_machine =
  fixes step :: "'s \<Rightarrow> 'o \<Rightarrow> 's"
    and ok :: "'s \<Rightarrow> 'o \<Rightarrow> bool"
    and inv :: "'s \<Rightarrow> bool"
  assumes step_inv: "inv s \<Longrightarrow> ok s x \<Longrightarrow> inv (step s x)"
begin

lemma run_inv: "inv s \<Longrightarrow> all_ok step ok s xs \<Longrightarrow> inv (run_steps step s xs)"
  by (induction xs arbitrary: s) (auto intro: step_inv)

end

text \<open>A component whose invariant every operation keeps, whatever the operation's arguments.\<close>

locale invariant_machine =
  fixes step :: "'s \<Rightarrow> 'o \<Rightarrow> 's"
    and inv :: "'s \<Rightarrow> bool"
  assumes step_keeps: "inv s \<Longrightarrow> inv (step s x)"

sublocale invariant_machine \<subseteq> guarded_machine step "\<lambda>_ _. True" inv
  by unfold_locales (rule step_keeps)

context invariant_machine
begin

lemma run_keeps: "inv s \<Longrightarrow> inv (run_steps step s xs)"
  by (induction xs arbitrary: s) (auto intro: step_keeps)

end

text \<open>
  A consumer that remembers what it handled: an event handled before changes nothing, and handling
  an event records it. Then redelivering any of the events already handled changes nothing.
\<close>

locale dedup_consumer =
  fixes handle :: "'s \<Rightarrow> 'e \<Rightarrow> 's"
    and handled :: "'s \<Rightarrow> 'e \<Rightarrow> bool"
  assumes handled_skip: "handled s x \<Longrightarrow> handle s x = s"
    and handled_stays: "handled s x \<Longrightarrow> handled (handle s y) x"
begin

lemma redelivery_noop:
  "(\<And>x. x \<in> set xs \<Longrightarrow> handled s x) \<Longrightarrow> run_steps handle s xs = s"
  by (induction xs) (auto simp: handled_skip)

lemma handled_run: "handled s x \<Longrightarrow> handled (run_steps handle s xs) x"
  by (induction xs arbitrary: s) (auto intro: handled_stays)

end

end
