(* ===== verification/Tables.thy ===== *)
theory Tables
  imports Main
begin

text \<open>
  Tables of a database as lists of rows: an identifier, a unique key that may be null, and a predicate
  that every row satisfies (its column types). Inserting, updating and deleting keep them.
\<close>

definition clashes :: "('r \<Rightarrow> int) \<Rightarrow> ('r \<Rightarrow> 'k option) \<Rightarrow> 'r \<Rightarrow> 'r list \<Rightarrow> bool" where
  "clashes ident key r rows \<longleftrightarrow> key r \<noteq> None \<and> (\<exists>x\<in>set rows. ident x \<noteq> ident r \<and> key x = key r)"

definition table_ok :: "('r \<Rightarrow> int) \<Rightarrow> ('r \<Rightarrow> 'k option) \<Rightarrow> ('r \<Rightarrow> bool) \<Rightarrow> int \<Rightarrow> 'r list \<Rightarrow> bool" where
  "table_ok ident key valid next_id rows \<longleftrightarrow>
     distinct (map ident rows) \<and> (\<forall>r\<in>set rows. ident r < next_id \<and> valid r) \<and>
     (\<forall>r\<in>set rows. \<not> clashes ident key r rows)"

lemma clashes_cases:
  assumes "clashes ident key r xs"
  obtains x where "x \<in> set xs" "ident x \<noteq> ident r" "key x = key r" "key r \<noteq> None"
  using assms unfolding clashes_def by blast

lemma clashesI: "x \<in> set xs \<Longrightarrow> ident x \<noteq> ident r \<Longrightarrow> key x = key r \<Longrightarrow> key r \<noteq> None \<Longrightarrow> clashes ident key r xs"
  unfolding clashes_def by blast

lemma table_append:
  assumes "table_ok ident key valid n rows" "ident r = n" "valid r" "\<not> clashes ident key r rows"
  shows "table_ok ident key valid (n + 1) (rows @ [r])"
proof -
  have "\<not> clashes ident key x (rows @ [r])" if x: "x \<in> set (rows @ [r])" for x
  proof
    assume "clashes ident key x (rows @ [r])"
    then obtain y where y: "y \<in> set (rows @ [r])" "ident y \<noteq> ident x" "key y = key x" "key x \<noteq> None"
      by (rule clashes_cases)
    show False
    proof (cases "x \<in> set rows")
      case True
      show False
      proof (cases "y \<in> set rows")
        case True
        with \<open>x \<in> set rows\<close> y assms(1) show False unfolding table_ok_def clashes_def by blast
      next
        case False
        with y(1) have "y = r" by simp
        with y True have "clashes ident key r rows" by (intro clashesI [of x]) auto
        with assms(4) show False by blast
      qed
    next
      case False
      with x have "x = r" by simp
      with y have "clashes ident key r rows" by (intro clashesI [of y]) auto
      with assms(4) show False by blast
    qed
  qed
  moreover have "distinct (map ident (rows @ [r]))" using assms(1,2) by (auto simp: table_ok_def)
  moreover have "\<forall>x\<in>set (rows @ [r]). ident x < n + 1 \<and> valid x" using assms(1-3) by (auto simp: table_ok_def)
  ultimately show ?thesis by (simp add: table_ok_def)
qed

lemma table_map:
  assumes "table_ok ident key valid n rows" "\<And>r. r \<in> set rows \<Longrightarrow> ident (f r) = ident r" 
    "\<And>r. r \<in> set rows \<Longrightarrow> valid (f r)"
    "\<And>r. r \<in> set rows \<Longrightarrow> \<not> clashes ident key (f r) (map f rows)"
  shows "table_ok ident key valid n (map f rows)"
proof -
  have "map ident (map f rows) = map ident rows" using assms(2) by simp
  moreover have "\<forall>x\<in>set (map f rows). ident x < n \<and> valid x" using assms(1-3) by (auto simp: table_ok_def)
  moreover have "\<forall>x\<in>set (map f rows). \<not> clashes ident key x (map f rows)" using assms(4) by auto
  ultimately show ?thesis using assms(1) unfolding table_ok_def by metis
qed

lemma table_update:
  assumes ok: "table_ok ident key valid n rows" and r: "ident r = i" "valid r" "\<not> clashes ident key r rows"
  shows "table_ok ident key valid n (map (\<lambda>x. if ident x = i then r else x) rows)"
proof (rule table_map [OF ok])
  fix x assume x: "x \<in> set rows"
  show "ident (if ident x = i then r else x) = ident x" using r by simp
  show "valid (if ident x = i then r else x)" using ok r x by (auto simp: table_ok_def)
  show "\<not> clashes ident key (if ident x = i then r else x) (map (\<lambda>x. if ident x = i then r else x) rows)"
  proof
    let ?x = "if ident x = i then r else x"
    assume "clashes ident key ?x (map (\<lambda>x. if ident x = i then r else x) rows)"
    then obtain y where y: "y \<in> set (map (\<lambda>x. if ident x = i then r else x) rows)"
      "ident y \<noteq> ident ?x" "key y = key ?x" "key ?x \<noteq> None" by (rule clashes_cases)
    from y(1) obtain z where z: "z \<in> set rows" "y = (if ident z = i then r else z)" by auto
    show False
    proof (cases "ident x = i")
      case True
      with y z r(1) have "clashes ident key r rows" by (intro clashesI [of z]) (auto split: if_splits)
      with r(3) show False by blast
    next
      case False
      show False
      proof (cases "ident z = i")
        case True
        with y z False r(1) x have "clashes ident key r rows" by (intro clashesI [of x]) auto
        with r(3) show False by blast
      next
        case zi: False
        with y z False have "clashes ident key x rows" by (intro clashesI [of z]) auto
        with ok x show False by (simp add: table_ok_def)
      qed
    qed
  qed
qed

lemma table_same_key:
  assumes ok: "table_ok ident key valid n rows" and f: "\<And>r. ident (f r) = ident r" "\<And>r. key (f r) = key r"
    "\<And>r. valid r \<Longrightarrow> valid (f r)"
  shows "table_ok ident key valid n (map f rows)"
proof (rule table_map [OF ok])
  fix x assume x: "x \<in> set rows"
  show "valid (f x)" using ok x f(3) by (auto simp: table_ok_def)
  show "\<not> clashes ident key (f x) (map f rows)"
    using ok x by (auto simp: table_ok_def clashes_def f)
qed (rule f)

lemma table_mono: "table_ok ident key valid n rows \<Longrightarrow> n \<le> m \<Longrightarrow> table_ok ident key valid m rows"
  unfolding table_ok_def by force

lemma table_filter: "table_ok ident key valid n rows \<Longrightarrow> table_ok ident key valid n (filter P rows)"
  unfolding table_ok_def clashes_def by (auto simp: distinct_map_filter)

lemma updated_ids: "ident r = i \<Longrightarrow> ident ` set (map (\<lambda>x. if ident x = i then r else x) rows) = ident ` set rows"
  by (induction rows) auto


lemma mapped_ids: "(\<And>r. ident (f r) = ident r) \<Longrightarrow> ident ` set (map f rows) = ident ` set rows"
  by (induction rows) auto

end
