(* ===== verification/Redis.thy ===== *)
theory Redis
  imports Prelude
begin

text \<open>
  The key/value store the services share through \<open>RedisService.getClient()\<close>: string keys, values of
  a type each client chooses (what its JSON text or sorted set stands for), and an optional expiry
  time in milliseconds. The operations are the commands the source issues, with their documented
  effect; \<open>t\<close> is the server's clock. The locale is the contract the clients rely on.
\<close>

type_synonym 'v redis = "string \<Rightarrow> ('v \<times> int option) option"

fun live :: "int \<Rightarrow> int option \<Rightarrow> bool" where
  "live t None = True"
| "live t (Some e) = (t < e)"

definition redis_get :: "int \<Rightarrow> 'v redis \<Rightarrow> string \<Rightarrow> 'v option" where
  "redis_get t r k =
     (case r k of None \<Rightarrow> None | Some (v, e) \<Rightarrow> (if live t e then Some v else None))"

text \<open>\<open>SETEX key seconds value\<close>, also \<open>SET key value EX seconds\<close>.\<close>

definition redis_setex :: "int \<Rightarrow> string \<Rightarrow> int \<Rightarrow> 'v \<Rightarrow> 'v redis \<Rightarrow> 'v redis" where
  "redis_setex t k secs v r = r(k \<mapsto> (v, Some (t + secs * 1000)))"

definition redis_del :: "string \<Rightarrow> 'v redis \<Rightarrow> 'v redis" where
  "redis_del k r = r(k := None)"

text \<open>\<open>TTL\<close>: the remaining seconds, rounded; -1 without an expiry, -2 without the key.\<close>

definition redis_ttl :: "int \<Rightarrow> 'v redis \<Rightarrow> string \<Rightarrow> int" where
  "redis_ttl t r k =
     (case r k of None \<Rightarrow> -2
      | Some (v, None) \<Rightarrow> -1
      | Some (v, Some e) \<Rightarrow> (if t < e then (e - t + 500) div 1000 else -2))"

text \<open>\<open>EXPIRE key seconds\<close>: a live key gets a new expiry, any other key is left alone.\<close>

definition redis_expire :: "int \<Rightarrow> string \<Rightarrow> int \<Rightarrow> 'v redis \<Rightarrow> 'v redis" where
  "redis_expire t k secs r =
     (case r k of None \<Rightarrow> r
      | Some (v, e) \<Rightarrow> (if live t e then r(k \<mapsto> (v, Some (t + secs * 1000))) else r))"

subsection \<open>The contract\<close>

locale expiring_store =
  fixes get :: "int \<Rightarrow> 'r \<Rightarrow> 'k \<Rightarrow> 'v option"
    and setex :: "int \<Rightarrow> 'k \<Rightarrow> int \<Rightarrow> 'v \<Rightarrow> 'r \<Rightarrow> 'r"
    and del :: "'k \<Rightarrow> 'r \<Rightarrow> 'r"
  assumes get_set_same: "get t (setex t' k s v r) k = (if t < t' + s * 1000 then Some v else None)"
    and get_set_other: "k \<noteq> k' \<Longrightarrow> get t (setex t' k s v r) k' = get t r k'"
    and get_del_same: "get t (del k r) k = None"
    and get_del_other: "k \<noteq> k' \<Longrightarrow> get t (del k r) k' = get t r k'"
begin

text \<open>Setting a list of keys in turn: keys of the list hold what was written last, others nothing new.\<close>

lemma get_fold_other:
  "k \<notin> set ks \<Longrightarrow> get t (fold (\<lambda>x. setex t' x s (f x)) ks r) k = get t r k"
proof (induction ks arbitrary: r)
  case Nil
  then show ?case by simp
next
  case (Cons x xs)
  then have "get t (setex t' x s (f x) r) k = get t r k" by (intro get_set_other) auto
  with Cons show ?case by simp
qed

lemma get_fold_same:
  assumes "k \<in> set ks" "0 < s" "t' \<le> t" "t < t' + s * 1000"
  shows "get t (fold (\<lambda>x. setex t' x s (f x)) ks r) k = Some (f k)"
  using assms(1)
proof (induction ks arbitrary: r)
  case Nil
  then show ?case by simp
next
  case (Cons x xs)
  show ?case
  proof (cases "k \<in> set xs")
    case True
    then show ?thesis using Cons.IH by simp
  next
    case False
    with Cons.prems have "x = k" by simp
    with False assms show ?thesis by (simp add: get_fold_other get_set_same)
  qed
qed

lemma get_fold_del_other: "k \<notin> set ks \<Longrightarrow> get t (fold del ks r) k = get t r k"
proof (induction ks arbitrary: r)
  case Nil
  then show ?case by simp
next
  case (Cons x xs)
  then have "get t (del x r) k = get t r k" by (intro get_del_other) auto
  with Cons show ?case by simp
qed

lemma get_fold_del_same: "k \<in> set ks \<Longrightarrow> get t (fold del ks r) k = None"
proof (induction ks arbitrary: r)
  case Nil
  then show ?case by simp
next
  case (Cons x xs)
  show ?case
  proof (cases "k \<in> set xs")
    case True
    then show ?thesis using Cons.IH by simp
  next
    case False
    with Cons.prems have "x = k" by simp
    with False show ?thesis by (simp add: get_fold_del_other get_del_same)
  qed
qed

text \<open>A key set once is gone for good when its lifetime is over.\<close>

lemma set_expires: "t' + s * 1000 \<le> t \<Longrightarrow> get t (setex t' k s v r) k = None"
  by (simp add: get_set_same)

end

interpretation rd: expiring_store redis_get redis_setex redis_del
  by unfold_locales (auto simp: redis_get_def redis_setex_def redis_del_def)

subsection \<open>Raw entries\<close>

lemma redis_get_Some: "redis_get t r k = Some v \<longleftrightarrow> (\<exists>e. r k = Some (v, e) \<and> live t e)"
  by (auto simp: redis_get_def split: option.splits)

lemma redis_setex_apply:
  "redis_setex t k s v r k' = (if k' = k then Some (v, Some (t + s * 1000)) else r k')"
  by (simp add: redis_setex_def)

lemma redis_del_apply: "redis_del k r k' = (if k' = k then None else r k')"
  by (simp add: redis_del_def)

lemma redis_expire_live:
  "r k = Some (v, e) \<Longrightarrow> live t e \<Longrightarrow> redis_expire t k s r = r(k \<mapsto> (v, Some (t + s * 1000)))"
  by (simp add: redis_expire_def)

lemma fold_setex_apply:
  "fold (\<lambda>x. redis_setex t (key x) s (f x)) xs r k =
     (if \<exists>x\<in>set xs. key x = k
      then Some (f (last (filter (\<lambda>x. key x = k) xs)), Some (t + s * 1000)) else r k)"
proof (induction xs arbitrary: r)
  case Nil
  then show ?case by simp
next
  case (Cons x xs)
  show ?case
  proof (cases "\<exists>y\<in>set xs. key y = k")
    case True
    then have "filter (\<lambda>x. key x = k) xs \<noteq> []" by (auto simp: filter_empty_conv)
    with True Cons show ?thesis by simp
  next
    case False
    then have "filter (\<lambda>x. key x = k) xs = []" by (auto simp: filter_empty_conv)
    with False Cons show ?thesis by (simp add: redis_setex_apply)
  qed
qed

lemma fold_del_apply: "fold redis_del ks r k = (if k \<in> set ks then None else r k)"
  by (induction ks arbitrary: r) (auto simp: redis_del_apply)

lemma live_mono: "t \<le> t' \<Longrightarrow> live t' e \<Longrightarrow> live t e"
  by (cases e) auto

end
