(* ===== verification/SeatLock.thy ===== *)
theory SeatLock
  imports Redis
begin

text \<open>
  The seat lock library (libs/seat-lock/src/seat-lock.service.ts): seats of a flight are reserved
  for one booking by a Redis key per seat, and one key per booking lists the seats it holds. The
  Lua script that checks and writes is one atomic step. The value of a key is the record its JSON
  text encodes.
\<close>

record seat_lock =
  sl_flightId :: string
  sl_seat :: string
  sl_bookingId :: string
  sl_userId :: string
  sl_lockedAt :: int
  sl_expiresAt :: int

record booking_lock =
  bl_flightId :: string
  bl_seats :: "string list"
  bl_userId :: string
  bl_timestamp :: int

datatype lock_val = SeatVal seat_lock | BookVal booking_lock

record SeatLockResult =
  success :: bool
  lockedSeats :: "string list"
  failedSeats :: "string list"
  lockKey :: string
  lockExpiresAt :: int

definition LOCK_TTL :: int where
  "LOCK_TTL = 900"

definition getSeatKey :: "int \<Rightarrow> string \<Rightarrow> string" where
  "getSeatKey flightId seat = ''seat:lock:{'' @ show_int flightId @ ''}:'' @ seat"

definition getBookingKey :: "int \<Rightarrow> string \<Rightarrow> string" where
  "getBookingKey flightId bookingId = ''seat:lock:booking:{'' @ show_int flightId @ ''}:'' @ bookingId"

text \<open>The pattern \<open>[1-9]\d{0,2}[A-Z]\<close>, anchored at both ends.\<close>

definition seatPattern :: "string \<Rightarrow> bool" where
  "seatPattern s \<longleftrightarrow>
     2 \<le> length s \<and> length s \<le> 4 \<and> is_upper (last s) \<and>
     list_all is_digit (butlast s) \<and> hd s \<noteq> CHR ''0''"

definition validateSeatsExist :: "string list \<Rightarrow> exn + unit" where
  "validateSeatsExist seats =
     (if seats = [] then Inr ()
      else let normalized = filter (\<lambda>s. s \<noteq> '''') (map (\<lambda>s. to_upper (trim s)) seats);
               unique = js_set normalized;
               invalid = filter (\<lambda>s. \<not> seatPattern s) normalized
           in if length unique \<noteq> length normalized then Inl (JsError ''Duplicate seat numbers detected'')
              else if invalid \<noteq> [] then Inl (JsError (''Invalid seat number(s): '' @ join '', '' invalid))
              else Inr ())"

text \<open>
  The Lua script. A seat is unavailable when its key holds the lock of another booking whose
  recorded \<open>expiresAt\<close> lies in the future.
\<close>

definition seat_taken :: "int \<Rightarrow> string \<Rightarrow> int \<Rightarrow> lock_val redis \<Rightarrow> string \<Rightarrow> bool" where
  "seat_taken flightId bookingId timestamp r seat =
     (case redis_get timestamp r (getSeatKey flightId seat) of
        Some (SeatVal d) \<Rightarrow> sl_bookingId d \<noteq> bookingId \<and> timestamp < sl_expiresAt d
      | _ \<Rightarrow> False)"

definition seat_entry :: "int \<Rightarrow> string \<Rightarrow> int \<Rightarrow> int \<Rightarrow> string \<Rightarrow> lock_val" where
  "seat_entry flightId bookingId userId timestamp seat =
     SeatVal \<lparr>sl_flightId = show_int flightId, sl_seat = seat, sl_bookingId = bookingId,
       sl_userId = show_int userId, sl_lockedAt = timestamp,
       sl_expiresAt = timestamp + LOCK_TTL * 1000\<rparr>"

definition lock_script ::
  "int \<Rightarrow> string \<Rightarrow> int \<Rightarrow> int \<Rightarrow> string list \<Rightarrow> lock_val redis
     \<Rightarrow> (bool \<times> string list \<times> string list) \<times> lock_val redis" where
  "lock_script flightId bookingId userId timestamp seats r =
     (let failed = filter (seat_taken flightId bookingId timestamp r) seats
      in if failed = []
         then let r1 = fold (\<lambda>seat. redis_setex timestamp (getSeatKey flightId seat) LOCK_TTL
                               (seat_entry flightId bookingId userId timestamp seat)) seats r;
                  r2 = redis_setex timestamp (getBookingKey flightId bookingId) LOCK_TTL
                         (BookVal \<lparr>bl_flightId = show_int flightId, bl_seats = seats,
                            bl_userId = show_int userId, bl_timestamp = timestamp\<rparr>) r1
              in ((True, seats, []), r2)
         else ((False, [], failed), r))"

text \<open>
  \<open>lockSeats\<close>. A booking key found there means this booking locked before: its seats are returned
  again. A booking key never holds a seat lock (the two kinds of keys differ), so the second
  alternative of that case does not arise.
\<close>

definition lockSeats ::
  "int \<Rightarrow> string list \<Rightarrow> string \<Rightarrow> int \<Rightarrow> int \<Rightarrow> lock_val redis
     \<Rightarrow> (exn + SeatLockResult) \<times> lock_val redis" where
  "lockSeats flightId seats bookingId userId timestamp r =
     (case validateSeatsExist seats of
        Inl e \<Rightarrow> (Inl e, r)
      | Inr _ \<Rightarrow>
          let bookingKey = getBookingKey flightId bookingId
          in case redis_get timestamp r bookingKey of
               Some (BookVal parsed) \<Rightarrow>
                 (Inr \<lparr>success = True, lockedSeats = bl_seats parsed, failedSeats = [],
                    lockKey = bookingKey, lockExpiresAt = bl_timestamp parsed + LOCK_TTL * 1000\<rparr>, r)
             | Some (SeatVal d) \<Rightarrow>
                 (Inr \<lparr>success = True, lockedSeats = [], failedSeats = [],
                    lockKey = bookingKey, lockExpiresAt = sl_lockedAt d + LOCK_TTL * 1000\<rparr>, r)
             | None \<Rightarrow>
                 if seats = []
                 then (Inr \<lparr>success = True, lockedSeats = [], failedSeats = [],
                         lockKey = bookingKey, lockExpiresAt = timestamp + LOCK_TTL * 1000\<rparr>, r)
                 else case lock_script flightId bookingId userId timestamp seats r of
                   ((ok, locked, failed), r') \<Rightarrow>
                     if ok
                     then (Inr \<lparr>success = True, lockedSeats = locked, failedSeats = [],
                             lockKey = bookingKey, lockExpiresAt = timestamp + LOCK_TTL * 1000\<rparr>, r')
                     else (Inr \<lparr>success = False, lockedSeats = [], failedSeats = failed,
                             lockKey = '''', lockExpiresAt = timestamp\<rparr>, r'))"

text \<open>The seats a booking's key lists, when the key is live.\<close>

definition booking_seats :: "int \<Rightarrow> int \<Rightarrow> string \<Rightarrow> lock_val redis \<Rightarrow> string list option" where
  "booking_seats t flightId bookingId r =
     (case redis_get t r (getBookingKey flightId bookingId) of
        None \<Rightarrow> None
      | Some (BookVal b) \<Rightarrow> Some (bl_seats b)
      | Some (SeatVal _) \<Rightarrow> Some [])"

definition releaseSeats :: "int \<Rightarrow> string \<Rightarrow> int \<Rightarrow> lock_val redis \<Rightarrow> lock_val redis" where
  "releaseSeats flightId bookingId t r =
     (case booking_seats t flightId bookingId r of
        None \<Rightarrow> r
      | Some seats \<Rightarrow>
          redis_del (getBookingKey flightId bookingId) (fold redis_del (map (getSeatKey flightId) seats) r))"

text \<open>
  \<open>extendLock\<close> reads the time to live of every key of the booking, then sends the pipeline of
  \<open>EXPIRE\<close> commands. The \<open>expiresAt\<close> recorded in the seat locks is not changed.
\<close>

definition extendLock :: "int \<Rightarrow> string \<Rightarrow> int \<Rightarrow> int \<Rightarrow> lock_val redis \<Rightarrow> bool \<times> lock_val redis" where
  "extendLock flightId bookingId additionalSeconds t r =
     (case booking_seats t flightId bookingId r of
        None \<Rightarrow> (False, r)
      | Some seats \<Rightarrow>
          let keys = map (getSeatKey flightId) seats @ [getBookingKey flightId bookingId];
              pipeline = map (\<lambda>k. (k, redis_ttl t r k + additionalSeconds))
                           (filter (\<lambda>k. 0 < redis_ttl t r k) keys)
          in (True, fold (\<lambda>(k, s). redis_expire t k s) pipeline r))"

definition areSeatsLocked :: "int \<Rightarrow> string list \<Rightarrow> int \<Rightarrow> lock_val redis \<Rightarrow> (string \<times> bool) list" where
  "areSeatsLocked flightId seats t r =
     map (\<lambda>seat. (seat, redis_get t r (getSeatKey flightId seat) \<noteq> None)) (js_set seats)"

subsection \<open>Keys\<close>

lemma brace_not_in_show_int: "CHR ''}'' \<notin> set (show_int i)"
  by (auto dest!: show_int_chars simp: is_digit_def)

lemma seat_key_inject [simp]: "getSeatKey f s = getSeatKey f' s' \<longleftrightarrow> f = f' \<and> s = s'"
  using append_sep_eq [OF brace_not_in_show_int brace_not_in_show_int, of f "CHR '':'' # s" f' "CHR '':'' # s'"]
  by (auto simp: getSeatKey_def)

lemma booking_key_inject [simp]: "getBookingKey f b = getBookingKey f' b' \<longleftrightarrow> f = f' \<and> b = b'"
  using append_sep_eq [OF brace_not_in_show_int brace_not_in_show_int, of f "CHR '':'' # b" f' "CHR '':'' # b'"]
  by (auto simp: getBookingKey_def)

lemma seat_key_not_booking_key [simp]:
  "getSeatKey f s \<noteq> getBookingKey f' b" "getBookingKey f' b \<noteq> getSeatKey f s"
  by (simp_all add: getSeatKey_def getBookingKey_def)

subsection \<open>Functional lemmas\<close>

lemma LOCK_TTL_pos [simp]: "0 < LOCK_TTL" "LOCK_TTL * 1000 = 900000"
  by (simp_all add: LOCK_TTL_def)

lemma validate_iff:
  "validateSeatsExist seats = Inr () \<longleftrightarrow>
     (let normalized = filter (\<lambda>s. s \<noteq> '''') (map (\<lambda>s. to_upper (trim s)) seats)
      in distinct normalized \<and> (\<forall>s\<in>set normalized. seatPattern s))"
proof -
  have len: "length (js_set xs) = length xs \<longleftrightarrow> distinct xs" for xs :: "string list"
    by (metis distinct_js_set set_js_set distinct_card card_distinct)
  show ?thesis
    by (auto simp: validateSeatsExist_def Let_def len filter_empty_conv)
qed

lemma lock_script_success:
  assumes "filter (seat_taken f b t r) seats = []"
  shows "lock_script f b u t seats r =
    ((True, seats, []),
     redis_setex t (getBookingKey f b) LOCK_TTL
       (BookVal \<lparr>bl_flightId = show_int f, bl_seats = seats, bl_userId = show_int u, bl_timestamp = t\<rparr>)
       (fold (\<lambda>s. redis_setex t (getSeatKey f s) LOCK_TTL (seat_entry f b u t s)) seats r))"
  using assms by (simp add: lock_script_def)

lemma lock_script_failure:
  "filter (seat_taken f b t r) seats \<noteq> [] \<Longrightarrow>
   lock_script f b u t seats r = ((False, [], filter (seat_taken f b t r) seats), r)"
  by (simp add: lock_script_def Let_def)

text \<open>What the keys hold after the script has locked: its own entries, and otherwise what they held.\<close>

lemma seats_fold_apply:
  "fold (\<lambda>s. redis_setex t (getSeatKey f s) LOCK_TTL (seat_entry f b u t s)) seats r k =
     (if \<exists>s\<in>set seats. k = getSeatKey f s
      then Some (seat_entry f b u t (THE s. k = getSeatKey f s), Some (t + LOCK_TTL * 1000)) else r k)"
proof (cases "\<exists>s\<in>set seats. k = getSeatKey f s")
  case True
  then obtain s where s: "s \<in> set seats" "k = getSeatKey f s" by blast
  have the: "(THE s. k = getSeatKey f s) = s" using s by auto
  have "filter (\<lambda>x. getSeatKey f x = k) seats = filter (\<lambda>x. x = s) seats"
    using s by simp
  moreover have "filter (\<lambda>x. x = s) seats \<noteq> []" using s by (auto simp: filter_empty_conv)
  then have "last (filter (\<lambda>x. x = s) seats) = s"
    using last_in_set by fastforce
  ultimately show ?thesis
    using True s the by (auto simp: fold_setex_apply)
next
  case False
  then show ?thesis by (auto simp: fold_setex_apply)
qed

lemma locked_store_seat [simp]:
  "s \<in> set seats \<Longrightarrow>
   snd (lock_script f b u t seats r) (getSeatKey f s) =
     (if filter (seat_taken f b t r) seats = []
      then Some (seat_entry f b u t s, Some (t + LOCK_TTL * 1000)) else r (getSeatKey f s))"
  by (auto simp: lock_script_success lock_script_failure redis_setex_apply seats_fold_apply)

text \<open>The shape of a successful and of a failed call on a booking without a live lock.\<close>

lemma lockSeats_new:
  assumes "validateSeatsExist seats = Inr ()" "redis_get t r (getBookingKey f b) = None" "seats \<noteq> []"
  shows "lockSeats f seats b u t r =
    (if filter (seat_taken f b t r) seats = []
     then (Inr \<lparr>success = True, lockedSeats = seats, failedSeats = [], lockKey = getBookingKey f b,
             lockExpiresAt = t + LOCK_TTL * 1000\<rparr>, snd (lock_script f b u t seats r))
     else (Inr \<lparr>success = False, lockedSeats = [], failedSeats = filter (seat_taken f b t r) seats,
             lockKey = '''', lockExpiresAt = t\<rparr>, r))"
  using assms by (simp add: lockSeats_def Let_def lock_script_success lock_script_failure)

subsection \<open>Mutual exclusion\<close>

text \<open>Booking \<open>b\<close> holds seat \<open>s\<close>: its live key lists the seat.\<close>

definition holds :: "int \<Rightarrow> lock_val redis \<Rightarrow> int \<Rightarrow> string \<Rightarrow> string \<Rightarrow> bool" where
  "holds t r f b s \<longleftrightarrow> (case booking_seats t f b r of None \<Rightarrow> False | Some seats \<Rightarrow> s \<in> set seats)"

text \<open>
  The invariant: the key of a live booking lists seats whose keys carry this booking's lock, with
  the booking key's expiry as recorded expiry.
\<close>

definition lock_wf :: "int \<Rightarrow> lock_val redis \<Rightarrow> bool" where
  "lock_wf t r \<longleftrightarrow>
     (\<forall>f b v e. r (getBookingKey f b) = Some (v, e) \<longrightarrow> live t e \<longrightarrow>
        (\<exists>bl. v = BookVal bl \<and>
           (\<forall>s\<in>set (bl_seats bl). \<exists>d. r (getSeatKey f s) = Some (SeatVal d, Some (sl_expiresAt d)) \<and>
              e = Some (sl_expiresAt d) \<and> sl_bookingId d = b)))"

lemma lock_wf_empty: "lock_wf t Map.empty"
  by (simp add: lock_wf_def)

lemma lock_wf_later: "lock_wf t r \<Longrightarrow> t \<le> t' \<Longrightarrow> lock_wf t' r"
  unfolding lock_wf_def by (meson live_mono)

lemma lock_wfD:
  assumes "lock_wf t r" "booking_seats t f b r = Some seats" "s \<in> set seats"
  obtains d where "r (getSeatKey f s) = Some (SeatVal d, Some (sl_expiresAt d))"
    "t < sl_expiresAt d" "sl_bookingId d = b"
proof -
  from assms(2) obtain v e where v: "r (getBookingKey f b) = Some (v, e)" "live t e"
    by (auto simp: booking_seats_def redis_get_Some split: option.splits lock_val.splits)
  with assms(1) obtain bl where bl: "v = BookVal bl"
    and ss: "\<forall>s\<in>set (bl_seats bl). \<exists>d. r (getSeatKey f s) = Some (SeatVal d, Some (sl_expiresAt d)) \<and>
              e = Some (sl_expiresAt d) \<and> sl_bookingId d = b"
    unfolding lock_wf_def by meson
  from v bl assms(2) have "seats = bl_seats bl"
    by (simp add: booking_seats_def redis_get_def)
  with ss assms(3) v(2) that show ?thesis by fastforce
qed

lemma holdsE:
  assumes "lock_wf t r" "holds t r f b s"
  obtains d where "r (getSeatKey f s) = Some (SeatVal d, Some (sl_expiresAt d))"
    "t < sl_expiresAt d" "sl_bookingId d = b"
  using assms by (auto simp: holds_def split: option.splits elim: lock_wfD)

lemma lock_wf_exclusive:
  assumes "lock_wf t r" "holds t r f b s" "holds t r f b' s"
  shows "b = b'"
  using assms(2,3) by (auto elim!: holdsE [OF assms(1)])

lemma lock_wf_script:
  assumes wf: "lock_wf t r"
  shows "lock_wf t (snd (lock_script f b u t seats r))"
proof (cases "filter (seat_taken f b t r) seats = []")
  case False
  then show ?thesis using wf by (simp add: lock_script_failure)
next
  case ok: True
  let ?r' = "snd (lock_script f b u t seats r)"
  show ?thesis
    unfolding lock_wf_def
  proof (intro allI impI)
    fix f' b' v e
    assume k: "?r' (getBookingKey f' b') = Some (v, e)" and l: "live t e"
    show "\<exists>bl. v = BookVal bl \<and>
        (\<forall>s\<in>set (bl_seats bl). \<exists>d. ?r' (getSeatKey f' s) = Some (SeatVal d, Some (sl_expiresAt d)) \<and>
           e = Some (sl_expiresAt d) \<and> sl_bookingId d = b')"
    proof (cases "f' = f \<and> b' = b")
      case True
      with k ok show ?thesis
        by (auto simp: lock_script_success redis_setex_apply seats_fold_apply)
          (auto simp: seat_entry_def)
    next
      case other: False
      with k ok have old: "r (getBookingKey f' b') = Some (v, e)"
        by (auto simp: lock_script_success redis_setex_apply seats_fold_apply split: if_splits)
      with l wf obtain bl where bl: "v = BookVal bl"
        and ss: "\<forall>s\<in>set (bl_seats bl). \<exists>d. r (getSeatKey f' s) = Some (SeatVal d, Some (sl_expiresAt d)) \<and>
           e = Some (sl_expiresAt d) \<and> sl_bookingId d = b'"
        unfolding lock_wf_def by meson
      have "?r' (getSeatKey f' s) = r (getSeatKey f' s)" if s: "s \<in> set (bl_seats bl)" for s
      proof -
        from s ss obtain d where d: "r (getSeatKey f' s) = Some (SeatVal d, Some (sl_expiresAt d))"
          "e = Some (sl_expiresAt d)" "sl_bookingId d = b'" by meson
        have "\<not> (f' = f \<and> s \<in> set seats)"
        proof
          assume fs: "f' = f \<and> s \<in> set seats"
          with d l other have "seat_taken f b t r s"
            by (auto simp: seat_taken_def redis_get_def)
          with ok fs show False by (simp add: filter_empty_conv)
        qed
        with ok show ?thesis
          by (auto simp: lock_script_success redis_setex_apply seats_fold_apply)
      qed
      with bl ss show ?thesis by auto
    qed
  qed
qed

lemma lock_wf_lockSeats: "lock_wf t r \<Longrightarrow> lock_wf t (snd (lockSeats f seats b u t r))"
  using lock_wf_script [of t r f b u seats]
  by (auto simp: lockSeats_def Let_def split: sum.splits option.splits lock_val.splits prod.splits
      if_splits)

lemma release_apply:
  "booking_seats t f b r = Some seats \<Longrightarrow>
   releaseSeats f b t r k =
     (if k = getBookingKey f b \<or> k \<in> getSeatKey f ` set seats then None else r k)"
  by (auto simp: releaseSeats_def redis_del_apply fold_del_apply)

lemma lock_wf_releaseSeats:
  assumes wf: "lock_wf t r"
  shows "lock_wf t (releaseSeats f b t r)"
proof (cases "booking_seats t f b r")
  case None
  then show ?thesis using wf by (simp add: releaseSeats_def)
next
  case (Some seats)
  show ?thesis
    unfolding lock_wf_def
  proof (intro allI impI)
    fix f' b' v e
    assume k: "releaseSeats f b t r (getBookingKey f' b') = Some (v, e)" and l: "live t e"
    then have old: "r (getBookingKey f' b') = Some (v, e)" and ne: "f' \<noteq> f \<or> b' \<noteq> b"
      using Some by (auto simp: release_apply split: if_splits)
    from old l wf obtain bl where bl: "v = BookVal bl"
      and ss: "\<forall>s\<in>set (bl_seats bl). \<exists>d. r (getSeatKey f' s) = Some (SeatVal d, Some (sl_expiresAt d)) \<and>
         e = Some (sl_expiresAt d) \<and> sl_bookingId d = b'"
      unfolding lock_wf_def by meson
    have "releaseSeats f b t r (getSeatKey f' s) = r (getSeatKey f' s)" if s: "s \<in> set (bl_seats bl)" for s
    proof -
      from s ss obtain d where d: "r (getSeatKey f' s) = Some (SeatVal d, Some (sl_expiresAt d))"
        "sl_bookingId d = b'" by meson
      have "\<not> (f' = f \<and> s \<in> set seats)"
      proof
        assume fs: "f' = f \<and> s \<in> set seats"
        with wf Some obtain d' where "r (getSeatKey f s) = Some (SeatVal d', Some (sl_expiresAt d'))"
          "sl_bookingId d' = b" by (blast elim: lock_wfD)
        with d fs ne show False by simp
      qed
      then show ?thesis using Some by (auto simp: release_apply)
    qed
    with bl ss show "\<exists>bl. v = BookVal bl \<and>
        (\<forall>s\<in>set (bl_seats bl). \<exists>d. releaseSeats f b t r (getSeatKey f' s) =
           Some (SeatVal d, Some (sl_expiresAt d)) \<and> e = Some (sl_expiresAt d) \<and> sl_bookingId d = b')"
      by auto
  qed
qed

text \<open>Clients of one Redis server: any of them locks or releases, and time passes.\<close>

datatype lock_op = LockOp int "string list" string int | ReleaseOp int string | TickOp nat

fun lock_exec :: "int \<times> lock_val redis \<Rightarrow> lock_op \<Rightarrow> int \<times> lock_val redis" where
  "lock_exec (t, r) (LockOp f seats b u) = (t, snd (lockSeats f seats b u t r))"
| "lock_exec (t, r) (ReleaseOp f b) = (t, releaseSeats f b t r)"
| "lock_exec (t, r) (TickOp d) = (t + int d, r)"

definition lock_state_inv :: "int \<times> lock_val redis \<Rightarrow> bool" where
  "lock_state_inv st = lock_wf (fst st) (snd st)"

lemma lock_exec_inv: "lock_state_inv st \<Longrightarrow> lock_state_inv (lock_exec st x)"
  by (cases st; cases x)
    (auto simp: lock_state_inv_def intro: lock_wf_lockSeats lock_wf_releaseSeats lock_wf_later)

interpretation seat_machine: invariant_machine lock_exec lock_state_inv
  by unfold_locales (rule lock_exec_inv)

subsection \<open>Properties\<close>

text \<open>C1. In every state that clients of the lock service reach from an empty Redis by locking and
  releasing seats while time passes, a seat of a flight is held by at most one booking.\<close>

theorem seat_lock_mutual_exclusion:
  assumes "run_steps lock_exec (t0, Map.empty) ops = (t, r)"
    and "holds t r f b s" and "holds t r f b' s"
  shows "b = b'"
proof -
  have "lock_state_inv (t0, Map.empty)" by (simp add: lock_state_inv_def lock_wf_empty)
  then have "lock_state_inv (run_steps lock_exec (t0, Map.empty) ops)"
    by (rule seat_machine.run_keeps)
  with assms(1) have "lock_wf t r" by (simp add: lock_state_inv_def)
  then show ?thesis using assms(2,3) by (rule lock_wf_exclusive)
qed

lemmas lock_eval = lockSeats_def lock_script_def seat_taken_def seat_entry_def booking_seats_def
  validateSeatsExist_def js_set_def seatPattern_def is_upper_def is_digit_def to_upper_def
  upper_char_def trim_def is_space_def redis_get_def redis_setex_def Let_def LOCK_TTL_def

lemma validate_12A: "validateSeatsExist [''12A''] = Inr ()"
  by (simp add: lock_eval)

theorem seat_lock_mutual_exclusion_witness:
  "\<exists>t r. run_steps lock_exec (0, Map.empty)
       [LockOp 7 [''12A''] ''b1'' 1, TickOp 1000, LockOp 7 [''12A''] ''b2'' 2] = (t, r) \<and>
     holds t r 7 ''b1'' ''12A'' \<and> (\<forall>b'. holds t r 7 b' ''12A'' \<longrightarrow> b' = ''b1'')"
proof -
  let ?ops = "[LockOp 7 [''12A''] ''b1'' 1, TickOp 1000, LockOp 7 [''12A''] ''b2'' 2]"
  obtain t r where st: "run_steps lock_exec (0, Map.empty) ?ops = (t, r)" by fastforce
  have "holds t r 7 ''b1'' ''12A''"
    using st by (auto simp: holds_def lock_eval)
  with st seat_lock_mutual_exclusion [OF st _ this] show ?thesis by blast
qed

text \<open>C2. \<open>lockSeats\<close> is all-or-nothing. For a booking without a live lock and a valid, non-empty
  list of seats it succeeds exactly when no seat carries another booking's unexpired lock; then
  every seat's key holds a lock of this booking for 900 seconds and the booking's key lists the
  seats. Otherwise it reports exactly the seats that were taken and changes no key.\<close>

theorem lockSeats_all_or_nothing:
  assumes "validateSeatsExist seats = Inr ()" and "booking_seats t f b r = None" and "seats \<noteq> []"
    and "lockSeats f seats b u t r = (Inr res, r')"
  shows "if \<forall>s\<in>set seats. \<not> seat_taken f b t r s
    then success res \<and> booking_seats t f b r' = Some seats \<and>
          (\<forall>s\<in>set seats. \<exists>d. r' (getSeatKey f s) = Some (SeatVal d, Some (t + 900000)) \<and>
             sl_bookingId d = b \<and> sl_expiresAt d = t + 900000)
    else \<not> success res \<and> r' = r \<and> failedSeats res = filter (seat_taken f b t r) seats"
proof -
  have free: "redis_get t r (getBookingKey f b) = None"
    using assms(2) by (auto simp: booking_seats_def split: option.splits lock_val.splits)
  note eq = assms(4) [unfolded lockSeats_new [OF assms(1) free assms(3), of u]]
  show ?thesis
  proof (cases "filter (seat_taken f b t r) seats = []")
    case ok: True
    with eq have r': "r' = snd (lock_script f b u t seats r)" and "success res" by auto
    moreover have "booking_seats t f b r' = Some seats"
      unfolding r' booking_seats_def lock_script_success [OF ok]
      by (simp add: redis_get_def redis_setex_def)
    moreover have "\<exists>d. r' (getSeatKey f s) = Some (SeatVal d, Some (t + 900000)) \<and>
             sl_bookingId d = b \<and> sl_expiresAt d = t + 900000" if "s \<in> set seats" for s
      unfolding r' locked_store_seat [OF that] using ok by (simp add: seat_entry_def)
    ultimately show ?thesis using ok by (auto simp: filter_empty_conv)
  next
    case False
    then have "\<not> (\<forall>s\<in>set seats. \<not> seat_taken f b t r s)" by (auto simp: filter_empty_conv)
    with False eq show ?thesis by auto
  qed
qed

theorem lockSeats_all_or_nothing_witness:
  "\<exists>res r'. lockSeats 7 [''12A''] ''b1'' 1 5000 Map.empty = (Inr res, r') \<and> success res \<and>
     booking_seats 5000 7 ''b1'' r' = Some [''12A'']"
proof -
  have free: "booking_seats 5000 7 ''b1'' Map.empty = None"
    by (simp add: booking_seats_def redis_get_def)
  obtain res r' where e: "lockSeats 7 [''12A''] ''b1'' 1 5000 Map.empty = (Inr res, r')"
    by (simp add: lock_eval)
  show ?thesis
    using lockSeats_all_or_nothing [OF validate_12A free _ e] e
    by (simp add: seat_taken_def redis_get_def)
qed

text \<open>C3. Locking and then releasing is a round trip: after a booking without an earlier lock has
  locked free seats, releasing it at any later time before the lock expires removes exactly the
  keys of those seats and of the booking; no other key of the store has changed.\<close>

theorem lock_release_roundtrip:
  assumes "validateSeatsExist seats = Inr ()" and "booking_seats t f b r = None" and "seats \<noteq> []"
    and "\<forall>s\<in>set seats. \<not> seat_taken f b t r s"
    and "t \<le> t'" and "t' < t + 900000"
  shows "releaseSeats f b t' (snd (lockSeats f seats b u t r)) =
    (\<lambda>k. if k = getBookingKey f b \<or> k \<in> getSeatKey f ` set seats then None else r k)"
proof
  fix k
  have free: "redis_get t r (getBookingKey f b) = None"
    using assms(2) by (auto simp: booking_seats_def split: option.splits lock_val.splits)
  have ok: "filter (seat_taken f b t r) seats = []"
    using assms(4) by (simp add: filter_empty_conv)
  let ?r' = "snd (lockSeats f seats b u t r)"
  have r': "?r' = snd (lock_script f b u t seats r)"
    using lockSeats_new [OF assms(1) free assms(3), of u] ok by simp
  have "booking_seats t' f b ?r' = Some seats"
    unfolding r' booking_seats_def lock_script_success [OF ok] using assms(6)
    by (simp add: redis_get_def redis_setex_def)
  from release_apply [OF this, of k]
  show "releaseSeats f b t' ?r' k =
      (if k = getBookingKey f b \<or> k \<in> getSeatKey f ` set seats then None else r k)"
    unfolding r' lock_script_success [OF ok]
    by (auto simp: redis_setex_apply seats_fold_apply)
qed

theorem lock_release_roundtrip_witness:
  "releaseSeats 7 ''b1'' 60000 (snd (lockSeats 7 [''12A''] ''b1'' 1 0 Map.empty)) = Map.empty"
proof -
  have free: "booking_seats 0 7 ''b1'' Map.empty = None"
    by (simp add: booking_seats_def redis_get_def)
  show ?thesis
    using lock_release_roundtrip [OF validate_12A free, of 60000 1]
    by (simp add: seat_taken_def redis_get_def fun_eq_iff)
qed

lemma lockSeats_one:
  assumes "validateSeatsExist [s] = Inr ()" "redis_get t r (getBookingKey f b) = None"
    "\<not> seat_taken f b t r s"
  shows "snd (lockSeats f [s] b u t r) =
      r(getSeatKey f s \<mapsto> (seat_entry f b u t s, Some (t + 900000)),
        getBookingKey f b \<mapsto> (BookVal \<lparr>bl_flightId = show_int f, bl_seats = [s],
          bl_userId = show_int u, bl_timestamp = t\<rparr>, Some (t + 900000)))"
    and "\<exists>x. fst (lockSeats f [s] b u t r) = Inr x \<and> success x"
proof -
  have ok: "filter (seat_taken f b t r) [s] = []" using assms(3) by simp
  from lockSeats_new [OF assms(1,2), of u] ok
  show "snd (lockSeats f [s] b u t r) =
      r(getSeatKey f s \<mapsto> (seat_entry f b u t s, Some (t + 900000)),
        getBookingKey f b \<mapsto> (BookVal \<lparr>bl_flightId = show_int f, bl_seats = [s],
          bl_userId = show_int u, bl_timestamp = t\<rparr>, Some (t + 900000)))"
    by (simp add: lock_script_success redis_setex_def)
  from lockSeats_new [OF assms(1,2), of u] ok
  show "\<exists>x. fst (lockSeats f [s] b u t r) = Inr x \<and> success x" by simp
qed

lemma two_updates: "i \<noteq> j \<Longrightarrow> m(i := a, j := b, i := c, j := d) = m(i := c, j := d)"
  by (simp add: fun_eq_iff)

lemma extended_single:
  assumes val: "validateSeatsExist [s] = Inr ()" and "t \<le> t1" "t1 + 1000 \<le> t + 900000"
    and r1_def: "extendLock f b 300 t1 (snd (lockSeats f [s] b u t Map.empty)) = (extended, r1)"
  shows "extended \<and> (\<exists>e bl. t + 900000 + 299000 \<le> e \<and> bl_seats bl = [s] \<and>
     r1 (getBookingKey f b) = Some (BookVal bl, Some e) \<and>
     r1 (getSeatKey f s) = Some (seat_entry f b u t s, Some e) \<and>
     (\<forall>b'. b' \<noteq> b \<longrightarrow> r1 (getBookingKey f b') = None))"
proof -
  let ?n = "t + 900000 - t1 + 500"
  let ?e = "t1 + (?n div 1000 + 300) * 1000"
  have ttl: "0 < ?n div 1000" "t1 < t + 900000" using assms(2,3) by simp_all
  let ?bl = "\<lparr>bl_flightId = show_int f, bl_seats = [s], bl_userId = show_int u, bl_timestamp = t\<rparr>"
  have r: "snd (lockSeats f [s] b u t Map.empty) =
      [getSeatKey f s \<mapsto> (seat_entry f b u t s, Some (t + 900000)),
       getBookingKey f b \<mapsto> (BookVal ?bl, Some (t + 900000))]"
    using lockSeats_one(1) [OF val] by (simp add: redis_get_def seat_taken_def)
  let ?r = "[getSeatKey f s \<mapsto> (seat_entry f b u t s, Some (t + 900000)),
       getBookingKey f b \<mapsto> (BookVal ?bl, Some (t + 900000))]"
  have bs: "booking_seats t1 f b ?r = Some [s]"
    using ttl(2) by (simp add: booking_seats_def redis_get_def)
  have t1: "redis_ttl t1 ?r (getSeatKey f s) = ?n div 1000"
    and t2: "redis_ttl t1 ?r (getBookingKey f b) = ?n div 1000"
    using ttl(2) by (simp_all add: redis_ttl_def)
  have "extendLock f b 300 t1 ?r =
      (True, redis_expire t1 (getBookingKey f b) (?n div 1000 + 300)
         (redis_expire t1 (getSeatKey f s) (?n div 1000 + 300) ?r))"
    unfolding extendLock_def bs using t1 t2 ttl(1) by (simp only: option.case Let_def list.map append.simps
      filter.simps if_True fold.simps o_apply id_apply prod.case)
  also have "redis_expire t1 (getSeatKey f s) (?n div 1000 + 300) ?r =
      ?r(getSeatKey f s \<mapsto> (seat_entry f b u t s, Some ?e))"
    by (rule redis_expire_live [where e = "Some (t + 900000)"]) (use ttl(2) in simp_all)
  also have "redis_expire t1 (getBookingKey f b) (?n div 1000 + 300) \<dots> =
      \<dots>(getBookingKey f b \<mapsto> (BookVal ?bl, Some ?e))"
    by (rule redis_expire_live [where e = "Some (t + 900000)"]) (use ttl(2) in simp_all)
  also have "\<dots> = [getSeatKey f s \<mapsto> (seat_entry f b u t s, Some ?e),
       getBookingKey f b \<mapsto> (BookVal ?bl, Some ?e)]"
    by (rule two_updates) simp
  finally have "extendLock f b 300 t1 ?r = (True, [getSeatKey f s \<mapsto> (seat_entry f b u t s, Some ?e),
       getBookingKey f b \<mapsto> (BookVal ?bl, Some ?e)])" .
  with r1_def have "extended" "r1 = [getSeatKey f s \<mapsto> (seat_entry f b u t s, Some ?e),
       getBookingKey f b \<mapsto> (BookVal ?bl, Some ?e)]"
    unfolding r by (simp_all only: prod.inject)
  moreover have "t + 900000 + 299000 \<le> ?e"
  proof -
    have "x - 999 + 300000 \<le> (x div 1000 + 300) * 1000" for x :: int by presburger
    from add_left_mono [OF this [of ?n], of t1] show ?thesis by (rule order_trans [rotated]) simp
  qed
  ultimately show ?thesis
    by (intro conjI exI [of _ ?e] exI [of _ ?bl]) simp_all
qed

text \<open>The extension of a lock is not honoured. A booking that locked a seat at time \<open>t\<close> and
  extended it by 300 seconds at \<open>t1\<close> still has a live booking key after the first 900 seconds, but
  the script compares the \<open>expiresAt\<close> recorded at locking time: any other booking then locks the
  seat, and both bookings hold it.\<close>

theorem extended_lock_stolen:
  assumes "validateSeatsExist [s] = Inr ()" and "t \<le> t1" and "t1 + 1000 \<le> t + 900000"
    and "t + 900000 \<le> t2" and "t2 < t + 900000 + 299000" and "b' \<noteq> b"
    and "extendLock f b 300 t1 (snd (lockSeats f [s] b u t Map.empty)) = (extended, r1)"
    and "lockSeats f [s] b' u' t2 r1 = (res, r2)"
  shows "extended \<and> (\<exists>x. res = Inr x \<and> success x) \<and> holds t2 r2 f b s \<and> holds t2 r2 f b' s"
proof -
  from extended_single [OF assms(1-3,7)]
  obtain e bl where ex: "extended" and e: "t + 900000 + 299000 \<le> e" and bl: "bl_seats bl = [s]"
    and k: "r1 (getBookingKey f b) = Some (BookVal bl, Some e)"
      "r1 (getSeatKey f s) = Some (seat_entry f b u t s, Some e)"
      "r1 (getBookingKey f b') = None"
    using assms(6) by blast
  have free: "redis_get t2 r1 (getBookingKey f b') = None" using k(3) by (simp add: redis_get_def)
  have ok: "\<not> seat_taken f b' t2 r1 s"
    using k(2) assms(4) by (simp add: seat_taken_def redis_get_def seat_entry_def)
  note one = lockSeats_one [OF assms(1) free ok, of u', unfolded assms(8), simplified]
  have "holds t2 r2 f b s" "holds t2 r2 f b' s"
    using k(1) bl e assms(5,6) unfolding one(1)
    by (simp_all add: holds_def booking_seats_def redis_get_def)
  with ex one(2) show ?thesis by blast
qed

theorem extended_lock_stolen_witness:
  "\<exists>r1 r2 x. extendLock 7 ''b1'' 300 600000 (snd (lockSeats 7 [''12A''] ''b1'' 1 0 Map.empty)) = (True, r1) \<and>
     lockSeats 7 [''12A''] ''b2'' 2 900001 r1 = (Inr x, r2) \<and> success x \<and>
     holds 900001 r2 7 ''b1'' ''12A'' \<and> holds 900001 r2 7 ''b2'' ''12A''"
proof -
  obtain ex r1 where 1: "extendLock 7 ''b1'' 300 600000 (snd (lockSeats 7 [''12A''] ''b1'' 1 0 Map.empty)) = (ex, r1)"
    by fastforce
  obtain res r2 where 2: "lockSeats 7 [''12A''] ''b2'' 2 900001 r1 = (res, r2)" by fastforce
  show ?thesis
    using extended_lock_stolen [OF validate_12A _ _ _ _ _ 1 2] 1 2 by auto
qed

text \<open>Seat numbers are validated after trimming and upper-casing, but locked as they were sent:
  two spellings of one seat have different keys, so two bookings both lock it.\<close>

theorem seat_spelling_double_lock:
  assumes "to_upper (trim s) = to_upper (trim s')" and "s \<noteq> s'" and "b \<noteq> b'"
    and "validateSeatsExist [s] = Inr ()"
    and "lockSeats f [s] b u t Map.empty = (res, r)" and "lockSeats f [s'] b' u' t r = (res', r')"
  shows "(\<exists>x y. res = Inr x \<and> res' = Inr y \<and> success x \<and> success y) \<and>
     holds t r' f b s \<and> holds t r' f b' s'"
proof -
  have val': "validateSeatsExist [s'] = Inr ()"
    using assms(1,4) by (simp add: validate_iff)
  note one = lockSeats_one [OF assms(4), of t Map.empty f b u, unfolded assms(5),
      simplified redis_get_def seat_taken_def, simplified]
  have free: "redis_get t r (getBookingKey f b') = None" and ok: "\<not> seat_taken f b' t r s'"
    using assms(2,3) unfolding one(1) by (simp_all add: redis_get_def seat_taken_def)
  note two = lockSeats_one [OF val' free ok, of u', unfolded assms(6), simplified]
  have "holds t r' f b s" "holds t r' f b' s'"
    using assms(2,3) unfolding two(1) one(1)
    by (simp_all add: holds_def booking_seats_def redis_get_def)
  with one(2) two(2) show ?thesis by blast
qed

theorem seat_spelling_double_lock_witness:
  "\<exists>x y r r'. lockSeats 7 [''12A''] ''b1'' 1 0 Map.empty = (Inr x, r) \<and>
     lockSeats 7 [''12a''] ''b2'' 2 0 r = (Inr y, r') \<and> success x \<and> success y \<and>
     holds 0 r' 7 ''b1'' ''12A'' \<and> holds 0 r' 7 ''b2'' ''12a''"
proof -
  obtain res r where 1: "lockSeats 7 [''12A''] ''b1'' 1 0 Map.empty = (res, r)" by fastforce
  obtain res' r' where 2: "lockSeats 7 [''12a''] ''b2'' 2 0 r = (res', r')" by fastforce
  have same: "to_upper (trim ''12A'') = to_upper (trim ''12a'')"
    by code_simp
  show ?thesis
    using seat_spelling_double_lock [OF same _ _ validate_12A 1 2] 1 2 by auto
qed

end
