(* ===== verification/RateLimiter.thy ===== *)
theory RateLimiter
  imports Redis
begin

text \<open>
  The rate limiter library (libs/rate-limiter/src): a sliding window log per key, kept as a Redis
  sorted set of the admission times, and a block key that is set when the window is full. The
  service answers; the guard turns a negative answer into status 429.
\<close>

text \<open>
  Sorted sets hold members with a score; \<open>zset\<close> is that set as a list, last added first, without
  a repeated member. A block key holds the time at which the block ends.
\<close>

datatype rl_val = ZSet "(int \<times> string) list" | BlockedUntil int

record RateLimitConfig =
  points :: int
  duration :: int
  blockDuration :: "int option"
  keyPrefix :: "string option"

record RateLimitInfo =
  limit :: int
  remaining :: int
  reset_at :: int
  retryAfter :: "int option"

record RateLimitResult =
  allowed :: bool
  info :: RateLimitInfo

text \<open>
  \<open>luaRandom\<close> gives what \<open>math.random()\<close> returns in the n-th run of the script. Redis seeds the generator
  anew for every script, so it is a constant there; no theorem assumes that two results differ.
\<close>

record rl_world = env +
  rl_store :: "rl_val redis"
  luaRandom :: "nat \<Rightarrow> string"
  luaRuns :: nat
  defaultConfig :: RateLimitConfig

definition finalConfig :: "rl_world \<Rightarrow> RateLimitConfig option \<Rightarrow> RateLimitConfig" where
  "finalConfig w config =
     (case config of None \<Rightarrow> defaultConfig w
      | Some c \<Rightarrow> c\<lparr>blockDuration := (case blockDuration c of None \<Rightarrow> blockDuration (defaultConfig w) | Some b \<Rightarrow> Some b),
                    keyPrefix := (case keyPrefix c of None \<Rightarrow> keyPrefix (defaultConfig w) | Some p \<Rightarrow> Some p)\<rparr>)"

definition redisKey :: "RateLimitConfig \<Rightarrow> string \<Rightarrow> string" where
  "redisKey c key = (case keyPrefix c of None \<Rightarrow> ''undefined'' | Some p \<Rightarrow> p) @ '':'' @ key"

definition blockKey :: "RateLimitConfig \<Rightarrow> string \<Rightarrow> string" where
  "blockKey c key = redisKey c key @ '':blocked''"

definition blockSeconds :: "RateLimitConfig \<Rightarrow> int" where
  "blockSeconds c = (case blockDuration c of None \<Rightarrow> duration c | Some b \<Rightarrow> or_int b (duration c))"

definition resetTime :: "RateLimitConfig \<Rightarrow> int \<Rightarrow> int" where
  "resetTime c t = (t + duration c * 1000) div 1000"

definition wrongType :: exn where
  "wrongType = JsError ''WRONGTYPE Operation against a key holding the wrong kind of value''"

subsection \<open>Commands\<close>

text \<open>Each command is one call that may fail; a command on a key of the other kind is an error.\<close>

definition cmd_get :: "string \<Rightarrow> (rl_world, int option) prog" where
  "cmd_get k = andThen external (\<lambda>_ w.
     case redis_get (now w) (rl_store w) k of
       None \<Rightarrow> (Inr None, w)
     | Some (BlockedUntil b) \<Rightarrow> (Inr (Some b), w)
     | Some (ZSet z) \<Rightarrow> (Inl wrongType, w))"

definition cmd_del :: "string list \<Rightarrow> (rl_world, int) prog" where
  "cmd_del ks = andThen external (\<lambda>_ w.
     (Inr (int (length (filter (\<lambda>k. redis_get (now w) (rl_store w) k \<noteq> None) (js_set ks)))),
      w\<lparr>rl_store := fold redis_del ks (rl_store w)\<rparr>))"

definition cmd_setex :: "string \<Rightarrow> int \<Rightarrow> int \<Rightarrow> (rl_world, unit) prog" where
  "cmd_setex k secs b = andThen external (\<lambda>_ w.
     if secs \<le> 0 then (Inl (JsError ''ERR invalid expire time in setex command''), w)
     else (Inr (), w\<lparr>rl_store := redis_setex (now w) k secs (BlockedUntil b) (rl_store w)\<rparr>))"

text \<open>\<open>ZREMRANGEBYSCORE k 0 maxScore\<close> and \<open>ZCARD k\<close>; an emptied sorted set is removed.\<close>

definition zset_at :: "int \<Rightarrow> rl_val redis \<Rightarrow> string \<Rightarrow> exn + (int \<times> string) list" where
  "zset_at t r k =
     (case redis_get t r k of
        None \<Rightarrow> Inr []
      | Some (ZSet z) \<Rightarrow> Inr z
      | Some (BlockedUntil _) \<Rightarrow> Inl wrongType)"

definition zset_put :: "string \<Rightarrow> (int \<times> string) list \<Rightarrow> rl_val redis \<Rightarrow> rl_val redis" where
  "zset_put k z r =
     (if z = [] then r(k := None)
      else r(k \<mapsto> (ZSet z, case r k of None \<Rightarrow> None | Some (_, e) \<Rightarrow> e)))"

definition zset_prune :: "int \<Rightarrow> (int \<times> string) list \<Rightarrow> (int \<times> string) list" where
  "zset_prune maxScore z = filter (\<lambda>(s, _). \<not> (0 \<le> s \<and> s \<le> maxScore)) z"

definition zset_add :: "int \<Rightarrow> string \<Rightarrow> (int \<times> string) list \<Rightarrow> (int \<times> string) list" where
  "zset_add s m z = (s, m) # filter (\<lambda>(_, m'). m' \<noteq> m) z"

text \<open>The Lua script, one atomic step: admitted or not, and the count it reports.\<close>

definition consume_script :: "string \<Rightarrow> int \<Rightarrow> int \<Rightarrow> int \<Rightarrow> int \<Rightarrow> (rl_world, bool \<times> int) prog" where
  "consume_script key t window_start max_entries ttl = andThen external (\<lambda>_ w.
     case zset_at (now w) (rl_store w) key of
       Inl e \<Rightarrow> (Inl e, w)
     | Inr z \<Rightarrow>
         let z1 = zset_prune window_start z;
             current = int (length z1);
             w1 = w\<lparr>rl_store := (if z = [] then (rl_store w)(key := None) else zset_put key z1 (rl_store w)),
                    luaRuns := Suc (luaRuns w)\<rparr>
         in if current < max_entries
            then (Inr (True, current + 1),
                  w1\<lparr>rl_store := (rl_store w1)(key \<mapsto>
                       (ZSet (zset_add t (show_int t @ '':'' @ luaRandom w (luaRuns w)) z1),
                        Some (now w + ttl * 1000)))\<rparr>)
            else (Inr (False, current), w1))"

subsection \<open>The service\<close>

definition consume_body :: "string \<Rightarrow> RateLimitConfig \<Rightarrow> int \<Rightarrow> (rl_world, RateLimitResult) prog" where
  "consume_body key c t =
     andThen (cmd_get (blockKey c key)) (\<lambda>blockedUntil.
       if (case blockedUntil of Some b \<Rightarrow> t < b | None \<Rightarrow> False)
       then ret \<lparr>allowed = False,
              info = \<lparr>limit = points c, remaining = 0, reset_at = the blockedUntil div 1000,
                      retryAfter = Some ((the blockedUntil - t + 999) div 1000)\<rparr>\<rparr>
       else andThen (if blockedUntil = None then ret 0 else cmd_del [blockKey c key]) (\<lambda>_.
         andThen (consume_script (redisKey c key) t (t - duration c * 1000) (points c) (duration c + 1))
           (\<lambda>(ok, current).
              if \<not> ok
              then andThen (cmd_setex (blockKey c key) (blockSeconds c) (t + blockSeconds c * 1000)) (\<lambda>_.
                ret \<lparr>allowed = False,
                     info = \<lparr>limit = points c, remaining = 0, reset_at = resetTime c t,
                             retryAfter = Some (blockSeconds c)\<rparr>\<rparr>)
              else ret \<lparr>allowed = True,
                     info = \<lparr>limit = points c, remaining = max 0 (points c - current),
                             reset_at = resetTime c t, retryAfter = None\<rparr>\<rparr>)))"

definition consume :: "string \<Rightarrow> RateLimitConfig option \<Rightarrow> (rl_world, RateLimitResult) prog" where
  "consume key config w =
     (let c = finalConfig w config; t = now w
      in tryCatch (consume_body key c t)
           (\<lambda>_. ret \<lparr>allowed = True,
                     info = \<lparr>limit = points c, remaining = points c, reset_at = resetTime c t,
                             retryAfter = None\<rparr>\<rparr>) w)"

definition zremrange :: "string \<Rightarrow> int \<Rightarrow> (rl_world, unit) prog" where
  "zremrange k maxScore = andThen external (\<lambda>_ w.
     case zset_at (now w) (rl_store w) k of
       Inl e \<Rightarrow> (Inl e, w)
     | Inr z \<Rightarrow> (Inr (), w\<lparr>rl_store := (if z = [] then (rl_store w)(k := None)
                                         else zset_put k (zset_prune maxScore z) (rl_store w))\<rparr>))"

definition zcard :: "string \<Rightarrow> (rl_world, int) prog" where
  "zcard k = andThen external (\<lambda>_ w.
     case zset_at (now w) (rl_store w) k of Inl e \<Rightarrow> (Inl e, w) | Inr z \<Rightarrow> (Inr (int (length z)), w))"

definition getStatus :: "string \<Rightarrow> RateLimitConfig option \<Rightarrow> (rl_world, RateLimitInfo) prog" where
  "getStatus key config w =
     (let c = finalConfig w config; t = now w;
          answer = (\<lambda>left. \<lparr>limit = points c, remaining = left, reset_at = resetTime c t, retryAfter = None\<rparr>)
      in tryCatch
           (andThen (zremrange (redisKey c key) (t - duration c * 1000)) (\<lambda>_.
             andThen (zcard (redisKey c key)) (\<lambda>current. ret (answer (max 0 (points c - current))))))
           (\<lambda>_. ret (answer (points c))) w)"

text \<open>\<open>Promise.all\<close>: both deletions are issued, whatever becomes of the first.\<close>

definition reset_key :: "string \<Rightarrow> RateLimitConfig option \<Rightarrow> (rl_world, unit) prog" where
  "reset_key key config w =
     (let c = finalConfig w config;
          w1 = snd (cmd_del [redisKey c key] w)
      in (Inr (), snd (cmd_del [blockKey c key] w1)))"

definition block_for :: "RateLimitConfig \<Rightarrow> int option \<Rightarrow> int" where
  "block_for c durationSeconds =
     (case durationSeconds of None \<Rightarrow> blockSeconds c | Some d \<Rightarrow> or_int d (blockSeconds c))"

definition block :: "string \<Rightarrow> RateLimitConfig option \<Rightarrow> int option \<Rightarrow> (rl_world, unit) prog" where
  "block key config durationSeconds w =
     (let c = finalConfig w config; d = block_for c durationSeconds
      in tryCatch (cmd_setex (blockKey c key) d (now w + d * 1000)) (\<lambda>_. ret ()) w)"

definition unblock :: "string \<Rightarrow> RateLimitConfig option \<Rightarrow> (rl_world, unit) prog" where
  "unblock key config w =
     (let c = finalConfig w config
      in tryCatch (andThen (cmd_del [blockKey c key]) (\<lambda>_. ret ())) (\<lambda>_. ret ()) w)"

text \<open>
  \<open>keysReply pattern\<close> is what the server answers to \<open>KEYS pattern\<close> in the current state.
\<close>

definition getAllKeys :: "(string \<Rightarrow> rl_val redis \<Rightarrow> string list) \<Rightarrow> string option \<Rightarrow> (rl_world, string list) prog" where
  "getAllKeys keysReply prefix w =
     (let pattern = or_str prefix (case keyPrefix (defaultConfig w) of None \<Rightarrow> ''undefined'' | Some p \<Rightarrow> p) @ '':*''
      in tryCatch (andThen external (\<lambda>_ w'. (Inr (keysReply pattern (rl_store w')), w'))) (\<lambda>_. ret []) w)"

definition deletePattern :: "(string \<Rightarrow> rl_val redis \<Rightarrow> string list) \<Rightarrow> string \<Rightarrow> (rl_world, int) prog" where
  "deletePattern keysReply pattern =
     tryCatch
       (andThen (andThen external (\<lambda>_ w'. (Inr (keysReply pattern (rl_store w')), w'))) (\<lambda>ks.
          if ks = [] then ret 0 else cmd_del ks))
       (\<lambda>_. ret 0)"

subsection \<open>The guard\<close>

record http_request =
  rq_userId :: "int option"
  rq_apiKey :: "string option"
  rq_forwardedFor :: "string option"
  rq_realIp :: "string option"
  rq_ip :: "string option"
  rq_remoteAddress :: "string option"
  rq_method :: string
  rq_routePath :: "string option"
  rq_url :: string

definition extractIp :: "http_request \<Rightarrow> string" where
  "extractIp q =
     (if truthy (rq_forwardedFor q) then trim (hd (split_on CHR '','' (the (rq_forwardedFor q))))
      else if truthy (rq_realIp q) then the (rq_realIp q)
      else or_str (or_opt (rq_ip q) (rq_remoteAddress q)) ''unknown'')"

definition generateKey :: "http_request \<Rightarrow> string" where
  "generateKey q =
     (let (identifierType, identifier) =
            (if (case rq_userId q of Some i \<Rightarrow> i \<noteq> 0 | None \<Rightarrow> False) then (''user'', show_int (the (rq_userId q)))
             else if truthy (rq_apiKey q) then (''api'', the (rq_apiKey q))
             else (''ip'', extractIp q));
          path = or_str (rq_routePath q) (hd (split_on CHR ''?'' (rq_url q)));
          route = rq_method q @ '':'' @ path
      in identifierType @ '':'' @ identifier @ '':'' @ route)"

text \<open>
  \<open>canActivate\<close> returns the response headers it has set together with its verdict; a refusal is
  the exception with status 429.
\<close>

definition rate_headers :: "RateLimitInfo \<Rightarrow> (string \<times> string) list" where
  "rate_headers i =
     [(''X-RateLimit-Limit'', show_int (limit i)), (''X-RateLimit-Remaining'', show_int (remaining i)),
      (''X-RateLimit-Reset'', show_int (reset_at i))]"

definition tooManyRequests :: exn where
  "tooManyRequests = HttpExn 429 ''Too many requests, please try again later'' (Some ''Rate Limit Exceeded'')"

definition canActivate ::
  "bool \<Rightarrow> RateLimitConfig option \<Rightarrow> http_request
     \<Rightarrow> rl_world \<Rightarrow> (exn + bool) \<times> (string \<times> string) list \<times> rl_world" where
  "canActivate skipRateLimit config q w =
     (if skipRateLimit then (Inr True, [], w)
      else case config of
        None \<Rightarrow> (Inr True, [], w)
      | Some c \<Rightarrow>
          (case consume (generateKey q) (Some c) w of
             (Inl e, w') \<Rightarrow> (Inl e, [], w')
           | (Inr result, w') \<Rightarrow>
               if allowed result then (Inr True, rate_headers (info result), w')
               else (Inl tooManyRequests,
                     rate_headers (info result) @
                       (case retryAfter (info result) of
                          Some n \<Rightarrow> (if n \<noteq> 0 then [(''Retry-After'', show_int n)] else [])
                        | None \<Rightarrow> []),
                     w')))"

lemma finalConfig_same:
  assumes "defaultConfig w' = defaultConfig w"
  shows "finalConfig w' cfg = finalConfig w cfg"
  unfolding finalConfig_def assms ..

subsection \<open>Keys\<close>

definition plain_key :: "string \<Rightarrow> bool" where
  "plain_key k \<longleftrightarrow> drop (length k - 8) k \<noteq> '':blocked''"

lemma redisKey_inject [simp]: "redisKey c k = redisKey c k' \<longleftrightarrow> k = k'"
  by (simp add: redisKey_def)

lemma blockKey_inject [simp]: "blockKey c k = blockKey c k' \<longleftrightarrow> k = k'"
  by (simp add: blockKey_def)

lemma plain_key_not_block: "plain_key k \<Longrightarrow> redisKey c k \<noteq> blockKey c k'"
proof
  assume "plain_key k" and "redisKey c k = blockKey c k'"
  then have "k = k' @ '':blocked''" by (auto simp: redisKey_def blockKey_def)
  with \<open>plain_key k\<close> show False by (simp add: plain_key_def)
qed

subsection \<open>The sorted set\<close>

lemma zset_add_fresh: "(\<forall>(s', m')\<in>set z. m' \<noteq> m) \<Longrightarrow> zset_add s m z = (s, m) # z"
  by (auto simp: zset_add_def intro: filter_True)

lemma set_zset_prune: "set (zset_prune x z) \<subseteq> set z"
  by (auto simp: zset_prune_def)

text \<open>Pruning up to \<open>x\<close> keeps what is younger than any \<open>y\<close> not before \<open>x\<close>.\<close>

lemma prune_recent:
  "x \<le> y \<Longrightarrow> filter (\<lambda>t. y < t) (map fst (zset_prune x z)) = filter (\<lambda>t. y < t) (map fst z)"
  by (induction z) (auto simp: zset_prune_def)

lemma prune_nonneg:
  "(\<forall>(s, m)\<in>set z. 0 \<le> s) \<Longrightarrow> map fst (zset_prune x z) = filter (\<lambda>t. x < t) (map fst z)"
  by (induction z) (auto simp: zset_prune_def)

subsection \<open>Running the service without faults\<close>

lemma cmd_get_ok:
  "faults w = [] \<Longrightarrow> cmd_get k w =
     (case redis_get (now w) (rl_store w) k of
        None \<Rightarrow> (Inr None, w) | Some (BlockedUntil b) \<Rightarrow> (Inr (Some b), w) | Some (ZSet z) \<Rightarrow> (Inl wrongType, w))"
  by (simp add: cmd_get_def andThen_def)

lemma cmd_del_ok:
  "faults w = [] \<Longrightarrow> snd (cmd_del ks w) = w\<lparr>rl_store := fold redis_del ks (rl_store w)\<rparr>"
  "faults w = [] \<Longrightarrow> \<exists>n. fst (cmd_del ks w) = Inr n"
  by (simp_all add: cmd_del_def andThen_def)

lemma cmd_setex_ok:
  "faults w = [] \<Longrightarrow> 0 < s \<Longrightarrow>
   cmd_setex k s b w = (Inr (), w\<lparr>rl_store := redis_setex (now w) k s (BlockedUntil b) (rl_store w)\<rparr>)"
  by (simp add: cmd_setex_def andThen_def)

text \<open>A request while the block key is live and its time has not come is refused, and nothing changes.\<close>

lemma consume_blocked:
  assumes "faults w = []" "redis_get (now w) (rl_store w) (blockKey (finalConfig w cfg) k) = Some (BlockedUntil b)"
    "now w < b"
  shows "consume k cfg w = (Inr \<lparr>allowed = False,
     info = \<lparr>limit = points (finalConfig w cfg), remaining = 0, reset_at = b div 1000,
             retryAfter = Some ((b - now w + 999) div 1000)\<rparr>\<rparr>, w)"
  using assms by (simp add: consume_def consume_body_def Let_def tryCatch_def andThen_def cmd_get_ok ret_def)

text \<open>A call never throws; when the first command fails the request is let through.\<close>

lemma consume_total: "\<exists>res w'. consume k cfg w = (Inr res, w')"
  by (auto simp: consume_def Let_def tryCatch_def ret_def split: prod.splits sum.splits)

lemma consume_fail_open:
  assumes "faults w = True # fs"
  shows "consume k cfg w = (Inr \<lparr>allowed = True,
     info = \<lparr>limit = points (finalConfig w cfg), remaining = points (finalConfig w cfg),
             reset_at = resetTime (finalConfig w cfg) (now w), retryAfter = None\<rparr>\<rparr>, w\<lparr>faults := fs\<rparr>)"
  using assms
  by (simp add: consume_def consume_body_def Let_def tryCatch_def andThen_def cmd_get_def external_def ret_def)

text \<open>
  The remaining case: the block key is absent or its time has come. First the script alone, then the
  whole call: \<open>z\<close> is the sorted set, and the store after the call is given for every plain key.
\<close>

lemma consume_script_ok:
  assumes "faults w = []" "zset_at (now w) (rl_store w) key = Inr z" "z1 = zset_prune ws z"
  shows "consume_script key t ws n ttl w =
    (Inr (int (length z1) < n, int (length z1) + (if int (length z1) < n then 1 else 0)),
     w\<lparr>luaRuns := Suc (luaRuns w),
       rl_store := (rl_store w)(key :=
         (if int (length z1) < n
          then Some (ZSet (zset_add t (show_int t @ '':'' @ luaRandom w (luaRuns w)) z1), Some (now w + ttl * 1000))
          else if z1 = [] then None
          else Some (ZSet z1, case rl_store w key of None \<Rightarrow> None | Some (_, e) \<Rightarrow> e)))\<rparr>)"
  using assms
  by (auto simp: consume_script_def andThen_def Let_def zset_put_def zset_prune_def)

lemma consume_open:
  assumes f: "faults w = []" and p: "plain_key k" and c: "c = finalConfig w cfg"
    and bs: "0 < blockSeconds c"
    and b: "\<forall>v. redis_get (now w) (rl_store w) (blockKey c k) = Some v \<longrightarrow> (\<exists>x. v = BlockedUntil x \<and> x \<le> now w)"
    and z: "zset_at (now w) (rl_store w) (redisKey c k) = Inr z"
    and z1: "z1 = zset_prune (now w - duration c * 1000) z"
  obtains res w' where "consume k cfg w = (Inr res, w')" "allowed res = (int (length z1) < points c)"
    "now w' = now w" "faults w' = []" "luaRandom w' = luaRandom w" "luaRuns w' = Suc (luaRuns w)"
    "defaultConfig w' = defaultConfig w"
    "\<forall>k'. k' \<noteq> redisKey c k \<longrightarrow> k' \<noteq> blockKey c k \<longrightarrow> rl_store w' k' = rl_store w k'"
    "\<forall>v e. rl_store w' (blockKey c k) = Some (v, e) \<longrightarrow> rl_store w (blockKey c k) = Some (v, e) \<or> (\<exists>x. v = BlockedUntil x)"
    "int (length z1) < points c \<longrightarrow> rl_store w (blockKey c k) = None \<longrightarrow> rl_store w' (blockKey c k) = None"
    "rl_store w' (redisKey c k) =
       (if int (length z1) < points c
        then Some (ZSet (zset_add (now w) (show_int (now w) @ '':'' @ luaRandom w (luaRuns w)) z1),
                   Some (now w + (duration c + 1) * 1000))
        else if z1 = [] then None
        else Some (ZSet z1, case rl_store w (redisKey c k) of None \<Rightarrow> None | Some (_, e) \<Rightarrow> e))"
proof -
  let ?bk = "blockKey c k" and ?rk = "redisKey c k"
  have ne: "?rk \<noteq> ?bk" using plain_key_not_block [OF p] .
  define bu where "bu = (case redis_get (now w) (rl_store w) ?bk of Some (BlockedUntil x) \<Rightarrow> Some x | _ \<Rightarrow> None)"
  have get: "cmd_get ?bk w = (Inr bu, w)" and late: "\<not> (case bu of Some x \<Rightarrow> now w < x | None \<Rightarrow> False)"
    using b by (auto simp: cmd_get_ok [OF f] bu_def split: option.splits rl_val.splits)
  define w0 where "w0 = snd ((if bu = None then ret 0 else cmd_del [?bk]) w)"
  have w0: "(\<exists>n. (if bu = None then ret 0 else cmd_del [?bk]) w = (Inr n, w0))"
    and w0_eq: "w0 = w \<or> w0 = w\<lparr>rl_store := (rl_store w)(?bk := None)\<rparr>"
    using cmd_del_ok [OF f, of "[?bk]"] by (auto simp: w0_def ret_def redis_del_def prod_eq_iff)
  then obtain n0 where n0: "(if bu = None then ret 0 else cmd_del [?bk]) w = (Inr n0, w0)" by blast
  have f0: "faults w0 = []" and now0: "now w0 = now w" and rk0: "rl_store w0 ?rk = rl_store w ?rk"
    using w0_eq f ne by auto
  have z0: "zset_at (now w0) (rl_store w0) ?rk = Inr z"
    using z unfolding zset_at_def redis_get_def now0 rk0 .
  note sc = consume_script_ok [OF f0 z0]
  show ?thesis
  proof (cases "int (length z1) < points c")
    case True
    show ?thesis
      using w0_eq f True ne z1
      by (intro that [OF _, of _ "snd (consume_script ?rk (now w) (now w - duration c * 1000) (points c) (duration c + 1) w0)"])
        (auto simp: consume_def consume_body_def Let_def tryCatch_def andThen_def get late n0 sc ret_def c [symmetric])
  next
    case False
    let ?w1 = "snd (consume_script ?rk (now w) (now w - duration c * 1000) (points c) (duration c + 1) w0)"
    have f1: "faults ?w1 = []" using f0 by (simp add: sc)
    show ?thesis
      using w0_eq f False ne z1 cmd_setex_ok [OF f1 bs]
      by (intro that [OF _, of _ "?w1\<lparr>rl_store := redis_setex (now w) ?bk (blockSeconds c)
             (BlockedUntil (now w + blockSeconds c * 1000)) (rl_store ?w1)\<rparr>"])
        (auto simp: consume_def consume_body_def Let_def tryCatch_def andThen_def get late n0 sc ret_def
           c [symmetric] redis_setex_def)
  qed
qed

subsection \<open>The sliding window\<close>

text \<open>
  What a key's sorted set says about the times at which the key was admitted: those inside the
  current window are exactly the recorded ones, and the key outlives them. No window of the key's
  history holds more than the allowed number.
\<close>

definition recent :: "RateLimitConfig \<Rightarrow> int \<Rightarrow> int set \<Rightarrow> int set" where
  "recent c t ts = {x\<in>ts. t - duration c * 1000 < x}"

definition window :: "RateLimitConfig \<Rightarrow> int \<Rightarrow> int set \<Rightarrow> int set" where
  "window c u ts = {x\<in>ts. u - duration c * 1000 < x \<and> x \<le> u}"

definition members_ok :: "(int \<times> string) list \<Rightarrow> bool" where
  "members_ok z \<longleftrightarrow> (\<forall>(s, m)\<in>set z. 0 \<le> s \<and> (\<exists>r. m = show_int s @ '':'' @ r))"

definition bucket_ok ::
  "RateLimitConfig \<Rightarrow> int \<Rightarrow> (rl_val \<times> int option) option \<Rightarrow> int set \<Rightarrow> bool" where
  "bucket_ok c t entry ts \<longleftrightarrow>
     finite ts \<and> (\<forall>x\<in>ts. x \<le> t) \<and> (\<forall>u. int (card (window c u ts)) \<le> max 0 (points c)) \<and>
     (case entry of
        None \<Rightarrow> recent c t ts = {}
      | Some (ZSet z, Some e) \<Rightarrow>
          (t < e \<longrightarrow> recent c t ts = recent c t (set (map fst z))) \<and>
          (\<forall>x\<in>ts. x + duration c * 1000 + 1000 \<le> e) \<and>
          members_ok z
      | _ \<Rightarrow> False)"

lemma recent_recent: "t \<le> t' \<Longrightarrow> recent c t' (recent c t ts) = recent c t' ts"
  by (auto simp: recent_def)

lemma recent_later: "t \<le> t' \<Longrightarrow> recent c t xs = recent c t ys \<Longrightarrow> recent c t' xs = recent c t' ys"
  by (metis recent_recent)

lemma recent_empty [simp]: "recent c t {} = {}"
  by (simp add: recent_def)

lemma members_prune: "members_ok z \<Longrightarrow> members_ok (zset_prune x z)"
  by (auto simp: members_ok_def zset_prune_def)

text \<open>A member names its score, so adding one never loses a time.\<close>

lemma zset_add_times:
  assumes "members_ok z"
  shows "set (map fst (zset_add s (show_int s @ '':'' @ r) z)) = insert s (set (map fst z))"
    and "0 \<le> s \<Longrightarrow> members_ok (zset_add s (show_int s @ '':'' @ r) z)"
proof -
  have colon: "CHR '':'' \<notin> set (show_int i)" for i
    by (auto dest!: show_int_chars simp: is_digit_def)
  have "fst x = s" if "x \<in> set z" "snd x = show_int s @ '':'' @ r" for x
    using assms that append_sep_eq [OF colon colon] by (fastforce simp: members_ok_def)
  then show "set (map fst (zset_add s (show_int s @ '':'' @ r) z)) = insert s (set (map fst z))"
    by (fastforce simp: zset_add_def image_iff)
  show "0 \<le> s \<Longrightarrow> members_ok (zset_add s (show_int s @ '':'' @ r) z)"
    using assms by (auto simp: members_ok_def zset_add_def)
qed

lemma bucket_cases:
  assumes "bucket_ok c t en ts"
  obtains "en = None" "recent c t ts = {}"
  | z e where "en = Some (ZSet z, Some e)" "t < e \<longrightarrow> recent c t ts = recent c t (set (map fst z))"
      "\<forall>x\<in>ts. x + duration c * 1000 + 1000 \<le> e" "members_ok z"
  using assms by (auto simp: bucket_ok_def split: option.splits prod.splits rl_val.splits)

lemma bucket_tick:
  assumes "bucket_ok c t en ts" "t \<le> t'"
  shows "bucket_ok c t' en ts"
proof -
  have base: "finite ts" "\<forall>x\<in>ts. x \<le> t'" "\<forall>u. int (card (window c u ts)) \<le> max 0 (points c)"
    using assms by (auto simp: bucket_ok_def)
  from assms(1) show ?thesis
  proof (cases rule: bucket_cases)
    case 1
    then show ?thesis using base recent_later [OF assms(2), of c ts "{}"] by (simp add: bucket_ok_def)
  next
    case (2 z e)
    then show ?thesis
      using base recent_later [OF assms(2), of c ts "set (map fst z)"] assms(2)
      by (auto simp: bucket_ok_def)
  qed
qed

text \<open>What the script sees: a list of entries whose recent times are the recent admissions.\<close>

lemma bucket_zset:
  assumes "bucket_ok c (now w) (rl_store w k) ts"
  obtains z where "zset_at (now w) (rl_store w) k = Inr z"
    "recent c (now w) ts = set (map fst (zset_prune (now w - duration c * 1000) z))" "members_ok z"
  using assms
proof (cases rule: bucket_cases)
  case 1
  with that [of "[]"] show ?thesis
    by (simp add: zset_at_def redis_get_def zset_prune_def members_ok_def)
next
  case (2 z e)
  show ?thesis
  proof (cases "now w < e")
    case True
    have "\<forall>(s, m)\<in>set z. 0 \<le> s" using 2(4) by (auto simp: members_ok_def)
    from prune_nonneg [OF this, of "now w - duration c * 1000"]
    have "set (map fst (zset_prune (now w - duration c * 1000) z)) = recent c (now w) (set (map fst z))"
      unfolding recent_def by simp
    with 2 True that [of z] show ?thesis by (simp add: zset_at_def redis_get_def)
  next
    case False
    with 2(3) have "recent c (now w) ts = {}" by (fastforce simp: recent_def)
    with False 2(1) that [of "[]"] show ?thesis
      by (simp add: zset_at_def redis_get_def zset_prune_def members_ok_def)
  qed
qed

lemma window_insert:
  assumes "finite ts" "\<forall>u. int (card (window c u ts)) \<le> max 0 n" "int (card (recent c t ts)) < n"
  shows "int (card (window c u (insert t ts))) \<le> max 0 n"
proof (cases "t \<le> u \<and> u - duration c * 1000 < t")
  case True
  have "finite (recent c t ts)" using assms(1) by (simp add: recent_def)
  moreover have "window c u (insert t ts) \<subseteq> insert t (recent c t ts)"
    using True by (auto simp: window_def recent_def)
  ultimately have "card (window c u (insert t ts)) \<le> card (insert t (recent c t ts))"
    by (intro card_mono) simp_all
  also have "\<dots> \<le> Suc (card (recent c t ts))"
    using \<open>finite (recent c t ts)\<close> by (simp add: card_insert_if)
  finally show ?thesis using assms(3) by simp
next
  case False
  then have "window c u (insert t ts) = window c u ts" by (auto simp: window_def)
  with assms(2) show ?thesis by simp
qed

subsection \<open>Requests in sequence\<close>

text \<open>
  Any number of callers use the service with one configuration: requests and status queries, manual
  blocks and unblocks, and time passing. The second component of the state records every admission,
  the key and the time, newest first.
\<close>

datatype rl_op =
  RConsume string | RStatus string | RBlock string "int option" | RUnblock string | RTick nat

fun rl_exec :: "RateLimitConfig option \<Rightarrow> rl_world \<times> (string \<times> int) list \<Rightarrow> rl_op \<Rightarrow> rl_world \<times> (string \<times> int) list" where
  "rl_exec cfg (w, adm) (RConsume k) =
     (case consume k cfg w of
        (Inr res, w') \<Rightarrow> (w', if allowed res then (k, now w) # adm else adm)
      | (Inl e, w') \<Rightarrow> (w', adm))"
| "rl_exec cfg (w, adm) (RStatus k) = (snd (getStatus k cfg w), adm)"
| "rl_exec cfg (w, adm) (RBlock k d) = (snd (block k cfg d w), adm)"
| "rl_exec cfg (w, adm) (RUnblock k) = (snd (unblock k cfg w), adm)"
| "rl_exec cfg (w, adm) (RTick d) = (w\<lparr>now := now w + int d\<rparr>, adm)"

text \<open>A key that ends in \<open>:blocked\<close> would share a Redis key with another key's block.\<close>

fun rl_key_ok :: "rl_op \<Rightarrow> bool" where
  "rl_key_ok (RConsume k) = plain_key k"
| "rl_key_ok (RStatus k) = plain_key k"
| "rl_key_ok _ = True"

definition adm_times :: "string \<Rightarrow> (string \<times> int) list \<Rightarrow> int set" where
  "adm_times k adm = {t. (k, t) \<in> set adm}"

lemma adm_times_Cons [simp]:
  "adm_times k ((k', t) # adm) = (if k' = k then insert t (adm_times k adm) else adm_times k adm)"
  by (auto simp: adm_times_def)

definition rl_inv :: "RateLimitConfig \<Rightarrow> RateLimitConfig option \<Rightarrow> rl_world \<times> (string \<times> int) list \<Rightarrow> bool" where
  "rl_inv c cfg st \<longleftrightarrow>
     (case st of (w, adm) \<Rightarrow>
        faults w = [] \<and> finalConfig w cfg = c \<and> 0 \<le> now w \<and>
        (\<forall>k v e. rl_store w (blockKey c k) = Some (v, e) \<longrightarrow> (\<exists>x. v = BlockedUntil x)) \<and>
        (\<forall>k. plain_key k \<longrightarrow>
           bucket_ok c (now w) (rl_store w (redisKey c k)) (adm_times k adm)))"

text \<open>The script keeps the bucket of the key it works on.\<close>

lemma bucket_admit:
  assumes b: "bucket_ok c (now w) (rl_store w k) ts" and "0 < duration c" "0 \<le> now w"
    and z: "zset_at (now w) (rl_store w) k = Inr z" and z1: "z1 = zset_prune (now w - duration c * 1000) z"
    and room: "int (length z1) < points c"
  shows "bucket_ok c (now w)
     (Some (ZSet (zset_add (now w) (show_int (now w) @ '':'' @ r) z1), Some (now w + (duration c + 1) * 1000)))
     (insert (now w) ts)"
proof -
  let ?z = "zset_add (now w) (show_int (now w) @ '':'' @ r) z1"
  from bucket_zset [OF b] z z1 have rec: "recent c (now w) ts = set (map fst z1)" and mem: "members_ok z"
    by auto
  have mem1: "members_ok z1" using members_prune [OF mem] z1 by simp
  have old: "finite ts" "\<forall>x\<in>ts. x \<le> now w" "\<forall>u. int (card (window c u ts)) \<le> max 0 (points c)"
    using b by (auto simp: bucket_ok_def)
  have "card (recent c (now w) ts) \<le> length z1" unfolding rec by (metis card_length length_map)
  then have "int (card (recent c (now w) ts)) < points c" using room by simp
  then have win: "int (card (window c u (insert (now w) ts))) \<le> max 0 (points c)" for u
    using old by (intro window_insert) auto
  have "recent c (now w) (insert (now w) ts) = insert (now w) (set (map fst z1))"
    using rec assms(2) by (auto simp: recent_def)
  also have "\<dots> = recent c (now w) (set (map fst ?z))"
    unfolding zset_add_times(1) [OF mem1] rec [symmetric] using assms(2) by (auto simp: recent_def)
  finally have "recent c (now w) (insert (now w) ts) = recent c (now w) (set (map fst ?z))" .
  moreover have "members_ok ?z" using zset_add_times(2) [OF mem1 assms(3)] .
  moreover have "\<forall>x\<in>insert (now w) ts. x + duration c * 1000 + 1000 \<le> now w + (duration c + 1) * 1000"
    using old(2) by auto
  ultimately show ?thesis using old win by (auto simp: bucket_ok_def)
qed

lemma bucket_refuse:
  assumes b: "bucket_ok c (now w) (rl_store w k) ts"
    and z: "zset_at (now w) (rl_store w) k = Inr z" and z1: "z1 = zset_prune (now w - duration c * 1000) z"
  shows "bucket_ok c (now w)
     (if z1 = [] then None else Some (ZSet z1, case rl_store w k of None \<Rightarrow> None | Some (_, e) \<Rightarrow> e)) ts"
proof -
  from bucket_zset [OF b] z z1 have rec: "recent c (now w) ts = set (map fst z1)" and mem: "members_ok z"
    by auto
  have mem1: "members_ok z1" using members_prune [OF mem] z1 by simp
  have rec1: "recent c (now w) (set (map fst z1)) = set (map fst z1)"
    using recent_recent [of "now w" "now w" c ts] rec by simp
  have base: "finite ts" "\<forall>x\<in>ts. x \<le> now w" "\<forall>u. int (card (window c u ts)) \<le> max 0 (points c)"
    using b by (auto simp: bucket_ok_def)
  from b show ?thesis
  proof (cases rule: bucket_cases)
    case 1
    with rec base show ?thesis by (simp add: bucket_ok_def)
  next
    case (2 z0 e)
    with rec rec1 mem1 base show ?thesis by (auto simp: bucket_ok_def)
  qed
qed

lemma rl_inv_consume:
  assumes inv: "rl_inv c cfg (w, adm)" and p: "plain_key k" and pos: "0 < duration c" "0 < blockSeconds c"
  shows "rl_inv c cfg (rl_exec cfg (w, adm) (RConsume k))"
proof (cases "\<exists>b. redis_get (now w) (rl_store w) (blockKey c k) = Some (BlockedUntil b) \<and> now w < b")
  case True
  then obtain b where "redis_get (now w) (rl_store w) (blockKey c k) = Some (BlockedUntil b)" "now w < b"
    by blast
  moreover have "faults w = []" "finalConfig w cfg = c" using inv by (auto simp: rl_inv_def)
  ultimately have "rl_exec cfg (w, adm) (RConsume k) = (w, adm)"
    by (simp add: consume_blocked)
  with inv show ?thesis by simp
next
  case False
  note i = inv [unfolded rl_inv_def, simplified]
  have bl: "\<forall>v. redis_get (now w) (rl_store w) (blockKey c k) = Some v \<longrightarrow> (\<exists>x. v = BlockedUntil x \<and> x \<le> now w)"
  proof (intro allI impI)
    fix v
    assume v: "redis_get (now w) (rl_store w) (blockKey c k) = Some v"
    then obtain x where "v = BlockedUntil x" using i by (fastforce simp: redis_get_Some)
    with v False show "\<exists>x. v = BlockedUntil x \<and> x \<le> now w" by fastforce
  qed
  have bk: "bucket_ok c (now w) (rl_store w (redisKey c k)) (adm_times k adm)"
    using i p by blast
  from bucket_zset [OF bk] obtain z where z: "zset_at (now w) (rl_store w) (redisKey c k) = Inr z" by metis
  let ?z1 = "zset_prune (now w - duration c * 1000) z"
  from i have f: "faults w = []" and c: "c = finalConfig w cfg" by auto
  from consume_open [OF f p c pos(2) bl z refl]
  obtain res w' where r: "consume k cfg w = (Inr res, w')" "allowed res = (int (length ?z1) < points c)"
    "now w' = now w" "faults w' = []" "luaRandom w' = luaRandom w" "luaRuns w' = Suc (luaRuns w)"
    "defaultConfig w' = defaultConfig w"
    and same: "\<forall>k'. k' \<noteq> redisKey c k \<longrightarrow> k' \<noteq> blockKey c k \<longrightarrow> rl_store w' k' = rl_store w k'"
    and blk: "\<forall>v e. rl_store w' (blockKey c k) = Some (v, e) \<longrightarrow>
        rl_store w (blockKey c k) = Some (v, e) \<or> (\<exists>x. v = BlockedUntil x)"
    and "int (length ?z1) < points c \<longrightarrow> rl_store w (blockKey c k) = None \<longrightarrow> rl_store w' (blockKey c k) = None"
    and new: "rl_store w' (redisKey c k) =
       (if int (length ?z1) < points c
        then Some (ZSet (zset_add (now w) (show_int (now w) @ '':'' @ luaRandom w (luaRuns w)) ?z1),
                   Some (now w + (duration c + 1) * 1000))
        else if ?z1 = [] then None
        else Some (ZSet ?z1, case rl_store w (redisKey c k) of None \<Rightarrow> None | Some (_, e) \<Rightarrow> e))" .
  let ?adm = "if allowed res then (k, now w) # adm else adm"
  have cfg: "finalConfig w' cfg = c" using c finalConfig_same [OF r(7)] by simp
  have blocks: "\<forall>k' v e. rl_store w' (blockKey c k') = Some (v, e) \<longrightarrow> (\<exists>x. v = BlockedUntil x)"
  proof (intro allI impI)
    fix k' v e
    assume a: "rl_store w' (blockKey c k') = Some (v, e)"
    show "\<exists>x. v = BlockedUntil x"
    proof (cases "k' = k")
      case True
      with a blk i show ?thesis by blast
    next
      case False
      then have "rl_store w' (blockKey c k') = rl_store w (blockKey c k')"
        using plain_key_not_block [OF p, of c k'] by (intro same [rule_format]) auto
      with a i show ?thesis by auto
    qed
  qed
  have "bucket_ok c (now w) (rl_store w' (redisKey c k')) (adm_times k' ?adm)"
    if p': "plain_key k'" for k'
  proof (cases "k' = k")
    case True
    have "bucket_ok c (now w) (rl_store w' (redisKey c k)) (adm_times k ?adm)"
      using bucket_admit [OF bk pos(1) _ z refl] bucket_refuse [OF bk z refl] i r(2)
      by (simp add: new)
    with True show ?thesis by simp
  next
    case False
    then have "rl_store w' (redisKey c k') = rl_store w (redisKey c k')"
      using plain_key_not_block [OF p', of c k] by (intro same [rule_format]) auto
    with False i p' show ?thesis by (auto intro: bucket_tick)
  qed
  with i r cfg blocks show ?thesis by (simp add: rl_inv_def split del: if_split)
qed

text \<open>The other operations: none of them adds an admission.\<close>

lemma rl_inv_store:
  assumes inv: "rl_inv c cfg (w, adm)" and w': "w' = w\<lparr>rl_store := r\<rparr>"
    and plain: "\<And>k. plain_key k \<Longrightarrow> bucket_ok c (now w) (r (redisKey c k)) (adm_times k adm)"
    and blk: "\<And>k v e. r (blockKey c k) = Some (v, e) \<Longrightarrow> \<exists>x. v = BlockedUntil x"
  shows "rl_inv c cfg (w', adm)"
proof -
  have "finalConfig w' cfg = finalConfig w cfg" by (rule finalConfig_same) (simp add: w')
  with inv plain blk show ?thesis by (auto simp: rl_inv_def w')
qed

lemma rl_inv_same:
  assumes "rl_inv c cfg (w, adm)"
  shows "plain_key k \<Longrightarrow> bucket_ok c (now w) (rl_store w (redisKey c k)) (adm_times k adm)"
    and "rl_store w (blockKey c k) = Some (v, e) \<Longrightarrow> \<exists>x. v = BlockedUntil x"
  using assms by (auto simp: rl_inv_def)

lemma rl_inv_block:
  assumes inv: "rl_inv c cfg (w, adm)"
  shows "rl_inv c cfg (snd (block k cfg d w), adm)"
proof -
  from inv have f: "faults w = []" and c: "finalConfig w cfg = c" by (auto simp: rl_inv_def)
  let ?d = "block_for c d"
  have "snd (block k cfg d w) =
      w\<lparr>rl_store := (if 0 < ?d then redis_setex (now w) (blockKey c k) ?d (BlockedUntil (now w + ?d * 1000)) (rl_store w)
                     else rl_store w)\<rparr>"
    using f by (simp add: block_def Let_def c tryCatch_def cmd_setex_def andThen_def ret_def)
  from inv this show ?thesis
    by (rule rl_inv_store)
      (auto simp: redis_setex_def rl_inv_same [OF inv] dest: plain_key_not_block split: if_splits)
qed

lemma rl_inv_unblock:
  assumes inv: "rl_inv c cfg (w, adm)"
  shows "rl_inv c cfg (snd (unblock k cfg w), adm)"
proof -
  from inv have f: "faults w = []" and c: "finalConfig w cfg = c" by (auto simp: rl_inv_def)
  have "snd (unblock k cfg w) = w\<lparr>rl_store := (rl_store w)(blockKey c k := None)\<rparr>"
    using f by (simp add: unblock_def Let_def c tryCatch_def cmd_del_def andThen_def ret_def redis_del_def)
  from inv this show ?thesis
    by (rule rl_inv_store)
      (auto simp: rl_inv_same [OF inv] dest: plain_key_not_block split: if_splits)
qed

lemma rl_inv_status:
  assumes inv: "rl_inv c cfg (w, adm)" and p: "plain_key k"
  shows "rl_inv c cfg (snd (getStatus k cfg w), adm)"
proof -
  from inv have f: "faults w = []" and c: "finalConfig w cfg = c" by (auto simp: rl_inv_def)
  note bk = rl_inv_same(1) [OF inv p]
  from bucket_zset [OF bk] obtain z where z: "zset_at (now w) (rl_store w) (redisKey c k) = Inr z" by metis
  let ?z1 = "zset_prune (now w - duration c * 1000) z"
  let ?en = "if ?z1 = [] then None
     else Some (ZSet ?z1, case rl_store w (redisKey c k) of None \<Rightarrow> None | Some (_, e) \<Rightarrow> e)"
  have zr: "zremrange (redisKey c k) (now w - duration c * 1000) w =
      (Inr (), w\<lparr>rl_store := (rl_store w)(redisKey c k := ?en)\<rparr>)"
    using f z by (auto simp: zremrange_def andThen_def zset_put_def zset_prune_def)
  have snd_zcard: "faults v = [] \<Longrightarrow> snd (zcard k' v) = v" for k' v
    by (simp add: zcard_def andThen_def split: sum.splits)
  have "snd (getStatus k cfg w) = w\<lparr>rl_store := (rl_store w)(redisKey c k := ?en)\<rparr>"
    using f snd_zcard [of "w\<lparr>rl_store := (rl_store w)(redisKey c k := ?en)\<rparr>" "redisKey c k"]
    by (auto simp: getStatus_def Let_def c tryCatch_def andThen_def zr ret_def split: prod.splits sum.splits)
  from inv this show ?thesis
    using bucket_refuse [OF bk z refl] plain_key_not_block [OF p, symmetric]
    by (rule_tac rl_inv_store) (auto simp: rl_inv_same [OF inv] split: if_splits)
qed

lemma rl_inv_tick:
  assumes inv: "rl_inv c cfg (w, adm)"
  shows "rl_inv c cfg (w\<lparr>now := now w + int d\<rparr>, adm)"
proof -
  have "finalConfig (w\<lparr>now := now w + int d\<rparr>) cfg = finalConfig w cfg"
    by (rule finalConfig_same) simp
  with inv show ?thesis by (auto simp: rl_inv_def intro: bucket_tick)
qed

definition rl_cfg_inv :: "RateLimitConfig \<Rightarrow> RateLimitConfig option \<Rightarrow> rl_world \<times> (string \<times> int) list \<Rightarrow> bool" where
  "rl_cfg_inv c cfg st \<longleftrightarrow> 0 < duration c \<and> 0 < blockSeconds c \<and> rl_inv c cfg st"

interpretation rate_machine: guarded_machine "rl_exec cfg" "\<lambda>_. rl_key_ok" "rl_cfg_inv c cfg" for cfg c
proof
  fix st x
  assume "rl_cfg_inv c cfg st" "rl_key_ok x"
  then show "rl_cfg_inv c cfg (rl_exec cfg st x)"
    by (cases st; cases x)
      (auto simp: rl_cfg_inv_def rl_inv_block rl_inv_unblock rl_inv_status rl_inv_tick
        simp del: rl_exec.simps(1) intro: rl_inv_consume)
qed

subsection \<open>The verdict of the guard\<close>

text \<open>
  A key is admitted when no block of it is in force and its window has room. The keys are typed when the block
  key holds a time and the other one a sorted set of times, as in every state the service reaches.
\<close>

definition limiter_admits :: "rl_world \<Rightarrow> RateLimitConfig option \<Rightarrow> string \<Rightarrow> bool" where
  "limiter_admits w cfg k \<longleftrightarrow>
     (let c = finalConfig w cfg;
          z = (case redis_get (now w) (rl_store w) (redisKey c k) of Some (ZSet z) \<Rightarrow> z | _ \<Rightarrow> [])
      in (\<forall>b. redis_get (now w) (rl_store w) (blockKey c k) = Some (BlockedUntil b) \<longrightarrow> b \<le> now w) \<and>
         int (length (filter (\<lambda>(s, m). now w - duration c * 1000 < s) z)) < points c)"

definition limiter_typed :: "rl_world \<Rightarrow> RateLimitConfig option \<Rightarrow> string \<Rightarrow> bool" where
  "limiter_typed w cfg k \<longleftrightarrow>
     (let c = finalConfig w cfg
      in (\<forall>v. redis_get (now w) (rl_store w) (blockKey c k) = Some v \<longrightarrow> (\<exists>b. v = BlockedUntil b)) \<and>
         (\<forall>v. redis_get (now w) (rl_store w) (redisKey c k) = Some v \<longrightarrow> (\<exists>z. v = ZSet z \<and> (\<forall>(s, m)\<in>set z. 0 \<le> s))))"

lemma rl_inv_typed:
  assumes "rl_inv c cfg (w, adm)" "plain_key k"
  shows "limiter_typed w cfg k"
proof -
  have "bucket_ok c (now w) (rl_store w (redisKey c k)) (adm_times k adm)"
    using rl_inv_same(1) [OF assms] .
  then have "redis_get (now w) (rl_store w) (redisKey c k) = Some v \<Longrightarrow> \<exists>z. v = ZSet z \<and> (\<forall>(s, m)\<in>set z. 0 \<le> s)" for v
    by (cases rule: bucket_cases) (auto simp: redis_get_def members_ok_def split: if_splits)
  moreover have "redis_get (now w) (rl_store w) (blockKey c k) = Some v \<Longrightarrow> \<exists>b. v = BlockedUntil b" for v
    using rl_inv_same(2) [OF assms(1)] by (auto simp: redis_get_def split: option.splits if_splits)
  moreover have "finalConfig w cfg = c" using assms(1) by (simp add: rl_inv_def)
  ultimately show ?thesis by (auto simp: limiter_typed_def)
qed

lemma consume_verdict:
  assumes "faults w = []" "plain_key k" "0 < blockSeconds (finalConfig w cfg)" "limiter_typed w cfg k"
  obtains res w' where "consume k cfg w = (Inr res, w')" "allowed res = limiter_admits w cfg k"
proof -
  let ?c = "finalConfig w cfg"
  let ?blk = "redis_get (now w) (rl_store w) (blockKey ?c k)"
  obtain z where z: "zset_at (now w) (rl_store w) (redisKey ?c k) = Inr z" "\<forall>(s, m)\<in>set z. 0 \<le> s"
    and zc: "(case redis_get (now w) (rl_store w) (redisKey ?c k) of Some (ZSet z) \<Rightarrow> z | _ \<Rightarrow> []) = z"
    using assms(4)
    by (cases "redis_get (now w) (rl_store w) (redisKey ?c k)") (auto simp: limiter_typed_def Let_def zset_at_def)
  show thesis
  proof (cases "\<exists>b. ?blk = Some (BlockedUntil b) \<and> now w < b")
    case True
    then obtain b where "?blk = Some (BlockedUntil b)" "now w < b" by blast
    with consume_blocked [OF assms(1) this] that show ?thesis by (simp add: limiter_admits_def Let_def)
  next
    case False
    then have open_key: "\<forall>v. ?blk = Some v \<longrightarrow> (\<exists>x. v = BlockedUntil x \<and> x \<le> now w)"
      using assms(4) by (force simp: limiter_typed_def Let_def)
    obtain res w' where "consume k cfg w = (Inr res, w')"
      "allowed res = (int (length (zset_prune (now w - duration ?c * 1000) z)) < points ?c)"
      by (rule consume_open [OF assms(1,2) refl assms(3) open_key z(1) refl]) blast
    moreover have "zset_prune (now w - duration ?c * 1000) z = filter (\<lambda>(s, m). now w - duration ?c * 1000 < s) z"
      using z(2) by (auto simp: zset_prune_def intro!: filter_cong)
    ultimately show ?thesis
      using open_key that by (auto simp: limiter_admits_def Let_def zc)
  qed
qed

text \<open>The guard answers what the limiter decides, with status 429 for a refusal.\<close>

lemma guard_verdict:
  assumes "faults w = []" "plain_key (generateKey q)" "0 < blockSeconds (finalConfig w (Some c))"
    "limiter_typed w (Some c) (generateKey q)"
  obtains hs w' where "canActivate False (Some c) q w =
    (if limiter_admits w (Some c) (generateKey q) then Inr True else Inl tooManyRequests, hs, w')"
proof -
  obtain res w' where "consume (generateKey q) (Some c) w = (Inr res, w')"
    "allowed res = limiter_admits w (Some c) (generateKey q)"
    by (rule consume_verdict [OF assms])
  with that show thesis by (cases "allowed res") (simp_all add: canActivate_def)
qed

subsection \<open>Properties\<close>

lemma rl_inv_bound:
  assumes "rl_inv c cfg (w, adm)" "plain_key k" "0 \<le> points c"
  shows "int (card {t. (k, t) \<in> set adm \<and> u - duration c * 1000 < t \<and> t \<le> u}) \<le> points c"
proof -
  have "int (card (window c u (adm_times k adm))) \<le> max 0 (points c)"
    using rl_inv_same(1) [OF assms(1,2)] by (simp add: bucket_ok_def)
  moreover have "window c u (adm_times k adm) = {t. (k, t) \<in> set adm \<and> u - duration c * 1000 < t \<and> t \<le> u}"
    by (auto simp: window_def adm_times_def)
  ultimately show ?thesis using assms(3) by simp
qed

text \<open>C4. The sliding window limits the milliseconds in which a key is admitted. Whatever sequence of requests,
  status queries, manual blocks and unblocks the callers make while time passes, with Redis up and whatever
  \<open>math.random()\<close> returns, the admissions of a key within any window of \<open>duration\<close> seconds fall in at most
  \<open>points\<close> different milliseconds. Requests of one millisecond are not told apart (see
  \<open>same_millisecond_unlimited\<close>), so this, and not a bound on the number of requests, is what the limiter
  guarantees.\<close>

theorem rate_window_bound:
  assumes "faults w = []" and "0 \<le> now w" and "rl_store w = Map.empty"
    and "c = finalConfig w cfg" and "0 < duration c" and "0 < blockSeconds c" and "0 \<le> points c"
    and "\<forall>x\<in>set ops. rl_key_ok x" and "plain_key k"
    and "run_steps (rl_exec cfg) (w, []) ops = (w', adm)"
  shows "int (card {t. (k, t) \<in> set adm \<and> u - duration c * 1000 < t \<and> t \<le> u}) \<le> points c"
proof -
  have "rl_cfg_inv c cfg (w, [])"
    using assms(1-7) by (simp add: rl_cfg_inv_def rl_inv_def bucket_ok_def window_def adm_times_def)
  moreover have "all_ok (rl_exec cfg) (\<lambda>_. rl_key_ok) st ops" for st
    using assms(8) by (induction ops arbitrary: st) auto
  ultimately have "rl_cfg_inv c cfg (run_steps (rl_exec cfg) (w, []) ops)"
    by (rule rate_machine.run_inv)
  then have "rl_inv c cfg (w', adm)" using assms(10) by (simp add: rl_cfg_inv_def)
  then show ?thesis using assms(9,7) by (rule rl_inv_bound)
qed

definition rl_demo :: "(nat \<Rightarrow> string) \<Rightarrow> rl_world" where
  "rl_demo rnd = \<lparr>now = 1000000, uuidSrc = \<lambda>_. '''', uuidCtr = 0, serial = 1, faults = [],
     rl_store = Map.empty, luaRandom = rnd, luaRuns = 0,
     defaultConfig = \<lparr>points = 100, duration = 60, blockDuration = Some 120, keyPrefix = Some ''ratelimit''\<rparr>\<rparr>"

abbreviation rl_demo_cfg :: "RateLimitConfig option" where
  "rl_demo_cfg \<equiv> Some \<lparr>points = 2, duration = 60, blockDuration = None, keyPrefix = None\<rparr>"

lemma rl_demo_config:
  "finalConfig (rl_demo rnd) rl_demo_cfg =
     \<lparr>points = 2, duration = 60, blockDuration = Some 120, keyPrefix = Some ''ratelimit''\<rparr>"
  by (simp add: rl_demo_def finalConfig_def)

theorem rate_window_bound_witness:
  "\<exists>w' adm. run_steps (rl_exec rl_demo_cfg) (rl_demo (\<lambda>_. ''0.2''), [])
       [RConsume ''ip:1'', RTick 5, RConsume ''ip:1'', RTick 5, RConsume ''ip:1''] = (w', adm) \<and>
     int (card {t. (''ip:1'', t) \<in> set adm \<and> 940010 < t \<and> t \<le> 1000010}) \<le> 2"
proof -
  let ?ops = "[RConsume ''ip:1'', RTick 5, RConsume ''ip:1'', RTick 5, RConsume ''ip:1'']"
  let ?w = "rl_demo (\<lambda>_. ''0.2'')"
  obtain w' adm where r: "run_steps (rl_exec rl_demo_cfg) (?w, []) ?ops = (w', adm)" by fastforce
  have start: "faults ?w = []" "0 \<le> now ?w" "rl_store ?w = Map.empty"
    by (simp_all add: rl_demo_def)
  have keys: "\<forall>x\<in>set ?ops. rl_key_ok x" "plain_key ''ip:1''" by (simp_all add: plain_key_def)
  show ?thesis
    using rate_window_bound [OF start rl_demo_config [symmetric] _ _ _ keys r, of 1000010] r
    by (simp add: blockSeconds_def)
qed

text \<open>A key blocked for \<open>d\<close> seconds stays refused for \<open>d\<close> seconds: after \<open>block\<close>, every request
  within that time is answered with \<open>allowed = false\<close>, nothing remaining and the seconds left as
  \<open>retryAfter\<close>, and changes nothing.\<close>

theorem block_refuses:
  assumes "faults w = []" and "d = block_for (finalConfig w cfg) secs" and "0 < d"
    and "block k cfg secs w = (r, w1)" and "now w \<le> t" and "t < now w + d * 1000"
    and "w2 = w1\<lparr>now := t\<rparr>"
  shows "\<exists>res. consume k cfg w2 = (Inr res, w2) \<and> \<not> allowed res \<and> remaining (info res) = 0 \<and>
    retryAfter (info res) = Some ((now w + d * 1000 - t + 999) div 1000)"
proof -
  let ?c = "finalConfig w cfg"
  have w1: "w1 = w\<lparr>rl_store := redis_setex (now w) (blockKey ?c k) d (BlockedUntil (now w + d * 1000)) (rl_store w)\<rparr>"
    using assms(1-4) by (simp add: block_def Let_def tryCatch_def cmd_setex_ok)
  have c2: "finalConfig w2 cfg = ?c" by (rule finalConfig_same) (simp add: assms(7) w1)
  have "redis_get (now w2) (rl_store w2) (blockKey (finalConfig w2 cfg) k) = Some (BlockedUntil (now w + d * 1000))"
    unfolding c2 using assms(6,7) by (simp add: w1 rd.get_set_same)
  moreover have "faults w2 = []" "now w2 < now w + d * 1000" using assms(1,6,7) by (simp_all add: w1)
  ultimately show ?thesis using assms(7) by (simp add: consume_blocked)
qed

theorem block_refuses_witness:
  "\<exists>r w1 res. block ''ip:1'' None (Some 30) (rl_demo show_nat) = (r, w1) \<and>
     consume ''ip:1'' None (w1\<lparr>now := 1010000\<rparr>) = (Inr res, w1\<lparr>now := 1010000\<rparr>) \<and>
     \<not> allowed res \<and> retryAfter (info res) = Some 20"
proof -
  obtain r w1 where b: "block ''ip:1'' None (Some 30) (rl_demo show_nat) = (r, w1)" by fastforce
  have d: "30 = block_for (finalConfig (rl_demo show_nat) None) (Some 30)" by (simp add: block_for_def)
  have n: "faults (rl_demo show_nat) = []" "now (rl_demo show_nat) = 1000000" by (simp_all add: rl_demo_def)
  show ?thesis
    using block_refuses [OF n(1) d _ b _ _ refl, of 1010000] b n by auto
qed

text \<open>The limiter fails open. When the first Redis command of a request fails, the guard lets the
  request through with the full quota in the headers and changes nothing, even when the key is
  blocked or its window is full.\<close>

theorem rate_limit_fails_open:
  assumes "faults w = True # fs" and "c = finalConfig w (Some cfg)"
  shows "canActivate False (Some cfg) q w =
    (Inr True,
     [(''X-RateLimit-Limit'', show_int (points c)), (''X-RateLimit-Remaining'', show_int (points c)),
      (''X-RateLimit-Reset'', show_int (resetTime c (now w)))],
     w\<lparr>faults := fs\<rparr>)"
  using consume_fail_open [OF assms(1), of "generateKey q" "Some cfg"] assms(2)
  by (simp add: canActivate_def rate_headers_def)

theorem rate_limit_fails_open_witness:
  "\<exists>hs w'. canActivate False rl_demo_cfg
      \<lparr>rq_userId = Some 7, rq_apiKey = None, rq_forwardedFor = None, rq_realIp = None, rq_ip = None,
       rq_remoteAddress = None, rq_method = ''GET'', rq_routePath = Some ''/flights'', rq_url = ''/flights''\<rparr>
      ((rl_demo show_nat)\<lparr>faults := [True]\<rparr>) = (Inr True, hs, w')"
proof -
  have f: "faults ((rl_demo show_nat)\<lparr>faults := [True]\<rparr>) = True # []" by simp
  show ?thesis by (subst rate_limit_fails_open [OF f refl]) blast
qed

text \<open>One more request in the millisecond in which all earlier ones were made.\<close>

lemma consume_same_millisecond:
  assumes "faults w = []" "\<forall>i. luaRandom w i = rnd" "plain_key k" "c = finalConfig w cfg"
    "0 < duration c" "0 < blockSeconds c" "2 \<le> points c" "rl_store w (blockKey c k) = None"
    "rl_store w (redisKey c k) = None \<or>
       (\<exists>e. now w < e \<and> rl_store w (redisKey c k) = Some (ZSet [(now w, show_int (now w) @ '':'' @ rnd)], Some e))"
  obtains w' where "rl_exec cfg (w, adm) (RConsume k) = (w', (k, now w) # adm)" "now w' = now w"
    "faults w' = []" "luaRandom w' = luaRandom w" "defaultConfig w' = defaultConfig w"
    "rl_store w' (blockKey c k) = None"
    "\<exists>e. now w < e \<and> rl_store w' (redisKey c k) = Some (ZSet [(now w, show_int (now w) @ '':'' @ rnd)], Some e)"
proof -
  let ?m = "(now w, show_int (now w) @ '':'' @ rnd)"
  obtain z where z: "zset_at (now w) (rl_store w) (redisKey c k) = Inr z" "z = [] \<or> z = [?m]"
    using assms(9) by (auto simp: zset_at_def redis_get_def)
  have z1: "zset_prune (now w - duration c * 1000) z = z"
    using z(2) assms(5) by (auto simp: zset_prune_def)
  have bl: "\<forall>v. redis_get (now w) (rl_store w) (blockKey c k) = Some v \<longrightarrow> (\<exists>x. v = BlockedUntil x \<and> x \<le> now w)"
    using assms(8) by (simp add: redis_get_def)
  have room: "int (length z) < points c" using z(2) assms(7) by auto
  have add: "zset_add (now w) (show_int (now w) @ '':'' @ luaRandom w (luaRuns w)) z = [?m]"
    using z(2) assms(2) by (auto simp: zset_add_def)
  have late: "now w < now w + (duration c + 1) * 1000" using assms(5) by simp
  from consume_open [OF assms(1,3,4,6) bl z(1) refl, unfolded z1 add]
  obtain res w' where r: "consume k cfg w = (Inr res, w')" "allowed res = (int (length z) < points c)"
    "now w' = now w" "faults w' = []" "luaRandom w' = luaRandom w" "luaRuns w' = Suc (luaRuns w)"
    "defaultConfig w' = defaultConfig w"
    and "\<forall>k'. k' \<noteq> redisKey c k \<longrightarrow> k' \<noteq> blockKey c k \<longrightarrow> rl_store w' k' = rl_store w k'"
    and "\<forall>v e. rl_store w' (blockKey c k) = Some (v, e) \<longrightarrow>
        rl_store w (blockKey c k) = Some (v, e) \<or> (\<exists>x. v = BlockedUntil x)"
    and blk: "int (length z) < points c \<longrightarrow> rl_store w (blockKey c k) = None \<longrightarrow> rl_store w' (blockKey c k) = None"
    and st: "rl_store w' (redisKey c k) =
       (if int (length z) < points c then Some (ZSet [?m], Some (now w + (duration c + 1) * 1000))
        else if z = [] then None
        else Some (ZSet z, case rl_store w (redisKey c k) of None \<Rightarrow> None | Some (_, e) \<Rightarrow> e))" .
  show ?thesis
    using r blk st room late assms(8) by (intro that [of w']) auto
qed

lemma same_millisecond_run:
  assumes "faults w = []" "\<forall>i. luaRandom w i = rnd" "plain_key k" "c = finalConfig w cfg"
    "0 < duration c" "0 < blockSeconds c" "2 \<le> points c" "rl_store w (blockKey c k) = None"
    "rl_store w (redisKey c k) = None \<or>
       (\<exists>e. now w < e \<and> rl_store w (redisKey c k) = Some (ZSet [(now w, show_int (now w) @ '':'' @ rnd)], Some e))"
  shows "snd (run_steps (rl_exec cfg) (w, adm) (replicate n (RConsume k))) = replicate n (k, now w) @ adm"
  using assms
proof (induction n arbitrary: w adm)
  case 0
  then show ?case by simp
next
  case (Suc n)
  from consume_same_millisecond [OF Suc.prems, of adm]
  obtain w' where w': "rl_exec cfg (w, adm) (RConsume k) = (w', (k, now w) # adm)" "now w' = now w"
    "faults w' = []" "luaRandom w' = luaRandom w" "defaultConfig w' = defaultConfig w"
    "rl_store w' (blockKey c k) = None"
    "\<exists>e. now w < e \<and> rl_store w' (redisKey c k) = Some (ZSet [(now w, show_int (now w) @ '':'' @ rnd)], Some e)" .
  have "c = finalConfig w' cfg" using Suc.prems(4) finalConfig_same [OF w'(5)] by simp
  with Suc.IH [of w' "(k, now w) # adm"] Suc.prems w' show ?case
    by (simp add: replicate_app_Cons_same del: rl_exec.simps)
qed

text \<open>Requests in one millisecond are not counted. Redis restarts the sequence of
  \<open>math.random()\<close> in every script run, so the members added in one millisecond are equal and
  replace each other: any number of requests of a key in one millisecond is admitted by a limit
  of two or more.\<close>

theorem same_millisecond_unlimited:
  assumes "faults w = []" and "\<forall>i. luaRandom w i = rnd" and "plain_key k" and "c = finalConfig w cfg"
    and "0 < duration c" and "0 < blockSeconds c" and "2 \<le> points c" and "rl_store w = Map.empty"
  shows "snd (run_steps (rl_exec cfg) (w, []) (replicate n (RConsume k))) = replicate n (k, now w)"
  using same_millisecond_run [OF assms(1-7), of "[]" n] assms(8) by simp

theorem same_millisecond_unlimited_witness:
  "snd (run_steps (rl_exec rl_demo_cfg) (rl_demo (\<lambda>_. ''0.2''), []) (replicate 1000 (RConsume ''ip:1''))) =
     replicate 1000 (''ip:1'', 1000000)"
proof -
  let ?w = "rl_demo (\<lambda>_. ''0.2'')"
  have w: "faults ?w = []" "\<forall>i. luaRandom ?w i = ''0.2''" "rl_store ?w = Map.empty" "now ?w = 1000000"
    by (simp_all add: rl_demo_def)
  have key: "plain_key ''ip:1''" by (simp add: plain_key_def)
  show ?thesis
    using same_millisecond_unlimited [OF w(1,2) key rl_demo_config [symmetric] _ _ _ w(3), of 1000] w(4)
    by (simp add: blockSeconds_def)
qed

end
