(* ===== verification/BookingModel.thy ===== *)
theory BookingModel
  imports SeatLock
begin

text \<open>
  The data of the booking service: the entities of apps/booking-service/src/entities with every
  column, the tables they are rows of, the statements of the repositories (src/repositories) and
  transactions. A table is the list of its rows in insertion order. Dates are milliseconds,
  decimals rationals, JSON columns what their text stands for.
\<close>

subsection \<open>Entities\<close>

datatype BookingStatus =
  BS_INITIATED | BS_PENDING | BS_BOOKED | BS_CANCELLED | BS_EXPIRED | BS_REFUNDED

datatype PaymentStatus =
  PS_PENDING | PS_PROCESSING | PS_COMPLETED | PS_FAILED | PS_REFUNDED

record Booking =
  bk_id :: int
  bk_bookingReference :: string
  bk_flightId :: int
  bk_userId :: int
  bk_noOfSeats :: int
  bk_totalCost :: rat
  bk_status :: BookingStatus
  bk_paymentStatus :: PaymentStatus
  bk_passengerName :: "string option"
  bk_passengerEmail :: "string option"
  bk_passengerPhone :: "string option"
  bk_flightNumber :: "string option"
  bk_departureAirportCode :: "string option"
  bk_arrivalAirportCode :: "string option"
  bk_departureTime :: "int option"
  bk_arrivalTime :: "int option"
  bk_seatNumbers :: "string list"
  bk_seatClass :: "string option"
  bk_paymentMethod :: "string option"
  bk_paymentTransactionId :: "string option"
  bk_paidAt :: "int option"
  bk_cancelledAt :: "int option"
  bk_cancellationReason :: "string option"
  bk_refundAmount :: "rat option"
  bk_refundedAt :: "int option"
  bk_expiresAt :: "int option"
  bk_version :: int
  bk_bookingSource :: "string option"
  bk_ipAddress :: "string option"
  bk_metadata :: "string option"
  bk_createdAt :: int
  bk_updatedAt :: int

text \<open>The columns a new booking has when the code does not set them.\<close>

definition blank_booking :: Booking where
  "blank_booking = \<lparr>bk_id = 0, bk_bookingReference = '''', bk_flightId = 0, bk_userId = 0,
     bk_noOfSeats = 1, bk_totalCost = 0, bk_status = BS_INITIATED, bk_paymentStatus = PS_PENDING,
     bk_passengerName = None, bk_passengerEmail = None, bk_passengerPhone = None,
     bk_flightNumber = None, bk_departureAirportCode = None, bk_arrivalAirportCode = None,
     bk_departureTime = None, bk_arrivalTime = None, bk_seatNumbers = [], bk_seatClass = None,
     bk_paymentMethod = None, bk_paymentTransactionId = None, bk_paidAt = None,
     bk_cancelledAt = None, bk_cancellationReason = None, bk_refundAmount = None,
     bk_refundedAt = None, bk_expiresAt = None, bk_version = 1, bk_bookingSource = None,
     bk_ipAddress = None, bk_metadata = None, bk_createdAt = 0, bk_updatedAt = 0\<rparr>"

text \<open>\<open>generateBookingReference\<close>: \<open>rnd i\<close> is the i-th index \<open>Math.floor(Math.random() * 32)\<close>.\<close>

definition reference_chars :: string where
  "reference_chars = ''ABCDEFGHJKLMNPQRSTUVWXYZ23456789''"

definition generateBookingReference :: "(nat \<Rightarrow> nat) \<Rightarrow> string" where
  "generateBookingReference rnd = ''BK'' @ map (\<lambda>i. reference_chars ! rnd i) [0..<8]"

datatype OutboxEventStatus = OS_PENDING | OS_PROCESSING | OS_PUBLISHED | OS_FAILED

text \<open>The JSON objects the services put into events; a property that is not there is \<open>None\<close>.\<close>

record event_payload =
  ep_bookingId :: string
  ep_userId :: "int option"
  ep_flightId :: "int option"
  ep_seatClass :: "string option"
  ep_seatCount :: "int option"

record OutboxEvent =
  ob_id :: int
  ob_eventId :: string
  ob_aggregateType :: string
  ob_aggregateId :: string
  ob_eventType :: string
  ob_payload :: event_payload
  ob_status :: OutboxEventStatus
  ob_retryCount :: int
  ob_maxRetries :: int
  ob_lastError :: "string option"
  ob_publishedAt :: "int option"
  ob_traceId :: "string option"
  ob_spanId :: "string option"
  ob_createdAt :: int

datatype SagaStatus =
  SG_INITIATED | SG_SEATS_LOCKED | SG_FLIGHT_RESERVED | SG_PAYMENT_PROCESSING
  | SG_PAYMENT_COMPLETED | SG_BOOKING_CONFIRMED | SG_FAILED | SG_COMPENSATING | SG_COMPENSATED

text \<open>
  The request of a booking. \<open>flightId\<close> is the number \<open>Number(dto.flightId)\<close>; the code only ever
  uses that.
\<close>

record CreateBookingDto =
  cb_userId :: int
  cb_flightId :: int
  cb_seats :: int
  cb_seatNumbers :: "string list option"
  cb_seatClass :: "string option"
  cb_totalCost :: "rat option"
  cb_passengerName :: "string option"
  cb_passengerEmail :: "string option"
  cb_passengerPhone :: "string option"
  cb_seatPreference :: "string option"

record SagaState =
  sg_id :: int
  sg_sagaId :: string
  sg_sagaType :: string
  sg_bookingId :: string
  sg_status :: SagaStatus
  sg_currentStep :: int
  sg_totalSteps :: int
  sg_payload :: CreateBookingDto
  sg_lockKey :: "string option"
  sg_errorMessage :: "string option"
  sg_retryCount :: int
  sg_maxRetries :: int
  sg_lastErrorAt :: "int option"
  sg_completedAt :: "int option"
  sg_compensatedAt :: "int option"
  sg_idempotencyKey :: "string option"
  sg_createdAt :: int
  sg_updatedAt :: int

subsection \<open>The world of the service\<close>

text \<open>
  A message handed to RabbitMQ: exchange, routing key, payload, the event it stems from with its trace
  and span identifiers and, on the
  dead letter exchange, the reason and the retry count.
\<close>

record amqp_msg =
  am_exchange :: string
  am_routingKey :: string
  am_payload :: event_payload
  am_eventId :: string
  am_timestamp :: int
  am_trace :: "string option \<times> string option"
  am_failure :: "(string \<times> int) option"

text \<open>
  \<open>obj\<close> is the saga object in memory that the steps pass to each other and change in place: a
  rolled back transaction does not change it back. \<open>span\<close> is the active trace context.
\<close>

record booking_world = env +
  bookings :: "Booking list"
  sagas :: "SagaState list"
  outbox :: "OutboxEvent list"
  locks :: "lock_val redis"
  obj :: SagaState
  broker :: "amqp_msg list"
  span :: "(string \<times> string) option"

text \<open>Statements. Every statement is one call that may fail; a failed one has no effect.\<close>

definition stmt :: "(booking_world \<Rightarrow> (exn + 'a) \<times> booking_world) \<Rightarrow> (booking_world, 'a) prog" where
  "stmt f = andThen external (\<lambda>_. f)"

definition query :: "(booking_world \<Rightarrow> 'a) \<Rightarrow> (booking_world, 'a) prog" where
  "query f = stmt (\<lambda>w. (Inr (f w), w))"

text \<open>
  \<open>dataSource.transaction(body)\<close>: begin, body, commit. When any of it throws, the tables are what
  they were at the start; everything outside the database stays as the body left it.
\<close>

definition transaction :: "(booking_world, 'a) prog \<Rightarrow> (booking_world, 'a) prog" where
  "transaction body w =
     (case andThen external (\<lambda>_. andThen body (\<lambda>a. andThen external (\<lambda>_. ret a))) w of
        (Inl e, w') \<Rightarrow> (Inl e, w'\<lparr>bookings := bookings w, sagas := sagas w, outbox := outbox w\<rparr>)
      | (Inr a, w') \<Rightarrow> (Inr a, w'))"

text \<open>
  Column checks of the schema; \<open>decimal(10, 2)\<close> rounds to two places.
  The columns of 36 characters hold identifiers from \<open>uuidv4()\<close>, which always fit.
\<close>

definition round2 :: "rat \<Rightarrow> rat" where
  "round2 x = (if x < 0 then - of_int \<lfloor>- x * 100 + 1 / 2\<rfloor> / 100 else of_int \<lfloor>x * 100 + 1 / 2\<rfloor> / 100)"

definition booking_columns_ok :: "Booking \<Rightarrow> bool" where
  "booking_columns_ok b \<longleftrightarrow>
     int4_ok (bk_flightId b) \<and> int4_ok (bk_userId b) \<and>
     int4_ok (bk_noOfSeats b) \<and> \<bar>round2 (bk_totalCost b)\<bar> < 100000000 \<and>
     varchar_ok 200 (bk_passengerName b) \<and> varchar_ok 255 (bk_passengerEmail b) \<and>
     varchar_ok 20 (bk_passengerPhone b) \<and> varchar_ok 20 (bk_flightNumber b) \<and>
     varchar_ok 3 (bk_departureAirportCode b) \<and> varchar_ok 3 (bk_arrivalAirportCode b) \<and>
     varchar_ok 50 (bk_seatClass b) \<and> varchar_ok 50 (bk_paymentMethod b) \<and>
     varchar_ok 100 (bk_paymentTransactionId b) \<and> varchar_ok 50 (bk_bookingSource b)"

definition badColumn :: exn where
  "badColumn = JsError ''value too long for type or out of range''"

definition duplicateKey :: exn where
  "duplicateKey = JsError ''duplicate key value violates unique constraint''"

subsection \<open>Bookings\<close>

definition insert_booking :: "Booking \<Rightarrow> (booking_world, Booking) prog" where
  "insert_booking b = stmt (\<lambda>w.
     if \<not> booking_columns_ok b then (Inl badColumn, w)
     else if \<exists>r\<in>set (bookings w). bk_bookingReference r = bk_bookingReference b then (Inl duplicateKey, w)
     else let row = b\<lparr>bk_id := serial w, bk_totalCost := round2 (bk_totalCost b), bk_version := 1,
                     bk_createdAt := now w, bk_updatedAt := now w\<rparr>
          in (Inr row, w\<lparr>serial := serial w + 1, bookings := bookings w @ [row]\<rparr>))"

text \<open>\<open>UPDATE bookings SET f WHERE p\<close>; TypeORM also raises the version and sets \<open>updated_at\<close>.\<close>

definition touch :: "int \<Rightarrow> (Booking \<Rightarrow> Booking) \<Rightarrow> Booking \<Rightarrow> Booking" where
  "touch t f b = (f b)\<lparr>bk_version := bk_version b + 1, bk_updatedAt := t\<rparr>"

definition update_bookings :: "(Booking \<Rightarrow> bool) \<Rightarrow> (Booking \<Rightarrow> Booking) \<Rightarrow> (booking_world, unit) prog" where
  "update_bookings p f = stmt (\<lambda>w.
     if \<exists>b\<in>set (bookings w). p b \<and> \<not> booking_columns_ok (f b) then (Inl badColumn, w)
     else (Inr (), w\<lparr>bookings := map (\<lambda>b. if p b then touch (now w) f b else b) (bookings w)\<rparr>))"

definition findByReference :: "string \<Rightarrow> (booking_world, Booking option) prog" where
  "findByReference r = query (\<lambda>w. find (\<lambda>b. bk_bookingReference b = r) (bookings w))"

definition findByUserId :: "int \<Rightarrow> (booking_world, Booking list) prog" where
  "findByUserId u = query (\<lambda>w. sort_key (\<lambda>b. - bk_createdAt b) (filter (\<lambda>b. bk_userId b = u) (bookings w)))"

text \<open>Ascending order puts a missing departure time last.\<close>

definition findActiveBookingsByUserId :: "int \<Rightarrow> (booking_world, Booking list) prog" where
  "findActiveBookingsByUserId u = query (\<lambda>w.
     let rows = filter (\<lambda>b. bk_userId b = u \<and> bk_status b \<in> {BS_INITIATED, BS_PENDING, BS_BOOKED}) (bookings w)
     in sort_key (\<lambda>b. the (bk_departureTime b)) (filter (\<lambda>b. bk_departureTime b \<noteq> None) rows) @
        filter (\<lambda>b. bk_departureTime b = None) rows)"

definition findByFlightId :: "int \<Rightarrow> (booking_world, Booking list) prog" where
  "findByFlightId f = query (\<lambda>w.
     filter (\<lambda>b. bk_flightId b = f \<and> bk_status b \<in> {BS_BOOKED, BS_PENDING}) (bookings w))"

definition is_expired :: "int \<Rightarrow> Booking \<Rightarrow> bool" where
  "is_expired t b \<longleftrightarrow> bk_status b = BS_INITIATED \<and> (case bk_expiresAt b of None \<Rightarrow> False | Some e \<Rightarrow> e < t)"

definition findExpiredBookings :: "(booking_world, Booking list) prog" where
  "findExpiredBookings = query (\<lambda>w. filter (is_expired (now w)) (bookings w))"

definition create_booking :: "Booking \<Rightarrow> (booking_world, Booking) prog" where
  "create_booking b = insert_booking b"

definition update_booking :: "int \<Rightarrow> (Booking \<Rightarrow> Booking) \<Rightarrow> (booking_world, Booking option) prog" where
  "update_booking i f =
     andThen (update_bookings (\<lambda>b. bk_id b = i) f) (\<lambda>_.
       query (\<lambda>w. find (\<lambda>b. bk_id b = i) (bookings w)))"

text \<open>The optimistic update: only the row with the expected version is written.\<close>

definition updateWithVersion ::
  "int \<Rightarrow> int \<Rightarrow> (Booking \<Rightarrow> Booking) \<Rightarrow> (booking_world, Booking option) prog" where
  "updateWithVersion i v f = stmt (\<lambda>w.
     let hit = (\<lambda>b. bk_id b = i \<and> bk_version b = v)
     in if \<exists>b\<in>set (bookings w). hit b \<and> \<not> booking_columns_ok (f b) then (Inl badColumn, w)
        else (Inr (map_option (touch (now w) f) (find hit (bookings w))),
              w\<lparr>bookings := map (\<lambda>b. if hit b then touch (now w) f b else b) (bookings w)\<rparr>))"

definition seats_clash :: "int \<Rightarrow> string list \<Rightarrow> Booking \<Rightarrow> bool" where
  "seats_clash f seats b \<longleftrightarrow>
     bk_flightId b = f \<and> (\<exists>s\<in>set seats. s \<in> set (bk_seatNumbers b)) \<and> bk_status b \<in> {BS_BOOKED, BS_PENDING}"

definition findBySeats :: "int \<Rightarrow> string list \<Rightarrow> (booking_world, Booking list) prog" where
  "findBySeats f seats = query (\<lambda>w. filter (seats_clash f seats) (bookings w))"

definition areSeatsAvailable :: "int \<Rightarrow> string list \<Rightarrow> (booking_world, bool) prog" where
  "areSeatsAvailable f seats = query (\<lambda>w. length (filter (seats_clash f seats) (bookings w)) = 0)"

subsection \<open>Saga rows\<close>

definition saga_columns_ok :: "SagaState \<Rightarrow> bool" where
  "saga_columns_ok s \<longleftrightarrow>
     length (sg_sagaType s) \<le> 50 \<and>
     varchar_ok 100 (sg_idempotencyKey s) \<and> int4_ok (sg_currentStep s)"

definition insert_saga :: "SagaState \<Rightarrow> (booking_world, SagaState) prog" where
  "insert_saga s = stmt (\<lambda>w.
     if \<not> saga_columns_ok s then (Inl badColumn, w)
     else if \<exists>r\<in>set (sagas w). sg_sagaId r = sg_sagaId s then (Inl duplicateKey, w)
     else let row = s\<lparr>sg_id := serial w, sg_createdAt := now w, sg_updatedAt := now w\<rparr>
          in (Inr row, w\<lparr>serial := serial w + 1, sagas := sagas w @ [row]\<rparr>))"

text \<open>\<open>manager.save(SagaState, sagaState)\<close> of the object in memory, which has its row's id.\<close>

definition save_obj :: "(booking_world, unit) prog" where
  "save_obj = stmt (\<lambda>w.
     if \<not> saga_columns_ok (obj w) then (Inl badColumn, w)
     else let row = (obj w)\<lparr>sg_updatedAt := now w\<rparr>
          in (Inr (), w\<lparr>obj := row, sagas := map (\<lambda>s. if sg_id s = sg_id row then row else s) (sagas w)\<rparr>))"

definition find_saga :: "(SagaState \<Rightarrow> bool) \<Rightarrow> (booking_world, SagaState option) prog" where
  "find_saga p = query (\<lambda>w. find p (sagas w))"

subsection \<open>Statements and their faults\<close>

abbreviation failing :: "booking_world \<Rightarrow> bool" where
  "failing w \<equiv> faults w \<noteq> [] \<and> hd (faults w)"

lemma stmt_eq:
  "stmt f w = (if failing w then (Inl down, w\<lparr>faults := tl (faults w)\<rparr>) else f (w\<lparr>faults := tl (faults w)\<rparr>))"
  by (simp add: stmt_def andThen_def external_def)

lemma stmt_ok [simp]: "faults w = [] \<Longrightarrow> stmt f w = f w"
  by (simp add: stmt_def andThen_def)

lemma query_eq:
  "query f w = (if failing w then Inl down else Inr (f (w\<lparr>faults := tl (faults w)\<rparr>)), w\<lparr>faults := tl (faults w)\<rparr>)"
  by (simp add: query_def stmt_eq)

lemma query_ok [simp]: "faults w = [] \<Longrightarrow> query f w = (Inr (f w), w)"
  by (simp add: query_def)

lemma keeps_stmt:
  "(\<And>w fs. I w \<Longrightarrow> I (w\<lparr>faults := fs\<rparr>)) \<Longrightarrow> (\<And>w. I w \<Longrightarrow> I (snd (f w))) \<Longrightarrow> keeps I (stmt f)"
  by (auto simp: keeps_def stmt_eq)

lemma keeps_query: "(\<And>w fs. I w \<Longrightarrow> I (w\<lparr>faults := fs\<rparr>)) \<Longrightarrow> keeps I (query f)"
  by (auto simp: keeps_def query_eq)

subsection \<open>A concrete world\<close>

definition sample_dto :: CreateBookingDto where
  "sample_dto = \<lparr>cb_userId = 5, cb_flightId = 7, cb_seats = 1, cb_seatNumbers = Some [''12A''],
     cb_seatClass = None, cb_totalCost = Some 100, cb_passengerName = Some ''Ann'',
     cb_passengerEmail = None, cb_passengerPhone = None, cb_seatPreference = None\<rparr>"

definition blank_saga :: SagaState where
  "blank_saga = \<lparr>sg_id = 0, sg_sagaId = '''', sg_sagaType = '''', sg_bookingId = '''', sg_status = SG_INITIATED,
     sg_currentStep = 0, sg_totalSteps = 6, sg_payload = sample_dto, sg_lockKey = None, sg_errorMessage = None,
     sg_retryCount = 0, sg_maxRetries = 3, sg_lastErrorAt = None, sg_completedAt = None,
     sg_compensatedAt = None, sg_idempotencyKey = None, sg_createdAt = 0, sg_updatedAt = 0\<rparr>"

definition sample_world :: booking_world where
  "sample_world = \<lparr>now = 1000, uuidSrc = show_nat, uuidCtr = 0, serial = 1, faults = [],
     bookings = [], sagas = [], outbox = [], locks = Map.empty, obj = blank_saga, broker = [], span = None\<rparr>"

subsection \<open>Successful statements and transactions\<close>

lemma stmt_Inr [simp]:
  "stmt f w = (Inr a, w') \<longleftrightarrow> \<not> failing w \<and> f (w\<lparr>faults := tl (faults w)\<rparr>) = (Inr a, w')"
  by (auto simp: stmt_eq)

lemma external_Inr [simp]:
  "external (w :: 'x env_scheme) = (Inr a, w') \<longleftrightarrow>
     \<not> (faults w \<noteq> [] \<and> hd (faults w)) \<and> w' = w\<lparr>faults := tl (faults w)\<rparr>"
  by (auto simp: external_def)

lemma transaction_Inl:
  assumes "transaction body w = (Inl e, w')"
  shows "bookings w' = bookings w" "sagas w' = sagas w" "outbox w' = outbox w"
  using assms by (auto simp: transaction_def split: prod.splits sum.splits)

lemma transaction_Inr:
  assumes "transaction body w = (Inr a, w')"
  obtains v where "body (w\<lparr>faults := tl (faults w)\<rparr>) = (Inr a, v)" "w' = v\<lparr>faults := tl (faults v)\<rparr>"
  using assms by (auto simp: transaction_def split: prod.splits sum.splits)

text \<open>
  What no operation undoes, not even by a rollback: identifiers taken stay taken, and the object in
  memory stands for the same saga.
\<close>

definition evolves :: "booking_world \<Rightarrow> booking_world \<Rightarrow> bool" where
  "evolves w w' \<longleftrightarrow> uuidSrc w' = uuidSrc w \<and> uuidCtr w \<le> uuidCtr w' \<and> serial w \<le> serial w' \<and>
     now w' = now w \<and> sg_id (obj w') = sg_id (obj w) \<and> sg_bookingId (obj w') = sg_bookingId (obj w)"

lemma evolves_refl [simp]: "evolves w w"
  by (simp add: evolves_def)

lemma evolves_trans: "evolves u v \<Longrightarrow> evolves v w \<Longrightarrow> evolves u w"
  by (auto simp: evolves_def)

lemma evolves_faults [simp]: "evolves w (v\<lparr>faults := fs\<rparr>) = evolves w v" "evolves (v\<lparr>faults := fs\<rparr>) w = evolves v w"
  by (simp_all add: evolves_def)

lemma keeps_transaction:
  assumes "keeps (evolves w0) body"
  shows "keeps (evolves w0) (transaction body)"
proof (rule keepsI)
  fix w
  assume "evolves w0 w"
  then have e: "evolves w0 (snd (body (w\<lparr>faults := tl (faults w)\<rparr>)))"
    using assms by (simp add: keeps_def)
  obtain r v where b: "body (w\<lparr>faults := tl (faults w)\<rparr>) = (r, v)" by fastforce
  show "evolves w0 (snd (transaction body w))"
    using \<open>evolves w0 w\<close> e b
    by (cases r) (auto simp: transaction_def andThen_def external_def evolves_def ret_def split: prod.splits sum.splits)
qed

lemma evolves_stmts [keeps_intro]:
  "keeps (evolves w0) (insert_booking b)" "keeps (evolves w0) (update_bookings p f)"
  "keeps (evolves w0) (insert_saga s)" "keeps (evolves w0) save_obj" "keeps (evolves w0) (query q)"
  "keeps (evolves w0) external" "keeps (evolves w0) (find_saga q')" "keeps (evolves w0) (findByReference r)"
  by (rule keepsI; auto simp: insert_booking_def update_bookings_def insert_saga_def save_obj_def query_eq
      external_def find_saga_def findByReference_def stmt_eq Let_def evolves_def)+

end
