(* ===== verification/Outbox.thy ===== *)
theory Outbox
  imports BookingModel
begin

text \<open>
  The transactional outbox (apps/booking-service/src/outbox/outbox.service.ts): events are rows
  written with the business change; a job publishes the pending ones to RabbitMQ, retries on
  failure and moves an event to the dead letter exchange after its last retry; another job deletes
  published events after a week.
\<close>

definition event_columns_ok :: "OutboxEvent \<Rightarrow> bool" where
  "event_columns_ok e \<longleftrightarrow>
     length (ob_aggregateType e) \<le> 50 \<and> length (ob_eventType e) \<le> 100"

definition storeEvent ::
  "string \<Rightarrow> string \<Rightarrow> string \<Rightarrow> event_payload \<Rightarrow> (booking_world, OutboxEvent) prog" where
  "storeEvent aggregateType aggregateId eventType payload =
     andThen freshUuid (\<lambda>eventId. stmt (\<lambda>w.
       let row = \<lparr>ob_id = serial w, ob_eventId = eventId, ob_aggregateType = aggregateType,
                  ob_aggregateId = aggregateId, ob_eventType = eventType, ob_payload = payload,
                  ob_status = OS_PENDING, ob_retryCount = 0, ob_maxRetries = 3, ob_lastError = None,
                  ob_publishedAt = None, ob_traceId = map_option fst (span w),
                  ob_spanId = map_option snd (span w), ob_createdAt = now w\<rparr>
       in if \<not> event_columns_ok row then (Inl badColumn, w)
          else if \<exists>r\<in>set (outbox w). ob_eventId r = eventId then (Inl duplicateKey, w)
          else (Inr row, w\<lparr>serial := serial w + 1, outbox := outbox w @ [row]\<rparr>)))"

text \<open>\<open>outboxRepository.update(id, ...)\<close> and \<open>amqpConnection.publish(...)\<close>.\<close>

definition update_event :: "int \<Rightarrow> (OutboxEvent \<Rightarrow> OutboxEvent) \<Rightarrow> (booking_world, unit) prog" where
  "update_event i f = stmt (\<lambda>w.
     (Inr (), w\<lparr>outbox := map (\<lambda>e. if ob_id e = i then f e else e) (outbox w)\<rparr>))"

definition publish :: "amqp_msg \<Rightarrow> (booking_world, unit) prog" where
  "publish m = stmt (\<lambda>w. (Inr (), w\<lparr>broker := broker w @ [m]\<rparr>))"

definition event_msg :: "OutboxEvent \<Rightarrow> int \<Rightarrow> amqp_msg" where
  "event_msg e t = \<lparr>am_exchange = ''booking.events'', am_routingKey = ob_eventType e,
     am_payload = ob_payload e, am_eventId = ob_eventId e, am_timestamp = t,
     am_trace = (ob_traceId e, ob_spanId e), am_failure = None\<rparr>"

definition dlq_msg :: "OutboxEvent \<Rightarrow> exn \<Rightarrow> int \<Rightarrow> amqp_msg" where
  "dlq_msg e err t = \<lparr>am_exchange = ''booking.dlq'', am_routingKey = ob_eventType e,
     am_payload = ob_payload e, am_eventId = ob_eventId e, am_timestamp = t,
     am_trace = (None, None), am_failure = Some (exn_message err, ob_retryCount e)\<rparr>"

text \<open>The four updates of an event's row.\<close>

definition processing :: "OutboxEvent \<Rightarrow> OutboxEvent" where
  "processing e = e\<lparr>ob_status := OS_PROCESSING\<rparr>"

definition published :: "int \<Rightarrow> OutboxEvent \<Rightarrow> OutboxEvent" where
  "published t e = e\<lparr>ob_status := OS_PUBLISHED, ob_publishedAt := Some t\<rparr>"

definition retried :: "OutboxEvent \<Rightarrow> exn \<Rightarrow> OutboxEvent \<Rightarrow> OutboxEvent" where
  "retried event err e = e\<lparr>ob_status := OS_PENDING, ob_retryCount := ob_retryCount event + 1,
                           ob_lastError := Some (exn_message err)\<rparr>"

definition dead_letter :: "exn \<Rightarrow> OutboxEvent \<Rightarrow> OutboxEvent" where
  "dead_letter err e = e\<lparr>ob_status := OS_FAILED,
                         ob_lastError := Some (''Max retries exceeded: '' @ exn_message err)\<rparr>"

definition moveToDeadLetterQueue :: "OutboxEvent \<Rightarrow> exn \<Rightarrow> (booking_world, unit) prog" where
  "moveToDeadLetterQueue event err =
     andThen (update_event (ob_id event) (dead_letter err)) (\<lambda>_.
       tryCatch (\<lambda>w. publish (dlq_msg event err (now w)) w) (\<lambda>_. ret ()))"

definition publishEvent :: "OutboxEvent \<Rightarrow> (booking_world, unit) prog" where
  "publishEvent event =
     tryCatch
       (andThen (update_event (ob_id event) processing) (\<lambda>_.
        andThen (\<lambda>w. publish (event_msg event (now w)) w) (\<lambda>_ w.
          update_event (ob_id event) (published (now w)) w)))
       (\<lambda>err. andThen (update_event (ob_id event) (retried event err)) (\<lambda>_.
                if ob_maxRetries event \<le> ob_retryCount event + 1
                then moveToDeadLetterQueue event err else ret ()))"

text \<open>\<open>order: createdAt ASC, take: 100\<close>; rows of one millisecond stay in insertion order.\<close>

definition pending_batch :: "OutboxEvent list \<Rightarrow> OutboxEvent list" where
  "pending_batch rows = take 100 (sort_key ob_createdAt (filter (\<lambda>e. ob_status e = OS_PENDING) rows))"

definition publishPendingEvents :: "(booking_world, unit) prog" where
  "publishPendingEvents =
     tryCatch
       (andThen (query (\<lambda>w. pending_batch (outbox w))) (\<lambda>pendingEvents. forEach publishEvent pendingEvents))
       (\<lambda>_. ret ())"

text \<open>The cut-off is seven days ago; \<open>setDate\<close> counts calendar days, which differ only by a change of the clocks.\<close>

definition sevenDays :: int where
  "sevenDays = 7 * 24 * 60 * 60 * 1000"

definition cleanupOldEvents :: "(booking_world, unit) prog" where
  "cleanupOldEvents = stmt (\<lambda>w.
     (Inr (), w\<lparr>outbox := filter (\<lambda>e. \<not> (ob_status e = OS_PUBLISHED \<and>
        (case ob_publishedAt e of None \<Rightarrow> False | Some t \<Rightarrow> t < now w - sevenDays))) (outbox w)\<rparr>))"

subsection \<open>What one publication does\<close>

definition setrow :: "int \<Rightarrow> (OutboxEvent \<Rightarrow> OutboxEvent) \<Rightarrow> OutboxEvent list \<Rightarrow> OutboxEvent list" where
  "setrow i f rows = map (\<lambda>e. if ob_id e = i then f e else e) rows"

definition failed :: "OutboxEvent \<Rightarrow> OutboxEvent \<Rightarrow> OutboxEvent" where
  "failed event e = dead_letter down (retried event down e)"

lemmas row_defs = processing_def retried_def dead_letter_def failed_def published_def

lemma row_ids [simp]:
  "ob_id (processing e) = ob_id e" "ob_id (published t e) = ob_id e" "ob_id (retried ev err e) = ob_id e"
  "ob_id (dead_letter err e) = ob_id e" "ob_id (failed ev e) = ob_id e"
  by (simp_all add: row_defs)

lemma setrow_setrow: "(\<And>e. ob_id (f e) = ob_id e) \<Longrightarrow> setrow i g (setrow i f rows) = setrow i (\<lambda>e. g (f e)) rows"
  by (simp add: setrow_def)

lemma update_event_eq:
  "update_event i f w = (if failing w then (Inl down, w\<lparr>faults := tl (faults w)\<rparr>)
     else (Inr (), w\<lparr>faults := tl (faults w), outbox := setrow i f (outbox w)\<rparr>))"
  by (simp add: update_event_def stmt_eq setrow_def)

lemma publish_eq:
  "publish m w = (if failing w then (Inl down, w\<lparr>faults := tl (faults w)\<rparr>)
     else (Inr (), w\<lparr>faults := tl (faults w), broker := broker w @ [m]\<rparr>))"
  by (simp add: publish_def stmt_eq)

text \<open>
  The row of the event ends in one of five ways, and what was handed to the broker is known: only a
  published row is marked published.
\<close>

definition outcome :: "OutboxEvent \<Rightarrow> int \<Rightarrow> (OutboxEvent \<Rightarrow> OutboxEvent) \<Rightarrow> amqp_msg list \<Rightarrow> bool" where
  "outcome e t g ms \<longleftrightarrow>
     (g = (\<lambda>x. x) \<and> ms = []) \<or>
     (g = processing \<and> ms \<in> {[], [event_msg e t]}) \<or>
     (g = retried e down \<and> ms \<in> {[], [event_msg e t]}) \<or>
     (g = failed e \<and> ob_maxRetries e \<le> ob_retryCount e + 1 \<and>
        ms \<in> {[], [event_msg e t], [dlq_msg e down t], [event_msg e t, dlq_msg e down t]}) \<or>
     (g = published t \<and> ms = [event_msg e t])"

lemma setrow_id [simp]: "setrow i (\<lambda>x. x) rows = rows"
  by (simp add: setrow_def map_idI)

text \<open>The state after part of a publication: the row changed by \<open>g\<close>, the messages \<open>ms\<close> sent.\<close>

definition reached :: "booking_world \<Rightarrow> int \<Rightarrow> (OutboxEvent \<Rightarrow> OutboxEvent) \<Rightarrow> amqp_msg list \<Rightarrow> booking_world \<Rightarrow> bool" where
  "reached w i g ms w' \<longleftrightarrow>
     (\<forall>e. ob_id (g e) = ob_id e) \<and>
     w' = w\<lparr>faults := faults w', outbox := setrow i g (outbox w), broker := broker w @ ms\<rparr>"

lemma reached_start: "reached w i (\<lambda>x. x) [] w"
  by (simp add: reached_def)

lemma reachedE:
  assumes "reached w i g ms w'"
  obtains fs where "w' = w\<lparr>faults := fs, outbox := setrow i g (outbox w), broker := broker w @ ms\<rparr>"
  using assms by (auto simp: reached_def)

lemma reached_fields:
  assumes "reached w i g ms w'"
  shows "now w' = now w" "outbox w' = setrow i g (outbox w)" "broker w' = broker w @ ms"
    "ob_id (g e) = ob_id e"
proof -
  from assms show "ob_id (g e) = ob_id e" by (simp add: reached_def)
  from assms obtain fs where w': "w' = w\<lparr>faults := fs, outbox := setrow i g (outbox w), broker := broker w @ ms\<rparr>"
    by (rule reachedE)
  show "now w' = now w" "outbox w' = setrow i g (outbox w)" "broker w' = broker w @ ms"
    by (simp_all add: w')
qed

lemma reached_update:
  assumes "reached w i g ms w'" "\<And>e. ob_id (f e) = ob_id e"
  shows "(\<exists>w''. update_event i f w' = (Inl down, w'') \<and> reached w i g ms w'') \<or>
    (\<exists>w''. update_event i f w' = (Inr (), w'') \<and> reached w i (\<lambda>e. f (g e)) ms w'')"
  using assms(1) reached_fields(4) [OF assms(1)] assms(2)
  by (elim reachedE) (auto simp: update_event_eq reached_def setrow_setrow)

lemma reached_publish:
  assumes "reached w i g ms w'"
  shows "(\<exists>w''. publish m w' = (Inl down, w'') \<and> reached w i g ms w'') \<or>
    (\<exists>w''. publish m w' = (Inr (), w'') \<and> reached w i g (ms @ [m]) w'')"
  using assms reached_fields(4) [OF assms]
  by (elim reachedE) (auto simp: publish_eq reached_def)

lemma publishEvent_dlq:
  assumes "reached w (ob_id e) (retried e down) ms w2" "ms \<in> {[], [event_msg e (now w)]}"
    "ob_maxRetries e \<le> ob_retryCount e + 1"
  shows "\<exists>g ms'. outcome e (now w) g ms' \<and> reached w (ob_id e) g ms' (snd (moveToDeadLetterQueue e down w2))"
  using reached_update [OF assms(1), of "dead_letter down", simplified, folded failed_def]
proof (elim disjE exE conjE)
  fix w3
  assume "update_event (ob_id e) (dead_letter down) w2 = (Inl down, w3)"
    "reached w (ob_id e) (retried e down) ms w3"
  then show ?thesis using assms(2)
    by (intro exI [of _ "retried e down"] exI [of _ ms])
      (auto simp: moveToDeadLetterQueue_def andThen_def outcome_def)
next
  fix w3
  assume u: "update_event (ob_id e) (dead_letter down) w2 = (Inr (), w3)"
    and r: "reached w (ob_id e) (failed e) ms w3"
  from reached_publish [OF r, of "dlq_msg e down (now w3)"]
  obtain w4 ms' where p: "snd (publish (dlq_msg e down (now w3)) w3) = w4" "reached w (ob_id e) (failed e) ms' w4"
    "ms' \<in> {ms, ms @ [dlq_msg e down (now w)]}"
    using reached_fields(1) [OF r] by fastforce
  have "snd (moveToDeadLetterQueue e down w2) = w4"
    using u p(1) by (auto simp: moveToDeadLetterQueue_def andThen_def tryCatch_def ret_def split: prod.splits sum.splits)
  with p assms(2,3) show ?thesis
    by (intro exI [of _ "failed e"] exI [of _ ms']) (auto simp: outcome_def)
qed

lemma publishEvent_handler:
  assumes "reached w (ob_id e) g ms w1" "g = (\<lambda>x. x) \<and> ms = [] \<or> g = processing \<and> ms \<in> {[], [event_msg e (now w)]}"
    and h: "h = andThen (update_event (ob_id e) (retried e down)) (\<lambda>_.
       if ob_maxRetries e \<le> ob_retryCount e + 1 then moveToDeadLetterQueue e down else ret ())"
  shows "\<exists>g ms. outcome e (now w) g ms \<and> reached w (ob_id e) g ms (snd (h w1))"
proof -
  have rg: "(\<lambda>x. retried e down (g x)) = retried e down" using assms(2) by (auto simp: row_defs)
  have ms: "ms \<in> {[], [event_msg e (now w)]}" using assms(2) by auto
  show ?thesis
    using reached_update [OF assms(1), of "retried e down", simplified, unfolded rg]
  proof (elim disjE exE conjE)
    fix w2
    assume "update_event (ob_id e) (retried e down) w1 = (Inl down, w2)" "reached w (ob_id e) g ms w2"
    then show ?thesis using assms(2)
      by (intro exI [of _ g] exI [of _ ms]) (auto simp: h andThen_def outcome_def)
  next
    fix w2
    assume b: "update_event (ob_id e) (retried e down) w1 = (Inr (), w2)" "reached w (ob_id e) (retried e down) ms w2"
    show ?thesis
    proof (cases "ob_maxRetries e \<le> ob_retryCount e + 1")
      case True
      with publishEvent_dlq [OF b(2) ms] b(1) show ?thesis by (simp add: h andThen_def)
    next
      case False
      with b ms show ?thesis
        by (intro exI [of _ "retried e down"] exI [of _ ms]) (auto simp: h andThen_def ret_def outcome_def)
    qed
  qed
qed

lemma publishEvent_outcome:
  "\<exists>g ms. outcome e (now w) g ms \<and> reached w (ob_id e) g ms (snd (publishEvent e w))"
proof -
  have pub: "(\<lambda>x. published t (processing x)) = published t" for t by (auto simp: row_defs)
  let ?body = "andThen (update_event (ob_id e) processing) (\<lambda>_.
     andThen (\<lambda>w. publish (event_msg e (now w)) w) (\<lambda>_ w. update_event (ob_id e) (published (now w)) w))"
  have fail: "\<exists>g ms. outcome e (now w) g ms \<and> reached w (ob_id e) g ms (snd (publishEvent e w))"
    if "?body w = (Inl down, w1)" "reached w (ob_id e) g ms w1"
      "g = (\<lambda>x. x) \<and> ms = [] \<or> g = processing \<and> ms \<in> {[], [event_msg e (now w)]}" for w1 g ms
    using publishEvent_handler [OF that(2,3) refl] that(1) by (simp add: publishEvent_def tryCatch_def)
  show ?thesis
    using reached_update [OF reached_start, of processing "ob_id e" w, simplified]
  proof (elim disjE exE conjE)
    fix w1
    assume "update_event (ob_id e) processing w = (Inl down, w1)" "reached w (ob_id e) (\<lambda>x. x) [] w1"
    then show ?thesis by (intro fail) (auto simp: andThen_def)
  next
    fix w1
    assume u: "update_event (ob_id e) processing w = (Inr (), w1)" and r1: "reached w (ob_id e) processing [] w1"
    note n1 = reached_fields(1) [OF r1]
    show ?thesis
      using reached_publish [OF r1, of "event_msg e (now w)"]
    proof (elim disjE exE conjE)
      fix w2
      assume "publish (event_msg e (now w)) w1 = (Inl down, w2)" "reached w (ob_id e) processing [] w2"
      then show ?thesis using u n1 by (intro fail) (auto simp: andThen_def)
    next
      fix w2
      assume p: "publish (event_msg e (now w)) w1 = (Inr (), w2)"
        and r2: "reached w (ob_id e) processing ([] @ [event_msg e (now w)]) w2"
      note n2 = reached_fields(1) [OF r2]
      show ?thesis
        using reached_update [OF r2, of "published (now w)", unfolded pub, simplified]
      proof (elim disjE exE conjE)
        fix w3
        assume "update_event (ob_id e) (published (now w)) w2 = (Inl down, w3)"
          "reached w (ob_id e) processing [event_msg e (now w)] w3"
        then show ?thesis using u p n1 n2 by (intro fail) (auto simp: andThen_def)
      next
        fix w3
        assume "update_event (ob_id e) (published (now w)) w2 = (Inr (), w3)"
          "reached w (ob_id e) (published (now w)) [event_msg e (now w)] w3"
        then show ?thesis using u p n1 n2
          by (intro exI [of _ "published (now w)"] exI [of _ "[event_msg e (now w)]"])
            (auto simp: publishEvent_def tryCatch_def andThen_def outcome_def)
      qed
    qed
  qed
qed

subsection \<open>The outbox over any sequence of operations\<close>

text \<open>
  The operations on the outbox in any order, each with whatever calls fail according to the fault
  script of the world.
\<close>

datatype outbox_op = OStore string string string event_payload | OPublish | OCleanup | OTick nat

fun outbox_exec :: "booking_world \<Rightarrow> outbox_op \<Rightarrow> booking_world" where
  "outbox_exec w (OStore ty ag ev p) = snd (storeEvent ty ag ev p w)"
| "outbox_exec w OPublish = snd (publishPendingEvents w)"
| "outbox_exec w OCleanup = snd (cleanupOldEvents w)"
| "outbox_exec w (OTick d) = w\<lparr>now := now w + int d\<rparr>"

text \<open>The columns of an event that no operation changes.\<close>

definition ident :: "OutboxEvent \<Rightarrow> string \<times> string \<times> event_payload" where
  "ident e = (ob_eventId e, ob_eventType e, ob_payload e)"

definition delivered :: "amqp_msg list \<Rightarrow> OutboxEvent \<Rightarrow> bool" where
  "delivered ms e \<longleftrightarrow> (\<exists>m\<in>set ms. am_exchange m = ''booking.events'' \<and>
      (am_eventId m, am_routingKey m, am_payload m) = ident e)"

definition rows_ok :: "booking_world \<Rightarrow> bool" where
  "rows_ok w \<longleftrightarrow> distinct (map ob_id (outbox w)) \<and> distinct (map ob_eventId (outbox w)) \<and>
     (\<forall>e\<in>set (outbox w). ob_id e < serial w)"

definition outbox_inv :: "booking_world \<Rightarrow> bool" where
  "outbox_inv w \<longleftrightarrow> rows_ok w \<and> (\<forall>e\<in>set (outbox w). ob_status e = OS_PUBLISHED \<longrightarrow> delivered (broker w) e)"

text \<open>While a batch is published, its events are the ones in the table, up to the status columns.\<close>

definition batch_ok :: "OutboxEvent list \<Rightarrow> booking_world \<Rightarrow> bool" where
  "batch_ok es w \<longleftrightarrow> (\<forall>e\<in>set es. \<forall>r\<in>set (outbox w). ob_id r = ob_id e \<longrightarrow> ident r = ident e)"

lemma ident_row [simp]:
  "ident (processing e) = ident e" "ident (published t e) = ident e" "ident (retried ev err e) = ident e"
  "ident (failed ev e) = ident e"
  by (simp_all add: ident_def row_defs)

lemma outcome_row:
  assumes "outcome e t g ms"
  shows "ident (g r) = ident r" "ob_id (g r) = ob_id r"
    "ob_status (g r) = OS_PUBLISHED \<Longrightarrow> ob_status r = OS_PUBLISHED \<or> ms = [event_msg e t]"
  using assms by (auto simp: outcome_def row_defs ident_def)

lemma delivered_mono: "delivered ms e \<Longrightarrow> delivered (ms @ ms') e"
  by (auto simp: delivered_def)

lemma delivered_event: "ident r = ident e \<Longrightarrow> delivered (ms @ [event_msg e t]) r"
  by (auto simp: delivered_def event_msg_def ident_def)

lemma reached_world:
  assumes "reached w i g ms w'"
  shows "serial w' = serial w"
  using assms by (elim reachedE) simp

lemma map_setrow:
  "(\<And>r. h (g r) = h r) \<Longrightarrow> map h (setrow i g rows) = map h rows"
  by (simp add: setrow_def)

lemma set_setrow: "r \<in> set (setrow i g rows) \<longleftrightarrow> (\<exists>x\<in>set rows. r = (if ob_id x = i then g x else x))"
  unfolding setrow_def set_map image_iff ..

lemma rows_ok_reached:
  assumes "rows_ok w" "reached w i g ms w'" "\<And>r. ident (g r) = ident r"
  shows "rows_ok w'"
proof -
  have "ob_eventId (g r) = ob_eventId r" for r using assms(3) [of r] by (simp add: ident_def)
  then show ?thesis
    using assms(1) reached_fields(4) [OF assms(2)] reached_world [OF assms(2)]
    by (auto simp: rows_ok_def reached_fields(2) [OF assms(2)] map_setrow set_setrow)
qed

lemma keeps_publishEvent:
  assumes "e \<in> set es"
  shows "keeps (\<lambda>w. outbox_inv w \<and> batch_ok es w) (publishEvent e)"
proof (rule keepsI)
  fix w
  assume inv: "outbox_inv w \<and> batch_ok es w"
  obtain g ms where o: "outcome e (now w) g ms" and r: "reached w (ob_id e) g ms (snd (publishEvent e w))"
    using publishEvent_outcome by blast
  let ?w = "snd (publishEvent e w)"
  have rows: "rows_ok ?w"
    using inv rows_ok_reached [OF _ r outcome_row(1) [OF o]] by (simp add: outbox_inv_def)
  have "batch_ok es ?w"
    using inv by (auto simp: batch_ok_def reached_fields(2) [OF r] set_setrow outcome_row [OF o] if_distrib
        split: if_splits)
  moreover have "delivered (broker ?w) x" if x: "x \<in> set (outbox ?w)" "ob_status x = OS_PUBLISHED" for x
  proof -
    from x obtain r0 where r0: "r0 \<in> set (outbox w)" "x = (if ob_id r0 = ob_id e then g r0 else r0)"
      by (auto simp: reached_fields(2) [OF r] set_setrow)
    show ?thesis
    proof (cases "ob_status r0 = OS_PUBLISHED")
      case True
      with r0 inv have "delivered (broker w) r0" by (simp add: outbox_inv_def)
      then have "delivered (broker w) x"
        using r0(2) outcome_row(1) [OF o, of r0] by (simp add: delivered_def split: if_splits)
      then show ?thesis by (simp add: reached_fields(3) [OF r] delivered_mono)
    next
      case False
      with r0(2) x(2) have eq: "ob_id r0 = ob_id e" "x = g r0" by (auto split: if_splits)
      with False x(2) have "ms = [event_msg e (now w)]" using outcome_row(3) [OF o, of r0] by simp
      moreover have "ident x = ident e"
        using inv assms r0(1) eq outcome_row(1) [OF o, of r0] by (simp add: batch_ok_def)
      ultimately show ?thesis by (simp add: reached_fields(3) [OF r] delivered_event)
    qed
  qed
  ultimately show "outbox_inv ?w \<and> batch_ok es ?w" using rows by (simp add: outbox_inv_def)
qed

lemma set_pending_batch: "set (pending_batch rows) \<subseteq> {e \<in> set rows. ob_status e = OS_PENDING}"
  unfolding pending_batch_def by (auto dest!: in_set_takeD)

lemma distinct_id_eq: "distinct (map f xs) \<Longrightarrow> x \<in> set xs \<Longrightarrow> y \<in> set xs \<Longrightarrow> f x = f y \<Longrightarrow> x = y"
  by (metis distinct_map inj_onD)

text \<open>The job on any property of worlds that publishing a pending event keeps.\<close>

lemma publishPending_keeps:
  assumes "I w" "\<And>v fs. I v \<Longrightarrow> I (v\<lparr>faults := fs\<rparr>)"
    "\<And>e. e \<in> set (pending_batch (outbox w)) \<Longrightarrow> keeps I (publishEvent e)"
  shows "I (snd (publishPendingEvents w))"
proof -
  let ?w1 = "w\<lparr>faults := tl (faults w)\<rparr>"
  have "keeps I (forEach publishEvent (pending_batch (outbox w)))"
    using assms(3) by (rule keeps_forEach_set)
  then have "I (snd (forEach publishEvent (pending_batch (outbox w)) ?w1))"
    using assms(1,2) by (auto simp: keeps_def)
  then show ?thesis
    using assms(1,2)
    by (auto simp: publishPendingEvents_def tryCatch_def andThen_def query_eq ret_def split: prod.splits sum.splits)
qed

lemma outbox_inv_faults [simp]:
  "outbox_inv (v\<lparr>faults := fs\<rparr>) = outbox_inv v" "batch_ok es (v\<lparr>faults := fs\<rparr>) = batch_ok es v"
  "rows_ok (v\<lparr>faults := fs\<rparr>) = rows_ok v"
  by (simp_all add: outbox_inv_def batch_ok_def rows_ok_def)

lemma outbox_inv_publish: "outbox_inv w \<Longrightarrow> outbox_inv (snd (publishPendingEvents w))"
proof -
  assume inv: "outbox_inv w"
  let ?es = "pending_batch (outbox w)"
  have "batch_ok ?es w"
    unfolding batch_ok_def
  proof (intro ballI impI)
    fix e r
    assume "e \<in> set ?es" "r \<in> set (outbox w)" "ob_id r = ob_id e"
    moreover from this have "e \<in> set (outbox w)" using set_pending_batch by blast
    ultimately have "r = e" using inv distinct_id_eq [of ob_id "outbox w" r e] by (simp add: outbox_inv_def rows_ok_def)
    then show "ident r = ident e" by simp
  qed
  with inv have start: "outbox_inv w \<and> batch_ok ?es w" by simp
  have "outbox_inv (snd (publishPendingEvents w)) \<and> batch_ok ?es (snd (publishPendingEvents w))"
    by (rule publishPending_keeps [where I = "\<lambda>v. outbox_inv v \<and> batch_ok ?es v", OF start])
      (simp_all add: keeps_publishEvent)
  then show ?thesis ..
qed

lemma outbox_inv_store: "outbox_inv w \<Longrightarrow> outbox_inv (snd (storeEvent ty ag ev p w))"
  by (auto simp: storeEvent_def andThen_def freshUuid_def stmt_eq Let_def outbox_inv_def rows_ok_def
      intro: less_imp_le order.strict_trans)

lemma outbox_inv_cleanup: "outbox_inv w \<Longrightarrow> outbox_inv (snd (cleanupOldEvents w))"
  by (auto simp: cleanupOldEvents_def stmt_eq outbox_inv_def rows_ok_def distinct_map_filter)

lemma outbox_exec_inv: "outbox_inv w \<Longrightarrow> outbox_inv (outbox_exec w x)"
  by (cases x) (simp_all add: outbox_inv_publish outbox_inv_store outbox_inv_cleanup,
    simp add: outbox_inv_def rows_ok_def)

interpretation outbox_machine: invariant_machine outbox_exec outbox_inv
  by unfold_locales (rule outbox_exec_inv)

subsection \<open>An event that is left in processing\<close>

definition stuck :: "OutboxEvent \<Rightarrow> amqp_msg list \<Rightarrow> booking_world \<Rightarrow> bool" where
  "stuck p ms w \<longleftrightarrow> rows_ok w \<and> p \<in> set (outbox w) \<and>
     filter (\<lambda>m. am_eventId m = ob_eventId p) (broker w) = ms"

lemma stuck_faults [simp]: "stuck p ms (v\<lparr>faults := fs\<rparr>) = stuck p ms v"
  by (simp add: stuck_def)

lemma outcome_msgs: "outcome e t g ms \<Longrightarrow> m \<in> set ms \<Longrightarrow> am_eventId m = ob_eventId e"
  by (auto simp: outcome_def event_msg_def dlq_msg_def)

lemma keeps_stuck:
  assumes "ob_id e \<noteq> ob_id p" "ob_eventId e \<noteq> ob_eventId p"
  shows "keeps (stuck p ms) (publishEvent e)"
proof (rule keepsI)
  fix w
  assume st: "stuck p ms w"
  obtain g ms' where o: "outcome e (now w) g ms'" and r: "reached w (ob_id e) g ms' (snd (publishEvent e w))"
    using publishEvent_outcome by blast
  have "filter (\<lambda>m. am_eventId m = ob_eventId p) ms' = []"
    using outcome_msgs [OF o] assms(2) by (auto simp: filter_empty_conv)
  moreover have "p \<in> set (setrow (ob_id e) g (outbox w))"
    using st assms(1) by (auto simp: stuck_def setrow_def)
  moreover have "rows_ok (snd (publishEvent e w))"
    using st rows_ok_reached [OF _ r outcome_row(1) [OF o]] by (simp add: stuck_def)
  ultimately show "stuck p ms (snd (publishEvent e w))"
    using st by (simp add: stuck_def reached_fields [OF r])
qed

lemma stuck_exec:
  assumes st: "stuck p ms w" and proc: "ob_status p = OS_PROCESSING"
  shows "stuck p ms (outbox_exec w x)"
proof (cases x)
  case (OStore ty ag ev pl)
  with st show ?thesis
    by (auto simp: storeEvent_def andThen_def freshUuid_def stmt_eq Let_def stuck_def rows_ok_def
        intro: less_imp_le order.strict_trans)
next
  case OPublish
  have "keeps (stuck p ms) (publishEvent e)" if "e \<in> set (pending_batch (outbox w))" for e
  proof -
    have e: "e \<in> set (outbox w)" "ob_status e = OS_PENDING" using that set_pending_batch by blast+
    with proc have "e \<noteq> p" by auto
    then have "ob_id e \<noteq> ob_id p" "ob_eventId e \<noteq> ob_eventId p"
      using e(1) st distinct_id_eq [of ob_id "outbox w" e p] distinct_id_eq [of ob_eventId "outbox w" e p]
      by (auto simp: stuck_def rows_ok_def)
    then show ?thesis by (rule keeps_stuck)
  qed
  then have "stuck p ms (snd (publishPendingEvents w))"
    by (intro publishPending_keeps [where I = "stuck p ms", OF st]) simp_all
  then show ?thesis by (simp add: OPublish)
next
  case OCleanup
  with st proc show ?thesis
    by (auto simp: cleanupOldEvents_def stmt_eq stuck_def rows_ok_def distinct_map_filter)
next
  case (OTick d)
  with st show ?thesis by (simp add: stuck_def rows_ok_def)
qed

interpretation stuck_machine: guarded_machine outbox_exec "\<lambda>_ _. True"
  "\<lambda>w. stuck p ms w \<and> ob_status p = OS_PROCESSING" for p ms
  by unfold_locales (simp add: stuck_exec)

subsection \<open>Publication without faults\<close>

lemma publishEvent_ok:
  "faults w = [] \<Longrightarrow> publishEvent e w =
     (Inr (), w\<lparr>outbox := setrow (ob_id e) (published (now w)) (outbox w), broker := broker w @ [event_msg e (now w)]\<rparr>)"
  by (simp add: publishEvent_def tryCatch_def andThen_def update_event_eq publish_eq setrow_setrow)
    (simp add: setrow_def row_defs)

lemma publish_all_ok:
  "faults w = [] \<Longrightarrow> forEach publishEvent es w =
     (Inr (), w\<lparr>outbox := map (\<lambda>r. if ob_id r \<in> ob_id ` set es then published (now w) r else r) (outbox w),
        broker := broker w @ map (\<lambda>e. event_msg e (now w)) es\<rparr>)"
proof (induction es arbitrary: w)
  case Nil
  then show ?case by (simp add: ret_def map_idI)
next
  case (Cons e es)
  then show ?case
    by (simp add: andThen_def publishEvent_ok setrow_def o_def) (auto simp: published_def)
qed

subsection \<open>Properties\<close>

text \<open>C5. An event is marked PUBLISHED only after RabbitMQ has accepted it. Starting from an empty
  outbox, after any sequence of stored events, publication jobs, clean-ups and waiting, and whichever
  database and broker calls fail on the way, every PUBLISHED event has its message, with its id, type
  and payload, on the exchange \<open>booking.events\<close>.\<close>

theorem outbox_published_delivered:
  assumes "outbox w = []" and "e \<in> set (outbox (run_steps outbox_exec w ops))" and "ob_status e = OS_PUBLISHED"
  shows "\<exists>m\<in>set (broker (run_steps outbox_exec w ops)). am_exchange m = ''booking.events'' \<and>
    am_eventId m = ob_eventId e \<and> am_routingKey m = ob_eventType e \<and> am_payload m = ob_payload e"
proof -
  have "outbox_inv w" using assms(1) by (simp add: outbox_inv_def rows_ok_def)
  then have "outbox_inv (run_steps outbox_exec w ops)" by (rule outbox_machine.run_keeps)
  with assms(2,3) have "delivered (broker (run_steps outbox_exec w ops)) e" by (simp add: outbox_inv_def)
  then show ?thesis by (auto simp: delivered_def ident_def)
qed

text \<open>The batch as the query promises it: pending rows, oldest first, a hundred if there are so many, and
  none left out that is older than one taken.\<close>

lemma pending_batch_spec:
  fixes rows :: "OutboxEvent list"
  defines "pending \<equiv> filter (\<lambda>e. ob_status e = OS_PENDING) rows"
  assumes "distinct (map ob_id rows)"
  shows "length (pending_batch rows) = min 100 (length pending)"
    and "distinct (map ob_id (pending_batch rows))" and "sorted (map ob_createdAt (pending_batch rows))"
    and "\<forall>e\<in>set pending - set (pending_batch rows). \<forall>x\<in>set (pending_batch rows). ob_createdAt x \<le> ob_createdAt e"
proof -
  let ?s = "sort_key ob_createdAt pending"
  have batch: "pending_batch rows = take 100 ?s" by (simp add: pending_batch_def pending_def)
  show "length (pending_batch rows) = min 100 (length pending)" by (simp add: batch)
  have "distinct (map ob_id pending)" unfolding pending_def by (rule distinct_map_filter [OF assms(2)])
  then have "distinct (map ob_id ?s)" by (simp add: distinct_map)
  then show "distinct (map ob_id (pending_batch rows))" unfolding batch take_map [symmetric] by (rule distinct_take)
  have sorted: "sorted (map ob_createdAt ?s)" by simp
  then show "sorted (map ob_createdAt (pending_batch rows))"
    unfolding batch take_map [symmetric] by (rule sorted_wrt_take)
  show "\<forall>e\<in>set pending - set (pending_batch rows). \<forall>x\<in>set (pending_batch rows). ob_createdAt x \<le> ob_createdAt e"
  proof (intro ballI)
    fix e x
    assume e: "e \<in> set pending - set (pending_batch rows)" and x: "x \<in> set (pending_batch rows)"
    have "sorted_wrt (\<lambda>x y. ob_createdAt x \<le> ob_createdAt y) (take 100 ?s @ drop 100 ?s)"
      using sorted by (simp add: sorted_wrt_map)
    moreover have "e \<in> set (take 100 ?s @ drop 100 ?s)" using e by simp
    then have "e \<in> set (drop 100 ?s)" using e batch by (metis DiffD2 Un_iff set_append)
    ultimately show "ob_createdAt x \<le> ob_createdAt e"
      using x unfolding batch sorted_wrt_append by blast
  qed
qed

text \<open>C6. When nothing fails, one run of the job publishes the oldest pending events: a batch of distinct
  PENDING rows, a hundred of them or all if there are fewer, in the order of their creation, and no pending
  row left out is older than one of the batch. The broker receives exactly their messages in that order,
  exactly those rows become PUBLISHED with the time, and every other row stays as it was.\<close>

theorem outbox_publish_batch:
  assumes "faults w = []" and "distinct (map ob_id (outbox w))"
  shows "\<exists>batch. publishPendingEvents w =
      (Inr (), w\<lparr>outbox := map (\<lambda>r. if r \<in> set batch
                                then r\<lparr>ob_status := OS_PUBLISHED, ob_publishedAt := Some (now w)\<rparr> else r) (outbox w),
         broker := broker w @ map (\<lambda>e. event_msg e (now w)) batch\<rparr>) \<and>
    set batch \<subseteq> {e \<in> set (outbox w). ob_status e = OS_PENDING} \<and> distinct batch \<and>
    length batch = min 100 (card {e \<in> set (outbox w). ob_status e = OS_PENDING}) \<and>
    sorted (map ob_createdAt batch) \<and>
    (\<forall>e\<in>{e \<in> set (outbox w). ob_status e = OS_PENDING} - set batch. \<forall>x\<in>set batch. ob_createdAt x \<le> ob_createdAt e)"
proof -
  let ?es = "pending_batch (outbox w)" and ?p = "{e \<in> set (outbox w). ob_status e = OS_PENDING}"
  have "ob_id r \<in> ob_id ` set ?es \<longleftrightarrow> r \<in> set ?es" if r: "r \<in> set (outbox w)" for r
    using set_pending_batch [of "outbox w"] distinct_id_eq [OF assms(2) r] by blast
  then have "map (\<lambda>r. if ob_id r \<in> ob_id ` set ?es then published (now w) r else r) (outbox w) =
      map (\<lambda>r. if r \<in> set ?es then published (now w) r else r) (outbox w)" by simp
  then have run: "publishPendingEvents w =
    (Inr (), w\<lparr>outbox := map (\<lambda>r. if r \<in> set ?es then published (now w) r else r) (outbox w),
       broker := broker w @ map (\<lambda>e. event_msg e (now w)) ?es\<rparr>)"
    using assms(1) by (simp add: publishPendingEvents_def tryCatch_def andThen_def publish_all_ok)
  have pending: "set (filter (\<lambda>e. ob_status e = OS_PENDING) (outbox w)) = ?p" by auto
  have "distinct (filter (\<lambda>e. ob_status e = OS_PENDING) (outbox w))"
    using assms(2) by (simp add: distinct_map)
  then have "length (filter (\<lambda>e. ob_status e = OS_PENDING) (outbox w)) = card ?p"
    using distinct_card pending by metis
  with pending_batch_spec [OF assms(2)] pending set_pending_batch [of "outbox w"] run show ?thesis
    by (intro exI [of _ ?es]) (simp add: published_def distinct_map)
qed

definition sample_event :: "OutboxEventStatus \<Rightarrow> OutboxEvent" where
  "sample_event st = \<lparr>ob_id = 1, ob_eventId = ''e1'', ob_aggregateType = ''BOOKING'', ob_aggregateId = ''b1'',
     ob_eventType = ''booking.created'',
     ob_payload = \<lparr>ep_bookingId = ''b1'', ep_userId = Some 5, ep_flightId = None, ep_seatClass = None, ep_seatCount = None\<rparr>,
     ob_status = st, ob_retryCount = 0, ob_maxRetries = 3, ob_lastError = None, ob_publishedAt = None,
     ob_traceId = None, ob_spanId = None, ob_createdAt = 500\<rparr>"

theorem outbox_published_delivered_witness:
  "\<exists>e. e \<in> set (outbox (run_steps outbox_exec sample_world
          [OStore ''BOOKING'' ''b1'' ''booking.created'' (ob_payload (sample_event OS_PENDING)), OPublish])) \<and>
     ob_status e = OS_PUBLISHED \<and>
     (\<exists>m\<in>set (broker (run_steps outbox_exec sample_world
          [OStore ''BOOKING'' ''b1'' ''booking.created'' (ob_payload (sample_event OS_PENDING)), OPublish])).
        am_eventId m = ob_eventId e)"
proof -
  let ?ops = "[OStore ''BOOKING'' ''b1'' ''booking.created'' (ob_payload (sample_event OS_PENDING)), OPublish]"
  have start: "outbox sample_world = []" by (simp add: sample_world_def)
  obtain w1 e where w1: "outbox_exec sample_world (hd ?ops) = w1" "outbox w1 = [e]" "faults w1 = []" "ob_status e = OS_PENDING"
    by (simp add: storeEvent_def andThen_def freshUuid_def Let_def sample_world_def event_columns_ok_def show_nat.simps)
  have "pending_batch (outbox w1) = [e]" using w1 by (simp add: pending_batch_def)
  then have "outbox (outbox_exec w1 OPublish) = [published (now w1) e]"
    using w1(2,3) by (simp add: publishPendingEvents_def tryCatch_def andThen_def publishEvent_ok setrow_def ret_def)
  then have in1: "published (now w1) e \<in> set (outbox (run_steps outbox_exec sample_world ?ops))"
    using w1(1) by simp
  have st: "ob_status (published (now w1) e) = OS_PUBLISHED" by (simp add: published_def)
  from outbox_published_delivered [OF start in1 st] in1 st show ?thesis by blast
qed

theorem outbox_publish_batch_witness:
  "\<exists>w'. publishPendingEvents (sample_world\<lparr>outbox := [sample_event OS_PENDING, sample_event OS_FAILED\<lparr>ob_id := 2\<rparr>]\<rparr>) = (Inr (), w') \<and>
     map am_eventId (broker w') = [''e1''] \<and> map ob_status (outbox w') = [OS_PUBLISHED, OS_FAILED]"
proof -
  let ?e = "sample_event OS_PENDING" and ?f = "sample_event OS_FAILED\<lparr>ob_id := 2\<rparr>"
  let ?w = "sample_world\<lparr>outbox := [?e, ?f]\<rparr>"
  have w: "faults ?w = []" "distinct (map ob_id (outbox ?w))" by (simp_all add: sample_world_def sample_event_def)
  have ne: "?f \<noteq> ?e" by (simp add: sample_event_def)
  have p: "{e \<in> set (outbox ?w). ob_status e = OS_PENDING} = {?e}" by (auto simp: sample_event_def)
  from outbox_publish_batch [OF w, unfolded p] obtain batch where
    run: "publishPendingEvents ?w = (Inr (), ?w\<lparr>outbox := map (\<lambda>r. if r \<in> set batch
      then r\<lparr>ob_status := OS_PUBLISHED, ob_publishedAt := Some (now ?w)\<rparr> else r) (outbox ?w),
      broker := broker ?w @ map (\<lambda>e. event_msg e (now ?w)) batch\<rparr>)"
    and b: "set batch \<subseteq> {?e}" "length batch = min 100 (card {?e})" by blast
  have "batch = [?e]" using b by (cases batch) auto
  with run ne show ?thesis
    by (simp add: event_msg_def sample_world_def) (simp add: sample_event_def)
qed

text \<open>C7. When RabbitMQ refuses an event, the event is not lost: its row goes back to PENDING with one
  more retry and the error, and at the last allowed retry it becomes FAILED and one message with the
  reason goes to the dead letter exchange instead.\<close>

theorem outbox_publish_refused:
  assumes "faults w = [False, True]"
  shows "publishEvent e w =
    (Inr (), w\<lparr>faults := [],
       outbox := map (\<lambda>r. if ob_id r = ob_id e
           then (if ob_maxRetries e \<le> ob_retryCount e + 1
                 then r\<lparr>ob_status := OS_FAILED, ob_retryCount := ob_retryCount e + 1,
                        ob_lastError := Some ''Max retries exceeded: Connection terminated''\<rparr>
                 else r\<lparr>ob_status := OS_PENDING, ob_retryCount := ob_retryCount e + 1,
                        ob_lastError := Some ''Connection terminated''\<rparr>)
           else r) (outbox w),
       broker := broker w @ (if ob_maxRetries e \<le> ob_retryCount e + 1 then [dlq_msg e down (now w)] else [])\<rparr>)"
proof -
  have w: "faults (w\<lparr>faults := [], outbox := r\<rparr>) = []" for r by simp
  have "publishEvent e w =
    (Inr (), w\<lparr>faults := [],
       outbox := setrow (ob_id e) (if ob_maxRetries e \<le> ob_retryCount e + 1 then failed e else retried e down) (outbox w),
       broker := broker w @ (if ob_maxRetries e \<le> ob_retryCount e + 1 then [dlq_msg e down (now w)] else [])\<rparr>)"
    using assms
    by (simp add: publishEvent_def moveToDeadLetterQueue_def tryCatch_def andThen_def update_event_eq publish_eq
        setrow_setrow ret_def) (simp add: setrow_def row_defs)
  then show ?thesis by (auto simp: setrow_def row_defs down_def)
qed

theorem outbox_publish_refused_witness:
  "\<exists>w'. publishEvent ((sample_event OS_PENDING)\<lparr>ob_retryCount := 2\<rparr>)
        (sample_world\<lparr>faults := [False, True], outbox := [sample_event OS_PENDING]\<rparr>) = (Inr (), w') \<and>
     map ob_status (outbox w') = [OS_FAILED] \<and> map am_exchange (broker w') = [''booking.dlq'']"
proof -
  have "faults (sample_world\<lparr>faults := [False, True], outbox := [sample_event OS_PENDING]\<rparr>) = [False, True]"
    by simp
  from outbox_publish_refused [OF this] show ?thesis
    by (simp add: sample_event_def dlq_msg_def sample_world_def)
qed

text \<open>A crash or a double failure strands an event. Once a row is PROCESSING (the database failing
  while the job records a failed publication leaves it so), no later run of any job touches it: the
  row stays as it is and no message of the event is ever sent.\<close>

theorem outbox_processing_stranded:
  assumes "distinct (map ob_id (outbox w))" and "distinct (map ob_eventId (outbox w))"
    and "\<forall>e\<in>set (outbox w). ob_id e < serial w"
    and "p \<in> set (outbox w)" and "ob_status p = OS_PROCESSING"
  shows "p \<in> set (outbox (run_steps outbox_exec w ops)) \<and>
    filter (\<lambda>m. am_eventId m = ob_eventId p) (broker (run_steps outbox_exec w ops)) =
    filter (\<lambda>m. am_eventId m = ob_eventId p) (broker w)"
proof -
  let ?ms = "filter (\<lambda>m. am_eventId m = ob_eventId p) (broker w)"
  have "stuck p ?ms w \<and> ob_status p = OS_PROCESSING" using assms by (simp add: stuck_def rows_ok_def)
  moreover have "all_ok outbox_exec (\<lambda>_ _. True) w ops" by (induction ops arbitrary: w) auto
  ultimately have "stuck p ?ms (run_steps outbox_exec w ops)"
    using stuck_machine.run_inv [of p ?ms w ops] by blast
  then show ?thesis by (simp add: stuck_def)
qed

theorem outbox_processing_stranded_witness:
  "\<exists>w. outbox_exec (sample_world\<lparr>faults := [False, False, True, True], serial := 2, outbox := [sample_event OS_PENDING]\<rparr>) OPublish = w \<and>
     outbox w = [sample_event OS_PROCESSING] \<and>
     sample_event OS_PROCESSING \<in> set (outbox (run_steps outbox_exec w [OTick 5000, OPublish, OPublish])) \<and>
     filter (\<lambda>m. am_eventId m = ''e1'') (broker (run_steps outbox_exec w [OTick 5000, OPublish, OPublish])) = []"
proof -
  let ?w0 = "sample_world\<lparr>faults := [False, False, True, True], serial := 2, outbox := [sample_event OS_PENDING]\<rparr>"
  define w where "w = outbox_exec ?w0 OPublish"
  have batch: "pending_batch [sample_event OS_PENDING] = [sample_event OS_PENDING]"
    by (simp add: pending_batch_def sample_event_def)
  have w: "outbox w = [sample_event OS_PROCESSING]" "serial w = 2" "broker w = []"
    by (simp_all add: w_def publishPendingEvents_def tryCatch_def andThen_def query_eq batch publishEvent_def
        update_event_eq publish_eq setrow_def processing_def ret_def)
      (simp_all add: sample_event_def sample_world_def)
  have p: "sample_event OS_PROCESSING \<in> set (outbox w)" "ob_status (sample_event OS_PROCESSING) = OS_PROCESSING"
    "ob_eventId (sample_event OS_PROCESSING) = ''e1''"
    by (simp_all add: w sample_event_def)
  have ok: "distinct (map ob_id (outbox w))" "distinct (map ob_eventId (outbox w))"
    "\<forall>e\<in>set (outbox w). ob_id e < serial w"
    by (simp_all add: w sample_event_def)
  show ?thesis
    using outbox_processing_stranded [OF ok p(1,2), of "[OTick 5000, OPublish, OPublish]"] p(3) w w_def by auto
qed

end
