(* ===== verification/Saga.thy ===== *)
theory Saga
  imports Outbox
begin

text \<open>
  The booking saga (apps/booking-service/src/booking-saga/saga-orchestrator.service.ts): create the
  booking, lock its seats, request the reservation, later complete or compensate. Every step runs
  its database changes in a transaction, together with the outbox event it stores. The saga object
  that the steps pass to each other is \<open>obj\<close>.
\<close>

subsection \<open>Requests\<close>

definition seatClasses :: "string list" where
  "seatClasses = [''ECONOMY'', ''PREMIUM_ECONOMY'', ''BUSINESS'', ''FIRST_CLASS'']"

definition resolvedSeatClass :: "CreateBookingDto \<Rightarrow> string" where
  "resolvedSeatClass dto =
     (if \<not> truthy (cb_seatClass dto) \<and> truthy (cb_seatPreference dto) \<and>
         to_upper (the (cb_seatPreference dto)) \<in> set seatClasses
      then to_upper (the (cb_seatPreference dto))
      else or_str (cb_seatClass dto) ''ECONOMY'')"

definition seatCount :: "CreateBookingDto \<Rightarrow> int" where
  "seatCount dto = or_int (cb_seats dto)
     (case cb_seatNumbers dto of None \<Rightarrow> 1 | Some seats \<Rightarrow> int (length seats))"

definition dtoSeats :: "CreateBookingDto \<Rightarrow> string list" where
  "dtoSeats dto = (case cb_seatNumbers dto of None \<Rightarrow> [] | Some seats \<Rightarrow> seats)"

definition new_booking :: "SagaState \<Rightarrow> int \<Rightarrow> Booking" where
  "new_booking s t =
     (let dto = sg_payload s
      in blank_booking\<lparr>bk_bookingReference := sg_bookingId s, bk_userId := cb_userId dto,
           bk_flightId := cb_flightId dto, bk_noOfSeats := seatCount dto, bk_seatNumbers := dtoSeats dto,
           bk_seatClass := Some (resolvedSeatClass dto),
           bk_totalCost := (case cb_totalCost dto of None \<Rightarrow> 0 | Some c \<Rightarrow> c),
           bk_passengerName := Some (or_str (cb_passengerName dto) ''Unknown''),
           bk_passengerEmail := Some (or_str (cb_passengerEmail dto) ''''),
           bk_passengerPhone := Some (or_str (cb_passengerPhone dto) ''''),
           bk_status := BS_INITIATED, bk_paymentStatus := PS_PENDING,
           bk_expiresAt := Some (t + 15 * 60 * 1000)\<rparr>)"

text \<open>Payloads of the events.\<close>

definition user_payload :: "string \<Rightarrow> CreateBookingDto \<Rightarrow> event_payload" where
  "user_payload bookingId dto = \<lparr>ep_bookingId = bookingId, ep_userId = Some (cb_userId dto),
     ep_flightId = None, ep_seatClass = None, ep_seatCount = None\<rparr>"

definition seat_payload :: "string \<Rightarrow> CreateBookingDto \<Rightarrow> event_payload" where
  "seat_payload bookingId dto = \<lparr>ep_bookingId = bookingId, ep_userId = None,
     ep_flightId = Some (cb_flightId dto), ep_seatClass = Some (or_str (cb_seatClass dto) ''ECONOMY''),
     ep_seatCount = Some (seatCount dto)\<rparr>"

subsection \<open>Calls of the seat lock service\<close>

text \<open>
  Each Redis round trip may fail: \<open>lockSeats\<close> makes one, and a second one for the script;
  \<open>releaseSeats\<close> and \<open>extendLock\<close> make one, and a second one for the pipeline. (The TTL queries of
  \<open>extendLock\<close> count as one with its pipeline.)
\<close>

definition lockSeats_call ::
  "int \<Rightarrow> string list \<Rightarrow> string \<Rightarrow> int \<Rightarrow> (booking_world, SeatLockResult) prog" where
  "lockSeats_call flightId seats bookingId userId =
     (case validateSeatsExist seats of
        Inl e \<Rightarrow> throw e
      | Inr _ \<Rightarrow>
          andThen external (\<lambda>_ w.
            (let finish = (\<lambda>w. case lockSeats flightId seats bookingId userId (now w) (locks w) of
                             (r, lks) \<Rightarrow> (r, w\<lparr>locks := lks\<rparr>))
             in if booking_seats (now w) flightId bookingId (locks w) \<noteq> None \<or> seats = [] then finish w
                else andThen external (\<lambda>_. finish) w)))"

definition releaseSeats_call :: "int \<Rightarrow> string \<Rightarrow> (booking_world, unit) prog" where
  "releaseSeats_call flightId bookingId =
     andThen external (\<lambda>_ w.
       if booking_seats (now w) flightId bookingId (locks w) = None then (Inr (), w)
       else andThen external (\<lambda>_. modify (\<lambda>w. w\<lparr>locks := releaseSeats flightId bookingId (now w) (locks w)\<rparr>)) w)"

definition extendLock_call :: "int \<Rightarrow> string \<Rightarrow> int \<Rightarrow> (booking_world, bool) prog" where
  "extendLock_call flightId bookingId secs =
     andThen external (\<lambda>_ w.
       if booking_seats (now w) flightId bookingId (locks w) = None then (Inr False, w)
       else andThen external (\<lambda>_ w. case extendLock flightId bookingId secs (now w) (locks w) of
              (r, lks) \<Rightarrow> (Inr r, w\<lparr>locks := lks\<rparr>)) w)"

subsection \<open>Compensation\<close>

definition set_obj :: "(SagaState \<Rightarrow> SagaState) \<Rightarrow> (booking_world, unit) prog" where
  "set_obj f = modify (\<lambda>w. w\<lparr>obj := f (obj w)\<rparr>)"

definition cancelled :: "string \<Rightarrow> int \<Rightarrow> Booking \<Rightarrow> Booking" where
  "cancelled msg t b = b\<lparr>bk_status := BS_CANCELLED,
     bk_cancellationReason := Some (''Saga failed: '' @ msg), bk_cancelledAt := Some t\<rparr>"

definition compensate_event :: "(booking_world, unit) prog" where
  "compensate_event w =
     (if 3 \<le> sg_currentStep (obj w)
      then andThen (storeEvent ''BOOKING'' (sg_bookingId (obj w)) ''flight.release-seats''
              (seat_payload (sg_bookingId (obj w)) (sg_payload (obj w)))) (\<lambda>_. ret ())
      else ret ()) w"

definition compensate_locks :: "(booking_world, unit) prog" where
  "compensate_locks w =
     (if 2 \<le> sg_currentStep (obj w)
      then releaseSeats_call (cb_flightId (sg_payload (obj w))) (sg_bookingId (obj w))
      else ret ()) w"

definition compensate_body :: "string \<Rightarrow> (booking_world, unit) prog" where
  "compensate_body msg =
     andThen (set_obj (\<lambda>s. s\<lparr>sg_status := SG_COMPENSATING, sg_errorMessage := Some msg\<rparr>)) (\<lambda>_.
     andThen save_obj (\<lambda>_.
     andThen compensate_event (\<lambda>_.
     andThen compensate_locks (\<lambda>_.
     andThen (\<lambda>w. update_bookings (\<lambda>b. bk_bookingReference b = sg_bookingId (obj w)) (cancelled msg (now w)) w) (\<lambda>_.
     andThen (set_obj (\<lambda>s. s\<lparr>sg_status := SG_COMPENSATED\<rparr>)) (\<lambda>_. save_obj))))))"

definition compensate :: "string \<Rightarrow> (booking_world, unit) prog" where
  "compensate msg w =
     (if sg_status (obj w) = SG_COMPENSATED then (Inr (), w)
      else tryCatch (transaction (compensate_body msg)) (\<lambda>_. ret ()) w)"

subsection \<open>The steps\<close>

definition step1_body :: "(booking_world, unit) prog" where
  "step1_body =
     andThen (\<lambda>w. insert_booking (new_booking (obj w) (now w)) w) (\<lambda>_.
     andThen (set_obj (\<lambda>s. s\<lparr>sg_currentStep := 1, sg_status := SG_INITIATED\<rparr>)) (\<lambda>_.
     andThen save_obj (\<lambda>_ w.
       andThen (storeEvent ''BOOKING'' (sg_bookingId (obj w)) ''booking.created''
                  (user_payload (sg_bookingId (obj w)) (sg_payload (obj w)))) (\<lambda>_. ret ()) w)))"

definition executeStep1_CreateBooking :: "(booking_world, unit) prog" where
  "executeStep1_CreateBooking w =
     (if 1 \<le> sg_currentStep (obj w) then (Inr (), w) else transaction step1_body w)"

text \<open>\<open>catch (error) { await this.compensate(sagaState, error); throw error; }\<close>\<close>

definition compensating :: "(booking_world, unit) prog \<Rightarrow> (booking_world, unit) prog" where
  "compensating m = tryCatch m (\<lambda>e. andThen (compensate (exn_message e)) (\<lambda>_. throw e))"

definition step2_body :: "SeatLockResult \<Rightarrow> (booking_world, unit) prog" where
  "step2_body locked =
     andThen (set_obj (\<lambda>s. s\<lparr>sg_currentStep := 2, sg_status := SG_SEATS_LOCKED,
                             sg_lockKey := Some (lockKey locked)\<rparr>)) (\<lambda>_. save_obj)"

definition executeStep2_LockSeats :: "(booking_world, unit) prog" where
  "executeStep2_LockSeats w =
     (if 2 \<le> sg_currentStep (obj w) then (Inr (), w)
      else let dto = sg_payload (obj w)
           in compensating
                (andThen (lockSeats_call (cb_flightId dto) (dtoSeats dto) (sg_bookingId (obj w)) (cb_userId dto))
                  (\<lambda>locked.
                     if \<not> success locked
                     then throw (JsError (''Failed to lock seats: '' @ join '', '' (failedSeats locked)))
                     else transaction (step2_body locked))) w)"

definition step3_body :: "(booking_world, unit) prog" where
  "step3_body =
     andThen (\<lambda>w. storeEvent ''BOOKING'' (sg_bookingId (obj w)) ''flight.reserve-seats''
                (seat_payload (sg_bookingId (obj w)) (sg_payload (obj w))) w) (\<lambda>_.
     andThen (set_obj (\<lambda>s. s\<lparr>sg_currentStep := 3, sg_status := SG_FLIGHT_RESERVED\<rparr>)) (\<lambda>_.
     andThen save_obj (\<lambda>_ w.
       update_bookings (\<lambda>b. bk_bookingReference b = sg_bookingId (obj w)) (\<lambda>b. b\<lparr>bk_status := BS_PENDING\<rparr>) w)))"

definition executeStep3_ReserveFlightSeats :: "(booking_world, unit) prog" where
  "executeStep3_ReserveFlightSeats w =
     (if 3 \<le> sg_currentStep (obj w) then (Inr (), w)
      else compensating (transaction step3_body) w)"

subsection \<open>The orchestrator\<close>

definition new_saga :: "string \<Rightarrow> string \<Rightarrow> CreateBookingDto \<Rightarrow> string option \<Rightarrow> SagaState" where
  "new_saga sagaId bookingId dto key = \<lparr>sg_id = 0, sg_sagaId = sagaId, sg_sagaType = ''CREATE_BOOKING'',
     sg_bookingId = bookingId, sg_status = SG_INITIATED, sg_currentStep = 0, sg_totalSteps = 6,
     sg_payload = dto, sg_lockKey = None, sg_errorMessage = None, sg_retryCount = 0, sg_maxRetries = 3,
     sg_lastErrorAt = None, sg_completedAt = None, sg_compensatedAt = None, sg_idempotencyKey = key,
     sg_createdAt = 0, sg_updatedAt = 0\<rparr>"

definition run_saga :: "CreateBookingDto \<Rightarrow> string option \<Rightarrow> (booking_world, Booking option) prog" where
  "run_saga dto key =
     andThen freshUuid (\<lambda>sagaId.
     andThen freshUuid (\<lambda>bookingId.
     andThen (insert_saga (new_saga sagaId bookingId dto key)) (\<lambda>sagaState.
     andThen (set_obj (\<lambda>_. sagaState)) (\<lambda>_.
     andThen executeStep1_CreateBooking (\<lambda>_.
     andThen executeStep2_LockSeats (\<lambda>_.
     andThen executeStep3_ReserveFlightSeats (\<lambda>_. findByReference bookingId)))))))"

definition executeBookingSaga :: "CreateBookingDto \<Rightarrow> string option \<Rightarrow> (booking_world, Booking option) prog" where
  "executeBookingSaga dto idempotencyKey =
     (if truthy idempotencyKey
      then andThen (find_saga (\<lambda>s. sg_idempotencyKey s = idempotencyKey)) (\<lambda>existing.
             case existing of
               Some s \<Rightarrow> findByReference (sg_bookingId s)
             | None \<Rightarrow> run_saga dto idempotencyKey)
      else run_saga dto idempotencyKey)"

definition booked :: "string \<Rightarrow> int \<Rightarrow> Booking \<Rightarrow> Booking" where
  "booked tx t b = b\<lparr>bk_status := BS_BOOKED, bk_paymentStatus := PS_COMPLETED,
     bk_paymentTransactionId := Some tx, bk_paidAt := Some t, bk_expiresAt := None\<rparr>"

definition complete_body :: "string \<Rightarrow> string \<Rightarrow> (booking_world, unit) prog" where
  "complete_body bookingId tx =
     andThen (\<lambda>w. storeEvent ''BOOKING'' bookingId ''flight.confirm-seats''
                (seat_payload bookingId (sg_payload (obj w))) w) (\<lambda>_.
     andThen (\<lambda>w. update_bookings (\<lambda>b. bk_bookingReference b = bookingId) (booked tx (now w)) w) (\<lambda>_.
     andThen (set_obj (\<lambda>s. s\<lparr>sg_currentStep := 6, sg_status := SG_BOOKING_CONFIRMED\<rparr>)) (\<lambda>_.
     andThen save_obj (\<lambda>_ w.
       andThen (storeEvent ''BOOKING'' bookingId ''booking.confirmed''
                  (user_payload bookingId (sg_payload (obj w)))) (\<lambda>_. ret ()) w))))"

definition completeBooking :: "string \<Rightarrow> string \<Rightarrow> (booking_world, Booking option) prog" where
  "completeBooking bookingId tx =
     andThen (find_saga (\<lambda>s. sg_bookingId s = bookingId)) (\<lambda>found.
       case found of
         None \<Rightarrow> throw (JsError ''Saga state not found'')
       | Some s \<Rightarrow>
           if sg_status s = SG_BOOKING_CONFIRMED then findByReference bookingId
           else andThen (set_obj (\<lambda>_. s)) (\<lambda>_.
                andThen (transaction (complete_body bookingId tx)) (\<lambda>_.
                andThen (releaseSeats_call (cb_flightId (sg_payload s)) bookingId) (\<lambda>_.
                  findByReference bookingId))))"

definition cancelBooking :: "string \<Rightarrow> string \<Rightarrow> (booking_world, Booking option) prog" where
  "cancelBooking bookingId reason =
     andThen (find_saga (\<lambda>s. sg_bookingId s = bookingId)) (\<lambda>found.
       case found of
         None \<Rightarrow> throw (JsError ''Saga state not found'')
       | Some s \<Rightarrow>
           andThen (set_obj (\<lambda>_. s)) (\<lambda>_.
           andThen (compensate reason) (\<lambda>_. findByReference bookingId)))"

subsection \<open>Agreement of bookings and sagas\<close>

text \<open>The states in which a booking and its saga are found together.\<close>

definition agrees :: "SagaState \<Rightarrow> Booking \<Rightarrow> bool" where
  "agrees s b \<longleftrightarrow>
     (sg_status s = SG_INITIATED \<and> sg_currentStep s = 1 \<and> bk_status b = BS_INITIATED) \<or>
     (sg_status s = SG_SEATS_LOCKED \<and> sg_currentStep s = 2 \<and> bk_status b = BS_INITIATED) \<or>
     (sg_status s = SG_FLIGHT_RESERVED \<and> sg_currentStep s = 3 \<and> bk_status b = BS_PENDING) \<or>
     (sg_status s = SG_BOOKING_CONFIRMED \<and> sg_currentStep s = 6 \<and> bk_status b = BS_BOOKED) \<or>
     (sg_status s = SG_COMPENSATED \<and> bk_status b = BS_CANCELLED)"

definition numbered :: "booking_world \<Rightarrow> SagaState \<Rightarrow> bool" where
  "numbered w s \<longleftrightarrow> sg_id s < serial w \<and> (\<exists>i<uuidCtr w. sg_bookingId s = uuidSrc w i)"

definition saga_inv :: "booking_world \<Rightarrow> bool" where
  "saga_inv w \<longleftrightarrow>
     inj (uuidSrc w) \<and>
     distinct (map sg_id (sagas w)) \<and> distinct (map sg_bookingId (sagas w)) \<and>
     distinct (map bk_bookingReference (bookings w)) \<and>
     (\<forall>s\<in>set (sagas w). numbered w s) \<and>
     (\<forall>b\<in>set (bookings w). \<exists>s\<in>set (sagas w). sg_bookingId s = bk_bookingReference b \<and> agrees s b)"

text \<open>The object in memory has a row, of the same booking.\<close>

definition linked :: "booking_world \<Rightarrow> bool" where
  "linked w \<longleftrightarrow> (\<exists>r\<in>set (sagas w). sg_id r = sg_id (obj w) \<and> sg_bookingId r = sg_bookingId (obj w))"

lemma numbered_mono:
  "numbered w s \<Longrightarrow> uuidSrc w' = uuidSrc w \<Longrightarrow> uuidCtr w \<le> uuidCtr w' \<Longrightarrow> serial w \<le> serial w' \<Longrightarrow>
   sg_id s' = sg_id s \<Longrightarrow> sg_bookingId s' = sg_bookingId s \<Longrightarrow> numbered w' s'"
  by (auto simp: numbered_def intro: order.strict_trans2)

lemma saga_inv_later:
  assumes "saga_inv w" "bookings w' = bookings w" "sagas w' = sagas w"
    "uuidSrc w' = uuidSrc w" "uuidCtr w \<le> uuidCtr w'" "serial w \<le> serial w'"
  shows "saga_inv w'"
  using assms numbered_mono [of w _ w'] by (auto simp: saga_inv_def)

lemma saga_inv_faults [simp]: "saga_inv (w\<lparr>faults := fs\<rparr>) = saga_inv w" "linked (w\<lparr>faults := fs\<rparr>) = linked w"
  by (simp_all add: saga_inv_def linked_def numbered_def)

text \<open>
  Writing the object and the bookings of its reference together keeps the invariant when the two
  agree afterwards.
\<close>

lemma saga_inv_write:
  assumes inv: "saga_inv w" and "linked w" and w': "evolves w w'"
    and s: "sagas w' = map (\<lambda>s. if sg_id s = sg_id row then row else s) (sagas w)"
    and row: "sg_id row = sg_id (obj w)" "sg_bookingId row = sg_bookingId (obj w)"
    and b: "bookings w' = map (\<lambda>b. if bk_bookingReference b = sg_bookingId row then f b else b) (bookings w) @ ns"
    and ns: "ns = [] \<or> (\<exists>n. ns = [n] \<and> bk_bookingReference n = sg_bookingId row \<and> agrees row n \<and>
         sg_bookingId row \<notin> bk_bookingReference ` set (bookings w))"
    and f: "\<And>b. b \<in> set (bookings w) \<Longrightarrow> bk_bookingReference b = sg_bookingId row \<Longrightarrow>
         bk_bookingReference (f b) = bk_bookingReference b \<and> agrees row (f b)"
  shows "saga_inv w'" and "linked w'"
proof -
  obtain r where r: "r \<in> set (sagas w)" "sg_id r = sg_id row" "sg_bookingId r = sg_bookingId row"
    using assms(2) row by (auto simp: linked_def)
  have same: "sg_id s = sg_id row \<Longrightarrow> s = r" if "s \<in> set (sagas w)" for s
    using inv that r distinct_id_eq [of sg_id "sagas w" s r] by (simp add: saga_inv_def)
  have ids: "map sg_id (sagas w') = map sg_id (sagas w)" by (simp add: s)
  have bids: "map sg_bookingId (sagas w') = map sg_bookingId (sagas w)"
    using same r(3) by (auto simp: s)
  have refs: "map bk_bookingReference (bookings w') = map bk_bookingReference (bookings w) @ map bk_bookingReference ns"
    using f by (auto simp: b)
  have dist: "distinct (map bk_bookingReference (bookings w'))"
    using inv ns by (auto simp: refs saga_inv_def) (metis image_eqI)
  have row_in: "row \<in> set (sagas w')" using r by (auto simp: s)
  have "\<exists>s\<in>set (sagas w'). sg_bookingId s = bk_bookingReference x \<and> agrees s x" if x: "x \<in> set (bookings w')" for x
  proof (cases "x \<in> set ns")
    case True
    with ns row_in show ?thesis by force
  next
    case False
    with x obtain y where y: "y \<in> set (bookings w)"
      "x = (if bk_bookingReference y = sg_bookingId row then f y else y)" by (auto simp: b)
    show ?thesis
    proof (cases "bk_bookingReference y = sg_bookingId row")
      case True
      with y f [of y] row_in show ?thesis by auto
    next
      case False
      from inv y(1) obtain s0 where s0: "s0 \<in> set (sagas w)" "sg_bookingId s0 = bk_bookingReference y" "agrees s0 y"
        unfolding saga_inv_def by meson
      with False r(3) have "s0 \<noteq> r" by auto
      with same [OF s0(1)] have "sg_id s0 \<noteq> sg_id row" by auto
      then have "s0 \<in> set (sagas w')" using s0(1) by (auto simp: s)
      with s0 y(2) False show ?thesis by auto
    qed
  qed
  moreover have "numbered w' x" if "x \<in> set (sagas w')" for x
  proof -
    from that r obtain y where "y \<in> set (sagas w)" "sg_id y = sg_id x" "sg_bookingId y = sg_bookingId x"
      by (auto simp: s split: if_splits)
    with inv w' show ?thesis by (auto simp: saga_inv_def evolves_def intro: numbered_mono)
  qed
  ultimately show "saga_inv w'"
    using inv w' ids bids dist by (simp add: saga_inv_def evolves_def)
  show "linked w'" using row_in row w' by (auto simp: linked_def evolves_def)
qed

subsection \<open>What each statement of a step leaves alone\<close>

lemma storeEvent_Inr:
  assumes "storeEvent ty ag ev p w = (Inr e, w')"
  shows "bookings w' = bookings w" "sagas w' = sagas w" "obj w' = obj w" "evolves w w'"
    "outbox w' = outbox w @ [e]" "locks w' = locks w" "now w' = now w"
    "ob_eventType e = ev" "ob_aggregateId e = ag" "ob_payload e = p"
  using assms
  by (auto simp: storeEvent_def freshUuid_def Let_def evolves_def split: if_splits)

lemma release_call_Inr:
  assumes "releaseSeats_call f b w = (Inr (), w')"
  shows "bookings w' = bookings w" "sagas w' = sagas w" "obj w' = obj w" "evolves w w'"
    "outbox w' = outbox w" "now w' = now w"
  using assms by (auto simp: releaseSeats_call_def evolves_def split: if_splits)

lemma save_obj_Inr:
  assumes "save_obj w = (Inr (), w')"
  shows "bookings w' = bookings w" "sagas w' = map (\<lambda>s. if sg_id s = sg_id (obj w') then obj w' else s) (sagas w)"
    "obj w' = (obj w)\<lparr>sg_updatedAt := now w\<rparr>" "evolves w w'" "outbox w' = outbox w" "locks w' = locks w" "now w' = now w"
  using assms by (auto simp: save_obj_def Let_def evolves_def split: if_splits)

lemma update_bookings_Inr:
  assumes "update_bookings p f w = (Inr (), w')"
  shows "bookings w' = map (\<lambda>b. if p b then touch (now w) f b else b) (bookings w)" "sagas w' = sagas w"
    "obj w' = obj w" "evolves w w'" "outbox w' = outbox w" "locks w' = locks w" "now w' = now w"
  using assms by (auto simp: update_bookings_def evolves_def split: if_splits)

lemma set_obj_eq [simp]: "set_obj f w = (Inr (), w\<lparr>obj := f (obj w)\<rparr>)"
  by (simp add: set_obj_def modify_def)

lemma evolves_storeEvent [keeps_intro]: "keeps (evolves w0) (storeEvent ty ag ev p)"
  by (rule keepsI) (auto simp: storeEvent_def freshUuid_def andThen_def stmt_eq Let_def evolves_def)

lemma evolves_set_obj:
  "(\<And>s. sg_id (f s) = sg_id s) \<Longrightarrow> (\<And>s. sg_bookingId (f s) = sg_bookingId s) \<Longrightarrow> keeps (evolves w0) (set_obj f)"
  by (rule keepsI) (auto simp: evolves_def)

lemma evolves_locks [simp]: "evolves w0 (w\<lparr>locks := l\<rparr>) = evolves w0 w"
  by (simp add: evolves_def)

lemma keeps_reader: "(\<And>w. keeps I (f w)) \<Longrightarrow> keeps I (\<lambda>w. f w w)"
  by (simp add: keeps_def)

lemma evolves_release [keeps_intro]: "keeps (evolves w0) (releaseSeats_call f b)"
  unfolding releaseSeats_call_def
  by (rule keepsI) (auto simp: andThen_def external_def modify_def)

lemma evolves_readers [keeps_intro]:
  "keeps (evolves w0) (\<lambda>w. insert_booking (b w) w)" "keeps (evolves w0) (\<lambda>w. update_bookings (p w) (f w) w)"
  "keeps (evolves w0) (\<lambda>w. storeEvent ty (ag w) ev (pl w) w)"
  "keeps (evolves w0) (\<lambda>w. andThen (storeEvent ty (ag w) ev (pl w)) (\<lambda>_. ret ()) w)"
  by (rule keeps_reader, intro keeps_intro)+

lemma evolves_compensate_parts [keeps_intro]:
  "keeps (evolves w0) compensate_event" "keeps (evolves w0) compensate_locks"
  unfolding compensate_event_def [abs_def] compensate_locks_def [abs_def]
  by (rule keeps_reader, intro keeps_intro)+

lemma evolves_bodies [keeps_intro]:
  "keeps (evolves w0) (compensate_body msg)" "keeps (evolves w0) step1_body"
  "keeps (evolves w0) (step2_body l)" "keeps (evolves w0) step3_body" "keeps (evolves w0) (complete_body b tx)"
  unfolding compensate_body_def step1_body_def step2_body_def step3_body_def complete_body_def
  by (intro keeps_andThen evolves_readers evolves_stmts evolves_compensate_parts evolves_storeEvent evolves_set_obj;
      simp)+

text \<open>A transaction whose body keeps the invariant when it succeeds keeps it in any case.\<close>

lemma transaction_saga:
  assumes "saga_inv w" "linked w" "keeps (evolves w) body"
    and "\<And>v v' a. saga_inv v \<Longrightarrow> linked v \<Longrightarrow> evolves v v' \<Longrightarrow> bookings v = bookings w \<Longrightarrow>
          obj v = obj w \<Longrightarrow> body v = (Inr a, v') \<Longrightarrow> saga_inv v' \<and> linked v'"
  shows "saga_inv (snd (transaction body w)) \<and> linked (snd (transaction body w))"
proof (cases "transaction body w")
  case (Pair r w')
  have ev: "evolves w w'" using keepsD [OF keeps_transaction [OF assms(3)], of w] Pair by simp
  show ?thesis
  proof (cases r)
    case (Inl e)
    note t = transaction_Inl [OF Pair [unfolded Inl]]
    have "saga_inv w'" using assms(1) t ev by (auto simp: evolves_def intro: saga_inv_later)
    moreover have "linked w'" using assms(2) t ev by (auto simp: linked_def evolves_def)
    ultimately show ?thesis by (simp add: Pair)
  next
    case (Inr a)
    obtain v where v: "body (w\<lparr>faults := tl (faults w)\<rparr>) = (Inr a, v)" "w' = v\<lparr>faults := tl (faults v)\<rparr>"
      by (rule transaction_Inr [OF Pair [unfolded Inr]])
    have "evolves w v" using ev v(2) by simp
    then show ?thesis using assms(4) [OF _ _ _ _ _ v(1)] assms(1,2) by (simp add: Pair v(2))
  qed
qed

lemma map_row_twice:
  "sg_id r = sg_id r' \<Longrightarrow>
   map (\<lambda>s. if sg_id s = sg_id r' then r' else s) (map (\<lambda>s. if sg_id s = sg_id r then r else s) xs) =
   map (\<lambda>s. if sg_id s = sg_id r' then r' else s) xs"
  by (induction xs) auto

lemma touch_status [simp]:
  "bk_status (touch t f b) = bk_status (f b)" "bk_bookingReference (touch t f b) = bk_bookingReference (f b)"
  by (simp_all add: touch_def)

lemma compensate_event_Inr:
  assumes "compensate_event w = (Inr (), w')"
  shows "bookings w' = bookings w" "sagas w' = sagas w" "obj w' = obj w"
  using assms by (auto simp: compensate_event_def dest: storeEvent_Inr(1-3) split: if_splits)

lemma compensate_locks_Inr:
  assumes "compensate_locks w = (Inr (), w')"
  shows "bookings w' = bookings w" "sagas w' = sagas w" "obj w' = obj w"
  using assms by (auto simp: compensate_locks_def dest: release_call_Inr(1-3) split: if_splits)

lemma compensate_body_saga:
  assumes inv: "saga_inv v" "linked v" "evolves v v'" and b: "compensate_body msg v = (Inr a, v')"
  shows "saga_inv v' \<and> linked v'"
proof -
  from b obtain v1 v2 v3 v4 where
    s1: "save_obj (v\<lparr>obj := (obj v)\<lparr>sg_status := SG_COMPENSATING, sg_errorMessage := Some msg\<rparr>\<rparr>) = (Inr (), v1)"
    and s2: "compensate_event v1 = (Inr (), v2)" and s3: "compensate_locks v2 = (Inr (), v3)"
    and s4: "update_bookings (\<lambda>b. bk_bookingReference b = sg_bookingId (obj v3)) (cancelled msg (now v3)) v3 = (Inr (), v4)"
    and s5: "save_obj (v4\<lparr>obj := (obj v4)\<lparr>sg_status := SG_COMPENSATED\<rparr>\<rparr>) = (Inr (), v')"
    by (auto simp: compensate_body_def)
  note f1 = save_obj_Inr [OF s1] and f2 = compensate_event_Inr [OF s2] and f3 = compensate_locks_Inr [OF s3]
    and f4 = update_bookings_Inr [OF s4] and f5 = save_obj_Inr [OF s5]
  have o: "sg_id (obj v') = sg_id (obj v)" "sg_bookingId (obj v') = sg_bookingId (obj v)" "sg_status (obj v') = SG_COMPENSATED"
    using f1(3) f4(3) f5(3) f2 f3 by simp_all
  have i1: "sg_id (obj v1) = sg_id (obj v')" using f1(3) o by simp
  have "sagas v' = map (\<lambda>s. if sg_id s = sg_id (obj v') then obj v' else s) (sagas v1)"
    using f4(2) f5(2) f2 f3 by simp
  also have "sagas v1 = map (\<lambda>s. if sg_id s = sg_id (obj v1) then obj v1 else s) (sagas v)"
    using f1(2) by simp
  finally have sg: "sagas v' = map (\<lambda>s. if sg_id s = sg_id (obj v') then obj v' else s) (sagas v)"
    unfolding map_row_twice [OF i1] .
  have bk: "bookings v' = map (\<lambda>b. if bk_bookingReference b = sg_bookingId (obj v')
       then touch (now v3) (cancelled msg (now v3)) b else b) (bookings v) @ []"
    using f1(1,3) f4(1) f5(1) f2 f3 o by simp
  show ?thesis
    using saga_inv_write [OF inv sg o(1,2) bk] o(3) by (simp add: cancelled_def agrees_def)
qed

lemma insert_booking_Inr:
  assumes "insert_booking b w = (Inr row, w')"
  shows "bookings w' = bookings w @ [row]" "sagas w' = sagas w" "obj w' = obj w" "now w' = now w"
    "outbox w' = outbox w" "locks w' = locks w"
    "bk_bookingReference b \<notin> bk_bookingReference ` set (bookings w)"
    "row = b\<lparr>bk_id := serial w, bk_totalCost := round2 (bk_totalCost b), bk_version := 1,
              bk_createdAt := now w, bk_updatedAt := now w\<rparr>"
  using assms by (auto simp: insert_booking_def Let_def split: if_splits)

lemma new_booking_ref [simp]: "bk_bookingReference (new_booking s t) = sg_bookingId s"
  "bk_status (new_booking s t) = BS_INITIATED"
  by (simp_all add: new_booking_def Let_def)

lemma step1_body_saga:
  assumes inv: "saga_inv v" "linked v" "evolves v v'" and b: "step1_body v = (Inr a, v')"
  shows "saga_inv v' \<and> linked v' \<and>
    (\<forall>b\<in>set (bookings v'). bk_bookingReference b = sg_bookingId (obj v') \<longrightarrow> bk_status b = BS_INITIATED)"
proof -
  from b obtain row v1 v2 e where
    s1: "insert_booking (new_booking (obj v) (now v)) v = (Inr row, v1)"
    and s2: "save_obj (v1\<lparr>obj := (obj v1)\<lparr>sg_currentStep := 1, sg_status := SG_INITIATED\<rparr>\<rparr>) = (Inr (), v2)"
    and s3: "storeEvent ''BOOKING'' (sg_bookingId (obj v2)) ''booking.created''
        (user_payload (sg_bookingId (obj v2)) (sg_payload (obj v2))) v2 = (Inr e, v')"
    by (auto simp: step1_body_def)
  note f1 = insert_booking_Inr [OF s1] and f2 = save_obj_Inr [OF s2] and f3 = storeEvent_Inr [OF s3]
  have o: "sg_id (obj v') = sg_id (obj v)" "sg_bookingId (obj v') = sg_bookingId (obj v)"
    "sg_status (obj v') = SG_INITIATED" "sg_currentStep (obj v') = 1"
    using f1(3) f2(3) f3(3) by simp_all
  have sg: "sagas v' = map (\<lambda>s. if sg_id s = sg_id (obj v') then obj v' else s) (sagas v)"
    using f1(2) f2(2) f3(2,3) by simp
  have bk: "bookings v' = map (\<lambda>b. if bk_bookingReference b = sg_bookingId (obj v') then b else b) (bookings v) @ [row]"
    using f1(1) f2(1) f3(1) by simp
  have new: "bk_bookingReference row = sg_bookingId (obj v')" "agrees (obj v') row" "bk_status row = BS_INITIATED"
    "sg_bookingId (obj v') \<notin> bk_bookingReference ` set (bookings v)"
    using f1(7,8) o by (simp_all add: agrees_def)
  have other: "bk_bookingReference b \<noteq> sg_bookingId (obj v')" if "b \<in> set (bookings v)" for b
    using new(4) that by (metis image_eqI)
  have "saga_inv v' \<and> linked v'"
    using saga_inv_write [OF inv sg o(1,2) bk] new other by simp
  with new bk other show ?thesis by auto
qed

lemma step2_body_saga:
  assumes inv: "saga_inv v" "linked v" "evolves v v'" and b: "step2_body l v = (Inr a, v')"
    and init: "\<forall>b\<in>set (bookings v). bk_bookingReference b = sg_bookingId (obj v) \<longrightarrow> bk_status b = BS_INITIATED"
  shows "saga_inv v' \<and> linked v'"
proof -
  from b have s1: "save_obj (v\<lparr>obj := (obj v)\<lparr>sg_currentStep := 2, sg_status := SG_SEATS_LOCKED,
       sg_lockKey := Some (lockKey l)\<rparr>\<rparr>) = (Inr (), v')"
    by (auto simp: step2_body_def)
  note f1 = save_obj_Inr [OF s1]
  have o: "sg_id (obj v') = sg_id (obj v)" "sg_bookingId (obj v') = sg_bookingId (obj v)"
    "sg_status (obj v') = SG_SEATS_LOCKED" "sg_currentStep (obj v') = 2"
    using f1(3) by simp_all
  have sg: "sagas v' = map (\<lambda>s. if sg_id s = sg_id (obj v') then obj v' else s) (sagas v)"
    using f1(2) by simp
  have bk: "bookings v' = map (\<lambda>b. if bk_bookingReference b = sg_bookingId (obj v') then b else b) (bookings v) @ []"
    using f1(1) by simp
  show ?thesis
    using saga_inv_write [OF inv sg o(1,2) bk] o init by (simp add: agrees_def)
qed

lemma step3_body_saga:
  assumes inv: "saga_inv v" "linked v" "evolves v v'" and b: "step3_body v = (Inr a, v')"
  shows "saga_inv v' \<and> linked v'"
proof -
  from b obtain e v1 v2 where
    s1: "storeEvent ''BOOKING'' (sg_bookingId (obj v)) ''flight.reserve-seats''
        (seat_payload (sg_bookingId (obj v)) (sg_payload (obj v))) v = (Inr e, v1)"
    and s2: "save_obj (v1\<lparr>obj := (obj v1)\<lparr>sg_currentStep := 3, sg_status := SG_FLIGHT_RESERVED\<rparr>\<rparr>) = (Inr (), v2)"
    and s3: "update_bookings (\<lambda>b. bk_bookingReference b = sg_bookingId (obj v2)) (\<lambda>b. b\<lparr>bk_status := BS_PENDING\<rparr>) v2 = (Inr (), v')"
    by (auto simp: step3_body_def)
  note f1 = storeEvent_Inr [OF s1] and f2 = save_obj_Inr [OF s2] and f3 = update_bookings_Inr [OF s3]
  have o: "sg_id (obj v') = sg_id (obj v)" "sg_bookingId (obj v') = sg_bookingId (obj v)"
    "sg_status (obj v') = SG_FLIGHT_RESERVED" "sg_currentStep (obj v') = 3"
    using f1(3) f2(3) f3(3) by simp_all
  have sg: "sagas v' = map (\<lambda>s. if sg_id s = sg_id (obj v') then obj v' else s) (sagas v)"
    using f1(2) f2(2) f3(2,3) by simp
  have bk: "bookings v' = map (\<lambda>b. if bk_bookingReference b = sg_bookingId (obj v')
       then touch (now v2) (\<lambda>b. b\<lparr>bk_status := BS_PENDING\<rparr>) b else b) (bookings v) @ []"
    using f1(1) f2(1) f3(1,3) by simp
  show ?thesis
    using saga_inv_write [OF inv sg o(1,2) bk] o by (simp add: agrees_def)
qed

lemma complete_body_saga:
  assumes inv: "saga_inv v" "linked v" "evolves v v'" and b: "complete_body (sg_bookingId (obj v)) tx v = (Inr a, v')"
  shows "saga_inv v' \<and> linked v'"
proof -
  from b obtain e v1 v2 v3 e' where
    s1: "storeEvent ''BOOKING'' (sg_bookingId (obj v)) ''flight.confirm-seats''
        (seat_payload (sg_bookingId (obj v)) (sg_payload (obj v))) v = (Inr e, v1)"
    and s2: "update_bookings (\<lambda>b. bk_bookingReference b = sg_bookingId (obj v)) (booked tx (now v1)) v1 = (Inr (), v2)"
    and s3: "save_obj (v2\<lparr>obj := (obj v2)\<lparr>sg_currentStep := 6, sg_status := SG_BOOKING_CONFIRMED\<rparr>\<rparr>) = (Inr (), v3)"
    and s4: "storeEvent ''BOOKING'' (sg_bookingId (obj v)) ''booking.confirmed''
        (user_payload (sg_bookingId (obj v)) (sg_payload (obj v3))) v3 = (Inr e', v')"
    by (auto simp: complete_body_def)
  note f1 = storeEvent_Inr [OF s1] and f2 = update_bookings_Inr [OF s2] and f3 = save_obj_Inr [OF s3]
    and f4 = storeEvent_Inr [OF s4]
  have o: "sg_id (obj v') = sg_id (obj v)" "sg_bookingId (obj v') = sg_bookingId (obj v)"
    "sg_status (obj v') = SG_BOOKING_CONFIRMED" "sg_currentStep (obj v') = 6"
    using f1(3) f2(3) f3(3) f4(3) by simp_all
  have sg: "sagas v' = map (\<lambda>s. if sg_id s = sg_id (obj v') then obj v' else s) (sagas v)"
    using f1(2) f2(2) f3(2) f4(2,3) by simp
  have bk: "bookings v' = map (\<lambda>b. if bk_bookingReference b = sg_bookingId (obj v')
       then touch (now v1) (booked tx (now v1)) b else b) (bookings v) @ []"
    using f1(1) f2(1) f3(1) f4(1) o(2) by simp
  show ?thesis
    using saga_inv_write [OF inv sg o(1,2) bk] o by (simp add: booked_def agrees_def)
qed

subsection \<open>The operations keep the agreement\<close>

definition saga_run_inv :: "booking_world \<Rightarrow> bool" where
  "saga_run_inv w \<longleftrightarrow> saga_inv w \<and> linked w"

definition not_started :: "booking_world \<Rightarrow> bool" where
  "not_started w \<longleftrightarrow>
     (\<forall>b\<in>set (bookings w). bk_bookingReference b = sg_bookingId (obj w) \<longrightarrow> bk_status b = BS_INITIATED)"

lemma keeps_run_tx:
  assumes "\<And>w0. keeps (evolves w0) body"
    and "\<And>v v' a. saga_inv v \<Longrightarrow> linked v \<Longrightarrow> evolves v v' \<Longrightarrow> body v = (Inr a, v') \<Longrightarrow> saga_inv v' \<and> linked v'"
  shows "keeps saga_run_inv (transaction body)"
  using transaction_saga [OF _ _ assms(1) assms(2)] by (auto simp: keeps_def saga_run_inv_def)

lemma keeps_run_compensate [keeps_intro]: "keeps saga_run_inv (compensate msg)"
proof -
  have "keeps saga_run_inv (transaction (compensate_body msg))"
    by (rule keeps_run_tx) (auto intro: keeps_intro dest: compensate_body_saga)
  then have "keeps saga_run_inv (tryCatch (transaction (compensate_body msg)) (\<lambda>_. ret ()))"
    by (intro keeps_tryCatch keeps_ret)
  then show ?thesis by (auto simp: keeps_def compensate_def)
qed

lemma keeps_run_compensating: "keeps saga_run_inv m \<Longrightarrow> keeps saga_run_inv (compensating m)"
  unfolding compensating_def by (intro keeps_intro)

lemma lock_call_same:
  "lockSeats_call f seats b u w = (r, w') \<Longrightarrow>
   bookings w' = bookings w \<and> sagas w' = sagas w \<and> obj w' = obj w \<and> uuidSrc w' = uuidSrc w \<and>
   uuidCtr w' = uuidCtr w \<and> serial w' = serial w \<and> outbox w' = outbox w \<and> now w' = now w"
  by (auto simp: lockSeats_call_def throw_def andThen_def external_def Let_def split: prod.splits sum.splits if_splits)

lemma saga_inv_cong:
  assumes "bookings w' = bookings w" "sagas w' = sagas w" "obj w' = obj w" "uuidSrc w' = uuidSrc w"
    "uuidCtr w' = uuidCtr w" "serial w' = serial w"
  shows "saga_run_inv w' = saga_run_inv w" "not_started w' = not_started w" "saga_inv w' = saga_inv w"
  using assms by (simp_all add: saga_run_inv_def saga_inv_def linked_def not_started_def numbered_def)

lemma step1_keeps:
  assumes "saga_run_inv w" "not_started w" "executeStep1_CreateBooking w = (r, w')"
  shows "saga_run_inv w' \<and> (r = Inr () \<longrightarrow> not_started w')"
proof (cases "1 \<le> sg_currentStep (obj w)")
  case True
  with assms show ?thesis by (auto simp: executeStep1_CreateBooking_def)
next
  case False
  then have t: "transaction step1_body w = (r, w')" using assms(3) by (simp add: executeStep1_CreateBooking_def)
  have "keeps saga_run_inv (transaction step1_body)"
    by (rule keeps_run_tx) (auto intro: keeps_intro dest: step1_body_saga)
  then have "saga_run_inv w'" using assms(1) t keepsD [of saga_run_inv "transaction step1_body" w] by simp
  moreover have "not_started w'" if r: "r = Inr ()"
  proof -
    obtain v where v: "step1_body (w\<lparr>faults := tl (faults w)\<rparr>) = (Inr (), v)" "w' = v\<lparr>faults := tl (faults v)\<rparr>"
      by (rule transaction_Inr [OF t [unfolded r]])
    have "evolves (w\<lparr>faults := tl (faults w)\<rparr>) v"
      using keepsD [OF evolves_bodies(2), of "w\<lparr>faults := tl (faults w)\<rparr>" "w\<lparr>faults := tl (faults w)\<rparr>"] v(1) by simp
    from step1_body_saga [OF _ _ this v(1)] assms(1) v(2) show ?thesis
      by (simp add: saga_run_inv_def not_started_def)
  qed
  ultimately show ?thesis by blast
qed

lemma step2_tx:
  assumes "saga_run_inv w" "not_started w"
  shows "saga_run_inv (snd (transaction (step2_body l) w))"
proof -
  have "saga_inv (snd (transaction (step2_body l) w)) \<and> linked (snd (transaction (step2_body l) w))"
    using assms by (intro transaction_saga evolves_bodies)
      (auto simp: saga_run_inv_def not_started_def dest: step2_body_saga)
  then show ?thesis by (simp add: saga_run_inv_def)
qed

lemma step2_keeps:
  assumes "saga_run_inv w" "not_started w"
  shows "saga_run_inv (snd (executeStep2_LockSeats w))"
proof (cases "2 \<le> sg_currentStep (obj w)")
  case True
  with assms show ?thesis by (simp add: executeStep2_LockSeats_def)
next
  case False
  let ?dto = "sg_payload (obj w)"
  let ?rest = "\<lambda>locked. if \<not> success locked
      then throw (JsError (''Failed to lock seats: '' @ join '', '' (failedSeats locked)))
      else transaction (step2_body locked)"
  let ?m = "andThen (lockSeats_call (cb_flightId ?dto) (dtoSeats ?dto) (sg_bookingId (obj w)) (cb_userId ?dto)) ?rest"
  obtain r w1 where l: "lockSeats_call (cb_flightId ?dto) (dtoSeats ?dto) (sg_bookingId (obj w)) (cb_userId ?dto) w = (r, w1)"
    by fastforce
  from lock_call_same [OF l] assms have w1: "saga_run_inv w1" "not_started w1"
    by (simp_all add: saga_inv_cong [of w1 w])
  have "saga_run_inv (snd (?m w))"
    using w1 step2_tx by (cases r) (auto simp: andThen_def l throw_def)
  then have "saga_run_inv (snd (compensating ?m w))"
    unfolding compensating_def by (rule tryCatch_at) (intro keeps_intro)
  with False show ?thesis by (simp add: executeStep2_LockSeats_def Let_def)
qed

lemma step3_keeps [keeps_intro]: "keeps saga_run_inv executeStep3_ReserveFlightSeats"
proof -
  have "keeps saga_run_inv (compensating (transaction step3_body))"
    by (intro keeps_run_compensating keeps_run_tx) (auto intro: keeps_intro dest: step3_body_saga)
  then show ?thesis by (auto simp: keeps_def executeStep3_ReserveFlightSeats_def)
qed

lemma insert_saga_Inr:
  assumes "insert_saga s w = (Inr row, w')"
  shows "sagas w' = sagas w @ [row]" "bookings w' = bookings w" "obj w' = obj w" "serial w' = serial w + 1"
    "uuidSrc w' = uuidSrc w" "uuidCtr w' = uuidCtr w" "now w' = now w" "outbox w' = outbox w" "locks w' = locks w"
    "row = s\<lparr>sg_id := serial w, sg_createdAt := now w, sg_updatedAt := now w\<rparr>"
  using assms by (auto simp: insert_saga_def Let_def split: if_splits)

lemma insert_saga_Inl:
  assumes "insert_saga s w = (Inl e, w')"
  shows "sagas w' = sagas w" "bookings w' = bookings w" "serial w' = serial w"
    "uuidSrc w' = uuidSrc w" "uuidCtr w' = uuidCtr w"
  using assms by (auto simp: insert_saga_def stmt_eq Let_def split: if_splits)

text \<open>A saga row for a fresh identifier: it has no booking yet.\<close>

lemma new_saga_inv:
  assumes inv: "saga_inv w" and i: "sg_bookingId s = uuidSrc w (uuidCtr w)"
    and w1: "uuidSrc w1 = uuidSrc w" "uuidCtr w1 = Suc (uuidCtr w)" "serial w1 = serial w"
      "sagas w1 = sagas w" "bookings w1 = bookings w"
    and ins: "insert_saga s w1 = (Inr row, w2)"
  shows "saga_run_inv (w2\<lparr>obj := row\<rparr>) \<and> not_started (w2\<lparr>obj := row\<rparr>)"
proof -
  note f = insert_saga_Inr [OF ins]
  have row: "sg_bookingId row = uuidSrc w (uuidCtr w)" "sg_id row = serial w" using f(10) i w1 by simp_all
  have fresh: "sg_bookingId x \<noteq> uuidSrc w (uuidCtr w)" "sg_id x \<noteq> serial w" if "x \<in> set (sagas w)" for x
    using inv that by (auto simp: saga_inv_def numbered_def inj_eq)
  have nob: "bk_bookingReference b \<noteq> sg_bookingId row" if "b \<in> set (bookings w)" for b
    using inv that fresh row(1) unfolding saga_inv_def by metis
  have "numbered (w2\<lparr>obj := row\<rparr>) x" if "x \<in> set (sagas w)" for x
    using inv that f w1 numbered_mono [of w x "w2\<lparr>obj := row\<rparr>" x] by (simp add: saga_inv_def)
  moreover have "numbered (w2\<lparr>obj := row\<rparr>) row"
    using row f w1 by (auto simp: numbered_def intro: exI [of _ "uuidCtr w"])
  ultimately have "saga_inv (w2\<lparr>obj := row\<rparr>)"
    using inv fresh f(1-6) w1 row by (fastforce simp: saga_inv_def)
  then show ?thesis
    using f(1,2) w1 nob by (auto simp: saga_run_inv_def linked_def not_started_def)
qed

lemma keeps_run_saga: "keeps saga_inv (run_saga dto key)"
proof (rule keepsI)
  fix w
  assume inv: "saga_inv w"
  let ?sid = "uuidSrc w (uuidCtr w)" and ?bid = "uuidSrc w (Suc (uuidCtr w))"
  let ?w0 = "w\<lparr>uuidCtr := Suc (uuidCtr w)\<rparr>" and ?w1 = "w\<lparr>uuidCtr := Suc (Suc (uuidCtr w))\<rparr>"
  have inv0: "saga_inv ?w0" using inv by (rule saga_inv_later) simp_all
  obtain r w2 where ins: "insert_saga (new_saga ?sid ?bid dto key) ?w1 = (r, w2)" by fastforce
  show "saga_inv (snd (run_saga dto key w))"
  proof (cases r)
    case (Inl e)
    have "saga_inv w2"
      using inv by (rule saga_inv_later) (simp_all add: insert_saga_Inl [OF ins [unfolded Inl]])
    then show ?thesis by (simp add: run_saga_def andThen_def freshUuid_def ins Inl)
  next
    case (Inr row)
    let ?w3 = "w2\<lparr>obj := row\<rparr>"
    have start: "saga_run_inv ?w3 \<and> not_started ?w3"
      by (rule new_saga_inv [OF inv0 _ _ _ _ _ _ ins [unfolded Inr]]) (simp_all add: new_saga_def)
    obtain r1 w4 where s1: "executeStep1_CreateBooking ?w3 = (r1, w4)" by fastforce
    from step1_keeps [OF _ _ s1] start have w4: "saga_run_inv w4" "r1 = Inr () \<longrightarrow> not_started w4" by auto
    have fin: "keeps saga_run_inv (findByReference b)" for b
      by (auto simp: keeps_def findByReference_def query_eq saga_run_inv_def)
    have rest: "saga_run_inv (snd (andThen executeStep2_LockSeats (\<lambda>_.
        andThen executeStep3_ReserveFlightSeats (\<lambda>_. findByReference ?bid)) w4))" if "r1 = Inr ()"
    proof -
      have "saga_run_inv (snd (executeStep2_LockSeats w4))" using that w4 by (intro step2_keeps) auto
      then show ?thesis
        by (rule andThen_at) (intro keeps_andThen step3_keeps fin)
    qed
    have "snd (run_saga dto key w) =
        (case r1 of Inl e \<Rightarrow> w4 | Inr _ \<Rightarrow> snd (andThen executeStep2_LockSeats (\<lambda>_.
           andThen executeStep3_ReserveFlightSeats (\<lambda>_. findByReference ?bid)) w4))"
      by (simp add: run_saga_def andThen_def freshUuid_def ins Inr s1 split: sum.splits)
    then have "saga_run_inv (snd (run_saga dto key w))"
      using w4 rest by (cases r1) auto
    then show ?thesis by (simp add: saga_run_inv_def)
  qed
qed

lemma keeps_inv_query [keeps_intro]: "keeps saga_inv (query q)"
  by (rule keeps_query) simp

lemma keeps_inv_find [keeps_intro]: "keeps saga_inv (findByReference r)" "keeps saga_inv (find_saga p)"
  unfolding findByReference_def find_saga_def by (rule keeps_inv_query)+

lemma keeps_execute [keeps_intro]: "keeps saga_inv (executeBookingSaga dto key)"
  unfolding executeBookingSaga_def
  by (intro keeps_intro keeps_run_saga) (auto intro: keeps_intro keeps_run_saga split: option.splits)

text \<open>A program that starts from a saga it has found.\<close>

lemma keeps_found:
  assumes none: "\<And>w. saga_inv w \<Longrightarrow> saga_inv (snd (f None w))"
    and some: "\<And>s w. saga_inv w \<Longrightarrow> s \<in> set (sagas w) \<Longrightarrow> p s \<Longrightarrow> saga_inv (snd (f (Some s) w))"
  shows "keeps saga_inv (andThen (find_saga p) f)"
proof (rule keepsI)
  fix w
  assume inv: "saga_inv w"
  let ?w = "w\<lparr>faults := tl (faults w)\<rparr>"
  have inv': "saga_inv ?w" using inv by simp
  have eq: "find_saga p w = (if failing w then Inl down else Inr (find p (sagas w)), ?w)"
    by (simp add: find_saga_def query_eq)
  show "saga_inv (snd (andThen (find_saga p) f w))"
  proof (cases "find p (sagas w)")
    case None
    then show ?thesis using inv' none by (simp add: andThen_def eq)
  next
    case (Some s)
    then have "s \<in> set (sagas ?w)" "p s" by (auto simp: find_Some_iff)
    with Some show ?thesis using inv' some by (simp add: andThen_def eq)
  qed
qed

lemma run_inv_obj: "saga_inv w \<Longrightarrow> s \<in> set (sagas w) \<Longrightarrow> saga_run_inv (w\<lparr>obj := s\<rparr>)"
  by (auto simp: saga_run_inv_def linked_def saga_inv_def numbered_def)

lemma keeps_inv_release [keeps_intro]: "keeps saga_inv (releaseSeats_call f b)"
proof (rule keepsI)
  fix w
  assume "saga_inv w"
  then show "saga_inv (snd (releaseSeats_call f b w))"
    by (rule saga_inv_later)
      (auto simp: releaseSeats_call_def andThen_def external_def modify_def split: if_splits)
qed

lemma keeps_cancel [keeps_intro]: "keeps saga_inv (cancelBooking bookingId reason)"
  unfolding cancelBooking_def
proof (rule keeps_found)
  fix s w
  assume inv: "saga_inv w" and s: "s \<in> set (sagas w)"
  have "saga_run_inv (snd (compensate reason (w\<lparr>obj := s\<rparr>)))"
    using run_inv_obj [OF inv s] by (rule keepsD [OF keeps_run_compensate])
  then have "saga_inv (snd (compensate reason (w\<lparr>obj := s\<rparr>)))" by (simp add: saga_run_inv_def)
  then have "saga_inv (snd (andThen (compensate reason) (\<lambda>_. findByReference bookingId) (w\<lparr>obj := s\<rparr>)))"
    by (rule andThen_at) (rule keeps_inv_find)
  then show "saga_inv (snd ((case Some s of None \<Rightarrow> throw (JsError ''Saga state not found'')
       | Some s \<Rightarrow> andThen (set_obj (\<lambda>_. s)) (\<lambda>_. andThen (compensate reason) (\<lambda>_. findByReference bookingId))) w))"
    by (simp add: andThen_def [of "set_obj (\<lambda>_. s)"])
qed (simp add: throw_def)

lemma keeps_complete [keeps_intro]: "keeps saga_inv (completeBooking bookingId tx)"
  unfolding completeBooking_def
proof (rule keeps_found)
  fix s w
  assume inv: "saga_inv w" and s: "s \<in> set (sagas w)" and b: "sg_bookingId s = bookingId"
  let ?w = "w\<lparr>obj := s\<rparr>"
  have "saga_inv (snd (transaction (complete_body bookingId tx) ?w)) \<and> linked (snd (transaction (complete_body bookingId tx) ?w))"
    using run_inv_obj [OF inv s] b
    by (intro transaction_saga evolves_bodies)
      (auto simp: saga_run_inv_def dest: complete_body_saga)
  then have "saga_inv (snd (transaction (complete_body bookingId tx) ?w))" ..
  then have "saga_inv (snd (andThen (transaction (complete_body bookingId tx)) (\<lambda>_.
      andThen (releaseSeats_call (cb_flightId (sg_payload s)) bookingId) (\<lambda>_. findByReference bookingId)) ?w))"
    by (rule andThen_at) (intro keeps_andThen keeps_inv_release keeps_inv_find)
  moreover have "saga_inv (snd (findByReference bookingId w))" using inv keeps_inv_find(1) by (rule keepsD [rotated])
  ultimately show "saga_inv (snd ((case Some s of None \<Rightarrow> throw (JsError ''Saga state not found'')
       | Some s \<Rightarrow> if sg_status s = SG_BOOKING_CONFIRMED then findByReference bookingId
           else andThen (set_obj (\<lambda>_. s)) (\<lambda>_. andThen (transaction (complete_body bookingId tx)) (\<lambda>_.
                andThen (releaseSeats_call (cb_flightId (sg_payload s)) bookingId) (\<lambda>_. findByReference bookingId)))) w))"
    by (simp add: andThen_def [of "set_obj (\<lambda>_. s)"])
qed (simp add: throw_def)

end
