(* ===== verification/SagaProps.thy ===== *)
theory SagaProps
  imports Saga
begin

text \<open>
  Functional behaviour of the booking saga: the run without faults, the failure to lock seats,
  idempotence, and the runs in which the saga does not do what it is meant to do.
\<close>

subsection \<open>Worlds in which statements succeed\<close>

text \<open>Identifiers not taken yet differ from all that were.\<close>

definition used :: "booking_world \<Rightarrow> string \<Rightarrow> bool" where
  "used w x \<longleftrightarrow> (\<exists>i<uuidCtr w. x = uuidSrc w i)"

definition ready :: "booking_world \<Rightarrow> bool" where
  "ready w \<longleftrightarrow> faults w = [] \<and> inj (uuidSrc w) \<and>
     (\<forall>e\<in>set (outbox w). used w (ob_eventId e)) \<and>
     (\<forall>s\<in>set (sagas w). used w (sg_sagaId s) \<and> used w (sg_bookingId s) \<and> sg_id s < serial w) \<and>
     (\<forall>b\<in>set (bookings w). used w (bk_bookingReference b))"

lemma used_later: "used w x \<Longrightarrow> uuidSrc w' = uuidSrc w \<Longrightarrow> uuidCtr w \<le> uuidCtr w' \<Longrightarrow> used w' x"
  unfolding used_def by (metis order_less_le_trans)

lemma next_not_used: "ready w \<Longrightarrow> uuidCtr w \<le> i \<Longrightarrow> \<not> used w (uuidSrc w i)"
  by (auto simp: ready_def used_def inj_eq)

lemma transaction_ok:
  "faults w = [] \<Longrightarrow> body w = (Inr a, v) \<Longrightarrow> faults v = [] \<Longrightarrow> transaction body w = (Inr a, v)"
  by (simp add: transaction_def andThen_def ret_def)

text \<open>What a statement that succeeds in such a world does: nothing but its own effect.\<close>

definition same_env :: "booking_world \<Rightarrow> booking_world \<Rightarrow> bool" where
  "same_env w v \<longleftrightarrow> ready v \<and> locks v = locks w \<and> now v = now w \<and> uuidSrc v = uuidSrc w \<and> broker v = broker w"

definition stored ::
  "booking_world \<Rightarrow> string \<Rightarrow> string \<Rightarrow> event_payload \<Rightarrow> OutboxEvent \<Rightarrow> booking_world \<Rightarrow> bool" where
  "stored w ag ev p e v \<longleftrightarrow> same_env w v \<and> bookings v = bookings w \<and> sagas v = sagas w \<and> obj v = obj w \<and>
     outbox v = outbox w @ [e] \<and> uuidCtr v = Suc (uuidCtr w) \<and> ob_eventType e = ev \<and>
     ob_aggregateId e = ag \<and> ob_payload e = p \<and> ob_status e = OS_PENDING \<and>
     ob_eventId e = uuidSrc w (uuidCtr w)"

lemma storeEvent_ok:
  assumes "ready w" "length ty \<le> 50" "length ev \<le> 100"
  shows "\<exists>e v. storeEvent ty ag ev p w = (Inr e, v) \<and> stored w ag ev p e v"
proof -
  let ?id = "uuidSrc w (uuidCtr w)"
  let ?e = "\<lparr>ob_id = serial w, ob_eventId = ?id, ob_aggregateType = ty, ob_aggregateId = ag, ob_eventType = ev,
     ob_payload = p, ob_status = OS_PENDING, ob_retryCount = 0, ob_maxRetries = 3, ob_lastError = None,
     ob_publishedAt = None, ob_traceId = map_option fst (span w), ob_spanId = map_option snd (span w),
     ob_createdAt = now w\<rparr>"
  let ?v = "w\<lparr>uuidCtr := Suc (uuidCtr w), serial := serial w + 1, outbox := outbox w @ [?e]\<rparr>"
  have nu: "\<forall>r\<in>set (outbox w). ob_eventId r \<noteq> ?id"
    using assms(1) next_not_used [OF assms(1), of "uuidCtr w"] by (auto simp: ready_def)
  have r: "storeEvent ty ag ev p w = (Inr ?e, ?v)"
    using assms nu by (auto simp: storeEvent_def andThen_def freshUuid_def Let_def event_columns_ok_def ready_def)
  have "used ?v ?id" by (auto simp: used_def)
  moreover have "used ?v x" if "used w x" for x using that by (rule used_later) simp_all
  ultimately have "ready ?v" using assms(1) by (fastforce simp: ready_def)
  with r show ?thesis by (auto simp: stored_def same_env_def)
qed

lemma ready_cong:
  "ready w \<Longrightarrow> faults v = [] \<Longrightarrow> uuidSrc v = uuidSrc w \<Longrightarrow> uuidCtr v = uuidCtr w \<Longrightarrow> serial v = serial w \<Longrightarrow>
   outbox v = outbox w \<Longrightarrow> (\<And>s. s \<in> set (sagas v) \<Longrightarrow> \<exists>r\<in>set (sagas w). sg_sagaId s = sg_sagaId r \<and>
      sg_bookingId s = sg_bookingId r \<and> sg_id s = sg_id r) \<Longrightarrow>
   (\<And>b. b \<in> set (bookings v) \<Longrightarrow> \<exists>r\<in>set (bookings w). bk_bookingReference b = bk_bookingReference r) \<Longrightarrow> ready v"
  by (simp add: ready_def used_def) (metis (no_types))

text \<open>The object of a saga, when its row is the last one of the table.\<close>

definition last_saga :: "SagaState list \<Rightarrow> booking_world \<Rightarrow> bool" where
  "last_saga ss w \<longleftrightarrow> sagas w = ss @ [obj w] \<and> (\<forall>s\<in>set ss. sg_id s \<noteq> sg_id (obj w)) \<and> saga_columns_ok (obj w)"

definition obj_saved :: "(SagaState \<Rightarrow> SagaState) \<Rightarrow> SagaState list \<Rightarrow> booking_world \<Rightarrow> booking_world \<Rightarrow> bool" where
  "obj_saved f ss w v \<longleftrightarrow> same_env w v \<and> last_saga ss v \<and> obj v = (f (obj w))\<lparr>sg_updatedAt := now w\<rparr> \<and>
     bookings v = bookings w \<and> outbox v = outbox w \<and> uuidCtr v = uuidCtr w"

lemma save_obj_ok:
  assumes "ready w" "last_saga ss w" "sg_id (f (obj w)) = sg_id (obj w)" "sg_sagaId (f (obj w)) = sg_sagaId (obj w)"
    "sg_bookingId (f (obj w)) = sg_bookingId (obj w)" "saga_columns_ok (f (obj w))"
  shows "\<exists>v. andThen (set_obj f) (\<lambda>_. save_obj) w = (Inr (), v) \<and> obj_saved f ss w v"
proof -
  let ?row = "(f (obj w))\<lparr>sg_updatedAt := now w\<rparr>"
  let ?v = "w\<lparr>obj := ?row, sagas := ss @ [?row]\<rparr>"
  have m: "map (\<lambda>s. if sg_id s = sg_id ?row then ?row else s) (sagas w) = ss @ [?row]"
    using assms(2,3) by (auto simp: last_saga_def intro: map_idI)
  have cols: "saga_columns_ok ?row" using assms(6) by (simp add: saga_columns_ok_def)
  have r: "andThen (set_obj f) (\<lambda>_. save_obj) w = (Inr (), ?v)"
    using assms(1,6) m by (simp add: andThen_def save_obj_def ready_def Let_def)
  have "ready ?v"
    using assms by (intro ready_cong [OF assms(1)]) (auto simp: ready_def last_saga_def)
  moreover have "last_saga ss ?v" using assms(2,3) cols by (simp add: last_saga_def)
  ultimately show ?thesis using r by (auto simp: obj_saved_def same_env_def)
qed

text \<open>The booking of the saga, when it is the last row of its table.\<close>

definition last_booking :: "Booking list \<Rightarrow> Booking \<Rightarrow> booking_world \<Rightarrow> bool" where
  "last_booking bs b w \<longleftrightarrow> bookings w = bs @ [b] \<and> bk_bookingReference b = sg_bookingId (obj w) \<and>
     (\<forall>x\<in>set bs. bk_bookingReference x \<noteq> sg_bookingId (obj w))"

lemma last_booking_cong:
  "bookings v = bookings w \<Longrightarrow> sg_bookingId (obj v) = sg_bookingId (obj w) \<Longrightarrow> last_booking bs b v = last_booking bs b w"
  by (simp add: last_booking_def)

definition inserted :: "Booking \<Rightarrow> booking_world \<Rightarrow> booking_world \<Rightarrow> bool" where
  "inserted row w v \<longleftrightarrow> same_env w v \<and> bookings v = bookings w @ [row] \<and> sagas v = sagas w \<and> obj v = obj w \<and>
     outbox v = outbox w \<and> uuidCtr v = uuidCtr w"

lemma insert_booking_ok:
  assumes "ready w" "booking_columns_ok b" "\<forall>x\<in>set (bookings w). bk_bookingReference x \<noteq> bk_bookingReference b"
    "used w (bk_bookingReference b)"
    "row = b\<lparr>bk_id := serial w, bk_totalCost := round2 (bk_totalCost b), bk_version := 1,
             bk_createdAt := now w, bk_updatedAt := now w\<rparr>"
  shows "\<exists>v. insert_booking b w = (Inr row, v) \<and> inserted row w v"
proof -
  let ?row = "b\<lparr>bk_id := serial w, bk_totalCost := round2 (bk_totalCost b), bk_version := 1,
             bk_createdAt := now w, bk_updatedAt := now w\<rparr>"
  let ?v = "w\<lparr>serial := serial w + 1, bookings := bookings w @ [?row]\<rparr>"
  have r: "insert_booking b w = (Inr ?row, ?v)"
    using assms by (auto simp: insert_booking_def ready_def Let_def)
  have u: "used ?v x = used w x" for x by (simp add: used_def)
  have "ready ?v" using assms(1,4) by (auto simp: ready_def u less_le_trans)
  then show ?thesis using r assms(5) by (auto simp: inserted_def same_env_def)
qed

definition updated :: "Booking list \<Rightarrow> Booking \<Rightarrow> booking_world \<Rightarrow> booking_world \<Rightarrow> bool" where
  "updated bs b w v \<longleftrightarrow> same_env w v \<and> last_booking bs b v \<and> sagas v = sagas w \<and> obj v = obj w \<and>
     outbox v = outbox w \<and> uuidCtr v = uuidCtr w"

lemma update_last_booking_ok:
  assumes "ready w" "last_booking bs b w" "booking_columns_ok (f b)" "bk_bookingReference (f b) = bk_bookingReference b"
  shows "\<exists>v. update_bookings (\<lambda>b. bk_bookingReference b = sg_bookingId (obj w)) f w = (Inr (), v) \<and>
    updated bs (touch (now w) f b) w v"
proof -
  let ?v = "w\<lparr>bookings := bs @ [touch (now w) f b]\<rparr>"
  have m: "map (\<lambda>x. if bk_bookingReference x = sg_bookingId (obj w) then touch (now w) f x else x) (bookings w) =
      bs @ [touch (now w) f b]"
    using assms(2) by (auto simp: last_booking_def intro: map_idI)
  have r: "update_bookings (\<lambda>b. bk_bookingReference b = sg_bookingId (obj w)) f w = (Inr (), ?v)"
    using assms(1-3) m by (auto simp: update_bookings_def ready_def last_booking_def)
  have "ready ?v"
    using assms(1,2,4) by (intro ready_cong [OF assms(1)]) (auto simp: ready_def last_booking_def)
  then show ?thesis
    using r assms(2,4) by (auto simp: updated_def same_env_def last_booking_def)
qed

text \<open>Step 1.\<close>

definition step1_obj :: "SagaState \<Rightarrow> SagaState" where
  "step1_obj s = s\<lparr>sg_currentStep := 1, sg_status := SG_INITIATED\<rparr>"

definition stored_booking :: "SagaState \<Rightarrow> int \<Rightarrow> int \<Rightarrow> Booking" where
  "stored_booking s t i = (new_booking s t)\<lparr>bk_id := i, bk_totalCost := round2 (bk_totalCost (new_booking s t)),
     bk_version := 1, bk_createdAt := t, bk_updatedAt := t\<rparr>"

lemma last_saga_cong: "sagas v = sagas w \<Longrightarrow> obj v = obj w \<Longrightarrow> last_saga ss v = last_saga ss w"
  by (simp add: last_saga_def)

lemmas frame_defs = stored_def obj_saved_def inserted_def updated_def same_env_def

definition step1_done :: "SagaState list \<Rightarrow> booking_world \<Rightarrow> OutboxEvent \<Rightarrow> booking_world \<Rightarrow> bool" where
  "step1_done ss w e v \<longleftrightarrow> same_env w v \<and> last_saga ss v \<and>
     last_booking (bookings w) (stored_booking (obj w) (now w) (serial w)) v \<and>
     obj v = (step1_obj (obj w))\<lparr>sg_updatedAt := now w\<rparr> \<and> outbox v = outbox w @ [e] \<and>
     ob_eventType e = ''booking.created'' \<and> ob_aggregateId e = sg_bookingId (obj w) \<and> ob_status e = OS_PENDING \<and>
     uuidCtr v = Suc (uuidCtr w)"

lemma step1_ok:
  assumes "ready w" "last_saga ss w" "sg_currentStep (obj w) = 0"
    "booking_columns_ok (new_booking (obj w) (now w))"
    "\<forall>x\<in>set (bookings w). bk_bookingReference x \<noteq> sg_bookingId (obj w)" "used w (sg_bookingId (obj w))"
  shows "\<exists>v e. executeStep1_CreateBooking w = (Inr (), v) \<and> step1_done ss w e v"
proof -
  let ?row = "stored_booking (obj w) (now w) (serial w)"
  obtain v1 where s1: "insert_booking (new_booking (obj w) (now w)) w = (Inr ?row, v1)" "inserted ?row w v1"
    using insert_booking_ok [OF assms(1,4), of ?row] assms(5,6) by (auto simp: stored_booking_def)
  have ls1: "ready v1" "last_saga ss v1" using assms(2) s1(2) by (simp_all add: frame_defs last_saga_def)
  have cols: "saga_columns_ok (step1_obj (obj v1))"
    using ls1 by (simp add: last_saga_def saga_columns_ok_def step1_obj_def int4_ok_def)
  obtain v2 where s2: "andThen (set_obj step1_obj) (\<lambda>_. save_obj) v1 = (Inr (), v2)" "obj_saved step1_obj ss v1 v2"
    using save_obj_ok [where f = step1_obj, OF ls1 _ _ _ cols] by (auto simp: step1_obj_def)
  have r2: "ready v2" using s2(2) by (auto simp: frame_defs)
  obtain e v where s3: "storeEvent ''BOOKING'' (sg_bookingId (obj v2)) ''booking.created''
        (user_payload (sg_bookingId (obj v2)) (sg_payload (obj v2))) v2 = (Inr e, v)"
    "stored v2 (sg_bookingId (obj v2)) ''booking.created'' (user_payload (sg_bookingId (obj v2)) (sg_payload (obj v2))) e v"
    using storeEvent_ok [OF r2, of "''BOOKING''" "''booking.created''"] by fastforce
  have f: "faults w = []" "faults v = []" using assms(1) s3(2) by (simp_all add: ready_def frame_defs)
  have "step1_body w = (Inr (), v)"
    using s1(1) s2(1) s3(1) by (simp add: step1_body_def step1_obj_def [abs_def])
  then have "executeStep1_CreateBooking w = (Inr (), v)"
    using assms(3) f by (simp add: executeStep1_CreateBooking_def transaction_ok)
  moreover have "step1_done ss w e v"
    using s1(2) s2(2) s3(2) assms(5)
    by (auto simp: step1_done_def frame_defs last_saga_def last_booking_def step1_obj_def stored_booking_def)
  ultimately show ?thesis by blast
qed

text \<open>Step 2: the seats are free.\<close>

lemma lock_call_ok:
  assumes "faults w = []" "validateSeatsExist seats = Inr ()" "seats \<noteq> []"
    "booking_seats (now w) f b (locks w) = None" "\<forall>s\<in>set seats. \<not> seat_taken f b (now w) (locks w) s"
  shows "\<exists>res. lockSeats_call f seats b u w =
      (Inr res, w\<lparr>locks := snd (lock_script f b u (now w) seats (locks w))\<rparr>) \<and> success res"
proof -
  have free: "redis_get (now w) (locks w) (getBookingKey f b) = None"
    using assms(4) by (auto simp: booking_seats_def split: option.splits lock_val.splits)
  have "filter (seat_taken f b (now w) (locks w)) seats = []" using assms(5) by (simp add: filter_empty_conv)
  then show ?thesis
    using assms by (simp add: lockSeats_call_def andThen_def Let_def lockSeats_new [OF assms(2) free assms(3)])
qed

definition step2_obj :: "string \<Rightarrow> SagaState \<Rightarrow> SagaState" where
  "step2_obj k s = s\<lparr>sg_currentStep := 2, sg_status := SG_SEATS_LOCKED, sg_lockKey := Some k\<rparr>"

definition step2_done :: "SagaState list \<Rightarrow> booking_world \<Rightarrow> booking_world \<Rightarrow> bool" where
  "step2_done ss w v \<longleftrightarrow> ready v \<and> now v = now w \<and> uuidSrc v = uuidSrc w \<and> broker v = broker w \<and>
     last_saga ss v \<and> (\<exists>k. obj v = (step2_obj k (obj w))\<lparr>sg_updatedAt := now w\<rparr>) \<and>
     bookings v = bookings w \<and> outbox v = outbox w \<and> uuidCtr v = uuidCtr w \<and>
     locks v = snd (lock_script (cb_flightId (sg_payload (obj w))) (sg_bookingId (obj w)) (cb_userId (sg_payload (obj w)))
        (now w) (dtoSeats (sg_payload (obj w))) (locks w))"

lemma step2_ok:
  assumes "ready w" "last_saga ss w" "sg_currentStep (obj w) = 1"
    and "dto = sg_payload (obj w)" and "validateSeatsExist (dtoSeats dto) = Inr ()" and "dtoSeats dto \<noteq> []"
    and "booking_seats (now w) (cb_flightId dto) (sg_bookingId (obj w)) (locks w) = None"
    and "\<forall>s\<in>set (dtoSeats dto). \<not> seat_taken (cb_flightId dto) (sg_bookingId (obj w)) (now w) (locks w) s"
  shows "\<exists>v. executeStep2_LockSeats w = (Inr (), v) \<and> step2_done ss w v"
proof -
  have f: "faults w = []" using assms(1) by (simp add: ready_def)
  let ?w1 = "w\<lparr>locks := snd (lock_script (cb_flightId dto) (sg_bookingId (obj w)) (cb_userId dto) (now w) (dtoSeats dto) (locks w))\<rparr>"
  obtain res where l: "lockSeats_call (cb_flightId dto) (dtoSeats dto) (sg_bookingId (obj w)) (cb_userId dto) w = (Inr res, ?w1)"
    "success res"
    using lock_call_ok [OF f assms(5-8)] by blast
  have w1: "ready ?w1" "last_saga ss ?w1" using assms(1,2) by (simp_all add: ready_def used_def last_saga_def)
  have cols: "saga_columns_ok (step2_obj (lockKey res) (obj ?w1))"
    using w1(2) by (simp add: last_saga_def saga_columns_ok_def step2_obj_def int4_ok_def)
  obtain v where s: "andThen (set_obj (step2_obj (lockKey res))) (\<lambda>_. save_obj) ?w1 = (Inr (), v)"
    "obj_saved (step2_obj (lockKey res)) ss ?w1 v"
    using save_obj_ok [where f = "step2_obj (lockKey res)", OF w1 _ _ _ cols] by (auto simp: step2_obj_def)
  have "faults v = []" "faults ?w1 = []" using s(2) f by (simp_all add: frame_defs ready_def)
  moreover have "step2_body res ?w1 = (Inr (), v)"
    using s(1) by (simp add: step2_body_def step2_obj_def [abs_def] del: andThen_Inr)
  ultimately have t: "transaction (step2_body res) ?w1 = (Inr (), v)" by (intro transaction_ok) auto
  have "executeStep2_LockSeats w = (Inr (), v)"
    using assms(3) l t
    by (simp add: executeStep2_LockSeats_def Let_def compensating_def tryCatch_def andThen_def assms(4) [symmetric])
  moreover have "step2_done ss w v" using s(2) assms(4) by (auto simp: step2_done_def frame_defs)
  ultimately show ?thesis by blast
qed

text \<open>Step 3.\<close>

definition step3_obj :: "SagaState \<Rightarrow> SagaState" where
  "step3_obj s = s\<lparr>sg_currentStep := 3, sg_status := SG_FLIGHT_RESERVED\<rparr>"

abbreviation pending :: "Booking \<Rightarrow> Booking" where
  "pending b \<equiv> b\<lparr>bk_status := BS_PENDING\<rparr>"

definition step3_done ::
  "SagaState list \<Rightarrow> Booking list \<Rightarrow> Booking \<Rightarrow> booking_world \<Rightarrow> OutboxEvent \<Rightarrow> booking_world \<Rightarrow> bool" where
  "step3_done ss bs b w e v \<longleftrightarrow> same_env w v \<and> last_saga ss v \<and> last_booking bs (touch (now w) pending b) v \<and>
     obj v = (step3_obj (obj w))\<lparr>sg_updatedAt := now w\<rparr> \<and> outbox v = outbox w @ [e] \<and>
     ob_eventType e = ''flight.reserve-seats'' \<and> ob_aggregateId e = sg_bookingId (obj w) \<and>
     ob_payload e = seat_payload (sg_bookingId (obj w)) (sg_payload (obj w)) \<and> ob_status e = OS_PENDING \<and>
     uuidCtr v = Suc (uuidCtr w)"

lemma step3_ok:
  assumes "ready w" "last_saga ss w" "sg_currentStep (obj w) = 2" "last_booking bs b w" "booking_columns_ok b"
  shows "\<exists>v e. executeStep3_ReserveFlightSeats w = (Inr (), v) \<and> step3_done ss bs b w e v"
proof -
  obtain e v1 where s1: "storeEvent ''BOOKING'' (sg_bookingId (obj w)) ''flight.reserve-seats''
        (seat_payload (sg_bookingId (obj w)) (sg_payload (obj w))) w = (Inr e, v1)"
    "stored w (sg_bookingId (obj w)) ''flight.reserve-seats'' (seat_payload (sg_bookingId (obj w)) (sg_payload (obj w))) e v1"
    using storeEvent_ok [OF assms(1), of "''BOOKING''" "''flight.reserve-seats''"] by fastforce
  have v1: "ready v1" "last_saga ss v1" using assms(2) s1(2) by (simp_all add: frame_defs last_saga_def)
  have cols: "saga_columns_ok (step3_obj (obj v1))"
    using v1 by (simp add: last_saga_def saga_columns_ok_def step3_obj_def int4_ok_def)
  obtain v2 where s2: "andThen (set_obj step3_obj) (\<lambda>_. save_obj) v1 = (Inr (), v2)" "obj_saved step3_obj ss v1 v2"
    using save_obj_ok [where f = step3_obj, OF v1 _ _ _ cols] by (auto simp: step3_obj_def)
  have o: "sg_bookingId (obj v2) = sg_bookingId (obj w)" using s1(2) s2(2) by (simp add: frame_defs step3_obj_def)
  have v2: "ready v2" "last_booking bs b v2"
    using s1(2) s2(2) assms(4) o by (auto simp: frame_defs last_booking_def)
  obtain v where s3: "update_bookings (\<lambda>b. bk_bookingReference b = sg_bookingId (obj v2)) pending v2 = (Inr (), v)"
    "updated bs (touch (now v2) pending b) v2 v"
    using update_last_booking_ok [where f = pending, OF v2] assms(5) by (auto simp: booking_columns_ok_def)
  have f: "faults w = []" "faults v = []" using assms(1) s3(2) by (simp_all add: ready_def frame_defs)
  have "step3_body w = (Inr (), v)"
    using s1(1) s2(1) s3(1) by (simp add: step3_body_def step3_obj_def [abs_def])
  then have "executeStep3_ReserveFlightSeats w = (Inr (), v)"
    using assms(3) f by (simp add: executeStep3_ReserveFlightSeats_def compensating_def tryCatch_def transaction_ok)
  moreover have "step3_done ss bs b w e v"
    using s1(2) s2(2) s3(2) by (auto simp: step3_done_def frame_defs last_saga_def)
  ultimately show ?thesis by blast
qed

text \<open>Step 2 when a seat is taken: the transaction of the compensation.\<close>

definition compensated_obj :: "string \<Rightarrow> SagaState \<Rightarrow> SagaState" where
  "compensated_obj msg s = s\<lparr>sg_status := SG_COMPENSATED, sg_errorMessage := Some msg\<rparr>"

definition compensated_early ::
  "string \<Rightarrow> SagaState list \<Rightarrow> Booking list \<Rightarrow> Booking \<Rightarrow> booking_world \<Rightarrow> booking_world \<Rightarrow> bool" where
  "compensated_early msg ss bs b w v \<longleftrightarrow> same_env w v \<and> last_saga ss v \<and>
     last_booking bs (touch (now w) (cancelled msg (now w)) b) v \<and>
     obj v = (compensated_obj msg (obj w))\<lparr>sg_updatedAt := now w\<rparr> \<and> outbox v = outbox w"

text \<open>The object has a row; the row may be older than the object.\<close>

definition has_row :: "booking_world \<Rightarrow> bool" where
  "has_row w \<longleftrightarrow> saga_columns_ok (obj w) \<and> (\<exists>r\<in>set (sagas w). sg_id r = sg_id (obj w) \<and>
     sg_sagaId r = sg_sagaId (obj w) \<and> sg_bookingId r = sg_bookingId (obj w))"

definition put_saga :: "SagaState \<Rightarrow> SagaState list \<Rightarrow> SagaState list" where
  "put_saga row ss = map (\<lambda>s. if sg_id s = sg_id row then row else s) ss"

definition put_booking :: "string \<Rightarrow> int \<Rightarrow> (Booking \<Rightarrow> Booking) \<Rightarrow> Booking list \<Rightarrow> Booking list" where
  "put_booking r t f bs = map (\<lambda>b. if bk_bookingReference b = r then touch t f b else b) bs"

lemma put_saga_twice: "sg_id r = sg_id r' \<Longrightarrow> put_saga r' (put_saga r ss) = put_saga r' ss"
  unfolding put_saga_def by (rule map_row_twice)

lemma save_row_ok:
  assumes "ready w" "has_row w" "sg_id (f (obj w)) = sg_id (obj w)" "sg_sagaId (f (obj w)) = sg_sagaId (obj w)"
    "sg_bookingId (f (obj w)) = sg_bookingId (obj w)" "saga_columns_ok (f (obj w))"
  defines "row \<equiv> (f (obj w))\<lparr>sg_updatedAt := now w\<rparr>"
  shows "andThen (set_obj f) (\<lambda>_. save_obj) w = (Inr (), w\<lparr>obj := row, sagas := put_saga row (sagas w)\<rparr>)"
    and "ready (w\<lparr>obj := row, sagas := put_saga row (sagas w)\<rparr>)"
    and "has_row (w\<lparr>obj := row, sagas := put_saga row (sagas w)\<rparr>)"
proof -
  show "andThen (set_obj f) (\<lambda>_. save_obj) w = (Inr (), w\<lparr>obj := row, sagas := put_saga row (sagas w)\<rparr>)"
    using assms(1,6) by (simp add: andThen_def save_obj_def ready_def Let_def row_def put_saga_def)
  obtain r where r: "r \<in> set (sagas w)" "sg_sagaId row = sg_sagaId r" "sg_bookingId row = sg_bookingId r" "sg_id row = sg_id r"
    using assms(2-5) by (auto simp: has_row_def row_def)
  have "\<exists>r\<in>set (sagas w). sg_sagaId s = sg_sagaId r \<and> sg_bookingId s = sg_bookingId r \<and> sg_id s = sg_id r"
    if "s \<in> set (put_saga row (sagas w))" for s
    using that r by (auto simp: put_saga_def)
  then show "ready (w\<lparr>obj := row, sagas := put_saga row (sagas w)\<rparr>)"
    using assms(1) by (intro ready_cong [OF assms(1)]) (auto simp: ready_def)
  show "has_row (w\<lparr>obj := row, sagas := put_saga row (sagas w)\<rparr>)"
  proof -
    have "row \<in> set (put_saga row (sagas w))" using r by (auto simp: put_saga_def)
    moreover have "saga_columns_ok row" using assms(6) by (simp add: row_def saga_columns_ok_def)
    ultimately show ?thesis by (auto simp: has_row_def)
  qed
qed

lemma update_rows_ok:
  assumes "ready w" "\<forall>b\<in>set (bookings w). bk_bookingReference b = r \<longrightarrow> booking_columns_ok (f b)"
    "\<And>b. bk_bookingReference (f b) = bk_bookingReference b"
  shows "update_bookings (\<lambda>b. bk_bookingReference b = r) f w =
      (Inr (), w\<lparr>bookings := put_booking r (now w) f (bookings w)\<rparr>)"
    and "ready (w\<lparr>bookings := put_booking r (now w) f (bookings w)\<rparr>)"
proof -
  show "update_bookings (\<lambda>b. bk_bookingReference b = r) f w =
      (Inr (), w\<lparr>bookings := put_booking r (now w) f (bookings w)\<rparr>)"
    using assms(1,2) by (auto simp: update_bookings_def ready_def put_booking_def)
  show "ready (w\<lparr>bookings := put_booking r (now w) f (bookings w)\<rparr>)"
    using assms(1,3) by (intro ready_cong [OF assms(1)]) (auto simp: ready_def put_booking_def)
qed

lemma release_call_ok:
  "faults w = [] \<Longrightarrow> releaseSeats_call f b w = (Inr (), w\<lparr>locks := releaseSeats f b (now w) (locks w)\<rparr>)"
  by (auto simp: releaseSeats_call_def andThen_def modify_def releaseSeats_def split: option.splits)

lemma ready_locks: "ready (w\<lparr>locks := l\<rparr>) = ready w" "has_row (w\<lparr>locks := l\<rparr>) = has_row w"
  by (simp_all add: ready_def used_def has_row_def)

text \<open>A compensation without faults, from any step.\<close>

definition compensated :: "string \<Rightarrow> booking_world \<Rightarrow> OutboxEvent list \<Rightarrow> booking_world \<Rightarrow> bool" where
  "compensated msg w es v \<longleftrightarrow> ready v \<and> now v = now w \<and> uuidSrc v = uuidSrc w \<and> broker v = broker w \<and>
     obj v = (compensated_obj msg (obj w))\<lparr>sg_updatedAt := now w\<rparr> \<and> sagas v = put_saga (obj v) (sagas w) \<and>
     bookings v = put_booking (sg_bookingId (obj w)) (now w) (cancelled msg (now w)) (bookings w) \<and>
     outbox v = outbox w @ es \<and>
     (if 3 \<le> sg_currentStep (obj w)
      then \<exists>e. es = [e] \<and> ob_eventType e = ''flight.release-seats'' \<and> ob_aggregateId e = sg_bookingId (obj w) \<and>
             ob_payload e = seat_payload (sg_bookingId (obj w)) (sg_payload (obj w)) \<and> ob_status e = OS_PENDING
      else es = []) \<and>
     locks v = (if 2 \<le> sg_currentStep (obj w)
       then releaseSeats (cb_flightId (sg_payload (obj w))) (sg_bookingId (obj w)) (now w) (locks w) else locks w)"

lemma cancelled_columns [simp]: "booking_columns_ok (cancelled m t b) = booking_columns_ok b"
  "bk_bookingReference (cancelled m t b) = bk_bookingReference b"
  by (simp_all add: booking_columns_ok_def cancelled_def)

lemma compensate_ok:
  assumes "ready w" "has_row w" "sg_status (obj w) \<noteq> SG_COMPENSATED"
    "\<forall>b\<in>set (bookings w). bk_bookingReference b = sg_bookingId (obj w) \<longrightarrow> booking_columns_ok b"
  shows "\<exists>v es. compensate msg w = (Inr (), v) \<and> compensated msg w es v"
proof -
  let ?f = "\<lambda>s. s\<lparr>sg_status := SG_COMPENSATING, sg_errorMessage := Some msg\<rparr>"
    and ?g = "\<lambda>s. s\<lparr>sg_status := SG_COMPENSATED\<rparr>"
  let ?r1 = "(?f (obj w))\<lparr>sg_updatedAt := now w\<rparr>"
  let ?w1 = "w\<lparr>obj := ?r1, sagas := put_saga ?r1 (sagas w)\<rparr>"
  have c1: "saga_columns_ok (?f (obj w))" using assms(2) by (simp add: has_row_def saga_columns_ok_def)
  note s1 = save_row_ok [where f = ?f, OF assms(1,2) _ _ _ c1, simplified]
  have "\<exists>v2 es. compensate_event ?w1 = (Inr (), v2) \<and> ready v2 \<and> has_row v2 \<and> bookings v2 = bookings w \<and> sagas v2 = sagas ?w1 \<and>
      obj v2 = ?r1 \<and> locks v2 = locks w \<and> now v2 = now w \<and> uuidSrc v2 = uuidSrc w \<and> broker v2 = broker w \<and>
      outbox v2 = outbox w @ es \<and>
     (if 3 \<le> sg_currentStep (obj w)
      then \<exists>e. es = [e] \<and> ob_eventType e = ''flight.release-seats'' \<and> ob_aggregateId e = sg_bookingId (obj w) \<and>
             ob_payload e = seat_payload (sg_bookingId (obj w)) (sg_payload (obj w)) \<and> ob_status e = OS_PENDING
      else es = [])"
  proof (cases "3 \<le> sg_currentStep (obj w)")
    case True
    obtain e v2 where "storeEvent ''BOOKING'' (sg_bookingId (obj w)) ''flight.release-seats''
        (seat_payload (sg_bookingId (obj w)) (sg_payload (obj w))) ?w1 = (Inr e, v2)"
      "stored ?w1 (sg_bookingId (obj w)) ''flight.release-seats'' (seat_payload (sg_bookingId (obj w)) (sg_payload (obj w))) e v2"
      using storeEvent_ok [OF s1(2), of "''BOOKING''" "''flight.release-seats''"] by fastforce
    with True s1(3) show ?thesis
      by (intro exI [of _ v2] exI [of _ "[e]"]) (simp add: compensate_event_def frame_defs has_row_def)
  next
    case False
    with s1(2,3) show ?thesis
      by (intro exI [of _ ?w1] exI [of _ "[]"]) (simp add: compensate_event_def)
  qed
  then obtain v2 es where v2: "compensate_event ?w1 = (Inr (), v2)" "ready v2" "has_row v2" "bookings v2 = bookings w"
      "sagas v2 = sagas ?w1" "obj v2 = ?r1" "locks v2 = locks w" "now v2 = now w" "uuidSrc v2 = uuidSrc w"
      "broker v2 = broker w" "outbox v2 = outbox w @ es"
    and es: "if 3 \<le> sg_currentStep (obj w)
      then \<exists>e. es = [e] \<and> ob_eventType e = ''flight.release-seats'' \<and> ob_aggregateId e = sg_bookingId (obj w) \<and>
             ob_payload e = seat_payload (sg_bookingId (obj w)) (sg_payload (obj w)) \<and> ob_status e = OS_PENDING
      else es = []" by blast
  let ?l = "if 2 \<le> sg_currentStep (obj w)
       then releaseSeats (cb_flightId (sg_payload (obj w))) (sg_bookingId (obj w)) (now w) (locks w) else locks w"
  let ?v3 = "v2\<lparr>locks := ?l\<rparr>"
  have f2: "faults v2 = []" using v2(2) by (simp add: ready_def)
  have v3: "compensate_locks v2 = (Inr (), ?v3)"
    using v2 by (simp add: compensate_locks_def release_call_ok [OF f2])
  have r3: "ready ?v3" "has_row ?v3" using v2(2,3) by (simp_all add: ready_locks)
  let ?b = "put_booking (sg_bookingId (obj w)) (now w) (cancelled msg (now w)) (bookings w)"
  let ?v4 = "?v3\<lparr>bookings := ?b\<rparr>"
  have v4: "update_bookings (\<lambda>b. bk_bookingReference b = sg_bookingId (obj w)) (cancelled msg (now w)) ?v3 = (Inr (), ?v4)"
    "ready ?v4"
    using update_rows_ok [OF r3(1), of "sg_bookingId (obj w)" "cancelled msg (now w)"] assms(4) v2(4,8) by simp_all
  have r4: "has_row ?v4" using r3(2) by (simp add: has_row_def)
  have c4: "saga_columns_ok (?g (obj ?v4))" using r4 by (simp add: has_row_def saga_columns_ok_def)
  note s5 = save_row_ok [where f = ?g, OF v4(2) r4 _ _ _ c4, simplified]
  let ?r5 = "(?g (obj ?v4))\<lparr>sg_updatedAt := now ?v4\<rparr>"
  let ?v = "?v4\<lparr>obj := ?r5, sagas := put_saga ?r5 (sagas ?v4)\<rparr>"
  have body: "compensate_body msg w = (Inr (), ?v)"
    using s1(1) v2(1,6,8) v3 v4(1) s5(1) by (simp add: compensate_body_def)
  have rv: "ready ?v" using s5(2) by simp
  have "compensate msg w = (Inr (), ?v)"
    using assms(1,3) body rv by (simp add: compensate_def tryCatch_def transaction_ok ready_def)
  moreover have "compensated msg w es ?v"
    using rv v2 es unfolding compensated_def
    by (simp add: compensated_obj_def put_saga_twice)
  ultimately show ?thesis by blast
qed

lemma compensate_early_ok:
  assumes "ready w" "last_saga ss w" "sg_currentStep (obj w) = 1" "sg_status (obj w) \<noteq> SG_COMPENSATED"
    "last_booking bs b w" "booking_columns_ok b"
  shows "\<exists>v. compensate msg w = (Inr (), v) \<and> compensated_early msg ss bs b w v"
proof -
  have "has_row w" using assms(2) by (simp add: has_row_def last_saga_def)
  moreover have "\<forall>b\<in>set (bookings w). bk_bookingReference b = sg_bookingId (obj w) \<longrightarrow> booking_columns_ok b"
    using assms(5,6) by (auto simp: last_booking_def)
  ultimately obtain v es where v: "compensate msg w = (Inr (), v)" "compensated msg w es v"
    using compensate_ok [OF assms(1) _ assms(4)] by blast
  have "put_booking (sg_bookingId (obj w)) (now w) (cancelled msg (now w)) (bookings w) =
      bs @ [touch (now w) (cancelled msg (now w)) b]"
    using assms(5) by (auto simp: put_booking_def last_booking_def intro: map_idI)
  moreover have "put_saga (obj v) (sagas w) = ss @ [obj v]"
    using assms(2) v(2) by (auto simp: put_saga_def last_saga_def compensated_def compensated_obj_def intro: map_idI)
  moreover have "saga_columns_ok (obj v)"
    using assms(2) v(2) by (simp add: compensated_def compensated_obj_def last_saga_def saga_columns_ok_def)
  ultimately have "compensated_early msg ss bs b w v"
    using v(2) assms(2,3,5) by (simp add: compensated_def compensated_early_def same_env_def last_saga_def
      last_booking_def compensated_obj_def)
  with v(1) show ?thesis by blast
qed

lemma step2_taken:
  assumes "ready w" "last_saga ss w" "sg_currentStep (obj w) = 1" "sg_status (obj w) \<noteq> SG_COMPENSATED"
    "last_booking bs b w" "booking_columns_ok b"
    and "dto = sg_payload (obj w)" and "validateSeatsExist (dtoSeats dto) = Inr ()"
    and "booking_seats (now w) (cb_flightId dto) (sg_bookingId (obj w)) (locks w) = None"
    and "taken = filter (seat_taken (cb_flightId dto) (sg_bookingId (obj w)) (now w) (locks w)) (dtoSeats dto)"
    and "taken \<noteq> []"
  shows "\<exists>v. executeStep2_LockSeats w = (Inl (JsError (''Failed to lock seats: '' @ join '', '' taken)), v) \<and>
    compensated_early (''Failed to lock seats: '' @ join '', '' taken) ss bs b w v"
proof -
  let ?msg = "''Failed to lock seats: '' @ join '', '' taken"
  have f: "faults w = []" using assms(1) by (simp add: ready_def)
  have free: "redis_get (now w) (locks w) (getBookingKey (cb_flightId dto) (sg_bookingId (obj w))) = None"
    using assms(9) by (auto simp: booking_seats_def split: option.splits lock_val.splits)
  have ne: "dtoSeats dto \<noteq> []" using assms(10,11) by auto
  have l: "\<exists>res. lockSeats_call (cb_flightId dto) (dtoSeats dto) (sg_bookingId (obj w)) (cb_userId dto) w = (Inr res, w) \<and>
      \<not> success res \<and> failedSeats res = taken"
    using f assms(8-11) ne
    by (simp add: lockSeats_call_def andThen_def Let_def lockSeats_new [OF assms(8) free ne])
  obtain v where c: "compensate ?msg w = (Inr (), v)" "compensated_early ?msg ss bs b w v"
    using compensate_early_ok [OF assms(1-6)] by blast
  have "executeStep2_LockSeats w = (Inl (JsError ?msg), v)"
    using assms(3) l c(1)
    by (auto simp: executeStep2_LockSeats_def Let_def compensating_def tryCatch_def andThen_def throw_def assms(7) [symmetric])
  with c(2) show ?thesis by blast
qed

text \<open>The start of a saga.\<close>

definition begun :: "CreateBookingDto \<Rightarrow> string option \<Rightarrow> booking_world \<Rightarrow> booking_world" where
  "begun dto key w =
     (let row = (new_saga (uuidSrc w (uuidCtr w)) (uuidSrc w (Suc (uuidCtr w))) dto key)
                  \<lparr>sg_id := serial w, sg_createdAt := now w, sg_updatedAt := now w\<rparr>
      in w\<lparr>uuidCtr := Suc (Suc (uuidCtr w)), serial := serial w + 1, sagas := sagas w @ [row], obj := row\<rparr>)"

lemma run_saga_begun:
  assumes "ready w" "varchar_ok 100 key"
  shows "run_saga dto key w =
      andThen executeStep1_CreateBooking (\<lambda>_. andThen executeStep2_LockSeats (\<lambda>_.
        andThen executeStep3_ReserveFlightSeats (\<lambda>_. findByReference (uuidSrc w (Suc (uuidCtr w)))))) (begun dto key w)"
    and "ready (begun dto key w)" and "last_saga (sagas w) (begun dto key w)"
    and "\<forall>x\<in>set (bookings (begun dto key w)). bk_bookingReference x \<noteq> sg_bookingId (obj (begun dto key w))"
    and "used (begun dto key w) (sg_bookingId (obj (begun dto key w)))"
proof -
  let ?b = "begun dto key w"
  have cols: "saga_columns_ok (new_saga (uuidSrc w (uuidCtr w)) (uuidSrc w (Suc (uuidCtr w))) dto key)"
    using assms by (simp add: saga_columns_ok_def new_saga_def ready_def int4_ok_def)
  have nu: "\<forall>s\<in>set (sagas w). sg_sagaId s \<noteq> uuidSrc w (uuidCtr w)"
    using assms(1) next_not_used [OF assms(1), of "uuidCtr w"] by (auto simp: ready_def)
  show "run_saga dto key w = andThen executeStep1_CreateBooking (\<lambda>_. andThen executeStep2_LockSeats (\<lambda>_.
        andThen executeStep3_ReserveFlightSeats (\<lambda>_. findByReference (uuidSrc w (Suc (uuidCtr w)))))) ?b"
    using assms(1) cols nu
    by (simp add: run_saga_def andThen_def freshUuid_def insert_saga_def ready_def Let_def begun_def new_saga_def
        set_obj_def modify_def)
  have u1: "used ?b (uuidSrc w (uuidCtr w))" "used ?b (uuidSrc w (Suc (uuidCtr w)))"
    by (auto simp: used_def begun_def Let_def intro: exI [of _ "uuidCtr w"] exI [of _ "Suc (uuidCtr w)"])
  have u2: "used ?b x" if "used w x" for x
    using that by (rule used_later) (simp_all add: begun_def Let_def)
  show "used ?b (sg_bookingId (obj ?b))" using u1 by (simp add: begun_def Let_def new_saga_def)
  show "ready ?b"
    using assms(1) u1 u2 by (auto simp: ready_def begun_def Let_def new_saga_def less_le_trans)
  show "last_saga (sagas w) ?b"
    using assms(1) cols by (auto simp: last_saga_def begun_def Let_def ready_def saga_columns_ok_def)
  show "\<forall>x\<in>set (bookings ?b). bk_bookingReference x \<noteq> sg_bookingId (obj ?b)"
    using assms(1) next_not_used [OF assms(1), of "Suc (uuidCtr w)"]
    by (auto simp: ready_def begun_def Let_def new_saga_def)
qed

lemma round2_int: "round2 (of_int k / 100) = of_int k / 100"
proof -
  have "\<lfloor>of_int n + 1 / 2 :: rat\<rfloor> = n" for n by linarith
  from this [of k] this [of "- k"] show ?thesis by (simp add: round2_def)
qed

lemma round2_round2 [simp]: "round2 (round2 x) = round2 x"
proof -
  have "round2 x = of_int (if x < 0 then - \<lfloor>- x * 100 + 1 / 2\<rfloor> else \<lfloor>x * 100 + 1 / 2\<rfloor>) / 100"
    by (simp add: round2_def)
  then show ?thesis by (metis round2_int)
qed

lemma booking_columns_stored: "booking_columns_ok (new_booking s t) \<Longrightarrow> booking_columns_ok (stored_booking s t i)"
  by (simp add: booking_columns_ok_def stored_booking_def)

lemma begun_simps [simp]:
  "now (begun dto key w) = now w" "locks (begun dto key w) = locks w" "outbox (begun dto key w) = outbox w"
  "bookings (begun dto key w) = bookings w" "sg_payload (obj (begun dto key w)) = dto"
  "sg_bookingId (obj (begun dto key w)) = uuidSrc w (Suc (uuidCtr w))"
  "sg_currentStep (obj (begun dto key w)) = 0" "sg_status (obj (begun dto key w)) = SG_INITIATED"
  "sagas (begun dto key w) = sagas w @ [obj (begun dto key w)]" "uuidSrc (begun dto key w) = uuidSrc w"
  "broker (begun dto key w) = broker w" "sg_idempotencyKey (obj (begun dto key w)) = key"
  by (simp_all add: begun_def Let_def new_saga_def)

lemma new_booking_begun:
  "new_booking (obj (begun dto key w)) t = new_booking (new_saga '''' (uuidSrc w (Suc (uuidCtr w))) dto key) t"
  by (simp add: new_booking_def begun_def Let_def new_saga_def)

subsection \<open>The whole saga\<close>

text \<open>From \<open>t0\<close> on the booking has the seat for 15 minutes: it holds it exactly that long, and exactly that
  long the lock script refuses the seat to every other booking.\<close>

definition leased :: "int \<Rightarrow> lock_val redis \<Rightarrow> int \<Rightarrow> string \<Rightarrow> string \<Rightarrow> bool" where
  "leased t0 r f b s \<longleftrightarrow> (\<forall>t. t0 \<le> t \<longrightarrow> (holds t r f b s \<longleftrightarrow> t < t0 + 15 * 60 * 1000) \<and>
     (\<forall>b'. b' \<noteq> b \<longrightarrow> (seat_taken f b' t r s \<longleftrightarrow> t < t0 + 15 * 60 * 1000)))"

lemma lock_script_leases:
  assumes "filter (seat_taken f b t0 r) seats = []" "s \<in> set seats"
  shows "leased t0 (snd (lock_script f b u t0 seats r)) f b s"
proof -
  let ?r = "snd (lock_script f b u t0 seats r)"
  have seat: "?r (getSeatKey f s) = Some (seat_entry f b u t0 s, Some (t0 + 900000))"
    using assms by simp
  have key: "?r (getBookingKey f b) = Some (BookVal \<lparr>bl_flightId = show_int f, bl_seats = seats, bl_userId = show_int u,
      bl_timestamp = t0\<rparr>, Some (t0 + 900000))"
    by (simp add: lock_script_success [OF assms(1)] redis_setex_apply)
  have "seat_taken f b' t ?r s \<longleftrightarrow> t < t0 + 900000" if "b' \<noteq> b" for b' t
    using that by (auto simp: seat_taken_def redis_get_def seat seat_entry_def)
  moreover have "holds t ?r f b s \<longleftrightarrow> t < t0 + 900000" for t
    using assms(2) by (simp add: holds_def booking_seats_def redis_get_def key)
  ultimately show ?thesis by (simp add: leased_def)
qed

lemma saga_run_ok:
  assumes "ready w" and "booking_columns_ok (new_booking (new_saga '''' (uuidSrc w (Suc (uuidCtr w))) dto None) (now w))"
    and "validateSeatsExist (dtoSeats dto) = Inr ()" and "dtoSeats dto \<noteq> []"
    and "booking_seats (now w) (cb_flightId dto) (uuidSrc w (Suc (uuidCtr w))) (locks w) = None"
    and "\<forall>s\<in>set (dtoSeats dto). \<not> seat_taken (cb_flightId dto) (uuidSrc w (Suc (uuidCtr w))) (now w) (locks w) s"
  shows "\<exists>b s e1 e2 v. executeBookingSaga dto None w = (Inr (Some b), v) \<and>
    bookings v = bookings w @ [b] \<and> bk_bookingReference b = uuidSrc w (Suc (uuidCtr w)) \<and>
    bk_status b = BS_PENDING \<and> bk_paymentStatus b = PS_PENDING \<and> bk_noOfSeats b = seatCount dto \<and>
    bk_seatNumbers b = dtoSeats dto \<and> bk_seatClass b = Some (resolvedSeatClass dto) \<and>
    bk_expiresAt b = Some (now w + 900000) \<and>
    sagas v = sagas w @ [s] \<and> sg_status s = SG_FLIGHT_RESERVED \<and> sg_currentStep s = 3 \<and>
    sg_bookingId s = bk_bookingReference b \<and>
    outbox v = outbox w @ [e1, e2] \<and> map ob_eventType [e1, e2] = [''booking.created'', ''flight.reserve-seats''] \<and>
    map ob_aggregateId [e1, e2] = [bk_bookingReference b, bk_bookingReference b] \<and>
    ob_payload e2 = seat_payload (bk_bookingReference b) dto \<and>
    (\<forall>x\<in>set (dtoSeats dto). holds (now v) (locks v) (cb_flightId dto) (bk_bookingReference b) x) \<and>
    (\<forall>x\<in>set (dtoSeats dto). leased (now w) (locks v) (cb_flightId dto) (bk_bookingReference b) x) \<and>
    ready v \<and> saga_columns_ok s \<and> booking_columns_ok b \<and> sg_payload s = dto \<and> now v = now w \<and>
    bk_userId b = cb_userId dto \<and> uuidCtr v = uuidCtr w + 4 \<and> uuidSrc v = uuidSrc w"
proof -
  let ?w0 = "begun dto None w" and ?id = "uuidSrc w (Suc (uuidCtr w))"
  note start = run_saga_begun [OF assms(1), of None dto]
  have v: "varchar_ok 100 None" by (simp add: varchar_ok_def)
  have cols: "booking_columns_ok (new_booking (obj ?w0) (now ?w0))" using assms(2) by (simp add: new_booking_begun)
  obtain w1 e1 where s1: "executeStep1_CreateBooking ?w0 = (Inr (), w1)" "step1_done (sagas w) ?w0 e1 w1"
    using step1_ok [OF start(2,3) [OF v] _ cols start(4,5) [OF v]] by auto
  note f1 = s1(2) [unfolded step1_done_def same_env_def]
  let ?b1 = "stored_booking (obj ?w0) (now ?w0) (serial ?w0)"
  have o1: "sg_currentStep (obj w1) = 1" "sg_payload (obj w1) = dto" "sg_bookingId (obj w1) = ?id"
    using f1 by (simp_all add: step1_obj_def)
  have pre1: "ready w1" "last_saga (sagas w) w1" "now w1 = now w" "locks w1 = locks w" using f1 by simp_all
  obtain w2 where s2: "executeStep2_LockSeats w1 = (Inr (), w2)" "step2_done (sagas w) w1 w2"
    using step2_ok [OF pre1(1,2) o1(1) o1(2) [symmetric] assms(3,4)] assms(5,6) unfolding o1(3) pre1(3,4) by blast
  note f2 = s2(2) [unfolded step2_done_def]
  have o2: "sg_currentStep (obj w2) = 2" "sg_payload (obj w2) = dto" "sg_bookingId (obj w2) = ?id"
    using f2 o1 by (auto simp: step2_obj_def)
  have "last_booking (bookings w) ?b1 w1" "bookings w2 = bookings w1" using f1 f2 by simp_all
  then have lb2: "last_booking (bookings w) ?b1 w2" using last_booking_cong [of w2 w1] o1(3) o2(3) by simp
  obtain w3 e2 where s3: "executeStep3_ReserveFlightSeats w2 = (Inr (), w3)"
    "step3_done (sagas w) (bookings w) ?b1 w2 e2 w3"
    using step3_ok [of w2 "sagas w" "bookings w" ?b1] f2 o2(1) lb2 booking_columns_stored [OF cols] by blast
  note f3 = s3(2) [unfolded step3_done_def same_env_def]
  let ?b = "touch (now w2) pending ?b1"
  have find: "findByReference ?id w3 = (Inr (Some ?b), w3)"
  proof -
    have "last_booking (bookings w) ?b w3" "sg_bookingId (obj w3) = ?id" "faults w3 = []"
      using f3 o2(3) by (auto simp: step3_obj_def ready_def)
    then show ?thesis
      by (simp add: findByReference_def last_booking_def find_last)
  qed
  have run: "executeBookingSaga dto None w = (Inr (Some ?b), w3)"
    unfolding executeBookingSaga_def using start(1) [OF v] s1(1) s2(1) s3(1) find by simp
  have locks: "locks w3 = snd (lock_script (cb_flightId dto) ?id (cb_userId dto) (now w) (dtoSeats dto) (locks w))"
    "now w3 = now w"
    using f1 f2 f3 o1 by (auto simp: step1_obj_def)
  have free: "filter (seat_taken (cb_flightId dto) ?id (now w) (locks w)) (dtoSeats dto) = []"
    using assms(6) by (simp add: filter_empty_conv)
  have held: "\<forall>x\<in>set (dtoSeats dto). holds (now w3) (locks w3) (cb_flightId dto) ?id x"
    by (simp add: locks lock_script_success [OF free] holds_def booking_seats_def redis_get_def redis_setex_def)
  have lease: "\<forall>x\<in>set (dtoSeats dto). leased (now w) (locks w3) (cb_flightId dto) ?id x"
    unfolding locks(1) using lock_script_leases [OF free] by blast
  have b: "bk_bookingReference ?b = ?id" "bk_status ?b = BS_PENDING" "bk_paymentStatus ?b = PS_PENDING"
    "bk_noOfSeats ?b = seatCount dto" "bk_seatNumbers ?b = dtoSeats dto"
    "bk_seatClass ?b = Some (resolvedSeatClass dto)" "bk_expiresAt ?b = Some (now w + 900000)"
    by (simp_all add: stored_booking_def touch_def new_booking_def Let_def)
  have tables: "bookings w3 = bookings w @ [?b]" "sagas w3 = sagas w @ [obj w3]" "outbox w3 = outbox w @ [e1, e2]"
    using f1 f2 f3 by (auto simp: last_booking_def last_saga_def)
  have s: "sg_status (obj w3) = SG_FLIGHT_RESERVED" "sg_currentStep (obj w3) = 3" "sg_bookingId (obj w3) = ?id"
    using f3 o2 by (auto simp: step3_obj_def)
  have e: "ob_eventType e1 = ''booking.created''" "ob_eventType e2 = ''flight.reserve-seats''"
    "ob_aggregateId e1 = ?id" "ob_aggregateId e2 = ?id" "ob_payload e2 = seat_payload ?id dto"
    using f1 f3 o2 by auto
  have "executeBookingSaga dto None w = (Inr (Some B), w3) \<and> bookings w3 = bookings w @ [B] \<and>
      bk_bookingReference B = ?id \<and> bk_status B = BS_PENDING \<and> bk_paymentStatus B = PS_PENDING \<and>
      bk_noOfSeats B = seatCount dto \<and> bk_seatNumbers B = dtoSeats dto \<and>
      bk_seatClass B = Some (resolvedSeatClass dto) \<and> bk_expiresAt B = Some (now w + 900000)" if "B = ?b" for B
    unfolding that by (intro conjI run tables b)
  then obtain B where B: "executeBookingSaga dto None w = (Inr (Some B), w3)" "bookings w3 = bookings w @ [B]"
      "bk_bookingReference B = ?id" "bk_status B = BS_PENDING" "bk_paymentStatus B = PS_PENDING"
      "bk_noOfSeats B = seatCount dto" "bk_seatNumbers B = dtoSeats dto"
      "bk_seatClass B = Some (resolvedSeatClass dto)" "bk_expiresAt B = Some (now w + 900000)" by blast
  have u: "uuidCtr w3 = uuidCtr w + 4" "uuidSrc w3 = uuidSrc w" using f1 f2 f3 by (simp_all add: begun_def Let_def)
  have x0: "ready w3" "saga_columns_ok (obj w3)" using f3 unfolding last_saga_def by blast+
  have x: "ready w3" "saga_columns_ok (obj w3)" "sg_payload (obj w3) = dto"
    using x0 f3 o2(2) by (simp_all add: step3_obj_def)
  have "booking_columns_ok (touch t pending b) = booking_columns_ok b" for t b
    by (simp add: touch_def booking_columns_ok_def)
  then have "booking_columns_ok ?b" using booking_columns_stored [OF cols] by simp
  moreover have "bk_userId ?b = cb_userId dto" by (simp add: touch_def stored_booking_def new_booking_def Let_def)
  ultimately have y: "booking_columns_ok ?b" "bk_userId ?b = cb_userId dto" by simp_all
  from y have z: "booking_columns_ok B" "bk_userId B = cb_userId dto" using B(1) run by auto
  show ?thesis
    by (intro exI [of _ B] exI [of _ "obj w3"] exI [of _ e1] exI [of _ e2] exI [of _ w3])
      (simp add: B tables(2,3) s e held lease x z u, rule locks(2))
qed

subsection \<open>Properties\<close>

text \<open>The booking saga without faults. For a request with valid, free seats the orchestrator
  returns the new booking with status PENDING, under a fresh reference and with the class and the
  number of seats of the request; one saga row records FLIGHT_RESERVED at step 3; the outbox has
  gained exactly the events booking.created and flight.reserve-seats of this booking, in this
  order; and the booking holds every seat it asked for.\<close>

theorem saga_happy_path:
  assumes "ready w" and "booking_columns_ok (new_booking (new_saga '''' (uuidSrc w (Suc (uuidCtr w))) dto None) (now w))"
    and "validateSeatsExist (dtoSeats dto) = Inr ()" and "dtoSeats dto \<noteq> []"
    and "booking_seats (now w) (cb_flightId dto) (uuidSrc w (Suc (uuidCtr w))) (locks w) = None"
    and "\<forall>s\<in>set (dtoSeats dto). \<not> seat_taken (cb_flightId dto) (uuidSrc w (Suc (uuidCtr w))) (now w) (locks w) s"
  shows "\<exists>b s e1 e2 v. executeBookingSaga dto None w = (Inr (Some b), v) \<and>
    bookings v = bookings w @ [b] \<and> bk_bookingReference b = uuidSrc w (Suc (uuidCtr w)) \<and>
    bk_status b = BS_PENDING \<and> bk_paymentStatus b = PS_PENDING \<and> bk_noOfSeats b = seatCount dto \<and>
    bk_seatNumbers b = dtoSeats dto \<and> bk_seatClass b = Some (resolvedSeatClass dto) \<and>
    bk_expiresAt b = Some (now w + 900000) \<and>
    sagas v = sagas w @ [s] \<and> sg_status s = SG_FLIGHT_RESERVED \<and> sg_currentStep s = 3 \<and>
    sg_bookingId s = bk_bookingReference b \<and>
    outbox v = outbox w @ [e1, e2] \<and> map ob_eventType [e1, e2] = [''booking.created'', ''flight.reserve-seats''] \<and>
    map ob_aggregateId [e1, e2] = [bk_bookingReference b, bk_bookingReference b] \<and>
    ob_payload e2 = seat_payload (bk_bookingReference b) dto \<and>
    (\<forall>x\<in>set (dtoSeats dto). holds (now v) (locks v) (cb_flightId dto) (bk_bookingReference b) x)"
  using saga_run_ok [OF assms] by (elim exE conjE) (intro exI conjI; assumption)

lemma sample_ready: "ready sample_world"
  by (simp add: ready_def sample_world_def inj_def)

lemma sample_dto_seats: "dtoSeats sample_dto = [''12A'']" "cb_flightId sample_dto = 7"
  by (simp_all add: dtoSeats_def sample_dto_def)

lemma sample_columns:
  "booking_columns_ok (new_booking (new_saga '''' x sample_dto None) t)"
  by (simp add: booking_columns_ok_def new_booking_def Let_def new_saga_def sample_dto_def blank_booking_def
      int4_ok_def varchar_ok_def round2_def seatCount_def resolvedSeatClass_def)

lemma sample_free: "booking_seats t f b (locks sample_world) = None" "\<not> seat_taken f b t (locks sample_world) s"
  by (simp_all add: sample_world_def booking_seats_def seat_taken_def redis_get_def)

theorem saga_happy_path_witness:
  "\<exists>b v. executeBookingSaga sample_dto None sample_world = (Inr (Some b), v) \<and> bk_status b = BS_PENDING \<and>
     map ob_eventType (outbox v) = [''booking.created'', ''flight.reserve-seats''] \<and>
     holds (now v) (locks v) 7 (bk_bookingReference b) ''12A''"
proof -
  have seats: "validateSeatsExist (dtoSeats sample_dto) = Inr ()" "dtoSeats sample_dto \<noteq> []"
    "\<forall>s\<in>set (dtoSeats sample_dto). \<not> seat_taken (cb_flightId sample_dto)
       (uuidSrc sample_world (Suc (uuidCtr sample_world))) (now sample_world) (locks sample_world) s"
    by (simp_all add: sample_dto_seats validate_12A sample_free)
  have "outbox sample_world = []" by (simp add: sample_world_def)
  with saga_happy_path [OF sample_ready sample_columns seats(1,2) sample_free(1) seats(3)]
  show ?thesis by (auto simp: sample_dto_seats)
qed

text \<open>A request that names its class only as a preference is recorded with that class but reserved in
  economy: the booking row gets the class of \<open>seatPreference\<close>, the event flight.reserve-seats asks
  for ECONOMY seats.\<close>

theorem seat_preference_not_reserved:
  assumes "ready w" and "booking_columns_ok (new_booking (new_saga '''' (uuidSrc w (Suc (uuidCtr w))) dto None) (now w))"
    and "validateSeatsExist (dtoSeats dto) = Inr ()" and "dtoSeats dto \<noteq> []"
    and "booking_seats (now w) (cb_flightId dto) (uuidSrc w (Suc (uuidCtr w))) (locks w) = None"
    and "\<forall>s\<in>set (dtoSeats dto). \<not> seat_taken (cb_flightId dto) (uuidSrc w (Suc (uuidCtr w))) (now w) (locks w) s"
    and "cb_seatClass dto = None" and "cb_seatPreference dto = Some pref" and "to_upper pref = ''BUSINESS''"
  shows "\<exists>b e v. executeBookingSaga dto None w = (Inr (Some b), v) \<and> bk_seatClass b = Some ''BUSINESS'' \<and>
    e \<in> set (outbox v) \<and> ob_eventType e = ''flight.reserve-seats'' \<and> ob_aggregateId e = bk_bookingReference b \<and>
    ep_seatClass (ob_payload e) = Some ''ECONOMY''"
proof -
  have "resolvedSeatClass dto = ''BUSINESS''" using assms(7-9) by (auto simp: resolvedSeatClass_def seatClasses_def to_upper_def)
  moreover have "ep_seatClass (seat_payload b dto) = Some ''ECONOMY''" for b using assms(7) by (simp add: seat_payload_def)
  ultimately show ?thesis using saga_run_ok [OF assms(1-6)] by fastforce
qed

theorem seat_preference_not_reserved_witness:
  "\<exists>b e v. executeBookingSaga (sample_dto\<lparr>cb_seatPreference := Some ''Business''\<rparr>) None sample_world = (Inr (Some b), v) \<and>
     bk_seatClass b = Some ''BUSINESS'' \<and> e \<in> set (outbox v) \<and> ep_seatClass (ob_payload e) = Some ''ECONOMY''"
proof -
  let ?dto = "sample_dto\<lparr>cb_seatPreference := Some ''Business''\<rparr>"
  have up: "to_upper ''Business'' = ''BUSINESS''" by code_simp
  have d: "dtoSeats ?dto = [''12A'']" "cb_flightId ?dto = 7" "cb_seatClass ?dto = None"
    "cb_seatPreference ?dto = Some ''Business''"
    by (simp_all add: dtoSeats_def sample_dto_def)
  have cols: "booking_columns_ok (new_booking (new_saga '''' x ?dto None) t)" for x t
    by (simp add: booking_columns_ok_def new_booking_def Let_def new_saga_def sample_dto_def blank_booking_def
        int4_ok_def varchar_ok_def round2_def seatCount_def resolvedSeatClass_def up)
  have seats: "validateSeatsExist (dtoSeats ?dto) = Inr ()" "dtoSeats ?dto \<noteq> []"
    "\<forall>s\<in>set (dtoSeats ?dto). \<not> seat_taken (cb_flightId ?dto)
       (uuidSrc sample_world (Suc (uuidCtr sample_world))) (now sample_world) (locks sample_world) s"
    by (simp_all add: d validate_12A sample_free)
  from seat_preference_not_reserved [OF sample_ready cols seats(1,2) sample_free(1) seats(3) d(3,4) up]
  show ?thesis by blast
qed

text \<open>C8. When another booking holds one of the seats, the saga fails and undoes itself: the caller gets
  the error that names the taken seats, the new booking is CANCELLED with that reason, its saga is
  COMPENSATED, no seat lock changes, and no reservation or release event was stored.\<close>

theorem saga_lock_failure:
  assumes "ready w" and "booking_columns_ok (new_booking (new_saga '''' (uuidSrc w (Suc (uuidCtr w))) dto None) (now w))"
    and "validateSeatsExist (dtoSeats dto) = Inr ()"
    and "booking_seats (now w) (cb_flightId dto) (uuidSrc w (Suc (uuidCtr w))) (locks w) = None"
    and "taken = filter (seat_taken (cb_flightId dto) (uuidSrc w (Suc (uuidCtr w))) (now w) (locks w)) (dtoSeats dto)"
    and "taken \<noteq> []"
  shows "\<exists>b s e v. executeBookingSaga dto None w = (Inl (JsError (''Failed to lock seats: '' @ join '', '' taken)), v) \<and>
    bookings v = bookings w @ [b] \<and> bk_status b = BS_CANCELLED \<and>
    bk_cancellationReason b = Some (''Saga failed: Failed to lock seats: '' @ join '', '' taken) \<and>
    sagas v = sagas w @ [s] \<and> sg_status s = SG_COMPENSATED \<and> sg_bookingId s = bk_bookingReference b \<and>
    outbox v = outbox w @ [e] \<and> ob_eventType e = ''booking.created'' \<and> locks v = locks w"
proof -
  let ?w0 = "begun dto None w" and ?id = "uuidSrc w (Suc (uuidCtr w))" and ?msg = "''Failed to lock seats: '' @ join '', '' taken"
  note start = run_saga_begun [OF assms(1), of None dto]
  have v: "varchar_ok 100 None" by (simp add: varchar_ok_def)
  have cols: "booking_columns_ok (new_booking (obj ?w0) (now ?w0))" using assms(2) by (simp add: new_booking_begun)
  obtain w1 e1 where s1: "executeStep1_CreateBooking ?w0 = (Inr (), w1)" "step1_done (sagas w) ?w0 e1 w1"
    using step1_ok [OF start(2,3) [OF v] _ cols start(4,5) [OF v]] by auto
  note f1 = s1(2) [unfolded step1_done_def same_env_def]
  let ?b1 = "stored_booking (obj ?w0) (now ?w0) (serial ?w0)"
  have o1: "sg_currentStep (obj w1) = 1" "sg_payload (obj w1) = dto" "sg_bookingId (obj w1) = ?id"
    "sg_status (obj w1) \<noteq> SG_COMPENSATED"
    using f1 by (simp_all add: step1_obj_def)
  have pre1: "ready w1" "last_saga (sagas w) w1" "now w1 = now w" "locks w1 = locks w" "last_booking (bookings w) ?b1 w1"
    using f1 by simp_all
  obtain v where s2: "executeStep2_LockSeats w1 = (Inl (JsError ?msg), v)"
    "compensated_early ?msg (sagas w) (bookings w) ?b1 w1 v"
    using step2_taken [OF pre1(1,2) o1(1,4) pre1(5) booking_columns_stored [OF cols] o1(2) [symmetric] assms(3) _ _ assms(6)]
      assms(4,5) unfolding o1(3) pre1(3,4) by blast
  have run: "executeBookingSaga dto None w = (Inl (JsError ?msg), v)"
    unfolding executeBookingSaga_def using start(1) [OF v] s1(1) s2(1) by (simp add: andThen_def)
  let ?b = "touch (now w1) (cancelled ?msg (now w1)) ?b1"
  note f2 = s2(2) [unfolded compensated_early_def same_env_def]
  have b: "bk_status ?b = BS_CANCELLED" "bk_cancellationReason ?b = Some (''Saga failed: '' @ ?msg)"
    "bk_bookingReference ?b = ?id" "bookings v = bookings w @ [?b]"
    using f2 by (simp_all add: cancelled_def touch_def stored_booking_def last_booking_def)
  have s: "sagas v = sagas w @ [obj v]" "sg_status (obj v) = SG_COMPENSATED" "sg_bookingId (obj v) = ?id"
    using f2 o1(3) by (simp_all add: last_saga_def compensated_obj_def)
  have e: "outbox v = outbox w @ [e1]" "ob_eventType e1 = ''booking.created''" "locks v = locks w"
    using f1 f2 by simp_all
  show ?thesis
    by (rule exI [of _ ?b], rule exI [of _ "obj v"], rule exI [of _ e1], rule exI [of _ v])
      (use run b s e in simp)
qed

definition sample_taken :: booking_world where
  "sample_taken = sample_world\<lparr>locks := snd (lockSeats 7 [''12A''] ''other'' 9 0 Map.empty)\<rparr>"

theorem saga_lock_failure_witness:
  "\<exists>b v. executeBookingSaga sample_dto None sample_taken = (Inl (JsError ''Failed to lock seats: 12A''), v) \<and>
     bookings v = [b] \<and> bk_status b = BS_CANCELLED \<and> locks v = locks sample_taken"
proof -
  have l: "locks sample_taken = [getSeatKey 7 ''12A'' \<mapsto> (seat_entry 7 ''other'' 9 0 ''12A'', Some 900000),
      getBookingKey 7 ''other'' \<mapsto> (BookVal \<lparr>bl_flightId = show_int 7, bl_seats = [''12A''],
          bl_userId = show_int 9, bl_timestamp = 0\<rparr>, Some 900000)]"
    using lockSeats_one(1) [OF validate_12A, of 0 Map.empty 7 "''other''" 9]
    by (simp add: sample_taken_def redis_get_def seat_taken_def)
  have f: "uuidSrc sample_taken = show_nat" "uuidCtr sample_taken = 0" "now sample_taken = 1000" "bookings sample_taken = []"
    by (simp_all add: sample_taken_def sample_world_def)
  have r: "ready sample_taken" using sample_ready by (simp add: sample_taken_def ready_locks)
  have other: "show_nat (Suc 0) \<noteq> ''other''" by (simp add: show_nat.simps)
  have taken: "seat_taken (cb_flightId sample_dto) (uuidSrc sample_taken (Suc (uuidCtr sample_taken)))
      (now sample_taken) (locks sample_taken) ''12A''"
    using other by (simp add: seat_taken_def redis_get_def l f sample_dto_seats seat_entry_def)
  have free: "booking_seats (now sample_taken) (cb_flightId sample_dto) (uuidSrc sample_taken (Suc (uuidCtr sample_taken)))
      (locks sample_taken) = None"
    using other by (simp add: booking_seats_def redis_get_def l f sample_dto_seats)
  have val: "validateSeatsExist (dtoSeats sample_dto) = Inr ()" by (simp add: sample_dto_seats validate_12A)
  have tk: "[''12A''] = filter (seat_taken (cb_flightId sample_dto) (uuidSrc sample_taken (Suc (uuidCtr sample_taken)))
      (now sample_taken) (locks sample_taken)) (dtoSeats sample_dto)"
    using taken by (simp add: sample_dto_seats)
  from saga_lock_failure [OF r sample_columns val free tk] f(4) show ?thesis by auto
qed

subsection \<open>Completing and cancelling an existing booking\<close>

lemma find_distinct:
  "distinct (map f xs) \<Longrightarrow> x \<in> set xs \<Longrightarrow> f x = k \<Longrightarrow> find (\<lambda>y. f y = k) xs = Some x"
  by (induction xs) auto

lemma find_saga_ok:
  assumes "ready w" "distinct (map sg_bookingId (sagas w))" "s \<in> set (sagas w)"
  shows "find_saga (\<lambda>r. sg_bookingId r = sg_bookingId s) w = (Inr (Some s), w)"
  using assms find_distinct [OF assms(2,3) refl] by (simp add: find_saga_def ready_def)

lemma found_start:
  assumes "ready w" "s \<in> set (sagas w)" "saga_columns_ok s"
  shows "ready (w\<lparr>obj := s\<rparr>)" "has_row (w\<lparr>obj := s\<rparr>)"
  using assms by (auto simp: ready_def used_def has_row_def)

definition confirmed_obj :: "SagaState \<Rightarrow> SagaState" where
  "confirmed_obj s = s\<lparr>sg_currentStep := 6, sg_status := SG_BOOKING_CONFIRMED\<rparr>"

definition completed ::
  "string \<Rightarrow> booking_world \<Rightarrow> SagaState \<Rightarrow> OutboxEvent \<Rightarrow> OutboxEvent \<Rightarrow> booking_world \<Rightarrow> bool" where
  "completed tx w s e1 e2 v \<longleftrightarrow> ready v \<and> now v = now w \<and> obj v = (confirmed_obj s)\<lparr>sg_updatedAt := now w\<rparr> \<and>
     sagas v = put_saga (obj v) (sagas w) \<and>
     bookings v = put_booking (sg_bookingId s) (now w) (booked tx (now w)) (bookings w) \<and>
     locks v = releaseSeats (cb_flightId (sg_payload s)) (sg_bookingId s) (now w) (locks w) \<and>
     outbox v = outbox w @ [e1, e2] \<and> ob_eventType e1 = ''flight.confirm-seats'' \<and>
     ob_eventType e2 = ''booking.confirmed'' \<and> ob_aggregateId e1 = sg_bookingId s \<and>
     ob_aggregateId e2 = sg_bookingId s \<and> ob_payload e1 = seat_payload (sg_bookingId s) (sg_payload s)"

lemma booked_columns: "booking_columns_ok b \<Longrightarrow> length tx \<le> 100 \<Longrightarrow> booking_columns_ok (booked tx t b)"
  by (simp add: booking_columns_ok_def booked_def varchar_ok_def)

lemma booked_simps [simp]: "bk_bookingReference (booked tx t b) = bk_bookingReference b"
  "bk_status (booked tx t b) = BS_BOOKED"
  by (simp_all add: booked_def)

lemma complete_ok:
  assumes "ready w" "distinct (map sg_bookingId (sagas w))" "s \<in> set (sagas w)" "saga_columns_ok s"
    "sg_status s \<noteq> SG_BOOKING_CONFIRMED" "length tx \<le> 100"
    "\<forall>b\<in>set (bookings w). bk_bookingReference b = sg_bookingId s \<longrightarrow> booking_columns_ok b"
  shows "\<exists>v e1 e2. completeBooking (sg_bookingId s) tx w =
      (Inr (find (\<lambda>b. bk_bookingReference b = sg_bookingId s) (bookings v)), v) \<and> completed tx w s e1 e2 v"
proof -
  let ?id = "sg_bookingId s" and ?w = "w\<lparr>obj := s\<rparr>"
  note start = found_start [OF assms(1,3,4)]
  obtain e1 v1 where s1: "storeEvent ''BOOKING'' ?id ''flight.confirm-seats'' (seat_payload ?id (sg_payload s)) ?w = (Inr e1, v1)"
    "stored ?w ?id ''flight.confirm-seats'' (seat_payload ?id (sg_payload s)) e1 v1"
    using storeEvent_ok [OF start(1), of "''BOOKING''" "''flight.confirm-seats''"] by fastforce
  note f1 = s1(2) [unfolded stored_def same_env_def, simplified]
  have r1: "ready v1" using f1 by simp
  have cols: "\<forall>b\<in>set (bookings v1). bk_bookingReference b = ?id \<longrightarrow> booking_columns_ok (booked tx (now w) b)"
    using assms(6,7) f1 by (auto intro: booked_columns)
  note s2 = update_rows_ok [OF r1 cols booked_simps(1)]
  let ?v2 = "v1\<lparr>bookings := put_booking ?id (now v1) (booked tx (now w)) (bookings v1)\<rparr>"
  have r2: "has_row ?v2" using start(2) f1 by (simp add: has_row_def)
  have c2: "saga_columns_ok (confirmed_obj (obj ?v2))"
    using r2 by (simp add: has_row_def saga_columns_ok_def confirmed_obj_def int4_ok_def)
  note s3 = save_row_ok [where f = confirmed_obj, OF s2(2) r2 _ _ _ c2, unfolded confirmed_obj_def, simplified,
      folded confirmed_obj_def]
  let ?r3 = "(confirmed_obj (obj v1))\<lparr>sg_updatedAt := now v1\<rparr>"
  let ?v3 = "?v2\<lparr>obj := ?r3, sagas := put_saga ?r3 (sagas v1)\<rparr>"
  have r3: "ready ?v3" using s3(2) by simp
  obtain e2 v4 where s4: "storeEvent ''BOOKING'' ?id ''booking.confirmed'' (user_payload ?id (sg_payload (obj ?v3))) ?v3 = (Inr e2, v4)"
    "stored ?v3 ?id ''booking.confirmed'' (user_payload ?id (sg_payload (obj ?v3))) e2 v4"
    using storeEvent_ok [OF r3, of "''BOOKING''" "''booking.confirmed''"] by fastforce
  note f4 = s4(2) [unfolded stored_def same_env_def, simplified]
  have "complete_body ?id tx ?w = (Inr (), v4)"
    using s1(1) f1 s2(1) s3(1) s4(1) by (simp add: complete_body_def confirmed_obj_def [abs_def])
  moreover have "faults ?w = []" "faults v4 = []" using assms(1) f4 by (auto simp: ready_def)
  ultimately have t: "transaction (complete_body ?id tx) ?w = (Inr (), v4)" by (intro transaction_ok)
  let ?v = "v4\<lparr>locks := releaseSeats (cb_flightId (sg_payload s)) ?id (now v4) (locks v4)\<rparr>"
  have fv: "faults ?v = []" using f4 by (simp add: ready_def)
  have run: "completeBooking ?id tx w = (Inr (find (\<lambda>b. bk_bookingReference b = ?id) (bookings ?v)), ?v)"
    using assms(5) find_saga_ok [OF assms(1-3)] t fv
    by (simp add: completeBooking_def findByReference_def release_call_ok)
  have "completed tx w s e1 e2 ?v"
    using f1 f4 by (auto simp: completed_def ready_locks confirmed_obj_def)
  with run show ?thesis by blast
qed

lemma find_put_booking:
  "find (\<lambda>b. bk_bookingReference b = r) bs = Some b \<Longrightarrow> (\<And>b. bk_bookingReference (f b) = bk_bookingReference b) \<Longrightarrow>
   find (\<lambda>b. bk_bookingReference b = r) (put_booking r t f bs) = Some (touch t f b)"
  by (induction bs) (auto simp: put_booking_def split: if_splits)

lemma put_saga_bids:
  assumes "s \<in> set ss" "distinct (map sg_id ss)" "sg_id row = sg_id s" "sg_bookingId row = sg_bookingId s"
  shows "map sg_bookingId (put_saga row ss) = map sg_bookingId ss" "row \<in> set (put_saga row ss)"
proof -
  have "sg_bookingId row = sg_bookingId x" if "x \<in> set ss" "sg_id x = sg_id row" for x
    using distinct_id_eq [OF assms(2) that(1) assms(1)] that(2) assms(3,4) by simp
  then show "map sg_bookingId (put_saga row ss) = map sg_bookingId ss" by (auto simp: put_saga_def)
  show "row \<in> set (put_saga row ss)" using assms(1,3) by (auto simp: put_saga_def)
qed

text \<open>A booking with its saga, as the tables hold them.\<close>

definition held :: "booking_world \<Rightarrow> SagaState \<Rightarrow> Booking \<Rightarrow> bool" where
  "held w s b \<longleftrightarrow> ready w \<and> distinct (map sg_id (sagas w)) \<and> distinct (map sg_bookingId (sagas w)) \<and>
     distinct (map bk_bookingReference (bookings w)) \<and> s \<in> set (sagas w) \<and> saga_columns_ok s \<and>
     b \<in> set (bookings w) \<and> bk_bookingReference b = sg_bookingId s \<and> booking_columns_ok b"

lemma held_columns: "held w s b \<Longrightarrow> \<forall>x\<in>set (bookings w). bk_bookingReference x = sg_bookingId s \<longrightarrow> booking_columns_ok x"
  using distinct_id_eq [of bk_bookingReference "bookings w" _ b] by (auto simp: held_def)

lemma held_find: "held w s b \<Longrightarrow> find (\<lambda>b. bk_bookingReference b = sg_bookingId s) (bookings w) = Some b"
  by (rule find_distinct) (auto simp: held_def)

lemma complete_held:
  assumes "held w s b" "sg_status s \<noteq> SG_BOOKING_CONFIRMED" "length tx \<le> 100"
  shows "\<exists>v e1 e2. completeBooking (sg_bookingId s) tx w = (Inr (Some (touch (now w) (booked tx (now w)) b)), v) \<and>
    completed tx w s e1 e2 v"
proof -
  obtain v e1 e2 where v: "completeBooking (sg_bookingId s) tx w =
      (Inr (find (\<lambda>b. bk_bookingReference b = sg_bookingId s) (bookings v)), v)" "completed tx w s e1 e2 v"
    using complete_ok [of w s tx] assms held_columns [OF assms(1)] by (auto simp: held_def)
  moreover have "find (\<lambda>b. bk_bookingReference b = sg_bookingId s) (bookings v) = Some (touch (now w) (booked tx (now w)) b)"
    using v(2) find_put_booking [OF held_find [OF assms(1)]] by (simp add: completed_def)
  ultimately show ?thesis by auto
qed

lemma release_frees: "t < t' \<Longrightarrow> booking_seats t' f b (releaseSeats f b t r) = None \<or> booking_seats t f b r = None"
  by (cases "booking_seats t f b r") (auto simp: booking_seats_def redis_get_def release_apply split: option.splits)

text \<open>C9. Completing a booking is done once. The first call marks the booking BOOKED and paid with the
  transaction id, removes its expiry, confirms the saga, stores flight.confirm-seats and
  booking.confirmed and releases the seat locks; every further call, with whatever transaction id,
  returns the same booking and changes nothing.\<close>

theorem complete_booking_once:
  assumes "held w s b" and "sg_status s \<noteq> SG_BOOKING_CONFIRMED" and "length tx \<le> 100"
  shows "\<exists>v b' e1 e2. completeBooking (sg_bookingId s) tx w = (Inr (Some b'), v) \<and> b' \<in> set (bookings v) \<and>
    bk_status b' = BS_BOOKED \<and> bk_paymentStatus b' = PS_COMPLETED \<and> bk_paymentTransactionId b' = Some tx \<and>
    bk_expiresAt b' = None \<and> bk_version b' = bk_version b + 1 \<and>
    outbox v = outbox w @ [e1, e2] \<and> map ob_eventType [e1, e2] = [''flight.confirm-seats'', ''booking.confirmed''] \<and>
    locks v = releaseSeats (cb_flightId (sg_payload s)) (sg_bookingId s) (now w) (locks w) \<and>
    (\<forall>tx2. completeBooking (sg_bookingId s) tx2 v = (Inr (Some b'), v))"
proof -
  let ?b = "touch (now w) (booked tx (now w)) b"
  obtain v e1 e2 where run: "completeBooking (sg_bookingId s) tx w = (Inr (Some ?b), v)"
    and c: "completed tx w s e1 e2 v" using complete_held [OF assms] by blast
  note f = c [unfolded completed_def]
  have o: "sg_id (obj v) = sg_id s" "sg_bookingId (obj v) = sg_bookingId s" "sg_status (obj v) = SG_BOOKING_CONFIRMED"
    using f by (simp_all add: confirmed_obj_def)
  have h: "s \<in> set (sagas w)" "distinct (map sg_id (sagas w))" "distinct (map sg_bookingId (sagas w))"
    using assms(1) by (simp_all add: held_def)
  have sg: "sagas v = put_saga (obj v) (sagas w)" and rv: "ready v" using f by simp_all
  note put = put_saga_bids [OF h(1,2) o(1,2), folded sg]
  have "distinct (map sg_bookingId (sagas v))" using put(1) h(3) by simp
  from find_saga_ok [OF rv this put(2)]
  have fs: "find_saga (\<lambda>r. sg_bookingId r = sg_bookingId s) v = (Inr (Some (obj v)), v)" by (simp add: o)
  have fb: "find (\<lambda>b. bk_bookingReference b = sg_bookingId s) (bookings v) = Some ?b"
    using f find_put_booking [OF held_find [OF assms(1)]] by simp
  have again: "\<forall>tx2. completeBooking (sg_bookingId s) tx2 v = (Inr (Some ?b), v)"
    using fs fb o(3) f by (simp add: completeBooking_def findByReference_def ready_def)
  have b_in: "?b \<in> set (bookings v)" using fb by (auto simp: find_Some_iff)
  have b: "bk_status ?b = BS_BOOKED" "bk_paymentStatus ?b = PS_COMPLETED" "bk_paymentTransactionId ?b = Some tx"
    "bk_expiresAt ?b = None" "bk_version ?b = bk_version b + 1"
    by (simp_all add: touch_def booked_def)
  have e: "outbox v = outbox w @ [e1, e2]" "map ob_eventType [e1, e2] = [''flight.confirm-seats'', ''booking.confirmed'']"
    "locks v = releaseSeats (cb_flightId (sg_payload s)) (sg_bookingId s) (now w) (locks w)"
    using f by simp_all
  show ?thesis
    by (rule exI [of _ v], rule exI [of _ ?b], rule exI [of _ e1], rule exI [of _ e2])
      (intro conjI run b_in b e again)
qed

text \<open>A cancelled booking can still be completed. The completion does not look at the saga's status: for
  a booking that was compensated, seats given back and flight.release-seats sent, a late payment event
  makes it BOOKED and asks the flight service to confirm the seats.\<close>

theorem complete_after_compensation:
  assumes "held w s b" and "sg_status s = SG_COMPENSATED" and "bk_status b = BS_CANCELLED" and "length tx \<le> 100"
  shows "\<exists>v b' e1 e2. completeBooking (sg_bookingId s) tx w = (Inr (Some b'), v) \<and>
    bk_bookingReference b' = bk_bookingReference b \<and> bk_status b' = BS_BOOKED \<and> bk_paymentStatus b' = PS_COMPLETED \<and>
    outbox v = outbox w @ [e1, e2] \<and> ob_eventType e1 = ''flight.confirm-seats'' \<and>
    ob_aggregateId e1 = sg_bookingId s"
proof -
  have "sg_status s \<noteq> SG_BOOKING_CONFIRMED" using assms(2) by simp
  from complete_held [OF assms(1) this assms(4)]
  obtain v e1 e2 where run: "completeBooking (sg_bookingId s) tx w = (Inr (Some (touch (now w) (booked tx (now w)) b)), v)"
    and f: "completed tx w s e1 e2 v" by blast
  have "bk_bookingReference (touch (now w) (booked tx (now w)) b) = bk_bookingReference b"
    "bk_status (touch (now w) (booked tx (now w)) b) = BS_BOOKED"
    "bk_paymentStatus (touch (now w) (booked tx (now w)) b) = PS_COMPLETED"
    by (simp_all add: touch_def booked_def)
  with run f show ?thesis unfolding completed_def by blast
qed

definition sample_saga :: "SagaStatus \<Rightarrow> int \<Rightarrow> SagaState" where
  "sample_saga st n = (new_saga (show_nat 0) (show_nat 1) sample_dto None)\<lparr>sg_id := 1, sg_status := st, sg_currentStep := n\<rparr>"

definition sample_booking :: "BookingStatus \<Rightarrow> Booking" where
  "sample_booking st = (stored_booking (sample_saga SG_INITIATED 0) 500 2)\<lparr>bk_status := st\<rparr>"

definition sample_held :: "SagaStatus \<Rightarrow> int \<Rightarrow> BookingStatus \<Rightarrow> booking_world" where
  "sample_held st n bst = sample_world\<lparr>uuidCtr := 2, serial := 3, sagas := [sample_saga st n], bookings := [sample_booking bst]\<rparr>"

lemma sample_held_ok: "int4_ok n \<Longrightarrow> held (sample_held st n bst) (sample_saga st n) (sample_booking bst)"
proof -
  assume n: "int4_ok n"
  have cols: "booking_columns_ok (stored_booking (sample_saga SG_INITIATED 0) 500 2)"
    by (rule booking_columns_stored)
      (simp add: booking_columns_ok_def new_booking_def Let_def sample_saga_def new_saga_def sample_dto_def blank_booking_def
        int4_ok_def varchar_ok_def round2_def seatCount_def resolvedSeatClass_def)
  have u: "used (sample_held st n bst) (show_nat 0)" "used (sample_held st n bst) (show_nat 1)"
    by (auto simp: used_def sample_held_def sample_world_def intro: exI [of _ 0] exI [of _ 1])
  have r: "ready (sample_held st n bst)"
    using u sample_ready
    by (simp add: ready_def sample_held_def sample_world_def sample_saga_def sample_booking_def new_saga_def stored_booking_def)
  have c: "saga_columns_ok (sample_saga st n)"
    using n by (simp add: saga_columns_ok_def sample_saga_def new_saga_def varchar_ok_def)
  have b: "bk_bookingReference (sample_booking bst) = show_nat 1" "booking_columns_ok (sample_booking bst)"
    using cols by (simp_all add: sample_booking_def stored_booking_def sample_saga_def new_saga_def booking_columns_ok_def)
  show ?thesis
    using r c b by (simp add: held_def) (simp add: sample_held_def sample_saga_def new_saga_def)
qed

theorem complete_booking_once_witness:
  "\<exists>v b'. completeBooking (show_nat 1) ''tx1'' (sample_held SG_FLIGHT_RESERVED 3 BS_PENDING) = (Inr (Some b'), v) \<and>
     bk_status b' = BS_BOOKED \<and> completeBooking (show_nat 1) ''tx2'' v = (Inr (Some b'), v)"
proof -
  have h: "held (sample_held SG_FLIGHT_RESERVED 3 BS_PENDING) (sample_saga SG_FLIGHT_RESERVED 3) (sample_booking BS_PENDING)"
    by (rule sample_held_ok) (simp add: int4_ok_def)
  have s: "sg_bookingId (sample_saga SG_FLIGHT_RESERVED 3) = show_nat 1" "sg_status (sample_saga SG_FLIGHT_RESERVED 3) \<noteq> SG_BOOKING_CONFIRMED"
    by (simp_all add: sample_saga_def new_saga_def)
  from complete_booking_once [OF h s(2), of "''tx1''"] s(1) show ?thesis by fastforce
qed

theorem complete_after_compensation_witness:
  "\<exists>v b'. completeBooking (show_nat 1) ''tx1'' (sample_held SG_COMPENSATED 3 BS_CANCELLED) = (Inr (Some b'), v) \<and>
     bk_status b' = BS_BOOKED"
proof -
  have h: "held (sample_held SG_COMPENSATED 3 BS_CANCELLED) (sample_saga SG_COMPENSATED 3) (sample_booking BS_CANCELLED)"
    by (rule sample_held_ok) (simp add: int4_ok_def)
  have s: "sg_bookingId (sample_saga SG_COMPENSATED 3) = show_nat 1" "sg_status (sample_saga SG_COMPENSATED 3) = SG_COMPENSATED"
    "bk_status (sample_booking BS_CANCELLED) = BS_CANCELLED"
    by (simp_all add: sample_saga_def new_saga_def sample_booking_def)
  from complete_after_compensation [OF h s(2,3), of "''tx1''"] s(1) show ?thesis by fastforce
qed

lemma cancel_held:
  assumes "held w s b" "sg_status s \<noteq> SG_COMPENSATED"
  shows "\<exists>v es. cancelBooking (sg_bookingId s) reason w = (Inr (Some (touch (now w) (cancelled reason (now w)) b)), v) \<and>
    compensated reason (w\<lparr>obj := s\<rparr>) es v"
proof -
  let ?w = "w\<lparr>obj := s\<rparr>" and ?id = "sg_bookingId s"
  have h: "ready w" "s \<in> set (sagas w)" "distinct (map sg_bookingId (sagas w))" "saga_columns_ok s"
    using assms(1) by (simp_all add: held_def)
  note start = found_start [OF h(1,2,4)]
  obtain v es where c: "compensate reason ?w = (Inr (), v)" and cd: "compensated reason ?w es v"
    using compensate_ok [OF start, of reason] assms(2) held_columns [OF assms(1)] by auto
  note f = cd [unfolded compensated_def, simplified]
  have fb: "find (\<lambda>b. bk_bookingReference b = ?id) (bookings v) = Some (touch (now w) (cancelled reason (now w)) b)"
    using f find_put_booking [OF held_find [OF assms(1)]] by simp
  have "cancelBooking ?id reason w = (Inr (Some (touch (now w) (cancelled reason (now w)) b)), v)"
    using find_saga_ok [OF h(1,3,2)] c f fb by (simp add: cancelBooking_def findByReference_def ready_def)
  with cd show ?thesis by blast
qed

text \<open>C10. Cancelling is done once. Cancelling a booking whose seats were requested marks it CANCELLED
  with the reason, compensates its saga, stores flight.release-seats with the flight, class and
  number of seats that were reserved, and frees the seat locks; cancelling it again, for whatever
  reason, returns the same booking and changes nothing but the object in memory.\<close>

theorem cancel_booking_once:
  assumes "held w s b" and "sg_status s \<noteq> SG_COMPENSATED" and "3 \<le> sg_currentStep s"
  shows "\<exists>v b' e. cancelBooking (sg_bookingId s) reason w = (Inr (Some b'), v) \<and> b' \<in> set (bookings v) \<and>
    bk_status b' = BS_CANCELLED \<and> bk_cancellationReason b' = Some (''Saga failed: '' @ reason) \<and>
    outbox v = outbox w @ [e] \<and> ob_eventType e = ''flight.release-seats'' \<and>
    ob_payload e = seat_payload (sg_bookingId s) (sg_payload s) \<and>
    locks v = releaseSeats (cb_flightId (sg_payload s)) (sg_bookingId s) (now w) (locks w) \<and>
    (\<forall>reason2. \<exists>o'. cancelBooking (sg_bookingId s) reason2 v = (Inr (Some b'), v\<lparr>obj := o'\<rparr>))"
proof -
  let ?w = "w\<lparr>obj := s\<rparr>" and ?id = "sg_bookingId s"
  have h: "ready w" "s \<in> set (sagas w)" "distinct (map sg_id (sagas w))" "distinct (map sg_bookingId (sagas w))" "saga_columns_ok s"
    using assms(1) by (simp_all add: held_def)
  let ?b = "touch (now w) (cancelled reason (now w)) b"
  obtain v es where run: "cancelBooking ?id reason w = (Inr (Some ?b), v)" and cd: "compensated reason ?w es v"
    using cancel_held [OF assms(1,2)] by blast
  note f = cd [unfolded compensated_def, simplified]
  have fb: "find (\<lambda>b. bk_bookingReference b = ?id) (bookings v) = Some ?b"
    using f find_put_booking [OF held_find [OF assms(1)]] by simp
  have o: "sg_id (obj v) = sg_id s" "sg_bookingId (obj v) = ?id" "sg_status (obj v) = SG_COMPENSATED"
    using f by (simp_all add: compensated_obj_def)
  have sg: "sagas v = put_saga (obj v) (sagas w)" and rv: "ready v" using f by simp_all
  note put = put_saga_bids [OF h(2,3) o(1,2), folded sg]
  have "distinct (map sg_bookingId (sagas v))" using put(1) h(4) by simp
  from find_saga_ok [OF rv this put(2)]
  have fs: "find_saga (\<lambda>r. sg_bookingId r = ?id) v = (Inr (Some (obj v)), v)" by (simp add: o)
  have "cancelBooking ?id reason2 v = (Inr (Some ?b), v\<lparr>obj := obj v\<rparr>)" for reason2
    using fs fb o(3) f by (simp add: cancelBooking_def findByReference_def compensate_def ready_def)
  then have again: "\<forall>reason2. \<exists>o'. cancelBooking ?id reason2 v = (Inr (Some ?b), v\<lparr>obj := o'\<rparr>)" by blast
  have b: "bk_status ?b = BS_CANCELLED" "bk_cancellationReason ?b = Some (''Saga failed: '' @ reason)"
    by (simp_all add: touch_def cancelled_def)
  have b_in: "?b \<in> set (bookings v)" using fb by (auto simp: find_Some_iff)
  from f assms(3) obtain e where e: "outbox v = outbox w @ [e]" "ob_eventType e = ''flight.release-seats''"
    "ob_payload e = seat_payload ?id (sg_payload s)"
    "locks v = releaseSeats (cb_flightId (sg_payload s)) ?id (now w) (locks w)" by auto
  show ?thesis using run b b_in e again by blast
qed

theorem cancel_booking_once_witness:
  "\<exists>v b'. cancelBooking (show_nat 1) ''changed my mind'' (sample_held SG_FLIGHT_RESERVED 3 BS_PENDING) = (Inr (Some b'), v) \<and>
     bk_status b' = BS_CANCELLED \<and> map ob_eventType (outbox v) = [''flight.release-seats'']"
proof -
  have h: "held (sample_held SG_FLIGHT_RESERVED 3 BS_PENDING) (sample_saga SG_FLIGHT_RESERVED 3) (sample_booking BS_PENDING)"
    by (rule sample_held_ok) (simp add: int4_ok_def)
  have s: "sg_bookingId (sample_saga SG_FLIGHT_RESERVED 3) = show_nat 1" "sg_status (sample_saga SG_FLIGHT_RESERVED 3) \<noteq> SG_COMPENSATED"
    "3 \<le> sg_currentStep (sample_saga SG_FLIGHT_RESERVED 3)"
    by (simp_all add: sample_saga_def new_saga_def)
  have "outbox (sample_held SG_FLIGHT_RESERVED 3 BS_PENDING) = []" by (simp add: sample_held_def sample_world_def)
  with cancel_booking_once [OF h s(2,3), of "''changed my mind''"] s(1) show ?thesis by fastforce
qed

subsection \<open>A failed commit of step 3\<close>

lemma step3_commit_fails:
  assumes "ready (w\<lparr>faults := []\<rparr>)" "faults w = [False, False, False, False, True]" "has_row w"
    "\<forall>b\<in>set (bookings w). bk_bookingReference b = sg_bookingId (obj w) \<longrightarrow> booking_columns_ok b"
  shows "\<exists>w1. transaction step3_body w = (Inl down, w1) \<and> ready w1 \<and> has_row w1 \<and> bookings w1 = bookings w \<and>
    sagas w1 = sagas w \<and> outbox w1 = outbox w \<and> locks w1 = locks w \<and> now w1 = now w \<and>
    obj w1 = (step3_obj (obj w))\<lparr>sg_updatedAt := now w\<rparr>"
proof -
  let ?row = "(step3_obj (obj w))\<lparr>sg_updatedAt := now w\<rparr>"
  let ?w1 = "w\<lparr>faults := [], uuidCtr := Suc (uuidCtr w), serial := serial w + 1, obj := ?row\<rparr>"
  have nu: "\<forall>e\<in>set (outbox w). ob_eventId e \<noteq> uuidSrc w (uuidCtr w)"
  proof
    fix e assume "e \<in> set (outbox w)"
    then obtain i where "i < uuidCtr w" "ob_eventId e = uuidSrc w i" using assms(1) by (fastforce simp: ready_def used_def)
    then show "ob_eventId e \<noteq> uuidSrc w (uuidCtr w)" using assms(1) by (auto simp: ready_def inj_eq)
  qed
  have cols: "saga_columns_ok (step3_obj (obj w))"
    using assms(3) by (simp add: has_row_def saga_columns_ok_def step3_obj_def int4_ok_def)
  have bcols: "\<forall>b\<in>set (bookings w). bk_bookingReference b = sg_bookingId (obj w) \<longrightarrow> booking_columns_ok (pending b)"
    using assms(4) by (simp add: booking_columns_ok_def)
  have "transaction step3_body w = (Inl down, ?w1)"
    using assms(2) nu cols bcols
    by (simp add: transaction_def andThen_def external_def step3_body_def storeEvent_def freshUuid_def stmt_eq Let_def
        event_columns_ok_def save_obj_def update_bookings_def step3_obj_def saga_columns_ok_def) blast
  moreover have u: "used (w\<lparr>faults := []\<rparr>) x \<Longrightarrow> used ?w1 x" for x
    by (rule used_later [of "w\<lparr>faults := []\<rparr>"]) simp_all
  have "ready ?w1" using assms(1) u by (auto simp: ready_def less_le_trans intro: order.strict_trans)
  moreover have "has_row ?w1" using assms(3) cols by (auto simp: has_row_def step3_obj_def saga_columns_ok_def)
  ultimately show ?thesis by (intro exI [of _ ?w1]) simp
qed

text \<open>When the database fails while step 3 commits, the reservation event is rolled back with the
  transaction, but the saga object in memory keeps \<open>currentStep = 3\<close>: the compensation then tells the
  flight service to release seats that were never reserved.\<close>

theorem release_without_reservation:
  assumes "ready (w\<lparr>faults := []\<rparr>)" and "faults w = [False, False, False, False, True]" and "has_row w"
    and "sg_currentStep (obj w) = 2"
    and "\<forall>b\<in>set (bookings w). bk_bookingReference b = sg_bookingId (obj w) \<longrightarrow> booking_columns_ok b"
  shows "\<exists>e v. executeStep3_ReserveFlightSeats w = (Inl down, v) \<and> outbox v = outbox w @ [e] \<and>
    ob_eventType e = ''flight.release-seats'' \<and> ob_aggregateId e = sg_bookingId (obj w) \<and>
    ob_payload e = seat_payload (sg_bookingId (obj w)) (sg_payload (obj w))"
proof -
  obtain w1 where t: "transaction step3_body w = (Inl down, w1)" and r: "ready w1" "has_row w1"
    and s: "bookings w1 = bookings w" "outbox w1 = outbox w" "obj w1 = (step3_obj (obj w))\<lparr>sg_updatedAt := now w\<rparr>"
    using step3_commit_fails [OF assms(1-3,5)] by blast
  have o: "sg_status (obj w1) \<noteq> SG_COMPENSATED" "sg_currentStep (obj w1) = 3" "sg_bookingId (obj w1) = sg_bookingId (obj w)"
    "sg_payload (obj w1) = sg_payload (obj w)"
    by (simp_all add: s step3_obj_def)
  obtain v es where c: "compensate (exn_message down) w1 = (Inr (), v)" and cd: "compensated (exn_message down) w1 es v"
    using compensate_ok [OF r o(1), of "exn_message down"] assms(5) s(1) o(3) by auto
  have "executeStep3_ReserveFlightSeats w = (Inl down, v)"
    using assms(4) t c
    by (simp add: executeStep3_ReserveFlightSeats_def compensating_def tryCatch_def andThen_def throw_def)
  with cd o s(2) show ?thesis by (auto simp: compensated_def)
qed

theorem release_without_reservation_witness:
  "\<exists>v. executeStep3_ReserveFlightSeats ((sample_held SG_SEATS_LOCKED 2 BS_INITIATED)
        \<lparr>faults := [False, False, False, False, True], obj := sample_saga SG_SEATS_LOCKED 2\<rparr>) = (Inl down, v) \<and>
     map ob_eventType (outbox v) = [''flight.release-seats'']"
proof -
  let ?w = "(sample_held SG_SEATS_LOCKED 2 BS_INITIATED)\<lparr>faults := [False, False, False, False, True], obj := sample_saga SG_SEATS_LOCKED 2\<rparr>"
  have h: "held (sample_held SG_SEATS_LOCKED 2 BS_INITIATED) (sample_saga SG_SEATS_LOCKED 2) (sample_booking BS_INITIATED)"
    by (rule sample_held_ok) (simp add: int4_ok_def)
  have u: "used (?w\<lparr>faults := []\<rparr>) x = used (sample_held SG_SEATS_LOCKED 2 BS_INITIATED) x" for x by (simp add: used_def)
  have r: "ready (?w\<lparr>faults := []\<rparr>)" using h by (simp add: held_def ready_def used_def)
  have f: "faults ?w = [False, False, False, False, True]" "sg_currentStep (obj ?w) = 2"
    by (simp_all add: sample_saga_def new_saga_def)
  have row: "has_row ?w" using h by (auto simp: held_def has_row_def)
  have cols: "\<forall>b\<in>set (bookings ?w). bk_bookingReference b = sg_bookingId (obj ?w) \<longrightarrow> booking_columns_ok b"
    using held_columns [OF h] by simp
  have "outbox ?w = []" by (simp add: sample_held_def sample_world_def)
  with release_without_reservation [OF r f(1) row f(2) cols] show ?thesis by auto
qed

end
