(* ===== verification/BookingService.thy ===== *)
theory BookingService
  imports SagaProps
begin

text \<open>
  The booking service on top of the saga: apps/booking-service/src/booking (service, message
  handlers, payment events, the cleanup job) and apps/booking-service/src/payment (the payment mode
  and the two payment clients). The payment service is another process: \<open>rpc\<close>, a parameter, is what
  it answers to \<open>payment.create_intent\<close>. The service installs no filter for errors of messages, so whatever
  its handler throws arrives as a plain object, an \<open>RpcError\<close>; a timeout or a broken connection is an \<open>Error\<close>.
\<close>

subsection \<open>Payment clients\<close>

datatype BookingPaymentMode = PAYMENT_SERVICE | LOCAL_MOCK

text \<open>The two environment variables are \<open>PAYMENT_REQUIRED\<close> and \<open>NODE_ENV\<close>.\<close>

definition resolveBookingPaymentMode :: "string option \<Rightarrow> string option \<Rightarrow> BookingPaymentMode" where
  "resolveBookingPaymentMode raw nodeEnv =
     (if \<not> truthy raw
      then (if to_lower (or_str nodeEnv ''development'') = ''production'' then PAYMENT_SERVICE else LOCAL_MOCK)
      else if to_lower (the raw) = ''false'' \<or> the raw = ''0'' then LOCAL_MOCK else PAYMENT_SERVICE)"

record CreatePaymentIntentRequest =
  pr_bookingId :: int
  pr_bookingReference :: string
  pr_userId :: int
  pr_amountCents :: int
  pr_currency :: string
  pr_paymentMethod :: string
  pr_metadata :: "(string \<rightharpoonup> string) option"
  pr_idempotencyKey :: "string option"

record CreatePaymentIntentResponse =
  pi_paymentId :: "string option"
  pi_clientSecret :: "string option"
  pi_status :: "string option"
  pi_paymentRequired :: bool
  pi_provider :: BookingPaymentMode

text \<open>The payload of the call and the reply; a missing reply is \<open>None\<close>.\<close>

record rpc_payload =
  rpc_bookingId :: int
  rpc_bookingReference :: string
  rpc_userId :: int
  rpc_amount :: int
  rpc_currency :: string
  rpc_paymentMethod :: string
  rpc_metadata :: "string \<rightharpoonup> string"
  rpc_idempotencyKey :: "string option"

record rpc_reply =
  rr_id :: "string option"
  rr_clientSecret :: "string option"
  rr_status :: "string option"

type_synonym payment_rpc = "rpc_payload \<Rightarrow> exn + rpc_reply option"

definition rpc_request :: "CreatePaymentIntentRequest \<Rightarrow> rpc_payload" where
  "rpc_request req = \<lparr>rpc_bookingId = pr_bookingId req, rpc_bookingReference = pr_bookingReference req,
     rpc_userId = pr_userId req, rpc_amount = pr_amountCents req, rpc_currency = pr_currency req,
     rpc_paymentMethod = pr_paymentMethod req,
     rpc_metadata = [''bookingReference'' \<mapsto> pr_bookingReference req] ++
       (case pr_metadata req of None \<Rightarrow> Map.empty | Some m \<Rightarrow> m),
     rpc_idempotencyKey = pr_idempotencyKey req\<rparr>"

definition rpc_createPaymentIntent ::
  "payment_rpc \<Rightarrow> CreatePaymentIntentRequest \<Rightarrow> (booking_world, CreatePaymentIntentResponse) prog" where
  "rpc_createPaymentIntent rpc req =
     (case rpc (rpc_request req) of
        Inl e \<Rightarrow> throw e
      | Inr res \<Rightarrow> ret \<lparr>pi_paymentId = Option.bind res rr_id, pi_clientSecret = Option.bind res rr_clientSecret,
                       pi_status = Option.bind res rr_status, pi_paymentRequired = True,
                       pi_provider = PAYMENT_SERVICE\<rparr>)"

definition mock_createPaymentIntent ::
  "CreatePaymentIntentRequest \<Rightarrow> (booking_world, CreatePaymentIntentResponse) prog" where
  "mock_createPaymentIntent req = andThen freshUuid (\<lambda>u.
     ret \<lparr>pi_paymentId = Some (''local_mock_'' @ u), pi_clientSecret = None, pi_status = Some ''confirmed'',
          pi_paymentRequired = False, pi_provider = LOCAL_MOCK\<rparr>)"

definition paymentClient ::
  "BookingPaymentMode \<Rightarrow> payment_rpc \<Rightarrow> CreatePaymentIntentRequest \<Rightarrow> (booking_world, CreatePaymentIntentResponse) prog" where
  "paymentClient mode rpc =
     (if mode = PAYMENT_SERVICE then rpc_createPaymentIntent rpc else mock_createPaymentIntent)"

type_synonym payment_client = "CreatePaymentIntentRequest \<Rightarrow> (booking_world, CreatePaymentIntentResponse) prog"

subsection \<open>Creating a booking\<close>

definition payment_request :: "Booking \<Rightarrow> int \<Rightarrow> CreatePaymentIntentRequest" where
  "payment_request b userId = \<lparr>pr_bookingId = bk_id b, pr_bookingReference = bk_bookingReference b,
     pr_userId = userId, pr_amountCents = \<lfloor>bk_totalCost b * 100 + 1 / 2\<rfloor>, pr_currency = ''USD'',
     pr_paymentMethod = ''card'', pr_metadata = None,
     pr_idempotencyKey = Some (''booking:'' @ bk_bookingReference b)\<rparr>"

definition createPaymentIntentForBooking ::
  "payment_client \<Rightarrow> Booking \<Rightarrow> int \<Rightarrow> (booking_world, CreatePaymentIntentResponse) prog" where
  "createPaymentIntentForBooking client booking userId = client (payment_request booking userId)"

definition rollbackBookingAfterPaymentFailure :: "string \<Rightarrow> string \<Rightarrow> (booking_world, unit) prog" where
  "rollbackBookingAfterPaymentFailure bookingReference reason =
     tryCatch
       (andThen (cancelBooking bookingReference (''Payment initiation failed: '' @ reason)) (\<lambda>_. ret ()))
       (\<lambda>_. ret ())"

definition null_read :: "string \<Rightarrow> exn" where
  "null_read field = JsError (''Cannot read properties of null (reading '' @ [CHR 0x27] @ field @ [CHR 0x27] @ '')'')"

text \<open>
  Without a booking, reading \<open>booking.id\<close> throws, and so does \<open>booking.bookingReference\<close> in the
  handler: that is the error the caller sees.
\<close>

definition settle_payment ::
  "payment_client \<Rightarrow> Booking \<Rightarrow> int \<Rightarrow> (booking_world, Booking option \<times> CreatePaymentIntentResponse) prog" where
  "settle_payment client booking userId =
     andThen (createPaymentIntentForBooking client booking userId) (\<lambda>paymentIntent.
       if pi_paymentRequired paymentIntent then ret (Some booking, paymentIntent)
       else andThen (if truthy (pi_paymentId paymentIntent) then ret (the (pi_paymentId paymentIntent))
                     else andThen freshUuid (\<lambda>u. ret (''local_mock_tx_'' @ u))) (\<lambda>txId.
            andThen (completeBooking (bk_bookingReference booking) txId) (\<lambda>finalBooking.
              ret (finalBooking, paymentIntent))))"

definition prepareBookingForPayment ::
  "payment_client \<Rightarrow> Booking option \<Rightarrow> int \<Rightarrow> (booking_world, Booking option \<times> CreatePaymentIntentResponse) prog" where
  "prepareBookingForPayment client found userId =
     (case found of
        None \<Rightarrow> throw (null_read ''bookingReference'')
      | Some booking \<Rightarrow>
          tryCatch (settle_payment client booking userId)
            (\<lambda>error. andThen (rollbackBookingAfterPaymentFailure (bk_bookingReference booking) (error_text error))
                      (\<lambda>_. throw error)))"

record booking_receipt =
  re_bookingId :: string
  re_status :: BookingStatus
  re_expiresAt :: "int option"
  re_totalCost :: rat
  re_paymentRequired :: bool
  re_autoCompleted :: bool
  re_paymentId :: "string option"
  re_clientSecret :: "string option"
  re_provider :: BookingPaymentMode
  re_paymentStatus :: "string option"

definition receipt :: "Booking \<Rightarrow> CreatePaymentIntentResponse \<Rightarrow> booking_receipt" where
  "receipt b i = \<lparr>re_bookingId = bk_bookingReference b, re_status = bk_status b, re_expiresAt = bk_expiresAt b,
     re_totalCost = bk_totalCost b, re_paymentRequired = pi_paymentRequired i,
     re_autoCompleted = (\<not> pi_paymentRequired i), re_paymentId = pi_paymentId i,
     re_clientSecret = pi_clientSecret i, re_provider = pi_provider i, re_paymentStatus = pi_status i\<rparr>"

text \<open>\<open>catch (error) { throw new BadRequestException(error.message) }\<close>\<close>

definition asBadRequest :: "(booking_world, 'a) prog \<Rightarrow> (booking_world, 'a) prog" where
  "asBadRequest m = tryCatch m (\<lambda>error. throw (BadRequest (exn_message error)))"

text \<open>\<open>createBooking\<close> takes the text of the error instead.\<close>

definition textAsBadRequest :: "(booking_world, 'a) prog \<Rightarrow> (booking_world, 'a) prog" where
  "textAsBadRequest m = tryCatch m (\<lambda>error. throw (BadRequest (error_text error)))"

definition createBooking ::
  "payment_client \<Rightarrow> CreateBookingDto \<Rightarrow> int \<Rightarrow> (booking_world, booking_receipt) prog" where
  "createBooking client dto userId =
     textAsBadRequest
       (andThen (executeBookingSaga (dto\<lparr>cb_userId := userId\<rparr>) None) (\<lambda>booking.
        andThen (prepareBookingForPayment client booking userId) (\<lambda>(finalBooking, paymentIntent).
          case finalBooking of
            None \<Rightarrow> throw (null_read ''bookingReference'')
          | Some b \<Rightarrow> ret (receipt b paymentIntent))))"

subsection \<open>The other operations\<close>

text \<open>The booking of the reference, if it belongs to the user.\<close>

definition ownBooking :: "string \<Rightarrow> int \<Rightarrow> (booking_world, Booking) prog" where
  "ownBooking bookingId userId =
     andThen (findByReference bookingId) (\<lambda>found.
       case found of
         None \<Rightarrow> throw (NotFound ''Booking not found'')
       | Some b \<Rightarrow> if bk_userId b \<noteq> userId then throw (BadRequest ''Unauthorized'') else ret b)"

record completion_receipt =
  rc_bookingId :: string
  rc_status :: BookingStatus
  rc_paymentStatus :: PaymentStatus
  rc_seatNumbers :: "string list"
  rc_flightNumber :: "string option"

definition completeBookingFromPaymentEvent :: "string \<Rightarrow> string option \<Rightarrow> (booking_world, completion_receipt) prog" where
  "completeBookingFromPaymentEvent bookingId paymentTransactionId =
     (if \<not> truthy paymentTransactionId then throw (BadRequest ''Payment transaction ID is required'')
      else andThen (findByReference bookingId) (\<lambda>found.
        case found of
          None \<Rightarrow> throw (NotFound ''Booking not found'')
        | Some _ \<Rightarrow>
            andThen (completeBooking bookingId (the paymentTransactionId)) (\<lambda>completed.
              case completed of
                None \<Rightarrow> throw (null_read ''bookingReference'')
              | Some b \<Rightarrow> ret \<lparr>rc_bookingId = bk_bookingReference b, rc_status = bk_status b,
                              rc_paymentStatus = bk_paymentStatus b, rc_seatNumbers = bk_seatNumbers b,
                              rc_flightNumber = bk_flightNumber b\<rparr>)))"

text \<open>
  \<open>completeBooking\<close> returns the promise of \<open>completeBookingFromPaymentEvent\<close> without awaiting it, so
  its \<open>catch\<close> sees only the errors of the two checks.
\<close>

definition service_completeBooking :: "string \<Rightarrow> int \<Rightarrow> string option \<Rightarrow> (booking_world, completion_receipt) prog" where
  "service_completeBooking bookingId userId paymentTransactionId =
     andThen (asBadRequest (ownBooking bookingId userId)) (\<lambda>_.
       completeBookingFromPaymentEvent bookingId paymentTransactionId)"

definition service_cancelBooking ::
  "string \<Rightarrow> int \<Rightarrow> string option \<Rightarrow> (booking_world, string \<times> BookingStatus \<times> rat option) prog" where
  "service_cancelBooking bookingId userId reason =
     asBadRequest (andThen (ownBooking bookingId userId) (\<lambda>_.
       andThen (cancelBooking bookingId (or_str reason ''User requested cancellation'')) (\<lambda>cancelled.
         case cancelled of
           None \<Rightarrow> throw (null_read ''bookingReference'')
         | Some b \<Rightarrow> ret (bk_bookingReference b, bk_status b, bk_refundAmount b))))"

definition extendBooking :: "string \<Rightarrow> int \<Rightarrow> (booking_world, string \<times> int) prog" where
  "extendBooking bookingId userId =
     asBadRequest (andThen (ownBooking bookingId userId) (\<lambda>booking.
       andThen (extendLock_call (bk_flightId booking) bookingId 300) (\<lambda>extended.
         if \<not> extended then throw (BadRequest ''Cannot extend booking - locks may have expired'')
         else andThen (gets now) (\<lambda>t.
              andThen (update_booking (bk_id booking) (\<lambda>b. b\<lparr>bk_expiresAt := Some (t + 300 * 1000)\<rparr>)) (\<lambda>_.
                ret (bookingId, t + 300 * 1000))))))"

fun status_name :: "BookingStatus \<Rightarrow> string" where
  "status_name BS_INITIATED = ''INITIATED''"
| "status_name BS_PENDING = ''PENDING''"
| "status_name BS_BOOKED = ''BOOKED''"
| "status_name BS_CANCELLED = ''CANCELLED''"
| "status_name BS_EXPIRED = ''EXPIRED''"
| "status_name BS_REFUNDED = ''REFUNDED''"

definition getMyBookings :: "int \<Rightarrow> string option \<Rightarrow> (booking_world, Booking list) prog" where
  "getMyBookings userId status =
     andThen (findByUserId userId) (\<lambda>bs.
       ret (filter (\<lambda>b. \<not> truthy status \<or> status_name (bk_status b) = the status) bs))"

definition getBooking :: "string \<Rightarrow> int \<Rightarrow> (booking_world, Booking) prog" where
  "getBooking bookingId userId = ownBooking bookingId userId"

definition checkSeatAvailability :: "int \<Rightarrow> string \<Rightarrow> (booking_world, int \<times> (string \<times> bool) list \<times> bool) prog" where
  "checkSeatAvailability flightId seats =
     andThen external (\<lambda>_. andThen (gets (\<lambda>w.
       let lockedSeats = areSeatsLocked flightId (split_on CHR '','' seats) (now w) (locks w);
           availability = map (\<lambda>(seat, locked). (seat, \<not> locked)) lockedSeats
       in (flightId, availability, list_all snd availability))) ret)"

subsection \<open>Handlers and jobs\<close>

record PaymentCompletedEvent =
  pe_paymentId :: string
  pe_bookingReference :: "string option"
  pe_gatewayPaymentId :: string
  pe_gatewayTransactionId :: "string option"

definition handlePaymentCompleted :: "PaymentCompletedEvent \<Rightarrow> (booking_world, unit) prog" where
  "handlePaymentCompleted msg =
     (let bookingReference = map_option trim (pe_bookingReference msg);
          tx = or_opt (or_opt (pe_gatewayTransactionId msg) (Some (pe_gatewayPaymentId msg))) (Some (pe_paymentId msg))
      in if \<not> truthy bookingReference then ret ()
         else andThen (completeBookingFromPaymentEvent (the bookingReference) tx) (\<lambda>_. ret ()))"

definition expiry_reason :: string where
  "expiry_reason = ''Booking expired - payment not completed within time limit''"

definition cleanup_one :: "Booking \<Rightarrow> (booking_world, unit) prog" where
  "cleanup_one b =
     tryCatch (andThen (cancelBooking (bk_bookingReference b) expiry_reason) (\<lambda>_. ret ())) (\<lambda>_. ret ())"

definition cleanupExpiredBookings :: "(booking_world, unit) prog" where
  "cleanupExpiredBookings =
     tryCatch (andThen findExpiredBookings (\<lambda>expired. forEach cleanup_one expired)) (\<lambda>_. ret ())"

text \<open>
  What reaches the service: the message handlers of the controller, payment events, the jobs of the
  cleanup and the outbox. \<open>Tick\<close> lets time pass and sets the script of faults that are to come.
\<close>

datatype booking_op =
  HandleCreateBooking CreateBookingDto
| HandleCompleteBooking string int "string option"
| HandleCancelBooking string int "string option"
| HandleExtendBooking string int
| HandleGetMyBookings int "string option"
| HandleGetBooking string int
| HandleCheckAvailability int string
| PaymentCompleted PaymentCompletedEvent
| CleanupJob
| PublishJob
| CleanupOutboxJob
| Tick int "bool list"

definition booking_exec :: "payment_client \<Rightarrow> booking_world \<Rightarrow> booking_op \<Rightarrow> booking_world" where
  "booking_exec client w x =
     (case x of
        HandleCreateBooking dto \<Rightarrow> snd (createBooking client dto (cb_userId dto) w)
      | HandleCompleteBooking b u tx \<Rightarrow> snd (service_completeBooking b u tx w)
      | HandleCancelBooking b u reason \<Rightarrow> snd (service_cancelBooking b u reason w)
      | HandleExtendBooking b u \<Rightarrow> snd (extendBooking b u w)
      | HandleGetMyBookings u st \<Rightarrow> snd (getMyBookings u st w)
      | HandleGetBooking b u \<Rightarrow> snd (getBooking b u w)
      | HandleCheckAvailability f seats \<Rightarrow> snd (checkSeatAvailability f seats w)
      | PaymentCompleted msg \<Rightarrow> snd (handlePaymentCompleted msg w)
      | CleanupJob \<Rightarrow> snd (cleanupExpiredBookings w)
      | PublishJob \<Rightarrow> snd (publishPendingEvents w)
      | CleanupOutboxJob \<Rightarrow> snd (cleanupOldEvents w)
      | Tick t fs \<Rightarrow> w\<lparr>now := max t (now w), faults := fs\<rparr>)"

subsection \<open>Agreement of bookings and sagas\<close>

text \<open>
  What the service relies on of a payment client: it takes identifiers and leaves everything else
  as it is.
\<close>

locale payment_port =
  fixes client :: payment_client
  assumes client_world: "client req w = (r, w') \<Longrightarrow> w' = w\<lparr>uuidCtr := uuidCtr w'\<rparr> \<and> uuidCtr w \<le> uuidCtr w'"

lemma saga_inv_uuid: "saga_inv w \<Longrightarrow> uuidCtr w \<le> n \<Longrightarrow> saga_inv (w\<lparr>uuidCtr := n\<rparr>)"
  by (rule saga_inv_later [of w]) simp_all

lemma keeps_inv_uuid [keeps_intro]: "keeps saga_inv freshUuid"
  by (rule keepsI) (simp add: freshUuid_def saga_inv_uuid)

lemma keeps_inv_external [keeps_intro]: "keeps saga_inv external"
  by (rule keepsI) (simp add: external_def)

lemma keeps_option: "keeps I (f None) \<Longrightarrow> (\<And>x. keeps I (f (Some x))) \<Longrightarrow> keeps I (f z)"
  by (cases z) auto

lemma keeps_inv_rollback [keeps_intro]: "keeps saga_inv (rollbackBookingAfterPaymentFailure r reason)"
  unfolding rollbackBookingAfterPaymentFailure_def by (intro keeps_intro)

lemma keeps_inv_bad [keeps_intro]:
  "keeps saga_inv m \<Longrightarrow> keeps saga_inv (asBadRequest m)"
  "keeps saga_inv m \<Longrightarrow> keeps saga_inv (textAsBadRequest m)"
  unfolding asBadRequest_def textAsBadRequest_def by (intro keeps_intro; assumption)+

lemma keeps_inv_own [keeps_intro]: "keeps saga_inv (ownBooking b u)"
  unfolding ownBooking_def by (intro keeps_intro) (auto intro: keeps_intro split: option.splits)

lemma keeps_inv_event [keeps_intro]: "keeps saga_inv (completeBookingFromPaymentEvent b tx)"
  unfolding completeBookingFromPaymentEvent_def
  by (intro keeps_intro) (auto intro!: keeps_intro split: option.splits)

lemma keeps_inv_service_complete [keeps_intro]: "keeps saga_inv (service_completeBooking b u tx)"
  unfolding service_completeBooking_def by (intro keeps_intro)

lemma keeps_inv_service_cancel [keeps_intro]: "keeps saga_inv (service_cancelBooking b u reason)"
  unfolding service_cancelBooking_def by (intro keeps_intro) (auto intro: keeps_intro split: option.splits)

text \<open>Changing columns of bookings that the agreement does not look at.\<close>

lemma saga_inv_bookings:
  assumes "saga_inv w" and "\<And>b. bk_bookingReference (f b) = bk_bookingReference b" "\<And>b. bk_status (f b) = bk_status b"
  shows "saga_inv (w\<lparr>bookings := map f (bookings w)\<rparr>)"
proof -
  have "agrees s (f b) = agrees s b" for s b using assms(3) by (simp add: agrees_def)
  with assms show ?thesis by (simp add: saga_inv_def comp_def numbered_def)
qed

lemma keeps_inv_extendLock [keeps_intro]: "keeps saga_inv (extendLock_call f b n)"
proof (rule keepsI)
  fix w
  assume "saga_inv w"
  then show "saga_inv (snd (extendLock_call f b n w))"
    by (rule saga_inv_later) (auto simp: extendLock_call_def andThen_def external_def split: prod.splits)
qed

lemma keeps_inv_extend [keeps_intro]: "keeps saga_inv (extendBooking b u)"
proof -
  have "keeps saga_inv (update_bookings (\<lambda>b. bk_id b = i) (\<lambda>b. b\<lparr>bk_expiresAt := x\<rparr>))" for i x
    unfolding update_bookings_def
  proof (rule keeps_stmt)
    fix w
    assume "saga_inv w"
    then have "saga_inv (w\<lparr>bookings := map (\<lambda>b. if bk_id b = i then touch (now w) (\<lambda>b. b\<lparr>bk_expiresAt := x\<rparr>) b else b) (bookings w)\<rparr>)"
      by (rule saga_inv_bookings) simp_all
    with \<open>saga_inv w\<close> show "saga_inv (snd (if \<exists>b\<in>set (bookings w). bk_id b = i \<and> \<not> booking_columns_ok (b\<lparr>bk_expiresAt := x\<rparr>)
        then (Inl badColumn, w) else (Inr (), w\<lparr>bookings := map (\<lambda>b. if bk_id b = i
          then touch (now w) (\<lambda>b. b\<lparr>bk_expiresAt := x\<rparr>) b else b) (bookings w)\<rparr>)))"
      by simp
  qed simp
  then show ?thesis
    unfolding extendBooking_def update_booking_def by (intro keeps_intro)
qed

lemma keeps_inv_reads [keeps_intro]:
  "keeps saga_inv (getMyBookings u st)" "keeps saga_inv (getBooking b u)" "keeps saga_inv (checkSeatAvailability f s)"
  unfolding getMyBookings_def getBooking_def checkSeatAvailability_def findByUserId_def
  by (intro keeps_intro)+

lemma keeps_inv_payment [keeps_intro]: "keeps saga_inv (handlePaymentCompleted msg)"
  unfolding handlePaymentCompleted_def Let_def by (intro keeps_intro)

lemma keeps_inv_cleanup [keeps_intro]: "keeps saga_inv cleanupExpiredBookings"
  unfolding cleanupExpiredBookings_def findExpiredBookings_def cleanup_one_def [abs_def] by (intro keeps_intro)

lemma keeps_inv_outbox [keeps_intro]: "keeps saga_inv publishPendingEvents" "keeps saga_inv cleanupOldEvents"
proof -
  have up: "keeps saga_inv (update_event i f)" and pub: "keeps saga_inv (publish m)" for i f m
    by (rule keepsI, rule saga_inv_later, assumption, simp_all add: update_event_eq publish_eq)+
  have rp: "keeps saga_inv (\<lambda>w. publish (m (now w)) w)" "keeps saga_inv (\<lambda>w. update_event i (f (now w)) w)" for i f m
    by (rule keeps_reader, rule pub, rule keeps_reader, rule up)
  have "keeps saga_inv (publishEvent e)" for e
    unfolding publishEvent_def moveToDeadLetterQueue_def
    by (intro keeps_andThen keeps_tryCatch keeps_if keeps_ret up rp)
  then show "keeps saga_inv publishPendingEvents"
    unfolding publishPendingEvents_def by (intro keeps_intro)
  show "keeps saga_inv cleanupOldEvents"
    by (rule keepsI, rule saga_inv_later, assumption) (simp_all add: cleanupOldEvents_def stmt_eq)
qed

context payment_port
begin

lemma keeps_client: "keeps saga_inv (client req)"
proof (rule keepsI)
  fix w
  assume inv: "saga_inv w"
  obtain r w' where c: "client req w = (r, w')" by fastforce
  from client_world [OF c] have "saga_inv w'" using saga_inv_uuid [OF inv] by metis
  then show "saga_inv (snd (client req w))" by (simp add: c)
qed

lemma keeps_create: "keeps saga_inv (createBooking client dto u)"
proof -
  have "keeps saga_inv (settle_payment client b u)" for b
    unfolding settle_payment_def createPaymentIntentForBooking_def by (intro keeps_intro keeps_client)
  then have prep: "keeps saga_inv (prepareBookingForPayment client f u)" for f
    by (cases f) (auto simp: prepareBookingForPayment_def intro!: keeps_intro)
  have last: "keeps saga_inv (case x of (finalBooking, i) \<Rightarrow> case finalBooking of
      None \<Rightarrow> throw e | Some b \<Rightarrow> ret (receipt b i))" for x e
    by (auto intro: keeps_intro split: prod.splits option.splits)
  show ?thesis
    unfolding createBooking_def by (intro keeps_intro prep last)
qed

lemma exec_keeps: "saga_inv w \<Longrightarrow> saga_inv (booking_exec client w x)"
proof (cases x)
  case (Tick t fs)
  then show "saga_inv w \<Longrightarrow> ?thesis"
    by (simp add: booking_exec_def saga_inv_later)
qed (simp_all add: booking_exec_def keepsD [OF keeps_create] keepsD [OF keeps_inv_service_complete]
    keepsD [OF keeps_inv_service_cancel] keepsD [OF keeps_inv_extend] keepsD [OF keeps_inv_reads(1)]
    keepsD [OF keeps_inv_reads(2)] keepsD [OF keeps_inv_reads(3)] keepsD [OF keeps_inv_payment]
    keepsD [OF keeps_inv_cleanup] keepsD [OF keeps_inv_outbox(1)] keepsD [OF keeps_inv_outbox(2)])

end

sublocale payment_port \<subseteq> bookings: invariant_machine "booking_exec client" saga_inv
  by unfold_locales (rule exec_keeps)

text \<open>Both clients of the code are such ports.\<close>

interpretation payments: payment_port "paymentClient mode rpc" for mode rpc
proof
  fix req w r w'
  assume "paymentClient mode rpc req w = (r, w')"
  then show "w' = w\<lparr>uuidCtr := uuidCtr w'\<rparr> \<and> uuidCtr w \<le> uuidCtr w'"
    by (auto simp: paymentClient_def rpc_createPaymentIntent_def mock_createPaymentIntent_def throw_def ret_def
        andThen_def freshUuid_def split: sum.splits if_splits)
qed

subsection \<open>Creating a booking without faults\<close>

text \<open>A request the service can fulfil in a world without faults: valid seats that nobody holds.\<close>

definition bookable :: "booking_world \<Rightarrow> CreateBookingDto \<Rightarrow> bool" where
  "bookable w dto \<longleftrightarrow> ready w \<and> saga_inv w \<and>
     booking_columns_ok (new_booking (new_saga '''' (uuidSrc w (Suc (uuidCtr w))) dto None) (now w)) \<and>
     validateSeatsExist (dtoSeats dto) = Inr () \<and> dtoSeats dto \<noteq> [] \<and>
     booking_seats (now w) (cb_flightId dto) (uuidSrc w (Suc (uuidCtr w))) (locks w) = None \<and>
     (\<forall>s\<in>set (dtoSeats dto). \<not> seat_taken (cb_flightId dto) (uuidSrc w (Suc (uuidCtr w))) (now w) (locks w) s)"

text \<open>The booking the saga has made of it, before the payment.\<close>

definition reserved_for ::
  "booking_world \<Rightarrow> CreateBookingDto \<Rightarrow> SagaState \<Rightarrow> Booking \<Rightarrow> booking_world \<Rightarrow> bool" where
  "reserved_for w dto s b v \<longleftrightarrow> held v s b \<and> bookings v = bookings w @ [b] \<and>
     bk_bookingReference b = uuidSrc w (Suc (uuidCtr w)) \<and> bk_status b = BS_PENDING \<and>
     bk_userId b = cb_userId dto \<and> bk_expiresAt b = Some (now w + 900000) \<and> bk_seatNumbers b = dtoSeats dto \<and>
     sg_status s = SG_FLIGHT_RESERVED \<and> sg_currentStep s = 3 \<and> sg_payload s = dto \<and>
     map ob_eventType (outbox v) = map ob_eventType (outbox w) @ [''booking.created'', ''flight.reserve-seats''] \<and>
     (\<forall>x\<in>set (dtoSeats dto). holds (now v) (locks v) (cb_flightId dto) (bk_bookingReference b) x) \<and>
     (\<forall>x\<in>set (dtoSeats dto). leased (now w) (locks v) (cb_flightId dto) (bk_bookingReference b) x) \<and>
     uuidCtr v = uuidCtr w + 4 \<and> uuidSrc v = uuidSrc w \<and> now v = now w"

lemma saga_reserves:
  assumes "bookable w dto"
  shows "\<exists>s b v. executeBookingSaga dto None w = (Inr (Some b), v) \<and> reserved_for w dto s b v"
proof -
  from assms have a: "ready w" "booking_columns_ok (new_booking (new_saga '''' (uuidSrc w (Suc (uuidCtr w))) dto None) (now w))"
      "validateSeatsExist (dtoSeats dto) = Inr ()" "dtoSeats dto \<noteq> []"
      "booking_seats (now w) (cb_flightId dto) (uuidSrc w (Suc (uuidCtr w))) (locks w) = None"
      "\<forall>s\<in>set (dtoSeats dto). \<not> seat_taken (cb_flightId dto) (uuidSrc w (Suc (uuidCtr w))) (now w) (locks w) s"
    and inv: "saga_inv w"
    unfolding bookable_def by blast+
  from saga_run_ok [OF a] obtain b s e1 e2 v where run: "executeBookingSaga dto None w = (Inr (Some b), v)"
    and f: "bookings v = bookings w @ [b]" "bk_bookingReference b = uuidSrc w (Suc (uuidCtr w))"
      "bk_status b = BS_PENDING" "bk_expiresAt b = Some (now w + 900000)" "bk_seatNumbers b = dtoSeats dto"
    and g: "sagas v = sagas w @ [s]" "sg_status s = SG_FLIGHT_RESERVED" "sg_currentStep s = 3"
      "sg_bookingId s = bk_bookingReference b" "outbox v = outbox w @ [e1, e2]"
      "map ob_eventType [e1, e2] = [''booking.created'', ''flight.reserve-seats'']"
      "\<forall>x\<in>set (dtoSeats dto). holds (now v) (locks v) (cb_flightId dto) (bk_bookingReference b) x"
      "\<forall>x\<in>set (dtoSeats dto). leased (now w) (locks v) (cb_flightId dto) (bk_bookingReference b) x"
      "ready v" "saga_columns_ok s" "booking_columns_ok b" "sg_payload s = dto" "now v = now w"
      "bk_userId b = cb_userId dto" "uuidCtr v = uuidCtr w + 4" "uuidSrc v = uuidSrc w"
    by (elim exE conjE) (rule that, assumption+)
  have "saga_inv v" using keepsD [OF keeps_execute inv, of dto None] run by simp
  then have "held v s b" using f g by (simp add: held_def saga_inv_def)
  with run f g show ?thesis unfolding reserved_for_def by fastforce
qed

lemma reserved_dest:
  assumes "reserved_for w dto s b v"
  shows "held v s b" "bk_bookingReference b = sg_bookingId s"
    "\<forall>x\<in>set (dtoSeats dto). holds (now v) (locks v) (cb_flightId dto) (bk_bookingReference b) x"
proof -
  show "held v s b" and "\<forall>x\<in>set (dtoSeats dto). holds (now v) (locks v) (cb_flightId dto) (bk_bookingReference b) x"
    using assms unfolding reserved_for_def by blast+
  then show "bk_bookingReference b = sg_bookingId s" unfolding held_def by blast
qed

text \<open>An identifier that a payment client takes changes nothing for the saga.\<close>

lemma held_uuid: "held v s b \<Longrightarrow> uuidCtr v \<le> n \<Longrightarrow> held (v\<lparr>uuidCtr := n\<rparr>) s b"
proof -
  assume h: "held v s b" and n: "uuidCtr v \<le> n"
  have u: "used (v\<lparr>uuidCtr := n\<rparr>) x" if "used v x" for x using that n by (intro used_later [OF that]) simp_all
  have "ready (v\<lparr>uuidCtr := n\<rparr>)" using h u by (auto simp: held_def ready_def)
  with h show ?thesis by (simp add: held_def)
qed

lemma holds_release: "holds t r f b s \<Longrightarrow> releaseSeats f b t r (getSeatKey f s) = None"
  by (auto simp: holds_def release_apply split: option.splits)

lemma put_last_booking:
  "bookings v = bs @ [b] \<Longrightarrow> distinct (map bk_bookingReference (bookings v)) \<Longrightarrow>
   put_booking (bk_bookingReference b) t f (bookings v) = bs @ [touch t f b]"
proof -
  assume v: "bookings v = bs @ [b]" and d: "distinct (map bk_bookingReference (bookings v))"
  then have "bk_bookingReference b \<notin> bk_bookingReference ` set bs" by simp
  then have "bk_bookingReference x \<noteq> bk_bookingReference b" if "x \<in> set bs" for x using that by (metis image_eqI)
  then have "put_booking (bk_bookingReference b) t f bs = bs" by (simp add: put_booking_def map_idI)
  with v show ?thesis by (simp add: put_booking_def)
qed

text \<open>Payment settled at once: the booking is completed before the caller gets its answer.\<close>

lemma settle_mock:
  assumes r: "reserved_for w dto s b v" and len: "length (uuidSrc w (uuidCtr w + 4)) \<le> 36"
  shows "\<exists>v' b' i e1 e2. settle_payment (paymentClient LOCAL_MOCK rpc) b u v = (Inr (Some b', i), v') \<and>
    b' = touch (now v) (booked (''local_mock_'' @ uuidSrc w (uuidCtr w + 4)) (now v)) b \<and>
    \<not> pi_paymentRequired i \<and> completed (''local_mock_'' @ uuidSrc w (uuidCtr w + 4))
       (v\<lparr>uuidCtr := Suc (uuidCtr v)\<rparr>) s e1 e2 v'"
proof -
  let ?v = "v\<lparr>uuidCtr := Suc (uuidCtr v)\<rparr>" and ?tx = "''local_mock_'' @ uuidSrc w (uuidCtr w + 4)"
  have h: "held ?v s b" using reserved_dest(1) [OF r] by (intro held_uuid) simp_all
  have l: "length ?tx \<le> 100" and st: "sg_status s \<noteq> SG_BOOKING_CONFIRMED"
    using len r by (simp_all add: reserved_for_def)
  obtain v' e1 e2 where c: "completeBooking (sg_bookingId s) ?tx ?v = (Inr (Some (touch (now ?v) (booked ?tx (now ?v)) b)), v')"
    "completed ?tx ?v s e1 e2 v'"
    using complete_held [OF h st l] by blast
  have pay: "paymentClient LOCAL_MOCK rpc (payment_request b u) v = (Inr \<lparr>pi_paymentId = Some ?tx, pi_clientSecret = None,
      pi_status = Some ''confirmed'', pi_paymentRequired = False, pi_provider = LOCAL_MOCK\<rparr>, ?v)"
    using r by (simp add: paymentClient_def mock_createPaymentIntent_def andThen_def freshUuid_def ret_def reserved_for_def)
  have "settle_payment (paymentClient LOCAL_MOCK rpc) b u v = (Inr (Some (touch (now ?v) (booked ?tx (now ?v)) b),
      \<lparr>pi_paymentId = Some ?tx, pi_clientSecret = None, pi_status = Some ''confirmed'', pi_paymentRequired = False,
       pi_provider = LOCAL_MOCK\<rparr>), v')"
    unfolding settle_payment_def createPaymentIntentForBooking_def
    using pay c(1) reserved_dest(2) [OF r] by simp
  with c(2) show ?thesis by fastforce
qed

text \<open>C12. Creating a booking when no payment is needed. For a request with free seats \<open>createBooking\<close>
  answers with a booking that is already BOOKED and paid with the mock transaction: the row belongs to
  the caller whatever user id the request named, the four events are stored in order, and the seat
  locks are gone.\<close>

theorem create_booking_mock:
  assumes "bookable w (dto\<lparr>cb_userId := u\<rparr>)" and "length (uuidSrc w (uuidCtr w + 4)) \<le> 36"
  shows "\<exists>r v b. createBooking (paymentClient LOCAL_MOCK rpc) dto u w = (Inr r, v) \<and>
    re_bookingId r = bk_bookingReference b \<and> re_status r = BS_BOOKED \<and> re_autoCompleted r \<and> re_expiresAt r = None \<and>
    bookings v = bookings w @ [b] \<and> bk_userId b = u \<and> bk_status b = BS_BOOKED \<and> bk_paymentStatus b = PS_COMPLETED \<and>
    bk_paymentTransactionId b = Some (''local_mock_'' @ uuidSrc w (uuidCtr w + 4)) \<and>
    map ob_eventType (outbox v) = map ob_eventType (outbox w) @
      [''booking.created'', ''flight.reserve-seats'', ''flight.confirm-seats'', ''booking.confirmed''] \<and>
    (\<forall>x\<in>set (dtoSeats dto). locks v (getSeatKey (cb_flightId dto) x) = None)"
proof -
  let ?dto = "dto\<lparr>cb_userId := u\<rparr>"
  define tx where "tx = ''local_mock_'' @ uuidSrc w (uuidCtr w + 4)"
  obtain s b v where run: "executeBookingSaga ?dto None w = (Inr (Some b), v)" and r: "reserved_for w ?dto s b v"
    using saga_reserves [OF assms(1)] by blast
  obtain v' b' i e1 e2 where st: "settle_payment (paymentClient LOCAL_MOCK rpc) b u v = (Inr (Some b', i), v')"
    and b': "b' = touch (now v) (booked tx (now v)) b" and i: "\<not> pi_paymentRequired i"
    and c: "completed tx (v\<lparr>uuidCtr := Suc (uuidCtr v)\<rparr>) s e1 e2 v'"
    using settle_mock [OF r assms(2), of rpc u] unfolding tx_def by blast
  have cr: "createBooking (paymentClient LOCAL_MOCK rpc) dto u w = (Inr (receipt b' i), v')"
    using run st by (simp add: createBooking_def textAsBadRequest_def prepareBookingForPayment_def tryCatch_def andThen_def ret_def)
  note rf = r [unfolded reserved_for_def]
  from c have f: "bookings v' = put_booking (sg_bookingId s) (now v) (booked tx (now v)) (bookings v)"
    "locks v' = releaseSeats (cb_flightId (sg_payload s)) (sg_bookingId s) (now v) (locks v)"
    "outbox v' = outbox v @ [e1, e2]" "ob_eventType e1 = ''flight.confirm-seats''" "ob_eventType e2 = ''booking.confirmed''"
    by (simp_all add: completed_def)
  have d: "dtoSeats ?dto = dtoSeats dto" by (simp add: dtoSeats_def)
  have dist: "distinct (map bk_bookingReference (bookings v))" "bookings v = bookings w @ [b]"
    using rf unfolding held_def by blast+
  have rows: "bookings v' = bookings w @ [b']"
    using f(1) put_last_booking [OF dist(2,1)] b' reserved_dest(2) [OF r] by simp
  have hd: "\<forall>x\<in>set (dtoSeats dto). holds (now v) (locks v) (cb_flightId dto) (bk_bookingReference b) x"
    "sg_payload s = ?dto" using reserved_dest(3) [OF r] rf d by simp_all
  have free: "\<forall>x\<in>set (dtoSeats dto). locks v' (getSeatKey (cb_flightId dto) x) = None"
    using hd holds_release by (fastforce simp: f(2) reserved_dest(2) [OF r])
  have bf: "bk_bookingReference b' = bk_bookingReference b" "bk_status b' = BS_BOOKED" "bk_paymentStatus b' = PS_COMPLETED"
    "bk_paymentTransactionId b' = Some tx" "bk_userId b' = u" "bk_expiresAt b' = None"
    using b' rf by (simp_all add: touch_def booked_def)
  have ev: "map ob_eventType (outbox v') = map ob_eventType (outbox w) @
      [''booking.created'', ''flight.reserve-seats'', ''flight.confirm-seats'', ''booking.confirmed'']"
    using f rf by simp
  show ?thesis
    by (intro exI [of _ "receipt b' i"] exI [of _ v'] exI [of _ b'])
      (simp add: cr rows free bf ev i receipt_def, simp add: tx_def)
qed

lemma sample_bookable: "bookable sample_world (sample_dto\<lparr>cb_userId := 5\<rparr>)"
proof -
  have d: "sample_dto\<lparr>cb_userId := 5\<rparr> = sample_dto" by (simp add: sample_dto_def)
  have "saga_inv sample_world" by (simp add: saga_inv_def sample_world_def inj_def)
  then show ?thesis
    using sample_ready sample_columns sample_free
    by (simp add: bookable_def d sample_dto_seats validate_12A)
qed

theorem create_booking_mock_witness:
  "\<exists>r v b. createBooking (paymentClient LOCAL_MOCK (\<lambda>_. Inl down)) sample_dto 5 sample_world = (Inr r, v) \<and>
     re_status r = BS_BOOKED \<and> bookings v = [b] \<and> bk_status b = BS_BOOKED \<and> bk_userId b = 5"
proof -
  have l: "length (uuidSrc sample_world (uuidCtr sample_world + 4)) \<le> 36"
    by (simp add: sample_world_def show_nat.simps)
  have "bookings sample_world = []" by (simp add: sample_world_def)
  with create_booking_mock [OF sample_bookable l, of "\<lambda>_. Inl down"] show ?thesis by fastforce
qed

text \<open>The service with a payment required, up to the answer of the payment service.\<close>

lemma create_booking_rpc:
  assumes "bookable w (dto\<lparr>cb_userId := u\<rparr>)"
  shows "\<exists>s b v. reserved_for w (dto\<lparr>cb_userId := u\<rparr>) s b v \<and>
    createBooking (paymentClient PAYMENT_SERVICE rpc) dto u w =
      textAsBadRequest (andThen (prepareBookingForPayment (rpc_createPaymentIntent rpc) (Some b) u) (\<lambda>(finalBooking, i).
        case finalBooking of None \<Rightarrow> throw (null_read ''bookingReference'') | Some b \<Rightarrow> ret (receipt b i))) v"
proof -
  obtain s b v where "executeBookingSaga (dto\<lparr>cb_userId := u\<rparr>) None w = (Inr (Some b), v)"
    and r: "reserved_for w (dto\<lparr>cb_userId := u\<rparr>) s b v"
    using saga_reserves [OF assms] by blast
  then have "createBooking (paymentClient PAYMENT_SERVICE rpc) dto u w =
      textAsBadRequest (andThen (prepareBookingForPayment (rpc_createPaymentIntent rpc) (Some b) u) (\<lambda>(finalBooking, i).
        case finalBooking of None \<Rightarrow> throw (null_read ''bookingReference'') | Some b \<Rightarrow> ret (receipt b i))) v"
    by (simp add: createBooking_def paymentClient_def textAsBadRequest_def tryCatch_def andThen_def)
  with r show ?thesis by blast
qed

text \<open>C13. Creating a booking when the payment service answers. The caller gets a PENDING booking whose
  payment is required, with the identifier and secret of the payment service and an expiry 15 minutes
  later. For as long as nobody calls the lock service again, the booking holds its seats until that moment
  and no longer: up to it, and not from then on, the lock script refuses each of them to every other
  booking.\<close>

theorem create_booking_pending:
  assumes "bookable w (dto\<lparr>cb_userId := u\<rparr>)" and "\<forall>p. rpc p = Inr (Some reply)"
  shows "\<exists>r v b. createBooking (paymentClient PAYMENT_SERVICE rpc) dto u w = (Inr r, v) \<and>
    re_status r = BS_PENDING \<and> re_paymentRequired r \<and> \<not> re_autoCompleted r \<and> re_paymentId r = rr_id reply \<and>
    re_clientSecret r = rr_clientSecret reply \<and> re_expiresAt r = Some (now w + 900000) \<and>
    bookings v = bookings w @ [b] \<and> re_bookingId r = bk_bookingReference b \<and> bk_status b = BS_PENDING \<and> bk_userId b = u \<and>
    (\<forall>x\<in>set (dtoSeats dto). \<forall>t\<ge>now w.
       (holds t (locks v) (cb_flightId dto) (bk_bookingReference b) x \<longleftrightarrow> t < now w + 15 * 60 * 1000) \<and>
       (\<forall>other. other \<noteq> bk_bookingReference b \<longrightarrow>
          (seat_taken (cb_flightId dto) other t (locks v) x \<longleftrightarrow> t < now w + 15 * 60 * 1000)))"
proof -
  obtain s b v where r: "reserved_for w (dto\<lparr>cb_userId := u\<rparr>) s b v"
    and c: "createBooking (paymentClient PAYMENT_SERVICE rpc) dto u w =
      textAsBadRequest (andThen (prepareBookingForPayment (rpc_createPaymentIntent rpc) (Some b) u) (\<lambda>(finalBooking, i).
        case finalBooking of None \<Rightarrow> throw (null_read ''bookingReference'') | Some b \<Rightarrow> ret (receipt b i))) v"
    using create_booking_rpc [OF assms(1)] by blast
  let ?i = "\<lparr>pi_paymentId = rr_id reply, pi_clientSecret = rr_clientSecret reply, pi_status = rr_status reply,
     pi_paymentRequired = True, pi_provider = PAYMENT_SERVICE\<rparr>"
  have "createBooking (paymentClient PAYMENT_SERVICE rpc) dto u w = (Inr (receipt b ?i), v)"
    using c assms(2)
    by (simp add: textAsBadRequest_def prepareBookingForPayment_def settle_payment_def createPaymentIntentForBooking_def
        rpc_createPaymentIntent_def tryCatch_def andThen_def ret_def)
  moreover have "\<forall>x\<in>set (dtoSeats (dto\<lparr>cb_userId := u\<rparr>)).
      leased (now w) (locks v) (cb_flightId (dto\<lparr>cb_userId := u\<rparr>)) (bk_bookingReference b) x"
    using r unfolding reserved_for_def by blast
  then have "\<forall>x\<in>set (dtoSeats dto). leased (now w) (locks v) (cb_flightId dto) (bk_bookingReference b) x"
    by (simp add: dtoSeats_def)
  moreover have "bookings v = bookings w @ [b]" "bk_status b = BS_PENDING" "bk_userId b = u" "bk_expiresAt b = Some (now w + 900000)"
    using r unfolding reserved_for_def by simp_all
  ultimately show ?thesis
    by (intro exI [of _ "receipt b ?i"] exI [of _ v] exI [of _ b]) (simp add: receipt_def leased_def)
qed

theorem create_booking_pending_witness:
  "\<exists>r v. createBooking (paymentClient PAYMENT_SERVICE
        (\<lambda>_. Inr (Some \<lparr>rr_id = Some ''p1'', rr_clientSecret = None, rr_status = None\<rparr>))) sample_dto 5 sample_world = (Inr r, v) \<and>
     re_status r = BS_PENDING \<and> re_paymentId r = Some ''p1''"
  using create_booking_pending [OF sample_bookable,
      of "\<lambda>_. Inr (Some \<lparr>rr_id = Some ''p1'', rr_clientSecret = None, rr_status = None\<rparr>)"
         "\<lparr>rr_id = Some ''p1'', rr_clientSecret = None, rr_status = None\<rparr>"]
  by fastforce

text \<open>C14. A payment that cannot be started undoes the booking. When the call of the payment service times out or
  cannot be sent, the caller gets a bad request with the message of that error; when the payment service
  refuses, the error is a plain object and the text of the bad request is \<open>[object Object]\<close>, whatever the
  reason was. Either way the new booking is CANCELLED with that text as the reason, the flight service is told
  to release the seats after it was told to reserve them, and no seat stays locked.\<close>

theorem payment_failure_rolls_back:
  assumes "bookable w (dto\<lparr>cb_userId := u\<rparr>)" and "\<forall>p. rpc p = Inl e"
    and "reason = (case e of HttpExn st m c \<Rightarrow> m | JsError m \<Rightarrow> m | RpcError m \<Rightarrow> ''[object Object]'')"
  shows "\<exists>v b. createBooking (paymentClient PAYMENT_SERVICE rpc) dto u w = (Inl (BadRequest reason), v) \<and>
    bookings v = bookings w @ [b] \<and> bk_status b = BS_CANCELLED \<and>
    bk_cancellationReason b = Some (''Saga failed: Payment initiation failed: '' @ reason) \<and>
    map ob_eventType (outbox v) = map ob_eventType (outbox w) @
      [''booking.created'', ''flight.reserve-seats'', ''flight.release-seats''] \<and>
    (\<forall>x\<in>set (dtoSeats dto). locks v (getSeatKey (cb_flightId dto) x) = None)"
proof -
  obtain s b v where r: "reserved_for w (dto\<lparr>cb_userId := u\<rparr>) s b v"
    and c: "createBooking (paymentClient PAYMENT_SERVICE rpc) dto u w =
      textAsBadRequest (andThen (prepareBookingForPayment (rpc_createPaymentIntent rpc) (Some b) u) (\<lambda>(finalBooking, i).
        case finalBooking of None \<Rightarrow> throw (null_read ''bookingReference'') | Some b \<Rightarrow> ret (receipt b i))) v"
    using create_booking_rpc [OF assms(1)] by blast
  note rf = r [unfolded reserved_for_def]
  define why where "why = ''Payment initiation failed: '' @ reason"
  have etxt: "error_text e = reason" using assms(3) by (cases e) simp_all
  have ns: "sg_status s \<noteq> SG_COMPENSATED" using rf by simp
  let ?b = "touch (now v) (cancelled why (now v)) b"
  obtain v' es where k: "cancelBooking (sg_bookingId s) why v = (Inr (Some ?b), v')"
    and cd: "compensated why (v\<lparr>obj := s\<rparr>) es v'"
    using cancel_held [OF reserved_dest(1) [OF r] ns] by blast
  have run: "createBooking (paymentClient PAYMENT_SERVICE rpc) dto u w = (Inl (BadRequest reason), v')"
    using c k assms(2) reserved_dest(2) [OF r]
    by (simp add: etxt textAsBadRequest_def prepareBookingForPayment_def settle_payment_def createPaymentIntentForBooking_def
        rpc_createPaymentIntent_def rollbackBookingAfterPaymentFailure_def tryCatch_def andThen_def ret_def throw_def
        why_def [symmetric] del: append.simps)
  have rows: "bookings v' = bookings w @ [?b]"
    using cd put_last_booking [of v "bookings w" b] rf reserved_dest(1,2) [OF r]
    by (simp add: compensated_def held_def)
  have step: "3 \<le> sg_currentStep s" "2 \<le> sg_currentStep s" "sg_payload s = dto\<lparr>cb_userId := u\<rparr>" using rf by simp_all
  then obtain e' where ev: "es = [e']" "ob_eventType e' = ''flight.release-seats''" "outbox v' = outbox v @ es"
    "locks v' = releaseSeats (cb_flightId dto) (sg_bookingId s) (now v) (locks v)"
    using cd by (auto simp: compensated_def)
  have free: "\<forall>x\<in>set (dtoSeats dto). locks v' (getSeatKey (cb_flightId dto) x) = None"
    using reserved_dest(3) [OF r] holds_release by (fastforce simp: ev(4) reserved_dest(2) [OF r] dtoSeats_def)
  have "bk_status ?b = BS_CANCELLED" "bk_cancellationReason ?b = Some (''Saga failed: '' @ why)"
    by (simp_all add: touch_def cancelled_def)
  then show ?thesis using run rows ev free rf
    by (intro exI [of _ v'] exI [of _ ?b]) (simp add: why_def)
qed

theorem payment_failure_rolls_back_witness:
  "\<exists>v b. createBooking (paymentClient PAYMENT_SERVICE (\<lambda>_. Inl (RpcError ''Internal server error''))) sample_dto 5 sample_world =
       (Inl (BadRequest ''[object Object]''), v) \<and> bookings v = [b] \<and> bk_status b = BS_CANCELLED"
proof -
  have "bookings sample_world = []" by (simp add: sample_world_def)
  with payment_failure_rolls_back [OF sample_bookable, of "\<lambda>_. Inl (RpcError ''Internal server error'')"
      "RpcError ''Internal server error''" "''[object Object]''"]
  show ?thesis by fastforce
qed

subsection \<open>The service as a whole\<close>

text \<open>C11. Bookings and sagas agree at all times. Start from empty tables and let any sequence of
  requests, payment events and jobs run, in either payment mode, while any calls to the database, to
  Redis, to the broker or to the payment service fail: every booking has exactly one saga, and the
  two are in one of the five pairs of states of \<open>agrees\<close> - a booking is BOOKED exactly when its saga
  is confirmed, and CANCELLED exactly when its saga is compensated.\<close>

theorem booking_saga_agreement:
  assumes "bookings w = []" and "sagas w = []" and "inj (uuidSrc w)"
    and "v = run_steps (booking_exec (paymentClient mode rpc)) w ops" and "b \<in> set (bookings v)"
  shows "\<exists>s. s \<in> set (sagas v) \<and> sg_bookingId s = bk_bookingReference b \<and>
    (\<forall>s'\<in>set (sagas v). sg_bookingId s' = bk_bookingReference b \<longrightarrow> s' = s) \<and> agrees s b \<and>
    (bk_status b = BS_BOOKED \<longleftrightarrow> sg_status s = SG_BOOKING_CONFIRMED) \<and>
    (bk_status b = BS_CANCELLED \<longleftrightarrow> sg_status s = SG_COMPENSATED)"
proof -
  have "saga_inv w" using assms(1-3) by (simp add: saga_inv_def)
  then have inv: "saga_inv v" unfolding assms(4) by (rule payments.bookings.run_keeps)
  then obtain s where s: "s \<in> set (sagas v)" "sg_bookingId s = bk_bookingReference b" "agrees s b"
    using assms(5) unfolding saga_inv_def by meson
  have one: "s' = s" if "s' \<in> set (sagas v)" "sg_bookingId s' = bk_bookingReference b" for s'
    using inv that s distinct_id_eq [of sg_bookingId "sagas v" s' s] by (simp add: saga_inv_def)
  have "(bk_status b = BS_BOOKED \<longleftrightarrow> sg_status s = SG_BOOKING_CONFIRMED) \<and>
      (bk_status b = BS_CANCELLED \<longleftrightarrow> sg_status s = SG_COMPENSATED)"
    using s(3) by (auto simp: agrees_def)
  with s one show ?thesis by blast
qed

lemma sample_created:
  "\<exists>b. b \<in> set (bookings (run_steps (booking_exec (paymentClient LOCAL_MOCK rpc)) sample_world
     [HandleCreateBooking sample_dto]))"
proof -
  have d: "sample_dto\<lparr>cb_userId := 5\<rparr> = sample_dto" "cb_userId sample_dto = 5" by (simp_all add: sample_dto_def)
  obtain s b v where run: "executeBookingSaga sample_dto None sample_world = (Inr (Some b), v)"
    and r: "reserved_for sample_world sample_dto s b v"
    using saga_reserves [OF sample_bookable] unfolding d by blast
  have len: "length (uuidSrc sample_world (uuidCtr sample_world + 4)) \<le> 36"
    by (simp add: sample_world_def show_nat.simps)
  obtain v' b' i e1 e2 where st: "settle_payment (paymentClient LOCAL_MOCK rpc) b 5 v = (Inr (Some b', i), v')"
    and c: "completed (''local_mock_'' @ uuidSrc sample_world (uuidCtr sample_world + 4)) (v\<lparr>uuidCtr := Suc (uuidCtr v)\<rparr>) s e1 e2 v'"
    using settle_mock [OF r len, of rpc 5] by blast
  have "snd (createBooking (paymentClient LOCAL_MOCK rpc) sample_dto 5 sample_world) = v'"
    using run st
    by (simp add: createBooking_def d textAsBadRequest_def prepareBookingForPayment_def tryCatch_def andThen_def ret_def)
  moreover have "bookings v' \<noteq> []"
    using c r by (simp add: completed_def put_booking_def reserved_for_def)
  ultimately show ?thesis by (simp add: booking_exec_def d) (meson last_in_set)
qed

theorem booking_saga_agreement_witness:
  "\<exists>b s. b \<in> set (bookings (run_steps (booking_exec (paymentClient LOCAL_MOCK (\<lambda>_. Inr None))) sample_world
       [HandleCreateBooking sample_dto])) \<and>
     s \<in> set (sagas (run_steps (booking_exec (paymentClient LOCAL_MOCK (\<lambda>_. Inr None))) sample_world
       [HandleCreateBooking sample_dto])) \<and> sg_bookingId s = bk_bookingReference b"
proof -
  have w: "bookings sample_world = []" "sagas sample_world = []" "inj (uuidSrc sample_world)"
    by (simp_all add: sample_world_def inj_def)
  obtain b where b: "b \<in> set (bookings (run_steps (booking_exec (paymentClient LOCAL_MOCK (\<lambda>_. Inr None))) sample_world
     [HandleCreateBooking sample_dto]))" using sample_created by blast
  from booking_saga_agreement [OF w refl b] b show ?thesis by blast
qed

lemma own_foreign:
  assumes "find (\<lambda>b. bk_bookingReference b = r) (bookings w) = Some b" and "bk_userId b \<noteq> u"
  shows "\<exists>e. ownBooking r u w = (Inl e, w\<lparr>faults := tl (faults w)\<rparr>)"
  using assms by (auto simp: ownBooking_def findByReference_def query_eq andThen_def throw_def)

text \<open>Nobody but its owner can complete, cancel, extend or read a booking. Whatever calls fail and
  whatever the other arguments are, the request of another user is an error and leaves everything as
  it was: tables, locks, outbox and broker.\<close>

theorem foreign_booking_untouched:
  assumes "find (\<lambda>b. bk_bookingReference b = r) (bookings w) = Some b" and "bk_userId b \<noteq> u"
  shows "(\<exists>e. service_completeBooking r u tx w = (Inl e, w\<lparr>faults := tl (faults w)\<rparr>)) \<and>
    (\<exists>e. service_cancelBooking r u reason w = (Inl e, w\<lparr>faults := tl (faults w)\<rparr>)) \<and>
    (\<exists>e. extendBooking r u w = (Inl e, w\<lparr>faults := tl (faults w)\<rparr>)) \<and>
    (\<exists>e. getBooking r u w = (Inl e, w\<lparr>faults := tl (faults w)\<rparr>))"
  using own_foreign [OF assms]
  by (auto simp: service_completeBooking_def service_cancelBooking_def extendBooking_def getBooking_def
      asBadRequest_def tryCatch_def andThen_def throw_def)

theorem foreign_booking_untouched_witness:
  "\<exists>e. service_cancelBooking (show_nat 1) 99 None (sample_held SG_FLIGHT_RESERVED 3 BS_PENDING) =
     (Inl e, sample_held SG_FLIGHT_RESERVED 3 BS_PENDING)"
proof -
  have f: "find (\<lambda>b. bk_bookingReference b = show_nat 1) (bookings (sample_held SG_FLIGHT_RESERVED 3 BS_PENDING)) =
      Some (sample_booking BS_PENDING)" "bk_userId (sample_booking BS_PENDING) \<noteq> 99"
    by (simp_all add: sample_held_def sample_booking_def stored_booking_def sample_saga_def new_saga_def new_booking_def
        sample_dto_def Let_def)
  have "(sample_held SG_FLIGHT_RESERVED 3 BS_PENDING)\<lparr>faults := tl (faults (sample_held SG_FLIGHT_RESERVED 3 BS_PENDING))\<rparr> =
      sample_held SG_FLIGHT_RESERVED 3 BS_PENDING"
    by (simp add: sample_held_def sample_world_def)
  with foreign_booking_untouched [OF f] show ?thesis by simp
qed

subsection \<open>The cleanup job\<close>

definition swept :: "int \<Rightarrow> string set \<Rightarrow> Booking list \<Rightarrow> Booking list" where
  "swept t rs bs = map (\<lambda>b. if bk_bookingReference b \<in> rs then touch t (cancelled expiry_reason t) b else b) bs"

definition tables_ok :: "booking_world \<Rightarrow> bool" where
  "tables_ok w \<longleftrightarrow> ready w \<and> saga_inv w \<and> (\<forall>s\<in>set (sagas w). saga_columns_ok s) \<and> (\<forall>b\<in>set (bookings w). booking_columns_ok b)"

lemma tables_ok_held:
  assumes "tables_ok w" "b \<in> set (bookings w)"
  shows "\<exists>s. held w s b \<and> agrees s b"
proof -
  from assms obtain s where "s \<in> set (sagas w)" "sg_bookingId s = bk_bookingReference b" "agrees s b"
    unfolding tables_ok_def saga_inv_def by meson
  with assms have "held w s b" by (simp add: held_def tables_ok_def saga_inv_def)
  with \<open>agrees s b\<close> show ?thesis by blast
qed

text \<open>One round of the loop: the booking is cancelled and the tables stay in order.\<close>

lemma cancel_expired:
  assumes "tables_ok w" "b \<in> set (bookings w)" "bk_status b = BS_INITIATED"
  shows "\<exists>r v. cancelBooking (bk_bookingReference b) expiry_reason w = (Inr r, v) \<and> tables_ok v \<and> now v = now w \<and>
    bookings v = swept (now w) {bk_bookingReference b} (bookings w)"
proof -
  obtain s where h: "held w s b" and a: "agrees s b" using tables_ok_held [OF assms(1,2)] by blast
  have bid: "bk_bookingReference b = sg_bookingId s" using h by (simp add: held_def)
  have "sg_status s \<noteq> SG_COMPENSATED" using a assms(3) by (auto simp: agrees_def)
  then obtain v es where run: "cancelBooking (sg_bookingId s) expiry_reason w =
      (Inr (Some (touch (now w) (cancelled expiry_reason (now w)) b)), v)"
    and c: "compensated expiry_reason (w\<lparr>obj := s\<rparr>) es v"
    using cancel_held [OF h] by blast
  have inv: "saga_inv v" using keepsD [OF keeps_cancel, of w "sg_bookingId s" expiry_reason] assms(1) run by (simp add: tables_ok_def)
  have rows: "bookings v = swept (now w) {bk_bookingReference b} (bookings w)" "now v = now w"
    using c by (simp_all add: compensated_def put_booking_def swept_def bid)
  have o: "obj v = (compensated_obj expiry_reason s)\<lparr>sg_updatedAt := now w\<rparr>" "sagas v = put_saga (obj v) (sagas w)" "ready v"
    using c by (simp_all add: compensated_def)
  have "saga_columns_ok (obj v)" using h by (simp add: o(1) held_def compensated_obj_def saga_columns_ok_def)
  then have "\<forall>s\<in>set (sagas v). saga_columns_ok s" using assms(1) by (auto simp: o(2) put_saga_def tables_ok_def)
  moreover have "booking_columns_ok (touch t (cancelled m t) x) = booking_columns_ok x" for t m x
    by (simp add: touch_def cancelled_def booking_columns_ok_def)
  then have "\<forall>b\<in>set (bookings v). booking_columns_ok b" using assms(1) by (auto simp: rows(1) swept_def tables_ok_def)
  ultimately have "tables_ok v" using inv o(3) by (simp add: tables_ok_def)
  with run rows bid show ?thesis by auto
qed

lemma cleanup_loop:
  assumes "tables_ok w" "\<forall>b\<in>set xs. b \<in> set (bookings w) \<and> bk_status b = BS_INITIATED" "distinct (map bk_bookingReference xs)"
  shows "\<exists>v. forEach cleanup_one xs w =
      (Inr (), v) \<and> tables_ok v \<and> now v = now w \<and> bookings v = swept (now w) (bk_bookingReference ` set xs) (bookings w)"
  using assms
proof (induction xs arbitrary: w)
  case Nil
  then show ?case by (simp add: ret_def swept_def)
next
  case (Cons x xs)
  obtain r v where c: "cancelBooking (bk_bookingReference x) expiry_reason w = (Inr r, v)"
    and v: "tables_ok v" "now v = now w" "bookings v = swept (now w) {bk_bookingReference x} (bookings w)"
    using cancel_expired [of w x] Cons.prems by auto
  have xs: "\<forall>b\<in>set xs. b \<in> set (bookings v) \<and> bk_status b = BS_INITIATED"
  proof
    fix b
    assume b: "b \<in> set xs"
    then have "bk_bookingReference b \<noteq> bk_bookingReference x" using Cons.prems(3) by (metis distinct.simps(2) image_eqI image_set list.simps(9))
    then have "b \<in> set (bookings v)"
      using b Cons.prems(2) by (force simp: v(3) swept_def)
    with b Cons.prems(2) show "b \<in> set (bookings v) \<and> bk_status b = BS_INITIATED" by simp
  qed
  have ds: "distinct (map bk_bookingReference xs)" using Cons.prems(3) by simp
  obtain v' where run: "forEach cleanup_one xs v =
      (Inr (), v')" and v': "tables_ok v'" "now v' = now v" "bookings v' = swept (now v) (bk_bookingReference ` set xs) (bookings v)"
    using Cons.IH [OF v(1) xs ds] by blast
  have nx: "bk_bookingReference x \<notin> bk_bookingReference ` set xs" using Cons.prems(3) by simp
  have "bookings v' = swept (now w) (bk_bookingReference ` set (x # xs)) (bookings w)"
    using nx by (auto simp: v'(3) v(2,3) swept_def)
  moreover have "cleanup_one x w = (Inr (), v)" using c by (simp add: cleanup_one_def tryCatch_def andThen_def ret_def)
  ultimately show ?case using run v'(1,2) v(2) by (simp add: andThen_def)
qed

text \<open>C15. The cleanup job does in one pass what it is specified to do, and no more: without faults it
  cancels exactly the bookings that are INITIATED and past their expiry, and leaves every other row
  untouched. In particular a booking that has reached PENDING - every booking for which a payment was
  requested - is never cleaned up, however long ago it expired.\<close>

theorem cleanup_exact:
  assumes "tables_ok w"
  shows "\<exists>v. cleanupExpiredBookings w = (Inr (), v) \<and>
    bookings v = map (\<lambda>b. if bk_status b = BS_INITIATED \<and> (\<exists>e. bk_expiresAt b = Some e \<and> e < now w)
      then touch (now w) (cancelled ''Booking expired - payment not completed within time limit'' (now w)) b else b) (bookings w)"
proof -
  let ?xs = "filter (is_expired (now w)) (bookings w)"
  have f: "faults w = []" using assms by (simp add: tables_ok_def ready_def)
  have d: "distinct (map bk_bookingReference (bookings w))" using assms by (simp add: tables_ok_def saga_inv_def)
  then have dx: "distinct (map bk_bookingReference ?xs)" by (simp add: distinct_map_filter)
  have xs: "\<forall>b\<in>set ?xs. b \<in> set (bookings w) \<and> bk_status b = BS_INITIATED" by (auto simp: is_expired_def)
  obtain v where loop: "forEach cleanup_one ?xs w =
      (Inr (), v)" and b: "bookings v = swept (now w) (bk_bookingReference ` set ?xs) (bookings w)"
    using cleanup_loop [OF assms xs dx] by blast
  have "cleanupExpiredBookings w = (Inr (), v)"
    using loop f
    by (simp add: cleanupExpiredBookings_def expiry_reason_def [symmetric] findExpiredBookings_def tryCatch_def andThen_def ret_def)
  moreover have "bk_bookingReference x \<in> bk_bookingReference ` set ?xs \<longleftrightarrow> is_expired (now w) x" if "x \<in> set (bookings w)" for x
    using that d distinct_id_eq [of bk_bookingReference "bookings w"] by auto
  ultimately show ?thesis
    by (auto simp: b swept_def expiry_reason_def [symmetric] is_expired_def split: option.splits)
qed

theorem cleanup_exact_witness:
  "\<exists>v. cleanupExpiredBookings (sample_held SG_FLIGHT_RESERVED 3 BS_PENDING) = (Inr (), v) \<and>
     bookings v = [sample_booking BS_PENDING]"
proof -
  let ?w = "sample_held SG_FLIGHT_RESERVED 3 BS_PENDING"
  have h: "held ?w (sample_saga SG_FLIGHT_RESERVED 3) (sample_booking BS_PENDING)"
    by (rule sample_held_ok) (simp add: int4_ok_def)
  have tables: "sagas ?w = [sample_saga SG_FLIGHT_RESERVED 3]" "bookings ?w = [sample_booking BS_PENDING]"
    by (simp_all add: sample_held_def)
  have a: "agrees (sample_saga SG_FLIGHT_RESERVED 3) (sample_booking BS_PENDING)" "bk_status (sample_booking BS_PENDING) = BS_PENDING"
    by (simp_all add: agrees_def sample_saga_def sample_booking_def)
  have n: "numbered ?w (sample_saga SG_FLIGHT_RESERVED 3)"
    by (auto simp: numbered_def sample_held_def sample_world_def sample_saga_def new_saga_def intro: exI [of _ 1])
  have "saga_inv ?w"
    using h a n by (simp add: saga_inv_def tables held_def ready_def)
  then have "tables_ok ?w" using h by (simp add: tables_ok_def tables held_def)
  from cleanup_exact [OF this] show ?thesis by (simp add: tables a)
qed

end
