(* ===== verification/PaymentModel.thy ===== *)
theory PaymentModel
  imports Prelude
begin

text \<open>
  The data of the payment service: the entities of apps/payment-service/src/entities with every
  column, the request objects (src/dto), the gateways (src/gateways) and the statements on the
  tables. Stripe is a parameter: what it answers to its n-th call. Amounts are cents.
\<close>

subsection \<open>Entities\<close>

text \<open>The JSON values the code builds; an object is the list of its properties, \<open>undefined\<close> ones left out.\<close>

datatype jval = JStr string | JNum int | JObj "(string \<times> jval) list"

definition jopt :: "string \<Rightarrow> string option \<Rightarrow> (string \<times> jval) list" where
  "jopt k x = (case x of None \<Rightarrow> [] | Some s \<Rightarrow> [(k, JStr s)])"

datatype PaymentState =
  PY_PENDING | PY_REQUIRES_ACTION | PY_PROCESSING | PY_CONFIRMED | PY_FAILED
  | PY_PARTIALLY_REFUNDED | PY_REFUNDED | PY_CANCELED

record Payment =
  py_id :: string
  py_bookingId :: int
  py_userId :: int
  py_amount :: int
  py_currency :: string
  py_paymentMethod :: string
  py_gateway :: string
  py_gatewayPaymentId :: string
  py_status :: PaymentState
  py_clientSecret :: "string option"
  py_correlationId :: "string option"
  py_failureCode :: "string option"
  py_failureReason :: "string option"
  py_confirmedAt :: "int option"
  py_refundedAt :: "int option"
  py_expiresAt :: "int option"
  py_metadata :: "string \<rightharpoonup> jval"
  py_version :: int
  py_createdAt :: int
  py_updatedAt :: int

datatype RefundStatus = RF_PENDING | RF_PROCESSING | RF_SUCCEEDED | RF_FAILED | RF_CANCELED

record Refund =
  rf_id :: string
  rf_paymentId :: string
  rf_bookingId :: int
  rf_amount :: int
  rf_reason :: "string option"
  rf_idempotencyKey :: "string option"
  rf_status :: RefundStatus
  rf_gatewayRefundId :: "string option"
  rf_failureReason :: "string option"
  rf_processedAt :: "int option"
  rf_createdAt :: int
  rf_updatedAt :: int

datatype IdempotencyKeyStatus = IK_PROCESSING | IK_COMPLETED | IK_FAILED

text \<open>A stored response is the payment or the refund that was returned.\<close>

datatype response = RPayment Payment | RRefund Refund

record IdempotencyKey =
  ik_id :: string
  ik_idempotencyKey :: string
  ik_scope :: string
  ik_requestHash :: string
  ik_resourceType :: "string option"
  ik_resourceId :: "string option"
  ik_status :: IdempotencyKeyStatus
  ik_responseCode :: "int option"
  ik_responseBody :: "response option"
  ik_lastError :: "string option"
  ik_lockedAt :: "int option"
  ik_expiresAt :: "int option"
  ik_createdAt :: int
  ik_updatedAt :: int

datatype LedgerEntryType = LE_PAYMENT | LE_REFUND

datatype LedgerDirection = DEBIT | CREDIT

record LedgerEntry =
  le_id :: string
  le_paymentId :: "string option"
  le_refundId :: "string option"
  le_bookingId :: int
  le_accountCode :: string
  le_entryType :: LedgerEntryType
  le_direction :: LedgerDirection
  le_amount :: int
  le_currency :: string
  le_referenceType :: string
  le_referenceId :: string
  le_description :: "string option"
  le_occurredAt :: int
  le_metadata :: "(string \<times> jval) list"
  le_createdAt :: int

datatype AuditAction =
  INTENT_CREATED | IDEMPOTENCY_REPLAYED | PAYMENT_CONFIRMATION_REQUESTED | PAYMENT_CAPTURED
  | PAYMENT_FAILED | REFUND_CREATED | REFUND_PROCESSED | LEDGER_ENTRY_CREATED | WEBHOOK_RECEIVED
  | WEBHOOK_PROCESSED | WEBHOOK_DEDUPED

record PaymentAuditLog =
  al_entityType :: string
  al_entityId :: string
  al_action :: AuditAction
  al_userId :: "int option"
  al_changes :: "(string \<times> jval) list"
  al_createdAt :: int

datatype WebhookEventStatus = WH_RECEIVED | WH_PROCESSED | WH_FAILED

record WebhookEventEntity =
  wh_id :: string
  wh_gateway :: string
  wh_eventId :: string
  wh_eventType :: string
  wh_status :: WebhookEventStatus
  wh_gatewayPaymentId :: "string option"
  wh_payloadHash :: "string option"
  wh_lastError :: "string option"
  wh_receivedAt :: int
  wh_processedAt :: "int option"
  wh_createdAt :: int
  wh_updatedAt :: int

subsection \<open>Requests\<close>

datatype PaymentMethod = CARD | APPLE_PAY | GOOGLE_PAY | PAYPAL | CRYPTO

fun method_name :: "PaymentMethod \<Rightarrow> string" where
  "method_name CARD = ''card''"
| "method_name APPLE_PAY = ''apple_pay''"
| "method_name GOOGLE_PAY = ''google_pay''"
| "method_name PAYPAL = ''paypal''"
| "method_name CRYPTO = ''crypto''"

record CreatePaymentIntentDto =
  ci_bookingId :: int
  ci_bookingReference :: "string option"
  ci_userId :: int
  ci_amount :: int
  ci_currency :: "string option"
  ci_paymentMethod :: "PaymentMethod option"
  ci_gatewayOverride :: "string option"
  ci_metadata :: "(string \<rightharpoonup> jval) option"

record CreateRefundDto =
  cr_paymentId :: string
  cr_bookingId :: int
  cr_amount :: int
  cr_reason :: "string option"

text \<open>Dates of the query are milliseconds.\<close>

record QueryLedgerEntriesDto =
  ql_bookingId :: "int option"
  ql_paymentId :: "string option"
  ql_entryType :: "string option"
  ql_from :: "int option"
  ql_to :: "int option"
  ql_limit :: "int option"

subsection \<open>Stripe\<close>

record CreatePaymentIntentParams =
  gp_bookingId :: int
  gp_userId :: int
  gp_amount :: int
  gp_currency :: string
  gp_paymentMethod :: "PaymentMethod option"
  gp_metadata :: "string \<rightharpoonup> jval"

text \<open>What Stripe knows of a payment intent: \<open>si_lastError\<close> is code and message of its last failure.\<close>

record stripe_intent =
  si_id :: string
  si_amount :: int
  si_currency :: string
  si_status :: string
  si_clientSecret :: "string option"
  si_lastError :: "(string option \<times> string option) option"

record stripe_event =
  se_id :: string
  se_type :: string
  se_objectId :: "string option"
  se_status :: "string option"
  se_errorMessage :: "string option"

record stripe_create_params =
  sc_amount :: int
  sc_currency :: string
  sc_metadata :: "string \<rightharpoonup> jval"

datatype stripe_call =
  SC_Create stripe_create_params | SC_Retrieve string | SC_Confirm string | SC_Capture string
  | SC_Refund string int "string option"

text \<open>
  The platform the service runs on: the answers of Stripe to a call, given how many were made before
  (an error is the exception of its client library), the check of a webhook signature, SHA-256 of the
  JSON text of each kind of request, and the two environment variables.
\<close>

record platform =
  stripe_create :: "nat \<Rightarrow> stripe_create_params \<Rightarrow> exn + stripe_intent"
  stripe_retrieve :: "nat \<Rightarrow> string \<Rightarrow> exn + stripe_intent"
  stripe_confirm :: "nat \<Rightarrow> string \<Rightarrow> exn + unit"
  stripe_capture :: "nat \<Rightarrow> string \<Rightarrow> exn + unit"
  stripe_refund :: "nat \<Rightarrow> string \<Rightarrow> int \<Rightarrow> string option \<Rightarrow> exn + (string \<times> string)"
  constructEvent :: "string \<Rightarrow> string \<Rightarrow> string \<Rightarrow> exn + stripe_event"
  hash_intent :: "CreatePaymentIntentDto \<Rightarrow> string"
  hash_confirm :: "string \<Rightarrow> string option \<Rightarrow> string"
  hash_refund :: "CreateRefundDto \<Rightarrow> string"
  hash_text :: "string \<Rightarrow> string"
  webhookSecret :: "string option"
  defaultProcessor :: "string option"

subsection \<open>The world of the service\<close>

text \<open>The message published when a payment is complete.\<close>

record payment_completed =
  pc_paymentId :: string
  pc_bookingId :: int
  pc_bookingReference :: string
  pc_userId :: int
  pc_amount :: int
  pc_currency :: string
  pc_gateway :: string
  pc_gatewayPaymentId :: string
  pc_gatewayTransactionId :: "string option"
  pc_status :: PaymentState
  pc_confirmedAt :: "int option"

text \<open>
  The tables, the calls made to Stripe, the events emitted inside the process and the messages
  published. The audit log is written outside the transactions.
\<close>

record payment_world = env +
  payments :: "Payment list"
  refunds :: "Refund list"
  idempotency :: "IdempotencyKey list"
  ledger :: "LedgerEntry list"
  auditLog :: "PaymentAuditLog list"
  webhooks :: "WebhookEventEntity list"
  stripeLog :: "stripe_call list"
  emitted :: "(string \<times> (string \<times> jval) list) list"
  completions :: "payment_completed list"

definition rollback :: "payment_world \<Rightarrow> payment_world \<Rightarrow> payment_world" where
  "rollback w w' = w'\<lparr>payments := payments w, refunds := refunds w, idempotency := idempotency w,
                      ledger := ledger w, webhooks := webhooks w\<rparr>"

abbreviation payment_tx :: "(payment_world, 'a) prog \<Rightarrow> (payment_world, 'a) prog" where
  "payment_tx \<equiv> atomic rollback"

definition emit :: "string \<Rightarrow> (string \<times> jval) list \<Rightarrow> (payment_world, unit) prog" where
  "emit name data = modify (\<lambda>w. w\<lparr>emitted := emitted w @ [(name, data)]\<rparr>)"

definition unique_violation :: exn where
  "unique_violation = JsError ''duplicate key value violates unique constraint''"

definition invalid_column :: exn where
  "invalid_column = JsError ''value too long for type or out of range''"

subsection \<open>Payments and refunds\<close>

definition payment_columns_ok :: "Payment \<Rightarrow> bool" where
  "payment_columns_ok p \<longleftrightarrow> int4_ok (py_bookingId p) \<and> int4_ok (py_userId p) \<and> int4_ok (py_amount p) \<and>
     length (py_currency p) \<le> 3 \<and> length (py_paymentMethod p) \<le> 50 \<and> length (py_gateway p) \<le> 50 \<and>
     length (py_gatewayPaymentId p) \<le> 255 \<and> varchar_ok 100 (py_correlationId p) \<and> varchar_ok 100 (py_failureCode p)"

text \<open>\<open>save\<close> of a new entity inserts a row with a fresh identifier; of a loaded one it updates its row.\<close>

definition insert_payment :: "Payment \<Rightarrow> (payment_world, Payment) prog" where
  "insert_payment p = andThen freshUuid (\<lambda>i. dbcall (\<lambda>w.
     if \<not> payment_columns_ok p then (Inl invalid_column, w)
     else if \<exists>r\<in>set (payments w). py_gatewayPaymentId r = py_gatewayPaymentId p then (Inl unique_violation, w)
     else let row = p\<lparr>py_id := i, py_version := 1, py_createdAt := now w, py_updatedAt := now w\<rparr>
          in (Inr row, w\<lparr>payments := payments w @ [row]\<rparr>)))"

definition put_payment :: "Payment \<Rightarrow> Payment list \<Rightarrow> Payment list" where
  "put_payment p rows = map (\<lambda>r. if py_id r = py_id p then p else r) rows"

definition save_payment :: "Payment \<Rightarrow> (payment_world, Payment) prog" where
  "save_payment p = dbcall (\<lambda>w.
     if \<not> payment_columns_ok p then (Inl invalid_column, w)
     else let row = p\<lparr>py_version := py_version p + 1, py_updatedAt := now w\<rparr>
          in (Inr row, w\<lparr>payments := put_payment row (payments w)\<rparr>))"

definition find_payment :: "(Payment \<Rightarrow> bool) \<Rightarrow> (payment_world, Payment option) prog" where
  "find_payment p = dbquery (\<lambda>w. find p (payments w))"

definition insert_refund :: "Refund \<Rightarrow> (payment_world, Refund) prog" where
  "insert_refund r = andThen freshUuid (\<lambda>i. dbcall (\<lambda>w.
     if \<not> (int4_ok (rf_bookingId r) \<and> int4_ok (rf_amount r) \<and> varchar_ok 255 (rf_idempotencyKey r) \<and> varchar_ok 255 (rf_gatewayRefundId r))
     then (Inl invalid_column, w)
     else if rf_gatewayRefundId r \<noteq> None \<and> (\<exists>x\<in>set (refunds w). rf_gatewayRefundId x = rf_gatewayRefundId r)
     then (Inl unique_violation, w)
     else let row = r\<lparr>rf_id := i, rf_createdAt := now w, rf_updatedAt := now w\<rparr>
          in (Inr row, w\<lparr>refunds := refunds w @ [row]\<rparr>)))"

definition refunded :: "string \<Rightarrow> Refund list \<Rightarrow> int" where
  "refunded paymentId rows =
     sum_list (map rf_amount (filter (\<lambda>r. rf_paymentId r = paymentId \<and> rf_status r = RF_SUCCEEDED) rows))"

definition refund_total :: "string \<Rightarrow> (payment_world, int) prog" where
  "refund_total paymentId = dbquery (\<lambda>w. refunded paymentId (refunds w))"

subsection \<open>Audit log\<close>

text \<open>A failure to write it is swallowed.\<close>

definition createAuditLog ::
  "string \<Rightarrow> string \<Rightarrow> AuditAction \<Rightarrow> int option \<Rightarrow> (string \<times> jval) list \<Rightarrow> (payment_world, unit) prog" where
  "createAuditLog entityType entityId action userId changes =
     tryCatch
       (dbcall (\<lambda>w. (Inr (), w\<lparr>auditLog := auditLog w @
          [\<lparr>al_entityType = entityType, al_entityId = entityId, al_action = action, al_userId = userId,
            al_changes = changes, al_createdAt = now w\<rparr>]\<rparr>)))
       (\<lambda>_. ret ())"

end
