(* ===== verification/PaymentService.thy ===== *)
theory PaymentService
  imports PaymentModel
begin

text \<open>
  The operations of the payment service: the gateways and their registry (src/gateways), payment
  intents, their confirmation and the ledger (src/services/payment.service.ts), refunds
  (refund.service.ts), webhooks (webhook.service.ts) and the message handlers (src/controllers).
  \<open>pf\<close> is the platform throughout.
\<close>

subsection \<open>Gateways\<close>

datatype gateway = Stripe | PayPal

fun getGatewayName :: "gateway \<Rightarrow> string" where
  "getGatewayName Stripe = ''stripe''"
| "getGatewayName PayPal = ''paypal''"

fun supportedMethods :: "gateway \<Rightarrow> PaymentMethod list" where
  "supportedMethods Stripe = [CARD, APPLE_PAY, GOOGLE_PAY]"
| "supportedMethods PayPal = [PAYPAL]"

definition registry :: "gateway list" where
  "registry = [Stripe, PayPal]"

fun PAYMENT_METHOD_GATEWAY_MAP :: "PaymentMethod \<Rightarrow> string" where
  "PAYMENT_METHOD_GATEWAY_MAP CARD = ''stripe''"
| "PAYMENT_METHOD_GATEWAY_MAP APPLE_PAY = ''stripe''"
| "PAYMENT_METHOD_GATEWAY_MAP GOOGLE_PAY = ''stripe''"
| "PAYMENT_METHOD_GATEWAY_MAP PAYPAL = ''paypal''"
| "PAYMENT_METHOD_GATEWAY_MAP CRYPTO = ''crypto''"

definition getByName :: "string \<Rightarrow> exn + gateway" where
  "getByName name =
     (case find (\<lambda>g. getGatewayName g = to_lower name) registry of
        Some g \<Rightarrow> Inr g
      | None \<Rightarrow> Inl (JsError (''Unknown payment processor: '' @ [CHR 0x22] @ name @ [CHR 0x22] @
          ''. Available: ['' @ join '', '' (map getGatewayName registry) @ '']'')))"

definition getForMethod :: "PaymentMethod \<Rightarrow> exn + gateway" where
  "getForMethod m = getByName (PAYMENT_METHOD_GATEWAY_MAP m)"

definition getDefaultProcessorName :: "platform \<Rightarrow> string" where
  "getDefaultProcessorName pf =
     (let configured = to_lower (or_str (defaultProcessor pf) ''stripe'')
      in if configured \<in> set (map getGatewayName registry) then configured else ''stripe'')"

definition resolve :: "platform \<Rightarrow> PaymentMethod option \<Rightarrow> string option \<Rightarrow> exn + gateway" where
  "resolve pf paymentMethod gatewayOverride =
     (if truthy gatewayOverride then getByName (the gatewayOverride)
      else case paymentMethod of
        Some m \<Rightarrow> getForMethod m
      | None \<Rightarrow> getByName (getDefaultProcessorName pf))"

definition getSupportedPaymentMethods :: "PaymentMethod list" where
  "getSupportedPaymentMethods = js_set (concat (map supportedMethods registry))"

text \<open>A call to Stripe is logged, and answered by the platform.\<close>

definition askStripe :: "stripe_call \<Rightarrow> (nat \<Rightarrow> exn + 'a) \<Rightarrow> (payment_world, 'a) prog" where
  "askStripe c answer w = (answer (length (stripeLog w)), w\<lparr>stripeLog := stripeLog w @ [c]\<rparr>)"

definition unsupported :: "string \<Rightarrow> (payment_world, 'a) prog" where
  "unsupported operation =
     throw (NotImplemented (''PayPal '' @ operation @ '' is not available yet. Use Stripe or add PayPal Orders v2.''))"

record PaymentIntent =
  gi_id :: string
  gi_gatewayPaymentId :: string
  gi_status :: string
  gi_clientSecret :: "string option"

definition stripe_params :: "CreatePaymentIntentParams \<Rightarrow> stripe_create_params" where
  "stripe_params params = \<lparr>sc_amount = gp_amount params, sc_currency = to_lower (gp_currency params),
     sc_metadata = Map.empty(''bookingId'' \<mapsto> JStr (show_int (gp_bookingId params)),
        ''userId'' \<mapsto> JStr (show_int (gp_userId params)),
        ''paymentMethod'' := map_option (JStr \<circ> method_name) (gp_paymentMethod params)) ++ gp_metadata params\<rparr>"

definition gateway_create :: "platform \<Rightarrow> gateway \<Rightarrow> CreatePaymentIntentParams \<Rightarrow> (payment_world, PaymentIntent) prog" where
  "gateway_create pf g params =
     (case g of
        PayPal \<Rightarrow> unsupported ''createPaymentIntent''
      | Stripe \<Rightarrow> andThen (askStripe (SC_Create (stripe_params params)) (\<lambda>n. stripe_create pf n (stripe_params params))) (\<lambda>p.
          ret \<lparr>gi_id = si_id p, gi_gatewayPaymentId = si_id p, gi_status = si_status p,
               gi_clientSecret = si_clientSecret p\<rparr>))"

record PaymentResult =
  gr_success :: bool
  gr_transactionId :: string
  gr_status :: string
  gr_failureCode :: "string option"
  gr_errorMessage :: "string option"

definition stripe_capturePayment :: "platform \<Rightarrow> string \<Rightarrow> (payment_world, PaymentResult) prog" where
  "stripe_capturePayment pf i =
     tryCatch
       (andThen (askStripe (SC_Retrieve i) (\<lambda>n. stripe_retrieve pf n i)) (\<lambda>p.
        andThen (if si_status p = ''requires_confirmation''
                 then askStripe (SC_Confirm i) (\<lambda>n. stripe_confirm pf n i) else ret ()) (\<lambda>_.
        andThen (if si_status p = ''requires_capture''
                 then askStripe (SC_Capture i) (\<lambda>n. stripe_capture pf n i) else ret ()) (\<lambda>_.
        andThen (askStripe (SC_Retrieve i) (\<lambda>n. stripe_retrieve pf n i)) (\<lambda>updated.
          let success = (si_status updated = ''succeeded'')
          in ret \<lparr>gr_success = success, gr_transactionId = si_id updated, gr_status = si_status updated,
                  gr_failureCode = Option.bind (si_lastError updated) fst,
                  gr_errorMessage = (if success then None else Option.bind (si_lastError updated) snd)\<rparr>)))))
       (\<lambda>error. ret \<lparr>gr_success = False, gr_transactionId = i, gr_status = ''failed'', gr_failureCode = None,
                     gr_errorMessage = Some (exn_message error)\<rparr>)"

definition gateway_capture :: "platform \<Rightarrow> gateway \<Rightarrow> string \<Rightarrow> (payment_world, PaymentResult) prog" where
  "gateway_capture pf g i =
     (case g of PayPal \<Rightarrow> unsupported ''capturePayment'' | Stripe \<Rightarrow> stripe_capturePayment pf i)"

record RefundResult =
  gf_success :: bool
  gf_refundId :: string
  gf_errorMessage :: "string option"

definition stripe_refundPayment ::
  "platform \<Rightarrow> string \<Rightarrow> int \<Rightarrow> string option \<Rightarrow> (payment_world, RefundResult) prog" where
  "stripe_refundPayment pf i amount reason =
     tryCatch
       (andThen (askStripe (SC_Refund i amount reason) (\<lambda>n. stripe_refund pf n i amount reason)) (\<lambda>(rid, status).
          ret \<lparr>gf_success = (status = ''succeeded''), gf_refundId = rid, gf_errorMessage = None\<rparr>))
       (\<lambda>error. ret \<lparr>gf_success = False, gf_refundId = '''', gf_errorMessage = Some (exn_message error)\<rparr>)"

definition gateway_refund ::
  "platform \<Rightarrow> gateway \<Rightarrow> string \<Rightarrow> int \<Rightarrow> string option \<Rightarrow> (payment_world, RefundResult) prog" where
  "gateway_refund pf g i amount reason =
     (case g of PayPal \<Rightarrow> unsupported ''refundPayment'' | Stripe \<Rightarrow> stripe_refundPayment pf i amount reason)"

definition gateway_verifyWebhook :: "platform \<Rightarrow> gateway \<Rightarrow> string \<Rightarrow> string \<Rightarrow> (payment_world, stripe_event) prog" where
  "gateway_verifyWebhook pf g payload signature =
     (case g of
        PayPal \<Rightarrow> unsupported ''verifyWebhook''
      | Stripe \<Rightarrow>
          if \<not> truthy (webhookSecret pf) then throw (JsError ''STRIPE_WEBHOOK_SECRET is not configured'')
          else case constructEvent pf payload signature (the (webhookSecret pf)) of
            Inl e \<Rightarrow> throw e | Inr event \<Rightarrow> ret event)"

subsection \<open>Idempotency keys\<close>

definition hours24 :: int where
  "hours24 = 24 * 60 * 60 * 1000"

definition find_key :: "string \<Rightarrow> string \<Rightarrow> (payment_world, IdempotencyKey option) prog" where
  "find_key scope key = dbquery (\<lambda>w. find (\<lambda>r. ik_scope r = scope \<and> ik_idempotencyKey r = key) (idempotency w))"

definition put_key :: "IdempotencyKey \<Rightarrow> IdempotencyKey list \<Rightarrow> IdempotencyKey list" where
  "put_key k rows = map (\<lambda>r. if ik_id r = ik_id k then k else r) rows"

definition save_key :: "IdempotencyKey \<Rightarrow> (payment_world, IdempotencyKey) prog" where
  "save_key k = dbcall (\<lambda>w.
     let row = k\<lparr>ik_updatedAt := now w\<rparr> in (Inr row, w\<lparr>idempotency := put_key row (idempotency w)\<rparr>))"

definition new_key :: "string \<Rightarrow> string \<Rightarrow> string \<Rightarrow> int \<Rightarrow> IdempotencyKey" where
  "new_key scope key hash t = \<lparr>ik_id = '''', ik_idempotencyKey = key, ik_scope = scope, ik_requestHash = hash,
     ik_resourceType = None, ik_resourceId = None, ik_status = IK_PROCESSING, ik_responseCode = None,
     ik_responseBody = None, ik_lastError = None, ik_lockedAt = Some t, ik_expiresAt = Some (t + hours24),
     ik_createdAt = t, ik_updatedAt = t\<rparr>"

definition insert_key :: "string \<Rightarrow> string \<Rightarrow> string \<Rightarrow> (payment_world, IdempotencyKey) prog" where
  "insert_key scope key hash = andThen freshUuid (\<lambda>i. dbcall (\<lambda>w.
     if \<not> (length scope \<le> 100 \<and> length key \<le> 255 \<and> length hash \<le> 128) then (Inl invalid_column, w)
     else if \<exists>r\<in>set (idempotency w). ik_scope r = scope \<and> ik_idempotencyKey r = key then (Inl unique_violation, w)
     else let row = (new_key scope key hash (now w))\<lparr>ik_id := i\<rparr>
          in (Inr row, w\<lparr>idempotency := idempotency w @ [row]\<rparr>)))"

text \<open>
  The two services word the conflicts differently: \<open>what\<close> names the request in the first message and
  \<open>who\<close> in the second.
\<close>

definition claim_key ::
  "string \<Rightarrow> string \<Rightarrow> string \<Rightarrow> string \<Rightarrow> string \<Rightarrow> (payment_world, response option \<times> IdempotencyKey) prog" where
  "claim_key what who scope key hash =
     andThen (find_key scope key) (\<lambda>existing.
       case existing of
         None \<Rightarrow> andThen (insert_key scope key hash) (\<lambda>saved. ret (None, saved))
       | Some r \<Rightarrow>
           if ik_requestHash r \<noteq> hash
           then throw (Conflict (''Idempotency key '' @ key @ '' was reused with a different '' @ what))
           else if ik_status r = IK_COMPLETED \<and> ik_responseBody r \<noteq> None then ret (ik_responseBody r, r)
           else if ik_status r = IK_PROCESSING
           then throw (Conflict (who @ '' with idempotency key '' @ key @ '' is already processing''))
           else andThen (save_key r) (\<lambda>saved. ret (None, saved)))"

definition claimIdempotency :: "string \<Rightarrow> string \<Rightarrow> string \<Rightarrow> (payment_world, response option \<times> IdempotencyKey) prog" where
  "claimIdempotency = claim_key ''payload'' ''Request''"

definition completeIdempotency :: "IdempotencyKey \<Rightarrow> response \<Rightarrow> string \<Rightarrow> string \<Rightarrow> (payment_world, unit) prog" where
  "completeIdempotency r body resourceType resourceId =
     andThen (save_key (r\<lparr>ik_status := IK_COMPLETED, ik_resourceType := Some resourceType,
        ik_resourceId := Some resourceId, ik_responseCode := Some 200, ik_responseBody := Some body,
        ik_lastError := None\<rparr>)) (\<lambda>_. ret ())"

definition markIdempotencyAsFailed :: "string \<Rightarrow> string \<Rightarrow> exn \<Rightarrow> (payment_world, unit) prog" where
  "markIdempotencyAsFailed scope key error =
     andThen (find_key scope key) (\<lambda>found.
       case found of
         None \<Rightarrow> ret ()
       | Some r \<Rightarrow> andThen (save_key (r\<lparr>ik_status := IK_FAILED, ik_lastError := Some (exn_message error),
            ik_responseCode := Some 500\<rparr>)) (\<lambda>_. ret ()))"

text \<open>\<open>catch (error) { await this.markIdempotencyAsFailed(scope, key, error); throw error; }\<close>\<close>

definition markingFailure :: "string \<Rightarrow> string \<Rightarrow> (payment_world, 'a) prog \<Rightarrow> (payment_world, 'a) prog" where
  "markingFailure scope key m =
     tryCatch m (\<lambda>error. andThen (markIdempotencyAsFailed scope key error) (\<lambda>_. throw error))"

definition safe_key :: "string option \<Rightarrow> (payment_world, string) prog" where
  "safe_key key = (if truthy key then ret (the key) else freshUuid)"

text \<open>
  A stored response is returned as what the caller expects; the scopes of payments and of refunds are
  disjoint, so the other kind is never found.
\<close>

definition as_payment :: "response \<Rightarrow> (payment_world, Payment) prog" where
  "as_payment body = (case body of RPayment p \<Rightarrow> ret p | RRefund _ \<Rightarrow> throw (JsError ''not a payment''))"

definition as_refund :: "response \<Rightarrow> (payment_world, Refund) prog" where
  "as_refund body = (case body of RRefund r \<Rightarrow> ret r | RPayment _ \<Rightarrow> throw (JsError ''not a refund''))"

subsection \<open>Payment intents\<close>

definition mapGatewayIntentStatus :: "string \<Rightarrow> PaymentState" where
  "mapGatewayIntentStatus status =
     (if status = ''succeeded'' then PY_CONFIRMED
      else if take 9 status = ''requires_'' then PY_REQUIRES_ACTION
      else if status = ''processing'' then PY_PROCESSING
      else PY_PENDING)"

definition intent_metadata :: "CreatePaymentIntentDto \<Rightarrow> (string \<rightharpoonup> jval)" where
  "intent_metadata dto =
     (case ci_metadata dto of None \<Rightarrow> Map.empty | Some m \<Rightarrow> m) ++
     (if truthy (ci_bookingReference dto) then [''bookingReference'' \<mapsto> JStr (the (ci_bookingReference dto))] else Map.empty)"

definition dto_currency :: "CreatePaymentIntentDto \<Rightarrow> string" where
  "dto_currency dto = or_str (ci_currency dto) ''USD''"

text \<open>A missing payment method violates the column's not-null constraint: \<open>create_intent_new\<close> rejects it.\<close>

definition new_payment :: "CreatePaymentIntentDto \<Rightarrow> string \<Rightarrow> gateway \<Rightarrow> PaymentIntent \<Rightarrow> Payment" where
  "new_payment dto safeKey g intent = \<lparr>py_id = '''', py_bookingId = ci_bookingId dto, py_userId = ci_userId dto,
     py_amount = ci_amount dto, py_currency = to_upper (dto_currency dto),
     py_paymentMethod = (case ci_paymentMethod dto of None \<Rightarrow> '''' | Some m \<Rightarrow> method_name m),
     py_gateway = getGatewayName g, py_gatewayPaymentId = gi_gatewayPaymentId intent,
     py_status = mapGatewayIntentStatus (gi_status intent), py_clientSecret = gi_clientSecret intent,
     py_correlationId = Some safeKey, py_failureCode = None, py_failureReason = None, py_confirmedAt = None,
     py_refundedAt = None, py_expiresAt = None,
     py_metadata = (intent_metadata dto)(''gatewayIntentId'' \<mapsto> JStr (gi_id intent)),
     py_version = 0, py_createdAt = 0, py_updatedAt = 0\<rparr>"

definition intent_params :: "CreatePaymentIntentDto \<Rightarrow> CreatePaymentIntentParams" where
  "intent_params dto = \<lparr>gp_bookingId = ci_bookingId dto, gp_userId = ci_userId dto, gp_amount = ci_amount dto,
     gp_currency = dto_currency dto, gp_paymentMethod = ci_paymentMethod dto, gp_metadata = intent_metadata dto\<rparr>"

definition create_intent_new ::
  "platform \<Rightarrow> CreatePaymentIntentDto \<Rightarrow> string \<Rightarrow> gateway \<Rightarrow> IdempotencyKey \<Rightarrow> (payment_world, Payment) prog" where
  "create_intent_new pf dto safeKey g record =
     andThen (gateway_create pf g (intent_params dto)) (\<lambda>intent.
     andThen (if ci_paymentMethod dto = None then throw invalid_column
              else insert_payment (new_payment dto safeKey g intent)) (\<lambda>saved.
     andThen (completeIdempotency record (RPayment saved) ''payment'' (py_id saved)) (\<lambda>_.
     andThen (createAuditLog ''payment'' (py_id saved) INTENT_CREATED (Some (ci_userId dto))
        [(''bookingId'', JNum (ci_bookingId dto)), (''amount'', JNum (ci_amount dto)),
         (''currency'', JStr (dto_currency dto)), (''gateway'', JStr (py_gateway saved)),
         (''idempotencyKey'', JStr safeKey)]) (\<lambda>_.
     andThen (emit ''payment.intent.created''
        ([(''paymentId'', JStr (py_id saved)), (''bookingId'', JNum (py_bookingId saved)),
          (''amount'', JNum (py_amount saved))] @ jopt ''clientSecret'' (py_clientSecret saved))) (\<lambda>_.
     ret saved)))))"

definition create_intent_body ::
  "platform \<Rightarrow> CreatePaymentIntentDto \<Rightarrow> string \<Rightarrow> gateway \<Rightarrow> (payment_world, Payment) prog" where
  "create_intent_body pf dto safeKey g =
     andThen (claimIdempotency ''create_payment_intent'' safeKey (hash_intent pf dto)) (\<lambda>(existing, record).
       case existing of
         Some body \<Rightarrow>
           andThen (as_payment body) (\<lambda>p.
           andThen (createAuditLog ''payment'' (py_id p) IDEMPOTENCY_REPLAYED (Some (ci_userId dto))
              [(''scope'', JStr ''create_payment_intent''), (''idempotencyKey'', JStr safeKey)]) (\<lambda>_. ret p))
       | None \<Rightarrow> create_intent_new pf dto safeKey g record)"

definition createPaymentIntent ::
  "platform \<Rightarrow> CreatePaymentIntentDto \<Rightarrow> string option \<Rightarrow> (payment_world, Payment) prog" where
  "createPaymentIntent pf dto idempotencyKey =
     andThen (safe_key idempotencyKey) (\<lambda>safeKey.
       case resolve pf (ci_paymentMethod dto) (ci_gatewayOverride dto) of
         Inl e \<Rightarrow> throw e
       | Inr g \<Rightarrow> markingFailure ''create_payment_intent'' safeKey
           (payment_tx (create_intent_body pf dto safeKey g)))"

subsection \<open>Confirmation and the ledger\<close>

definition ledger_entry ::
  "LedgerEntryType \<Rightarrow> string \<Rightarrow> LedgerDirection \<Rightarrow> Payment \<Rightarrow> string option \<Rightarrow> int \<Rightarrow> int \<Rightarrow> string \<Rightarrow> string \<Rightarrow> string
     \<Rightarrow> int \<Rightarrow> LedgerEntry" where
  "ledger_entry ty account dir p refundId bookingId amount refType refId descr occurred =
     \<lparr>le_id = '''', le_paymentId = Some (py_id p), le_refundId = refundId, le_bookingId = bookingId,
      le_accountCode = account, le_entryType = ty, le_direction = dir, le_amount = amount,
      le_currency = py_currency p, le_referenceType = refType, le_referenceId = refId,
      le_description = Some descr, le_occurredAt = occurred,
      le_metadata = [(''gateway'', JStr (py_gateway p))], le_createdAt = 0\<rparr>"

definition payment_entries :: "Payment \<Rightarrow> string \<Rightarrow> int \<Rightarrow> LedgerEntry list" where
  "payment_entries p referenceId occurredAt =
     [ledger_entry LE_PAYMENT ''asset:gateway_clearing'' DEBIT p None (py_bookingId p) (py_amount p)
        ''payment'' referenceId ''Customer payment captured'' occurredAt,
      ledger_entry LE_PAYMENT ''liability:customer_funds'' CREDIT p None (py_bookingId p) (py_amount p)
        ''payment'' referenceId ''Customer funds liability recorded'' occurredAt]"

text \<open>\<open>save(entries)\<close>: both rows or none. Identifiers of entries are not looked at by the code.\<close>

definition insert_entries :: "LedgerEntry list \<Rightarrow> (payment_world, unit) prog" where
  "insert_entries es = dbcall (\<lambda>w.
     if \<exists>e\<in>set es. \<not> (int4_ok (le_amount e) \<and> int4_ok (le_bookingId e) \<and> length (le_referenceId e) \<le> 255)
     then (Inl invalid_column, w)
     else (Inr (), w\<lparr>ledger := ledger w @ map (\<lambda>e. e\<lparr>le_createdAt := now w\<rparr>) es\<rparr>))"

definition createPaymentLedgerEntries :: "Payment \<Rightarrow> string \<Rightarrow> (payment_world, unit) prog" where
  "createPaymentLedgerEntries p referenceId =
     andThen (dbquery (\<lambda>w. length (filter (\<lambda>e. le_paymentId e = Some (py_id p) \<and> le_entryType e = LE_PAYMENT) (ledger w))))
       (\<lambda>existing.
         if 0 < existing then ret ()
         else andThen (gets now) (\<lambda>t.
              andThen (insert_entries (payment_entries p referenceId
                (case py_confirmedAt p of None \<Rightarrow> t | Some c \<Rightarrow> c))) (\<lambda>_.
                createAuditLog ''payment'' (py_id p) LEDGER_ENTRY_CREATED (Some (py_userId p))
                  [(''entryType'', JStr ''payment''), (''count'', JNum 2)])))"

definition falsy_null :: "string option \<Rightarrow> string option" where
  "falsy_null x = (if truthy x then x else None)"

definition confirmed_payment :: "Payment \<Rightarrow> PaymentResult \<Rightarrow> int \<Rightarrow> Payment" where
  "confirmed_payment p result t = p\<lparr>py_status := (if gr_success result then PY_CONFIRMED else PY_FAILED),
     py_failureCode := falsy_null (gr_failureCode result),
     py_failureReason := falsy_null (gr_errorMessage result),
     py_confirmedAt := (if gr_success result then Some t else py_confirmedAt p),
     py_metadata := (py_metadata p)(''lastConfirmationResult'' \<mapsto>
       JObj [(''status'', JStr (gr_status result)), (''transactionId'', JStr (gr_transactionId result))])\<rparr>"

definition settled :: "PaymentState \<Rightarrow> bool" where
  "settled s \<longleftrightarrow> s \<in> {PY_CONFIRMED, PY_PARTIALLY_REFUNDED, PY_REFUNDED}"

text \<open>The capture of a payment that is not settled: the saved payment and the gateway's verdict.\<close>

definition capture_payment ::
  "platform \<Rightarrow> string option \<Rightarrow> Payment \<Rightarrow> IdempotencyKey \<Rightarrow> (payment_world, Payment \<times> PaymentResult option) prog" where
  "capture_payment pf gatewayPaymentId p record =
     (case getByName (py_gateway p) of
        Inl e \<Rightarrow> throw e
      | Inr g \<Rightarrow>
          andThen (gateway_capture pf g (or_str gatewayPaymentId (py_gatewayPaymentId p))) (\<lambda>result.
          andThen (gets now) (\<lambda>t.
          andThen (save_payment (confirmed_payment p result t)) (\<lambda>saved.
          andThen (if gr_success result then createPaymentLedgerEntries saved (gr_transactionId result) else ret ()) (\<lambda>_.
          andThen (completeIdempotency record (RPayment saved) ''payment'' (py_id saved)) (\<lambda>_.
          andThen (createAuditLog ''payment'' (py_id saved)
             (if gr_success result then PAYMENT_CAPTURED else PAYMENT_FAILED) (Some (py_userId saved))
             ([(''status'', JStr (gr_status result)), (''gatewayTransactionId'', JStr (gr_transactionId result))] @
              jopt ''failureReason'' (gr_errorMessage result))) (\<lambda>_.
          ret (saved, Some result))))))))"

definition confirm_scope :: "string \<Rightarrow> string" where
  "confirm_scope paymentId = ''confirm_payment:'' @ paymentId"

definition confirm_body ::
  "platform \<Rightarrow> string \<Rightarrow> string option \<Rightarrow> string \<Rightarrow> (payment_world, Payment \<times> PaymentResult option) prog" where
  "confirm_body pf paymentId gatewayPaymentId safeKey =
     andThen (claimIdempotency (confirm_scope paymentId) safeKey (hash_confirm pf paymentId gatewayPaymentId))
       (\<lambda>(existing, record).
         case existing of
           Some body \<Rightarrow> andThen (as_payment body) (\<lambda>p. ret (p, None))
         | None \<Rightarrow>
             andThen (find_payment (\<lambda>p. py_id p = paymentId)) (\<lambda>found.
               case found of
                 None \<Rightarrow> throw (NotFound (''Payment '' @ paymentId @ '' not found''))
               | Some p \<Rightarrow>
                   if settled (py_status p)
                   then andThen (completeIdempotency record (RPayment p) ''payment'' (py_id p)) (\<lambda>_. ret (p, None))
                   else capture_payment pf gatewayPaymentId p record))"

definition getBookingReference :: "Payment \<Rightarrow> string option" where
  "getBookingReference p =
     (case py_metadata p ''bookingReference'' of
        Some (JStr r) \<Rightarrow> (if 0 < length (trim r) then Some r else None)
      | _ \<Rightarrow> None)"

text \<open>The transaction id inside \<open>metadata.lastConfirmationResult\<close>, if it is a string.\<close>

definition lastTransactionId :: "Payment \<Rightarrow> string option" where
  "lastTransactionId p =
     (case py_metadata p ''lastConfirmationResult'' of
        Some (JObj props) \<Rightarrow> (case map_of props ''transactionId'' of Some (JStr t) \<Rightarrow> Some t | _ \<Rightarrow> None)
      | _ \<Rightarrow> None)"

definition completion_message :: "Payment \<Rightarrow> string \<Rightarrow> string option \<Rightarrow> payment_completed" where
  "completion_message p reference tx = \<lparr>pc_paymentId = py_id p, pc_bookingId = py_bookingId p,
     pc_bookingReference = reference, pc_userId = py_userId p, pc_amount = py_amount p,
     pc_currency = py_currency p, pc_gateway = py_gateway p, pc_gatewayPaymentId = py_gatewayPaymentId p,
     pc_gatewayTransactionId = or_opt tx (lastTransactionId p), pc_status = py_status p,
     pc_confirmedAt = py_confirmedAt p\<rparr>"

definition publishPaymentCompletedEvent :: "Payment \<Rightarrow> string option \<Rightarrow> (payment_world, unit) prog" where
  "publishPaymentCompletedEvent p tx =
     (case getBookingReference p of
        None \<Rightarrow> ret ()
      | Some reference \<Rightarrow>
          dbcall (\<lambda>w. (Inr (), w\<lparr>completions := completions w @ [completion_message p reference tx]\<rparr>)))"

definition announce :: "Payment \<Rightarrow> PaymentResult \<Rightarrow> (payment_world, unit) prog" where
  "announce p result =
     andThen (emit (if gr_success result then ''payment.succeeded'' else ''payment.failed'')
        ([(''paymentId'', JStr (py_id p)), (''bookingId'', JNum (py_bookingId p))] @
         jopt ''bookingReference'' (getBookingReference p) @
         [(''amount'', JNum (py_amount p)), (''gatewayTransactionId'', JStr (gr_transactionId result))] @
         jopt ''errorMessage'' (gr_errorMessage result))) (\<lambda>_.
       if gr_success result then publishPaymentCompletedEvent p (Some (gr_transactionId result)) else ret ())"

definition confirmPaymentIntent ::
  "platform \<Rightarrow> string \<Rightarrow> string option \<Rightarrow> string option \<Rightarrow> (payment_world, Payment) prog" where
  "confirmPaymentIntent pf paymentId gatewayPaymentId idempotencyKey =
     andThen (safe_key idempotencyKey) (\<lambda>safeKey.
     andThen (createAuditLog ''payment'' paymentId PAYMENT_CONFIRMATION_REQUESTED None
        [(''idempotencyKey'', JStr safeKey)]) (\<lambda>_.
       markingFailure (confirm_scope paymentId) safeKey
         (andThen (payment_tx (confirm_body pf paymentId gatewayPaymentId safeKey)) (\<lambda>(p, result).
            case result of
              None \<Rightarrow> ret p
            | Some r \<Rightarrow> andThen (announce p r) (\<lambda>_. ret p)))))"

subsection \<open>Payments by their gateway's reference\<close>

definition payment_for_gateway_id :: "string \<Rightarrow> (payment_world, Payment) prog" where
  "payment_for_gateway_id i =
     andThen (find_payment (\<lambda>p. py_gatewayPaymentId p = i)) (\<lambda>found.
       case found of
         None \<Rightarrow> throw (NotFound (''Payment for gateway reference '' @ i @ '' not found''))
       | Some p \<Rightarrow> ret p)"

definition confirmPaymentByGatewayId :: "platform \<Rightarrow> string \<Rightarrow> string option \<Rightarrow> (payment_world, Payment) prog" where
  "confirmPaymentByGatewayId pf i idempotencyKey =
     andThen (payment_for_gateway_id i) (\<lambda>p. confirmPaymentIntent pf (py_id p) (Some i) idempotencyKey)"

definition markPaymentFailedByGatewayId :: "string \<Rightarrow> string option \<Rightarrow> (payment_world, Payment) prog" where
  "markPaymentFailedByGatewayId i reason =
     andThen (payment_for_gateway_id i) (\<lambda>p.
     andThen (save_payment (p\<lparr>py_status := PY_FAILED,
        py_failureReason := Some (or_str reason ''Payment failed according to gateway webhook'')\<rparr>)) (\<lambda>saved.
     andThen (createAuditLog ''payment'' (py_id saved) PAYMENT_FAILED (Some (py_userId saved))
        ([(''source'', JStr ''webhook'')] @ jopt ''failureReason'' reason)) (\<lambda>_.
     ret saved)))"

text \<open>A payment whose refunds add up to its amount is refunded, below that partially refunded.\<close>

definition with_refunds :: "int \<Rightarrow> int \<Rightarrow> Payment \<Rightarrow> Payment" where
  "with_refunds sofar t p =
     p\<lparr>py_status := (if py_amount p \<le> sofar then PY_REFUNDED else PY_PARTIALLY_REFUNDED),
       py_refundedAt := (if py_amount p \<le> sofar then Some t else None)\<rparr>"

definition getPaymentIntent :: "string \<Rightarrow> (payment_world, Payment) prog" where
  "getPaymentIntent i =
     andThen (find_payment (\<lambda>p. py_id p = i)) (\<lambda>found.
       case found of
         None \<Rightarrow> throw (NotFound (''Payment '' @ i @ '' not found''))
       | Some p \<Rightarrow> ret p)"

definition refreshRefundedStatus :: "string \<Rightarrow> (payment_world, Payment) prog" where
  "refreshRefundedStatus paymentId =
     andThen (getPaymentIntent paymentId) (\<lambda>p.
     andThen (refund_total paymentId) (\<lambda>sofar.
       if sofar \<le> 0 then ret p
       else andThen (gets now) (\<lambda>t. save_payment (with_refunds sofar t p))))"

definition refreshRefundedStatusByGatewayId :: "string \<Rightarrow> (payment_world, Payment) prog" where
  "refreshRefundedStatusByGatewayId i =
     andThen (payment_for_gateway_id i) (\<lambda>p. refreshRefundedStatus (py_id p))"

definition getPaymentIntentByBooking :: "int \<Rightarrow> (payment_world, Payment) prog" where
  "getPaymentIntentByBooking bookingId =
     andThen (dbquery (\<lambda>w. case sort_key (\<lambda>p. - py_createdAt p) (filter (\<lambda>p. py_bookingId p = bookingId) (payments w)) of
        [] \<Rightarrow> None | p # _ \<Rightarrow> Some p)) (\<lambda>found.
       case found of
         None \<Rightarrow> throw (NotFound (''Payment for booking '' @ show_int bookingId @ '' not found''))
       | Some p \<Rightarrow> ret p)"

fun entry_type_name :: "LedgerEntryType \<Rightarrow> string" where
  "entry_type_name LE_PAYMENT = ''payment''"
| "entry_type_name LE_REFUND = ''refund''"

definition ledger_match :: "QueryLedgerEntriesDto \<Rightarrow> LedgerEntry \<Rightarrow> bool" where
  "ledger_match q e \<longleftrightarrow>
     (case ql_bookingId q of None \<Rightarrow> True | Some b \<Rightarrow> b = 0 \<or> le_bookingId e = b) \<and>
     (truthy (ql_paymentId q) \<longrightarrow> le_paymentId e = ql_paymentId q) \<and>
     (truthy (ql_entryType q) \<longrightarrow> Some (entry_type_name (le_entryType e)) = ql_entryType q) \<and>
     (case ql_from q of None \<Rightarrow> True | Some t \<Rightarrow> t \<le> le_occurredAt e)"

text \<open>An entry type that is not a value of the enum is an error of the database.\<close>

definition getLedgerEntries :: "QueryLedgerEntriesDto \<Rightarrow> (payment_world, LedgerEntry list) prog" where
  "getLedgerEntries q =
     andThen (dbcall (\<lambda>w.
        if truthy (ql_entryType q) \<and> the (ql_entryType q) \<notin> {''payment'', ''refund''} then (Inl invalid_column, w)
        else (Inr (take (nat (case ql_limit q of None \<Rightarrow> 50 | Some n \<Rightarrow> or_int n 50))
               (sort_key (\<lambda>e. - le_occurredAt e) (sort_key (\<lambda>e. - le_createdAt e) (filter (ledger_match q) (ledger w))))), w)))
       (\<lambda>entries. ret (case ql_to q of None \<Rightarrow> entries | Some t \<Rightarrow> filter (\<lambda>e. le_occurredAt e \<le> t) entries))"

subsection \<open>Refunds\<close>

definition refund_entries :: "Payment \<Rightarrow> Refund \<Rightarrow> int \<Rightarrow> LedgerEntry list" where
  "refund_entries p r t =
     (let reference = or_str (rf_gatewayRefundId r) (rf_id r);
          occurred = (case rf_processedAt r of None \<Rightarrow> t | Some c \<Rightarrow> c)
      in [ledger_entry LE_REFUND ''liability:customer_funds'' DEBIT p (Some (rf_id r)) (rf_bookingId r) (rf_amount r)
            ''refund'' reference ''Customer liability reduced for refund'' occurred,
          ledger_entry LE_REFUND ''asset:gateway_clearing'' CREDIT p (Some (rf_id r)) (rf_bookingId r) (rf_amount r)
            ''refund'' reference ''Cash movement recorded for refund'' occurred])"

definition createRefundLedgerEntries :: "Payment \<Rightarrow> Refund \<Rightarrow> (payment_world, unit) prog" where
  "createRefundLedgerEntries p r =
     andThen (dbquery (\<lambda>w. length (filter (\<lambda>e. le_refundId e = Some (rf_id r) \<and> le_entryType e = LE_REFUND) (ledger w))))
       (\<lambda>existing.
         if 0 < existing then ret ()
         else andThen (gets now) (\<lambda>t.
              andThen (insert_entries (refund_entries p r t)) (\<lambda>_.
                createAuditLog ''refund'' (rf_id r) LEDGER_ENTRY_CREATED (Some (py_userId p))
                  [(''entryType'', JStr ''refund''), (''count'', JNum 2)])))"

definition refund_scope :: "string \<Rightarrow> string" where
  "refund_scope paymentId = ''refund:'' @ paymentId"

definition refundable :: "PaymentState \<Rightarrow> bool" where
  "refundable s \<longleftrightarrow> s \<in> {PY_CONFIRMED, PY_PARTIALLY_REFUNDED}"

definition new_refund :: "CreateRefundDto \<Rightarrow> Payment \<Rightarrow> string \<Rightarrow> RefundResult \<Rightarrow> int \<Rightarrow> Refund" where
  "new_refund dto p safeKey result t = \<lparr>rf_id = '''', rf_paymentId = py_id p, rf_bookingId = cr_bookingId dto,
     rf_amount = cr_amount dto, rf_reason = cr_reason dto, rf_idempotencyKey = Some safeKey,
     rf_status = (if gf_success result then RF_SUCCEEDED else RF_FAILED),
     rf_gatewayRefundId = falsy_null (Some (gf_refundId result)),
     rf_failureReason = falsy_null (gf_errorMessage result),
     rf_processedAt = (if gf_success result then Some t else None), rf_createdAt = 0, rf_updatedAt = 0\<rparr>"

text \<open>Everything the transaction reads before it calls the gateway: the payment and what was refunded.\<close>

definition refund_check :: "CreateRefundDto \<Rightarrow> (payment_world, Payment \<times> int) prog" where
  "refund_check dto =
     andThen (getPaymentIntent (cr_paymentId dto)) (\<lambda>p.
       if \<not> refundable (py_status p)
       then throw (BadRequest (''Payment '' @ py_id p @ '' is not in a refundable state''))
       else andThen (refund_total (py_id p)) (\<lambda>alreadyRefunded.
         let refundableAmount = py_amount p - alreadyRefunded
         in if refundableAmount < cr_amount dto
            then throw (BadRequest (''Refund amount ('' @ show_int (cr_amount dto) @ '') exceeds refundable balance ('' @
                   show_int refundableAmount @ '')''))
            else ret (p, alreadyRefunded)))"

definition complete_refund_key :: "IdempotencyKey \<Rightarrow> Refund \<Rightarrow> RefundResult \<Rightarrow> (payment_world, unit) prog" where
  "complete_refund_key r saved result =
     andThen (save_key (r\<lparr>ik_status := IK_COMPLETED, ik_resourceType := Some ''refund'',
        ik_resourceId := Some (rf_id saved), ik_responseCode := Some (if gf_success result then 200 else 422),
        ik_responseBody := Some (RRefund saved), ik_lastError := falsy_null (gf_errorMessage result)\<rparr>)) (\<lambda>_. ret ())"

definition refund_pay ::
  "platform \<Rightarrow> CreateRefundDto \<Rightarrow> string \<Rightarrow> IdempotencyKey \<Rightarrow> Payment \<Rightarrow> int \<Rightarrow> (payment_world, Refund) prog" where
  "refund_pay pf dto safeKey record p alreadyRefunded =
     (case getByName (py_gateway p) of
        Inl e \<Rightarrow> throw e
      | Inr g \<Rightarrow>
          andThen (gateway_refund pf g (py_gatewayPaymentId p) (cr_amount dto) (cr_reason dto)) (\<lambda>result.
          andThen (gets now) (\<lambda>t.
          andThen (insert_refund (new_refund dto p safeKey result t)) (\<lambda>saved.
          andThen (if gf_success result
                   then andThen (save_payment (with_refunds (alreadyRefunded + cr_amount dto) t p)) (\<lambda>paid.
                          createRefundLedgerEntries paid saved)
                   else ret ()) (\<lambda>_.
          andThen (complete_refund_key record saved result) (\<lambda>_.
          andThen (createAuditLog ''refund'' (rf_id saved) (if gf_success result then REFUND_PROCESSED else REFUND_CREATED)
             (Some (py_userId p))
             ([(''paymentId'', JStr (py_id p)), (''amount'', JNum (cr_amount dto))] @ jopt ''reason'' (cr_reason dto) @
              [(''idempotencyKey'', JStr safeKey)])) (\<lambda>_.
          andThen (if gf_success result
                   then emit ''payment.refunded'' [(''refundId'', JStr (rf_id saved)), (''paymentId'', JStr (py_id p)),
                          (''bookingId'', JNum (cr_bookingId dto)), (''amount'', JNum (cr_amount dto))]
                   else ret ()) (\<lambda>_.
          ret saved))))))))"

definition create_refund_body :: "platform \<Rightarrow> CreateRefundDto \<Rightarrow> string \<Rightarrow> (payment_world, Refund) prog" where
  "create_refund_body pf dto safeKey =
     andThen (claim_key ''refund request'' ''Refund request'' (refund_scope (cr_paymentId dto)) safeKey (hash_refund pf dto))
       (\<lambda>(existing, record).
         case existing of
           Some body \<Rightarrow> as_refund body
         | None \<Rightarrow> andThen (refund_check dto) (\<lambda>(p, alreadyRefunded). refund_pay pf dto safeKey record p alreadyRefunded))"

definition createRefund :: "platform \<Rightarrow> CreateRefundDto \<Rightarrow> string option \<Rightarrow> (payment_world, Refund) prog" where
  "createRefund pf dto idempotencyKey =
     andThen (safe_key idempotencyKey) (\<lambda>safeKey.
       markingFailure (refund_scope (cr_paymentId dto)) safeKey (payment_tx (create_refund_body pf dto safeKey)))"

definition getRefundsByBooking :: "int \<Rightarrow> (payment_world, Refund list) prog" where
  "getRefundsByBooking bookingId =
     dbquery (\<lambda>w. sort_key (\<lambda>r. - rf_createdAt r) (filter (\<lambda>r. rf_bookingId r = bookingId) (refunds w)))"

subsection \<open>Webhooks\<close>

definition put_webhook :: "WebhookEventEntity \<Rightarrow> WebhookEventEntity list \<Rightarrow> WebhookEventEntity list" where
  "put_webhook e rows = map (\<lambda>r. if wh_id r = wh_id e then e else r) rows"

definition save_webhook :: "WebhookEventEntity \<Rightarrow> (payment_world, unit) prog" where
  "save_webhook e = dbcall (\<lambda>w. (Inr (), w\<lparr>webhooks := put_webhook (e\<lparr>wh_updatedAt := now w\<rparr>) (webhooks w)\<rparr>))"

definition new_webhook :: "string \<Rightarrow> stripe_event \<Rightarrow> string \<Rightarrow> int \<Rightarrow> WebhookEventEntity" where
  "new_webhook gatewayName event hash t = \<lparr>wh_id = '''', wh_gateway = gatewayName, wh_eventId = se_id event,
     wh_eventType = se_type event, wh_status = WH_RECEIVED, wh_gatewayPaymentId = se_objectId event,
     wh_payloadHash = Some hash, wh_lastError = None, wh_receivedAt = t, wh_processedAt = None,
     wh_createdAt = t, wh_updatedAt = t\<rparr>"

definition insert_webhook :: "WebhookEventEntity \<Rightarrow> (payment_world, WebhookEventEntity) prog" where
  "insert_webhook e = andThen freshUuid (\<lambda>i. dbcall (\<lambda>w.
     if \<not> (length (wh_eventId e) \<le> 255 \<and> length (wh_eventType e) \<le> 100 \<and> varchar_ok 255 (wh_gatewayPaymentId e))
     then (Inl invalid_column, w)
     else if \<exists>r\<in>set (webhooks w). wh_gateway r = wh_gateway e \<and> wh_eventId r = wh_eventId e
     then (Inl unique_violation, w)
     else let row = e\<lparr>wh_id := i\<rparr> in (Inr row, w\<lparr>webhooks := webhooks w @ [row]\<rparr>)))"

definition webhook_changes :: "string \<Rightarrow> stripe_event \<Rightarrow> (string \<times> jval) list" where
  "webhook_changes gatewayName event =
     [(''gateway'', JStr gatewayName), (''eventId'', JStr (se_id event)), (''eventType'', JStr (se_type event))]"

definition record_webhook :: "string \<Rightarrow> stripe_event \<Rightarrow> string \<Rightarrow> (payment_world, WebhookEventEntity) prog" where
  "record_webhook gatewayName event hash =
     andThen (dbquery (\<lambda>w. find (\<lambda>r. wh_gateway r = gatewayName \<and> wh_eventId r = se_id event) (webhooks w))) (\<lambda>existing.
       case existing of
         Some r \<Rightarrow> andThen (createAuditLog ''webhook'' (wh_id r) WEBHOOK_DEDUPED None (webhook_changes gatewayName event)) (\<lambda>_. ret r)
       | None \<Rightarrow>
           andThen (gets now) (\<lambda>t.
           andThen (insert_webhook (new_webhook gatewayName event hash t)) (\<lambda>saved.
           andThen (createAuditLog ''webhook'' (wh_id saved) WEBHOOK_RECEIVED None (webhook_changes gatewayName event)) (\<lambda>_.
           ret saved))))"

definition processWebhookEvent :: "platform \<Rightarrow> string \<Rightarrow> stripe_event \<Rightarrow> (payment_world, unit) prog" where
  "processWebhookEvent pf gatewayName event =
     (if \<not> truthy (se_objectId event) then ret ()
      else let i = the (se_objectId event)
           in if se_type event \<in> {''payment_intent.succeeded'', ''checkout.order.approved''}
              then andThen (confirmPaymentByGatewayId pf i (Some (''webhook:'' @ gatewayName @ '':'' @ se_id event))) (\<lambda>_. ret ())
              else if se_type event \<in> {''payment_intent.payment_failed'', ''checkout.order.failed''}
              then andThen (markPaymentFailedByGatewayId i
                     (Some (or_str (se_errorMessage event) ''Payment failed according to webhook event''))) (\<lambda>_. ret ())
              else if se_type event \<in> {''charge.refunded'', ''payment.refunded''}
              then andThen (refreshRefundedStatusByGatewayId i) (\<lambda>_. ret ())
              else ret ())"

definition webhook_body :: "platform \<Rightarrow> string \<Rightarrow> string \<Rightarrow> string \<Rightarrow> (payment_world, unit) prog" where
  "webhook_body pf gatewayName payload signature =
     (case getByName gatewayName of
        Inl e \<Rightarrow> throw e
      | Inr g \<Rightarrow>
          andThen (gateway_verifyWebhook pf g payload signature) (\<lambda>event.
          andThen (payment_tx (record_webhook gatewayName event (hash_text pf payload))) (\<lambda>row.
            if wh_status row = WH_PROCESSED then ret ()
            else andThen (processWebhookEvent pf gatewayName event) (\<lambda>_.
                 andThen (gets now) (\<lambda>t.
                 andThen (save_webhook (row\<lparr>wh_status := WH_PROCESSED, wh_processedAt := Some t, wh_lastError := None\<rparr>)) (\<lambda>_.
                   createAuditLog ''webhook'' (wh_id row) WEBHOOK_PROCESSED None (webhook_changes gatewayName event)))))))"

definition handleWebhook :: "platform \<Rightarrow> string \<Rightarrow> string \<Rightarrow> string \<Rightarrow> (payment_world, unit) prog" where
  "handleWebhook pf gatewayName payload signature =
     tryCatch (webhook_body pf gatewayName payload signature) (\<lambda>_. throw (BadRequest ''Webhook verification failed''))"

subsection \<open>Handlers\<close>

text \<open>The webhook endpoints reject a request without the gateway's signature header.\<close>

definition handleStripeWebhook :: "platform \<Rightarrow> string \<Rightarrow> string option \<Rightarrow> (payment_world, unit) prog" where
  "handleStripeWebhook pf payload signature =
     (if \<not> truthy signature then throw (BadRequest ''Missing stripe-signature header'')
      else handleWebhook pf ''stripe'' payload (the signature))"

definition handlePayPalWebhook :: "platform \<Rightarrow> string \<Rightarrow> string option \<Rightarrow> (payment_world, unit) prog" where
  "handlePayPalWebhook pf payload signature =
     (if \<not> truthy signature then throw (BadRequest ''Missing paypal-transmission-sig header'')
      else handleWebhook pf ''paypal'' payload (the signature))"

datatype payment_op =
  CreateIntent CreatePaymentIntentDto "string option"
| ConfirmIntent string "string option" "string option"
| GetIntent string
| GetIntentByBooking int
| GetLedger QueryLedgerEntriesDto
| RequestRefund CreateRefundDto "string option"
| GetRefunds int
| StripeWebhook string "string option"
| PayPalWebhook string "string option"
| PaymentTick int "bool list"

definition payment_exec :: "platform \<Rightarrow> payment_world \<Rightarrow> payment_op \<Rightarrow> payment_world" where
  "payment_exec pf w x =
     (case x of
        CreateIntent dto key \<Rightarrow> snd (createPaymentIntent pf dto key w)
      | ConfirmIntent i g key \<Rightarrow> snd (confirmPaymentIntent pf i g key w)
      | GetIntent i \<Rightarrow> snd (getPaymentIntent i w)
      | GetIntentByBooking b \<Rightarrow> snd (getPaymentIntentByBooking b w)
      | GetLedger q \<Rightarrow> snd (getLedgerEntries q w)
      | RequestRefund dto key \<Rightarrow> snd (createRefund pf dto key w)
      | GetRefunds b \<Rightarrow> snd (getRefundsByBooking b w)
      | StripeWebhook payload s \<Rightarrow> snd (handleStripeWebhook pf payload s w)
      | PayPalWebhook payload s \<Rightarrow> snd (handlePayPalWebhook pf payload s w)
      | PaymentTick t fs \<Rightarrow> w\<lparr>now := max t (now w), faults := fs\<rparr>)"

end
