(* ===== verification/PaymentProps.thy ===== *)
theory PaymentProps
  imports PaymentService
begin

text \<open>
  What the payment service guarantees: the ledger agrees with the payments and the refunds, refunds
  stay within the payment, requests repeated with their idempotency key are answered from the stored
  response, webhooks delivered again change nothing; and where it fails to.
\<close>

subsection \<open>What the operations leave alone\<close>

named_theorems frame
named_theorems mono

text \<open>Payments, refunds and ledger are equal, and no identifier is handed out twice.\<close>

definition same_books :: "payment_world \<Rightarrow> payment_world \<Rightarrow> bool" where
  "same_books w v \<longleftrightarrow> payments v = payments w \<and> refunds v = refunds w \<and> ledger v = ledger w \<and>
     uuidSrc v = uuidSrc w \<and> uuidCtr w \<le> uuidCtr v"

definition ids_later :: "payment_world \<Rightarrow> payment_world \<Rightarrow> bool" where
  "ids_later w v \<longleftrightarrow> uuidSrc v = uuidSrc w \<and> uuidCtr w \<le> uuidCtr v"

interpretation books: world_relation same_books
  by unfold_locales (auto simp: same_books_def)

interpretation ids: world_relation ids_later
  by unfold_locales (auto simp: ids_later_def)

lemmas books_intro = books.stays_intros
lemmas ids_intro = ids.stays_intros

lemma same_books_later: "same_books w v \<Longrightarrow> ids_later w v"
  by (simp add: same_books_def ids_later_def)

lemma frame_mono: "stays same_books m \<Longrightarrow> stays ids_later m"
  using stays_mono same_books_later by blast

lemma frame_dbcall: "(\<And>w. same_books w (snd (f w))) \<Longrightarrow> stays same_books (dbcall f)"
proof (rule staysI)
  fix w
  assume "\<And>w. same_books w (snd (f w))"
  from this [of "w\<lparr>faults := tl (faults w)\<rparr>"] show "same_books w (snd (dbcall f w))"
    by (simp add: dbcall_eq same_books_def)
qed

lemma mono_dbcall: "(\<And>w. ids_later w (snd (f w))) \<Longrightarrow> stays ids_later (dbcall f)"
proof (rule staysI)
  fix w
  assume "\<And>w. ids_later w (snd (f w))"
  from this [of "w\<lparr>faults := tl (faults w)\<rparr>"] show "ids_later w (snd (dbcall f w))"
    by (simp add: dbcall_eq ids_later_def)
qed

lemma frame_dbquery [frame]: "stays same_books (dbquery f)"
  unfolding dbquery_def by (rule frame_dbcall) (simp add: same_books_def)

lemma frame_freshUuid [frame]: "stays same_books freshUuid"
  by (simp add: stays_def freshUuid_def same_books_def)

lemma frame_find_payment [frame]: "stays same_books (find_payment p)"
  unfolding find_payment_def by (rule frame_dbquery)

lemma frame_refund_total [frame]: "stays same_books (refund_total i)"
  unfolding refund_total_def by (rule frame_dbquery)

lemma frame_emit [frame]: "stays same_books (emit n d)"
  by (simp add: stays_def emit_def modify_def same_books_def)

lemma frame_createAuditLog [frame]: "stays same_books (createAuditLog a b c d e)"
  unfolding createAuditLog_def by (intro books_intro frame_dbcall) (simp add: same_books_def)

lemma frame_askStripe [frame]: "stays same_books (askStripe c f)"
  by (simp add: stays_def askStripe_def same_books_def)

lemma frame_unsupported [frame]: "stays same_books (unsupported x)"
  unfolding unsupported_def by (rule books_intro)

lemma frame_create [frame]: "stays same_books (gateway_create pf g params)"
  by (cases g) (auto simp: gateway_create_def intro!: books_intro frame)

lemma frame_capture [frame]: "stays same_books (gateway_capture pf g i)"
  by (cases g) (auto simp: gateway_capture_def stripe_capturePayment_def Let_def intro!: books_intro frame)

lemma frame_refund [frame]: "stays same_books (gateway_refund pf g i amount reason)"
  by (cases g) (auto simp: gateway_refund_def stripe_refundPayment_def intro!: books_intro frame)

lemma frame_verify [frame]: "stays same_books (gateway_verifyWebhook pf g x y)"
  by (cases g) (auto simp: gateway_verifyWebhook_def intro!: books_intro frame)

lemma frame_find_key [frame]: "stays same_books (find_key s k)"
  unfolding find_key_def by (rule frame_dbquery)

lemma frame_save_key [frame]: "stays same_books (save_key k)"
  unfolding save_key_def by (rule frame_dbcall) (simp add: same_books_def Let_def)

lemma frame_insert_key [frame]: "stays same_books (insert_key s k h)"
  unfolding insert_key_def by (intro books_intro frame frame_dbcall) (simp add: same_books_def Let_def)

lemma frame_claim [frame]: "stays same_books (claim_key a b s k h)"
  unfolding claim_key_def by (intro books_intro frame)

lemma frame_claimIdempotency [frame]: "stays same_books (claimIdempotency s k h)"
  unfolding claimIdempotency_def by (rule frame)

lemma frame_completeIdempotency [frame]: "stays same_books (completeIdempotency r b t i)"
  unfolding completeIdempotency_def by (intro books_intro frame)

lemma frame_complete_refund_key [frame]: "stays same_books (complete_refund_key r s x)"
  unfolding complete_refund_key_def by (intro books_intro frame)

lemma frame_markFailed [frame]: "stays same_books (markIdempotencyAsFailed s k e)"
  unfolding markIdempotencyAsFailed_def by (intro books_intro frame)

lemma frame_safe_key [frame]: "stays same_books (safe_key k)"
  unfolding safe_key_def by (intro books_intro frame)

lemma frame_as_payment [frame]: "stays same_books (as_payment b)"
  by (cases b) (auto simp: as_payment_def intro: books_intro)

lemma frame_as_refund [frame]: "stays same_books (as_refund b)"
  by (cases b) (auto simp: as_refund_def intro: books_intro)

lemma frame_publish [frame]: "stays same_books (publishPaymentCompletedEvent p tx)"
  unfolding publishPaymentCompletedEvent_def by (intro books_intro frame_dbcall) (simp add: same_books_def)

lemma frame_announce [frame]: "stays same_books (announce p r)"
  unfolding announce_def by (intro books_intro frame)

lemma frame_for_gateway_id [frame]: "stays same_books (payment_for_gateway_id i)"
  unfolding payment_for_gateway_id_def by (intro books_intro frame)

lemma frame_getPaymentIntent [frame]: "stays same_books (getPaymentIntent i)"
  unfolding getPaymentIntent_def by (intro books_intro frame)

lemma frame_byBooking [frame]: "stays same_books (getPaymentIntentByBooking b)"
  unfolding getPaymentIntentByBooking_def by (intro books_intro frame)

lemma frame_getLedger [frame]: "stays same_books (getLedgerEntries q)"
  unfolding getLedgerEntries_def by (intro books_intro frame_dbcall) (simp add: same_books_def)

lemma frame_getRefunds [frame]: "stays same_books (getRefundsByBooking b)"
  unfolding getRefundsByBooking_def by (rule frame)

lemma frame_refund_check [frame]: "stays same_books (refund_check dto)"
  unfolding refund_check_def Let_def by (intro books_intro frame)

lemma frame_save_webhook [frame]: "stays same_books (save_webhook e)"
  unfolding save_webhook_def by (rule frame_dbcall) (simp add: same_books_def)

lemma frame_insert_webhook [frame]: "stays same_books (insert_webhook e)"
  unfolding insert_webhook_def by (intro books_intro frame frame_dbcall) (simp add: same_books_def Let_def)

lemma frame_record_webhook [frame]: "stays same_books (record_webhook g e h)"
  unfolding record_webhook_def by (intro books_intro frame)

text \<open>The writes to the three tables, and the methods with writes, still hand out identifiers in order.\<close>

lemma mono_insert_payment [mono]: "stays ids_later (insert_payment p)"
  unfolding insert_payment_def
  by (intro ids_intro mono_dbcall frame_mono [OF frame_freshUuid]) (simp add: ids_later_def Let_def)

lemma mono_save_payment [mono]: "stays ids_later (save_payment p)"
  unfolding save_payment_def by (rule mono_dbcall) (simp add: ids_later_def Let_def)

lemma mono_insert_refund [mono]: "stays ids_later (insert_refund r)"
  unfolding insert_refund_def
  by (intro ids_intro mono_dbcall frame_mono [OF frame_freshUuid]) (simp add: ids_later_def Let_def)

lemma mono_insert_entries [mono]: "stays ids_later (insert_entries es)"
  unfolding insert_entries_def by (rule mono_dbcall) (simp add: ids_later_def)

lemma mono_payment_ledger [mono]: "stays ids_later (createPaymentLedgerEntries p x)"
  unfolding createPaymentLedgerEntries_def by (intro ids_intro mono frame frame_mono)

lemma mono_refund_ledger [mono]: "stays ids_later (createRefundLedgerEntries p r)"
  unfolding createRefundLedgerEntries_def by (intro ids_intro mono frame frame_mono)

lemma mono_create_body [mono]: "stays ids_later (create_intent_body pf dto k g)"
  unfolding create_intent_body_def create_intent_new_def by (intro ids_intro mono frame frame_mono)

lemma mono_confirm_body [mono]: "stays ids_later (confirm_body pf i g k)"
  unfolding confirm_body_def capture_payment_def by (intro ids_intro mono frame frame_mono)

lemma mono_refund_body [mono]: "stays ids_later (create_refund_body pf dto k)"
  unfolding create_refund_body_def refund_pay_def by (intro ids_intro mono frame frame_mono)

subsection \<open>The books\<close>

text \<open>
  The amounts booked for a payment, per type and direction of the entries. \<open>books\<close> relates the
  identifiers and amounts of the payments, the refunds and the ledger: every refund debits and credits
  the amount refunded, and a payment is booked not at all or once on either side, with its amount.
\<close>

definition booked :: "string \<Rightarrow> LedgerEntryType \<Rightarrow> LedgerDirection \<Rightarrow> LedgerEntry list \<Rightarrow> int list" where
  "booked pid ty dir es =
     map le_amount (filter (\<lambda>e. le_paymentId e = Some pid \<and> le_entryType e = ty \<and> le_direction e = dir) es)"

definition balanced :: "string \<Rightarrow> int \<Rightarrow> Refund list \<Rightarrow> LedgerEntry list \<Rightarrow> bool" where
  "balanced pid amount rs es \<longleftrightarrow>
     (\<forall>dir. sum_list (booked pid LE_REFUND dir es) = refunded pid rs) \<and>
     ((\<forall>dir. booked pid LE_PAYMENT dir es = []) \<or> (\<forall>dir. booked pid LE_PAYMENT dir es = [amount]))"

definition ids_ok :: "(nat \<Rightarrow> string) \<Rightarrow> nat \<Rightarrow> (string \<times> int) list \<Rightarrow> Refund list \<Rightarrow> bool" where
  "ids_ok src n ks rs \<longleftrightarrow>
     inj src \<and> distinct (map fst ks) \<and> set (map fst ks) \<union> set (map rf_id rs) \<subseteq> src ` {..<n}"

definition refs_ok :: "(string \<times> int) list \<Rightarrow> Refund list \<Rightarrow> LedgerEntry list \<Rightarrow> bool" where
  "refs_ok ks rs es \<longleftrightarrow>
     set (map rf_paymentId rs) \<subseteq> set (map fst ks) \<and>
     (\<forall>e\<in>set es. le_paymentId e \<in> Some ` set (map fst ks) \<and>
        (le_entryType e = LE_REFUND \<longrightarrow> le_refundId e \<in> Some ` set (map rf_id rs)))"

definition amounts_ok :: "(string \<times> int) list \<Rightarrow> Refund list \<Rightarrow> LedgerEntry list \<Rightarrow> bool" where
  "amounts_ok ks rs es \<longleftrightarrow>
     (\<forall>(pid, amount)\<in>set ks. refunded pid rs \<le> max 0 amount \<and> balanced pid amount rs es)"

definition books :: "(nat \<Rightarrow> string) \<Rightarrow> nat \<Rightarrow> (string \<times> int) list \<Rightarrow> Refund list \<Rightarrow> LedgerEntry list \<Rightarrow> bool" where
  "books src n ks rs es \<longleftrightarrow> ids_ok src n ks rs \<and> refs_ok ks rs es \<and> amounts_ok ks rs es"

definition keys :: "payment_world \<Rightarrow> (string \<times> int) list" where
  "keys w = map (\<lambda>p. (py_id p, py_amount p)) (payments w)"

definition books_ok :: "payment_world \<Rightarrow> bool" where
  "books_ok w = books (uuidSrc w) (uuidCtr w) (keys w) (refunds w) (ledger w)"

lemma booked_append [simp]: "booked pid ty dir (es @ es') = booked pid ty dir es @ booked pid ty dir es'"
  by (simp add: booked_def)

lemma refunded_append [simp]: "refunded pid (rs @ rs') = refunded pid rs + refunded pid rs'"
  by (simp add: refunded_def)

lemma books_later: "books src n ks rs es \<Longrightarrow> n \<le> m \<Longrightarrow> books src m ks rs es"
  by (force simp: books_def ids_ok_def)

lemma fresh_not_used:
  assumes "ids_ok src n ks rs"
  shows "src n \<notin> set (map fst ks) \<union> set (map rf_id rs)"
proof -
  from assms have "inj src" and sub: "set (map fst ks) \<union> set (map rf_id rs) \<subseteq> src ` {..<n}"
    by (simp_all only: ids_ok_def)
  then have "src n \<notin> src ` {..<n}" by (simp add: inj_image_mem_iff)
  with sub show ?thesis by blast
qed

lemma nothing_refunded: "pid \<notin> set (map rf_paymentId rs) \<Longrightarrow> refunded pid rs = 0"
  by (induction rs) (auto simp: refunded_def)

lemma nothing_booked: "Some pid \<notin> le_paymentId ` set es \<Longrightarrow> booked pid ty dir es = []"
  by (auto simp: booked_def filter_empty_conv image_iff)

lemma books_new_payment:
  assumes b: "books src n ks rs es"
  shows "books src (Suc n) (ks @ [(src n, amount)]) rs es"
proof -
  have i: "ids_ok src n ks rs" and r: "refs_ok ks rs es" and a: "amounts_ok ks rs es"
    using b by (simp_all add: books_def)
  have new: "src n \<notin> set (map fst ks)" using fresh_not_used [OF i] by simp
  have "src n \<notin> set (map rf_paymentId rs)" using r new by (auto simp: refs_ok_def)
  moreover have "le_paymentId ` set es \<subseteq> Some ` set (map fst ks)"
    using r unfolding refs_ok_def by blast
  then have "Some (src n) \<notin> le_paymentId ` set es"
    using new by (metis (no_types, lifting) imageE option.inject subsetD)
  ultimately have "refunded (src n) rs \<le> max 0 amount \<and> balanced (src n) amount rs es"
    by (simp add: nothing_refunded nothing_booked balanced_def)
  then have "amounts_ok (ks @ [(src n, amount)]) rs es"
    using a by (simp add: amounts_ok_def)
  moreover have "ids_ok src (Suc n) (ks @ [(src n, amount)]) rs"
    using i new by (simp add: ids_ok_def lessThan_Suc subset_insertI2)
  moreover have "refs_ok (ks @ [(src n, amount)]) rs es"
    using r by (auto simp: refs_ok_def)
  ultimately show ?thesis by (simp add: books_def)
qed

text \<open>The two entries of a pair, one on each side, add the amount to both.\<close>

definition pair :: "string \<Rightarrow> LedgerEntryType \<Rightarrow> int \<Rightarrow> LedgerEntry list \<Rightarrow> bool" where
  "pair pid ty amount es \<longleftrightarrow>
     (\<forall>pid' ty' dir. booked pid' ty' dir es = (if pid' = pid \<and> ty' = ty then [amount] else []))"

lemma payment_pair: "pair (py_id p) LE_PAYMENT (py_amount p) (map (\<lambda>e. e\<lparr>le_createdAt := c\<rparr>) (payment_entries p ref t))"
  unfolding pair_def
proof (intro allI)
  fix pid ty dir
  show "booked pid ty dir (map (\<lambda>e. e\<lparr>le_createdAt := c\<rparr>) (payment_entries p ref t)) =
      (if pid = py_id p \<and> ty = LE_PAYMENT then [py_amount p] else [])"
    by (cases dir; cases ty) (auto simp: booked_def payment_entries_def ledger_entry_def)
qed

lemma refund_pair: "pair (py_id p) LE_REFUND (rf_amount r) (map (\<lambda>e. e\<lparr>le_createdAt := c\<rparr>) (refund_entries p r t))"
  unfolding pair_def
proof (intro allI)
  fix pid ty dir
  show "booked pid ty dir (map (\<lambda>e. e\<lparr>le_createdAt := c\<rparr>) (refund_entries p r t)) =
      (if pid = py_id p \<and> ty = LE_REFUND then [rf_amount r] else [])"
    by (cases dir; cases ty) (auto simp: booked_def refund_entries_def ledger_entry_def Let_def)
qed

lemma payment_entry:
  "e \<in> set (map (\<lambda>e. e\<lparr>le_createdAt := c\<rparr>) (payment_entries p ref t)) \<Longrightarrow>
     le_paymentId e = Some (py_id p) \<and> le_entryType e = LE_PAYMENT"
  by (auto simp: payment_entries_def ledger_entry_def)

lemma refund_entry:
  "e \<in> set (map (\<lambda>e. e\<lparr>le_createdAt := c\<rparr>) (refund_entries p r t)) \<Longrightarrow>
     le_paymentId e = Some (py_id p) \<and> le_refundId e = Some (rf_id r)"
  by (auto simp: refund_entries_def ledger_entry_def Let_def)

lemma refs_more:
  "refs_ok ks rs es \<Longrightarrow> set (map rf_paymentId rs') \<subseteq> set (map fst ks) \<Longrightarrow>
   (\<And>e. e \<in> set es' \<Longrightarrow> le_paymentId e \<in> Some ` set (map fst ks) \<and>
      (le_entryType e = LE_REFUND \<longrightarrow> le_refundId e \<in> Some ` set (map rf_id (rs @ rs')))) \<Longrightarrow>
   refs_ok ks (rs @ rs') (es @ es')"
  unfolding refs_ok_def map_append set_append ball_Un by blast

lemma books_pay:
  assumes b: "books src n ks rs es" and p: "(py_id p, py_amount p) \<in> set ks"
    and none: "filter (\<lambda>e. le_paymentId e = Some (py_id p) \<and> le_entryType e = LE_PAYMENT) es = []"
  shows "books src n ks rs (es @ map (\<lambda>e. e\<lparr>le_createdAt := c\<rparr>) (payment_entries p ref t))"
proof -
  let ?new = "map (\<lambda>e. e\<lparr>le_createdAt := c\<rparr>) (payment_entries p ref t)"
  have i: "ids_ok src n ks rs" and r: "refs_ok ks rs es" and a: "amounts_ok ks rs es"
    using b by (simp_all add: books_def)
  have one: "\<And>dir. booked (py_id p) LE_PAYMENT dir es = []"
    using none by (auto simp: booked_def filter_empty_conv)
  have same: "\<And>x. (py_id p, x) \<in> set ks \<Longrightarrow> x = py_amount p"
    using i p by (auto simp: ids_ok_def dest: eq_key_imp_eq_value)
  have in_ks: "py_id p \<in> set (map fst ks)" using p by force
  have "refs_ok ks (rs @ []) (es @ ?new)"
    using in_ks by (intro refs_more [OF r]) (auto dest: payment_entry simp del: set_map)
  moreover have "amounts_ok ks rs (es @ ?new)"
    unfolding amounts_ok_def
  proof (intro ballI, clarify)
    fix pid amount
    assume "(pid, amount) \<in> set ks"
    then show "refunded pid rs \<le> max 0 amount \<and> balanced pid amount rs (es @ ?new)"
      using a same one payment_pair [of p c ref t]
      by (cases "pid = py_id p") (auto simp: amounts_ok_def balanced_def pair_def)
  qed
  ultimately show ?thesis using i by (simp add: books_def)
qed

lemma ids_new_refund: "ids_ok src n ks rs \<Longrightarrow> rf_id r = src n \<Longrightarrow> ids_ok src (Suc n) ks (rs @ [r])"
  by (simp add: ids_ok_def lessThan_Suc subset_insertI2)

lemma books_refund_failed:
  assumes b: "books src n ks rs es" and p: "(py_id p, amount) \<in> set ks"
    and r: "rf_id r = src n" "rf_paymentId r = py_id p" "rf_status r \<noteq> RF_SUCCEEDED"
  shows "books src (Suc n) ks (rs @ [r]) es"
proof -
  have i: "ids_ok src n ks rs" and f: "refs_ok ks rs es" and a: "amounts_ok ks rs es"
    using b by (simp_all add: books_def)
  have in_ks: "py_id p \<in> set (map fst ks)" using p by force
  have "refs_ok ks (rs @ [r]) (es @ [])"
    using in_ks r by (intro refs_more [OF f]) auto
  moreover have "\<And>pid. refunded pid (rs @ [r]) = refunded pid rs" using r by (simp add: refunded_def)
  then have "amounts_ok ks (rs @ [r]) es" using a by (simp add: amounts_ok_def balanced_def)
  ultimately show ?thesis using ids_new_refund [OF i, of r] r by (simp add: books_def)
qed

lemma books_refund:
  assumes b: "books src n ks rs es" and p: "(py_id p, py_amount p) \<in> set ks"
    and r: "rf_id r = src n" "rf_paymentId r = py_id p" "rf_status r = RF_SUCCEEDED"
    and le: "rf_amount r \<le> py_amount p - refunded (py_id p) rs"
  shows "books src (Suc n) ks (rs @ [r]) (es @ map (\<lambda>e. e\<lparr>le_createdAt := c\<rparr>) (refund_entries p r t))"
proof -
  let ?new = "map (\<lambda>e. e\<lparr>le_createdAt := c\<rparr>) (refund_entries p r t)"
  have i: "ids_ok src n ks rs" and f: "refs_ok ks rs es" and a: "amounts_ok ks rs es"
    using b by (simp_all add: books_def)
  have same: "\<And>x. (py_id p, x) \<in> set ks \<Longrightarrow> x = py_amount p"
    using i p by (auto simp: ids_ok_def dest: eq_key_imp_eq_value)
  have in_ks: "py_id p \<in> set (map fst ks)" using p by force
  have "refs_ok ks (rs @ [r]) (es @ ?new)"
    using in_ks r by (intro refs_more [OF f]) (auto dest: refund_entry simp del: set_map)
  moreover have "amounts_ok ks (rs @ [r]) (es @ ?new)"
    unfolding amounts_ok_def
  proof (intro ballI, clarify)
    fix pid amount
    assume k: "(pid, amount) \<in> set ks"
    have one: "refunded pid [r] = (if pid = py_id p then rf_amount r else 0)"
      using r by (auto simp: refunded_def)
    show "refunded pid (rs @ [r]) \<le> max 0 amount \<and> balanced pid amount (rs @ [r]) (es @ ?new)"
      using a k same le one refund_pair [of p r c t]
      by (cases "pid = py_id p") (auto simp: amounts_ok_def balanced_def pair_def)
  qed
  ultimately show ?thesis using ids_new_refund [OF i, of r] r by (simp add: books_def)
qed

subsection \<open>The operations keep the books\<close>

lemma same_books_ok: "same_books w v \<Longrightarrow> books_ok w \<Longrightarrow> books_ok v"
  unfolding same_books_def books_ok_def keys_def by (auto intro: books_later)

lemma keeps_frame: "stays same_books m \<Longrightarrow> keeps books_ok m"
  using stays_keeps same_books_ok by blast

lemma put_payment_keys:
  "distinct (map py_id rows) \<Longrightarrow> (py_id p, py_amount p) \<in> set (map (\<lambda>p. (py_id p, py_amount p)) rows) \<Longrightarrow>
   map (\<lambda>p. (py_id p, py_amount p)) (put_payment p rows) = map (\<lambda>p. (py_id p, py_amount p)) rows"
proof (induction rows)
  case (Cons r rows)
  have skip: "py_id p \<notin> set (map py_id rows) \<Longrightarrow> put_payment p rows = rows" for rows
    by (induction rows) (auto simp: put_payment_def)
  show ?case
  proof (cases "py_id r = py_id p")
    case True
    then have "py_id p \<notin> set (map py_id rows)" using Cons.prems(1) by auto
    moreover from this have "py_amount r = py_amount p" using Cons.prems(2) True by force
    ultimately show ?thesis using True skip [of rows] by (simp add: put_payment_def)
  next
    case False
    then have "map (\<lambda>p. (py_id p, py_amount p)) (put_payment p rows) = map (\<lambda>p. (py_id p, py_amount p)) rows"
      using Cons by auto
    then show ?thesis using False by (simp add: put_payment_def)
  qed
qed (simp add: put_payment_def)

lemma insert_payment_spec:
  assumes "insert_payment p w = (Inr q, v)" and "books_ok w"
  shows "books_ok v"
proof -
  obtain u where u: "dbcall (\<lambda>w.
     if \<not> payment_columns_ok p then (Inl invalid_column, w)
     else if \<exists>r\<in>set (payments w). py_gatewayPaymentId r = py_gatewayPaymentId p then (Inl unique_violation, w)
     else let row = p\<lparr>py_id := uuidSrc u (uuidCtr u), py_version := 1, py_createdAt := now w, py_updatedAt := now w\<rparr>
          in (Inr row, w\<lparr>payments := payments w @ [row]\<rparr>)) (u\<lparr>uuidCtr := Suc (uuidCtr u)\<rparr>) = (Inr q, v)" and "books_ok u"
    using assms by (auto simp: insert_payment_def freshUuid_def)
  then have "books (uuidSrc u) (Suc (uuidCtr u)) (keys u @ [(uuidSrc u (uuidCtr u), py_amount p)]) (refunds u) (ledger u)"
    by (intro books_new_payment) (simp add: books_ok_def)
  then show ?thesis
    using u by (auto simp: dbcall_eq books_ok_def keys_def Let_def split: if_splits)
qed

lemma save_payment_spec:
  assumes s: "save_payment p w = (Inr q, v)" and k: "(py_id p, py_amount p) \<in> set (keys w)" and b: "books_ok w"
  shows "books_ok v \<and> keys v = keys w \<and> py_id q = py_id p \<and> py_amount q = py_amount p \<and>
    refunds v = refunds w \<and> ledger v = ledger w \<and> uuidSrc v = uuidSrc w \<and> uuidCtr v = uuidCtr w"
proof -
  define row where "row = p\<lparr>py_version := py_version p + 1, py_updatedAt := now w\<rparr>"
  have v: "q = row" "v = w\<lparr>faults := tl (faults w), payments := put_payment row (payments w)\<rparr>"
    using s by (auto simp: save_payment_def dbcall_eq row_def Let_def split: if_splits)
  have "distinct (map py_id (payments w))"
    using b by (simp add: books_ok_def books_def ids_ok_def keys_def comp_def)
  then have "keys v = keys w"
    using k v put_payment_keys [of "payments w" row] by (simp add: keys_def row_def)
  then show ?thesis using v b by (simp add: books_ok_def row_def)
qed

lemma insert_entries_spec:
  "insert_entries es w = (Inr u, v) \<Longrightarrow>
     v = w\<lparr>faults := tl (faults w), ledger := ledger w @ map (\<lambda>e. e\<lparr>le_createdAt := now w\<rparr>) es\<rparr>"
  by (auto simp: insert_entries_def dbcall_eq split: if_splits)

lemma dbquery_spec: "dbquery f w = (Inr a, v) \<Longrightarrow> v = w\<lparr>faults := tl (faults w)\<rparr> \<and> a = f v"
  by (auto simp: dbquery_eq split: if_splits)

lemma payment_ledger_spec:
  assumes s: "createPaymentLedgerEntries p ref w = (Inr x, v)"
    and k: "(py_id p, py_amount p) \<in> set (keys w)" and b: "books_ok w"
  shows "books_ok v"
proof -
  let ?es = "filter (\<lambda>e. le_paymentId e = Some (py_id p) \<and> le_entryType e = LE_PAYMENT) (ledger w)"
  let ?t = "case py_confirmedAt p of None \<Rightarrow> now w | Some c \<Rightarrow> c"
  let ?w = "w\<lparr>faults := tl (faults w)\<rparr>"
  show ?thesis
  proof (cases "?es = []")
    case False
    then have "v = ?w"
      using s by (auto simp: createPaymentLedgerEntries_def dest!: dbquery_spec)
    then show ?thesis using b by (simp add: books_ok_def keys_def)
  next
    case True
    then obtain u y where u: "insert_entries (payment_entries p ref ?t) ?w = (Inr y, u)"
      and v: "same_books u v"
      using s by (auto simp: createPaymentLedgerEntries_def dest!: dbquery_spec staysD [OF frame_createAuditLog])
    have "books (uuidSrc w) (uuidCtr w) (keys w) (refunds w)
       (ledger w @ map (\<lambda>e. e\<lparr>le_createdAt := now w\<rparr>) (payment_entries p ref ?t))"
      by (rule books_pay [OF b [unfolded books_ok_def] k True])
    then have "books_ok u"
      unfolding insert_entries_spec [OF u] by (simp add: books_ok_def keys_def)
    then show ?thesis by (rule same_books_ok [OF v])
  qed
qed

lemma insert_refund_spec:
  "insert_refund r w = (Inr q, v) \<Longrightarrow>
     \<exists>a b. q = r\<lparr>rf_id := uuidSrc w (uuidCtr w), rf_createdAt := a, rf_updatedAt := b\<rparr> \<and>
       v = w\<lparr>uuidCtr := Suc (uuidCtr w), faults := tl (faults w), refunds := refunds w @ [q]\<rparr>"
  by (auto simp: insert_refund_def freshUuid_def dbcall_eq Let_def split: if_splits)

text \<open>The refund ledger entries of a refund that was just inserted.\<close>

lemma refund_ledger_spec:
  assumes s: "createRefundLedgerEntries p r w = (Inr x, v)"
    and new: "\<forall>e\<in>set (ledger w). le_entryType e = LE_REFUND \<longrightarrow> le_refundId e \<noteq> Some (rf_id r)"
  shows "\<exists>u t. same_books u v \<and>
    u = w\<lparr>faults := tl (tl (faults w)), ledger := ledger w @ map (\<lambda>e. e\<lparr>le_createdAt := now w\<rparr>) (refund_entries p r t)\<rparr>"
proof -
  have none: "filter (\<lambda>e. le_refundId e = Some (rf_id r) \<and> le_entryType e = LE_REFUND) (ledger w) = []"
    using new by (auto simp: filter_empty_conv)
  obtain u y where u: "insert_entries (refund_entries p r (now w)) (w\<lparr>faults := tl (faults w)\<rparr>) = (Inr y, u)"
    and v: "same_books u v"
    using s none by (auto simp: createRefundLedgerEntries_def dest!: dbquery_spec staysD [OF frame_createAuditLog])
  show ?thesis using v insert_entries_spec [OF u] by (intro exI [of _ u] exI [of _ "now w"]) simp
qed

lemma find_SomeD: "find q xs = Some x \<Longrightarrow> q x \<and> x \<in> set xs"
  by (auto simp: find_Some_iff)

lemma find_payment_key:
  assumes "find_payment q w = (Inr (Some p), v)"
  shows "same_books w v \<and> q p \<and> (py_id p, py_amount p) \<in> set (keys v)"
proof -
  have v: "v = w\<lparr>faults := tl (faults w)\<rparr>" and f: "find q (payments v) = Some p"
    using dbquery_spec [OF assms [unfolded find_payment_def]] by simp_all
  show ?thesis using find_SomeD [OF f] v by (auto simp: same_books_def keys_def)
qed

lemma same_books_keys: "same_books w v \<Longrightarrow> keys v = keys w"
  by (simp add: same_books_def keys_def)

lemma capture_spec:
  assumes s: "capture_payment pf gid p record w = (Inr x, v)"
    and k: "(py_id p, py_amount p) \<in> set (keys w)" and b: "books_ok w"
  shows "books_ok v"
proof -
  obtain g where g: "getByName (py_gateway p) = Inr g"
    using s by (auto simp: capture_payment_def split: sum.splits)
  obtain result u t saved u1 x2 u2 x3 u3 x4 where
    1: "gateway_capture pf g (or_str gid (py_gatewayPaymentId p)) w = (Inr result, u)"
    and 2: "save_payment (confirmed_payment p result t) u = (Inr saved, u1)"
    and 3: "(if gr_success result then createPaymentLedgerEntries saved (gr_transactionId result) else ret ()) u1 = (Inr x2, u2)"
    and 4: "completeIdempotency record (RPayment saved) ''payment'' (py_id saved) u2 = (Inr x3, u3)"
    and 5: "createAuditLog ''payment'' (py_id saved)
             (if gr_success result then PAYMENT_CAPTURED else PAYMENT_FAILED) (Some (py_userId saved))
             ([(''status'', JStr (gr_status result)), (''gatewayTransactionId'', JStr (gr_transactionId result))] @
              jopt ''failureReason'' (gr_errorMessage result)) u3 = (Inr x4, v)"
    using s g by (auto simp: capture_payment_def)
  have c: "py_id (confirmed_payment p result t) = py_id p" "py_amount (confirmed_payment p result t) = py_amount p"
    by (simp_all add: confirmed_payment_def)
  have u: "same_books w u" using staysD [OF frame_capture 1] .
  have s1: "books_ok u1 \<and> keys u1 = keys u \<and> py_id saved = py_id p \<and> py_amount saved = py_amount p"
    using save_payment_spec [OF 2] k b u c same_books_ok [OF u] same_books_keys [OF u] by simp
  have "books_ok u2"
  proof (cases "gr_success result")
    case True
    then have "createPaymentLedgerEntries saved (gr_transactionId result) u1 = (Inr x2, u2)" using 3 by simp
    from payment_ledger_spec [OF this] s1 k same_books_keys [OF u] show ?thesis by simp
  next
    case False
    then show ?thesis using 3 s1 by simp
  qed
  then show ?thesis
    using same_books_ok staysD [OF frame_completeIdempotency 4] staysD [OF frame_createAuditLog 5] by blast
qed

lemma books_andThen:
  "andThen m f w = (Inr a, v) \<Longrightarrow> stays same_books m \<Longrightarrow> \<exists>b u. same_books w u \<and> m w = (Inr b, u) \<and> f b u = (Inr a, v)"
  by (auto dest: staysD)

lemma confirm_body_spec:
  assumes "confirm_body pf i gid k w = (Inr x, v)" and b: "books_ok w"
  shows "books_ok v"
proof -
  obtain existing kr u where w: "same_books w u" and
    s: "(case existing of
           Some body \<Rightarrow> andThen (as_payment body) (\<lambda>p. ret (p, None))
         | None \<Rightarrow>
             andThen (find_payment (\<lambda>p. py_id p = i)) (\<lambda>found.
               case found of
                 None \<Rightarrow> throw (NotFound (''Payment '' @ i @ '' not found''))
               | Some p \<Rightarrow>
                   if settled (py_status p)
                   then andThen (completeIdempotency kr (RPayment p) ''payment'' (py_id p)) (\<lambda>_. ret (p, None))
                   else capture_payment pf gid p kr)) u = (Inr x, v)"
    using books_andThen [OF assms(1) [unfolded confirm_body_def] frame_claimIdempotency] by fastforce
  have u: "books_ok u" by (rule same_books_ok [OF w b])
  show ?thesis
  proof (cases existing)
    case (Some body)
    then have "same_books u v" using s by (auto dest: staysD [OF frame_as_payment])
    then show ?thesis using u by (rule same_books_ok)
  next
    case None
    then obtain p u1 where f: "find_payment (\<lambda>p. py_id p = i) u = (Inr (Some p), u1)" and
      c: "(if settled (py_status p)
           then andThen (completeIdempotency kr (RPayment p) ''payment'' (py_id p)) (\<lambda>_. ret (p, None))
           else capture_payment pf gid p kr) u1 = (Inr x, v)"
      using s by (auto split: option.splits)
    have u1: "books_ok u1" "(py_id p, py_amount p) \<in> set (keys u1)"
      using find_payment_key [OF f] same_books_ok u by blast+
    show ?thesis
      using c u1 by (auto split: if_splits dest: staysD [OF frame_completeIdempotency] capture_spec intro: same_books_ok)
  qed
qed

lemma create_body_spec:
  assumes "create_intent_body pf dto k g w = (Inr x, v)" and b: "books_ok w"
  shows "books_ok v"
proof -
  obtain existing kr u where w: "same_books w u" and
    s: "(case existing of
         Some body \<Rightarrow>
           andThen (as_payment body) (\<lambda>p.
           andThen (createAuditLog ''payment'' (py_id p) IDEMPOTENCY_REPLAYED (Some (ci_userId dto))
              [(''scope'', JStr ''create_payment_intent''), (''idempotencyKey'', JStr k)]) (\<lambda>_. ret p))
       | None \<Rightarrow> create_intent_new pf dto k g kr) u = (Inr x, v)"
    using books_andThen [OF assms(1) [unfolded create_intent_body_def] frame_claimIdempotency] by fastforce
  have u: "books_ok u" by (rule same_books_ok [OF w b])
  show ?thesis
  proof (cases existing)
    case (Some body)
    then have "same_books u v"
      using s by (auto dest!: staysD [OF frame_as_payment] staysD [OF frame_createAuditLog] intro: books.trans)
    then show ?thesis using u by (rule same_books_ok)
  next
    case None
    then obtain intent u1 saved u2 y where
      1: "gateway_create pf g (intent_params dto) u = (Inr intent, u1)" and
      2: "insert_payment (new_payment dto k g intent) u1 = (Inr saved, u2)" and
      3: "andThen (completeIdempotency kr (RPayment saved) ''payment'' (py_id saved)) (\<lambda>_.
          andThen (createAuditLog ''payment'' (py_id saved) INTENT_CREATED (Some (ci_userId dto))
        [(''bookingId'', JNum (ci_bookingId dto)), (''amount'', JNum (ci_amount dto)),
         (''currency'', JStr (dto_currency dto)), (''gateway'', JStr (py_gateway saved)),
         (''idempotencyKey'', JStr k)]) (\<lambda>_.
          andThen (emit ''payment.intent.created''
        ([(''paymentId'', JStr (py_id saved)), (''bookingId'', JNum (py_bookingId saved)),
          (''amount'', JNum (py_amount saved))] @ jopt ''clientSecret'' (py_clientSecret saved))) (\<lambda>_.
     ret saved))) u2 = (Inr y, v)"
      using s by (auto simp: create_intent_new_def split: if_splits)
    have "books_ok u1" by (rule same_books_ok [OF staysD [OF frame_create 1] u])
    then have u2: "books_ok u2" by (rule insert_payment_spec [OF 2])
    have "same_books u2 v"
      using 3 by (auto dest!: staysD [OF frame_completeIdempotency] staysD [OF frame_createAuditLog]
          staysD [OF frame_emit] intro: books.trans)
    then show ?thesis using u2 by (rule same_books_ok)
  qed
qed

lemma refund_check_spec:
  assumes "refund_check dto w = (Inr (p, sofar), v)"
  shows "same_books w v \<and> (py_id p, py_amount p) \<in> set (keys v) \<and> sofar = refunded (py_id p) (refunds v) \<and>
    cr_amount dto \<le> py_amount p - sofar"
proof -
  obtain u where 1: "getPaymentIntent (cr_paymentId dto) w = (Inr p, u)"
    and 2: "refund_total (py_id p) u = (Inr sofar, v)" and 3: "\<not> py_amount p - sofar < cr_amount dto"
    using assms by (auto simp: refund_check_def Let_def split: if_splits)
  have u: "same_books w u \<and> (py_id p, py_amount p) \<in> set (keys u)"
    using 1 by (auto simp: getPaymentIntent_def dest: find_payment_key split: option.splits)
  have "v = u\<lparr>faults := tl (faults u)\<rparr> \<and> sofar = refunded (py_id p) (refunds v)"
    using dbquery_spec [OF 2 [unfolded refund_total_def]] by simp
  then show ?thesis using u 3 by (auto simp: same_books_def keys_def)
qed

lemma new_refund_simps:
  "rf_paymentId (new_refund dto p k result t) = py_id p"
  "rf_amount (new_refund dto p k result t) = cr_amount dto"
  "rf_status (new_refund dto p k result t) = (if gf_success result then RF_SUCCEEDED else RF_FAILED)"
  by (simp_all add: new_refund_def)

lemma with_refunds_simps [simp]: "py_id (with_refunds n t p) = py_id p" "py_amount (with_refunds n t p) = py_amount p"
  by (simp_all add: with_refunds_def)

text \<open>The refund, the payment's new status and the entries, as one step of the books.\<close>

lemma refund_writes_spec:
  assumes r: "insert_refund r w = (Inr saved, u1)" and st: "rf_status r = RF_SUCCEEDED" "rf_paymentId r = py_id p"
    and s: "save_payment (with_refunds n t p) u1 = (Inr paid, u2)"
    and l: "createRefundLedgerEntries paid saved u2 = (Inr x, v)"
    and k: "(py_id p, py_amount p) \<in> set (keys w)" and b: "books_ok w"
    and le: "rf_amount r \<le> py_amount p - refunded (py_id p) (refunds w)"
  shows "books_ok v"
proof -
  obtain c d where q: "saved = r\<lparr>rf_id := uuidSrc w (uuidCtr w), rf_createdAt := c, rf_updatedAt := d\<rparr>"
    and u1: "u1 = w\<lparr>uuidCtr := Suc (uuidCtr w), faults := tl (faults w), refunds := refunds w @ [saved]\<rparr>"
    using insert_refund_spec [OF r] by blast
  define row where "row = (with_refunds n t p)\<lparr>py_version := py_version p + 1, py_updatedAt := now w\<rparr>"
  have ids: "ids_ok (uuidSrc w) (uuidCtr w) (keys w) (refunds w)" and refs: "refs_ok (keys w) (refunds w) (ledger w)"
    using b by (simp_all add: books_ok_def books_def)
  have u2: "paid = row" "u2 = u1\<lparr>faults := tl (faults u1), payments := put_payment row (payments u1)\<rparr>"
    using s u1 by (auto simp: save_payment_def dbcall_eq row_def Let_def with_refunds_def split: if_splits)
  have row: "py_id row = py_id p" "py_amount row = py_amount p" by (simp_all add: row_def)
  have "distinct (map py_id (payments w))" using ids by (simp add: ids_ok_def keys_def comp_def)
  then have keys: "keys u2 = keys w"
    using k u2 u1 row put_payment_keys [of "payments w" row] by (simp add: keys_def)
  have new: "\<forall>e\<in>set (ledger u2). le_entryType e = LE_REFUND \<longrightarrow> le_refundId e \<noteq> Some (rf_id saved)"
  proof (intro ballI impI notI)
    fix e
    assume e: "e \<in> set (ledger u2)" "le_entryType e = LE_REFUND" "le_refundId e = Some (rf_id saved)"
    have "ledger u2 = ledger w" using u2 u1 by simp
    then have "Some (rf_id saved) \<in> Some ` set (map rf_id (refunds w))"
      using refs e unfolding refs_ok_def by metis
    then show False using fresh_not_used [OF ids] q by (auto simp del: set_map)
  qed
  obtain u t' where v: "same_books u v" and u: "u = u2\<lparr>faults := tl (tl (faults u2)),
      ledger := ledger u2 @ map (\<lambda>e. e\<lparr>le_createdAt := now u2\<rparr>) (refund_entries paid saved t')\<rparr>"
    using refund_ledger_spec [OF l new] by blast
  have "books (uuidSrc w) (Suc (uuidCtr w)) (keys w) (refunds w @ [saved])
      (ledger w @ map (\<lambda>e. e\<lparr>le_createdAt := now u2\<rparr>) (refund_entries row saved t'))"
    using books_refund [OF b [unfolded books_ok_def], of row saved] k st le row q by simp
  then have "books_ok u"
    using u u2 u1 keys by (simp add: books_ok_def keys_def)
  then show ?thesis by (rule same_books_ok [OF v])
qed

lemma failed_refund_writes_spec:
  assumes r: "insert_refund r w = (Inr saved, v)" and st: "rf_status r \<noteq> RF_SUCCEEDED" "rf_paymentId r = py_id p"
    and k: "(py_id p, py_amount p) \<in> set (keys w)" and b: "books_ok w"
  shows "books_ok v"
proof -
  obtain c d where q: "saved = r\<lparr>rf_id := uuidSrc w (uuidCtr w), rf_createdAt := c, rf_updatedAt := d\<rparr>"
    and v: "v = w\<lparr>uuidCtr := Suc (uuidCtr w), faults := tl (faults w), refunds := refunds w @ [saved]\<rparr>"
    using insert_refund_spec [OF r] by blast
  have "books (uuidSrc w) (Suc (uuidCtr w)) (keys w) (refunds w @ [saved]) (ledger w)"
    using books_refund_failed [OF b [unfolded books_ok_def] k] q st by simp
  then show ?thesis by (simp add: v books_ok_def keys_def)
qed

lemma refund_pay_spec:
  assumes s: "refund_pay pf dto k kr p sofar w = (Inr x, v)"
    and key: "(py_id p, py_amount p) \<in> set (keys w)" and b: "books_ok w"
    and le: "cr_amount dto \<le> py_amount p - sofar" and sofar: "sofar = refunded (py_id p) (refunds w)"
  shows "books_ok v"
proof -
  obtain g where g: "getByName (py_gateway p) = Inr g"
    using s by (auto simp: refund_pay_def split: sum.splits)
  define audit where "audit = (\<lambda>(result :: RefundResult) (saved :: Refund). createAuditLog ''refund'' (rf_id saved)
       (if gf_success result then REFUND_PROCESSED else REFUND_CREATED) (Some (py_userId p))
       ([(''paymentId'', JStr (py_id p)), (''amount'', JNum (cr_amount dto))] @ jopt ''reason'' (cr_reason dto) @
          [(''idempotencyKey'', JStr k)]))"
  define tell where "tell = (\<lambda>(result :: RefundResult) (saved :: Refund). if gf_success result
       then emit ''payment.refunded'' [(''refundId'', JStr (rf_id saved)), (''paymentId'', JStr (py_id p)),
              (''bookingId'', JNum (cr_bookingId dto)), (''amount'', JNum (cr_amount dto))]
       else ret ())"
  obtain result u t saved u1 x2 u2 x3 u3 x4 u4 x5 where
    1: "gateway_refund pf g (py_gatewayPaymentId p) (cr_amount dto) (cr_reason dto) w = (Inr result, u)"
    and 2: "insert_refund (new_refund dto p k result t) u = (Inr saved, u1)"
    and 3: "(if gf_success result
             then andThen (save_payment (with_refunds (sofar + cr_amount dto) t p)) (\<lambda>paid. createRefundLedgerEntries paid saved)
             else ret ()) u1 = (Inr x2, u2)"
    and 4: "complete_refund_key kr saved result u2 = (Inr x3, u3)"
    and 5: "audit result saved u3 = (Inr x4, u4)"
    and 6: "tell result saved u4 = (Inr x5, v)"
    using s g unfolding refund_pay_def audit_def tell_def by auto
  have u: "same_books w u" by (rule staysD [OF frame_refund 1])
  have ready: "books_ok u" "(py_id p, py_amount p) \<in> set (keys u)" "refunds u = refunds w"
    using same_books_ok [OF u b] same_books_keys [OF u] key u by (simp_all add: same_books_def)
  have "books_ok u2"
  proof (cases "gf_success result")
    case True
    then obtain paid u' where "save_payment (with_refunds (sofar + cr_amount dto) t p) u1 = (Inr paid, u')"
      and "createRefundLedgerEntries paid saved u' = (Inr x2, u2)"
      using 3 by auto
    then show ?thesis
      using refund_writes_spec [OF 2 _ _ _ _ ready(2,1)] True le sofar ready(3) by (simp add: new_refund_simps)
  next
    case False
    then have "books_ok u1"
      using failed_refund_writes_spec [OF 2 _ _ ready(2,1)] by (simp add: new_refund_simps)
    then show ?thesis using False 3 by simp
  qed
  moreover have "stays same_books (audit result saved)" "stays same_books (tell result saved)"
    by (auto simp: audit_def tell_def intro!: books_intro frame)
  ultimately show ?thesis
    using 4 5 6 by (meson staysD same_books_ok frame_complete_refund_key)
qed

lemma refund_body_spec:
  assumes "create_refund_body pf dto k w = (Inr x, v)" and b: "books_ok w"
  shows "books_ok v"
proof -
  obtain existing kr u where w: "same_books w u" and
    s: "(case existing of
           Some body \<Rightarrow> as_refund body
         | None \<Rightarrow> andThen (refund_check dto) (\<lambda>(p, sofar). refund_pay pf dto k kr p sofar)) u = (Inr x, v)"
    using books_andThen [OF assms(1) [unfolded create_refund_body_def] frame_claim] by fastforce
  have u: "books_ok u" by (rule same_books_ok [OF w b])
  show ?thesis
  proof (cases existing)
    case (Some body)
    then have "as_refund body u = (Inr x, v)" using s by simp
    from same_books_ok [OF staysD [OF frame_as_refund this] u] show ?thesis .
  next
    case None
    then obtain p sofar u1 where c: "refund_check dto u = (Inr (p, sofar), u1)"
      and pay: "refund_pay pf dto k kr p sofar u1 = (Inr x, v)"
      using s by auto
    from refund_check_spec [OF c] have "books_ok u1"
      using same_books_ok u by blast
    then show ?thesis using refund_pay_spec [OF pay] refund_check_spec [OF c] by simp
  qed
qed

lemma keeps_tx:
  assumes body: "\<And>w a v. books_ok w \<Longrightarrow> body w = (Inr a, v) \<Longrightarrow> books_ok v" and later: "stays ids_later body"
  shows "keeps books_ok (payment_tx body)"
proof (rule keepsI)
  fix w
  assume w: "books_ok w"
  let ?w = "w\<lparr>faults := tl (faults w)\<rparr>"
  obtain r v where v: "body ?w = (r, v)" by fastforce
  have w': "books_ok ?w" using w by (simp add: books_ok_def keys_def)
  have "ids_later w v" using staysD [OF later v] by (simp add: ids_later_def)
  then have rb: "books_ok ((rollback w v)\<lparr>faults := fs\<rparr>)" for fs
    using w books_later by (auto simp: books_ok_def keys_def rollback_def ids_later_def)
  have rb1: "books_ok (rollback w (v\<lparr>faults := fs\<rparr>))" for fs
    using rb [of fs] by (simp add: rollback_def books_ok_def keys_def)
  have rb2: "books_ok (rollback w v)"
    using rb1 [of "faults v"] by simp
  show "books_ok (snd (payment_tx body w))"
  proof (cases r)
    case (Inl e)
    have "books_ok (rollback w ?w)" using w by (simp add: books_ok_def keys_def rollback_def)
    then show ?thesis
      using v Inl rb2 by (auto simp: atomic_def andThen_def external_def)
  next
    case (Inr a)
    have "books_ok v" by (rule body [OF w' v [unfolded Inr]])
    then have "books_ok (v\<lparr>faults := fs\<rparr>)" for fs by (simp add: books_ok_def keys_def)
    moreover have "books_ok (rollback w ?w)" using w by (simp add: books_ok_def keys_def rollback_def)
    ultimately show ?thesis
      using v Inr rb1 by (auto simp: atomic_def andThen_def external_def ret_def)
  qed
qed

lemma keeps_found_payment:
  assumes "\<And>w p v. m w = (Inr p, v) \<Longrightarrow> (py_id p, py_amount p) \<in> set (keys v)" and "stays same_books m"
    and "\<And>p w. (py_id p, py_amount p) \<in> set (keys w) \<Longrightarrow> books_ok w \<Longrightarrow> books_ok (snd (f p w))"
  shows "keeps books_ok (andThen m f)"
proof (rule keepsI)
  fix w
  assume "books_ok w"
  obtain r v where m: "m w = (r, v)" by fastforce
  have "books_ok v" by (rule same_books_ok [OF staysD [OF assms(2) m] \<open>books_ok w\<close>])
  then show "books_ok (snd (andThen m f w))"
    using m assms(1,3) by (cases r) (auto simp: andThen_def)
qed

lemma save_payment_at:
  assumes "(py_id p, py_amount p) \<in> set (keys w)" and "books_ok w"
  shows "books_ok (snd (save_payment p w))"
proof (cases "fst (save_payment p w)")
  case (Inl e)
  then have "same_books w (snd (save_payment p w))"
    by (auto simp: save_payment_def dbcall_eq same_books_def Let_def split: if_splits)
  then show ?thesis using assms(2) by (rule same_books_ok)
next
  case (Inr q)
  then have "save_payment p w = (Inr q, snd (save_payment p w))" by (metis prod.collapse)
  from save_payment_spec [OF this assms] show ?thesis by blast
qed

lemma keeps_create_intent: "keeps books_ok (createPaymentIntent pf dto key)"
proof -
  have "keeps books_ok (payment_tx (create_intent_body pf dto k g))" for k g
    by (rule keeps_tx) (auto intro: create_body_spec mono)
  then show ?thesis
    by (auto simp: createPaymentIntent_def markingFailure_def
        intro!: keeps_intro keeps_frame [OF frame_safe_key] keeps_frame [OF frame_markFailed] split: sum.split)
qed

lemma keeps_confirm: "keeps books_ok (confirmPaymentIntent pf i gid key)"
proof -
  have "keeps books_ok (payment_tx (confirm_body pf i gid k))" for k
    by (rule keeps_tx) (auto intro: confirm_body_spec mono)
  then show ?thesis
    by (auto simp: confirmPaymentIntent_def markingFailure_def intro!: keeps_intro keeps_frame [OF frame_safe_key]
        keeps_frame [OF frame_markFailed] keeps_frame [OF frame_createAuditLog] keeps_frame [OF frame_announce] split: option.split)
qed

lemma keeps_refund: "keeps books_ok (createRefund pf dto key)"
proof -
  have "keeps books_ok (payment_tx (create_refund_body pf dto k))" for k
    by (rule keeps_tx) (auto intro: refund_body_spec mono)
  then show ?thesis
    by (auto simp: createRefund_def markingFailure_def
        intro!: keeps_intro keeps_frame [OF frame_safe_key] keeps_frame [OF frame_markFailed])
qed

lemma for_gateway_id_key:
  "payment_for_gateway_id i w = (Inr p, v) \<Longrightarrow> (py_id p, py_amount p) \<in> set (keys v)"
  by (auto simp: payment_for_gateway_id_def dest: find_payment_key split: option.splits)

lemma getPaymentIntent_key: "getPaymentIntent i w = (Inr p, v) \<Longrightarrow> (py_id p, py_amount p) \<in> set (keys v)"
  by (auto simp: getPaymentIntent_def dest: find_payment_key split: option.splits)

lemma keeps_markFailed: "keeps books_ok (markPaymentFailedByGatewayId i reason)"
  unfolding markPaymentFailedByGatewayId_def
proof (rule keeps_found_payment [OF for_gateway_id_key frame_for_gateway_id])
  fix p :: Payment and w
  assume "(py_id p, py_amount p) \<in> set (keys w)" "books_ok w"
  then show "books_ok (snd (andThen (save_payment (p\<lparr>py_status := PY_FAILED,
        py_failureReason := Some (or_str reason ''Payment failed according to gateway webhook'')\<rparr>)) (\<lambda>saved.
     andThen (createAuditLog ''payment'' (py_id saved) PAYMENT_FAILED (Some (py_userId saved))
        ([(''source'', JStr ''webhook'')] @ jopt ''failureReason'' reason)) (\<lambda>_. ret saved)) w))"
    by (intro andThen_at [of books_ok] save_payment_at keeps_intro keeps_frame [OF frame_createAuditLog]) auto
qed

lemma keeps_refresh: "keeps books_ok (refreshRefundedStatus i)"
  unfolding refreshRefundedStatus_def
proof (rule keeps_found_payment [OF getPaymentIntent_key frame_getPaymentIntent])
  fix p :: Payment and w
  assume k: "(py_id p, py_amount p) \<in> set (keys w)" and w: "books_ok w"
  obtain r v where q: "refund_total i w = (r, v)" by fastforce
  have v: "same_books w v" by (rule staysD [OF frame_refund_total q])
  have "books_ok v" "(py_id p, py_amount p) \<in> set (keys v)"
    using same_books_ok [OF v w] same_books_keys [OF v] k by simp_all
  then have "books_ok (snd (save_payment (with_refunds n t p) v))" for n t
    by (intro save_payment_at) simp_all
  then show "books_ok (snd (andThen (refund_total i) (\<lambda>sofar.
       if sofar \<le> 0 then ret p
       else andThen (gets now) (\<lambda>t. save_payment (with_refunds sofar t p))) w))"
    using q \<open>books_ok v\<close> by (cases r) (auto simp: andThen_def ret_def gets_def)
qed

lemma frame_tx:
  assumes "stays same_books body"
  shows "stays same_books (payment_tx body)"
proof (rule staysI)
  fix w
  obtain r v where v: "body (w\<lparr>faults := tl (faults w)\<rparr>) = (r, v)" by fastforce
  have "same_books w v" using staysD [OF assms v] by (simp add: same_books_def)
  then show "same_books w (snd (payment_tx body w))"
    using v by (cases r) (auto simp: atomic_def andThen_def external_def ret_def same_books_def rollback_def)
qed

lemma keeps_by_gateway_id: "keeps books_ok (confirmPaymentByGatewayId pf i key)"
  unfolding confirmPaymentByGatewayId_def
  by (intro keeps_intro keeps_frame [OF frame_for_gateway_id] keeps_confirm)

lemma keeps_refresh_by_id: "keeps books_ok (refreshRefundedStatusByGatewayId i)"
  unfolding refreshRefundedStatusByGatewayId_def
  by (intro keeps_intro keeps_frame [OF frame_for_gateway_id] keeps_refresh)

lemma keeps_process: "keeps books_ok (processWebhookEvent pf g e)"
  unfolding processWebhookEvent_def Let_def
  by (intro keeps_intro keeps_by_gateway_id keeps_markFailed keeps_refresh_by_id)

lemma keeps_webhook: "keeps books_ok (handleWebhook pf g payload s)"
  unfolding handleWebhook_def webhook_body_def
  by (auto intro!: keeps_intro keeps_process keeps_frame [OF frame_verify] keeps_frame [OF frame_save_webhook]
      keeps_frame [OF frame_createAuditLog] keeps_frame [OF frame_tx [OF frame_record_webhook]] split: sum.split)

lemma books_ok_tick: "books_ok w \<Longrightarrow> books_ok (w\<lparr>now := t, faults := fs\<rparr>)"
  by (simp add: books_ok_def keys_def)

lemma keeps_stripe_webhook: "keeps books_ok (handleStripeWebhook pf payload s)"
  unfolding handleStripeWebhook_def by (intro keeps_intro keeps_webhook)

lemma keeps_paypal_webhook: "keeps books_ok (handlePayPalWebhook pf payload s)"
  unfolding handlePayPalWebhook_def by (intro keeps_intro keeps_webhook)

lemmas keeps_requests = keeps_create_intent keeps_confirm keeps_refund keeps_stripe_webhook keeps_paypal_webhook
  keeps_frame [OF frame_getPaymentIntent] keeps_frame [OF frame_byBooking]
  keeps_frame [OF frame_getLedger] keeps_frame [OF frame_getRefunds]

lemma payment_exec_keeps: "books_ok w \<Longrightarrow> books_ok (payment_exec pf w x)"
  by (cases x) (auto simp: payment_exec_def intro: books_ok_tick keepsD keeps_requests)

interpretation ledgers: invariant_machine "payment_exec pf" books_ok for pf
  by unfold_locales (rule payment_exec_keeps)

definition no_payments :: "payment_world \<Rightarrow> bool" where
  "no_payments w \<longleftrightarrow> inj (uuidSrc w) \<and> payments w = [] \<and> refunds w = [] \<and> ledger w = []"

lemma books_ok_reached: "no_payments w \<Longrightarrow> books_ok (run_steps (payment_exec pf) w xs)"
  by (rule ledgers.run_keeps)
    (simp add: no_payments_def books_ok_def books_def ids_ok_def refs_ok_def amounts_ok_def keys_def)

lemma reached_payment:
  assumes "no_payments w" and "p \<in> set (payments (run_steps (payment_exec pf) w xs))"
  shows "refunded (py_id p) (refunds (run_steps (payment_exec pf) w xs)) \<le> max 0 (py_amount p) \<and>
    balanced (py_id p) (py_amount p) (refunds (run_steps (payment_exec pf) w xs)) (ledger (run_steps (payment_exec pf) w xs))"
  using books_ok_reached [OF assms(1), of pf xs] assms(2)
  by (force simp: books_ok_def books_def amounts_ok_def keys_def)

subsection \<open>A sandbox\<close>

text \<open>A gateway that captures every payment and makes every refund, and an empty database.\<close>

definition sandbox_intent :: "string \<Rightarrow> int \<Rightarrow> string \<Rightarrow> stripe_intent" where
  "sandbox_intent i amount status = \<lparr>si_id = i, si_amount = amount, si_currency = ''usd'', si_status = status,
     si_clientSecret = Some ''secret'', si_lastError = None\<rparr>"

definition sandbox :: platform where
  "sandbox = \<lparr>stripe_create = \<lambda>n params. Inr (sandbox_intent (''pi_'' @ show_nat n) (sc_amount params) ''requires_confirmation''),
     stripe_retrieve = \<lambda>n i. Inr (sandbox_intent i 0 ''succeeded''),
     stripe_confirm = \<lambda>n i. Inr (), stripe_capture = \<lambda>n i. Inr (),
     stripe_refund = \<lambda>n i amount reason. Inr (''re_'' @ show_nat n, ''succeeded''),
     constructEvent = \<lambda>payload signature secret.
       if signature = secret
       then Inr \<lparr>se_id = ''evt'', se_type = ''payment_intent.succeeded'', se_objectId = Some payload,
                 se_status = Some ''succeeded'', se_errorMessage = None\<rparr>
       else Inl (JsError ''invalid signature''),
     hash_intent = \<lambda>dto. ''intent '' @ show_int (ci_bookingId dto) @ '' '' @ show_int (ci_amount dto),
     hash_confirm = \<lambda>i g. ''confirm '' @ i @ '' '' @ or_str g '''',
     hash_refund = \<lambda>dto. ''refund '' @ cr_paymentId dto @ '' '' @ show_int (cr_amount dto),
     hash_text = \<lambda>s. s, webhookSecret = Some ''whsec'', defaultProcessor = None\<rparr>"

definition sandbox_world :: payment_world where
  "sandbox_world = \<lparr>now = 1000, uuidSrc = show_nat, uuidCtr = 0, serial = 1, faults = [], payments = [],
     refunds = [], idempotency = [], ledger = [], auditLog = [], webhooks = [], stripeLog = [], emitted = [],
     completions = []\<rparr>"

definition sandbox_dto :: CreatePaymentIntentDto where
  "sandbox_dto = \<lparr>ci_bookingId = 7, ci_bookingReference = Some ''BK'', ci_userId = 3, ci_amount = 500,
     ci_currency = None, ci_paymentMethod = Some CARD, ci_gatewayOverride = None, ci_metadata = None\<rparr>"

definition sandbox_ops :: "payment_op list" where
  "sandbox_ops = [CreateIntent sandbox_dto (Some ''k1''), ConfirmIntent ''1'' None (Some ''k2''),
     RequestRefund \<lparr>cr_paymentId = ''1'', cr_bookingId = 7, cr_amount = 200, cr_reason = None\<rparr> (Some ''k3'')]"

lemma sandbox_no_payments: "no_payments sandbox_world"
  by (simp add: no_payments_def sandbox_world_def inj_def)

definition summary :: "payment_world \<Rightarrow> int list \<times> int list \<times> nat" where
  "summary w = (map py_amount (payments w), map rf_amount (refunds w), length (ledger w))"

lemma sandbox_ran: "summary (run_steps (payment_exec sandbox) sandbox_world sandbox_ops) = ([500], [200], 4)"
  by code_simp

lemma summary_payment: "summary w = (a # as, x) \<Longrightarrow> \<exists>p. p \<in> set (payments w) \<and> py_amount p = a"
  by (cases "payments w") (auto simp: summary_def)

lemmas sandbox_payment = summary_payment [OF sandbox_ran]

subsection \<open>Properties\<close>

text \<open>C16. The ledger is a double entry book of the payments and the refunds. After any sequence of requests and
  webhooks, under any failures of the database or the broker and whatever Stripe answers, the refund entries of a
  payment add up on both sides to what was refunded, and the payment itself is booked once on both sides with its
  amount, or on neither.\<close>

theorem ledger_agrees:
  assumes "no_payments w" and "p \<in> set (payments (run_steps (payment_exec pf) w xs))"
  shows "(\<forall>dir. sum_list (booked (py_id p) LE_REFUND dir (ledger (run_steps (payment_exec pf) w xs))) =
      refunded (py_id p) (refunds (run_steps (payment_exec pf) w xs))) \<and>
    ((\<forall>dir. booked (py_id p) LE_PAYMENT dir (ledger (run_steps (payment_exec pf) w xs)) = []) \<or>
     (\<forall>dir. booked (py_id p) LE_PAYMENT dir (ledger (run_steps (payment_exec pf) w xs)) = [py_amount p]))"
  using reached_payment [OF assms] by (simp add: balanced_def)

lemma ledger_agrees_witness:
  "\<exists>p. p \<in> set (payments (run_steps (payment_exec sandbox) sandbox_world sandbox_ops)) \<and> py_amount p = 500 \<and>
    (\<forall>dir. sum_list (booked (py_id p) LE_REFUND dir (ledger (run_steps (payment_exec sandbox) sandbox_world sandbox_ops))) =
      refunded (py_id p) (refunds (run_steps (payment_exec sandbox) sandbox_world sandbox_ops)))"
proof -
  obtain p where p: "p \<in> set (payments (run_steps (payment_exec sandbox) sandbox_world sandbox_ops))" "py_amount p = 500"
    using sandbox_payment by blast
  show ?thesis using p ledger_agrees [OF sandbox_no_payments p(1)] by blast
qed

text \<open>C17. The refunds that succeeded never exceed the payment's amount, whatever is requested and whatever fails.\<close>

theorem refunds_bounded:
  assumes "no_payments w" and "p \<in> set (payments (run_steps (payment_exec pf) w xs))"
  shows "refunded (py_id p) (refunds (run_steps (payment_exec pf) w xs)) \<le> max 0 (py_amount p)"
  using reached_payment [OF assms] by simp

lemma refunds_bounded_witness:
  "\<exists>p. p \<in> set (payments (run_steps (payment_exec sandbox) sandbox_world sandbox_ops)) \<and>
    refunded (py_id p) (refunds (run_steps (payment_exec sandbox) sandbox_world sandbox_ops)) \<le> 500"
proof -
  obtain p where p: "p \<in> set (payments (run_steps (payment_exec sandbox) sandbox_world sandbox_ops))" "py_amount p = 500"
    using sandbox_payment by blast
  show ?thesis using p refunds_bounded [OF sandbox_no_payments p(1)] by auto
qed

end
