(* ===== verification/PaymentReplay.thy ===== *)
theory PaymentReplay
  imports PaymentProps
begin

text \<open>
  Requests and webhooks delivered again: what the idempotency keys and the webhook table of the
  payment service guarantee, and two ways in which they fail to.
\<close>

subsection \<open>The key of a request\<close>

abbreviation is_key :: "string \<Rightarrow> string \<Rightarrow> IdempotencyKey \<Rightarrow> bool" where
  "is_key scope key r \<equiv> ik_scope r = scope \<and> ik_idempotencyKey r = key"

abbreviation key_row :: "string \<Rightarrow> string \<Rightarrow> payment_world \<Rightarrow> IdempotencyKey option" where
  "key_row scope key w \<equiv> find (is_key scope key) (idempotency w)"

lemma find_put_key:
  "find P rows = Some r \<Longrightarrow> P k \<Longrightarrow> ik_id k = ik_id r \<Longrightarrow> find P (put_key k rows) = Some k"
  by (induction rows) (auto simp: put_key_def split: if_splits)

lemma find_put_payment:
  "find P rows = Some r \<Longrightarrow> P p \<Longrightarrow> py_id p = py_id r \<Longrightarrow> find P (put_payment p rows) = Some p"
  by (induction rows) (auto simp: put_payment_def split: if_splits)

text \<open>Programs that leave the keys alone, and add no failures.\<close>

definition same_keys :: "payment_world \<Rightarrow> payment_world \<Rightarrow> bool" where
  "same_keys w v \<longleftrightarrow> idempotency v = idempotency w \<and> (faults w = [] \<longrightarrow> faults v = [])"

interpretation idem: world_relation same_keys
  by unfold_locales (auto simp: same_keys_def)

lemmas idem_intro = idem.stays_intros

named_theorems unkeyed

lemma unkeyed_dbcall: "(\<And>w. same_keys w (snd (f w))) \<Longrightarrow> stays same_keys (dbcall f)"
proof (rule staysI)
  fix w
  assume "\<And>w. same_keys w (snd (f w))"
  from this [of "w\<lparr>faults := tl (faults w)\<rparr>"] show "same_keys w (snd (dbcall f w))"
    by (simp add: dbcall_eq same_keys_def)
qed

lemma unkeyed_freshUuid [unkeyed]: "stays same_keys freshUuid"
  by (simp add: stays_def freshUuid_def same_keys_def)

lemma unkeyed_emit [unkeyed]: "stays same_keys (emit n d)"
  by (simp add: stays_def emit_def modify_def same_keys_def)

lemma unkeyed_audit [unkeyed]: "stays same_keys (createAuditLog a b c d e)"
  unfolding createAuditLog_def by (intro idem_intro unkeyed_dbcall) (simp add: same_keys_def)

lemma unkeyed_askStripe [unkeyed]: "stays same_keys (askStripe c f)"
  by (simp add: stays_def askStripe_def same_keys_def)

lemma unkeyed_create [unkeyed]: "stays same_keys (gateway_create pf g params)"
  by (cases g) (auto simp: gateway_create_def unsupported_def intro!: idem_intro unkeyed)

lemma unkeyed_insert_payment [unkeyed]: "stays same_keys (insert_payment p)"
  unfolding insert_payment_def
  by (intro idem_intro unkeyed unkeyed_dbcall) (simp add: same_keys_def Let_def)

lemma claim_row:
  assumes "claim_key a b scope key hash w = (Inr (x, r), v)" and "faults w = []"
  shows "key_row scope key v = Some r \<and> is_key scope key r \<and> ik_requestHash r = hash \<and> faults v = [] \<and>
    (x \<noteq> None \<longrightarrow> ik_status r = IK_COMPLETED \<and> ik_responseBody r = x)"
proof (cases "key_row scope key w")
  case None
  let ?row = "(new_key scope key hash (now w))\<lparr>ik_id := uuidSrc w (uuidCtr w)\<rparr>"
  have "r = ?row \<and> x = None \<and> v = w\<lparr>uuidCtr := Suc (uuidCtr w), idempotency := idempotency w @ [?row]\<rparr>"
    using assms None
    by (auto simp: claim_key_def find_key_def insert_key_def freshUuid_def Let_def split: if_splits)
  moreover have "find (is_key scope key) (idempotency w @ [?row]) = Some ?row"
    using None by (intro find_last) (auto simp: find_None_iff new_key_def)
  ultimately show ?thesis using assms(2) by (simp add: new_key_def)
next
  case (Some k)
  then have "is_key scope key k" by (auto dest: find_SomeD)
  then show ?thesis
    using assms Some find_put_key [OF Some]
    by (auto simp: claim_key_def find_key_def save_key_def Let_def split: if_splits)
qed

lemma complete_row:
  assumes "completeIdempotency r body ty i w = (Inr x, v)" and "faults w = []"
    and "key_row scope key w = Some r"
  shows "\<exists>k. key_row scope key v = Some k \<and> ik_status k = IK_COMPLETED \<and> ik_responseBody k = Some body \<and>
     ik_requestHash k = ik_requestHash r \<and> is_key scope key k \<and> faults v = []"
proof -
  let ?k = "r\<lparr>ik_status := IK_COMPLETED, ik_resourceType := Some ty, ik_resourceId := Some i,
     ik_responseCode := Some 200, ik_responseBody := Some body, ik_lastError := None, ik_updatedAt := now w\<rparr>"
  have "v = w\<lparr>idempotency := put_key ?k (idempotency w)\<rparr>"
    using assms(1,2) by (auto simp: completeIdempotency_def save_key_def Let_def)
  moreover have "is_key scope key r" using assms(3) by (auto dest: find_SomeD)
  moreover from this have "find (is_key scope key) (put_key ?k (idempotency w)) = Some ?k"
    by (intro find_put_key [OF assms(3)]) simp_all
  ultimately show ?thesis using assms(2) by (intro exI [of _ ?k]) simp
qed

text \<open>What the row of a request to create a payment says once the request was answered with a payment.\<close>

definition answered :: "platform \<Rightarrow> CreatePaymentIntentDto \<Rightarrow> string \<Rightarrow> Payment \<Rightarrow> payment_world \<Rightarrow> bool" where
  "answered pf dto key p w \<longleftrightarrow> (\<exists>k. key_row ''create_payment_intent'' key w = Some k \<and> ik_status k = IK_COMPLETED \<and>
     ik_responseBody k = Some (RPayment p) \<and> ik_requestHash k = hash_intent pf dto)"

lemma tryCatch_rethrows: "tryCatch m (\<lambda>e. andThen (f e) (\<lambda>_. throw e)) w = (Inr a, v) \<Longrightarrow> m w = (Inr a, v)"
  by (auto simp: tryCatch_def andThen_def throw_def split: prod.splits sum.splits)

lemma marking_Inr: "markingFailure scope key m w = (Inr a, v) \<Longrightarrow> m w = (Inr a, v)"
  unfolding markingFailure_def by (rule tryCatch_rethrows)

lemma tx_Inr:
  assumes "payment_tx body w = (Inr a, v)" and "faults w = []"
  shows "\<exists>u. body w = (Inr a, u) \<and> v = u\<lparr>faults := tl (faults u)\<rparr>"
proof -
  obtain r u where "body w = (r, u)" by fastforce
  then show ?thesis
    using assms by (cases r) (auto simp: atomic_def andThen_def external_def [of u] ret_def split: if_splits)
qed

lemma create_new_answered:
  assumes s: "create_intent_new pf dto key g kr w = (Inr p, v)" and "faults w = []"
    and row: "key_row ''create_payment_intent'' key w = Some kr" and hash: "ik_requestHash kr = hash_intent pf dto"
  shows "answered pf dto key p v \<and> faults v = []"
proof -
  obtain intent u u1 x2 u2 u3 where
    1: "gateway_create pf g (intent_params dto) w = (Inr intent, u)" and
    2: "insert_payment (new_payment dto key g intent) u = (Inr p, u1)" and
    3: "completeIdempotency kr (RPayment p) ''payment'' (py_id p) u1 = (Inr x2, u2)" and
    4: "same_keys u2 u3" and 5: "same_keys u3 v"
    using s by (auto simp: create_intent_new_def split: if_splits dest!: staysD [OF unkeyed_audit]
        staysD [OF unkeyed_emit])
  have u1: "same_keys w u1"
    by (rule idem.trans [OF staysD [OF unkeyed_create 1] staysD [OF unkeyed_insert_payment 2]])
  then have "faults u1 = []" "key_row ''create_payment_intent'' key u1 = Some kr"
    using assms(2) row by (simp_all add: same_keys_def)
  from complete_row [OF 3 this] show ?thesis
    using 4 5 hash by (auto simp: answered_def same_keys_def)
qed

lemma create_body_answered:
  assumes s: "create_intent_body pf dto key g w = (Inr p, v)" and f: "faults w = []"
  shows "answered pf dto key p v \<and> faults v = []"
proof -
  obtain existing kr u where c: "claimIdempotency ''create_payment_intent'' key (hash_intent pf dto) w = (Inr (existing, kr), u)"
    and t: "(case existing of
         Some body \<Rightarrow>
           andThen (as_payment body) (\<lambda>p.
           andThen (createAuditLog ''payment'' (py_id p) IDEMPOTENCY_REPLAYED (Some (ci_userId dto))
              [(''scope'', JStr ''create_payment_intent''), (''idempotencyKey'', JStr key)]) (\<lambda>_. ret p))
       | None \<Rightarrow> create_intent_new pf dto key g kr) u = (Inr p, v)"
    using s by (auto simp: create_intent_body_def)
  note row = claim_row [OF c [unfolded claimIdempotency_def] f]
  show ?thesis
  proof (cases existing)
    case None
    then have "create_intent_new pf dto key g kr u = (Inr p, v)" using t by simp
    from create_new_answered [OF this] row show ?thesis by simp
  next
    case (Some body)
    then have "body = RPayment p" and "same_keys u v"
      using t by (auto simp: as_payment_def dest: staysD [OF unkeyed_audit] split: response.splits)
    then show ?thesis using row Some by (auto simp: answered_def same_keys_def)
  qed
qed

lemma createPaymentIntent_Inr:
  assumes "createPaymentIntent pf dto (Some key) w = (Inr p, v)" and "key \<noteq> ''''"
  shows "\<exists>g. resolve pf (ci_paymentMethod dto) (ci_gatewayOverride dto) = Inr g \<and>
     payment_tx (create_intent_body pf dto key g) w = (Inr p, v)"
  using assms
  by (auto simp: createPaymentIntent_def safe_key_def dest: marking_Inr split: sum.splits)

lemma create_answered:
  assumes "createPaymentIntent pf dto (Some key) w = (Inr p, v)" and "key \<noteq> ''''" and "faults w = []"
  shows "answered pf dto key p v \<and> faults v = []"
proof -
  obtain g where "payment_tx (create_intent_body pf dto key g) w = (Inr p, v)"
    using createPaymentIntent_Inr [OF assms(1,2)] by blast
  from tx_Inr [OF this assms(3)] obtain u where
    u: "create_intent_body pf dto key g w = (Inr p, u)" and v: "v = u\<lparr>faults := tl (faults u)\<rparr>"
    by (elim exE conjE) (rule that)
  from create_body_answered [OF u assms(3)] show ?thesis by (simp add: v answered_def)
qed

text \<open>The answer to the same request once its row is complete.\<close>

definition replay_entry :: "CreatePaymentIntentDto \<Rightarrow> string \<Rightarrow> Payment \<Rightarrow> int \<Rightarrow> PaymentAuditLog" where
  "replay_entry dto key p t = \<lparr>al_entityType = ''payment'', al_entityId = py_id p, al_action = IDEMPOTENCY_REPLAYED,
     al_userId = Some (ci_userId dto), al_changes = [(''scope'', JStr ''create_payment_intent''), (''idempotencyKey'', JStr key)],
     al_createdAt = t\<rparr>"

lemma createAuditLog_ok:
  "faults w = [] \<Longrightarrow> createAuditLog a b c d e w =
     (Inr (), w\<lparr>auditLog := auditLog w @ [\<lparr>al_entityType = a, al_entityId = b, al_action = c, al_userId = d,
        al_changes = e, al_createdAt = now w\<rparr>]\<rparr>)"
  by (simp add: createAuditLog_def tryCatch_def)

lemma replay_body:
  assumes "answered pf dto key p w" and "faults w = []"
  shows "create_intent_body pf dto key g w = (Inr p, w\<lparr>auditLog := auditLog w @ [replay_entry dto key p (now w)]\<rparr>)"
proof -
  obtain k where k: "key_row ''create_payment_intent'' key w = Some k" "ik_status k = IK_COMPLETED"
    "ik_responseBody k = Some (RPayment p)" "ik_requestHash k = hash_intent pf dto"
    using assms(1) by (auto simp: answered_def)
  then have "claimIdempotency ''create_payment_intent'' key (hash_intent pf dto) w = (Inr (Some (RPayment p), k), w)"
    using assms(2) by (simp add: claimIdempotency_def claim_key_def find_key_def andThen_def ret_def)
  then show ?thesis
    using createAuditLog_ok [OF assms(2)]
    by (simp add: create_intent_body_def andThen_def as_payment_def ret_def replay_entry_def)
qed

text \<open>Calls to Stripe, and programs that make none.\<close>

definition same_log :: "payment_world \<Rightarrow> payment_world \<Rightarrow> bool" where
  "same_log w v \<longleftrightarrow> stripeLog v = stripeLog w"

interpretation slog: world_relation same_log
  by unfold_locales (auto simp: same_log_def)

lemmas slog_intro = slog.stays_intros

named_theorems silent

lemma silent_dbcall: "(\<And>w. same_log w (snd (f w))) \<Longrightarrow> stays same_log (dbcall f)"
proof (rule staysI)
  fix w
  assume "\<And>w. same_log w (snd (f w))"
  from this [of "w\<lparr>faults := tl (faults w)\<rparr>"] show "same_log w (snd (dbcall f w))"
    by (simp add: dbcall_eq same_log_def)
qed

lemma silent_emit [silent]: "stays same_log (emit n d)"
  by (simp add: stays_def emit_def modify_def same_log_def)

lemma silent_freshUuid [silent]: "stays same_log freshUuid"
  by (simp add: stays_def freshUuid_def same_log_def)

lemma silent_audit [silent]: "stays same_log (createAuditLog a b c d e)"
  unfolding createAuditLog_def by (intro slog_intro silent_dbcall) (simp add: same_log_def)

lemma silent_insert_payment [silent]: "stays same_log (insert_payment p)"
  unfolding insert_payment_def
  by (intro slog_intro silent silent_dbcall) (simp add: same_log_def Let_def)

lemma silent_save_key [silent]: "stays same_log (save_key k)"
  unfolding save_key_def by (rule silent_dbcall) (simp add: same_log_def Let_def)

lemma silent_complete [silent]: "stays same_log (completeIdempotency r b t i)"
  unfolding completeIdempotency_def by (intro slog_intro silent)

lemma silent_markFailed [silent]: "stays same_log (markIdempotencyAsFailed s k e)"
  unfolding markIdempotencyAsFailed_def find_key_def dbquery_def
  by (intro slog_intro silent silent_dbcall) (simp add: same_log_def)

lemma create_new_asks:
  "stripeLog (snd (create_intent_new pf dto key Stripe kr w)) = stripeLog w @ [SC_Create (stripe_params (intent_params dto))]"
proof -
  let ?w = "w\<lparr>stripeLog := stripeLog w @ [SC_Create (stripe_params (intent_params dto))]\<rparr>"
  have "same_log ?w (snd (create_intent_new pf dto key Stripe kr w))"
  proof (cases "stripe_create pf (length (stripeLog w)) (stripe_params (intent_params dto))")
    case (Inl e)
    then show ?thesis
      by (simp add: create_intent_new_def gateway_create_def askStripe_def andThen_def same_log_def)
  next
    case (Inr si)
    let ?i = "\<lparr>gi_id = si_id si, gi_gatewayPaymentId = si_id si, gi_status = si_status si, gi_clientSecret = si_clientSecret si\<rparr>"
    let ?rest = "andThen (if ci_paymentMethod dto = None then throw invalid_column
              else insert_payment (new_payment dto key Stripe ?i)) (\<lambda>saved.
     andThen (completeIdempotency kr (RPayment saved) ''payment'' (py_id saved)) (\<lambda>_.
     andThen (createAuditLog ''payment'' (py_id saved) INTENT_CREATED (Some (ci_userId dto))
        [(''bookingId'', JNum (ci_bookingId dto)), (''amount'', JNum (ci_amount dto)),
         (''currency'', JStr (dto_currency dto)), (''gateway'', JStr (py_gateway saved)),
         (''idempotencyKey'', JStr key)]) (\<lambda>_.
     andThen (emit ''payment.intent.created''
        ([(''paymentId'', JStr (py_id saved)), (''bookingId'', JNum (py_bookingId saved)),
          (''amount'', JNum (py_amount saved))] @ jopt ''clientSecret'' (py_clientSecret saved))) (\<lambda>_.
     ret saved))))"
    have "stays same_log ?rest" by (intro slog_intro silent)
    moreover have "create_intent_new pf dto key Stripe kr w = ?rest ?w"
      using Inr by (simp add: create_intent_new_def gateway_create_def askStripe_def andThen_def ret_def)
    ultimately show ?thesis by (simp add: stays_def)
  qed
  then show ?thesis by (simp add: same_log_def)
qed

lemma tx_log: "faults w = [] \<Longrightarrow> stripeLog (snd (payment_tx body w)) = stripeLog (snd (body w))"
proof -
  assume f: "faults w = []"
  obtain r u where "body w = (r, u)" by fastforce
  then show ?thesis
    using f by (cases r) (auto simp: atomic_def andThen_def external_def [of u] ret_def rollback_def)
qed

lemma failed_key_calls_stripe:
  assumes "key_row ''create_payment_intent'' key u = Some k" and "ik_status k = IK_FAILED"
    and "ik_requestHash k = hash_intent pf dto \<and> faults u = []" and "key \<noteq> ''''"
    and "resolve pf (ci_paymentMethod dto) (ci_gatewayOverride dto) = Inr Stripe"
  shows "stripeLog (snd (createPaymentIntent pf dto (Some key) u)) =
      stripeLog u @ [SC_Create (stripe_params (intent_params dto))]"
proof -
  let ?k = "k\<lparr>ik_updatedAt := now u\<rparr>"
  let ?u = "u\<lparr>idempotency := put_key ?k (idempotency u)\<rparr>"
  have "claimIdempotency ''create_payment_intent'' key (hash_intent pf dto) u = (Inr (None, ?k), ?u)"
    using assms(1-3)
    by (simp add: claimIdempotency_def claim_key_def find_key_def save_key_def andThen_def ret_def Let_def)
  then have "stripeLog (snd (create_intent_body pf dto key Stripe u)) = stripeLog u @ [SC_Create (stripe_params (intent_params dto))]"
    using create_new_asks [of pf dto key ?k ?u] by (simp add: create_intent_body_def andThen_def)
  then have "stripeLog (snd (payment_tx (create_intent_body pf dto key Stripe) u)) =
      stripeLog u @ [SC_Create (stripe_params (intent_params dto))]"
    using tx_log assms(3) by metis
  moreover have "stays same_log (andThen (markIdempotencyAsFailed ''create_payment_intent'' key e) (\<lambda>_. throw e)
      :: (payment_world, Payment) prog)" for e
    by (intro slog_intro silent)
  then have "stripeLog (snd ((andThen (markIdempotencyAsFailed ''create_payment_intent'' key e) (\<lambda>_. throw e)
      :: (payment_world, Payment) prog) x)) = stripeLog x" for e x
    by (simp add: stays_def same_log_def)
  ultimately show ?thesis
    using assms(4,5)
    by (auto simp: createPaymentIntent_def safe_key_def andThen_def [of "ret key"] ret_def markingFailure_def tryCatch_def
        split: prod.split sum.split)
qed

text \<open>Programs that publish no completed payment and leave the payments alone.\<close>

definition unannounced :: "payment_world \<Rightarrow> payment_world \<Rightarrow> bool" where
  "unannounced w v \<longleftrightarrow> completions v = completions w \<and> payments v = payments w"

interpretation unann: world_relation unannounced
  by unfold_locales (auto simp: unannounced_def)

lemmas unann_intro = unann.stays_intros

named_theorems quietly

lemma quietly_dbcall: "(\<And>w. unannounced w (snd (f w))) \<Longrightarrow> stays unannounced (dbcall f)"
proof (rule staysI)
  fix w
  assume "\<And>w. unannounced w (snd (f w))"
  from this [of "w\<lparr>faults := tl (faults w)\<rparr>"] show "unannounced w (snd (dbcall f w))"
    by (simp add: dbcall_eq unannounced_def)
qed

lemma quietly_dbquery [quietly]: "stays unannounced (dbquery f)"
  unfolding dbquery_def by (rule quietly_dbcall) (simp add: unannounced_def)

lemma quietly_freshUuid [quietly]: "stays unannounced freshUuid"
  by (simp add: stays_def freshUuid_def unannounced_def)

lemma quietly_safe_key [quietly]: "stays unannounced (safe_key k)"
  unfolding safe_key_def by (intro unann_intro quietly)

lemma quietly_audit [quietly]: "stays unannounced (createAuditLog a b c d e)"
  unfolding createAuditLog_def by (intro unann_intro quietly_dbcall) (simp add: unannounced_def)

lemma quietly_find_key [quietly]: "stays unannounced (find_key s k)"
  unfolding find_key_def by (rule quietly)

lemma quietly_find_payment [quietly]: "stays unannounced (find_payment p)"
  unfolding find_payment_def by (rule quietly)

lemma quietly_save_key [quietly]: "stays unannounced (save_key k)"
  unfolding save_key_def by (rule quietly_dbcall) (simp add: unannounced_def Let_def)

lemma quietly_insert_key [quietly]: "stays unannounced (insert_key s k h)"
  unfolding insert_key_def by (intro unann_intro quietly quietly_dbcall) (simp add: unannounced_def Let_def)

lemma quietly_claim [quietly]: "stays unannounced (claimIdempotency s k h)"
  unfolding claimIdempotency_def claim_key_def by (intro unann_intro quietly)

lemma quietly_complete [quietly]: "stays unannounced (completeIdempotency r b t i)"
  unfolding completeIdempotency_def by (intro unann_intro quietly)

lemma quietly_markFailed [quietly]: "stays unannounced (markIdempotencyAsFailed s k e)"
  unfolding markIdempotencyAsFailed_def by (intro unann_intro quietly)

lemma quietly_ledger [quietly]: "stays unannounced (createPaymentLedgerEntries p x)"
  unfolding createPaymentLedgerEntries_def insert_entries_def
  by (intro unann_intro quietly quietly_dbcall) (simp add: unannounced_def)

lemma quietly_askStripe [quietly]: "stays unannounced (askStripe c f)"
  by (simp add: stays_def askStripe_def unannounced_def)

lemma quietly_capture [quietly]: "stays unannounced (gateway_capture pf g i)"
  by (cases g)
    (auto simp: gateway_capture_def stripe_capturePayment_def unsupported_def Let_def intro!: unann_intro quietly)

text \<open>A payment that is settled is answered as it is, without a gateway's verdict and so without an announcement.\<close>

lemma settled_body:
  assumes p: "find (\<lambda>p. py_id p = i) (payments w) = Some p" and st: "settled (py_status p)"
  shows "unannounced w (snd (confirm_body pf i g key w)) \<and>
    (\<forall>q res v. confirm_body pf i g key w = (Inr (q, res), v) \<longrightarrow> res = None)"
proof -
  obtain c u where c: "claimIdempotency (confirm_scope i) key (hash_confirm pf i g) w = (c, u)" by fastforce
  have u: "unannounced w u" by (rule staysD [OF quietly_claim c])
  show ?thesis
  proof (cases c)
    case (Inl e)
    then show ?thesis using c u by (simp add: confirm_body_def andThen_def)
  next
    case (Inr x)
    obtain existing kr where x: "x = (existing, kr)" by fastforce
    show ?thesis
    proof (cases existing)
      case (Some body)
      then show ?thesis
        using c Inr x u by (cases body) (auto simp: confirm_body_def andThen_def as_payment_def ret_def throw_def)
    next
      case None
      let ?rest = "andThen (completeIdempotency kr (RPayment p) ''payment'' (py_id p)) (\<lambda>_. ret (p, None :: PaymentResult option))"
      obtain r v where f: "find_payment (\<lambda>p. py_id p = i) u = (r, v)" by fastforce
      have v: "unannounced w v" by (rule unann.trans [OF u staysD [OF quietly_find_payment f]])
      have r: "r = Inl down \<or> r = Inr (Some p)"
        using f p u by (auto simp: find_payment_def dbquery_eq unannounced_def split: if_splits)
      have rest: "stays unannounced ?rest" by (intro unann_intro quietly)
      then have "unannounced w (snd (?rest v))" using unann.trans [OF v] by (simp add: stays_def)
      then show ?thesis
        using c Inr x None f r st v by (auto simp: confirm_body_def andThen_def [of "claimIdempotency _ _ _"]
            andThen_def [of "find_payment _"])
    qed
  qed
qed

lemma settled_never_announced:
  assumes p: "find (\<lambda>p. py_id p = i) (payments w) = Some p" and st: "settled (py_status p)"
  shows "completions (snd (confirmPaymentIntent pf i g key w)) = completions w"
proof -
  have body: "unannounced u (snd (payment_tx (confirm_body pf i g k) u)) \<and>
      (\<forall>q res v. payment_tx (confirm_body pf i g k) u = (Inr (q, res), v) \<longrightarrow> res = None)"
    if "unannounced w u" for u k
  proof -
    let ?u = "u\<lparr>faults := tl (faults u)\<rparr>"
    have "find (\<lambda>p. py_id p = i) (payments ?u) = Some p" using that p by (simp add: unannounced_def)
    note b = settled_body [OF this st, of pf g k]
    obtain r v where v: "confirm_body pf i g k ?u = (r, v)" by fastforce
    show ?thesis
      using b v by (cases r) (auto simp: atomic_def andThen_def external_def ret_def unannounced_def rollback_def)
  qed
  have marked: "unannounced w (snd (markingFailure (confirm_scope i) k
      (andThen (payment_tx (confirm_body pf i g k)) (\<lambda>(p, result).
         case result of None \<Rightarrow> ret p | Some r \<Rightarrow> andThen (announce p r) (\<lambda>_. ret p))) u))"
    if u: "unannounced w u" for u k
  proof -
    obtain r v where v: "payment_tx (confirm_body pf i g k) u = (r, v)" by fastforce
    have "unannounced w v" using unann.trans [OF u] body [OF u, of k] v by simp
    moreover have "stays unannounced (andThen (markIdempotencyAsFailed (confirm_scope i) k e) (\<lambda>_. throw e)
        :: (payment_world, Payment) prog)" for e
      by (intro unann_intro quietly)
    then have "unannounced v (snd ((andThen (markIdempotencyAsFailed (confirm_scope i) k e) (\<lambda>_. throw e)
        :: (payment_world, Payment) prog) v))" for e
      by (simp add: stays_def)
    ultimately have fail: "unannounced w (snd ((andThen (markIdempotencyAsFailed (confirm_scope i) k e) (\<lambda>_. throw e)
        :: (payment_world, Payment) prog) v))" for e
      using unann.trans by blast
    show ?thesis
      using v fail \<open>unannounced w v\<close> body [OF u, of k]
      by (cases r) (auto simp: markingFailure_def tryCatch_def andThen_def [of "payment_tx _"] ret_def)
  qed
  obtain r u where s: "safe_key key w = (r, u)" by fastforce
  have u: "unannounced w u" by (rule staysD [OF quietly_safe_key s])
  show ?thesis
  proof (cases r)
    case (Inl e)
    then show ?thesis using s u by (simp add: confirmPaymentIntent_def andThen_def unannounced_def)
  next
    case (Inr k)
    obtain a v where a: "createAuditLog ''payment'' i PAYMENT_CONFIRMATION_REQUESTED None [(''idempotencyKey'', JStr k)] u = (a, v)"
      by fastforce
    have v: "unannounced w v" by (rule unann.trans [OF u staysD [OF quietly_audit a]])
    show ?thesis
      using s a Inr v marked [OF v, of k]
      by (cases a) (simp_all add: confirmPaymentIntent_def andThen_def [of "safe_key _"] andThen_def [of "createAuditLog _ _ _ _ _"] unannounced_def)
  qed
qed

lemma capture_confirms:
  assumes s: "capture_payment pf gid p kr w = (Inr (q, Some result), v)" and "gr_success result"
    and f: "find (\<lambda>p. py_id p = i) (payments w) = Some p"
  shows "find (\<lambda>p. py_id p = i) (payments v) = Some q \<and> py_status q = PY_CONFIRMED \<and> completions v = completions w"
proof -
  obtain g where g: "getByName (py_gateway p) = Inr g"
    using s by (auto simp: capture_payment_def split: sum.splits)
  obtain u t u1 u2 u3 where
    1: "gateway_capture pf g (or_str gid (py_gatewayPaymentId p)) w = (Inr result, u)"
    and 2: "save_payment (confirmed_payment p result t) u = (Inr q, u1)"
    and 3: "unannounced u1 u2" "unannounced u2 u3" "unannounced u3 v"
    using s g assms(2) by (auto simp: capture_payment_def dest!: staysD [OF quietly_ledger] staysD [OF quietly_complete]
        staysD [OF quietly_audit])
  have u: "unannounced w u" by (rule staysD [OF quietly_capture 1])
  have q: "py_id q = py_id p" "py_status q = PY_CONFIRMED" and u1: "payments u1 = put_payment q (payments u)" "completions u1 = completions u"
    using 2 assms(2) by (auto simp: save_payment_def dbcall_eq Let_def confirmed_payment_def split: if_splits)
  have "py_id p = i" using find_SomeD [OF f] by simp
  then have "find (\<lambda>p. py_id p = i) (payments u1) = Some q"
    using find_put_payment [of _ "payments u" p q] f u q u1 by (simp add: unannounced_def)
  then show ?thesis using 3 u q u1 by (simp add: unannounced_def)
qed

lemma confirm_body_confirms:
  assumes s: "confirm_body pf i gid key w = (Inr (q, Some result), v)" and "gr_success result"
  shows "find (\<lambda>p. py_id p = i) (payments v) = Some q \<and> py_status q = PY_CONFIRMED \<and> completions v = completions w"
proof -
  obtain existing kr u where c: "claimIdempotency (confirm_scope i) key (hash_confirm pf i gid) w = (Inr (existing, kr), u)"
    and t: "(case existing of
           Some body \<Rightarrow> andThen (as_payment body) (\<lambda>p. ret (p, None))
         | None \<Rightarrow>
             andThen (find_payment (\<lambda>p. py_id p = i)) (\<lambda>found.
               case found of
                 None \<Rightarrow> throw (NotFound (''Payment '' @ i @ '' not found''))
               | Some p \<Rightarrow>
                   if settled (py_status p)
                   then andThen (completeIdempotency kr (RPayment p) ''payment'' (py_id p)) (\<lambda>_. ret (p, None))
                   else capture_payment pf gid p kr)) u = (Inr (q, Some result), v)"
    using s by (auto simp: confirm_body_def)
  obtain p u1 where f: "find_payment (\<lambda>p. py_id p = i) u = (Inr (Some p), u1)"
    and cap: "capture_payment pf gid p kr u1 = (Inr (q, Some result), v)"
    using t by (auto split: option.splits if_splits)
  have "find (\<lambda>p. py_id p = i) (payments u1) = Some p"
    using f by (auto simp: find_payment_def dbquery_eq split: if_splits)
  then show ?thesis
    using capture_confirms [OF cap assms(2)] staysD [OF quietly_claim c] staysD [OF quietly_find_payment f]
    by (simp add: unannounced_def)
qed

lemma tx_confirms:
  assumes "payment_tx (confirm_body pf i gid key) w = (Inr (q, Some result), v)" and "gr_success result"
  shows "find (\<lambda>p. py_id p = i) (payments v) = Some q \<and> py_status q = PY_CONFIRMED \<and> completions v = completions w"
proof -
  let ?w = "w\<lparr>faults := tl (faults w)\<rparr>"
  obtain r u where b: "confirm_body pf i gid key ?w = (r, u)" by fastforce
  then have r: "r = Inr (q, Some result)" and v: "v = u\<lparr>faults := tl (faults u)\<rparr>"
    using assms(1) by (cases r; auto simp: atomic_def andThen_def external_def ret_def split: if_splits)+
  from confirm_body_confirms [OF b [unfolded r] assms(2)] show ?thesis by (simp add: v)
qed

subsection \<open>Properties\<close>

text \<open>C18. A request to create a payment that was answered and is sent again with its idempotency key gets the same
  payment back: no second call to Stripe, no second payment, and nothing else changes but for one entry of the audit
  log. It does not matter what happened in between as long as the key's row is as the first request left it.\<close>

theorem create_intent_replay:
  assumes "createPaymentIntent pf dto (Some key) w = (Inr p, v)" and "key \<noteq> ''''" and "faults w = []"
    and "key_row ''create_payment_intent'' key u = key_row ''create_payment_intent'' key v" and "faults u = []"
  shows "createPaymentIntent pf dto (Some key) u =
    (Inr p, u\<lparr>auditLog := auditLog u @ [replay_entry dto key p (now u)]\<rparr>)"
proof -
  obtain g where g: "resolve pf (ci_paymentMethod dto) (ci_gatewayOverride dto) = Inr g"
    using createPaymentIntent_Inr [OF assms(1,2)] by blast
  have "answered pf dto key p u"
    using create_answered [OF assms(1-3)] assms(4) by (simp add: answered_def)
  from replay_body [OF this assms(5)] show ?thesis
    using g assms(2,5)
    by (simp add: createPaymentIntent_def safe_key_def andThen_def ret_def markingFailure_def tryCatch_def atomic_ok)
qed

text \<open>C20. A key reused with another payload is refused, and the refusal destroys what the key protects: the row of
  the completed request is marked as failed, and when the first request is sent again Stripe is asked to create a
  second payment intent.\<close>

theorem conflict_charges_again:
  assumes "createPaymentIntent pf dto (Some key) w = (Inr p, v)" and "key \<noteq> ''''" and "faults w = []"
    and "resolve pf (ci_paymentMethod dto) (ci_gatewayOverride dto) = Inr Stripe"
    and "resolve pf (ci_paymentMethod other) (ci_gatewayOverride other) = Inr g"
    and "hash_intent pf other \<noteq> hash_intent pf dto"
    and "createPaymentIntent pf other (Some key) v = (r, u)"
  shows "r = Inl (Conflict (''Idempotency key '' @ key @ '' was reused with a different payload'')) \<and>
    map_option ik_status (key_row ''create_payment_intent'' key v) = Some IK_COMPLETED \<and>
    map_option ik_status (key_row ''create_payment_intent'' key u) = Some IK_FAILED \<and>
    stripeLog (snd (createPaymentIntent pf dto (Some key) u)) =
      stripeLog u @ [SC_Create (stripe_params (intent_params dto))]"
proof -
  obtain k where k: "key_row ''create_payment_intent'' key v = Some k" "ik_status k = IK_COMPLETED"
    "ik_requestHash k = hash_intent pf dto" and fv: "faults v = []"
    using create_answered [OF assms(1-3)] by (auto simp: answered_def)
  let ?e = "Conflict (''Idempotency key '' @ key @ '' was reused with a different payload'')"
  let ?k = "k\<lparr>ik_status := IK_FAILED, ik_lastError := Some (exn_message ?e), ik_responseCode := Some 500, ik_updatedAt := now v\<rparr>"
  have "claimIdempotency ''create_payment_intent'' key (hash_intent pf other) v = (Inl ?e, v)"
    using k fv assms(6) by (simp add: claimIdempotency_def claim_key_def find_key_def andThen_def throw_def)
  then have "create_intent_body pf other key g v = (Inl ?e, v)"
    by (simp add: create_intent_body_def andThen_def)
  from atomic_fails [where body = "create_intent_body pf other key g", OF fv this, of rollback]
  have "createPaymentIntent pf other (Some key) v =
      andThen (markIdempotencyAsFailed ''create_payment_intent'' key ?e) (\<lambda>_. throw ?e) v"
    using assms(2,5)
    by (simp add: createPaymentIntent_def safe_key_def andThen_def ret_def markingFailure_def tryCatch_def rollback_def)
  then have u: "r = Inl ?e" "u = v\<lparr>idempotency := put_key ?k (idempotency v)\<rparr>"
    using assms(7) k fv
    by (auto simp: markIdempotencyAsFailed_def find_key_def save_key_def andThen_def ret_def throw_def Let_def)
  have row: "key_row ''create_payment_intent'' key u = Some ?k"
    using find_put_key [OF k(1), of ?k] find_SomeD [OF k(1)] by (simp add: u)
  have "stripeLog (snd (createPaymentIntent pf dto (Some key) u)) =
      stripeLog u @ [SC_Create (stripe_params (intent_params dto))]"
    by (rule failed_key_calls_stripe [OF row _ _ assms(2,4)]) (use k fv u in simp_all)
  then show ?thesis using k row u by simp
qed

text \<open>A captured payment can be lost to the booking service. The message is published after the transaction has
  committed; when the broker refuses it, the client gets an error although the payment is confirmed, and no later
  confirmation, with the same or any other key, publishes it: a settled payment is answered from the table.\<close>

theorem completion_lost:
  assumes "createAuditLog ''payment'' i PAYMENT_CONFIRMATION_REQUESTED None [(''idempotencyKey'', JStr key)] w = (Inr (), w1)"
    and "payment_tx (confirm_body pf i gid key) w1 = (Inr (p, Some result), w2)" and "gr_success result"
    and "getBookingReference p \<noteq> None" and "faults w2 = True # fs" and "key \<noteq> ''''"
    and "confirmPaymentIntent pf i gid (Some key) w = (r, v)"
  shows "r = Inl down \<and> (\<exists>q. find (\<lambda>p. py_id p = i) (payments v) = Some q \<and> py_status q = PY_CONFIRMED) \<and>
    completions v = completions w \<and>
    (\<forall>u gid' key'. payments u = payments v \<longrightarrow> completions (snd (confirmPaymentIntent pf i gid' key' u)) = completions u)"
proof -
  obtain ref where ref: "getBookingReference p = Some ref" using assms(4) by blast
  have w1: "unannounced w w1" by (rule staysD [OF quietly_audit assms(1)])
  have w2: "find (\<lambda>p. py_id p = i) (payments w2) = Some p" "py_status p = PY_CONFIRMED" "completions w2 = completions w1"
    using tx_confirms [OF assms(2,3)] by simp_all
  obtain w3 where a: "announce p result w2 = (Inl down, w3)" and w3: "unannounced w2 w3"
    using ref assms(3,5)
    by (simp add: announce_def emit_def andThen_def modify_def publishPaymentCompletedEvent_def dbcall_eq unannounced_def)
  obtain m w4 where m: "markIdempotencyAsFailed (confirm_scope i) key down w3 = (m, w4)" by fastforce
  have w4: "unannounced w2 w4" by (rule unann.trans [OF w3 staysD [OF quietly_markFailed m]])
  have "m = Inl down \<or> m = Inr ()"
    using m by (auto simp: markIdempotencyAsFailed_def find_key_def save_key_def dbquery_eq dbcall_eq andThen_def ret_def
        Let_def split: if_splits option.splits)
  then have v: "r = Inl down" "v = w4"
    using assms(1,2,6,7) a m
    by (auto simp: confirmPaymentIntent_def safe_key_def andThen_def ret_def markingFailure_def tryCatch_def throw_def)
  have row: "find (\<lambda>p. py_id p = i) (payments v) = Some p" using w2 w4 v by (simp add: unannounced_def)
  have st: "settled (py_status p)" using w2 by (simp add: settled_def)
  have "\<forall>u gid' key'. payments u = payments v \<longrightarrow> completions (snd (confirmPaymentIntent pf i gid' key' u)) = completions u"
    using settled_never_announced [OF _ st] row by simp
  then show ?thesis using v row w1 w2 w4 by (auto simp: unannounced_def)
qed

subsection \<open>Webhooks\<close>

text \<open>Worlds that differ in the audit log and the failure script only.\<close>

definition only_audit :: "payment_world \<Rightarrow> payment_world \<Rightarrow> bool" where
  "only_audit w v \<longleftrightarrow> v\<lparr>auditLog := [], faults := []\<rparr> = w\<lparr>auditLog := [], faults := []\<rparr>"

interpretation oaudit: world_relation only_audit
  by unfold_locales (auto simp: only_audit_def)

lemma only_audit_dbcall: "(\<And>w. only_audit w (snd (f w))) \<Longrightarrow> stays only_audit (dbcall f)"
proof (rule staysI)
  fix w
  assume "\<And>w. only_audit w (snd (f w))"
  from this [of "w\<lparr>faults := tl (faults w)\<rparr>"] show "only_audit w (snd (dbcall f w))"
    by (simp add: dbcall_eq only_audit_def)
qed

lemma only_audit_createAuditLog: "stays only_audit (createAuditLog a b c d e)"
  unfolding createAuditLog_def by (intro oaudit.stays_intros only_audit_dbcall) (simp add: only_audit_def)

lemma only_audit_rollback:
  assumes "only_audit w v"
  shows "rollback w v = v"
proof -
  note eq = assms [unfolded only_audit_def]
  have "payments w = payments v" "refunds w = refunds v" "idempotency w = idempotency v" "ledger w = ledger v"
    "webhooks w = webhooks v"
    using arg_cong [OF eq, of payments] arg_cong [OF eq, of refunds] arg_cong [OF eq, of idempotency]
      arg_cong [OF eq, of ledger] arg_cong [OF eq, of webhooks]
    by simp_all
  then show ?thesis by (simp add: rollback_def)
qed

lemma only_audit_faults: "only_audit w (v\<lparr>faults := fs\<rparr>) \<longleftrightarrow> only_audit w v"
  by (simp add: only_audit_def)

lemma only_audit_tx:
  assumes "only_audit w (snd (body (w\<lparr>faults := tl (faults w)\<rparr>)))"
  shows "only_audit w (snd (payment_tx body w))"
proof -
  obtain r v where v: "body (w\<lparr>faults := tl (faults w)\<rparr>) = (r, v)" by fastforce
  have "only_audit w v" using assms v by simp
  moreover from this have "rollback w v = v" "rollback w (v\<lparr>faults := fs\<rparr>) = v\<lparr>faults := fs\<rparr>"
    "rollback w (w\<lparr>faults := fs\<rparr>) = w\<lparr>faults := fs\<rparr>" for fs
    by (simp_all add: only_audit_rollback only_audit_faults oaudit.refl)
  ultimately show ?thesis
    using v by (cases r) (auto simp: atomic_def andThen_def external_def ret_def only_audit_faults oaudit.refl)
qed

text \<open>The row is found, the delivery is noted and the row returned.\<close>

lemma record_known:
  assumes "find (\<lambda>r. wh_gateway r = gw \<and> wh_eventId r = se_id event) (webhooks w) = Some row"
  shows "only_audit w (snd (record_webhook gw event h w)) \<and>
    (fst (record_webhook gw event h w) = Inl down \<or> fst (record_webhook gw event h w) = Inr row) \<and>
    (faults w = [] \<longrightarrow> fst (record_webhook gw event h w) = Inr row \<and> faults (snd (record_webhook gw event h w)) = [])"
proof -
  let ?log = "createAuditLog ''webhook'' (wh_id row) WEBHOOK_DEDUPED None (webhook_changes gw event)"
  let ?w = "w\<lparr>faults := tl (faults w)\<rparr>"
  obtain x u where x: "?log ?w = (x, u)" by fastforce
  have "only_audit w u" using staysD [OF only_audit_createAuditLog x] by (simp add: only_audit_def)
  moreover have "x = Inr ()" using x by (auto simp: createAuditLog_def tryCatch_def dbcall_eq ret_def split: if_splits)
  moreover have "faults w = [] \<Longrightarrow> faults u = []"
    using x by (auto simp: createAuditLog_def tryCatch_def)
  ultimately show ?thesis
    using x assms by (auto simp: record_webhook_def andThen_def dbquery_eq ret_def only_audit_faults oaudit.refl)
qed

text \<open>C19. A webhook delivered again after it was processed changes nothing but the audit log, whatever fails meanwhile,
  and is acknowledged when nothing fails.\<close>

theorem webhook_redelivered:
  assumes "getByName gw = Inr Stripe" and "truthy (webhookSecret pf)"
    and "constructEvent pf payload sig (the (webhookSecret pf)) = Inr event"
    and "find (\<lambda>r. wh_gateway r = gw \<and> wh_eventId r = se_id event) (webhooks w) = Some row" and "wh_status row = WH_PROCESSED"
  shows "only_audit w (snd (handleWebhook pf gw payload sig w)) \<and>
    (faults w = [] \<longrightarrow> fst (handleWebhook pf gw payload sig w) = Inr ())"
proof -
  let ?body = "record_webhook gw event (hash_text pf payload)"
  let ?w = "w\<lparr>faults := tl (faults w)\<rparr>"
  have verify: "gateway_verifyWebhook pf Stripe payload sig w = (Inr event, w)"
    using assms(2,3) by (simp add: gateway_verifyWebhook_def ret_def)
  note rec = record_known [of gw event ?w row "hash_text pf payload"]
  have quiet: "only_audit w (snd (payment_tx ?body w))"
    using rec assms(4) by (intro only_audit_tx) (simp add: only_audit_def)
  obtain r v where tx: "payment_tx ?body w = (r, v)" by fastforce
  have r: "r = Inl down \<or> r = Inr row"
    using rec assms(4) tx by (auto simp: atomic_def andThen_def external_def ret_def split: if_splits prod.splits sum.splits)
  have ok: "r = Inr row" if "faults w = []"
    using rec assms(4) tx that by (auto simp: atomic_def andThen_def external_def ret_def split: if_splits prod.splits sum.splits)
  have "handleWebhook pf gw payload sig w =
      (case r of Inl e \<Rightarrow> (Inl (BadRequest ''Webhook verification failed''), v) | Inr x \<Rightarrow> (Inr (), v))"
    using verify tx r assms(1,5)
    by (auto simp: handleWebhook_def webhook_body_def andThen_def tryCatch_def throw_def ret_def)
  then show ?thesis using quiet tx ok by (cases r) auto
qed

lemma webhook_redelivered_witness:
  "\<exists>row. only_audit (sandbox_world\<lparr>webhooks := [row]\<rparr>)
      (snd (handleWebhook sandbox ''stripe'' ''pi_0'' ''whsec'' (sandbox_world\<lparr>webhooks := [row]\<rparr>))) \<and>
    fst (handleWebhook sandbox ''stripe'' ''pi_0'' ''whsec'' (sandbox_world\<lparr>webhooks := [row]\<rparr>)) = Inr ()"
proof -
  define event where "event = \<lparr>se_id = ''evt'', se_type = ''payment_intent.succeeded'', se_objectId = Some ''pi_0'',
     se_status = Some ''succeeded'', se_errorMessage = None\<rparr>"
  define row where "row = (new_webhook ''stripe'' event ''pi_0'' 900)\<lparr>wh_id := ''w'', wh_status := WH_PROCESSED\<rparr>"
  have "getByName ''stripe'' = Inr Stripe" by code_simp
  moreover have "truthy (webhookSecret sandbox)" by (simp add: sandbox_def)
  moreover have "constructEvent sandbox ''pi_0'' ''whsec'' (the (webhookSecret sandbox)) = Inr event"
    by (simp add: sandbox_def event_def)
  moreover have "find (\<lambda>r. wh_gateway r = ''stripe'' \<and> wh_eventId r = se_id event) (webhooks (sandbox_world\<lparr>webhooks := [row]\<rparr>)) = Some row"
    "wh_status row = WH_PROCESSED" "faults (sandbox_world\<lparr>webhooks := [row]\<rparr>) = []"
    by (simp_all add: row_def new_webhook_def sandbox_world_def)
  ultimately show ?thesis using webhook_redelivered [of "''stripe''" sandbox "''pi_0''" "''whsec''" event _ row] by blast
qed

text \<open>The sandbox with one payment created and a script of failures that begins with the publication.\<close>

definition created_world :: payment_world where
  "created_world = snd (createPaymentIntent sandbox sandbox_dto (Some ''k1'') sandbox_world)"

lemma created:
  "\<exists>p. createPaymentIntent sandbox sandbox_dto (Some ''k1'') sandbox_world = (Inr p, created_world) \<and> faults created_world = []"
proof -
  have "\<not> isl (fst (createPaymentIntent sandbox sandbox_dto (Some ''k1'') sandbox_world)) \<and> faults created_world = []"
    by code_simp
  then show ?thesis
    by (cases "createPaymentIntent sandbox sandbox_dto (Some ''k1'') sandbox_world"; cases "fst (createPaymentIntent sandbox sandbox_dto (Some ''k1'') sandbox_world)")
      (auto simp: created_world_def)
qed

lemma create_intent_replay_witness:
  "\<exists>p. fst (createPaymentIntent sandbox sandbox_dto (Some ''k1'') sandbox_world) = Inr p \<and>
    createPaymentIntent sandbox sandbox_dto (Some ''k1'') created_world =
      (Inr p, created_world\<lparr>auditLog := auditLog created_world @ [replay_entry sandbox_dto ''k1'' p (now created_world)]\<rparr>)"
proof -
  obtain p where p: "createPaymentIntent sandbox sandbox_dto (Some ''k1'') sandbox_world = (Inr p, created_world)"
    and f: "faults created_world = []"
    using created by blast
  show ?thesis
    using create_intent_replay [OF p _ _ _ f] p by (simp add: sandbox_world_def)
qed

lemma conflict_charges_again_witness:
  "\<exists>u. stripeLog (snd (createPaymentIntent sandbox sandbox_dto (Some ''k1'') u)) =
      stripeLog u @ [SC_Create (stripe_params (intent_params sandbox_dto))] \<and>
    map_option ik_status (key_row ''create_payment_intent'' ''k1'' u) = Some IK_FAILED"
proof -
  let ?other = "sandbox_dto\<lparr>ci_amount := 900\<rparr>"
  obtain p where p: "createPaymentIntent sandbox sandbox_dto (Some ''k1'') sandbox_world = (Inr p, created_world)"
    using created by blast
  have r: "\<not> isl (resolve sandbox (ci_paymentMethod sandbox_dto) (ci_gatewayOverride sandbox_dto)) \<and>
     projr (resolve sandbox (ci_paymentMethod sandbox_dto) (ci_gatewayOverride sandbox_dto)) = Stripe"
    by code_simp
  then have res: "resolve sandbox (ci_paymentMethod sandbox_dto) (ci_gatewayOverride sandbox_dto) = Inr Stripe"
    by (metis sum.collapse(2))
  then have res': "resolve sandbox (ci_paymentMethod ?other) (ci_gatewayOverride ?other) = Inr Stripe" by simp
  have h: "hash_intent sandbox ?other \<noteq> hash_intent sandbox sandbox_dto" by (simp add: sandbox_def sandbox_dto_def)
  obtain r u where u: "createPaymentIntent sandbox ?other (Some ''k1'') created_world = (r, u)" by fastforce
  show ?thesis
    using conflict_charges_again [OF p _ _ res res' h u] by (auto simp: sandbox_world_def)
qed

definition outage_world :: payment_world where
  "outage_world = created_world\<lparr>faults := replicate 12 False @ [True]\<rparr>"

definition asked_world :: payment_world where
  "asked_world = snd (createAuditLog ''payment'' ''1'' PAYMENT_CONFIRMATION_REQUESTED None [(''idempotencyKey'', JStr ''k2'')] outage_world)"

definition captured :: "(exn + Payment \<times> PaymentResult option) \<times> payment_world \<Rightarrow> bool" where
  "captured x = (case x of (Inr (p, Some result), v) \<Rightarrow> gr_success result \<and> getBookingReference p \<noteq> None \<and> faults v = [True]
     | _ \<Rightarrow> False)"

lemma outage_captured: "captured (payment_tx (confirm_body sandbox ''1'' None ''k2'') asked_world)"
  by code_simp

lemma captured_cases:
  "captured x \<Longrightarrow> \<exists>p result v. x = (Inr (p, Some result), v) \<and> gr_success result \<and> getBookingReference p \<noteq> None \<and> faults v = True # []"
  by (cases x; cases "fst x"; cases "projr (fst x)"; cases "snd (projr (fst x))") (auto simp: captured_def)

lemma completion_lost_witness:
  "fst (confirmPaymentIntent sandbox ''1'' None (Some ''k2'') outage_world) = Inl down \<and>
   completions (snd (confirmPaymentIntent sandbox ''1'' None (Some ''k2'') outage_world)) = completions outage_world"
proof -
  obtain p result v where t: "payment_tx (confirm_body sandbox ''1'' None ''k2'') asked_world = (Inr (p, Some result), v)"
    and c: "gr_success result" "getBookingReference p \<noteq> None" "faults v = True # []"
    using captured_cases [OF outage_captured] by blast
  have a: "createAuditLog ''payment'' ''1'' PAYMENT_CONFIRMATION_REQUESTED None [(''idempotencyKey'', JStr ''k2'')] outage_world = (Inr (), asked_world)"
    unfolding asked_world_def by (auto simp: createAuditLog_def tryCatch_def dbcall_eq ret_def outage_world_def)
  obtain r u where u: "confirmPaymentIntent sandbox ''1'' None (Some ''k2'') outage_world = (r, u)" by fastforce
  show ?thesis using completion_lost [OF a t c _ u] u by simp
qed

end
