(* ===== verification/FlightModel.thy ===== *)
theory FlightModel
  imports BookingModel
begin

text \<open>
  The data of the flight service (apps/flight-service/src/entities) and its tables: flights with the
  seats left in each class, the events already handled, and the catalogue of cities, airports,
  airplanes and seats. Times are milliseconds; a \<open>decimal\<close> is a rational number.
\<close>

subsection \<open>Entities\<close>

datatype FlightStatus = FS_SCHEDULED | FS_DELAYED | FS_CANCELLED | FS_DEPARTED | FS_ARRIVED | FS_BOARDING | FS_IN_FLIGHT

record Flight =
  fl_id :: int
  fl_flightNumber :: string
  fl_airplaneId :: int
  fl_departureAirportId :: int
  fl_arrivalAirportId :: int
  fl_departureTime :: int
  fl_arrivalTime :: int
  fl_boardingGate :: "string option"
  fl_terminal :: "string option"
  fl_economyPrice :: rat
  fl_businessPrice :: rat
  fl_firstClassPrice :: rat
  fl_premiumEconomyPrice :: rat
  fl_economySeatsAvailable :: int
  fl_businessSeatsAvailable :: int
  fl_firstClassSeatsAvailable :: int
  fl_premiumEconomySeatsAvailable :: int
  fl_status :: FlightStatus
  fl_version :: int
  fl_createdAt :: int
  fl_updatedAt :: int

text \<open>\<open>Partial<Flight>\<close>: what \<open>repository.create\<close> is given; a property that is missing is \<open>None\<close>.\<close>

record flight_data =
  fd_flightNumber :: "string option"
  fd_airplaneId :: "int option"
  fd_departureAirportId :: "int option"
  fd_arrivalAirportId :: "int option"
  fd_departureTime :: "int option"
  fd_arrivalTime :: "int option"
  fd_boardingGate :: "string option"
  fd_terminal :: "string option"
  fd_economyPrice :: "rat option"
  fd_businessPrice :: "rat option"
  fd_firstClassPrice :: "rat option"
  fd_premiumEconomyPrice :: "rat option"
  fd_economySeatsAvailable :: "int option"
  fd_businessSeatsAvailable :: "int option"
  fd_firstClassSeatsAvailable :: "int option"
  fd_premiumEconomySeatsAvailable :: "int option"

record ProcessedEvent =
  pe_id :: int
  pe_eventId :: string
  pe_eventType :: string
  pe_aggregateId :: string
  pe_processedAt :: int

record City =
  ct_id :: int
  ct_name :: string
  ct_country :: string
  ct_countryCode :: "string option"
  ct_timezone :: "string option"
  ct_latitude :: "rat option"
  ct_longitude :: "rat option"
  ct_active :: bool
  ct_createdAt :: int
  ct_updatedAt :: int

record Airport =
  ap_id :: int
  ap_name :: string
  ap_code :: string
  ap_icaoCode :: "string option"
  ap_address :: "string option"
  ap_city_denormalized :: "string option"
  ap_country_denormalized :: "string option"
  ap_latitude :: "rat option"
  ap_longitude :: "rat option"
  ap_timezone :: "string option"
  ap_cityId :: int
  ap_active :: bool
  ap_createdAt :: int
  ap_updatedAt :: int

record Airplane =
  pl_id :: int
  pl_modelNumber :: string
  pl_manufacturer :: string
  pl_registrationNumber :: "string option"
  pl_totalCapacity :: int
  pl_economySeats :: int
  pl_businessSeats :: int
  pl_firstClassSeats :: int
  pl_premiumEconomySeats :: int
  pl_yearManufactured :: "int option"
  pl_maxRangeKm :: "int option"
  pl_cruisingSpeedKmh :: "int option"
  pl_active :: bool
  pl_createdAt :: int
  pl_updatedAt :: int

datatype SeatType = ST_ECONOMY | ST_BUSINESS | ST_FIRST_CLASS | ST_PREMIUM_ECONOMY

record Seat =
  sr_id :: int
  sr_airplaneId :: int
  sr_row :: int
  sr_col :: string
  sr_seatType :: SeatType
  sr_createdAt :: int
  sr_updatedAt :: int

subsection \<open>The world of the service\<close>

text \<open>One sequence (\<open>serial\<close>) numbers the rows of all tables.\<close>

record flight_world = env +
  flights :: "Flight list"
  processed :: "ProcessedEvent list"
  cities :: "City list"
  airports :: "Airport list"
  airplanes :: "Airplane list"
  seats :: "Seat list"

definition flight_rollback :: "flight_world \<Rightarrow> flight_world \<Rightarrow> flight_world" where
  "flight_rollback w w' = w'\<lparr>flights := flights w, processed := processed w\<rparr>"

abbreviation flight_tx :: "(flight_world, 'a) prog \<Rightarrow> (flight_world, 'a) prog" where
  "flight_tx \<equiv> atomic flight_rollback"

definition db_error :: exn where
  "db_error = JsError ''QueryFailedError''"

subsection \<open>Seat classes\<close>

text \<open>The name of a column of \<open>Flight\<close>, as \<open>keyof Flight\<close> in the source.\<close>

datatype seat_field = EconomySeats | BusinessSeats | FirstClassSeats | PremiumEconomySeats

definition getSeatField :: "string \<Rightarrow> seat_field option" where
  "getSeatField seatClass = map_of
     [(''ECONOMY'', EconomySeats), (''BUSINESS'', BusinessSeats), (''FIRST_CLASS'', FirstClassSeats),
      (''PREMIUM_ECONOMY'', PremiumEconomySeats)] seatClass"

fun seats_in :: "seat_field \<Rightarrow> Flight \<Rightarrow> int" where
  "seats_in EconomySeats f = fl_economySeatsAvailable f"
| "seats_in BusinessSeats f = fl_businessSeatsAvailable f"
| "seats_in FirstClassSeats f = fl_firstClassSeatsAvailable f"
| "seats_in PremiumEconomySeats f = fl_premiumEconomySeatsAvailable f"

fun add_seats :: "seat_field \<Rightarrow> int \<Rightarrow> Flight \<Rightarrow> Flight" where
  "add_seats EconomySeats n f = f\<lparr>fl_economySeatsAvailable := fl_economySeatsAvailable f + n\<rparr>"
| "add_seats BusinessSeats n f = f\<lparr>fl_businessSeatsAvailable := fl_businessSeatsAvailable f + n\<rparr>"
| "add_seats FirstClassSeats n f = f\<lparr>fl_firstClassSeatsAvailable := fl_firstClassSeatsAvailable f + n\<rparr>"
| "add_seats PremiumEconomySeats n f = f\<lparr>fl_premiumEconomySeatsAvailable := fl_premiumEconomySeatsAvailable f + n\<rparr>"

text \<open>
  \<open>manager.increment(Flight, { id }, field, n)\<close>, and \<open>decrement\<close> with the negated number: one UPDATE that
  also counts the version up. The column is an \<open>int\<close>. For a class without a column the entity
  manager throws before it asks the database.
\<close>

definition update_seats :: "int \<Rightarrow> seat_field \<Rightarrow> int \<Rightarrow> flight_world \<Rightarrow> (exn + unit) \<times> flight_world" where
  "update_seats i c n w =
     (if \<exists>f\<in>set (flights w). fl_id f = i \<and> \<not> int4_ok (seats_in c f + n) then (Inl db_error, w)
      else (Inr (), w\<lparr>flights := map (\<lambda>f. if fl_id f = i
             then (add_seats c n f)\<lparr>fl_version := fl_version f + 1, fl_updatedAt := now w\<rparr> else f) (flights w)\<rparr>))"

definition increment :: "int \<Rightarrow> seat_field option \<Rightarrow> int \<Rightarrow> (flight_world, unit) prog" where
  "increment i field n =
     (case field of
        None \<Rightarrow> throw (JsError ''Column undefined was not found in Flight entity.'')
      | Some c \<Rightarrow> dbcall (update_seats i c n))"

definition find_flight :: "int \<Rightarrow> (flight_world, Flight option) prog" where
  "find_flight i = dbquery (\<lambda>w. find (\<lambda>f. fl_id f = i) (flights w))"

lemma add_seats_other [simp]:
  "fl_id (add_seats c n f) = fl_id f" "fl_version (add_seats c n f) = fl_version f"
  by (cases c; simp)+

lemma seats_in_add [simp]: "seats_in d (add_seats c n f) = seats_in d f + (if d = c then n else 0)"
  by (cases c; cases d) simp_all

lemma seats_in_version [simp]:
  "seats_in c (f\<lparr>fl_version := v\<rparr>) = seats_in c f" "seats_in c (f\<lparr>fl_updatedAt := t\<rparr>) = seats_in c f"
  "seats_in c (f\<lparr>fl_status := st\<rparr>) = seats_in c f"
  by (cases c; simp)+

end
