(* ===== verification/FlightService.thy ===== *)
theory FlightService
  imports FlightModel
begin

text \<open>
  Flights and their seats: the consumer of the booking service's events
  (modules/flight/flight.event-handler.ts), the service (services/flight.service.ts) and its repository.
  The consumer is related to an abstract inventory in which every event counts once. The repository registers the
  consumer in no module yet; what is said of it here is what it does with the messages that reach it.
\<close>

subsection \<open>Events of the booking service\<close>

text \<open>\<open>ev_eventId\<close> is \<open>_metadata?.eventId\<close>.\<close>

record FlightSeatEvent =
  ev_flightId :: int
  ev_bookingId :: string
  ev_seatClass :: string
  ev_seatCount :: int
  ev_eventId :: "string option"

datatype seat_event = ReserveSeats | ConfirmSeats | ReleaseSeats

fun event_type :: "seat_event \<Rightarrow> string" where
  "event_type ReserveSeats = ''flight.reserve-seats''"
| "event_type ConfirmSeats = ''flight.confirm-seats''"
| "event_type ReleaseSeats = ''flight.release-seats''"

text \<open>
  \<open>findOne({ where: { eventId } })\<close>: TypeORM leaves a condition that is \<open>undefined\<close> out, so without an
  event id any row is found.
\<close>

definition alreadyProcessed :: "string option \<Rightarrow> (flight_world, bool) prog" where
  "alreadyProcessed eventId = dbquery (\<lambda>w.
     case eventId of None \<Rightarrow> processed w \<noteq> [] | Some e \<Rightarrow> \<exists>r\<in>set (processed w). pe_eventId r = e)"

text \<open>\<open>manager.save(ProcessedEvent, ...)\<close>: the event id is unique and not null.\<close>

definition save_processed :: "string option \<Rightarrow> string \<Rightarrow> string \<Rightarrow> (flight_world, unit) prog" where
  "save_processed eventId eventType aggregateId = dbcall (\<lambda>w.
     case eventId of
       None \<Rightarrow> (Inl db_error, w)
     | Some e \<Rightarrow>
         if \<exists>r\<in>set (processed w). pe_eventId r = e then (Inl db_error, w)
         else (Inr (), w\<lparr>serial := serial w + 1,
                processed := processed w @ [\<lparr>pe_id = serial w, pe_eventId = e, pe_eventType = eventType,
                  pe_aggregateId = aggregateId, pe_processedAt = now w\<rparr>]\<rparr>))"

text \<open>A class without a column gives \<open>undefined\<close> seats, and \<open>undefined < n\<close> is false.\<close>

definition reserve_body :: "FlightSeatEvent \<Rightarrow> (flight_world, unit) prog" where
  "reserve_body msg =
     andThen (find_flight (ev_flightId msg)) (\<lambda>found.
       case found of
         None \<Rightarrow> throw (JsError (''Flight '' @ show_int (ev_flightId msg) @ '' not found''))
       | Some f \<Rightarrow>
           (case getSeatField (ev_seatClass msg) of
              Some c \<Rightarrow>
                if seats_in c f < ev_seatCount msg
                then throw (JsError (''Not enough seats. Requested: '' @ show_int (ev_seatCount msg) @ '', Available: '' @
                       show_int (seats_in c f)))
                else andThen (increment (ev_flightId msg) (Some c) (- ev_seatCount msg)) (\<lambda>_.
                       save_processed (ev_eventId msg) ''flight.reserve-seats'' (ev_bookingId msg))
            | None \<Rightarrow> andThen (increment (ev_flightId msg) None (- ev_seatCount msg)) (\<lambda>_.
                       save_processed (ev_eventId msg) ''flight.reserve-seats'' (ev_bookingId msg))))"

definition handleReserveSeats :: "FlightSeatEvent \<Rightarrow> (flight_world, unit) prog" where
  "handleReserveSeats msg =
     andThen (alreadyProcessed (ev_eventId msg)) (\<lambda>seen.
       if seen then ret () else flight_tx (reserve_body msg))"

definition handleConfirmSeats :: "FlightSeatEvent \<Rightarrow> (flight_world, unit) prog" where
  "handleConfirmSeats msg =
     andThen (alreadyProcessed (ev_eventId msg)) (\<lambda>seen.
       if seen then ret ()
       else flight_tx (save_processed (ev_eventId msg) ''flight.confirm-seats'' (ev_bookingId msg)))"

definition handleReleaseSeats :: "FlightSeatEvent \<Rightarrow> (flight_world, unit) prog" where
  "handleReleaseSeats msg =
     andThen (alreadyProcessed (ev_eventId msg)) (\<lambda>seen.
       if seen then ret ()
       else flight_tx
         (andThen (increment (ev_flightId msg) (getSeatField (ev_seatClass msg)) (ev_seatCount msg)) (\<lambda>_.
            save_processed (ev_eventId msg) ''flight.release-seats'' (ev_bookingId msg))))"

definition deliver :: "seat_event \<Rightarrow> FlightSeatEvent \<Rightarrow> (flight_world, unit) prog" where
  "deliver k msg =
     (case k of
        ReserveSeats \<Rightarrow> handleReserveSeats msg
      | ConfirmSeats \<Rightarrow> handleConfirmSeats msg
      | ReleaseSeats \<Rightarrow> handleReleaseSeats msg)"

subsection \<open>The flight service\<close>

record SharedCreateFlightDto =
  cf_flightNumber :: string
  cf_airplaneId :: int
  cf_departureAirportId :: int
  cf_arrivalAirportId :: int
  cf_departureTime :: int
  cf_arrivalTime :: int
  cf_price :: rat

record SharedSearchFlightDto =
  sf_departureAirport :: "string option"
  sf_arrivalAirport :: "string option"
  sf_date :: "int option"
  sf_flightClass :: "string option"
  sf_passengers :: "int option"

text \<open>\<open>...createDto\<close> has no column but those of the DTO; \<open>price\<close> is not a property of the entity.\<close>

definition flightData :: "SharedCreateFlightDto \<Rightarrow> flight_data" where
  "flightData dto = \<lparr>fd_flightNumber = Some (cf_flightNumber dto), fd_airplaneId = Some (cf_airplaneId dto),
     fd_departureAirportId = Some (cf_departureAirportId dto), fd_arrivalAirportId = Some (cf_arrivalAirportId dto),
     fd_departureTime = Some (cf_departureTime dto), fd_arrivalTime = Some (cf_arrivalTime dto),
     fd_boardingGate = None, fd_terminal = None, fd_economyPrice = None, fd_businessPrice = None,
     fd_firstClassPrice = None, fd_premiumEconomyPrice = None, fd_economySeatsAvailable = None,
     fd_businessSeatsAvailable = None, fd_firstClassSeatsAvailable = None, fd_premiumEconomySeatsAvailable = None\<rparr>"

definition no_nulls :: "flight_data \<Rightarrow> bool" where
  "no_nulls d \<longleftrightarrow> fd_flightNumber d \<noteq> None \<and> fd_airplaneId d \<noteq> None \<and> fd_departureAirportId d \<noteq> None \<and>
     fd_arrivalAirportId d \<noteq> None \<and> fd_departureTime d \<noteq> None \<and> fd_arrivalTime d \<noteq> None \<and>
     fd_economyPrice d \<noteq> None \<and> fd_businessPrice d \<noteq> None \<and> fd_firstClassPrice d \<noteq> None \<and>
     fd_premiumEconomyPrice d \<noteq> None \<and> fd_economySeatsAvailable d \<noteq> None \<and> fd_businessSeatsAvailable d \<noteq> None \<and>
     fd_firstClassSeatsAvailable d \<noteq> None \<and> fd_premiumEconomySeatsAvailable d \<noteq> None"

definition new_flight :: "flight_data \<Rightarrow> int \<Rightarrow> int \<Rightarrow> Flight" where
  "new_flight d i t = \<lparr>fl_id = i, fl_flightNumber = the (fd_flightNumber d), fl_airplaneId = the (fd_airplaneId d),
     fl_departureAirportId = the (fd_departureAirportId d), fl_arrivalAirportId = the (fd_arrivalAirportId d),
     fl_departureTime = the (fd_departureTime d), fl_arrivalTime = the (fd_arrivalTime d),
     fl_boardingGate = fd_boardingGate d, fl_terminal = fd_terminal d,
     fl_economyPrice = round2 (the (fd_economyPrice d)), fl_businessPrice = round2 (the (fd_businessPrice d)),
     fl_firstClassPrice = round2 (the (fd_firstClassPrice d)),
     fl_premiumEconomyPrice = round2 (the (fd_premiumEconomyPrice d)),
     fl_economySeatsAvailable = the (fd_economySeatsAvailable d),
     fl_businessSeatsAvailable = the (fd_businessSeatsAvailable d),
     fl_firstClassSeatsAvailable = the (fd_firstClassSeatsAvailable d),
     fl_premiumEconomySeatsAvailable = the (fd_premiumEconomySeatsAvailable d),
     fl_status = FS_SCHEDULED, fl_version = 1, fl_createdAt = t, fl_updatedAt = t\<rparr>"

definition flight_columns_ok :: "Flight \<Rightarrow> bool" where
  "flight_columns_ok f \<longleftrightarrow> length (fl_flightNumber f) \<le> 20 \<and> varchar_ok 10 (fl_boardingGate f) \<and>
     varchar_ok 10 (fl_terminal f) \<and> fl_departureTime f < fl_arrivalTime f \<and>
     fl_departureAirportId f \<noteq> fl_arrivalAirportId f \<and>
     (\<forall>x\<in>{fl_economyPrice f, fl_businessPrice f, fl_firstClassPrice f, fl_premiumEconomyPrice f}. \<bar>x\<bar> < 100000000) \<and>
     (\<forall>c\<in>{EconomySeats, BusinessSeats, FirstClassSeats, PremiumEconomySeats}. int4_ok (seats_in c f))"

definition create_flight_row :: "flight_data \<Rightarrow> (flight_world, Flight) prog" where
  "create_flight_row d = dbcall (\<lambda>w.
     let row = new_flight d (serial w) (now w)
     in if \<not> no_nulls d \<or> \<not> flight_columns_ok row \<or>
           (\<exists>f\<in>set (flights w). fl_flightNumber f = fl_flightNumber row \<and> fl_departureTime f = fl_departureTime row)
        then (Inl db_error, w)
        else (Inr row, w\<lparr>serial := serial w + 1, flights := flights w @ [row]\<rparr>))"

definition find_airplane :: "int \<Rightarrow> (flight_world, Airplane option) prog" where
  "find_airplane i = dbquery (\<lambda>w. find (\<lambda>p. pl_id p = i) (airplanes w))"

definition find_airport :: "int \<Rightarrow> (flight_world, Airport option) prog" where
  "find_airport i = dbquery (\<lambda>w. find (\<lambda>a. ap_id a = i) (airports w))"

text \<open>\<open>if (!x) throw new NotFoundException(message)\<close>.\<close>

definition require :: "string \<Rightarrow> 'a option \<Rightarrow> ('s, 'a) prog" where
  "require message x = (case x of None \<Rightarrow> throw (NotFound message) | Some a \<Rightarrow> ret a)"

definition create_flight :: "SharedCreateFlightDto \<Rightarrow> (flight_world, Flight) prog" where
  "create_flight dto =
     andThen (find_airplane (cf_airplaneId dto)) (\<lambda>airplane.
     andThen (require (''Airplane '' @ show_int (cf_airplaneId dto) @ '' not found'') airplane) (\<lambda>_.
     andThen (find_airport (cf_departureAirportId dto)) (\<lambda>dep.
     andThen (require (''Departure Airport '' @ show_int (cf_departureAirportId dto) @ '' not found'') dep) (\<lambda>_.
     andThen (find_airport (cf_arrivalAirportId dto)) (\<lambda>arr.
     andThen (require (''Arrival Airport '' @ show_int (cf_arrivalAirportId dto) @ '' not found'') arr) (\<lambda>_.
       create_flight_row (flightData dto)))))))"

text \<open>Airport codes are compared after a left join; the day is the UTC day of the date.\<close>

definition airport_code :: "flight_world \<Rightarrow> int \<Rightarrow> string option" where
  "airport_code w i = map_option ap_code (find (\<lambda>a. ap_id a = i) (airports w))"

definition day_ms :: int where
  "day_ms = 24 * 60 * 60 * 1000"

definition search_match :: "SharedSearchFlightDto \<Rightarrow> flight_world \<Rightarrow> Flight \<Rightarrow> bool" where
  "search_match dto w f \<longleftrightarrow>
     (truthy (sf_departureAirport dto) \<longrightarrow>
        airport_code w (fl_departureAirportId f) = map_option to_upper (sf_departureAirport dto)) \<and>
     (truthy (sf_arrivalAirport dto) \<longrightarrow>
        airport_code w (fl_arrivalAirportId f) = map_option to_upper (sf_arrivalAirport dto)) \<and>
     (case sf_date dto of
        None \<Rightarrow> True
      | Some t \<Rightarrow> let startOfDay = t div day_ms * day_ms
                  in startOfDay \<le> fl_departureTime f \<and> fl_departureTime f \<le> startOfDay + day_ms - 1)"

definition search_flights :: "SharedSearchFlightDto \<Rightarrow> (flight_world, Flight list) prog" where
  "search_flights dto = dbquery (\<lambda>w. filter (search_match dto w) (flights w))"

definition findOne_flight :: "int \<Rightarrow> (flight_world, Flight) prog" where
  "findOne_flight i = andThen (find_flight i) (require (''Flight '' @ show_int i @ '' not found''))"

definition delete_flight :: "int \<Rightarrow> (flight_world, bool) prog" where
  "delete_flight i = dbcall (\<lambda>w.
     (Inr (\<exists>f\<in>set (flights w). fl_id f = i),
      w\<lparr>flights := map (\<lambda>f. if fl_id f = i
          then f\<lparr>fl_status := FS_CANCELLED, fl_version := fl_version f + 1, fl_updatedAt := now w\<rparr> else f) (flights w)\<rparr>))"

definition remove_flight :: "int \<Rightarrow> (flight_world, unit) prog" where
  "remove_flight i = andThen (delete_flight i) (\<lambda>_. ret ())"

text \<open>The listeners of events inside the process; their \<open>getSeatField\<close> rejects an unknown class.\<close>

definition service_getSeatField :: "string \<Rightarrow> (flight_world, seat_field) prog" where
  "service_getSeatField seatClass =
     (case getSeatField seatClass of
        None \<Rightarrow> throw (BadRequest (''Invalid seat class: '' @ seatClass))
      | Some c \<Rightarrow> ret c)"

definition flight_reserveSeats :: "FlightSeatEvent \<Rightarrow> (flight_world, unit) prog" where
  "flight_reserveSeats payload =
     flight_tx (andThen (find_flight (ev_flightId payload)) (\<lambda>found.
       case found of
         None \<Rightarrow> throw (BadRequest ''Flight not found'')
       | Some f \<Rightarrow>
           andThen (service_getSeatField (ev_seatClass payload)) (\<lambda>c.
             if seats_in c f < ev_seatCount payload
             then throw (BadRequest (''Not enough '' @ ev_seatClass payload @ '' seats available. Requested: '' @
                    show_int (ev_seatCount payload) @ '', Available: '' @ show_int (seats_in c f)))
             else increment (ev_flightId payload) (Some c) (- ev_seatCount payload))))"

definition flight_confirmSeats :: "FlightSeatEvent \<Rightarrow> (flight_world, unit) prog" where
  "flight_confirmSeats payload = ret ()"

definition flight_releaseSeats :: "FlightSeatEvent \<Rightarrow> (flight_world, unit) prog" where
  "flight_releaseSeats payload =
     flight_tx (andThen (service_getSeatField (ev_seatClass payload)) (\<lambda>c.
       increment (ev_flightId payload) (Some c) (ev_seatCount payload)))"

datatype flight_op =
  Deliver seat_event FlightSeatEvent
| CreateFlight SharedCreateFlightDto
| SearchFlights SharedSearchFlightDto
| FindFlight int
| DeleteFlight int
| LocalReserve FlightSeatEvent
| LocalConfirm FlightSeatEvent
| LocalRelease FlightSeatEvent
| FlightTick int "bool list"

definition flight_exec :: "flight_world \<Rightarrow> flight_op \<Rightarrow> flight_world" where
  "flight_exec w x =
     (case x of
        Deliver k msg \<Rightarrow> snd (deliver k msg w)
      | CreateFlight dto \<Rightarrow> snd (create_flight dto w)
      | SearchFlights dto \<Rightarrow> snd (search_flights dto w)
      | FindFlight i \<Rightarrow> snd (findOne_flight i w)
      | DeleteFlight i \<Rightarrow> snd (remove_flight i w)
      | LocalReserve msg \<Rightarrow> snd (flight_reserveSeats msg w)
      | LocalConfirm msg \<Rightarrow> snd (flight_confirmSeats msg w)
      | LocalRelease msg \<Rightarrow> snd (flight_releaseSeats msg w)
      | FlightTick t fs \<Rightarrow> w\<lparr>now := max t (now w), faults := fs\<rparr>)"

end
