(* ===== verification/FlightInventory.thy ===== *)
theory FlightInventory
  imports FlightService
begin

text \<open>
  The seats of the flights as an abstract inventory: numbers of seats and the events already counted.
  The handlers refine it, every event counts at most once, and no class is ever oversold.
\<close>

subsection \<open>The inventory\<close>

record inventory =
  iv_seats :: "int \<Rightarrow> seat_field \<Rightarrow> int option"
  iv_seen :: "string set"

definition stock :: "flight_world \<Rightarrow> inventory" where
  "stock w = \<lparr>iv_seats = \<lambda>i c. map_option (seats_in c) (find (\<lambda>f. fl_id f = i) (flights w)),
     iv_seen = pe_eventId ` set (processed w)\<rparr>"

text \<open>What an event does to an inventory in which its id is not yet counted.\<close>

definition set_seats :: "int \<Rightarrow> seat_field \<Rightarrow> int \<Rightarrow> inventory \<Rightarrow> inventory" where
  "set_seats i c n s = s\<lparr>iv_seats := (iv_seats s)(i := (iv_seats s i)(c := Some n))\<rparr>"

definition count_event :: "string \<Rightarrow> inventory \<Rightarrow> inventory" where
  "count_event e s = s\<lparr>iv_seen := insert e (iv_seen s)\<rparr>"

definition event_spec :: "seat_event \<Rightarrow> FlightSeatEvent \<Rightarrow> inventory \<Rightarrow> inventory" where
  "event_spec k m s =
     (case ev_eventId m of
        None \<Rightarrow> s
      | Some e \<Rightarrow>
          if e \<in> iv_seen s then s
          else case k of
            ConfirmSeats \<Rightarrow> count_event e s
          | ReserveSeats \<Rightarrow>
              (case getSeatField (ev_seatClass m) of
                 None \<Rightarrow> s
               | Some c \<Rightarrow> (case iv_seats s (ev_flightId m) c of
                     None \<Rightarrow> s
                   | Some n \<Rightarrow> if n < ev_seatCount m \<or> \<not> int4_ok (n - ev_seatCount m) then s
                               else count_event e (set_seats (ev_flightId m) c (n - ev_seatCount m) s)))
          | ReleaseSeats \<Rightarrow>
              (case getSeatField (ev_seatClass m) of
                 None \<Rightarrow> s
               | Some c \<Rightarrow> (case iv_seats s (ev_flightId m) c of
                     None \<Rightarrow> count_event e s
                   | Some n \<Rightarrow> if \<not> int4_ok (n + ev_seatCount m) then s
                               else count_event e (set_seats (ev_flightId m) c (n + ev_seatCount m) s))))"

definition counted :: "inventory \<Rightarrow> seat_event \<times> FlightSeatEvent \<Rightarrow> bool" where
  "counted s = (\<lambda>(k, m). ev_eventId m \<in> Some ` iv_seen s)"

lemma event_spec_seen: "iv_seen s \<subseteq> iv_seen (event_spec k m s)"
  by (auto simp: event_spec_def count_event_def set_seats_def split: option.splits seat_event.splits)

interpretation consumer: dedup_consumer "\<lambda>s (k, m). event_spec k m s" counted
proof unfold_locales
  fix s x
  assume "counted s x"
  then show "(case x of (k, m) \<Rightarrow> event_spec k m s) = s"
    by (auto simp: counted_def event_spec_def)
next
  fix s x y
  assume "counted s x"
  then show "counted (case y of (k, m) \<Rightarrow> event_spec k m s) x"
    by (auto simp: counted_def split: prod.splits dest: subsetD [OF event_spec_seen])
qed

subsection \<open>Refinement\<close>

definition flight_ids_ok :: "flight_world \<Rightarrow> bool" where
  "flight_ids_ok w \<longleftrightarrow> distinct (map fl_id (flights w))"

lemma stock_faults [simp]: "stock (w\<lparr>faults := fs\<rparr>) = stock w"
  by (simp add: stock_def)

lemma stock_rollback: "stock (flight_rollback w w') = stock w"
  by (simp add: stock_def flight_rollback_def)

lemma find_id:
  "distinct (map fl_id fs) \<Longrightarrow> f \<in> set fs \<Longrightarrow> find (\<lambda>g. fl_id g = fl_id f) fs = Some f"
  by (induction fs) auto

lemma find_updated:
  "(\<And>f. fl_id (g f) = fl_id f) \<Longrightarrow>
     map_option h (find (\<lambda>f. fl_id f = j) (map (\<lambda>f. if fl_id f = i then g f else f) fs)) =
       (if j = i then map_option (\<lambda>f. h (g f)) (find (\<lambda>f. fl_id f = j) fs)
        else map_option h (find (\<lambda>f. fl_id f = j) fs))"
  by (induction fs) auto

text \<open>The update of one flight: fails when the new number does not fit its column.\<close>

definition fits :: "flight_world \<Rightarrow> int \<Rightarrow> seat_field \<Rightarrow> int \<Rightarrow> bool" where
  "fits w i c n \<longleftrightarrow> (case iv_seats (stock w) i c of None \<Rightarrow> True | Some x \<Rightarrow> int4_ok (x + n))"

lemma fits_iff:
  assumes "flight_ids_ok w"
  shows "(\<exists>f\<in>set (flights w). fl_id f = i \<and> \<not> int4_ok (seats_in c f + n)) \<longleftrightarrow> \<not> fits w i c n"
proof (cases "find (\<lambda>f. fl_id f = i) (flights w)")
  case None
  then have "\<forall>f\<in>set (flights w). fl_id f \<noteq> i" by (simp add: find_None_iff)
  then show ?thesis using None by (auto simp: fits_def stock_def)
next
  case (Some r)
  then have "r \<in> set (flights w)" "fl_id r = i" by (auto simp: find_Some_iff)
  moreover have "f = r" if "f \<in> set (flights w)" "fl_id f = i" for f
    using that assms find_id [of "flights w" f] Some by (simp add: flight_ids_ok_def)
  moreover have "fits w i c n \<longleftrightarrow> int4_ok (seats_in c r + n)" by (simp add: fits_def stock_def Some)
  ultimately show ?thesis by blast
qed

lemma update_seats_stock:
  assumes "flight_ids_ok w" and "fits w i c n"
  shows "\<exists>v. update_seats i c n w = (Inr (), v) \<and> faults v = faults w \<and> processed v = processed w \<and>
    stock v = (case iv_seats (stock w) i c of None \<Rightarrow> stock w | Some x \<Rightarrow> set_seats i c (x + n) (stock w))"
proof -
  let ?g = "\<lambda>f. (add_seats c n f)\<lparr>fl_version := fl_version f + 1, fl_updatedAt := now w\<rparr>"
  let ?v = "w\<lparr>flights := map (\<lambda>f. if fl_id f = i then ?g f else f) (flights w)\<rparr>"
  have f: "map_option (seats_in d) (find (\<lambda>f. fl_id f = j) (map (\<lambda>f. if fl_id f = i then ?g f else f) (flights w))) =
      (if j = i then map_option (\<lambda>f. seats_in d f + (if d = c then n else 0)) (find (\<lambda>f. fl_id f = j) (flights w))
       else map_option (seats_in d) (find (\<lambda>f. fl_id f = j) (flights w)))" for j d
    by (subst find_updated) simp_all
  have "iv_seats (stock ?v) =
      iv_seats (case iv_seats (stock w) i c of None \<Rightarrow> stock w | Some x \<Rightarrow> set_seats i c (x + n) (stock w))"
    by (rule ext, rule ext) (auto simp: stock_def f set_seats_def split: option.splits)
  moreover have "iv_seen (stock ?v) =
      iv_seen (case iv_seats (stock w) i c of None \<Rightarrow> stock w | Some x \<Rightarrow> set_seats i c (x + n) (stock w))"
    by (auto simp: stock_def set_seats_def split: option.splits)
  ultimately have "stock ?v = (case iv_seats (stock w) i c of None \<Rightarrow> stock w | Some x \<Rightarrow> set_seats i c (x + n) (stock w))"
    by (intro inventory.equality) simp_all
  moreover have "update_seats i c n w = (Inr (), ?v)"
    using fits_iff [OF assms(1), of i c n] assms(2) unfolding update_seats_def by (metis (no_types, lifting))
  ultimately show ?thesis by (intro exI [of _ ?v]) simp
qed

lemma update_seats_fails: "flight_ids_ok w \<Longrightarrow> \<not> fits w i c n \<Longrightarrow> update_seats i c n w = (Inl db_error, w)"
  using fits_iff [of w i c n] by (simp add: update_seats_def)

text \<open>A statement under a script of failures: it fails, or it does what it does without failures.\<close>

lemma dbcall_cases:
  obtains (fails) "dbcall f w = (Inl down, w\<lparr>faults := tl (faults w)\<rparr>)" "faults w \<noteq> []"
  | (works) "dbcall f w = f (w\<lparr>faults := tl (faults w)\<rparr>)"
  by (cases "faults w \<noteq> [] \<and> hd (faults w)") (auto simp: dbcall_eq)

text \<open>
  The outcome of a transaction: committed with the inventory \<open>s'\<close>, or failed, which without injected
  failures happens only when \<open>s'\<close> is the inventory it started from.
\<close>

definition achieves :: "(flight_world, unit) prog \<Rightarrow> inventory \<Rightarrow> flight_world \<Rightarrow> bool" where
  "achieves m s' w \<longleftrightarrow> (case m w of
      (Inr _, v) \<Rightarrow> stock v = s' \<and> (faults w = [] \<longrightarrow> faults v = [])
    | (Inl _, v) \<Rightarrow> faults w = [] \<longrightarrow> s' = stock w)"

lemma achieves_tx:
  assumes "\<And>fs. achieves body s' (w\<lparr>faults := fs\<rparr>)"
  shows "stock (snd (flight_tx body w)) \<in> {stock w, s'} \<and> (faults w = [] \<longrightarrow> stock (snd (flight_tx body w)) = s')"
proof -
  let ?w = "w\<lparr>faults := tl (faults w)\<rparr>"
  obtain r v where v: "body ?w = (r, v)" by fastforce
  have a: "achieves body s' ?w" by (rule assms)
  show ?thesis
    using a v by (cases r) (auto simp: achieves_def atomic_def andThen_def external_def ret_def stock_rollback)
qed

lemma save_processed_new:
  assumes "e \<notin> iv_seen (stock w)"
  shows "(fst (save_processed (Some e) ty b w) = Inl down \<and> faults w \<noteq> []) \<or>
    (\<exists>v. save_processed (Some e) ty b w = (Inr (), v) \<and> stock v = count_event e (stock w) \<and> (faults w = [] \<longrightarrow> faults v = []))"
  using assms by (auto simp: save_processed_def dbcall_eq stock_def count_event_def)

lemma save_processed_None: "save_processed None ty b w \<noteq> (Inr x, v)"
  by (auto simp: save_processed_def dbcall_eq)

text \<open>Updating a flight and recording the event, the end of both transactions.\<close>

lemma update_and_save_achieves:
  assumes ids: "flight_ids_ok w" and new: "e \<notin> iv_seen (stock w)"
  shows "achieves (andThen (increment i (Some c) n) (\<lambda>_. save_processed (Some e) ty b))
    (if fits w i c n
     then count_event e (case iv_seats (stock w) i c of None \<Rightarrow> stock w | Some x \<Rightarrow> set_seats i c (x + n) (stock w))
     else stock w) w"
proof (cases rule: dbcall_cases [of "update_seats i c n" w])
  case fails
  then show ?thesis by (simp add: achieves_def andThen_def increment_def)
next
  case works
  let ?w = "w\<lparr>faults := tl (faults w)\<rparr>"
  have ids': "flight_ids_ok ?w" and fits': "fits ?w i c n = fits w i c n"
    using ids by (simp_all add: flight_ids_ok_def fits_def)
  show ?thesis
  proof (cases "fits w i c n")
    case False
    then show ?thesis
      using works update_seats_fails [OF ids'] fits' by (simp add: achieves_def andThen_def increment_def)
  next
    case True
    have "stock ?w = stock w" "faults ?w = tl (faults w)" by simp_all
    note same = this
    from True fits' have "fits ?w i c n" by simp
    from update_seats_stock [OF ids' this, unfolded same]
    obtain v where v: "update_seats i c n ?w = (Inr (), v)" "faults v = tl (faults w)"
      and st: "stock v = (case iv_seats (stock w) i c of None \<Rightarrow> stock w | Some x \<Rightarrow> set_seats i c (x + n) (stock w))"
      by blast
    have "e \<notin> iv_seen (stock v)" using new st by (auto simp: set_seats_def split: option.splits)
    from save_processed_new [OF this, of ty b] show ?thesis
      using works v st True by (auto simp: achieves_def andThen_def increment_def split: prod.splits sum.splits)
  qed
qed

lemma find_flight_cases:
  obtains (fails) "find_flight i w = (Inl down, w\<lparr>faults := tl (faults w)\<rparr>)" "faults w \<noteq> []"
  | (works) "find_flight i w = (Inr (find (\<lambda>f. fl_id f = i) (flights w)), w\<lparr>faults := tl (faults w)\<rparr>)"
  by (cases "faults w \<noteq> [] \<and> hd (faults w)") (auto simp: find_flight_def dbquery_eq)

lemma achieves_later:
  "f w = m (w\<lparr>faults := tl (faults w)\<rparr>) \<Longrightarrow> achieves m s' (w\<lparr>faults := tl (faults w)\<rparr>) \<Longrightarrow> achieves f s' w"
  by (auto simp: achieves_def split: prod.splits sum.splits)

lemma reserve_achieves:
  assumes ids: "flight_ids_ok w" and e: "ev_eventId m = Some e" and new: "e \<notin> iv_seen (stock w)"
  shows "achieves (reserve_body m) (event_spec ReserveSeats m (stock w)) w"
proof (cases rule: find_flight_cases [of "ev_flightId m" w])
  case fails
  then show ?thesis by (simp add: achieves_def andThen_def reserve_body_def)
next
  case works
  let ?w = "w\<lparr>faults := tl (faults w)\<rparr>"
  have ids': "flight_ids_ok ?w" using ids by (simp add: flight_ids_ok_def)
  show ?thesis
  proof (cases "find (\<lambda>f. fl_id f = ev_flightId m) (flights w)")
    case None
    then have "iv_seats (stock w) (ev_flightId m) = (\<lambda>_. None)" by (simp add: stock_def)
    then show ?thesis
      using works None new e by (auto simp: achieves_def andThen_def reserve_body_def throw_def event_spec_def split: option.splits)
  next
    case (Some f)
    then have seats: "iv_seats (stock w) (ev_flightId m) c = Some (seats_in c f)" for c by (simp add: stock_def)
    show ?thesis
    proof (cases "getSeatField (ev_seatClass m)")
      case None
      then show ?thesis
        using works Some e new by (auto simp: achieves_def andThen_def reserve_body_def throw_def event_spec_def increment_def)
    next
      case cls: (Some c)
      show ?thesis
      proof (cases "seats_in c f < ev_seatCount m")
        case True
        then show ?thesis
          using works Some cls seats e new by (auto simp: achieves_def andThen_def reserve_body_def throw_def event_spec_def)
      next
        case False
        have spec: "event_spec ReserveSeats m (stock w) =
           (if fits ?w (ev_flightId m) c (- ev_seatCount m)
            then count_event e (case iv_seats (stock ?w) (ev_flightId m) c of None \<Rightarrow> stock ?w
               | Some x \<Rightarrow> set_seats (ev_flightId m) c (x + - ev_seatCount m) (stock ?w))
            else stock ?w)"
          using False cls seats e new by (simp add: event_spec_def fits_def)
        have "reserve_body m w = andThen (increment (ev_flightId m) (Some c) (- ev_seatCount m))
            (\<lambda>_. save_processed (Some e) ''flight.reserve-seats'' (ev_bookingId m)) ?w"
          using works Some cls False e by (simp add: reserve_body_def andThen_def)
        moreover have "e \<notin> iv_seen (stock ?w)" using new by simp
        from update_and_save_achieves [OF ids' this, of "ev_flightId m" c "- ev_seatCount m"]
        have "achieves (andThen (increment (ev_flightId m) (Some c) (- ev_seatCount m))
            (\<lambda>_. save_processed (Some e) ''flight.reserve-seats'' (ev_bookingId m)))
            (event_spec ReserveSeats m (stock w)) ?w"
          unfolding spec .
        ultimately show ?thesis by (rule achieves_later)
      qed
    qed
  qed
qed

lemma release_achieves:
  assumes ids: "flight_ids_ok w" and e: "ev_eventId m = Some e" and new: "e \<notin> iv_seen (stock w)"
  shows "achieves (andThen (increment (ev_flightId m) (getSeatField (ev_seatClass m)) (ev_seatCount m)) (\<lambda>_.
            save_processed (ev_eventId m) ''flight.release-seats'' (ev_bookingId m)))
     (event_spec ReleaseSeats m (stock w)) w"
proof (cases "getSeatField (ev_seatClass m)")
  case None
  then show ?thesis using e new by (simp add: achieves_def andThen_def increment_def throw_def event_spec_def)
next
  case (Some c)
  have "event_spec ReleaseSeats m (stock w) =
     (if fits w (ev_flightId m) c (ev_seatCount m)
      then count_event e (case iv_seats (stock w) (ev_flightId m) c of None \<Rightarrow> stock w
         | Some x \<Rightarrow> set_seats (ev_flightId m) c (x + ev_seatCount m) (stock w))
      else stock w)"
    using Some e new by (simp add: event_spec_def fits_def split: option.splits)
  then show ?thesis using update_and_save_achieves [OF ids new] Some e by simp
qed

lemma confirm_achieves:
  assumes e: "ev_eventId m = Some e" and new: "e \<notin> iv_seen (stock w)"
  shows "achieves (save_processed (ev_eventId m) ''flight.confirm-seats'' (ev_bookingId m)) (event_spec ConfirmSeats m (stock w)) w"
  using save_processed_new [OF new, of "''flight.confirm-seats''" "ev_bookingId m"] e new
  by (auto simp: achieves_def event_spec_def split: prod.splits sum.splits)

text \<open>The transaction of each handler.\<close>

definition event_body :: "seat_event \<Rightarrow> FlightSeatEvent \<Rightarrow> (flight_world, unit) prog" where
  "event_body k m =
     (case k of
        ReserveSeats \<Rightarrow> reserve_body m
      | ConfirmSeats \<Rightarrow> save_processed (ev_eventId m) ''flight.confirm-seats'' (ev_bookingId m)
      | ReleaseSeats \<Rightarrow> andThen (increment (ev_flightId m) (getSeatField (ev_seatClass m)) (ev_seatCount m)) (\<lambda>_.
            save_processed (ev_eventId m) ''flight.release-seats'' (ev_bookingId m)))"

lemma deliver_eq:
  "deliver k m = andThen (alreadyProcessed (ev_eventId m)) (\<lambda>seen. if seen then ret () else flight_tx (event_body k m))"
  by (cases k) (simp_all add: deliver_def event_body_def handleReserveSeats_def handleConfirmSeats_def handleReleaseSeats_def cong: if_cong)

lemma event_body_None: "ev_eventId m = None \<Longrightarrow> event_body k m w \<noteq> (Inr x, v)"
  by (cases k)
    (auto simp: event_body_def reserve_body_def save_processed_None split: option.splits if_splits)

lemma event_body_achieves:
  assumes ids: "flight_ids_ok w" and new: "ev_eventId m \<notin> Some ` iv_seen (stock w)"
  shows "achieves (event_body k m) (event_spec k m (stock w)) w"
proof (cases "ev_eventId m")
  case None
  then show ?thesis
    using event_body_None [OF None, of k w] by (auto simp: achieves_def event_spec_def split: prod.splits sum.splits)
next
  case (Some e)
  then have "e \<notin> iv_seen (stock w)" using new by auto
  then show ?thesis
    using reserve_achieves [OF ids Some] confirm_achieves [OF Some] release_achieves [OF ids Some]
    by (cases k) (simp_all add: event_body_def)
qed

lemma deliver_refines:
  assumes ids: "flight_ids_ok w"
  shows "stock (snd (deliver k m w)) \<in> {stock w, event_spec k m (stock w)} \<and>
    (faults w = [] \<longrightarrow> stock (snd (deliver k m w)) = event_spec k m (stock w))"
proof -
  let ?w = "w\<lparr>faults := tl (faults w)\<rparr>"
  let ?seen = "case ev_eventId m of None \<Rightarrow> processed w \<noteq> [] | Some e \<Rightarrow> \<exists>r\<in>set (processed w). pe_eventId r = e"
  consider (down) "alreadyProcessed (ev_eventId m) w = (Inl down, ?w)" "faults w \<noteq> []"
    | (answer) "alreadyProcessed (ev_eventId m) w = (Inr ?seen, ?w)"
    by (cases "faults w \<noteq> [] \<and> hd (faults w)") (auto simp: alreadyProcessed_def dbquery_eq cong: option.case_cong)
  then show ?thesis
  proof cases
    case down
    then show ?thesis by (simp add: deliver_eq andThen_def)
  next
    case answer
    show ?thesis
    proof (cases ?seen)
      case True
      then have "event_spec k m (stock w) = stock w"
        by (auto simp: event_spec_def stock_def split: option.splits)
      moreover have "stock (snd (deliver k m w)) = stock w"
        using answer True unfolding deliver_eq andThen_def by (simp add: ret_def)
      ultimately show ?thesis by simp
    next
      case False
      have run: "deliver k m w = flight_tx (event_body k m) ?w"
        using answer False unfolding deliver_eq andThen_def by simp
      have new: "ev_eventId m \<notin> Some ` iv_seen (stock w)"
        using False by (auto simp: stock_def)
      have "achieves (event_body k m) (event_spec k m (stock w)) (?w\<lparr>faults := fs\<rparr>)" for fs
        using event_body_achieves [of "?w\<lparr>faults := fs\<rparr>" m k] ids new by (simp add: flight_ids_ok_def)
      from achieves_tx [OF this] show ?thesis unfolding run by auto
    qed
  qed
qed

subsection \<open>Classes that are never oversold\<close>

definition stocked :: "flight_world \<Rightarrow> bool" where
  "stocked w \<longleftrightarrow> distinct (map fl_id (flights w)) \<and> (\<forall>f\<in>set (flights w). \<forall>c. 0 \<le> seats_in c f)"

lemma stocked_faults: "stocked w \<Longrightarrow> stocked (w\<lparr>faults := fs\<rparr>)"
  by (simp add: stocked_def)

lemma stocked_update:
  assumes "stocked w" and "0 \<le> n \<or> (\<exists>f. find (\<lambda>f. fl_id f = i) (flights w) = Some f \<and> 0 \<le> seats_in c f + n)"
  shows "stocked (snd (update_seats i c n w))"
proof -
  have "0 \<le> seats_in c f + n" if "f \<in> set (flights w)" "fl_id f = i" for f
    using assms that find_id [of "flights w" f] by (auto simp: stocked_def)
  then show ?thesis
    using assms(1) by (auto simp: update_seats_def stocked_def comp_def if_distrib [of fl_id] cong: if_cong)
qed

lemma stocked_increment:
  assumes "stocked w" and "\<And>c. fld = Some c \<Longrightarrow> 0 \<le> n \<or> (\<exists>f. find (\<lambda>f. fl_id f = i) (flights w) = Some f \<and> 0 \<le> seats_in c f + n)"
  shows "stocked (snd (increment i fld n w))"
proof (cases fld)
  case None
  then show ?thesis using assms(1) by (simp add: increment_def throw_def)
next
  case (Some c)
  have w: "stocked (w\<lparr>faults := tl (faults w)\<rparr>)" by (rule stocked_faults [OF assms(1)])
  show ?thesis
    using stocked_update [OF w, of n i c] assms(2) [OF Some] w Some by (auto simp: increment_def dbcall_eq)
qed

lemma keeps_stocked_find:
  assumes "\<And>f w. stocked w \<Longrightarrow> find (\<lambda>f. fl_id f = i) (flights w) = Some f \<Longrightarrow> stocked (snd (g (Some f) w))"
    and "keeps stocked (g None)"
  shows "keeps stocked (andThen (find_flight i) g)"
proof (rule keepsI)
  fix w
  assume w: "stocked w"
  show "stocked (snd (andThen (find_flight i) g w))"
  proof (cases rule: find_flight_cases [of i w])
    case fails
    then show ?thesis using w by (simp add: andThen_def stocked_faults)
  next
    case works
    then show ?thesis
      using w assms(1) [OF stocked_faults [OF w]] keepsD [OF assms(2) stocked_faults [OF w]]
      by (cases "find (\<lambda>f. fl_id f = i) (flights w)") (auto simp: andThen_def)
  qed
qed

lemma keeps_stocked_save: "keeps stocked (save_processed e ty b)"
  unfolding save_processed_def
  by (rule keeps_dbcall) (auto simp: stocked_def split: option.splits)

lemma keeps_stocked_tx: "keeps stocked body \<Longrightarrow> keeps stocked (flight_tx body)"
  by (rule keeps_atomic) (auto simp: stocked_def flight_rollback_def)

lemma keeps_stocked_reserve_body: "0 \<le> ev_seatCount m \<Longrightarrow> keeps stocked (reserve_body m)"
  unfolding reserve_body_def
  by (intro keeps_stocked_find)
    (auto intro!: keeps_throw andThen_at [of stocked] stocked_increment keeps_stocked_save simp: throw_def split: option.split)

lemma keeps_stocked_add: "0 \<le> n \<Longrightarrow> keeps stocked (increment i fld n)"
  by (auto simp: keeps_def intro: stocked_increment)

lemma keeps_stocked_deliver:
  assumes "0 \<le> ev_seatCount m"
  shows "keeps stocked (deliver k m)"
proof -
  have "keeps stocked (event_body k m)"
    using assms by (cases k)
      (auto simp: event_body_def intro!: keeps_stocked_reserve_body keeps_stocked_save keeps_stocked_add keeps_intro)
  moreover have "keeps stocked (alreadyProcessed e)" for e
    unfolding alreadyProcessed_def by (rule keeps_dbquery) (rule stocked_faults)
  ultimately show ?thesis
    unfolding deliver_eq by (intro keeps_intro keeps_stocked_tx)
qed

lemma keeps_stocked_getSeatField: "keeps stocked (service_getSeatField c)"
  unfolding service_getSeatField_def by (auto intro: keeps_intro split: option.split)

lemma keeps_stocked_local:
  assumes "0 \<le> ev_seatCount m"
  shows "keeps stocked (flight_reserveSeats m)" "keeps stocked (flight_releaseSeats m)"
proof -
  have found: "stocked (snd (andThen (service_getSeatField cl) (\<lambda>c. if seats_in c f < n then throw (e c)
      else increment i (Some c) (- n)) w))"
    if "stocked w" "find (\<lambda>f. fl_id f = i) (flights w) = Some f" for w f i cl n e
    using that by (auto simp: andThen_def service_getSeatField_def throw_def ret_def intro!: stocked_increment split: option.split)
  show "keeps stocked (flight_reserveSeats m)"
    unfolding flight_reserveSeats_def
    by (intro keeps_stocked_tx keeps_stocked_find) (auto intro: found keeps_throw)
  show "keeps stocked (flight_releaseSeats m)"
    unfolding flight_releaseSeats_def using assms
    by (intro keeps_stocked_tx keeps_andThen keeps_stocked_getSeatField keeps_stocked_add)
qed

text \<open>Creating a flight always violates a not-null constraint.\<close>

lemma not_created: "create_flight_row (flightData dto) w = (Inl down, w\<lparr>faults := tl (faults w)\<rparr>) \<or>
    create_flight_row (flightData dto) w = (Inl db_error, w\<lparr>faults := tl (faults w)\<rparr>)"
  by (simp add: create_flight_row_def dbcall_eq no_nulls_def flightData_def Let_def)

lemma keeps_stocked_create: "keeps stocked (create_flight dto)"
proof -
  have "keeps stocked (create_flight_row (flightData dto))"
  proof (rule keepsI)
    fix w
    assume "stocked w"
    then show "stocked (snd (create_flight_row (flightData dto) w))"
      using not_created [of dto w] by (auto intro: stocked_faults)
  qed
  then show ?thesis
    unfolding create_flight_def find_airplane_def find_airport_def require_def
    by (auto intro!: keeps_intro keeps_dbquery stocked_faults split: option.split)
qed

lemma keeps_stocked_remove: "keeps stocked (remove_flight i)"
  unfolding remove_flight_def delete_flight_def
  by (auto intro!: keeps_intro keeps_dbcall stocked_faults simp: stocked_def comp_def if_distrib [of fl_id] cong: if_cong)

lemma keeps_stocked_reads: "keeps stocked (search_flights dto)" "keeps stocked (findOne_flight i)"
  unfolding search_flights_def findOne_flight_def find_flight_def require_def
  by (auto intro!: keeps_intro keeps_dbquery stocked_faults split: option.split)

text \<open>The condition on the requests: seats are counted in natural numbers.\<close>

fun seat_count_ok :: "flight_world \<Rightarrow> flight_op \<Rightarrow> bool" where
  "seat_count_ok w (Deliver k m) \<longleftrightarrow> 0 \<le> ev_seatCount m"
| "seat_count_ok w (LocalReserve m) \<longleftrightarrow> 0 \<le> ev_seatCount m"
| "seat_count_ok w (LocalRelease m) \<longleftrightarrow> 0 \<le> ev_seatCount m"
| "seat_count_ok w _ \<longleftrightarrow> True"

lemma stocked_tick: "stocked w \<Longrightarrow> stocked (w\<lparr>now := t, faults := fs\<rparr>)"
  by (simp add: stocked_def)

interpretation flight_stock: guarded_machine flight_exec seat_count_ok stocked
proof unfold_locales
  fix w x
  assume "stocked w" "seat_count_ok w x"
  then show "stocked (flight_exec w x)"
    by (cases x) (auto simp: flight_exec_def flight_confirmSeats_def ret_def
        intro: stocked_tick keepsD [OF keeps_stocked_deliver] keepsD [OF keeps_stocked_create] keepsD [OF keeps_stocked_remove]
        keepsD [OF keeps_stocked_reads(1)] keepsD [OF keeps_stocked_reads(2)] keepsD [OF keeps_stocked_local(1)]
        keepsD [OF keeps_stocked_local(2)])
qed

subsection \<open>Every event counts once\<close>

definition same_flight_ids :: "flight_world \<Rightarrow> flight_world \<Rightarrow> bool" where
  "same_flight_ids w v \<longleftrightarrow> map fl_id (flights v) = map fl_id (flights w)"

interpretation fids: world_relation same_flight_ids
  by unfold_locales (auto simp: same_flight_ids_def)

lemma fids_dbcall: "(\<And>w. same_flight_ids w (snd (f w))) \<Longrightarrow> stays same_flight_ids (dbcall f)"
  unfolding dbcall_def
  by (intro fids.stays_andThen) (simp_all add: stays_def external_def same_flight_ids_def)

lemma fids_increment: "stays same_flight_ids (increment i fld n)"
  unfolding increment_def
  by (intro fids.stays_intros fids_dbcall) (auto simp: update_seats_def same_flight_ids_def)

lemma fids_save: "stays same_flight_ids (save_processed e ty b)"
  unfolding save_processed_def
  by (intro fids_dbcall) (auto simp: same_flight_ids_def split: option.split)

lemma fids_body: "stays same_flight_ids (event_body k m)"
  unfolding event_body_def reserve_body_def find_flight_def dbquery_def
  by (cases k) (auto intro!: fids.stays_intros fids_increment fids_save fids_dbcall fids.refl)

lemma fids_deliver: "same_flight_ids w (snd (deliver k m w))"
proof -
  have tx: "stays same_flight_ids (flight_tx (event_body k m))"
  proof (rule staysI)
    fix w
    obtain r v where v: "event_body k m (w\<lparr>faults := tl (faults w)\<rparr>) = (r, v)" by fastforce
    have "same_flight_ids w v" using staysD [OF fids_body v] by (simp add: same_flight_ids_def)
    then show "same_flight_ids w (snd (flight_tx (event_body k m) w))"
      using v by (cases r) (auto simp: atomic_def andThen_def external_def ret_def same_flight_ids_def flight_rollback_def)
  qed
  have "stays same_flight_ids (deliver k m)"
    unfolding deliver_eq alreadyProcessed_def dbquery_def
    by (intro fids.stays_intros tx fids_dbcall) (simp add: fids.refl)
  then show ?thesis by (simp add: stays_def)
qed

lemma ids_ok_deliver: "flight_ids_ok w \<Longrightarrow> flight_ids_ok (snd (deliver k m w))"
  using fids_deliver [of w k m] by (simp add: flight_ids_ok_def same_flight_ids_def)

text \<open>What an event adds to the seats of a class, and the messages the broker may deliver: \<open>sent\<close> is what was published.\<close>

definition effect :: "seat_event \<times> FlightSeatEvent \<Rightarrow> int \<Rightarrow> seat_field \<Rightarrow> int" where
  "effect = (\<lambda>(k, m) i c.
     if ev_flightId m = i \<and> getSeatField (ev_seatClass m) = Some c
     then case k of ReserveSeats \<Rightarrow> - ev_seatCount m | ConfirmSeats \<Rightarrow> 0 | ReleaseSeats \<Rightarrow> ev_seatCount m
     else 0)"

fun delivery_of :: "(string \<Rightarrow> seat_event \<times> FlightSeatEvent) \<Rightarrow> flight_op \<Rightarrow> bool" where
  "delivery_of sent (Deliver k m) \<longleftrightarrow> (\<exists>e. ev_eventId m = Some e \<and> sent e = (k, m))"
| "delivery_of sent (FlightTick t fs) \<longleftrightarrow> True"
| "delivery_of sent _ \<longleftrightarrow> False"

lemma event_spec_effect:
  assumes "iv_seats s i c = Some n" and "ev_eventId m = Some e"
  shows "event_spec k m s = s \<or> (e \<notin> iv_seen s \<and> iv_seen (event_spec k m s) = insert e (iv_seen s) \<and>
     iv_seats (event_spec k m s) i c = Some (n + effect (k, m) i c))"
  using assms by (cases k) (auto simp: event_spec_def effect_def count_event_def set_seats_def split: option.splits)

definition accounted :: "(string \<Rightarrow> seat_event \<times> FlightSeatEvent) \<Rightarrow> inventory \<Rightarrow> int \<Rightarrow> seat_field \<Rightarrow> int \<Rightarrow> flight_world \<Rightarrow> bool" where
  "accounted sent s i c n v \<longleftrightarrow> flight_ids_ok v \<and> iv_seen s \<subseteq> iv_seen (stock v) \<and>
     iv_seats (stock v) i c = Some (n + (\<Sum>e\<in>iv_seen (stock v) - iv_seen s. effect (sent e) i c))"

lemma accounted_deliver:
  assumes a: "accounted sent s i c n w" and e: "ev_eventId m = Some e" and sent: "sent e = (k, m)"
  shows "accounted sent s i c n (snd (deliver k m w))"
proof -
  let ?v = "snd (deliver k m w)"
  have ids: "flight_ids_ok w" and sub: "iv_seen s \<subseteq> iv_seen (stock w)"
    and seats: "iv_seats (stock w) i c = Some (n + (\<Sum>e\<in>iv_seen (stock w) - iv_seen s. effect (sent e) i c))"
    using a by (simp_all add: accounted_def)
  have "stock ?v = stock w \<or> stock ?v = event_spec k m (stock w)"
    using deliver_refines [OF ids, of k m] by blast
  then consider (same) "stock ?v = stock w"
    | (new) "e \<notin> iv_seen (stock w)" "iv_seen (stock ?v) = insert e (iv_seen (stock w))"
        "iv_seats (stock ?v) i c = Some (n + (\<Sum>e\<in>iv_seen (stock w) - iv_seen s. effect (sent e) i c) + effect (k, m) i c)"
    using event_spec_effect [OF seats e, of k] by metis
  then show ?thesis
  proof cases
    case same
    then show ?thesis using a ids_ok_deliver [OF ids] by (simp add: accounted_def)
  next
    case new
    have "iv_seen (stock ?v) - iv_seen s = insert e (iv_seen (stock w) - iv_seen s)"
      using new sub by auto
    moreover have "finite (iv_seen (stock w) - iv_seen s)" by (simp add: stock_def)
    ultimately have "(\<Sum>e\<in>iv_seen (stock ?v) - iv_seen s. effect (sent e) i c) =
        effect (k, m) i c + (\<Sum>e\<in>iv_seen (stock w) - iv_seen s. effect (sent e) i c)"
      using new sent by simp
    then show ?thesis
      using new sub ids_ok_deliver [OF ids] by (auto simp: accounted_def)
  qed
qed

interpretation exactly_once: guarded_machine flight_exec "\<lambda>_. delivery_of sent" "accounted sent s i c n" for sent s i c n
proof unfold_locales
  fix w x
  assume a: "accounted sent s i c n w" and x: "delivery_of sent x"
  show "accounted sent s i c n (flight_exec w x)"
  proof (cases x)
    case (Deliver k m)
    then show ?thesis using x a by (auto simp: flight_exec_def intro: accounted_deliver)
  next
    case (FlightTick t fs)
    then show ?thesis using a by (simp add: flight_exec_def accounted_def stock_def flight_ids_ok_def)
  qed (use x in simp_all)
qed

lemma all_ok_list: "(\<forall>x\<in>set xs. P x) \<Longrightarrow> all_ok f (\<lambda>_. P) s xs"
  by (induction xs arbitrary: s) auto

lemma counted_delivery:
  assumes "flight_ids_ok w" and "counted (stock w) (k, m)"
  shows "stock (snd (deliver k m w)) = stock w"
  using deliver_refines [OF assms(1), of k m] consumer.handled_skip [OF assms(2)] by simp

subsection \<open>Properties\<close>

text \<open>C21. The handlers of the booking service's events refine the inventory: without failures a delivery does to the
  seats and the recorded events what the abstract step does, and under any failures it does that or nothing.\<close>

theorem deliver_refines_inventory:
  assumes "distinct (map fl_id (flights w))"
  shows "stock (snd (deliver k m w)) \<in> {stock w, event_spec k m (stock w)} \<and>
    (faults w = [] \<longrightarrow> stock (snd (deliver k m w)) = event_spec k m (stock w))"
  using assms by (intro deliver_refines) (simp add: flight_ids_ok_def)

text \<open>C22. Every event counts at most once. Whatever is delivered, in whatever order, however often and under whatever
  failures, the seats of a class are the seats there were plus the effects of the events recorded since, one each;
  and delivering recorded events again changes neither seats nor records.\<close>

theorem seats_exactly_once:
  assumes "distinct (map fl_id (flights w))" and "\<forall>x\<in>set xs. delivery_of sent x"
    and "iv_seats (stock w) i c = Some n" and "v = run_steps flight_exec w xs"
  shows "iv_seats (stock v) i c = Some (n + (\<Sum>e\<in>iv_seen (stock v) - iv_seen (stock w). effect (sent e) i c)) \<and>
    (\<forall>k m. counted (stock v) (k, m) \<longrightarrow> stock (snd (deliver k m v)) = stock v)"
proof -
  have "accounted sent (stock w) i c n w"
    using assms(1,3) by (simp add: accounted_def flight_ids_ok_def)
  then have "accounted sent (stock w) i c n v"
    unfolding assms(4) by (rule exactly_once.run_inv) (rule all_ok_list [OF assms(2)])
  then show ?thesis using counted_delivery by (simp add: accounted_def)
qed

text \<open>C23. No class of a flight is ever oversold: as long as requests count seats in natural numbers, no sequence of
  events, requests and failures makes the seats that are left negative.\<close>

theorem never_oversold:
  assumes "distinct (map fl_id (flights w))" and "\<forall>f\<in>set (flights w). \<forall>c. 0 \<le> seats_in c f"
    and "all_ok flight_exec seat_count_ok w xs" and "f \<in> set (flights (run_steps flight_exec w xs))"
  shows "0 \<le> seats_in c f"
  using flight_stock.run_inv [of w xs] assms by (simp add: stocked_def)

text \<open>C24. No flight can be created. The request has one price where the table has four, and no numbers of seats, all of
  which are not null without a default: whatever is asked, in whatever state, the answer is an error.\<close>

theorem create_flight_always_fails:
  "(\<exists>e. fst (create_flight dto w) = Inl e) \<and> flights (snd (create_flight dto w)) = flights w"
proof -
  have "\<exists>e. fst (create_flight_row (flightData dto) (w\<lparr>faults := fs\<rparr>)) = Inl e"
    "flights (snd (create_flight_row (flightData dto) (w\<lparr>faults := fs\<rparr>))) = flights w" for fs
    using not_created [of dto "w\<lparr>faults := fs\<rparr>"] by auto
  then show ?thesis
    unfolding create_flight_def find_airplane_def find_airport_def require_def
    by (auto simp: andThen_def dbquery_eq throw_def ret_def split: option.splits)
qed

subsection \<open>Witnesses\<close>

definition sample_flight :: Flight where
  "sample_flight = \<lparr>fl_id = 1, fl_flightNumber = ''AI 101'', fl_airplaneId = 1, fl_departureAirportId = 1,
     fl_arrivalAirportId = 2, fl_departureTime = 5000, fl_arrivalTime = 9000, fl_boardingGate = None, fl_terminal = None,
     fl_economyPrice = 100, fl_businessPrice = 300, fl_firstClassPrice = 500, fl_premiumEconomyPrice = 200,
     fl_economySeatsAvailable = 10, fl_businessSeatsAvailable = 4, fl_firstClassSeatsAvailable = 2,
     fl_premiumEconomySeatsAvailable = 3, fl_status = FS_SCHEDULED, fl_version = 1, fl_createdAt = 0, fl_updatedAt = 0\<rparr>"

definition sample_flights :: flight_world where
  "sample_flights = \<lparr>now = 1000, uuidSrc = show_nat, uuidCtr = 0, serial = 2, faults = [], flights = [sample_flight],
     processed = [], cities = [], airports = [], airplanes = [], seats = []\<rparr>"

definition sample_seat_event :: FlightSeatEvent where
  "sample_seat_event = \<lparr>ev_flightId = 1, ev_bookingId = ''b1'', ev_seatClass = ''ECONOMY'', ev_seatCount = 3,
     ev_eventId = Some ''e1''\<rparr>"

lemma sample_stock: "stock sample_flights = \<lparr>iv_seats = \<lambda>i c. if i = 1 then Some (seats_in c sample_flight) else None, iv_seen = {}\<rparr>"
  by (auto simp: stock_def sample_flights_def sample_flight_def)

lemma deliver_refines_inventory_witness:
  "iv_seats (stock (snd (deliver ReserveSeats sample_seat_event sample_flights))) 1 EconomySeats = Some 7"
proof -
  have "distinct (map fl_id (flights sample_flights))" "faults sample_flights = []" by (simp_all add: sample_flights_def)
  then have "stock (snd (deliver ReserveSeats sample_seat_event sample_flights)) =
      event_spec ReserveSeats sample_seat_event (stock sample_flights)"
    using deliver_refines_inventory [of sample_flights ReserveSeats sample_seat_event] by blast
  then show ?thesis
    by (simp add: sample_stock event_spec_def sample_seat_event_def getSeatField_def sample_flight_def int4_ok_def
        count_event_def set_seats_def)
qed

definition sample_deliveries :: "flight_op list" where
  "sample_deliveries = [Deliver ReserveSeats sample_seat_event, Deliver ReserveSeats sample_seat_event]"

lemma seats_exactly_once_witness:
  "\<exists>v. v = run_steps flight_exec sample_flights sample_deliveries \<and>
    iv_seats (stock v) 1 EconomySeats =
      Some (10 + (\<Sum>e\<in>iv_seen (stock v) - iv_seen (stock sample_flights). effect (ReserveSeats, sample_seat_event) 1 EconomySeats))"
proof -
  have d: "distinct (map fl_id (flights sample_flights))" by (simp add: sample_flights_def)
  have s: "\<forall>x\<in>set sample_deliveries. delivery_of (\<lambda>_. (ReserveSeats, sample_seat_event)) x"
    by (simp add: sample_deliveries_def sample_seat_event_def)
  have n: "iv_seats (stock sample_flights) 1 EconomySeats = Some 10" by (simp add: sample_stock sample_flight_def)
  show ?thesis
    by (rule exI, rule conjI, rule refl, rule conjunct1 [OF seats_exactly_once [OF d s n refl]])
qed

lemma never_oversold_witness:
  "\<exists>f. f \<in> set (flights (run_steps flight_exec sample_flights sample_deliveries)) \<and> 0 \<le> seats_in EconomySeats f"
proof -
  have "map fl_id (flights (run_steps flight_exec sample_flights sample_deliveries)) = [1]" by code_simp
  then obtain f where f: "f \<in> set (flights (run_steps flight_exec sample_flights sample_deliveries))"
    by (metis ex_in_conv list.simps(8) list.distinct(1) set_empty)
  have "distinct (map fl_id (flights sample_flights))" by (simp add: sample_flights_def)
  moreover have "0 \<le> seats_in c sample_flight" for c by (cases c) (simp_all add: sample_flight_def)
  then have "\<forall>f\<in>set (flights sample_flights). \<forall>c. 0 \<le> seats_in c f" by (simp add: sample_flights_def)
  moreover have "all_ok flight_exec seat_count_ok sample_flights sample_deliveries"
    by (simp add: sample_deliveries_def sample_seat_event_def)
  ultimately have "0 \<le> seats_in EconomySeats f" using f by (rule never_oversold)
  with f show ?thesis by blast
qed

end
