(* ===== verification/CatalogModel.thy ===== *)
theory CatalogModel
  imports FlightModel
begin

text \<open>
  What the catalogue of the flight service (cities, airports, airplanes and seats) is built from: the
  properties of a partial update, numeric columns, ILIKE patterns, ORDER BY with pages, and the
  data transfer objects of libs/common/src/dto.
\<close>

subsection \<open>Optional properties\<close>

text \<open>A property of a DTO is missing (\<open>undefined\<close>), \<open>null\<close> or has a value.\<close>

datatype 'a field = Missing | Null | Val 'a

fun field_opt :: "'a field \<Rightarrow> 'a option" where
  "field_opt (Val x) = Some x"
| "field_opt _ = None"

text \<open>A nullable column and a column that is not null, after an assignment.\<close>

fun set_nullable :: "'a field \<Rightarrow> 'a option \<Rightarrow> 'a option" where
  "set_nullable Missing old = old"
| "set_nullable Null old = None"
| "set_nullable (Val x) old = Some x"

fun set_value :: "'a field \<Rightarrow> 'a \<Rightarrow> 'a" where
  "set_value (Val x) old = x"
| "set_value _ old = old"

fun map_field :: "('a \<Rightarrow> 'b) \<Rightarrow> 'a field \<Rightarrow> 'b field" where
  "map_field f Missing = Missing"
| "map_field f Null = Null"
| "map_field f (Val x) = Val (f x)"

text \<open>\<open>x?.toUpperCase()\<close> is \<open>undefined\<close> for \<open>null\<close> as well.\<close>

fun upper_field :: "string field \<Rightarrow> string field" where
  "upper_field (Val s) = Val (to_upper s)"
| "upper_field _ = Missing"

subsection \<open>Columns\<close>

text \<open>\<open>numeric(10,7)\<close>: rounded to seven decimals, halves away from zero; three digits before the point.\<close>

definition round7 :: "rat \<Rightarrow> rat" where
  "round7 x = (if 0 \<le> x then of_int \<lfloor>x * 10000000 + 1 / 2\<rfloor> / 10000000
               else - (of_int \<lfloor>(- x) * 10000000 + 1 / 2\<rfloor> / 10000000))"

definition coordinate_ok :: "rat option \<Rightarrow> bool" where
  "coordinate_ok x = (case x of None \<Rightarrow> True | Some v \<Rightarrow> \<bar>round7 v\<bar> < 1000)"

definition int4_opt_ok :: "int option \<Rightarrow> bool" where
  "int4_opt_ok x = (case x of None \<Rightarrow> True | Some v \<Rightarrow> int4_ok v)"

subsection \<open>Patterns\<close>

text \<open>
  \<open>LIKE\<close>: \<open>%\<close> stands for any string, \<open>_\<close> for any character, a backslash quotes the next one. A pattern that
  ends in a backslash, an error when it gets that far, matches nothing here.
\<close>

function like :: "string \<Rightarrow> string \<Rightarrow> bool" where
  "like [] s = (s = [])"
| "like (p # ps) s =
     (if p = CHR ''%'' then like ps s \<or> (case s of [] \<Rightarrow> False | c # cs \<Rightarrow> like (p # ps) cs)
      else if p = CHR ''_'' then (case s of [] \<Rightarrow> False | c # cs \<Rightarrow> like ps cs)
      else if p = CHR 0x5C
      then (case ps of [] \<Rightarrow> False
            | q # qs \<Rightarrow> (case s of [] \<Rightarrow> False | c # cs \<Rightarrow> c = q \<and> like qs cs))
      else (case s of [] \<Rightarrow> False | c # cs \<Rightarrow> c = p \<and> like ps cs))"
  by pat_completeness auto

termination by (relation "measure (\<lambda>(p, s). length p + length s)") auto

declare like.simps [simp del]

definition ilike :: "string \<Rightarrow> string \<Rightarrow> bool" where
  "ilike pattern s = like (to_lower pattern) (to_lower s)"

definition contains_pattern :: "string \<Rightarrow> string" where
  "contains_pattern s = ''%'' @ s @ ''%''"

text \<open>A null column matches no pattern.\<close>

definition ilike_opt :: "string \<Rightarrow> string option \<Rightarrow> bool" where
  "ilike_opt pattern x = (case x of None \<Rightarrow> False | Some s \<Rightarrow> ilike pattern s)"

subsection \<open>Order and pages\<close>

text \<open>
  ORDER BY compares one column; \<open>collate\<close>, the order of the database's collation, is a parameter. Null is
  greater than every value. Rows with equal keys come in any order, which may differ between two queries that
  ask for different pages of the same rows: \<open>db_scan skip n\<close> ranks the positions of the rows in the order in which
  the plan of the query with that offset and limit happens to read them.
\<close>

datatype sort_key = KStr "string option" | KNum "rat option" | KBool bool

fun key_le :: "(string \<Rightarrow> string \<Rightarrow> bool) \<Rightarrow> sort_key \<Rightarrow> sort_key \<Rightarrow> bool" where
  "key_le collate (KStr x) (KStr y) =
     (case y of None \<Rightarrow> True | Some t \<Rightarrow> (case x of None \<Rightarrow> False | Some s \<Rightarrow> collate s t))"
| "key_le collate (KNum x) (KNum y) =
     (case y of None \<Rightarrow> True | Some b \<Rightarrow> (case x of None \<Rightarrow> False | Some a \<Rightarrow> a \<le> b))"
| "key_le collate (KBool x) (KBool y) = (x \<longrightarrow> y)"
| "key_le collate _ _ = True"

fun insert_by :: "('a \<Rightarrow> 'a \<Rightarrow> bool) \<Rightarrow> 'a \<Rightarrow> 'a list \<Rightarrow> 'a list" where
  "insert_by le x [] = [x]"
| "insert_by le x (y # ys) = (if le x y then x # y # ys else y # insert_by le x ys)"

definition sort_by :: "('a \<Rightarrow> 'a \<Rightarrow> bool) \<Rightarrow> 'a list \<Rightarrow> 'a list" where
  "sort_by le xs = foldr (insert_by le) xs []"

record db_order =
  db_collate :: "string \<Rightarrow> string \<Rightarrow> bool"
  db_scan :: "int \<Rightarrow> int \<Rightarrow> nat \<Rightarrow> nat"

definition scanned :: "(nat \<Rightarrow> nat) \<Rightarrow> 'a list \<Rightarrow> 'a list" where
  "scanned rank xs = map snd (sort_key (\<lambda>(i, x). rank i) (enumerate 0 xs))"

definition row_le ::
  "(string \<Rightarrow> string \<Rightarrow> bool) \<Rightarrow> ('a \<Rightarrow> sort_key) \<Rightarrow> bool \<Rightarrow> 'a \<Rightarrow> 'a \<Rightarrow> bool" where
  "row_le collate key descending x y =
     (if descending then key_le collate (key y) (key x) else key_le collate (key x) (key y))"

definition order_by ::
  "db_order \<Rightarrow> int \<Rightarrow> int \<Rightarrow> ('a \<Rightarrow> sort_key) \<Rightarrow> bool \<Rightarrow> 'a list \<Rightarrow> 'a list" where
  "order_by db skip n key descending xs =
     sort_by (row_le (db_collate db) key descending) (scanned (db_scan db skip n) xs)"

text \<open>\<open>skip(s)\<close> and \<open>take(n)\<close>: a zero is left out of the query, a negative number is an error.\<close>

definition page_rows :: "int \<Rightarrow> int \<Rightarrow> 'a list \<Rightarrow> exn + 'a list" where
  "page_rows skip n xs =
     (if skip < 0 \<or> n < 0 then Inl db_error
      else let rest = drop (nat skip) xs in Inr (if n = 0 then rest else take (nat n) rest))"

text \<open>\<open>totalPages\<close> is \<open>Math.ceil(total / limit)\<close>; for a limit of zero it is no number, \<open>null\<close> in JSON.\<close>

record PaginationMeta =
  pm_page :: int
  pm_limit :: int
  pm_total :: int
  pm_totalPages :: "int option"
  pm_hasPrevious :: bool
  pm_hasNext :: bool

definition totalPages :: "int \<Rightarrow> int \<Rightarrow> int option" where
  "totalPages all_rows limit = (if limit = 0 then None else Some (- ((- all_rows) div limit)))"

definition pagination_meta :: "int \<Rightarrow> int \<Rightarrow> int \<Rightarrow> PaginationMeta" where
  "pagination_meta page limit all_rows =
     \<lparr>pm_page = page, pm_limit = limit, pm_total = all_rows, pm_totalPages = totalPages all_rows limit,
      pm_hasPrevious = 1 < page,
      pm_hasNext = (case totalPages all_rows limit of None \<Rightarrow> 0 < all_rows | Some n \<Rightarrow> page < n)\<rparr>"

record 'a paginated =
  pd_data :: "'a list"
  pd_meta :: PaginationMeta

definition paginated_create :: "'a list \<Rightarrow> int \<Rightarrow> int \<Rightarrow> int \<Rightarrow> 'a paginated" where
  "paginated_create rows page limit all_rows = \<lparr>pd_data = rows, pd_meta = pagination_meta page limit all_rows\<rparr>"

subsection \<open>Data transfer objects\<close>

record BaseQueryDto =
  bq_page :: int
  bq_limit :: int
  bq_sortBy :: "string option"
  bq_sortOrder :: "string option"
  bq_search :: "string option"
  bq_active :: "bool option"

record QueryCityDto = BaseQueryDto +
  qc_country :: "string option"
  qc_countryCode :: "string option"
  qc_timezone :: "string option"

record QueryAirportDto = BaseQueryDto +
  qa_code :: "string option"
  qa_icaoCode :: "string option"
  qa_cityId :: "int option"
  qa_cityName :: "string option"
  qa_country :: "string option"

record QueryAirplaneDto = BaseQueryDto +
  qp_manufacturer :: "string option"
  qp_modelNumber :: "string option"
  qp_registrationNumber :: "string option"

text \<open>The required properties of a creation have a value; in an update every property may be missing.\<close>

record city_data =
  cd_name :: "string field"
  cd_country :: "string field"
  cd_countryCode :: "string field"
  cd_timezone :: "string field"
  cd_latitude :: "rat field"
  cd_longitude :: "rat field"
  cd_active :: "bool field"

record airport_data =
  ad_name :: "string field"
  ad_code :: "string field"
  ad_icaoCode :: "string field"
  ad_address :: "string field"
  ad_cityId :: "int field"
  ad_latitude :: "rat field"
  ad_longitude :: "rat field"
  ad_timezone :: "string field"

record airplane_data =
  ld_modelNumber :: "string field"
  ld_manufacturer :: "string field"
  ld_registrationNumber :: "string field"
  ld_totalCapacity :: "int field"
  ld_economySeats :: "int field"
  ld_businessSeats :: "int field"
  ld_firstClassSeats :: "int field"
  ld_premiumEconomySeats :: "int field"
  ld_yearManufactured :: "int field"
  ld_maxRangeKm :: "int field"
  ld_cruisingSpeedKmh :: "int field"
  ld_active :: "bool field"

record CreateSeatDto =
  cs_airplaneId :: int
  cs_row :: int
  cs_col :: string
  cs_seatType :: SeatType

record BulkCreateSeatsDto =
  bs_airplaneId :: int
  bs_rows :: int
  bs_colsPerRow :: int
  bs_seatType :: SeatType

end
