(* ===== verification/CatalogService.thy ===== *)
theory CatalogService
  imports CatalogModel
begin

text \<open>
  The catalogue of the flight service: the repositories and services of cities, airports, airplanes and
  seats (apps/flight-service/src/modules). A repository method is one statement; \<open>repository.update\<close>
  assigns the properties that are not \<open>undefined\<close> and sets the update time.
\<close>

subsection \<open>Cities: the repository\<close>

definition city_columns_ok :: "City \<Rightarrow> bool" where
  "city_columns_ok c \<longleftrightarrow> length (ct_name c) \<le> 100 \<and> length (ct_country c) \<le> 100 \<and>
     varchar_ok 10 (ct_countryCode c) \<and> varchar_ok 50 (ct_timezone c) \<and>
     coordinate_ok (ct_latitude c) \<and> coordinate_ok (ct_longitude c)"

definition city_nulls :: "city_data \<Rightarrow> bool" where
  "city_nulls d \<longleftrightarrow> cd_name d = Null \<or> cd_country d = Null \<or> cd_active d = Null"

definition apply_city :: "city_data \<Rightarrow> int \<Rightarrow> City \<Rightarrow> City" where
  "apply_city d t c = c\<lparr>ct_name := set_value (cd_name d) (ct_name c), ct_country := set_value (cd_country d) (ct_country c),
     ct_countryCode := set_nullable (cd_countryCode d) (ct_countryCode c),
     ct_timezone := set_nullable (cd_timezone d) (ct_timezone c),
     ct_latitude := map_option round7 (set_nullable (cd_latitude d) (ct_latitude c)),
     ct_longitude := map_option round7 (set_nullable (cd_longitude d) (ct_longitude c)),
     ct_active := set_value (cd_active d) (ct_active c), ct_updatedAt := t\<rparr>"

definition new_city :: "city_data \<Rightarrow> int \<Rightarrow> int \<Rightarrow> City" where
  "new_city d i t = apply_city d t \<lparr>ct_id = i, ct_name = '''', ct_country = '''', ct_countryCode = None, ct_timezone = None,
     ct_latitude = None, ct_longitude = None, ct_active = True, ct_createdAt = t, ct_updatedAt = t\<rparr>"

text \<open>
  The unique index on name and country. An entity that was just saved carries the coordinates it was
  given, the row the rounded ones.
\<close>

definition city_taken :: "City \<Rightarrow> City list \<Rightarrow> bool" where
  "city_taken c xs \<longleftrightarrow> (\<exists>x\<in>set xs. ct_id x \<noteq> ct_id c \<and> ct_name x = ct_name c \<and> ct_country x = ct_country c)"

definition create_city :: "city_data \<Rightarrow> (flight_world, City) prog" where
  "create_city d = dbcall (\<lambda>w.
     let c = new_city d (serial w) (now w)
     in if city_nulls d \<or> cd_name d = Missing \<or> cd_country d = Missing \<or> \<not> city_columns_ok c \<or> city_taken c (cities w)
        then (Inl db_error, w)
        else (Inr (c\<lparr>ct_latitude := field_opt (cd_latitude d), ct_longitude := field_opt (cd_longitude d)\<rparr>),
              w\<lparr>serial := serial w + 1, cities := cities w @ [c]\<rparr>))"

text \<open>\<open>repository.update(id, d)\<close>: the number of affected rows.\<close>

definition write_city :: "int \<Rightarrow> city_data \<Rightarrow> (flight_world, nat) prog" where
  "write_city i d = dbcall (\<lambda>w.
     case find (\<lambda>c. ct_id c = i) (cities w) of
       None \<Rightarrow> (Inr 0, w)
     | Some c \<Rightarrow>
         let c' = apply_city d (now w) c
         in if city_nulls d \<or> \<not> city_columns_ok c' \<or> city_taken c' (cities w) then (Inl db_error, w)
            else (Inr 1, w\<lparr>cities := map (\<lambda>x. if ct_id x = i then c' else x) (cities w)\<rparr>))"

definition find_city :: "int \<Rightarrow> (flight_world, City option) prog" where
  "find_city i = dbquery (\<lambda>w. find (\<lambda>c. ct_id c = i) (cities w))"

definition airports_of :: "int \<Rightarrow> flight_world \<Rightarrow> Airport list" where
  "airports_of i w = filter (\<lambda>a. ap_cityId a = i) (airports w)"

definition find_city_with_airports :: "int \<Rightarrow> (flight_world, (City \<times> Airport list) option) prog" where
  "find_city_with_airports i =
     dbquery (\<lambda>w. map_option (\<lambda>c. (c, airports_of i w)) (find (\<lambda>c. ct_id c = i) (cities w)))"

definition find_city_by_name :: "string \<Rightarrow> (flight_world, City option) prog" where
  "find_city_by_name name = dbquery (\<lambda>w. find (\<lambda>c. ilike name (ct_name c)) (cities w))"

definition update_city_row :: "int \<Rightarrow> city_data \<Rightarrow> (flight_world, City) prog" where
  "update_city_row i d =
     andThen (write_city i d) (\<lambda>_.
     andThen (find_city i) (\<lambda>updated.
       case updated of None \<Rightarrow> throw (JsError ''City not found after update'') | Some c \<Rightarrow> ret c))"

definition no_city_data :: city_data where
  "no_city_data = \<lparr>cd_name = Missing, cd_country = Missing, cd_countryCode = Missing, cd_timezone = Missing,
     cd_latitude = Missing, cd_longitude = Missing, cd_active = Missing\<rparr>"

definition delete_city_row :: "int \<Rightarrow> (flight_world, bool) prog" where
  "delete_city_row i = andThen (write_city i (no_city_data\<lparr>cd_active := Val False\<rparr>)) (\<lambda>affected. ret (0 < affected))"

text \<open>A page of all rows and their number; the statement fails for a negative offset or limit.\<close>

definition page_query :: "int \<Rightarrow> int \<Rightarrow> (flight_world \<Rightarrow> 'a list) \<Rightarrow> (flight_world, 'a list \<times> int) prog" where
  "page_query skip n rows = dbcall (\<lambda>w.
     case page_rows skip n (rows w) of
       Inl e \<Rightarrow> (Inl e, w)
     | Inr xs \<Rightarrow> (Inr (xs, int (length (rows w))), w))"

definition city_page :: "db_order \<Rightarrow> int \<Rightarrow> int \<Rightarrow> (flight_world, City list \<times> int) prog" where
  "city_page db skip n =
     page_query skip n (\<lambda>w. order_by db skip n (\<lambda>c. KStr (Some (ct_name c))) False (cities w))"

subsection \<open>Cities: the service\<close>

record CityResponseDto =
  cr_city :: City
  cr_airportCount :: "int option"

definition city_response :: "City \<Rightarrow> CityResponseDto" where
  "city_response c = \<lparr>cr_city = c, cr_airportCount = None\<rparr>"

definition coordinates_check :: "bool \<Rightarrow> bool \<Rightarrow> rat field \<Rightarrow> rat field \<Rightarrow> exn option" where
  "coordinates_check noLongitude noLatitude latitude longitude =
     (if latitude \<noteq> Missing \<and> longitude = Missing \<and> noLongitude
      then Some (BadRequest ''Longitude is required when latitude is provided'')
      else if longitude \<noteq> Missing \<and> latitude = Missing \<and> noLatitude
      then Some (BadRequest ''Latitude is required when longitude is provided'') else None)"

definition name_conflict :: "string \<Rightarrow> exn" where
  "name_conflict name = Conflict (''City with name \"'' @ name @ ''\" already exists'')"

definition city_missing :: "int \<Rightarrow> exn" where
  "city_missing i = NotFound (''City with ID '' @ show_int i @ '' not found'')"

definition city_create :: "city_data \<Rightarrow> (flight_world, CityResponseDto) prog" where
  "city_create d =
     (let name = set_value (cd_name d) ''undefined''
      in andThen (find_city_by_name name) (\<lambda>existing.
           if existing \<noteq> None then throw (name_conflict name)
           else (case coordinates_check True True (cd_latitude d) (cd_longitude d) of
                   Some e \<Rightarrow> throw e
                 | None \<Rightarrow> andThen (create_city d) (\<lambda>c. ret (city_response c)))))"

definition city_findAll ::
  "db_order \<Rightarrow> QueryCityDto \<Rightarrow> (flight_world, CityResponseDto paginated) prog" where
  "city_findAll db q =
     andThen (city_page db ((bq_page q - 1) * bq_limit q) (bq_limit q)) (\<lambda>(xs, n).
       ret (paginated_create (map city_response xs) (bq_page q) (bq_limit q) n))"

text \<open>The raw column of the count is not part of the hydrated entities, so the count is always 0.\<close>

definition city_findAllWithAirportCount ::
  "db_order \<Rightarrow> QueryCityDto \<Rightarrow> (flight_world, CityResponseDto paginated) prog" where
  "city_findAllWithAirportCount db q =
     andThen (city_page db ((bq_page q - 1) * bq_limit q) (bq_limit q)) (\<lambda>(xs, n).
       ret (paginated_create (map (\<lambda>c. (city_response c)\<lparr>cr_airportCount := Some 0\<rparr>) xs) (bq_page q) (bq_limit q) n))"

definition city_findOne :: "int \<Rightarrow> (flight_world, CityResponseDto) prog" where
  "city_findOne i =
     andThen (find_city_with_airports i) (\<lambda>found.
       case found of
         None \<Rightarrow> throw (city_missing i)
       | Some (c, as) \<Rightarrow> ret ((city_response c)\<lparr>cr_airportCount := Some (int (length as))\<rparr>))"

definition city_update :: "int \<Rightarrow> city_data \<Rightarrow> (flight_world, CityResponseDto) prog" where
  "city_update i d =
     andThen (find_city i) (\<lambda>found.
       case found of
         None \<Rightarrow> throw (city_missing i)
       | Some existing \<Rightarrow>
           andThen
             (if truthy (field_opt (cd_name d)) \<and> cd_name d \<noteq> Val (ct_name existing)
              then find_city_by_name (set_value (cd_name d) '''') else ret None) (\<lambda>duplicate.
             if duplicate \<noteq> None then throw (name_conflict (set_value (cd_name d) ''''))
             else (case coordinates_check (ct_longitude existing = None) (ct_latitude existing = None)
                          (cd_latitude d) (cd_longitude d) of
                     Some e \<Rightarrow> throw e
                   | None \<Rightarrow> andThen (update_city_row i d) (\<lambda>c. ret (city_response c)))))"

definition city_remove :: "int \<Rightarrow> (flight_world, unit) prog" where
  "city_remove i =
     andThen (find_city_with_airports i) (\<lambda>found.
       case found of
         None \<Rightarrow> throw (city_missing i)
       | Some (c, as) \<Rightarrow>
           if list_ex ap_active as
           then throw (BadRequest ''Cannot delete city with active airports. Deactivate airports first.'')
           else andThen (delete_city_row i) (\<lambda>deleted.
                if \<not> deleted then throw (BadRequest (''Failed to delete city with ID '' @ show_int i)) else ret ()))"

definition city_restore :: "int \<Rightarrow> (flight_world, CityResponseDto) prog" where
  "city_restore i =
     andThen (find_city i) (\<lambda>found.
       case found of
         None \<Rightarrow> throw (city_missing i)
       | Some c \<Rightarrow>
           if ct_active c then throw (BadRequest (''City with ID '' @ show_int i @ '' is already active''))
           else andThen (update_city_row i (no_city_data\<lparr>cd_active := Val True\<rparr>)) (\<lambda>c. ret (city_response c)))"

text \<open>Total, active and inactive: two counts, one after the other.\<close>

definition statistics :: "(flight_world \<Rightarrow> bool list) \<Rightarrow> (flight_world, int \<times> int \<times> int) prog" where
  "statistics actives =
     andThen (dbquery (\<lambda>w. int (length (actives w)))) (\<lambda>n.
     andThen (dbquery (\<lambda>w. int (length (filter id (actives w))))) (\<lambda>active.
       ret (n, active, n - active)))"

definition city_getStatistics :: "(flight_world, int \<times> int \<times> int) prog" where
  "city_getStatistics = statistics (\<lambda>w. map ct_active (cities w))"


subsection \<open>Airports: the repository\<close>

definition airport_columns_ok :: "Airport \<Rightarrow> bool" where
  "airport_columns_ok a \<longleftrightarrow> length (ap_name a) \<le> 200 \<and> length (ap_code a) \<le> 3 \<and> varchar_ok 4 (ap_icaoCode a) \<and>
     varchar_ok 50 (ap_timezone a) \<and> coordinate_ok (ap_latitude a) \<and> coordinate_ok (ap_longitude a) \<and>
     int4_ok (ap_cityId a)"

definition airport_nulls :: "airport_data \<Rightarrow> bool" where
  "airport_nulls d \<longleftrightarrow> ad_name d = Null \<or> ad_code d = Null \<or> ad_cityId d = Null"

definition apply_airport :: "airport_data \<Rightarrow> int \<Rightarrow> Airport \<Rightarrow> Airport" where
  "apply_airport d t a = a\<lparr>ap_name := set_value (ad_name d) (ap_name a), ap_code := set_value (ad_code d) (ap_code a),
     ap_icaoCode := set_nullable (ad_icaoCode d) (ap_icaoCode a),
     ap_address := set_nullable (ad_address d) (ap_address a),
     ap_cityId := set_value (ad_cityId d) (ap_cityId a),
     ap_latitude := map_option round7 (set_nullable (ad_latitude d) (ap_latitude a)),
     ap_longitude := map_option round7 (set_nullable (ad_longitude d) (ap_longitude a)),
     ap_timezone := set_nullable (ad_timezone d) (ap_timezone a), ap_updatedAt := t\<rparr>"

definition new_airport :: "airport_data \<Rightarrow> int \<Rightarrow> int \<Rightarrow> Airport" where
  "new_airport d i t = apply_airport d t \<lparr>ap_id = i, ap_name = '''', ap_code = '''', ap_icaoCode = None, ap_address = None,
     ap_city_denormalized = None, ap_country_denormalized = None, ap_latitude = None, ap_longitude = None,
     ap_timezone = None, ap_cityId = 0, ap_active = True, ap_createdAt = t, ap_updatedAt = t\<rparr>"

text \<open>The unique index on the code, and the foreign key to the city.\<close>

definition airport_refused :: "Airport \<Rightarrow> flight_world \<Rightarrow> bool" where
  "airport_refused a w \<longleftrightarrow> (\<exists>x\<in>set (airports w). ap_id x \<noteq> ap_id a \<and> ap_code x = ap_code a) \<or>
     \<not> (\<exists>c\<in>set (cities w). ct_id c = ap_cityId a)"

definition create_airport :: "airport_data \<Rightarrow> (flight_world, Airport) prog" where
  "create_airport d = dbcall (\<lambda>w.
     let a = new_airport d (serial w) (now w)
     in if airport_nulls d \<or> ad_name d = Missing \<or> ad_code d = Missing \<or> ad_cityId d = Missing \<or>
           \<not> airport_columns_ok a \<or> airport_refused a w
        then (Inl db_error, w)
        else (Inr (a\<lparr>ap_latitude := field_opt (ad_latitude d), ap_longitude := field_opt (ad_longitude d)\<rparr>),
              w\<lparr>serial := serial w + 1, airports := airports w @ [a]\<rparr>))"

definition write_airport :: "int \<Rightarrow> airport_data \<Rightarrow> (flight_world, nat) prog" where
  "write_airport i d = dbcall (\<lambda>w.
     case find (\<lambda>a. ap_id a = i) (airports w) of
       None \<Rightarrow> (Inr 0, w)
     | Some a \<Rightarrow>
         let a' = apply_airport d (now w) a
         in if airport_nulls d \<or> \<not> airport_columns_ok a' \<or> airport_refused a' w then (Inl db_error, w)
            else (Inr 1, w\<lparr>airports := map (\<lambda>x. if ap_id x = i then a' else x) (airports w)\<rparr>))"

definition city_of :: "flight_world \<Rightarrow> Airport \<Rightarrow> City option" where
  "city_of w a = find (\<lambda>c. ct_id c = ap_cityId a) (cities w)"

definition with_city :: "flight_world \<Rightarrow> Airport \<Rightarrow> Airport \<times> City option" where
  "with_city w a = (a, city_of w a)"

definition find_airport_by_id :: "int \<Rightarrow> (flight_world, (Airport \<times> City option) option) prog" where
  "find_airport_by_id i = dbquery (\<lambda>w. map_option (with_city w) (find (\<lambda>a. ap_id a = i) (airports w)))"

definition find_airport_by_code :: "string \<Rightarrow> (flight_world, (Airport \<times> City option) option) prog" where
  "find_airport_by_code code =
     dbquery (\<lambda>w. map_option (with_city w) (find (\<lambda>a. ap_code a = to_upper code) (airports w)))"

definition find_airport_by_icao :: "string \<Rightarrow> (flight_world, (Airport \<times> City option) option) prog" where
  "find_airport_by_icao code =
     dbquery (\<lambda>w. map_option (with_city w) (find (\<lambda>a. ap_icaoCode a = Some (to_upper code)) (airports w)))"

definition update_airport_row :: "int \<Rightarrow> airport_data \<Rightarrow> (flight_world, Airport \<times> City option) prog" where
  "update_airport_row i d =
     andThen (write_airport i d) (\<lambda>_.
     andThen (find_airport_by_id i) (\<lambda>updated.
       case updated of None \<Rightarrow> throw (NotFound ''Airport not found after update'') | Some a \<Rightarrow> ret a))"

text \<open>\<open>delete(id)\<close> writes only the flag.\<close>

definition delete_airport_row :: "int \<Rightarrow> (flight_world, bool) prog" where
  "delete_airport_row i = dbcall (\<lambda>w.
     (Inr (\<exists>a\<in>set (airports w). ap_id a = i),
      w\<lparr>airports := map (\<lambda>a. if ap_id a = i then a\<lparr>ap_active := False, ap_updatedAt := now w\<rparr> else a) (airports w)\<rparr>))"

text \<open>The fields of an airport that \<open>sortBy\<close> may name; any other name is an error.\<close>

definition airport_sort_fields :: "(string \<times> (Airport \<Rightarrow> sort_key)) list" where
  "airport_sort_fields =
     [(''id'', \<lambda>a. KNum (Some (of_int (ap_id a)))), (''name'', \<lambda>a. KStr (Some (ap_name a))),
      (''code'', \<lambda>a. KStr (Some (ap_code a))), (''icaoCode'', \<lambda>a. KStr (ap_icaoCode a)),
      (''address'', \<lambda>a. KStr (ap_address a)), (''city_denormalized'', \<lambda>a. KStr (ap_city_denormalized a)),
      (''country_denormalized'', \<lambda>a. KStr (ap_country_denormalized a)),
      (''latitude'', \<lambda>a. KNum (ap_latitude a)), (''longitude'', \<lambda>a. KNum (ap_longitude a)),
      (''timezone'', \<lambda>a. KStr (ap_timezone a)), (''cityId'', \<lambda>a. KNum (Some (of_int (ap_cityId a)))),
      (''active'', \<lambda>a. KBool (ap_active a)), (''createdAt'', \<lambda>a. KNum (Some (of_int (ap_createdAt a)))),
      (''updatedAt'', \<lambda>a. KNum (Some (of_int (ap_updatedAt a))))]"

definition airport_match :: "QueryAirportDto \<Rightarrow> Airport \<Rightarrow> City option \<Rightarrow> bool" where
  "airport_match q a c \<longleftrightarrow>
     (truthy (bq_search q) \<longrightarrow>
        ilike (contains_pattern (the (bq_search q))) (ap_name a) \<or>
        ilike (contains_pattern (the (bq_search q))) (ap_code a) \<or>
        ilike_opt (contains_pattern (the (bq_search q))) (map_option ct_name c)) \<and>
     (truthy (qa_code q) \<longrightarrow> ap_code a = to_upper (the (qa_code q))) \<and>
     (truthy (qa_icaoCode q) \<longrightarrow> ap_icaoCode a = Some (to_upper (the (qa_icaoCode q)))) \<and>
     (case qa_cityId q of None \<Rightarrow> True | Some i \<Rightarrow> i = 0 \<or> ap_cityId a = i) \<and>
     (truthy (qa_cityName q) \<longrightarrow> ilike_opt (contains_pattern (the (qa_cityName q))) (map_option ct_name c)) \<and>
     (truthy (qa_country q) \<longrightarrow> ilike_opt (contains_pattern (the (qa_country q))) (map_option ct_country c)) \<and>
     (case bq_active q of None \<Rightarrow> True | Some b \<Rightarrow> ap_active a = b)"

text \<open>The direction is \<open>sortOrder || 'ASC'\<close>; TypeORM accepts only the two directions.\<close>

definition descending :: "string option \<Rightarrow> bool option" where
  "descending sortOrder =
     (if \<not> truthy sortOrder \<or> sortOrder = Some ''ASC'' then Some False
      else if sortOrder = Some ''DESC'' then Some True else None)"

definition search_rows ::
  "db_order \<Rightarrow> (string \<times> ('a \<Rightarrow> sort_key)) list \<Rightarrow> string \<Rightarrow> ('b BaseQueryDto_scheme) \<Rightarrow>
     (flight_world \<Rightarrow> 'a list) \<Rightarrow> (flight_world, 'a list \<times> int) prog" where
  "search_rows db columns default_field q rows =
     (case (map_of columns (or_str (bq_sortBy q) default_field), descending (bq_sortOrder q)) of
        (Some key, Some desc) \<Rightarrow>
          (let skip = (bq_page q - 1) * bq_limit q
           in page_query skip (bq_limit q) (\<lambda>w. order_by db skip (bq_limit q) key desc (rows w)))
      | _ \<Rightarrow> throw db_error)"

definition airport_search ::
  "db_order \<Rightarrow> QueryAirportDto \<Rightarrow> (flight_world, (Airport \<times> City option) list \<times> int) prog" where
  "airport_search db q =
     search_rows db (map (\<lambda>(n, key). (n, key \<circ> fst)) airport_sort_fields) ''name'' q
       (\<lambda>w. filter (\<lambda>(a, c). airport_match q a c) (map (with_city w) (airports w)))"

subsection \<open>Airports: the service\<close>

record CityInfoDto =
  ci_id :: int
  ci_name :: string
  ci_country :: string
  ci_countryCode :: "string option"

record AirportResponseDto =
  ar_id :: int
  ar_name :: string
  ar_code :: string
  ar_icaoCode :: "string option"
  ar_address :: "string option"
  ar_latitude :: "rat option"
  ar_longitude :: "rat option"
  ar_timezone :: "string option"
  ar_cityId :: int
  ar_city :: "CityInfoDto option"
  ar_active :: bool
  ar_createdAt :: int
  ar_updatedAt :: int

definition city_info :: "City \<Rightarrow> CityInfoDto" where
  "city_info c = \<lparr>ci_id = ct_id c, ci_name = ct_name c, ci_country = ct_country c, ci_countryCode = ct_countryCode c\<rparr>"

definition airport_response :: "Airport \<times> City option \<Rightarrow> AirportResponseDto" where
  "airport_response = (\<lambda>(a, c).
     \<lparr>ar_id = ap_id a, ar_name = ap_name a, ar_code = ap_code a, ar_icaoCode = ap_icaoCode a, ar_address = ap_address a,
      ar_latitude = ap_latitude a, ar_longitude = ap_longitude a, ar_timezone = ap_timezone a, ar_cityId = ap_cityId a,
      ar_city = map_option city_info c, ar_active = ap_active a, ar_createdAt = ap_createdAt a,
      ar_updatedAt = ap_updatedAt a\<rparr>)"

definition airport_missing :: "int \<Rightarrow> exn" where
  "airport_missing i = NotFound (''Airport with ID '' @ show_int i @ '' not found'')"

definition code_conflict :: "string \<Rightarrow> string \<Rightarrow> exn" where
  "code_conflict what code = Conflict (''Airport with '' @ what @ '' \"'' @ code @ ''\" already exists'')"

definition upper_codes :: "airport_data \<Rightarrow> airport_data" where
  "upper_codes d = d\<lparr>ad_code := upper_field (ad_code d), ad_icaoCode := upper_field (ad_icaoCode d)\<rparr>"

text \<open>In a creation the city and the code are required properties.\<close>

definition airport_create :: "airport_data \<Rightarrow> (flight_world, AirportResponseDto) prog" where
  "airport_create d =
     (let cityId = set_value (ad_cityId d) 0; code = set_value (ad_code d) ''''
      in andThen (find_city cityId) (\<lambda>city.
           if city = None then throw (city_missing cityId)
           else andThen (find_airport_by_code code) (\<lambda>existingByCode.
             if existingByCode \<noteq> None then throw (code_conflict ''code'' code)
             else andThen (if truthy (field_opt (ad_icaoCode d)) then find_airport_by_icao (set_value (ad_icaoCode d) '''')
                           else ret None) (\<lambda>existingByIcao.
               if existingByIcao \<noteq> None then throw (code_conflict ''ICAO code'' (set_value (ad_icaoCode d) ''''))
               else andThen (create_airport (upper_codes d)) (\<lambda>a. ret (airport_response (a, None)))))))"

definition airport_findAll ::
  "db_order \<Rightarrow> QueryAirportDto \<Rightarrow> (flight_world, AirportResponseDto paginated) prog" where
  "airport_findAll db q =
     andThen (airport_search db q) (\<lambda>(xs, n).
       ret (paginated_create (map airport_response xs) (bq_page q) (bq_limit q) n))"

definition airport_findOne :: "int \<Rightarrow> (flight_world, AirportResponseDto) prog" where
  "airport_findOne i =
     andThen (find_airport_by_id i) (\<lambda>found.
       case found of None \<Rightarrow> throw (airport_missing i) | Some a \<Rightarrow> ret (airport_response a))"

definition airport_findByCode :: "string \<Rightarrow> (flight_world, AirportResponseDto) prog" where
  "airport_findByCode code =
     andThen (find_airport_by_code code) (\<lambda>found.
       case found of
         None \<Rightarrow> throw (NotFound (''Airport with code \"'' @ code @ ''\" not found''))
       | Some a \<Rightarrow> ret (airport_response a))"

definition airport_update :: "int \<Rightarrow> airport_data \<Rightarrow> (flight_world, AirportResponseDto) prog" where
  "airport_update i d =
     andThen (find_airport_by_id i) (\<lambda>found.
       case found of
         None \<Rightarrow> throw (airport_missing i)
       | Some (existing, _) \<Rightarrow>
           (let cityId = set_value (ad_cityId d) 0; code = set_value (ad_code d) ''''
            in andThen (if cityId \<noteq> 0 \<and> cityId \<noteq> ap_cityId existing
                        then andThen (find_city cityId) (\<lambda>city. if city = None then throw (city_missing cityId) else ret ())
                        else ret ()) (\<lambda>_.
               andThen (if code \<noteq> '''' \<and> code \<noteq> ap_code existing
                        then andThen (find_airport_by_code code) (\<lambda>duplicate.
                               if duplicate \<noteq> None then throw (code_conflict ''code'' code) else ret ())
                        else ret ()) (\<lambda>_.
               andThen (update_airport_row i (upper_codes d)) (\<lambda>a. ret (airport_response a))))))"

definition airport_remove :: "int \<Rightarrow> (flight_world, unit) prog" where
  "airport_remove i =
     andThen (find_airport_by_id i) (\<lambda>found.
       case found of
         None \<Rightarrow> throw (airport_missing i)
       | Some _ \<Rightarrow>
           andThen (delete_airport_row i) (\<lambda>deleted.
             if \<not> deleted then throw (BadRequest (''Failed to delete airport with ID '' @ show_int i)) else ret ()))"

definition airport_getStatistics :: "(flight_world, int \<times> int \<times> int) prog" where
  "airport_getStatistics = statistics (\<lambda>w. map ap_active (airports w))"


subsection \<open>Airplanes\<close>

definition airplane_columns_ok :: "Airplane \<Rightarrow> bool" where
  "airplane_columns_ok p \<longleftrightarrow> length (pl_modelNumber p) \<le> 50 \<and> length (pl_manufacturer p) \<le> 100 \<and>
     varchar_ok 50 (pl_registrationNumber p) \<and> int4_ok (pl_totalCapacity p) \<and> int4_ok (pl_economySeats p) \<and>
     int4_ok (pl_businessSeats p) \<and> int4_ok (pl_firstClassSeats p) \<and> int4_ok (pl_premiumEconomySeats p) \<and>
     int4_opt_ok (pl_yearManufactured p) \<and> int4_opt_ok (pl_maxRangeKm p) \<and> int4_opt_ok (pl_cruisingSpeedKmh p)"

definition airplane_nulls :: "airplane_data \<Rightarrow> bool" where
  "airplane_nulls d \<longleftrightarrow> ld_modelNumber d = Null \<or> ld_manufacturer d = Null \<or> ld_totalCapacity d = Null \<or>
     ld_economySeats d = Null \<or> ld_businessSeats d = Null \<or> ld_firstClassSeats d = Null \<or>
     ld_premiumEconomySeats d = Null \<or> ld_active d = Null"

definition apply_airplane :: "airplane_data \<Rightarrow> int \<Rightarrow> Airplane \<Rightarrow> Airplane" where
  "apply_airplane d t p = p\<lparr>pl_modelNumber := set_value (ld_modelNumber d) (pl_modelNumber p),
     pl_manufacturer := set_value (ld_manufacturer d) (pl_manufacturer p),
     pl_registrationNumber := set_nullable (ld_registrationNumber d) (pl_registrationNumber p),
     pl_totalCapacity := set_value (ld_totalCapacity d) (pl_totalCapacity p),
     pl_economySeats := set_value (ld_economySeats d) (pl_economySeats p),
     pl_businessSeats := set_value (ld_businessSeats d) (pl_businessSeats p),
     pl_firstClassSeats := set_value (ld_firstClassSeats d) (pl_firstClassSeats p),
     pl_premiumEconomySeats := set_value (ld_premiumEconomySeats d) (pl_premiumEconomySeats p),
     pl_yearManufactured := set_nullable (ld_yearManufactured d) (pl_yearManufactured p),
     pl_maxRangeKm := set_nullable (ld_maxRangeKm d) (pl_maxRangeKm p),
     pl_cruisingSpeedKmh := set_nullable (ld_cruisingSpeedKmh d) (pl_cruisingSpeedKmh p),
     pl_active := set_value (ld_active d) (pl_active p), pl_updatedAt := t\<rparr>"

definition new_airplane :: "airplane_data \<Rightarrow> int \<Rightarrow> int \<Rightarrow> Airplane" where
  "new_airplane d i t = apply_airplane d t \<lparr>pl_id = i, pl_modelNumber = '''', pl_manufacturer = '''',
     pl_registrationNumber = None, pl_totalCapacity = 0, pl_economySeats = 0, pl_businessSeats = 0, pl_firstClassSeats = 0,
     pl_premiumEconomySeats = 0, pl_yearManufactured = None, pl_maxRangeKm = None, pl_cruisingSpeedKmh = None,
     pl_active = True, pl_createdAt = t, pl_updatedAt = t\<rparr>"

text \<open>The unique index on the registration number, in which nulls do not count.\<close>

definition registration_taken :: "Airplane \<Rightarrow> Airplane list \<Rightarrow> bool" where
  "registration_taken p xs \<longleftrightarrow> pl_registrationNumber p \<noteq> None \<and>
     (\<exists>x\<in>set xs. pl_id x \<noteq> pl_id p \<and> pl_registrationNumber x = pl_registrationNumber p)"

definition create_airplane :: "airplane_data \<Rightarrow> (flight_world, Airplane) prog" where
  "create_airplane d = dbcall (\<lambda>w.
     let p = new_airplane d (serial w) (now w)
     in if airplane_nulls d \<or> ld_modelNumber d = Missing \<or> ld_manufacturer d = Missing \<or>
           \<not> airplane_columns_ok p \<or> registration_taken p (airplanes w)
        then (Inl db_error, w)
        else (Inr p, w\<lparr>serial := serial w + 1, airplanes := airplanes w @ [p]\<rparr>))"

definition find_airplane_by_id :: "int \<Rightarrow> (flight_world, Airplane option) prog" where
  "find_airplane_by_id i = dbquery (\<lambda>w. find (\<lambda>p. pl_id p = i) (airplanes w))"

definition write_airplane :: "int \<Rightarrow> airplane_data \<Rightarrow> (flight_world, nat) prog" where
  "write_airplane i d = dbcall (\<lambda>w.
     case find (\<lambda>p. pl_id p = i) (airplanes w) of
       None \<Rightarrow> (Inr 0, w)
     | Some p \<Rightarrow>
         let p' = apply_airplane d (now w) p
         in if airplane_nulls d \<or> \<not> airplane_columns_ok p' \<or> registration_taken p' (airplanes w) then (Inl db_error, w)
            else (Inr 1, w\<lparr>airplanes := map (\<lambda>x. if pl_id x = i then p' else x) (airplanes w)\<rparr>))"

definition update_airplane_row :: "int \<Rightarrow> airplane_data \<Rightarrow> (flight_world, Airplane) prog" where
  "update_airplane_row i d =
     andThen (write_airplane i d) (\<lambda>_.
     andThen (find_airplane_by_id i) (\<lambda>updated.
       case updated of None \<Rightarrow> throw (NotFound ''Airplane not found after update'') | Some p \<Rightarrow> ret p))"

definition delete_airplane_row :: "int \<Rightarrow> (flight_world, bool) prog" where
  "delete_airplane_row i = dbcall (\<lambda>w.
     (Inr (\<exists>p\<in>set (airplanes w). pl_id p = i),
      w\<lparr>airplanes := map (\<lambda>p. if pl_id p = i then p\<lparr>pl_active := False, pl_updatedAt := now w\<rparr> else p) (airplanes w)\<rparr>))"

definition airplane_match :: "QueryAirplaneDto \<Rightarrow> Airplane \<Rightarrow> bool" where
  "airplane_match q p \<longleftrightarrow>
     (truthy (bq_search q) \<longrightarrow>
        ilike (contains_pattern (the (bq_search q))) (pl_manufacturer p) \<or>
        ilike (contains_pattern (the (bq_search q))) (pl_modelNumber p) \<or>
        ilike_opt (contains_pattern (the (bq_search q))) (pl_registrationNumber p)) \<and>
     (truthy (qp_manufacturer q) \<longrightarrow> ilike (contains_pattern (the (qp_manufacturer q))) (pl_manufacturer p)) \<and>
     (truthy (qp_modelNumber q) \<longrightarrow> ilike (contains_pattern (the (qp_modelNumber q))) (pl_modelNumber p)) \<and>
     (truthy (qp_registrationNumber q) \<longrightarrow>
        ilike_opt (contains_pattern (the (qp_registrationNumber q))) (pl_registrationNumber p)) \<and>
     (case bq_active q of None \<Rightarrow> True | Some b \<Rightarrow> pl_active p = b)"

definition airplane_sort_fields :: "(string \<times> (Airplane \<Rightarrow> sort_key)) list" where
  "airplane_sort_fields =
     [(''id'', \<lambda>p. KNum (Some (of_int (pl_id p)))), (''modelNumber'', \<lambda>p. KStr (Some (pl_modelNumber p))),
      (''manufacturer'', \<lambda>p. KStr (Some (pl_manufacturer p))), (''registrationNumber'', \<lambda>p. KStr (pl_registrationNumber p)),
      (''totalCapacity'', \<lambda>p. KNum (Some (of_int (pl_totalCapacity p)))),
      (''economySeats'', \<lambda>p. KNum (Some (of_int (pl_economySeats p)))),
      (''businessSeats'', \<lambda>p. KNum (Some (of_int (pl_businessSeats p)))),
      (''firstClassSeats'', \<lambda>p. KNum (Some (of_int (pl_firstClassSeats p)))),
      (''premiumEconomySeats'', \<lambda>p. KNum (Some (of_int (pl_premiumEconomySeats p)))),
      (''yearManufactured'', \<lambda>p. KNum (map_option of_int (pl_yearManufactured p))),
      (''maxRangeKm'', \<lambda>p. KNum (map_option of_int (pl_maxRangeKm p))),
      (''cruisingSpeedKmh'', \<lambda>p. KNum (map_option of_int (pl_cruisingSpeedKmh p))),
      (''active'', \<lambda>p. KBool (pl_active p)), (''createdAt'', \<lambda>p. KNum (Some (of_int (pl_createdAt p)))),
      (''updatedAt'', \<lambda>p. KNum (Some (of_int (pl_updatedAt p))))]"

definition airplane_search ::
  "db_order \<Rightarrow> QueryAirplaneDto \<Rightarrow> (flight_world, Airplane list \<times> int) prog" where
  "airplane_search db q =
     search_rows db airplane_sort_fields ''manufacturer'' q (\<lambda>w. filter (airplane_match q) (airplanes w))"

record AirplaneResponseDto =
  lr_id :: int
  lr_modelNumber :: string
  lr_manufacturer :: string
  lr_registrationNumber :: "string option"
  lr_totalCapacity :: int
  lr_economySeats :: int
  lr_businessSeats :: int
  lr_firstClassSeats :: int
  lr_premiumEconomySeats :: int
  lr_active :: bool
  lr_createdAt :: int
  lr_updatedAt :: int

definition airplane_response :: "Airplane \<Rightarrow> AirplaneResponseDto" where
  "airplane_response p =
     \<lparr>lr_id = pl_id p, lr_modelNumber = pl_modelNumber p, lr_manufacturer = pl_manufacturer p,
      lr_registrationNumber = pl_registrationNumber p, lr_totalCapacity = pl_totalCapacity p,
      lr_economySeats = pl_economySeats p, lr_businessSeats = pl_businessSeats p,
      lr_firstClassSeats = pl_firstClassSeats p, lr_premiumEconomySeats = pl_premiumEconomySeats p,
      lr_active = pl_active p, lr_createdAt = pl_createdAt p, lr_updatedAt = pl_updatedAt p\<rparr>"

definition airplane_missing :: "int \<Rightarrow> exn" where
  "airplane_missing i = NotFound (''Airplane with ID '' @ show_int i @ '' not found'')"

definition airplane_create :: "airplane_data \<Rightarrow> (flight_world, AirplaneResponseDto) prog" where
  "airplane_create d = andThen (create_airplane d) (\<lambda>p. ret (airplane_response p))"

definition airplane_findAll ::
  "db_order \<Rightarrow> QueryAirplaneDto \<Rightarrow> (flight_world, AirplaneResponseDto paginated) prog" where
  "airplane_findAll db q =
     andThen (airplane_search db q) (\<lambda>(xs, n).
       ret (paginated_create (map airplane_response xs) (bq_page q) (bq_limit q) n))"

definition airplane_findOne :: "int \<Rightarrow> (flight_world, AirplaneResponseDto) prog" where
  "airplane_findOne i =
     andThen (find_airplane_by_id i) (\<lambda>found.
       case found of None \<Rightarrow> throw (airplane_missing i) | Some p \<Rightarrow> ret (airplane_response p))"

definition airplane_update :: "int \<Rightarrow> airplane_data \<Rightarrow> (flight_world, AirplaneResponseDto) prog" where
  "airplane_update i d = andThen (update_airplane_row i d) (\<lambda>p. ret (airplane_response p))"

definition airplane_remove :: "int \<Rightarrow> (flight_world, unit) prog" where
  "airplane_remove i =
     andThen (find_airplane_by_id i) (\<lambda>found.
       case found of
         None \<Rightarrow> throw (airplane_missing i)
       | Some p \<Rightarrow> andThen (delete_airplane_row i) (\<lambda>_. ret ()))"

subsection \<open>Seats\<close>

definition seat_position :: "Seat \<Rightarrow> int \<times> int \<times> string" where
  "seat_position s = (sr_airplaneId s, sr_row s, sr_col s)"

definition seat_refused :: "Seat \<Rightarrow> flight_world \<Rightarrow> bool" where
  "seat_refused s w \<longleftrightarrow> \<not> int4_ok (sr_airplaneId s) \<or> \<not> int4_ok (sr_row s) \<or> 1 < length (sr_col s) \<or>
     \<not> (\<exists>p\<in>set (airplanes w). pl_id p = sr_airplaneId s) \<or>
     (\<exists>x\<in>set (seats w). seat_position x = seat_position s)"

text \<open>One row to insert: airplane, row, column and type.\<close>

definition insert_seat :: "int \<times> int \<times> string \<times> SeatType \<Rightarrow> flight_world \<Rightarrow> (exn + Seat) \<times> flight_world" where
  "insert_seat d w =
     (case d of (a, r, c, ty) \<Rightarrow>
        let s = \<lparr>sr_id = serial w, sr_airplaneId = a, sr_row = r, sr_col = c, sr_seatType = ty, sr_createdAt = now w,
                 sr_updatedAt = now w\<rparr>
        in if seat_refused s w then (Inl db_error, w)
           else (Inr s, w\<lparr>serial := serial w + 1, seats := seats w @ [s]\<rparr>))"

definition create_seat :: "int \<times> int \<times> string \<times> SeatType \<Rightarrow> (flight_world, Seat) prog" where
  "create_seat d = dbcall (insert_seat d)"

fun insert_seats :: "(int \<times> int \<times> string \<times> SeatType) list \<Rightarrow> (flight_world, Seat list) prog" where
  "insert_seats [] = ret []"
| "insert_seats (d # ds) = andThen (insert_seat d) (\<lambda>s. andThen (insert_seats ds) (\<lambda>ss. ret (s # ss)))"

text \<open>\<open>repository.save(seats)\<close>: one statement inside a transaction, so all rows or none.\<close>

definition seats_rollback :: "flight_world \<Rightarrow> flight_world \<Rightarrow> flight_world" where
  "seats_rollback w w' = w'\<lparr>seats := seats w\<rparr>"

definition bulk_create_seats :: "(int \<times> int \<times> string \<times> SeatType) list \<Rightarrow> (flight_world, Seat list) prog" where
  "bulk_create_seats ds = (if ds = [] then ret [] else atomic seats_rollback (dbcall (insert_seats ds)))"

definition find_seats :: "db_order \<Rightarrow> int \<Rightarrow> (flight_world, Seat list) prog" where
  "find_seats db i = dbquery (\<lambda>w.
     sort_by (\<lambda>x y. sr_row x < sr_row y \<or> sr_row x = sr_row y \<and> db_collate db (sr_col x) (sr_col y))
       (filter (\<lambda>s. sr_airplaneId s = i) (seats w)))"

definition delete_seat :: "int \<Rightarrow> (flight_world, bool) prog" where
  "delete_seat i = dbcall (\<lambda>w.
     (Inr (\<exists>s\<in>set (seats w). sr_id s = i), w\<lparr>seats := filter (\<lambda>s. sr_id s \<noteq> i) (seats w)\<rparr>))"

definition seat_create :: "CreateSeatDto \<Rightarrow> (flight_world, Seat) prog" where
  "seat_create d = create_seat (cs_airplaneId d, cs_row d, cs_col d, cs_seatType d)"

text \<open>\<open>String.fromCharCode(65 + index)\<close>; a \<open>char\<close> here is one of the first 256, so up to 191 columns.\<close>

definition getColLetter :: "int \<Rightarrow> string" where
  "getColLetter index = [char_of (nat (65 + index))]"

definition bulk_rows :: "BulkCreateSeatsDto \<Rightarrow> (int \<times> int \<times> string \<times> SeatType) list" where
  "bulk_rows d = concat (map (\<lambda>r. map (\<lambda>c. (bs_airplaneId d, r, getColLetter c, bs_seatType d)) [0..bs_colsPerRow d - 1])
     [1..bs_rows d])"

definition seat_bulkCreate :: "BulkCreateSeatsDto \<Rightarrow> (flight_world, Seat list) prog" where
  "seat_bulkCreate d =
     andThen (find_airplane_by_id (bs_airplaneId d)) (\<lambda>airplane.
       if airplane = None then throw (BadRequest (''Airplane with ID '' @ show_int (bs_airplaneId d) @ '' not found''))
       else bulk_create_seats (bulk_rows d))"

definition seat_remove :: "int \<Rightarrow> (flight_world, unit) prog" where
  "seat_remove i = andThen (delete_seat i) (\<lambda>_. ret ())"

subsection \<open>The requests\<close>

text \<open>The routes and messages of the four controllers. A route and the message of the same name call the same method.\<close>

datatype city_op =
  CityCreate city_data | CityFindAll QueryCityDto | CityWithCounts QueryCityDto | CityFindOne int
| CityUpdate int city_data | CityRemove int | CityRestore int | CityStatistics

definition city_exec :: "db_order \<Rightarrow> city_op \<Rightarrow> flight_world \<Rightarrow> flight_world" where
  "city_exec db x w =
     (case x of
        CityCreate d \<Rightarrow> snd (city_create d w)
      | CityFindAll q \<Rightarrow> snd (city_findAll db q w)
      | CityWithCounts q \<Rightarrow> snd (city_findAllWithAirportCount db q w)
      | CityFindOne i \<Rightarrow> snd (city_findOne i w)
      | CityUpdate i d \<Rightarrow> snd (city_update i d w)
      | CityRemove i \<Rightarrow> snd (city_remove i w)
      | CityRestore i \<Rightarrow> snd (city_restore i w)
      | CityStatistics \<Rightarrow> snd (city_getStatistics w))"

datatype airport_op =
  AirportCreate airport_data | AirportFindAll QueryAirportDto | AirportFindOne int | AirportSearch string
| AirportUpdate int airport_data | AirportRemove int | AirportStatistics

definition airport_exec :: "db_order \<Rightarrow> airport_op \<Rightarrow> flight_world \<Rightarrow> flight_world" where
  "airport_exec db x w =
     (case x of
        AirportCreate d \<Rightarrow> snd (airport_create d w)
      | AirportFindAll q \<Rightarrow> snd (airport_findAll db q w)
      | AirportFindOne i \<Rightarrow> snd (airport_findOne i w)
      | AirportSearch c \<Rightarrow> snd (airport_findByCode c w)
      | AirportUpdate i d \<Rightarrow> snd (airport_update i d w)
      | AirportRemove i \<Rightarrow> snd (airport_remove i w)
      | AirportStatistics \<Rightarrow> snd (airport_getStatistics w))"

datatype airplane_op =
  AirplaneCreate airplane_data | AirplaneFindAll QueryAirplaneDto | AirplaneFindOne int
| AirplaneUpdate int airplane_data | AirplaneRemove int

definition airplane_exec :: "db_order \<Rightarrow> airplane_op \<Rightarrow> flight_world \<Rightarrow> flight_world" where
  "airplane_exec db x w =
     (case x of
        AirplaneCreate d \<Rightarrow> snd (airplane_create d w)
      | AirplaneFindAll q \<Rightarrow> snd (airplane_findAll db q w)
      | AirplaneFindOne i \<Rightarrow> snd (airplane_findOne i w)
      | AirplaneUpdate i d \<Rightarrow> snd (airplane_update i d w)
      | AirplaneRemove i \<Rightarrow> snd (airplane_remove i w))"

datatype seat_op = SeatCreate CreateSeatDto | SeatBulkCreate BulkCreateSeatsDto | SeatFind int | SeatRemove int

definition seat_exec :: "db_order \<Rightarrow> seat_op \<Rightarrow> flight_world \<Rightarrow> flight_world" where
  "seat_exec db x w =
     (case x of
        SeatCreate d \<Rightarrow> snd (seat_create d w)
      | SeatBulkCreate d \<Rightarrow> snd (seat_bulkCreate d w)
      | SeatFind i \<Rightarrow> snd (find_seats db i w)
      | SeatRemove i \<Rightarrow> snd (seat_remove i w))"

text \<open>One step of the service: a request, or time that passes and a new script of failures.\<close>

datatype catalog_op = CityOp city_op | AirportOp airport_op | AirplaneOp airplane_op | SeatOp seat_op
| CatalogTick int "bool list"

definition catalog_exec :: "db_order \<Rightarrow> flight_world \<Rightarrow> catalog_op \<Rightarrow> flight_world" where
  "catalog_exec db w x =
     (case x of
        CityOp c \<Rightarrow> city_exec db c w
      | AirportOp a \<Rightarrow> airport_exec db a w
      | AirplaneOp p \<Rightarrow> airplane_exec db p w
      | SeatOp s \<Rightarrow> seat_exec db s w
      | CatalogTick t fs \<Rightarrow> w\<lparr>now := max t (now w), faults := fs\<rparr>)"

end
