(* ===== verification/CatalogProps.thy ===== *)
theory CatalogProps
  imports Tables CatalogService SeatLock "HOL-Library.Multiset"
begin

text \<open>
  What the catalogue guarantees: every table satisfies its column types, keys and references after any
  requests and failures, the pages of a search partition the sorted matches, and the seats of a bulk
  creation can be locked by the booking service exactly within its format.
\<close>

declare keeps_option_case [keeps_intro] keeps_pair_case [keeps_intro]

subsection \<open>The invariant of the catalogue\<close>

definition upper_opt :: "string option \<Rightarrow> bool" where
  "upper_opt x = (case x of None \<Rightarrow> True | Some s \<Rightarrow> to_upper s = s)"

definition airport_valid :: "Airport \<Rightarrow> bool" where
  "airport_valid a \<longleftrightarrow> airport_columns_ok a \<and> to_upper (ap_code a) = ap_code a \<and> upper_opt (ap_icaoCode a)"

definition seat_valid :: "Seat \<Rightarrow> bool" where
  "seat_valid s \<longleftrightarrow> int4_ok (sr_airplaneId s) \<and> int4_ok (sr_row s) \<and> length (sr_col s) \<le> 1"

definition catalog_ok :: "flight_world \<Rightarrow> bool" where
  "catalog_ok w \<longleftrightarrow>
     table_ok ct_id (\<lambda>c. Some (ct_name c, ct_country c)) city_columns_ok (serial w) (cities w) \<and>
     table_ok ap_id (\<lambda>a. Some (ap_code a)) airport_valid (serial w) (airports w) \<and>
     table_ok pl_id pl_registrationNumber airplane_columns_ok (serial w) (airplanes w) \<and>
     table_ok sr_id (\<lambda>s. Some (seat_position s)) seat_valid (serial w) (seats w) \<and>
     ap_cityId ` set (airports w) \<subseteq> ct_id ` set (cities w) \<and>
     sr_airplaneId ` set (seats w) \<subseteq> pl_id ` set (airplanes w)"

lemma catalog_faults: "catalog_ok w \<Longrightarrow> catalog_ok (w\<lparr>faults := fs\<rparr>)"
  by (simp add: catalog_ok_def)

lemma catalog_query [keeps_intro]: "keeps catalog_ok (dbquery f)"
  by (rule keeps_dbquery) (rule catalog_faults)

lemma find_ident: "find (\<lambda>x. ident x = i) rows = Some r \<Longrightarrow> r \<in> set rows \<and> ident r = i"
  by (auto simp: find_Some_iff)

lemma catalog_create_city [keeps_intro]: "keeps catalog_ok (create_city d)"
  unfolding create_city_def
proof (rule keeps_dbcall, erule catalog_faults)
  fix w assume w: "catalog_ok w"
  let ?c = "new_city d (serial w) (now w)"
  have i: "ct_id ?c = serial w" by (simp add: new_city_def apply_city_def)
  have "table_ok ct_id (\<lambda>c. Some (ct_name c, ct_country c)) city_columns_ok (serial w + 1) (cities w @ [?c])"
    if "city_columns_ok ?c" "\<not> city_taken ?c (cities w)"
    by (rule table_append) (use w i that in \<open>auto simp: catalog_ok_def clashes_def city_taken_def\<close>)
  then show "catalog_ok (snd (let c = ?c in if city_nulls d \<or> cd_name d = Missing \<or> cd_country d = Missing \<or>
      \<not> city_columns_ok c \<or> city_taken c (cities w) then (Inl db_error, w)
      else (Inr (c\<lparr>ct_latitude := field_opt (cd_latitude d), ct_longitude := field_opt (cd_longitude d)\<rparr>),
            w\<lparr>serial := serial w + 1, cities := cities w @ [c]\<rparr>)))"
    using w by (auto simp: Let_def catalog_ok_def intro: table_mono)
qed

lemma catalog_write_city [keeps_intro]: "keeps catalog_ok (write_city i d)"
  unfolding write_city_def
proof (rule keeps_dbcall, erule catalog_faults)
  fix w assume w: "catalog_ok w"
  have "catalog_ok (w\<lparr>cities := map (\<lambda>x. if ct_id x = i then apply_city d (now w) c else x) (cities w)\<rparr>)"
    if f: "find (\<lambda>c. ct_id c = i) (cities w) = Some c"
      and ok: "city_columns_ok (apply_city d (now w) c)" "\<not> city_taken (apply_city d (now w) c) (cities w)" for c
  proof -
    have i: "ct_id (apply_city d (now w) c) = i" using find_ident [OF f] by (simp add: apply_city_def)
    have "table_ok ct_id (\<lambda>c. Some (ct_name c, ct_country c)) city_columns_ok (serial w)
        (map (\<lambda>x. if ct_id x = i then apply_city d (now w) c else x) (cities w))"
      by (rule table_update) (use w i ok in \<open>auto simp: catalog_ok_def clashes_def city_taken_def\<close>)
    then show ?thesis
      using w updated_ids [of ct_id, OF i, of "cities w"] by (simp add: catalog_ok_def)
  qed
  then show "catalog_ok (snd (case find (\<lambda>c. ct_id c = i) (cities w) of
      None \<Rightarrow> (Inr 0, w)
    | Some c \<Rightarrow>
        let c' = apply_city d (now w) c
        in if city_nulls d \<or> \<not> city_columns_ok c' \<or> city_taken c' (cities w) then (Inl db_error, w)
           else (Inr 1, w\<lparr>cities := map (\<lambda>x. if ct_id x = i then c' else x) (cities w)\<rparr>)))"
    using w by (auto simp: Let_def split: option.split)
qed


lemma upper_field_codes:
  "to_upper (set_value (upper_field d) s) = set_value (upper_field d) s" if "to_upper s = s" for s
  using that by (cases d) auto

lemma upper_opt_field: "upper_opt x \<Longrightarrow> upper_opt (set_nullable (upper_field d) x)"
  by (cases d) (auto simp: upper_opt_def)

lemma airport_upper:
  "ap_id (apply_airport d t a) = ap_id a"
  "to_upper (ap_code a) = ap_code a \<Longrightarrow> to_upper (ap_code (apply_airport (upper_codes d) t a)) = ap_code (apply_airport (upper_codes d) t a)"
  "upper_opt (ap_icaoCode a) \<Longrightarrow> upper_opt (ap_icaoCode (apply_airport (upper_codes d) t a))"
  by (auto simp: apply_airport_def upper_codes_def upper_field_codes upper_opt_field)

lemma airport_refusedD:
  "\<not> airport_refused a w \<Longrightarrow> \<not> clashes ap_id (\<lambda>a. Some (ap_code a)) a (airports w) \<and> ap_cityId a \<in> ct_id ` set (cities w)"
  by (auto simp: airport_refused_def clashes_def) (metis image_eqI)

lemma catalog_create_airport [keeps_intro]: "keeps catalog_ok (create_airport (upper_codes d))"
  unfolding create_airport_def
proof (rule keeps_dbcall, erule catalog_faults)
  fix w assume w: "catalog_ok w"
  let ?a = "new_airport (upper_codes d) (serial w) (now w)"
  have i: "ap_id ?a = serial w" by (simp add: new_airport_def airport_upper)
  have u: "to_upper (ap_code ?a) = ap_code ?a \<and> upper_opt (ap_icaoCode ?a)"
    unfolding new_airport_def by (intro conjI airport_upper) (simp_all add: upper_opt_def to_upper_def)
  have "catalog_ok (w\<lparr>serial := serial w + 1, airports := airports w @ [?a]\<rparr>)"
    if ok: "airport_columns_ok ?a" "\<not> airport_refused ?a w"
  proof -
    have "table_ok ap_id (\<lambda>a. Some (ap_code a)) airport_valid (serial w + 1) (airports w @ [?a])"
      by (rule table_append) (use w i u ok airport_refusedD [OF ok(2)] in \<open>auto simp: catalog_ok_def airport_valid_def\<close>)
    then show ?thesis
      using w airport_refusedD [OF ok(2)] by (auto simp: catalog_ok_def intro: table_mono)
  qed
  then show "catalog_ok (snd (let a = ?a in if airport_nulls (upper_codes d) \<or> ad_name (upper_codes d) = Missing \<or>
      ad_code (upper_codes d) = Missing \<or> ad_cityId (upper_codes d) = Missing \<or> \<not> airport_columns_ok a \<or> airport_refused a w
      then (Inl db_error, w)
      else (Inr (a\<lparr>ap_latitude := field_opt (ad_latitude (upper_codes d)), ap_longitude := field_opt (ad_longitude (upper_codes d))\<rparr>),
            w\<lparr>serial := serial w + 1, airports := airports w @ [a]\<rparr>)))"
    using w by (auto simp: Let_def)
qed

lemma catalog_write_airport [keeps_intro]: "keeps catalog_ok (write_airport i (upper_codes d))"
  unfolding write_airport_def
proof (rule keeps_dbcall, erule catalog_faults)
  fix w assume w: "catalog_ok w"
  have "catalog_ok (w\<lparr>airports := map (\<lambda>x. if ap_id x = i then apply_airport (upper_codes d) (now w) a else x) (airports w)\<rparr>)"
    if f: "find (\<lambda>a. ap_id a = i) (airports w) = Some a"
      and ok: "airport_columns_ok (apply_airport (upper_codes d) (now w) a)"
        "\<not> airport_refused (apply_airport (upper_codes d) (now w) a) w" for a
  proof -
    let ?a = "apply_airport (upper_codes d) (now w) a"
    have a: "a \<in> set (airports w)" "ap_id ?a = i" using find_ident [OF f] by (simp_all add: airport_upper)
    have "airport_valid a" using w a(1) by (simp add: catalog_ok_def table_ok_def)
    then have v: "airport_valid ?a" using ok(1) airport_upper by (simp add: airport_valid_def)
    have "table_ok ap_id (\<lambda>a. Some (ap_code a)) airport_valid (serial w)
        (map (\<lambda>x. if ap_id x = i then ?a else x) (airports w))"
      by (rule table_update) (use w a(2) v airport_refusedD [OF ok(2)] in \<open>auto simp: catalog_ok_def\<close>)
    moreover have "ap_cityId ` set (map (\<lambda>x. if ap_id x = i then ?a else x) (airports w)) \<subseteq> ct_id ` set (cities w)"
      using w airport_refusedD [OF ok(2)] by (auto simp: catalog_ok_def)
    ultimately show ?thesis using w by (simp add: catalog_ok_def)
  qed
  then show "catalog_ok (snd (case find (\<lambda>a. ap_id a = i) (airports w) of
      None \<Rightarrow> (Inr 0, w)
    | Some a \<Rightarrow>
        let a' = apply_airport (upper_codes d) (now w) a
        in if airport_nulls (upper_codes d) \<or> \<not> airport_columns_ok a' \<or> airport_refused a' w then (Inl db_error, w)
           else (Inr 1, w\<lparr>airports := map (\<lambda>x. if ap_id x = i then a' else x) (airports w)\<rparr>)))"
    using w by (auto simp: Let_def split: option.split)
qed

lemma catalog_delete_airport [keeps_intro]: "keeps catalog_ok (delete_airport_row i)"
  unfolding delete_airport_row_def
proof (rule keeps_dbcall, erule catalog_faults)
  fix w assume w: "catalog_ok w"
  let ?f = "\<lambda>a. if ap_id a = i then a\<lparr>ap_active := False, ap_updatedAt := now w\<rparr> else a"
  have "table_ok ap_id (\<lambda>a. Some (ap_code a)) airport_valid (serial w) (map ?f (airports w))"
    by (rule table_same_key) (use w in \<open>auto simp: catalog_ok_def airport_valid_def airport_columns_ok_def\<close>)
  moreover have "ap_cityId ` set (map ?f (airports w)) \<subseteq> ct_id ` set (cities w)"
    using w by (auto simp: catalog_ok_def)
  ultimately show "catalog_ok (snd (Inr (\<exists>a\<in>set (airports w). ap_id a = i), w\<lparr>airports := map ?f (airports w)\<rparr>))"
    using w by (simp add: catalog_ok_def)
qed

lemma registration_clash: "\<not> registration_taken p xs \<Longrightarrow> \<not> clashes pl_id pl_registrationNumber p xs"
  by (auto simp: registration_taken_def clashes_def)

lemma catalog_create_airplane [keeps_intro]: "keeps catalog_ok (create_airplane d)"
  unfolding create_airplane_def
proof (rule keeps_dbcall, erule catalog_faults)
  fix w assume w: "catalog_ok w"
  let ?p = "new_airplane d (serial w) (now w)"
  have i: "pl_id ?p = serial w" by (simp add: new_airplane_def apply_airplane_def)
  have "catalog_ok (w\<lparr>serial := serial w + 1, airplanes := airplanes w @ [?p]\<rparr>)"
    if ok: "airplane_columns_ok ?p" "\<not> registration_taken ?p (airplanes w)"
  proof -
    have "table_ok pl_id pl_registrationNumber airplane_columns_ok (serial w + 1) (airplanes w @ [?p])"
      by (rule table_append) (use w i ok registration_clash in \<open>auto simp: catalog_ok_def\<close>)
    then show ?thesis using w by (auto simp: catalog_ok_def intro: table_mono)
  qed
  then show "catalog_ok (snd (let p = ?p in if airplane_nulls d \<or> ld_modelNumber d = Missing \<or> ld_manufacturer d = Missing \<or>
      \<not> airplane_columns_ok p \<or> registration_taken p (airplanes w) then (Inl db_error, w)
      else (Inr p, w\<lparr>serial := serial w + 1, airplanes := airplanes w @ [p]\<rparr>)))"
    using w by (auto simp: Let_def)
qed

lemma catalog_write_airplane [keeps_intro]: "keeps catalog_ok (write_airplane i d)"
  unfolding write_airplane_def
proof (rule keeps_dbcall, erule catalog_faults)
  fix w assume w: "catalog_ok w"
  have "catalog_ok (w\<lparr>airplanes := map (\<lambda>x. if pl_id x = i then apply_airplane d (now w) p else x) (airplanes w)\<rparr>)"
    if f: "find (\<lambda>p. pl_id p = i) (airplanes w) = Some p"
      and ok: "airplane_columns_ok (apply_airplane d (now w) p)" "\<not> registration_taken (apply_airplane d (now w) p) (airplanes w)"
    for p
  proof -
    have i: "pl_id (apply_airplane d (now w) p) = i" using find_ident [OF f] by (simp add: apply_airplane_def)
    have "table_ok pl_id pl_registrationNumber airplane_columns_ok (serial w)
        (map (\<lambda>x. if pl_id x = i then apply_airplane d (now w) p else x) (airplanes w))"
      by (rule table_update) (use w i ok registration_clash in \<open>auto simp: catalog_ok_def\<close>)
    then show ?thesis using w updated_ids [of pl_id, OF i, of "airplanes w"] by (simp add: catalog_ok_def)
  qed
  then show "catalog_ok (snd (case find (\<lambda>p. pl_id p = i) (airplanes w) of
      None \<Rightarrow> (Inr 0, w)
    | Some p \<Rightarrow>
        let p' = apply_airplane d (now w) p
        in if airplane_nulls d \<or> \<not> airplane_columns_ok p' \<or> registration_taken p' (airplanes w) then (Inl db_error, w)
           else (Inr 1, w\<lparr>airplanes := map (\<lambda>x. if pl_id x = i then p' else x) (airplanes w)\<rparr>)))"
    using w by (auto simp: Let_def split: option.split)
qed

lemma catalog_delete_airplane [keeps_intro]: "keeps catalog_ok (delete_airplane_row i)"
  unfolding delete_airplane_row_def
proof (rule keeps_dbcall, erule catalog_faults)
  fix w assume w: "catalog_ok w"
  let ?f = "\<lambda>p. if pl_id p = i then p\<lparr>pl_active := False, pl_updatedAt := now w\<rparr> else p"
  have "table_ok pl_id pl_registrationNumber airplane_columns_ok (serial w) (map ?f (airplanes w))"
    by (rule table_same_key) (use w in \<open>auto simp: catalog_ok_def airplane_columns_ok_def\<close>)
  moreover have "pl_id ` set (map ?f (airplanes w)) = pl_id ` set (airplanes w)"
    by (rule mapped_ids) simp
  ultimately show "catalog_ok (snd (Inr (\<exists>p\<in>set (airplanes w). pl_id p = i), w\<lparr>airplanes := map ?f (airplanes w)\<rparr>))"
    using w by (simp add: catalog_ok_def)
qed


lemma catalog_insert_seat:
  assumes w: "catalog_ok w"
  shows "catalog_ok (snd (insert_seat d w))"
proof -
  obtain a r c ty where d: "d = (a, r, c, ty)" by (cases d)
  let ?s = "\<lparr>sr_id = serial w, sr_airplaneId = a, sr_row = r, sr_col = c, sr_seatType = ty, sr_createdAt = now w,
    sr_updatedAt = now w\<rparr>"
  show ?thesis
  proof (cases "seat_refused ?s w")
    case True
    then show ?thesis using w by (simp add: d insert_seat_def Let_def)
  next
    case False
    then have "seat_valid ?s" "\<not> clashes sr_id (\<lambda>s. Some (seat_position s)) ?s (seats w)"
      by (auto simp: seat_refused_def seat_valid_def clashes_def)
    then have "table_ok sr_id (\<lambda>s. Some (seat_position s)) seat_valid (serial w + 1) (seats w @ [?s])"
      by (intro table_append) (use w in \<open>auto simp: catalog_ok_def\<close>)
    moreover have "a \<in> pl_id ` set (airplanes w)" using False by (auto simp: seat_refused_def image_iff)
    ultimately show ?thesis
      using w False by (auto simp: d insert_seat_def Let_def catalog_ok_def intro: table_mono)
  qed
qed

lemma catalog_create_seat [keeps_intro]: "keeps catalog_ok (create_seat d)"
  unfolding create_seat_def by (rule keeps_dbcall) (auto intro: catalog_faults catalog_insert_seat)

text \<open>A bulk insertion touches the seats and the sequence only, so the rollback of the seats is enough.\<close>

definition seats_only :: "flight_world \<Rightarrow> flight_world \<Rightarrow> bool" where
  "seats_only w v \<longleftrightarrow> cities v = cities w \<and> airports v = airports w \<and> airplanes v = airplanes w \<and> serial w \<le> serial v"

interpretation seats_only: world_relation seats_only
  by unfold_locales (auto simp: seats_only_def)

lemma seats_only_insert: "stays seats_only (insert_seat d)"
  by (auto simp: stays_def seats_only_def insert_seat_def Let_def split: prod.split)

lemma seats_only_inserts: "stays seats_only (insert_seats ds)"
  by (induction ds) (auto intro!: seats_only.stays_intros seats_only_insert)

lemma seats_only_external: "stays seats_only external"
  by (auto simp: stays_def seats_only_def external_def)

lemma catalog_insert_seats: "keeps catalog_ok (insert_seats ds)"
proof (induction ds)
  case (Cons d ds)
  have "keeps catalog_ok (insert_seat d)" by (rule keepsI) (rule catalog_insert_seat)
  with Cons show ?case by (simp add: keeps_intro)
qed (simp add: keeps_intro)

lemma catalog_seats_rollback: "catalog_ok w \<Longrightarrow> seats_only w v \<Longrightarrow> catalog_ok (v\<lparr>seats := seats w\<rparr>)"
  by (auto simp: catalog_ok_def seats_only_def intro: table_mono)

lemma catalog_bulk [keeps_intro]: "keeps catalog_ok (bulk_create_seats ds)"
proof (rule keepsI)
  fix w assume w: "catalog_ok w"
  let ?m = "andThen external (\<lambda>_. andThen (dbcall (insert_seats ds)) (\<lambda>a. andThen external (\<lambda>_. ret a)))"
  have ext: "keeps catalog_ok external"
    by (rule keepsI) (auto simp: external_def intro: catalog_faults)
  have "keeps catalog_ok ?m"
    unfolding dbcall_def by (intro keeps_intro ext catalog_insert_seats)
  then have k: "catalog_ok (snd (?m w))" using w by (rule keepsD)
  have "stays seats_only ?m"
    unfolding dbcall_def by (intro seats_only.stays_intros seats_only_external seats_only_inserts)
  then have r: "seats_only w (snd (?m w))" by (simp add: stays_def)
  show "catalog_ok (snd (bulk_create_seats ds w))"
    using w k catalog_seats_rollback [OF w r]
    by (cases "?m w") (auto simp: bulk_create_seats_def ret_def atomic_def seats_rollback_def split: sum.split)
qed

lemma catalog_delete_seat [keeps_intro]: "keeps catalog_ok (delete_seat i)"
  unfolding delete_seat_def
  by (rule keeps_dbcall) (auto simp: catalog_ok_def intro: table_filter)

subsection \<open>All requests\<close>

lemma catalog_page_query [keeps_intro]: "keeps catalog_ok (page_query s n rows)"
  unfolding page_query_def by (rule keeps_dbcall) (auto simp: catalog_faults split: sum.split)


lemma catalog_statistics [keeps_intro]: "keeps catalog_ok (statistics f)"
  unfolding statistics_def by (intro keeps_intro)

lemma catalog_search_rows [keeps_intro]: "keeps catalog_ok (search_rows db columns field q rows)"
  unfolding search_rows_def Let_def by (auto split: option.split intro: keeps_intro)

lemma catalog_update_city_row [keeps_intro]: "keeps catalog_ok (update_city_row i d)"
  unfolding update_city_row_def find_city_def by (intro keeps_intro)

lemmas city_statements = find_city_def find_city_with_airports_def find_city_by_name_def delete_city_row_def city_page_def

lemma catalog_cities [keeps_intro]:
  "keeps catalog_ok (city_create d)" "keeps catalog_ok (city_findAll db q)"
  "keeps catalog_ok (city_findAllWithAirportCount db q)" "keeps catalog_ok (city_findOne i)"
  "keeps catalog_ok (city_update i d)" "keeps catalog_ok (city_remove i)" "keeps catalog_ok (city_restore i)"
  "keeps catalog_ok city_getStatistics"
  unfolding city_create_def city_findAll_def city_findAllWithAirportCount_def city_findOne_def city_update_def
    city_remove_def city_restore_def city_getStatistics_def city_statements Let_def
  by (intro keeps_intro)+

lemma catalog_update_airport_row [keeps_intro]: "keeps catalog_ok (update_airport_row i (upper_codes d))"
  unfolding update_airport_row_def find_airport_by_id_def by (intro keeps_intro)

lemma catalog_airports [keeps_intro]:
  "keeps catalog_ok (airport_create d)" "keeps catalog_ok (airport_findAll db q)"
  "keeps catalog_ok (airport_findOne i)" "keeps catalog_ok (airport_findByCode c)"
  "keeps catalog_ok (airport_update i d)" "keeps catalog_ok (airport_remove i)" "keeps catalog_ok airport_getStatistics"
  unfolding airport_create_def airport_findAll_def airport_findOne_def airport_findByCode_def airport_update_def
    airport_remove_def airport_getStatistics_def find_city_def find_airport_by_id_def find_airport_by_code_def
    find_airport_by_icao_def airport_search_def Let_def
  by (intro keeps_intro)+

lemma catalog_airplanes [keeps_intro]:
  "keeps catalog_ok (airplane_create d)" "keeps catalog_ok (airplane_findAll db q)"
  "keeps catalog_ok (airplane_findOne i)" "keeps catalog_ok (airplane_update i d)" "keeps catalog_ok (airplane_remove i)"
  unfolding airplane_create_def airplane_findAll_def airplane_findOne_def airplane_update_def airplane_remove_def
    update_airplane_row_def find_airplane_by_id_def airplane_search_def
  by (intro keeps_intro)+

lemma catalog_seats [keeps_intro]:
  "keeps catalog_ok (seat_create s)" "keeps catalog_ok (seat_bulkCreate b)" "keeps catalog_ok (find_seats db i)"
  "keeps catalog_ok (seat_remove i)"
  unfolding seat_create_def seat_bulkCreate_def find_seats_def seat_remove_def find_airplane_by_id_def
  by (intro keeps_intro)+

lemma catalog_tick: "catalog_ok w \<Longrightarrow> catalog_ok (w\<lparr>now := t, faults := fs\<rparr>)"
  by (simp add: catalog_ok_def)

lemma city_exec_ok: "catalog_ok w \<Longrightarrow> catalog_ok (city_exec db x w)"
  by (cases x) (auto simp: city_exec_def intro: catalog_cities [THEN keepsD])

lemma airport_exec_ok: "catalog_ok w \<Longrightarrow> catalog_ok (airport_exec db x w)"
  by (cases x) (auto simp: airport_exec_def intro: catalog_airports [THEN keepsD])

lemma airplane_exec_ok: "catalog_ok w \<Longrightarrow> catalog_ok (airplane_exec db x w)"
  by (cases x) (auto simp: airplane_exec_def intro: catalog_airplanes [THEN keepsD])

lemma seat_exec_ok: "catalog_ok w \<Longrightarrow> catalog_ok (seat_exec db x w)"
  by (cases x) (auto simp: seat_exec_def intro: catalog_seats [THEN keepsD])

lemmas catalog_steps = city_exec_ok airport_exec_ok airplane_exec_ok seat_exec_ok catalog_tick

interpretation catalog: invariant_machine "catalog_exec db" catalog_ok for db
proof unfold_locales
  fix w x
  assume "catalog_ok w"
  then show "catalog_ok (catalog_exec db w x)"
    by (cases x) (auto simp: catalog_exec_def intro: catalog_steps)
qed

definition empty_catalog :: "flight_world \<Rightarrow> bool" where
  "empty_catalog w \<longleftrightarrow> cities w = [] \<and> airports w = [] \<and> airplanes w = [] \<and> seats w = []"


text \<open>The catalogue is typed by its schema: starting from empty tables, after any requests in any
  order and under any failures of the database, every row fits its columns, the identifiers are distinct,
  no two cities share name and country, no two airports a code (and codes are upper case), no two airplanes
  a registration number and no two seats of an airplane a position, and every airport's city and every
  seat's airplane exist.\<close>

lemma catalog_typed:
  assumes "empty_catalog w" and "run_steps (catalog_exec db) w ops = w'"
  shows "catalog_ok w'"
proof -
  have "catalog_ok w" using assms(1) by (simp add: empty_catalog_def catalog_ok_def table_ok_def)
  from catalog.run_keeps [OF this, of db ops] show ?thesis using assms(2) by simp
qed

subsection \<open>Sorting and pages\<close>

lemma mset_insert_by: "mset (insert_by le x xs) = add_mset x (mset xs)"
  by (induction xs) auto

lemma mset_sort_by [simp]: "mset (sort_by le xs) = mset xs"
  by (induction xs) (auto simp: sort_by_def mset_insert_by)

lemma length_sort_by [simp]: "length (sort_by le xs) = length xs"
  by (metis mset_sort_by size_mset)

lemma sorted_insert_by:
  assumes "\<And>x y. le x y \<or> le y x" "\<And>x y z. le x y \<Longrightarrow> le y z \<Longrightarrow> le x z"
  shows "sorted_wrt le xs \<Longrightarrow> sorted_wrt le (insert_by le x xs)"
proof (induction xs)
  case (Cons y ys)
  have "set (insert_by le x ys) = insert x (set ys)"
    by (metis mset_insert_by set_mset_add_mset_insert set_mset_mset)
  with Cons assms show ?case by auto
qed simp

lemma sorted_sort_by:
  assumes "\<And>x y. le x y \<or> le y x" "\<And>x y z. le x y \<Longrightarrow> le y z \<Longrightarrow> le x z"
  shows "sorted_wrt le (sort_by le xs)"
proof (induction xs)
  case (Cons x xs)
  from sorted_insert_by [of le, OF assms this] show ?case by (simp add: sort_by_def)
qed (simp add: sort_by_def)

text \<open>The order the database reads the rows in is a rearrangement of the table.\<close>

lemma mset_scanned [simp]: "mset (scanned rank xs) = mset xs"
proof -
  have "mset (map snd (sort_key (\<lambda>(i, x). rank i) (enumerate 0 xs))) = mset (map snd (enumerate 0 xs))"
    by (simp only: mset_map mset_sort)
  then show ?thesis by (simp add: scanned_def)
qed

lemma mset_order_by [simp]: "mset (order_by db skip n key desc xs) = mset xs"
  by (simp add: order_by_def)

lemma length_order_by [simp]: "length (order_by db skip n key desc xs) = length xs"
  by (metis mset_order_by size_mset)

text \<open>Rows that are pairwise in a strict order have only one sorted arrangement.\<close>

lemma sorted_unique:
  assumes "sorted_wrt le xs" "sorted_wrt le ys" "mset xs = mset ys"
    and "\<And>x y. x \<in> set xs \<Longrightarrow> y \<in> set xs \<Longrightarrow> le x y \<Longrightarrow> le y x \<Longrightarrow> x = y"
  shows "xs = ys"
  using assms
proof (induction xs arbitrary: ys)
  case (Cons x xs)
  then obtain y ys' where ys: "ys = y # ys'" by (cases ys) auto
  have same: "set (x # xs) = set ys" using Cons.prems(3) by (rule mset_eq_setD)
  have "x = y"
  proof (rule ccontr)
    assume "x \<noteq> y"
    then have "x \<in> set ys'" "y \<in> set xs" using same ys by auto
    then have "le y x" "le x y" using Cons.prems(1,2) ys by simp_all
    with Cons.prems(4) [of x y] \<open>y \<in> set xs\<close> \<open>x \<noteq> y\<close> show False by simp
  qed
  moreover have "xs = ys'"
    using Cons.prems ys \<open>x = y\<close> by (intro Cons.IH) auto
  ultimately show ?case by (simp add: ys)
qed simp

text \<open>For a collation that is a total preorder the rows really are in order.\<close>

lemma key_le_total: "(\<And>s t. collate s t \<or> collate t s) \<Longrightarrow> key_le collate x y \<or> key_le collate y x"
  by (cases x; cases y) (auto split: option.split)

definition linear_collation :: "(string \<Rightarrow> string \<Rightarrow> bool) \<Rightarrow> bool" where
  "linear_collation collate \<longleftrightarrow> (\<forall>s t. collate s t \<or> collate t s) \<and>
     (\<forall>s t u. collate s t \<longrightarrow> collate t u \<longrightarrow> collate s u) \<and> (\<forall>s t. collate s t \<longrightarrow> collate t s \<longrightarrow> s = t)"

text \<open>A column has keys of one kind.\<close>

fun same_kind :: "sort_key \<Rightarrow> sort_key \<Rightarrow> bool" where
  "same_kind (KStr x) (KStr y) = True"
| "same_kind (KNum x) (KNum y) = True"
| "same_kind (KBool x) (KBool y) = True"
| "same_kind _ _ = False"

lemma key_le_trans:
  assumes "linear_collation collate" "same_kind x y" "same_kind y z" "key_le collate x y" "key_le collate y z"
  shows "key_le collate x z"
proof -
  have trans: "\<And>s t u. collate s t \<Longrightarrow> collate t u \<Longrightarrow> collate s u"
    using assms(1) unfolding linear_collation_def by blast
  show ?thesis
    using assms(2-5)
  proof (cases x)
    case (KStr a)
    with assms(2,3) obtain b c where "y = KStr b" "z = KStr c" by (cases y; cases z) auto
    with KStr assms(4,5) show ?thesis by (auto dest: trans split: option.splits)
  next
    case (KNum a)
    with assms(2,3) obtain b c where "y = KNum b" "z = KNum c" by (cases y; cases z) auto
    with KNum assms(4,5) show ?thesis by (auto split: option.splits)
  next
    case (KBool a)
    with assms(2,3) obtain b c where "y = KBool b" "z = KBool c" by (cases y; cases z) auto
    with KBool assms(4,5) show ?thesis by auto
  qed
qed

lemma key_le_antisym:
  assumes "linear_collation collate" "same_kind x y" "key_le collate x y" "key_le collate y x"
  shows "x = y"
proof -
  have anti: "collate s t \<Longrightarrow> collate t s \<Longrightarrow> s = t" for s t
    using assms(1) unfolding linear_collation_def by blast
  show ?thesis
    using assms(2-4) by (cases x; cases y) (auto dest: anti split: option.splits)
qed

lemma row_le_linear:
  assumes "linear_collation collate" "\<And>x y. same_kind (key x) (key y)"
  shows "row_le collate key desc x y \<or> row_le collate key desc y x"
    and "row_le collate key desc x y \<Longrightarrow> row_le collate key desc y z \<Longrightarrow> row_le collate key desc x z"
    and "row_le collate key desc x y \<Longrightarrow> row_le collate key desc y x \<Longrightarrow> key x = key y"
proof -
  have "key_le collate (key x) (key y) \<or> key_le collate (key y) (key x)"
    using assms(1) by (intro key_le_total) (simp add: linear_collation_def)
  then show "row_le collate key desc x y \<or> row_le collate key desc y x" by (simp add: row_le_def disj_commute)
  show "row_le collate key desc x y \<Longrightarrow> row_le collate key desc y z \<Longrightarrow> row_le collate key desc x z"
    using key_le_trans [OF assms(1,2,2), of x y z] key_le_trans [OF assms(1,2,2), of z y x]
    by (cases desc) (simp_all add: row_le_def)
  show "row_le collate key desc x y \<Longrightarrow> row_le collate key desc y x \<Longrightarrow> key x = key y"
    using key_le_antisym [OF assms(1,2), of x y] by (cases desc) (simp_all add: row_le_def)
qed

text \<open>With distinct keys the order no longer depends on how the rows are read.\<close>

lemma order_by_distinct:
  assumes "linear_collation (db_collate db)" "\<And>x y. same_kind (key x) (key y)" "distinct (map key xs)"
  shows "sorted_wrt (row_le (db_collate db) key desc) (order_by db skip n key desc xs)"
    and "order_by db skip n key desc xs = order_by db skip' n' key desc xs"
proof -
  note le = row_le_linear [where key = key and desc = desc, OF assms(1,2)]
  show sorted: "sorted_wrt (row_le (db_collate db) key desc) (order_by db skip n key desc xs)" for skip n
    unfolding order_by_def by (rule sorted_sort_by) (rule le(1), rule le(2))
  have set: "set (order_by db skip n key desc xs) = set xs"
    by (rule mset_eq_setD) simp
  show "order_by db skip n key desc xs = order_by db skip' n' key desc xs"
  proof (rule sorted_unique [OF sorted sorted])
    fix x y
    assume "x \<in> set (order_by db skip n key desc xs)" "y \<in> set (order_by db skip n key desc xs)"
      "row_le (db_collate db) key desc x y" "row_le (db_collate db) key desc y x"
    then have "key x = key y" and "x \<in> set xs" and "y \<in> set xs" unfolding set by (blast intro: le(3))+
    moreover have "inj_on key (set xs)" using assms(3) by (simp add: distinct_map)
    ultimately show "x = y" by (blast dest: inj_onD)
  qed simp
qed

lemma pages_of_list: "concat (map (\<lambda>k. take n (drop (k * n) xs)) [0..<m]) = take (m * n) xs"
proof (induction m)
  case (Suc m)
  have "take (Suc m * n) xs = take (m * n) xs @ take n (drop (m * n) xs)"
    using take_add [of "m * n" n xs] by (simp add: add.commute)
  with Suc show ?case by simp
qed simp

lemma upto_from_1: "[1..int m] = map (\<lambda>k. int k + 1) [0..<m]"
proof (induction m)
  case (Suc m)
  have "[1..int (Suc m)] = [1..int m] @ [int m + 1]"
    by (simp add: upto_rec2)
  with Suc show ?case by simp
qed simp

lemma page_rows_page:
  assumes "0 < n" "1 \<le> p"
  shows "page_rows ((p - 1) * n) n xs = Inr (take (nat n) (drop (nat (p - 1) * nat n) xs))"
  using assms by (simp add: page_rows_def Let_def nat_mult_distrib not_less)

lemma pages_concat:
  assumes n: "0 < (n :: int)"
  shows "concat (map (\<lambda>p. take (nat n) (drop (nat (p - 1) * nat n) xs)) [1..- ((- int (length xs)) div n)]) = xs"
proof -
  define m where "m = nat (- ((- int (length xs)) div n))"
  have div_le: "(- int (length xs)) div n \<le> 0" using n by (simp add: div_nonpos_pos_le0)
  then have m: "int m = - ((- int (length xs)) div n)" by (simp add: m_def)
  have "n * ((- int (length xs)) div n) + (- int (length xs)) mod n = - int (length xs)" by (rule mult_div_mod_eq)
  moreover have "0 \<le> (- int (length xs)) mod n" using n by simp
  ultimately have "n * ((- int (length xs)) div n) \<le> - int (length xs)" by linarith
  then have "int (length xs) \<le> n * int m" unfolding m by (simp add: algebra_simps)
  then have len: "length xs \<le> m * nat n"
    using n by (metis int_nat_eq less_imp_le mult.commute of_nat_le_iff of_nat_mult)
  have "concat (map (\<lambda>p. take (nat n) (drop (nat (p - 1) * nat n) xs)) [1..int m]) = take (m * nat n) xs"
    unfolding upto_from_1 by (simp add: comp_def pages_of_list)
  then show ?thesis using len unfolding m by simp
qed

text \<open>
  A search whose sort key tells the matching rows apart: there is one list in the requested order of which
  page \<open>p\<close> is the \<open>p\<close>-th piece, and the pieces make up the list.
\<close>

lemma search_pages:
  assumes "faults w = []" "0 < bq_limit q" "map_of columns (or_str (bq_sortBy q) field) = Some key"
    "descending (bq_sortOrder q) = Some desc" "linear_collation (db_collate db)"
    "\<And>x y. same_kind (key x) (key y)" "distinct (map key (rows w))"
  obtains xs where "mset xs = mset (rows w)" "sorted_wrt (row_le (db_collate db) key desc) xs"
    "\<And>p. 1 \<le> p \<Longrightarrow> search_rows db columns field (q\<lparr>bq_page := p\<rparr>) rows w =
       (Inr (take (nat (bq_limit q)) (drop (nat (p - 1) * nat (bq_limit q)) xs), int (length xs)), w)"
    "concat (map (\<lambda>p. take (nat (bq_limit q)) (drop (nat (p - 1) * nat (bq_limit q)) xs))
       [1..- ((- int (length xs)) div bq_limit q)]) = xs"
proof -
  let ?xs = "order_by db 0 (bq_limit q) key desc (rows w)"
  note ordered = order_by_distinct [where key = key and desc = desc, OF assms(5-7)]
  have "search_rows db columns field (q\<lparr>bq_page := p\<rparr>) rows w =
      (Inr (take (nat (bq_limit q)) (drop (nat (p - 1) * nat (bq_limit q)) ?xs), int (length ?xs)), w)" if "1 \<le> p" for p
    using assms(1-4) ordered(2) [of "(p - 1) * bq_limit q" "bq_limit q" 0 "bq_limit q"]
    by (simp add: search_rows_def page_query_def page_rows_page that Let_def)
  with that [of ?xs] ordered(1) pages_concat [OF assms(2), of ?xs] show thesis by simp
qed

text \<open>
  What the filters of a query mean when they contain no wildcard: a filter is absent, empty, or occurs in the
  column whatever the case of the letters.
\<close>

definition plain_text :: "string option \<Rightarrow> bool" where
  "plain_text x \<longleftrightarrow> (case x of None \<Rightarrow> True | Some s \<Rightarrow> \<forall>c\<in>set s. c \<noteq> CHR ''%'' \<and> c \<noteq> CHR ''_'' \<and> c \<noteq> CHR 0x5C)"

definition occurs :: "string option \<Rightarrow> string option \<Rightarrow> bool" where
  "occurs x column \<longleftrightarrow> (case x of None \<Rightarrow> True | Some s \<Rightarrow> s = '''' \<or>
     (case column of None \<Rightarrow> False | Some t \<Rightarrow> \<exists>a b. to_lower t = a @ to_lower s @ b))"

definition airplane_wanted :: "QueryAirplaneDto \<Rightarrow> Airplane \<Rightarrow> bool" where
  "airplane_wanted q p \<longleftrightarrow>
     (occurs (bq_search q) (Some (pl_manufacturer p)) \<or> occurs (bq_search q) (Some (pl_modelNumber p)) \<or>
      occurs (bq_search q) (pl_registrationNumber p)) \<and>
     occurs (qp_manufacturer q) (Some (pl_manufacturer p)) \<and> occurs (qp_modelNumber q) (Some (pl_modelNumber p)) \<and>
     occurs (qp_registrationNumber q) (pl_registrationNumber p) \<and>
     (bq_active q = None \<or> bq_active q = Some (pl_active p))"

lemma like_any: "like ''%'' s"
  by (induction s) (simp_all add: like.simps)

lemma like_prefix:
  assumes "\<forall>c\<in>set p. c \<noteq> CHR ''%'' \<and> c \<noteq> CHR ''_'' \<and> c \<noteq> CHR 0x5C"
  shows "like (p @ ''%'') s \<longleftrightarrow> (\<exists>b. s = p @ b)"
  using assms
proof (induction p arbitrary: s)
  case Nil
  then show ?case by (simp add: like_any)
next
  case (Cons c p)
  then show ?case by (cases s) (auto simp: like.simps(2) [of c "p @ ''%''"])
qed

lemma like_contains:
  assumes "\<forall>c\<in>set p. c \<noteq> CHR ''%'' \<and> c \<noteq> CHR ''_'' \<and> c \<noteq> CHR 0x5C"
  shows "like (CHR ''%'' # p @ ''%'') s \<longleftrightarrow> (\<exists>a b. s = a @ p @ b)"
proof (induction s)
  case Nil
  then show ?case using like_prefix [OF assms, of "[]"] by (simp add: like.simps(2) [of "CHR ''%''" "p @ ''%''"])
next
  case (Cons c s)
  have "(\<exists>a b. c # s = a @ p @ b) \<longleftrightarrow> (\<exists>b. c # s = p @ b) \<or> (\<exists>a b. s = a @ p @ b)"
    by (metis append_Cons append_Nil list.inject neq_Nil_conv)
  then show ?case
    using like_prefix [OF assms, of "c # s"] Cons by (simp add: like.simps(2) [of "CHR ''%''" "p @ ''%''"])
qed

lemma lower_wildcard: "lower_char c \<in> {CHR ''%'', CHR ''_'', CHR 0x5C} \<Longrightarrow> lower_char c = c"
  by (auto simp: lower_char_def of_char_of split: if_splits dest!: arg_cong [where f = "of_char :: char \<Rightarrow> nat"])

lemma ilike_contains:
  assumes "plain_text (Some s)"
  shows "ilike (contains_pattern s) t \<longleftrightarrow> (\<exists>a b. to_lower t = a @ to_lower s @ b)"
proof -
  have plain: "c \<notin> {CHR ''%'', CHR ''_'', CHR 0x5C}" if "c \<in> set s" for c
    using assms that by (simp add: plain_text_def)
  have "lower_char c \<notin> {CHR ''%'', CHR ''_'', CHR 0x5C}" if "c \<in> set s" for c
    using plain [OF that] lower_wildcard [of c] by metis
  then have "\<forall>c\<in>set (to_lower s). c \<noteq> CHR ''%'' \<and> c \<noteq> CHR ''_'' \<and> c \<noteq> CHR 0x5C"
    by (simp add: to_lower_def)
  from like_contains [OF this, of "to_lower t"] show ?thesis
    by (simp add: ilike_def contains_pattern_def to_lower_def lower_char_def)
qed

lemma airplane_match_wanted:
  assumes "plain_text (bq_search q)" "plain_text (qp_manufacturer q)" "plain_text (qp_modelNumber q)"
    "plain_text (qp_registrationNumber q)"
  shows "airplane_match q p = airplane_wanted q p"
proof -
  have one: "(truthy x \<longrightarrow> ilike (contains_pattern (the x)) t) \<longleftrightarrow> occurs x (Some t)" if "plain_text x" for x t
    using that by (cases x) (auto simp: occurs_def ilike_contains)
  have two: "(truthy x \<longrightarrow> ilike_opt (contains_pattern (the x)) c) \<longleftrightarrow> occurs x c" if "plain_text x" for x c
    using that by (cases x; cases c) (auto simp: occurs_def ilike_opt_def ilike_contains)
  have "airplane_match q p \<longleftrightarrow>
     ((truthy (bq_search q) \<longrightarrow> ilike (contains_pattern (the (bq_search q))) (pl_manufacturer p)) \<or>
      (truthy (bq_search q) \<longrightarrow> ilike (contains_pattern (the (bq_search q))) (pl_modelNumber p)) \<or>
      (truthy (bq_search q) \<longrightarrow> ilike_opt (contains_pattern (the (bq_search q))) (pl_registrationNumber p))) \<and>
     (truthy (qp_manufacturer q) \<longrightarrow> ilike (contains_pattern (the (qp_manufacturer q))) (pl_manufacturer p)) \<and>
     (truthy (qp_modelNumber q) \<longrightarrow> ilike (contains_pattern (the (qp_modelNumber q))) (pl_modelNumber p)) \<and>
     (truthy (qp_registrationNumber q) \<longrightarrow>
        ilike_opt (contains_pattern (the (qp_registrationNumber q))) (pl_registrationNumber p)) \<and>
     (bq_active q = None \<or> bq_active q = Some (pl_active p))"
    by (auto simp: airplane_match_def split: option.split)
  then show ?thesis unfolding one [OF assms(1)] two [OF assms(1)] one [OF assms(2)] one [OF assms(3)] two [OF assms(4)]
    by (simp add: airplane_wanted_def)
qed

lemma airplane_keys: "(name, key) \<in> set airplane_sort_fields \<Longrightarrow> same_kind (key x) (key y)"
  by (auto simp: airplane_sort_fields_def)

text \<open>C31. The pages of a search are a partition of its result as long as the sort field tells the airplanes found
  apart: for filters without wildcards, a field whose values are distinct among the airplanes wanted, any
  direction and any page size, there is a list of exactly the airplanes wanted, each once and in the requested
  order, and the pages 1 to \<open>totalPages\<close> put together are that list, whatever order the database reads its
  rows in; every page reports the same number of pages. For a field with equal values, as the default
  \<open>manufacturer\<close>, this fails (\<open>pages_repeat\<close>): nothing breaks the tie.\<close>

theorem airplane_pages_partition:
  assumes "faults w = []" "0 < bq_limit q"
    and "map_of airplane_sort_fields (or_str (bq_sortBy q) ''manufacturer'') = Some key"
    and "descending (bq_sortOrder q) = Some desc" and "linear_collation (db_collate db)"
    and "plain_text (bq_search q)" "plain_text (qp_manufacturer q)" "plain_text (qp_modelNumber q)"
      "plain_text (qp_registrationNumber q)"
    and "distinct (map key (filter (airplane_wanted q) (airplanes w)))"
  shows "\<exists>n xs. mset xs = mset (filter (airplane_wanted q) (airplanes w)) \<and>
    sorted_wrt (\<lambda>x y. if desc then key_le (db_collate db) (key y) (key x) else key_le (db_collate db) (key x) (key y)) xs \<and>
    (\<forall>p. p < 1 \<or> (\<exists>d. fst (airplane_findAll db (q\<lparr>bq_page := p\<rparr>) w) = Inr d \<and> pm_totalPages (pd_meta d) = Some n)) \<and>
    concat (map (\<lambda>p. pd_data (projr (fst (airplane_findAll db (q\<lparr>bq_page := p\<rparr>) w)))) [1..n]) = map airplane_response xs"
proof -
  let ?rows = "\<lambda>w. filter (airplane_match q) (airplanes w)"
  have wanted: "?rows w = filter (airplane_wanted q) (airplanes w)" for w
    using airplane_match_wanted [OF assms(6-9)] by presburger
  have kind: "same_kind (key x) (key y)" for x y using airplane_keys [OF map_of_SomeD [OF assms(3)]] .
  have dist: "distinct (map key (?rows w))" using assms(10) by (simp only: wanted)
  obtain xs where xs: "mset xs = mset (?rows w)" "sorted_wrt (row_le (db_collate db) key desc) xs"
    and page: "\<And>p. 1 \<le> p \<Longrightarrow> search_rows db airplane_sort_fields ''manufacturer'' (q\<lparr>bq_page := p\<rparr>) ?rows w =
       (Inr (take (nat (bq_limit q)) (drop (nat (p - 1) * nat (bq_limit q)) xs), int (length xs)), w)"
    and pages: "concat (map (\<lambda>p. take (nat (bq_limit q)) (drop (nat (p - 1) * nat (bq_limit q)) xs))
       [1..- ((- int (length xs)) div bq_limit q)]) = xs"
    using search_pages [where rows = ?rows, OF assms(1-5) kind dist] by metis
  let ?n = "- ((- int (length xs)) div bq_limit q)"
  have match: "airplane_match (q\<lparr>bq_page := p\<rparr>) = airplane_match q" for p by (simp add: airplane_match_def fun_eq_iff)
  have found: "fst (airplane_findAll db (q\<lparr>bq_page := p\<rparr>) w) =
      Inr (paginated_create (map airplane_response (take (nat (bq_limit q)) (drop (nat (p - 1) * nat (bq_limit q)) xs)))
        p (bq_limit q) (int (length xs)))" if "1 \<le> p" for p
    using page [OF that] by (simp add: airplane_findAll_def airplane_search_def andThen_def ret_def match)
  have "map (\<lambda>p. pd_data (projr (fst (airplane_findAll db (q\<lparr>bq_page := p\<rparr>) w)))) [1..?n] =
      map (\<lambda>p. map airplane_response (take (nat (bq_limit q)) (drop (nat (p - 1) * nat (bq_limit q)) xs))) [1..?n]"
    by (rule map_cong [OF refl]) (simp add: found paginated_create_def)
  then have "concat (map (\<lambda>p. pd_data (projr (fst (airplane_findAll db (q\<lparr>bq_page := p\<rparr>) w)))) [1..?n]) =
      map airplane_response (concat (map (\<lambda>p. take (nat (bq_limit q)) (drop (nat (p - 1) * nat (bq_limit q)) xs)) [1..?n]))"
    by (simp only: map_concat map_map comp_def)
  then have "concat (map (\<lambda>p. pd_data (projr (fst (airplane_findAll db (q\<lparr>bq_page := p\<rparr>) w)))) [1..?n]) = map airplane_response xs"
    unfolding pages .
  moreover have "p < 1 \<or> (\<exists>d. fst (airplane_findAll db (q\<lparr>bq_page := p\<rparr>) w) = Inr d \<and>
      pm_totalPages (pd_meta d) = Some ?n)" for p
    using found [of p] assms(2) by (cases "p < 1") (auto simp: paginated_create_def pagination_meta_def totalPages_def)
  moreover have "sorted_wrt (\<lambda>x y. if desc then key_le (db_collate db) (key y) (key x)
      else key_le (db_collate db) (key x) (key y)) xs"
    using xs(2) by (simp add: row_le_def [abs_def])
  ultimately show ?thesis using xs(1) unfolding wanted by blast
qed


subsection \<open>Bulk creation and the seat lock\<close>

text \<open>The label under which a seat is booked: row and column.\<close>

definition seat_label :: "Seat \<Rightarrow> string" where
  "seat_label s = show_int (sr_row s) @ sr_col s"

lemma insert_seats_rows:
  assumes "insert_seats ds w = (Inr ss, v)"
  shows "map (\<lambda>s. (sr_airplaneId s, sr_row s, sr_col s, sr_seatType s)) ss = ds"
  using assms
proof (induction ds arbitrary: w ss)
  case Nil
  then show ?case by simp
next
  case (Cons d ds)
  then obtain s u ss' where s: "insert_seat d w = (Inr s, u)" and r: "insert_seats ds u = (Inr ss', v)" "ss = s # ss'"
    by auto
  have "(sr_airplaneId s, sr_row s, sr_col s, sr_seatType s) = d"
    using s by (cases d) (auto simp: insert_seat_def Let_def split: if_splits)
  with Cons.IH [OF r(1)] r(2) show ?case by simp
qed

lemma bulk_created:
  assumes "seat_bulkCreate d w = (Inr ss, v)"
  shows "map (\<lambda>s. (sr_airplaneId s, sr_row s, sr_col s, sr_seatType s)) ss = bulk_rows d"
proof -
  obtain u where b: "bulk_create_seats (bulk_rows d) u = (Inr ss, v)"
    using assms by (auto simp: seat_bulkCreate_def split: if_splits)
  show ?thesis
  proof (cases "bulk_rows d = []")
    case True
    then show ?thesis using b by (simp add: bulk_create_seats_def)
  next
    case False
    with b obtain x y where "insert_seats (bulk_rows d) x = (Inr ss, y)"
      by (auto simp: bulk_create_seats_def atomic_def dbcall_def split: prod.splits sum.splits)
    then show ?thesis by (rule insert_seats_rows)
  qed
qed

lemma digits_not_space: "list_all is_digit s \<Longrightarrow> c \<in> set s \<Longrightarrow> \<not> is_space c"
  by (auto simp: list_all_iff is_digit_def is_space_def)

lemma show_nat_len: "length (show_nat n) \<le> 3 \<longleftrightarrow> n < 1000"
proof -
  have a: "length (show_nat n) = (if n < 10 then 1 else Suc (length (show_nat (n div 10))))" for n
    by (subst show_nat.simps) simp
  show ?thesis
    by (subst a, subst a, subst a, subst a) auto
qed


lemma show_nat_hd_pos: "0 < n \<Longrightarrow> hd (show_nat n) \<noteq> CHR ''0''"
proof (induction n rule: show_nat.induct)
  case (1 n)
  show ?case
  proof (cases "n < 10")
    case True
    have "of_char (char_of (48 + n) :: char) = 48 + n" using True by (rule char_of_digit)
    moreover have "of_char CHR ''0'' = (48 :: nat)" by simp
    ultimately have "(char_of (48 + n) :: char) \<noteq> CHR ''0''" using 1(2) by (metis add_eq_self_zero less_numeral_extra(3))
    then show ?thesis using True by (simp add: show_nat.simps [of n])
  next
    case False
    then have "hd (show_nat n) = hd (show_nat (n div 10))" by (simp add: show_nat.simps [of n])
    with 1 False show ?thesis by simp
  qed
qed

lemma upper_digit: "is_digit c \<Longrightarrow> upper_char c = c"
  by (auto simp: upper_char_def is_digit_def)

lemma dropWhile_hd: "s \<noteq> [] \<Longrightarrow> \<not> P (hd s) \<Longrightarrow> dropWhile P s = s"
  by (cases s) auto

lemma trim_id: "s \<noteq> [] \<Longrightarrow> \<not> is_space (hd s) \<Longrightarrow> \<not> is_space (last s) \<Longrightarrow> trim s = s"
  by (simp add: trim_def dropWhile_hd hd_rev)

lemma label_lockable:
  assumes "1 \<le> r" "0 \<le> c" "c < 191"
  shows "validateSeatsExist [show_int r @ getColLetter c] = Inr () \<longleftrightarrow> r \<le> 999 \<and> (c \<le> 25 \<or> 32 \<le> c \<and> c \<le> 57)"
proof -
  let ?ch = "char_of (nat (65 + c)) :: char"
  let ?s = "show_nat (nat r) @ [?ch]"
  have label: "show_int r @ getColLetter c = ?s" using assms(1) by (simp add: show_int_def getColLetter_def)
  have code: "of_char ?ch = nat (65 + c)" using assms(2,3) by (simp add: of_char_of)
  have hd: "is_digit (hd (show_nat (nat r)))" by (rule show_nat_digits [of _ "nat r"]) simp
  have "\<not> is_space (hd ?s)" using hd by (auto simp: is_digit_def is_space_def)
  moreover have "\<not> is_space ?ch" unfolding is_space_def code using assms(2) by auto
  ultimately have trim: "trim ?s = ?s" by (intro trim_id) auto
  have digits: "map upper_char (show_nat (nat r)) = show_nat (nat r)"
    by (rule map_idI) (rule upper_digit, rule show_nat_digits)
  have up: "to_upper (trim ?s) = show_nat (nat r) @ [upper_char ?ch]"
    unfolding trim by (simp add: to_upper_def digits)
  have upper: "is_upper (upper_char ?ch) \<longleftrightarrow> c \<le> 25 \<or> 32 \<le> c \<and> c \<le> 57"
    unfolding is_upper_def of_upper_char code using assms(2) by auto
  have zero: "hd (show_nat (nat r)) \<noteq> CHR ''0''" by (rule show_nat_hd_pos) (use assms(1) in simp)
  have len: "length (show_nat (nat r)) \<le> 3 \<longleftrightarrow> r \<le> 999" unfolding show_nat_len by auto
  have one: "1 \<le> length (show_nat (nat r))" by (simp add: Suc_le_eq)
  have "list_all is_digit (show_nat (nat r))" by (simp add: list_all_iff show_nat_digits)
  then have "seatPattern (to_upper (trim ?s)) \<longleftrightarrow> r \<le> 999 \<and> (c \<le> 25 \<or> 32 \<le> c \<and> c \<le> 57)"
    unfolding up seatPattern_def using len one upper zero by auto
  then show ?thesis unfolding label validate_iff by (simp add: up)
qed

text \<open>C32. A bulk creation makes every seat of the rows and columns it was asked for, and the booking
  service can lock all of them exactly when there are at most 999 rows and 26 columns: with more, some
  created seats have a label that the seat lock rejects, so nobody can book them.\<close>

lemma bulk_seats_lockable:
  assumes "seat_bulkCreate d w = (Inr ss, v)"
    and "1 \<le> bs_rows d" "1 \<le> bs_colsPerRow d" "bs_colsPerRow d \<le> 191"
  shows "int (length ss) = bs_rows d * bs_colsPerRow d \<and>
    ((\<forall>s\<in>set ss. validateSeatsExist [seat_label s] = Inr ()) \<longleftrightarrow> bs_rows d \<le> 999 \<and> bs_colsPerRow d \<le> 26)"
proof
  note rows = bulk_created [OF assms(1)]
  have "length ss = length (bulk_rows d)" using arg_cong [OF rows, of length] by simp
  also have "\<dots> = sum_list (map (\<lambda>r. nat (bs_colsPerRow d)) [1..bs_rows d])"
    by (simp add: bulk_rows_def length_concat comp_def)
  also have "\<dots> = nat (bs_rows d) * nat (bs_colsPerRow d)" by (simp add: sum_list_triv)
  finally show "int (length ss) = bs_rows d * bs_colsPerRow d" using assms(2,3) by simp
  have in_rows: "s \<in> set ss \<Longrightarrow> \<exists>r c. r \<in> {1..bs_rows d} \<and> c \<in> {0..bs_colsPerRow d - 1} \<and> seat_label s = show_int r @ getColLetter c" for s
  proof -
    assume "s \<in> set ss"
    then have "(sr_airplaneId s, sr_row s, sr_col s, sr_seatType s) \<in> set (bulk_rows d)" unfolding rows [symmetric] by force
    then obtain r c where "r \<in> {1..bs_rows d}" "c \<in> {0..bs_colsPerRow d - 1}" "sr_row s = r" "sr_col s = getColLetter c"
      by (auto simp: bulk_rows_def)
    then show ?thesis unfolding seat_label_def by blast
  qed
  have all_in: "\<exists>s\<in>set ss. seat_label s = show_int r @ getColLetter c"
    if "r \<in> {1..bs_rows d}" "c \<in> {0..bs_colsPerRow d - 1}" for r c
  proof -
    have "(bs_airplaneId d, r, getColLetter c, bs_seatType d) \<in> set (bulk_rows d)"
      using that by (auto simp: bulk_rows_def intro!: bexI [of _ r] image_eqI [of _ _ c])
    then obtain s where "s \<in> set ss" "sr_row s = r" "sr_col s = getColLetter c" unfolding rows [symmetric] by auto
    then show ?thesis by (auto simp: seat_label_def)
  qed
  show "(\<forall>s\<in>set ss. validateSeatsExist [seat_label s] = Inr ()) \<longleftrightarrow> bs_rows d \<le> 999 \<and> bs_colsPerRow d \<le> 26"
  proof
    assume small: "bs_rows d \<le> 999 \<and> bs_colsPerRow d \<le> 26"
    show "\<forall>s\<in>set ss. validateSeatsExist [seat_label s] = Inr ()"
    proof
      fix s assume "s \<in> set ss"
      then obtain r c where "r \<in> {1..bs_rows d}" "c \<in> {0..bs_colsPerRow d - 1}" "seat_label s = show_int r @ getColLetter c"
        using in_rows by blast
      then show "validateSeatsExist [seat_label s] = Inr ()" using label_lockable [of r c] small by simp
    qed
  next
    assume all: "\<forall>s\<in>set ss. validateSeatsExist [seat_label s] = Inr ()"
    have ok: "r \<le> 999 \<and> (c \<le> 25 \<or> 32 \<le> c \<and> c \<le> 57)" if "r \<in> {1..bs_rows d}" "c \<in> {0..bs_colsPerRow d - 1}" for r c
      using all_in [OF that] all label_lockable [of r c] that assms(4) by auto
    have "bs_rows d \<le> 999" using ok [of "bs_rows d" 0] assms(2,3) by simp
    moreover have "bs_colsPerRow d \<le> 26"
    proof (rule ccontr)
      assume "\<not> bs_colsPerRow d \<le> 26"
      then show False using ok [of 1 26] assms(2) by simp
    qed
    ultimately show "bs_rows d \<le> 999 \<and> bs_colsPerRow d \<le> 26" by simp
  qed
qed


subsection \<open>Concrete runs\<close>

definition demo_catalog :: flight_world where
  "demo_catalog = \<lparr>now = 0, uuidSrc = (\<lambda>n. ''''), uuidCtr = 0, serial = 1, faults = [], flights = [], processed = [],
     cities = [], airports = [], airplanes = [], seats = []\<rparr>"

definition demo_city :: city_data where
  "demo_city = no_city_data\<lparr>cd_name := Val ''Lyon'', cd_country := Val ''France'', cd_latitude := Val (4575 / 100),
     cd_longitude := Val (485 / 100)\<rparr>"

definition demo_airport :: "string \<Rightarrow> airport_data" where
  "demo_airport code = \<lparr>ad_name = Val ''Airport'', ad_code = Val code, ad_icaoCode = Missing, ad_address = Missing,
     ad_cityId = Val 1, ad_latitude = Missing, ad_longitude = Missing, ad_timezone = Null\<rparr>"

definition demo_plane :: "string \<Rightarrow> airplane_data" where
  "demo_plane model = \<lparr>ld_modelNumber = Val model, ld_manufacturer = Val ''Airbus'', ld_registrationNumber = Missing,
     ld_totalCapacity = Val 180, ld_economySeats = Missing, ld_businessSeats = Missing, ld_firstClassSeats = Missing,
     ld_premiumEconomySeats = Missing, ld_yearManufactured = Missing, ld_maxRangeKm = Missing,
     ld_cruisingSpeedKmh = Missing, ld_active = Missing\<rparr>"

definition demo_bulk :: BulkCreateSeatsDto where
  "demo_bulk = \<lparr>bs_airplaneId = 3, bs_rows = 2, bs_colsPerRow = 3, bs_seatType = ST_ECONOMY\<rparr>"

text \<open>A linear order of the strings, and a plan that reads later pages from the end of the table.\<close>

fun char_list_le :: "string \<Rightarrow> string \<Rightarrow> bool" where
  "char_list_le [] t = True"
| "char_list_le (c # s) [] = False"
| "char_list_le (c # s) (d # t) = ((of_char c :: nat) < of_char d \<or> c = d \<and> char_list_le s t)"

lemma char_list_le_linear: "linear_collation char_list_le"
proof -
  have total: "char_list_le s t \<or> char_list_le t s" for s t
    by (induction s t rule: char_list_le.induct) (auto simp: not_less le_less)
  have trans: "char_list_le s t \<Longrightarrow> char_list_le t u \<Longrightarrow> char_list_le s u" for s t u
  proof (induction s t arbitrary: u rule: char_list_le.induct)
    case (3 c s d t)
    then show ?case by (cases u) auto
  qed simp_all
  have antisym: "char_list_le s t \<Longrightarrow> char_list_le t s \<Longrightarrow> s = t" for s t
  proof (induction s t rule: char_list_le.induct)
    case (1 t)
    then show ?case by (cases t) simp_all
  qed auto
  show ?thesis unfolding linear_collation_def using total trans antisym by blast
qed

definition demo_order :: db_order where
  "demo_order = \<lparr>db_collate = char_list_le, db_scan = (\<lambda>skip n i. if skip = 0 then i else 10 - i)\<rparr>"

definition demo_requests :: "catalog_op list" where
  "demo_requests = [CityOp (CityCreate demo_city), CityOp (CityCreate demo_city),
     AirportOp (AirportCreate (demo_airport ''lys'')), AirportOp (AirportCreate (demo_airport ''LYS'')),
     AirplaneOp (AirplaneCreate (demo_plane ''A320neo'')), AirplaneOp (AirplaneCreate (demo_plane ''A380'')),
     AirplaneOp (AirplaneCreate (demo_plane ''A3'')), CatalogTick 5 [False, True], CityOp (CityRemove 1),
     SeatOp (SeatBulkCreate demo_bulk), SeatOp (SeatBulkCreate demo_bulk)]"

definition demo_full :: flight_world where
  "demo_full = run_steps (catalog_exec demo_order) demo_catalog demo_requests"

lemma catalog_typed_witness:
  "catalog_ok demo_full \<and> length (cities demo_full) = 1 \<and> length (airports demo_full) = 1 \<and> length (seats demo_full) = 6"
proof -
  have "empty_catalog demo_catalog" by (simp add: empty_catalog_def demo_catalog_def)
  then have "catalog_ok demo_full"
    by (rule catalog_typed [where ops = demo_requests]) (simp add: demo_full_def)
  moreover have "length (cities demo_full) = 1 \<and> length (airports demo_full) = 1 \<and> length (seats demo_full) = 6"
    by code_simp
  ultimately show ?thesis by simp
qed

definition demo_query :: QueryAirplaneDto where
  "demo_query = \<lparr>bq_page = 1, bq_limit = 2, bq_sortBy = Some ''modelNumber'', bq_sortOrder = Some ''ASC'',
     bq_search = Some ''a3'', bq_active = None, qp_manufacturer = None, qp_modelNumber = None, qp_registrationNumber = None\<rparr>"

theorem airplane_pages_partition_witness:
  "\<exists>n xs. mset xs = mset (filter (airplane_wanted demo_query) (airplanes demo_full)) \<and> length xs = 3 \<and>
     concat (map (\<lambda>p. pd_data (projr (fst (airplane_findAll demo_order (demo_query\<lparr>bq_page := p\<rparr>) demo_full)))) [1..n]) =
       map airplane_response xs"
proof -
  have "faults demo_full = []" by code_simp
  moreover have "0 < bq_limit demo_query" by code_simp
  moreover have "map_of airplane_sort_fields (or_str (bq_sortBy demo_query) ''manufacturer'') =
      Some (\<lambda>p. KStr (Some (pl_modelNumber p)))"
    by (simp add: demo_query_def airplane_sort_fields_def)
  moreover have "descending (bq_sortOrder demo_query) = Some False" by code_simp
  moreover have "linear_collation (db_collate demo_order)" by (simp add: demo_order_def char_list_le_linear)
  moreover have plain: "plain_text (bq_search demo_query)" "plain_text (qp_manufacturer demo_query)"
    "plain_text (qp_modelNumber demo_query)" "plain_text (qp_registrationNumber demo_query)" by code_simp+
  moreover have rows: "filter (airplane_wanted demo_query) (airplanes demo_full) =
      filter (airplane_match demo_query) (airplanes demo_full)"
    using airplane_match_wanted [OF plain] by presburger
  have "distinct (map (\<lambda>p. KStr (Some (pl_modelNumber p))) (filter (airplane_match demo_query) (airplanes demo_full)))"
    by code_simp
  then have "distinct (map (\<lambda>p. KStr (Some (pl_modelNumber p))) (filter (airplane_wanted demo_query) (airplanes demo_full)))"
    by (simp only: rows)
  ultimately obtain n xs where xs: "mset xs = mset (filter (airplane_wanted demo_query) (airplanes demo_full))"
    "concat (map (\<lambda>p. pd_data (projr (fst (airplane_findAll demo_order (demo_query\<lparr>bq_page := p\<rparr>) demo_full)))) [1..n]) =
       map airplane_response xs"
    using airplane_pages_partition [of demo_full demo_query "\<lambda>p. KStr (Some (pl_modelNumber p))" False demo_order] by blast
  have "length (filter (airplane_match demo_query) (airplanes demo_full)) = 3" by code_simp
  then have "length xs = 3" using mset_eq_length [OF xs(1)] by (simp only: rows)
  with xs show ?thesis by blast
qed

definition demo_fleet :: flight_world where
  "demo_fleet = run_steps (catalog_exec demo_order) demo_catalog
     [AirplaneOp (AirplaneCreate (demo_plane ''A320'')), AirplaneOp (AirplaneCreate (demo_plane ''A380'')),
      AirplaneOp (AirplaneCreate (demo_plane ''A3''))]"

definition demo_models :: "int \<Rightarrow> string list" where
  "demo_models p = (case airplane_findAll demo_order (demo_query\<lparr>bq_sortBy := None, bq_page := p\<rparr>) demo_fleet of
     (r, w) \<Rightarrow> map lr_modelNumber (pd_data (projr r)))"

text \<open>Sorted by the manufacturer, which the three airplanes share, the two pages of two repeat an airplane and omit
  another when the database reads the rows in another order for the second page.\<close>

theorem pages_repeat: "demo_models 1 = [''A320'', ''A380''] \<and> demo_models 2 = [''A320'']"
proof
  show "demo_models 1 = [''A320'', ''A380'']" by code_simp
  show "demo_models 2 = [''A320'']" by code_simp
qed

definition demo_stocked :: flight_world where
  "demo_stocked = run_steps (catalog_exec demo_order) demo_catalog (take 10 demo_requests)"

lemma bulk_seats_lockable_witness:
  "\<exists>ss v. seat_bulkCreate demo_bulk demo_stocked = (Inr ss, v) \<and> length ss = 6 \<and>
     (\<forall>s\<in>set ss. validateSeatsExist [seat_label s] = Inr ())"
proof -
  have "\<not> isl (fst (seat_bulkCreate demo_bulk demo_stocked))" by code_simp
  then obtain ss v where r: "seat_bulkCreate demo_bulk demo_stocked = (Inr ss, v)"
    by (metis prod.collapse sum.collapse(2))
  have "int (length ss) = bs_rows demo_bulk * bs_colsPerRow demo_bulk \<and>
    ((\<forall>s\<in>set ss. validateSeatsExist [seat_label s] = Inr ()) \<longleftrightarrow> bs_rows demo_bulk \<le> 999 \<and> bs_colsPerRow demo_bulk \<le> 26)"
    by (rule bulk_seats_lockable [OF r]) (simp_all add: demo_bulk_def)
  with r show ?thesis by (auto simp: demo_bulk_def)
qed

end
