(* ===== verification/AuthService.thy ===== *)
theory AuthService
  imports Redis
begin

text \<open>
  The authentication service (apps/auth-service/src): users, passwords, the access and refresh tokens
  of each device, their rotation and revocation in Redis, and the audit log. JSON Web Tokens and bcrypt
  are parameters: what they sign, accept and compare.
\<close>

subsection \<open>Data\<close>

datatype Role = ADMIN | USER | AGENT

datatype ClientType = WEB | MOBILE | DESKTOP | API

record User =
  us_id :: int
  us_firstName :: string
  us_lastName :: "string option"
  us_email :: string
  us_password :: "string option"
  us_googleId :: "string option"
  us_lastLoginAt :: "int option"
  us_lastLoginIp :: "string option"
  us_isActive :: bool
  us_isLocked :: bool

record AuthAudit =
  aa_id :: int
  aa_userId :: "int option"
  aa_ip :: "string option"
  aa_deviceId :: "string option"
  aa_event :: string
  aa_success :: bool
  aa_refreshTokenId :: "string option"
  aa_timestamp :: int

record SignUpDto =
  su_firstName :: string
  su_lastName :: "string option"
  su_email :: string
  su_password :: string

record SignInDto =
  si_email :: string
  si_password :: string
  si_deviceId :: "string option"
  si_clientType :: "ClientType option"

record RefreshTokenDto =
  rt_refreshToken :: string
  rt_deviceId :: "string option"
  rt_clientType :: "ClientType option"

record SignOutDto =
  so_userId :: int
  so_deviceId :: "string option"
  so_clientType :: "ClientType option"

text \<open>The claims of the two tokens.\<close>

record access_payload =
  ac_id :: int
  ac_email :: string
  ac_roles :: "Role list"

record refresh_payload =
  rp_sub :: int
  rp_email :: string
  rp_refreshTokenId :: string
  rp_deviceId :: "string option"

record tokens =
  tk_accessToken :: string
  tk_refreshToken :: string

record registered =
  rg_id :: int
  rg_email :: string
  rg_firstName :: string
  rg_lastName :: "string option"

text \<open>
  The libraries and the configuration: signing at a time, verifying at a time (\<open>None\<close> for a token that
  is expired, forged or malformed), hashing with a salt, comparing, and the seconds the tokens live.
\<close>

record auth_platform =
  sign_access :: "access_payload \<Rightarrow> int \<Rightarrow> string"
  sign_refresh :: "refresh_payload \<Rightarrow> int \<Rightarrow> string"
  verify_access :: "string \<Rightarrow> int \<Rightarrow> access_payload option"
  verify_refresh :: "string \<Rightarrow> int \<Rightarrow> refresh_payload option"
  hash_password :: "string \<Rightarrow> string \<Rightarrow> string"
  compare_password :: "string \<Rightarrow> string \<Rightarrow> bool"
  accessTokenTTL :: int
  refreshTokenTTL :: int
record auth_world = env +
  users :: "User list"
  audits :: "AuthAudit list"
  redis :: "string redis"

definition unauthorized :: "string \<Rightarrow> string \<Rightarrow> exn" where
  "unauthorized message code = HttpExn 401 message (Some code)"

text \<open>A template literal prints \<open>undefined\<close>, and a missing Redis value is \<open>null\<close>.\<close>

definition tpl :: "string \<Rightarrow> string option \<Rightarrow> string" where
  "tpl missing x = (case x of None \<Rightarrow> missing | Some s \<Rightarrow> s)"

subsection \<open>Redis\<close>

definition redis_set_ex :: "string \<Rightarrow> string \<Rightarrow> int \<Rightarrow> (auth_world, unit) prog" where
  "redis_set_ex k v ttl = dbcall (\<lambda>w.
     if ttl \<le> 0 then (Inl (JsError ''ERR invalid expire time in set command''), w)
     else (Inr (), w\<lparr>redis := redis_setex (now w) k ttl v (redis w)\<rparr>))"

definition redis_read :: "string \<Rightarrow> (auth_world, string option) prog" where
  "redis_read k = dbquery (\<lambda>w. redis_get (now w) (redis w) k)"

definition redis_remove :: "string \<Rightarrow> (auth_world, unit) prog" where
  "redis_remove k = dbcall (\<lambda>w. (Inr (), w\<lparr>redis := redis_del k (redis w)\<rparr>))"

definition refresh_key :: "int \<Rightarrow> string option \<Rightarrow> string" where
  "refresh_key userId deviceId = ''refresh-token:'' @ show_int userId @ '':'' @ tpl ''undefined'' deviceId"

definition blacklist_key :: "string option \<Rightarrow> string" where
  "blacklist_key tokenId = ''blacklist:'' @ tpl ''null'' tokenId"

definition insert_token :: "auth_platform \<Rightarrow> int \<Rightarrow> string \<Rightarrow> string option \<Rightarrow> (auth_world, unit) prog" where
  "insert_token pf userId tokenId deviceId = redis_set_ex (refresh_key userId deviceId) tokenId (refreshTokenTTL pf)"

definition getToken :: "int \<Rightarrow> string option \<Rightarrow> (auth_world, string option) prog" where
  "getToken userId deviceId = redis_read (refresh_key userId deviceId)"

text \<open>The error class \<open>InvalidateRefreshTokenError\<close>.\<close>

definition InvalidateRefreshTokenError :: exn where
  "InvalidateRefreshTokenError = JsError ''InvalidateRefreshTokenError''"

definition validate_token :: "int \<Rightarrow> string \<Rightarrow> string option \<Rightarrow> (auth_world, bool) prog" where
  "validate_token userId tokenId deviceId =
     andThen (redis_read (refresh_key userId deviceId)) (\<lambda>storedToken.
       if \<not> truthy storedToken \<or> storedToken \<noteq> Some tokenId then throw InvalidateRefreshTokenError else ret True)"

definition invalidate :: "int \<Rightarrow> string option \<Rightarrow> (auth_world, unit) prog" where
  "invalidate userId deviceId = redis_remove (refresh_key userId deviceId)"

definition blacklistTTL :: int where
  "blacklistTTL = 60 * 60 * 24 * 30"

definition blacklistToken :: "string option \<Rightarrow> (auth_world, unit) prog" where
  "blacklistToken tokenId = redis_set_ex (blacklist_key tokenId) ''1'' blacklistTTL"

definition isBlacklisted :: "string \<Rightarrow> (auth_world, bool) prog" where
  "isBlacklisted tokenId = andThen (redis_read (blacklist_key (Some tokenId))) (\<lambda>result. ret (result = Some ''1''))"

subsection \<open>Audit\<close>

definition save_audit :: "AuthAudit \<Rightarrow> (auth_world, unit) prog" where
  "save_audit a = dbcall (\<lambda>w.
     if \<not> (varchar_ok 45 (aa_ip a) \<and> varchar_ok 96 (aa_deviceId a) \<and> varchar_ok 64 (aa_refreshTokenId a))
     then (Inl (JsError ''value too long for type character varying''), w)
     else (Inr (), w\<lparr>serial := serial w + 1, audits := audits w @ [a\<lparr>aa_id := serial w, aa_timestamp := now w\<rparr>]\<rparr>))"

definition logSignInAttempt ::
  "int option \<Rightarrow> string option \<Rightarrow> string option \<Rightarrow> bool \<Rightarrow> (auth_world, unit) prog" where
  "logSignInAttempt userId ip deviceId success = save_audit \<lparr>aa_id = 0, aa_userId = userId, aa_ip = ip,
     aa_deviceId = deviceId, aa_event = ''sign_in'', aa_success = success, aa_refreshTokenId = None, aa_timestamp = 0\<rparr>"

definition logTokenGeneration ::
  "int \<Rightarrow> string option \<Rightarrow> string \<Rightarrow> string option \<Rightarrow> (auth_world, unit) prog" where
  "logTokenGeneration userId deviceId refreshTokenId ip = save_audit \<lparr>aa_id = 0, aa_userId = Some userId, aa_ip = ip,
     aa_deviceId = deviceId, aa_event = ''token_generated'', aa_success = False,
     aa_refreshTokenId = Some refreshTokenId, aa_timestamp = 0\<rparr>"

subsection \<open>The service\<close>

definition find_user :: "(User \<Rightarrow> bool) \<Rightarrow> (auth_world, User option) prog" where
  "find_user p = dbquery (\<lambda>w. find p (users w))"

definition user_columns_ok :: "User \<Rightarrow> bool" where
  "user_columns_ok u \<longleftrightarrow> length (us_firstName u) \<le> 96 \<and> varchar_ok 96 (us_lastName u) \<and> length (us_email u) \<le> 96 \<and>
     varchar_ok 96 (us_password u)"

definition new_user :: "SignUpDto \<Rightarrow> string \<Rightarrow> User" where
  "new_user dto hashed = \<lparr>us_id = 0, us_firstName = su_firstName dto, us_lastName = su_lastName dto,
     us_email = su_email dto, us_password = Some hashed, us_googleId = None, us_lastLoginAt = None,
     us_lastLoginIp = None, us_isActive = True, us_isLocked = False\<rparr>"

definition save_user :: "User \<Rightarrow> (auth_world, User) prog" where
  "save_user u = dbcall (\<lambda>w.
     if \<not> user_columns_ok u \<or> (\<exists>x\<in>set (users w). us_email x = us_email u) then (Inl (JsError ''QueryFailedError''), w)
     else let row = u\<lparr>us_id := serial w\<rparr>
          in (Inr row, w\<lparr>serial := serial w + 1, users := users w @ [row]\<rparr>))"

text \<open>The salt is random, from the same supply as the identifiers.\<close>

definition register :: "auth_platform \<Rightarrow> SignUpDto \<Rightarrow> (auth_world, registered) prog" where
  "register pf dto =
     andThen (find_user (\<lambda>u. us_email u = su_email dto)) (\<lambda>existingUser.
       if existingUser \<noteq> None then throw (HttpExn 409 ''User already exists'' (Some ''user.email.already_exists''))
       else andThen freshUuid (\<lambda>salt.
            andThen (save_user (new_user dto (hash_password pf salt (su_password dto)))) (\<lambda>u.
            ret \<lparr>rg_id = us_id u, rg_email = us_email u, rg_firstName = us_firstName u, rg_lastName = us_lastName u\<rparr>)))"

definition access_claims :: "User \<Rightarrow> access_payload" where
  "access_claims u = \<lparr>ac_id = us_id u, ac_email = us_email u, ac_roles = [ADMIN]\<rparr>"

definition generateTokens :: "auth_platform \<Rightarrow> User \<Rightarrow> string option \<Rightarrow> string option \<Rightarrow> (auth_world, tokens) prog" where
  "generateTokens pf u deviceId ip =
     andThen freshUuid (\<lambda>refreshTokenId.
     andThen (gets now) (\<lambda>t.
     andThen (insert_token pf (us_id u) refreshTokenId deviceId) (\<lambda>_.
     andThen (logTokenGeneration (us_id u) deviceId refreshTokenId ip) (\<lambda>_.
     ret \<lparr>tk_accessToken = sign_access pf (access_claims u) t,
          tk_refreshToken = sign_refresh pf \<lparr>rp_sub = us_id u, rp_email = us_email u,
             rp_refreshTokenId = refreshTokenId, rp_deviceId = deviceId\<rparr> t\<rparr>))))"

definition check_password :: "auth_platform \<Rightarrow> SignInDto \<Rightarrow> string option \<Rightarrow> User \<Rightarrow> (auth_world, unit) prog" where
  "check_password pf dto ip u =
     (if truthy (us_password u) \<and> \<not> compare_password pf (si_password dto) (the (us_password u))
      then andThen (logSignInAttempt None ip (si_deviceId dto) False) (\<lambda>_.
             throw (unauthorized ''Invalid credentials'' ''auth.invalid_credentials''))
      else ret ())"

definition signIn :: "auth_platform \<Rightarrow> SignInDto \<Rightarrow> string option \<Rightarrow> (auth_world, tokens) prog" where
  "signIn pf dto ip =
     andThen (find_user (\<lambda>u. us_email u = si_email dto)) (\<lambda>found.
       case found of
         None \<Rightarrow> throw (unauthorized ''Invalid credentials'' ''auth.invalid_credentials'')
       | Some u \<Rightarrow>
           andThen (check_password pf dto ip u) (\<lambda>_.
           andThen (generateTokens pf u (si_deviceId dto) ip) (\<lambda>toks.
           andThen (logSignInAttempt (Some (us_id u)) ip (si_deviceId dto) True) (\<lambda>_. ret toks))))"

text \<open>The part of \<open>refreshTokens\<close> whose errors the catch block sees; \<open>generateTokens\<close> is returned without await.\<close>

definition spend_token :: "auth_platform \<Rightarrow> RefreshTokenDto \<Rightarrow> (auth_world, User \<times> string option) prog" where
  "spend_token pf dto =
     andThen (gets now) (\<lambda>t.
       case verify_refresh pf (rt_refreshToken dto) t of
         None \<Rightarrow> throw (JsError ''JsonWebTokenError'')
       | Some payload \<Rightarrow>
           if truthy (rt_deviceId dto) \<and> rp_deviceId payload \<noteq> rt_deviceId dto
           then throw (unauthorized ''Unauthorized'' ''auth.unauthorized'')
           else let effectiveDeviceId = or_opt (rt_deviceId dto) (rp_deviceId payload)
                in andThen (isBlacklisted (rp_refreshTokenId payload)) (\<lambda>listed.
                   if listed then throw (unauthorized ''Unauthorized'' ''auth.unauthorized'')
                   else andThen (find_user (\<lambda>u. us_id u = rp_sub payload)) (\<lambda>found.
                     case found of
                       None \<Rightarrow> throw (JsError ''EntityNotFoundError'')
                     | Some u \<Rightarrow>
                         andThen (validate_token (us_id u) (rp_refreshTokenId payload) effectiveDeviceId) (\<lambda>_.
                         andThen (invalidate (us_id u) effectiveDeviceId) (\<lambda>_.
                         andThen (blacklistToken (Some (rp_refreshTokenId payload))) (\<lambda>_.
                         ret (u, effectiveDeviceId)))))))"

definition refresh_error :: "exn \<Rightarrow> exn" where
  "refresh_error e =
     (case e of
        HttpExn st m c \<Rightarrow> (if st = 401 then e else unauthorized ''Unauthorized'' ''auth.unauthorized'')
      | JsError m \<Rightarrow>
          if e = InvalidateRefreshTokenError then unauthorized ''Invalid refresh token'' ''auth.invalid_refresh_token''
          else unauthorized ''Unauthorized'' ''auth.unauthorized''
      | RpcError m \<Rightarrow> unauthorized ''Unauthorized'' ''auth.unauthorized'')"

definition refreshTokens :: "auth_platform \<Rightarrow> RefreshTokenDto \<Rightarrow> (auth_world, tokens) prog" where
  "refreshTokens pf dto =
     andThen (tryCatch (spend_token pf dto) (\<lambda>e. throw (refresh_error e))) (\<lambda>(u, deviceId).
       generateTokens pf u deviceId None)"

definition signOut :: "SignOutDto \<Rightarrow> (auth_world, unit) prog" where
  "signOut dto =
     andThen (getToken (so_userId dto) (so_deviceId dto)) (\<lambda>refreshTokenId.
     andThen (invalidate (so_userId dto) (so_deviceId dto)) (\<lambda>_.
       blacklistToken refreshTokenId))"

text \<open>
  The user a request carries: no code writes the property \<open>role\<close> that the guards read. In the payload
  of \<open>auth.validate\<close> a missing property leaves its condition out of the query.
\<close>

record request_user =
  ru_id :: int
  ru_email :: string
  ru_firstName :: "string option"
  ru_lastName :: "string option"
  ru_roles :: "Role list"
  ru_role :: "Role option"

definition validateUser :: "int option \<Rightarrow> string option \<Rightarrow> (auth_world, request_user) prog" where
  "validateUser i email =
     andThen (find_user (\<lambda>u. (case i of None \<Rightarrow> True | Some n \<Rightarrow> us_id u = n) \<and>
                             (case email of None \<Rightarrow> True | Some e \<Rightarrow> us_email u = e))) (\<lambda>found.
       case found of
         None \<Rightarrow> throw (unauthorized ''Unauthorized'' ''auth.unauthorized'')
       | Some u \<Rightarrow>
           if \<not> us_isActive u then throw (unauthorized ''Unauthorized'' ''auth.unauthorized'')
           else ret \<lparr>ru_id = us_id u, ru_email = us_email u, ru_firstName = Some (us_firstName u),
                     ru_lastName = us_lastName u, ru_roles = [USER], ru_role = None\<rparr>)"

datatype auth_op =
  Register SignUpDto
| SignIn SignInDto "string option"
| Refresh RefreshTokenDto
| SignOut SignOutDto
| Validate "int option" "string option"
| AuthTick int "bool list"

definition auth_exec :: "auth_platform \<Rightarrow> auth_world \<Rightarrow> auth_op \<Rightarrow> auth_world" where
  "auth_exec pf w x =
     (case x of
        Register dto \<Rightarrow> snd (register pf dto w)
      | SignIn dto ip \<Rightarrow> snd (signIn pf dto ip w)
      | Refresh dto \<Rightarrow> snd (refreshTokens pf dto w)
      | SignOut dto \<Rightarrow> snd (signOut dto w)
      | Validate i e \<Rightarrow> snd (validateUser i e w)
      | AuthTick t fs \<Rightarrow> w\<lparr>now := max t (now w), faults := fs\<rparr>)"

end
