(* ===== verification/AuthProps.thy ===== *)
theory AuthProps
  imports AuthService
begin

text \<open>
  What the authentication service guarantees: users are only ever appended, a blacklisted refresh
  token stays blacklisted for thirty days whatever else happens, a spent token never refreshes again,
  and a registered user signs in with exactly the passwords that bcrypt cannot tell from the registered one.
\<close>

declare keeps_option_case [keeps_intro] keeps_pair_case [keeps_intro]

subsection \<open>What the operations do to the tables\<close>

definition grows :: "auth_world \<Rightarrow> auth_world \<Rightarrow> bool" where
  "grows w v \<longleftrightarrow> now v = now w \<and> uuidSrc v = uuidSrc w \<and> (\<exists>new. users v = users w @ new)"

interpretation grown: world_relation grows
  by unfold_locales (auto simp: grows_def)

lemma grows_external: "stays grows external"
  by (auto simp: stays_def grows_def external_def)

lemma grows_uuid: "stays grows freshUuid"
  by (auto simp: stays_def grows_def freshUuid_def)

lemma grows_dbcall: "(\<And>w. grows w (snd (f w))) \<Longrightarrow> stays grows (dbcall f)"
  unfolding dbcall_def by (intro grown.stays_andThen grows_external) (simp add: stays_def)

lemma grows_dbquery: "stays grows (dbquery f)"
  unfolding dbquery_def by (rule grows_dbcall) (simp add: grows_def)

lemma grows_redis_set: "stays grows (redis_set_ex k v ttl)"
  unfolding redis_set_ex_def by (rule grows_dbcall) (simp add: grows_def)

lemma grows_redis_remove: "stays grows (redis_remove k)"
  unfolding redis_remove_def by (rule grows_dbcall) (simp add: grows_def)

lemma grows_audit: "stays grows (save_audit a)"
  unfolding save_audit_def by (rule grows_dbcall) (simp add: grows_def)

lemma grows_save_user: "stays grows (save_user u)"
  unfolding save_user_def by (rule grows_dbcall) (simp add: grows_def Let_def)

lemmas grows_calls = grows_uuid grows_dbquery grows_redis_set grows_redis_remove grows_audit grows_save_user

lemma grows_register: "stays grows (register pf dto)"
  unfolding register_def find_user_def by (intro grown.stays_intros grows_calls)

lemma grows_generateTokens: "stays grows (generateTokens pf u d ip)"
  unfolding generateTokens_def insert_token_def logTokenGeneration_def by (intro grown.stays_intros grows_calls)

lemma grows_signIn: "stays grows (signIn pf dto ip)"
  unfolding signIn_def check_password_def find_user_def logSignInAttempt_def
  by (intro grown.stays_intros grows_calls grows_generateTokens)

lemma grows_spend_token: "stays grows (spend_token pf dto)"
  unfolding spend_token_def Let_def isBlacklisted_def redis_read_def find_user_def validate_token_def invalidate_def
    blacklistToken_def
  by (intro grown.stays_intros grows_calls)

lemma grows_refreshTokens: "stays grows (refreshTokens pf dto)"
  unfolding refreshTokens_def by (intro grown.stays_intros grows_spend_token grows_generateTokens)

lemma grows_signOut: "stays grows (signOut dto)"
  unfolding signOut_def getToken_def redis_read_def invalidate_def blacklistToken_def
  by (intro grown.stays_intros grows_calls)

lemma grows_validateUser: "stays grows (validateUser i e)"
  unfolding validateUser_def find_user_def by (intro grown.stays_intros grows_calls)

lemmas grows_handlers = grows_register grows_signIn grows_refreshTokens grows_signOut grows_validateUser

lemma auth_exec_users: "\<exists>new. users (auth_exec pf w x) = users w @ new"
proof (cases x)
  case (AuthTick t fs)
  then show ?thesis by (simp add: auth_exec_def)
qed (use grows_handlers in \<open>auto simp: auth_exec_def stays_def grows_def\<close>)

lemma auth_run_users: "\<exists>new. users (run_steps (auth_exec pf) w xs) = users w @ new"
proof (induction xs arbitrary: w)
  case Nil
  then show ?case by simp
next
  case (Cons x xs)
  obtain a where "users (auth_exec pf w x) = users w @ a" using auth_exec_users by blast
  then show ?case using Cons [of "auth_exec pf w x"] by auto
qed

lemma find_append_Some: "find P xs = Some x \<Longrightarrow> find P (xs @ ys) = Some x"
  by (induction xs) (auto split: if_splits)

subsection \<open>The blacklist\<close>

text \<open>A token id is blocked until a time: its blacklist entry is there and lives at least that long.\<close>

definition blocked :: "string \<Rightarrow> int \<Rightarrow> auth_world \<Rightarrow> bool" where
  "blocked tokenId until w \<longleftrightarrow>
     (\<exists>e. redis w (blacklist_key (Some tokenId)) = Some (''1'', Some e) \<and> until \<le> e)"

text \<open>A blacklist entry written later ends later, so the clock must not run back: from \<open>start\<close> on.\<close>

definition blocked_from :: "string \<Rightarrow> int \<Rightarrow> auth_world \<Rightarrow> bool" where
  "blocked_from tokenId start w \<longleftrightarrow> start \<le> now w \<and> blocked tokenId (start + blacklistTTL * 1000) w"

lemma blacklist_key_refresh [simp]: "blacklist_key x \<noteq> refresh_key i d"
  by (simp add: blacklist_key_def refresh_key_def)

lemma blocked_faults: "blocked_from k t w \<Longrightarrow> blocked_from k t (w\<lparr>faults := fs\<rparr>)"
  by (simp add: blocked_from_def blocked_def)

lemma blocked_uuid [keeps_intro]: "keeps (blocked_from k t) freshUuid"
  by (simp add: keeps_def freshUuid_def blocked_from_def blocked_def)

lemma blocked_query [keeps_intro]: "keeps (blocked_from k t) (dbquery f)"
  by (rule keeps_dbquery) (rule blocked_faults)

lemma blocked_audit [keeps_intro]: "keeps (blocked_from k t) (save_audit a)"
  unfolding save_audit_def by (rule keeps_dbcall) (auto simp: blocked_from_def blocked_def)

lemma blocked_save_user [keeps_intro]: "keeps (blocked_from k t) (save_user u)"
  unfolding save_user_def by (rule keeps_dbcall) (auto simp: blocked_from_def blocked_def Let_def)

lemma blocked_insert [keeps_intro]: "keeps (blocked_from k t) (insert_token pf i tok d)"
  unfolding insert_token_def redis_set_ex_def
  by (rule keeps_dbcall) (auto simp: blocked_from_def blocked_def redis_setex_apply)

lemma blocked_invalidate [keeps_intro]: "keeps (blocked_from k t) (invalidate i d)"
  unfolding invalidate_def redis_remove_def
  by (rule keeps_dbcall) (auto simp: blocked_from_def blocked_def redis_del_apply)

lemma blocked_blacklist [keeps_intro]: "keeps (blocked_from k t) (blacklistToken x)"
  unfolding blacklistToken_def redis_set_ex_def
  by (rule keeps_dbcall) (auto simp: blocked_from_def blocked_def redis_setex_apply)

lemma blocked_generate [keeps_intro]: "keeps (blocked_from k t) (generateTokens pf u d ip)"
  unfolding generateTokens_def logTokenGeneration_def by (intro keeps_intro)

lemma blocked_refresh: "keeps (blocked_from k t) (refreshTokens pf dto)"
  unfolding refreshTokens_def spend_token_def Let_def isBlacklisted_def redis_read_def find_user_def validate_token_def
  by (intro keeps_intro)

lemma blocked_exec: "blocked_from k t w \<Longrightarrow> blocked_from k t (auth_exec pf w x)"
proof (cases x)
  case (Register dto)
  have "keeps (blocked_from k t) (register pf dto)"
    unfolding register_def find_user_def by (intro keeps_intro)
  moreover assume "blocked_from k t w"
  ultimately show ?thesis using Register by (simp add: auth_exec_def keepsD)
next
  case (SignIn dto ip)
  have "keeps (blocked_from k t) (signIn pf dto ip)"
    unfolding signIn_def check_password_def logSignInAttempt_def find_user_def by (intro keeps_intro)
  moreover assume "blocked_from k t w"
  ultimately show ?thesis using SignIn by (simp add: auth_exec_def keepsD)
next
  case (Refresh dto)
  moreover assume "blocked_from k t w"
  ultimately show ?thesis using blocked_refresh by (simp add: auth_exec_def keepsD)
next
  case (SignOut dto)
  have "keeps (blocked_from k t) (signOut dto)"
    unfolding signOut_def getToken_def redis_read_def by (intro keeps_intro)
  moreover assume "blocked_from k t w"
  ultimately show ?thesis using SignOut by (simp add: auth_exec_def keepsD)
next
  case (Validate i e)
  have "keeps (blocked_from k t) (validateUser i e)"
    unfolding validateUser_def find_user_def by (intro keeps_intro)
  moreover assume "blocked_from k t w"
  ultimately show ?thesis using Validate by (simp add: auth_exec_def keepsD)
next
  case (AuthTick u fs)
  moreover assume "blocked_from k t w"
  ultimately show ?thesis by (simp add: auth_exec_def blocked_from_def blocked_def max_def)
qed

interpretation blacklist: invariant_machine "auth_exec pf" "blocked_from k t" for pf k t
  by unfold_locales (rule blocked_exec)


subsection \<open>Spent tokens\<close>

lemma refresh_error_401: "\<exists>m c. refresh_error e = HttpExn 401 m c"
  by (cases e) (auto simp: refresh_error_def unauthorized_def)

text \<open>A token that is blacklisted, or does not verify, is refused whatever else the request says.\<close>

lemma refresh_refused:
  assumes "blocked_from k t w" "now w < t + blacklistTTL * 1000"
    and "\<And>p. verify_refresh pf (rt_refreshToken dto) (now w) = Some p \<Longrightarrow> rp_refreshTokenId p = k"
  shows "\<exists>m c. fst (refreshTokens pf dto w) = Inl (HttpExn 401 m c)"
proof -
  obtain e where e: "redis w (blacklist_key (Some k)) = Some (''1'', Some e)" "now w < e"
    using assms(1,2) by (auto simp: blocked_from_def blocked_def)
  have listed: "redis_get (now w) (redis w) (blacklist_key (Some k)) = Some ''1''"
    using e by (simp add: redis_get_Some)
  have "\<exists>x v. spend_token pf dto w = (Inl x, v)"
  proof (cases "verify_refresh pf (rt_refreshToken dto) (now w)")
    case None
    then show ?thesis by (simp add: spend_token_def andThen_def gets_def throw_def)
  next
    case (Some p)
    with assms(3) have "rp_refreshTokenId p = k" by simp
    with Some listed show ?thesis
      by (simp add: spend_token_def andThen_def gets_def throw_def Let_def isBlacklisted_def redis_read_def
          dbquery_eq ret_def)
  qed
  then obtain x v where "spend_token pf dto w = (Inl x, v)" by blast
  then show ?thesis
    using refresh_error_401 [of x] by (auto simp: refreshTokens_def tryCatch_def andThen_def throw_def)
qed

text \<open>A refresh that succeeded leaves the id of its token blacklisted.\<close>

lemma blacklist_blocks:
  assumes "blacklistToken (Some k) w = (Inr (), v)"
  shows "blocked_from k (now w) v \<and> now v = now w"
  using assms
  by (auto simp: blacklistToken_def redis_set_ex_def dbcall_eq blacklistTTL_def blocked_from_def blocked_def
      redis_setex_apply split: if_splits)

lemma spend_blocks:
  assumes "spend_token pf dto w = (Inr r, v)"
  obtains p where "verify_refresh pf (rt_refreshToken dto) (now w) = Some p"
    and "blocked_from (rp_refreshTokenId p) (now w) v"
proof -
  obtain p where p: "verify_refresh pf (rt_refreshToken dto) (now w) = Some p"
    using assms by (cases "verify_refresh pf (rt_refreshToken dto) (now w)") (auto simp: spend_token_def)
  from assms p obtain u where
    u: "blacklistToken (Some (rp_refreshTokenId p)) u = (Inr (), v)"
    by (auto simp: spend_token_def Let_def split: if_splits option.splits)
  have "now v = now w" using staysD [OF grows_spend_token assms] by (simp add: grows_def)
  with blacklist_blocks [OF u] have "blocked_from (rp_refreshTokenId p) (now w) v" by simp
  then show thesis using p that by blast
qed

lemma refresh_blocks:
  assumes "refreshTokens pf dto w = (Inr toks, v)"
  obtains p where "verify_refresh pf (rt_refreshToken dto) (now w) = Some p"
    and "blocked_from (rp_refreshTokenId p) (now w) v"
proof -
  obtain r u where r: "tryCatch (spend_token pf dto) (\<lambda>e. throw (refresh_error e)) w = (Inr r, u)"
    and g: "generateTokens pf (fst r) (snd r) None u = (Inr toks, v)"
    using assms by (auto simp: refreshTokens_def split: prod.splits)
  have "spend_token pf dto w = (Inr r, u)"
    using r by (auto simp: tryCatch_def throw_def split: prod.splits sum.splits)
  then obtain p where p: "verify_refresh pf (rt_refreshToken dto) (now w) = Some p"
    "blocked_from (rp_refreshTokenId p) (now w) u" by (rule spend_blocks)
  then have "blocked_from (rp_refreshTokenId p) (now w) v"
    using keepsD [OF blocked_generate p(2), of pf "fst r" "snd r" None] g by simp
  with p(1) that show thesis by blast
qed

text \<open>C25. A refresh token is good for one refresh: once a refresh with it succeeded, then for thirty days,
  after any requests to the service, in any order and under any failures, every refresh with it (by any
  device) is answered with 401, even one that meets a failing database or Redis. The law about tokens is
  that of JWTs: the claims of a token do not depend on when it is verified.
\<close>

lemma refresh_token_single_use:
  assumes "\<And>tok t t' p p'. verify_refresh pf tok t = Some p \<Longrightarrow> verify_refresh pf tok t' = Some p' \<Longrightarrow> p' = p"
    and "refreshTokens pf dto w = (Inr toks, v)"
    and "run_steps (auth_exec pf) v ops = w'"
    and "now w' < now w + 30 * 24 * 60 * 60 * 1000"
    and "rt_refreshToken dto' = rt_refreshToken dto"
  shows "\<exists>m c. fst (refreshTokens pf dto' w') = Inl (HttpExn 401 m c)"
proof -
  obtain p where p: "verify_refresh pf (rt_refreshToken dto) (now w) = Some p"
    "blocked_from (rp_refreshTokenId p) (now w) v" using assms(2) by (rule refresh_blocks)
  have "blocked_from (rp_refreshTokenId p) (now w) w'"
    using blacklist.run_keeps [OF p(2), of pf ops] assms(3) by simp
  then show ?thesis
  proof (rule refresh_refused)
    show "now w' < now w + blacklistTTL * 1000" using assms(4) by (simp add: blacklistTTL_def)
    show "rp_refreshTokenId q = rp_refreshTokenId p" if "verify_refresh pf (rt_refreshToken dto') (now w') = Some q" for q
      using assms(1) p(1) that assms(5) by metis
  qed
qed


subsection \<open>Signing in\<close>

definition invalid_credentials :: exn where
  "invalid_credentials = unauthorized ''Invalid credentials'' ''auth.invalid_credentials''"

text \<open>The tokens of a sign-in or refresh, for the token id that was drawn.\<close>

definition issued :: "auth_platform \<Rightarrow> User \<Rightarrow> string option \<Rightarrow> string \<Rightarrow> int \<Rightarrow> tokens" where
  "issued pf u d tokenId t = \<lparr>tk_accessToken = sign_access pf (access_claims u) t,
     tk_refreshToken = sign_refresh pf \<lparr>rp_sub = us_id u, rp_email = us_email u, rp_refreshTokenId = tokenId,
       rp_deviceId = d\<rparr> t\<rparr>"

text \<open>The columns of the audit row fit, the lifetime is accepted by Redis, and no call fails.\<close>

definition sign_in_ready :: "auth_platform \<Rightarrow> SignInDto \<Rightarrow> string option \<Rightarrow> auth_world \<Rightarrow> bool" where
  "sign_in_ready pf dto ip w \<longleftrightarrow> faults w = [] \<and> 0 < refreshTokenTTL pf \<and> length (uuidSrc w (uuidCtr w)) \<le> 64 \<and>
     varchar_ok 45 ip \<and> varchar_ok 96 (si_deviceId dto)"

lemma generate_ready:
  assumes "faults w = []" "0 < refreshTokenTTL pf" "length (uuidSrc w (uuidCtr w)) \<le> 64" "varchar_ok 45 ip"
    "varchar_ok 96 d"
  obtains v where "generateTokens pf u d ip w = (Inr (issued pf u d (uuidSrc w (uuidCtr w)) (now w)), v)"
    and "faults v = []"
  using assms
  by (simp add: generateTokens_def andThen_def freshUuid_def gets_def insert_token_def redis_set_ex_def
      logTokenGeneration_def save_audit_def ret_def issued_def varchar_ok_def)

lemma sign_in_result:
  assumes ready: "sign_in_ready pf dto ip w"
    and found: "find (\<lambda>u. us_email u = si_email dto) (users w) = Some u"
  shows "fst (signIn pf dto ip w) =
    (if truthy (us_password u) \<and> \<not> compare_password pf (si_password dto) (the (us_password u))
     then Inl invalid_credentials else Inr (issued pf u (si_deviceId dto) (uuidSrc w (uuidCtr w)) (now w)))"
proof (cases "truthy (us_password u) \<and> \<not> compare_password pf (si_password dto) (the (us_password u))")
  case True
  with assms show ?thesis
    by (simp add: sign_in_ready_def signIn_def find_user_def andThen_def check_password_def logSignInAttempt_def
        save_audit_def throw_def varchar_ok_def invalid_credentials_def cong: if_cong)
next
  case False
  have r: "faults w = []" "varchar_ok 45 ip" "varchar_ok 96 (si_deviceId dto)"
    using ready by (simp_all add: sign_in_ready_def)
  obtain v where v: "generateTokens pf u (si_deviceId dto) ip w =
      (Inr (issued pf u (si_deviceId dto) (uuidSrc w (uuidCtr w)) (now w)), v)" "faults v = []"
    by (rule generate_ready [of w pf ip "si_deviceId dto" u])
      (use ready in \<open>simp_all add: sign_in_ready_def\<close>)
  have "check_password pf dto ip u w = (Inr (), w)"
    using False by (auto simp: check_password_def ret_def)
  with v r found False show ?thesis
    by (auto simp: signIn_def find_user_def andThen_def logSignInAttempt_def save_audit_def ret_def varchar_ok_def)
qed

lemma save_user_Inr:
  assumes "save_user u w = (Inr row, v)"
  shows "row = u\<lparr>us_id := serial w\<rparr> \<and> users v = users w @ [row] \<and> (\<forall>x\<in>set (users w). us_email x \<noteq> us_email u)"
  using assms by (auto simp: save_user_def dbcall_eq Let_def split: if_splits)

lemma register_stores:
  assumes "register pf dto w = (Inr r, v)"
  obtains u salt where "find (\<lambda>u. us_email u = su_email dto) (users v) = Some u"
    and "us_password u = Some (hash_password pf salt (su_password dto))"
    and "us_id u = rg_id r" and "us_email u = su_email dto" and "us_isActive u"
proof -
  from assms obtain salt w1 row where
    saved: "save_user (new_user dto (hash_password pf salt (su_password dto))) w1 = (Inr row, v)"
    and r: "rg_id r = us_id row"
    by (auto simp: register_def split: if_splits)
  note row = save_user_Inr [OF saved]
  have none: "\<forall>x\<in>set (users w1). us_email x \<noteq> su_email dto" using row by (simp add: new_user_def)
  have v: "users v = users w1 @ [new_user dto (hash_password pf salt (su_password dto))\<lparr>us_id := serial w1\<rparr>]"
    using row by simp
  have "find (\<lambda>u. us_email u = su_email dto) (users v) =
      Some (new_user dto (hash_password pf salt (su_password dto))\<lparr>us_id := serial w1\<rparr>)"
    unfolding v by (rule find_last) (use none in \<open>simp_all add: new_user_def\<close>)
  then show thesis using that r row by (simp add: new_user_def)
qed

lemma registered_stays:
  assumes "register pf dto w = (Inr r, v)" and "run_steps (auth_exec pf) v ops = w'"
  obtains u salt where "find (\<lambda>u. us_email u = su_email dto) (users w') = Some u"
    and "us_password u = Some (hash_password pf salt (su_password dto))"
    and "us_id u = rg_id r" and "us_email u = su_email dto" and "us_isActive u"
proof -
  obtain new where "users w' = users v @ new" using auth_run_users [of pf v ops] assms(2) by blast
  then show thesis
    using register_stores [OF assms(1)] find_append_Some that by (metis (no_types, lifting))
qed

text \<open>C26. Registering and signing in fit together: whatever requests the service handled after a
  registration, the user signs in with a password exactly when its first 72 characters are those of the
  registered password, and then receives the tokens of that account, with the role ADMIN in the access
  token; any other password is answered with 401. The laws are those of bcrypt, for the two passwords
  (text without a NUL character): the comparison looks at 72 bytes, and a hash is not empty.
\<close>

lemma register_sign_in:
  assumes "\<And>salt. compare_password pf (si_password sdto) (hash_password pf salt (su_password dto)) \<longleftrightarrow>
        take 72 (si_password sdto) = take 72 (su_password dto)"
    and "\<And>salt. hash_password pf salt (su_password dto) \<noteq> ''''"
    and "register pf dto w = (Inr r, v)"
    and "run_steps (auth_exec pf) v ops = w'"
    and "sign_in_ready pf sdto ip w'"
    and "si_email sdto = su_email dto"
  shows "if take 72 (si_password sdto) = take 72 (su_password dto)
    then \<exists>toks. fst (signIn pf sdto ip w') = Inr toks \<and>
           tk_accessToken toks = sign_access pf \<lparr>ac_id = rg_id r, ac_email = su_email dto, ac_roles = [ADMIN]\<rparr> (now w')
    else fst (signIn pf sdto ip w') = Inl (HttpExn 401 ''Invalid credentials'' (Some ''auth.invalid_credentials''))"
proof -
  obtain u salt where u: "find (\<lambda>u. us_email u = su_email dto) (users w') = Some u"
    "us_password u = Some (hash_password pf salt (su_password dto))" "us_id u = rg_id r" "us_email u = su_email dto"
    by (rule registered_stays [OF assms(3,4)])
  have "fst (signIn pf sdto ip w') =
      (if take 72 (si_password sdto) = take 72 (su_password dto)
       then Inr (issued pf u (si_deviceId sdto) (uuidSrc w' (uuidCtr w')) (now w')) else Inl invalid_credentials)"
    using sign_in_result [OF assms(5)] u assms(1,2,6) by simp
  then show ?thesis
    using u by (simp add: issued_def access_claims_def invalid_credentials_def unauthorized_def)
qed


subsection \<open>Concrete runs\<close>

definition demo_platform :: auth_platform where
  "demo_platform = \<lparr>sign_access = (\<lambda>p t. ''access''), sign_refresh = (\<lambda>p t. rp_refreshTokenId p),
     verify_access = (\<lambda>tok t. if tok = ''access'' \<and> t < 3600000
        then Some \<lparr>ac_id = 1, ac_email = ''ann@x.io'', ac_roles = [ADMIN]\<rparr> else None),
     verify_refresh = (\<lambda>tok t. Some \<lparr>rp_sub = 1, rp_email = ''ann@x.io'', rp_refreshTokenId = tok, rp_deviceId = Some ''d1''\<rparr>),
     hash_password = (\<lambda>salt q. CHR ''h'' # take 72 q), compare_password = (\<lambda>q h. h = CHR ''h'' # take 72 q),
     accessTokenTTL = 3600, refreshTokenTTL = 604800\<rparr>"

definition demo_auth_world :: auth_world where
  "demo_auth_world = \<lparr>now = 0, uuidSrc = (\<lambda>n. replicate (Suc n) CHR ''t''), uuidCtr = 0, serial = 1, faults = [],
     users = [], audits = [], redis = Map.empty\<rparr>"

definition demo_sign_up :: SignUpDto where
  "demo_sign_up = \<lparr>su_firstName = ''Ann'', su_lastName = None, su_email = ''ann@x.io'', su_password = ''secret12''\<rparr>"

definition demo_sign_in :: SignInDto where
  "demo_sign_in = \<lparr>si_email = ''ann@x.io'', si_password = ''secret12'', si_deviceId = Some ''d1'', si_clientType = None\<rparr>"

definition demo_refresh :: RefreshTokenDto where
  "demo_refresh = \<lparr>rt_refreshToken = ''tt'', rt_deviceId = Some ''d1'', rt_clientType = Some MOBILE\<rparr>"

definition demo_registered :: auth_world where
  "demo_registered = snd (register demo_platform demo_sign_up demo_auth_world)"

definition demo_signed_in :: auth_world where
  "demo_signed_in = snd (signIn demo_platform demo_sign_in None demo_registered)"

definition demo_refreshed :: auth_world where
  "demo_refreshed = snd (refreshTokens demo_platform demo_refresh demo_signed_in)"

lemma demo_register: "register demo_platform demo_sign_up demo_auth_world =
    (Inr \<lparr>rg_id = 1, rg_email = ''ann@x.io'', rg_firstName = ''Ann'', rg_lastName = None\<rparr>, demo_registered)"
proof -
  have "fst (register demo_platform demo_sign_up demo_auth_world) =
      Inr \<lparr>rg_id = 1, rg_email = ''ann@x.io'', rg_firstName = ''Ann'', rg_lastName = None\<rparr>" by code_simp
  then show ?thesis by (metis demo_registered_def prod.collapse)
qed

lemma demo_refresh_run:
  obtains toks where "refreshTokens demo_platform demo_refresh demo_signed_in = (Inr toks, demo_refreshed)"
proof -
  have "\<not> isl (fst (refreshTokens demo_platform demo_refresh demo_signed_in))" by code_simp
  then show thesis using that by (metis demo_refreshed_def prod.collapse sum.collapse(2))
qed

lemma register_sign_in_witness:
  "\<exists>toks. fst (signIn demo_platform demo_sign_in None (run_steps (auth_exec demo_platform) demo_registered
      [Register demo_sign_up, AuthTick 7 []])) = Inr toks \<and> tk_accessToken toks = ''access''"
proof -
  let ?w = "run_steps (auth_exec demo_platform) demo_registered [Register demo_sign_up, AuthTick 7 []]"
  have law: "compare_password demo_platform (si_password demo_sign_in) (hash_password demo_platform s (su_password demo_sign_up))
      \<longleftrightarrow> take 72 (si_password demo_sign_in) = take 72 (su_password demo_sign_up)"
    and hash: "hash_password demo_platform s (su_password demo_sign_up) \<noteq> ''''" for s
    by (auto simp: demo_platform_def)
  have ready: "sign_in_ready demo_platform demo_sign_in None ?w" by code_simp
  have email: "si_email demo_sign_in = su_email demo_sign_up" by (simp add: demo_sign_in_def demo_sign_up_def)
  have same: "take 72 (si_password demo_sign_in) = take 72 (su_password demo_sign_up)"
    by (simp add: demo_sign_in_def demo_sign_up_def)
  show ?thesis
    using register_sign_in [OF law hash demo_register refl ready email]
    unfolding if_P [OF same] by (auto simp: demo_platform_def)
qed

lemma refresh_token_single_use_witness:
  "\<exists>m c. fst (refreshTokens demo_platform demo_refresh (run_steps (auth_exec demo_platform) demo_refreshed
      [SignIn demo_sign_in None, AuthTick 1000000 [False, True]])) = Inl (HttpExn 401 m c)"
proof -
  have law: "verify_refresh demo_platform tok t = Some p \<Longrightarrow> verify_refresh demo_platform tok t' = Some p' \<Longrightarrow> p' = p"
    for tok t t' p p' by (simp add: demo_platform_def)
  obtain toks where run: "refreshTokens demo_platform demo_refresh demo_signed_in = (Inr toks, demo_refreshed)"
    by (rule demo_refresh_run)
  have late: "now (run_steps (auth_exec demo_platform) demo_refreshed
      [SignIn demo_sign_in None, AuthTick 1000000 [False, True]]) < now demo_signed_in + 30 * 24 * 60 * 60 * 1000"
    by code_simp
  show ?thesis by (rule refresh_token_single_use [OF law run refl late refl])
qed

end
