(* ===== verification/JsValue.thy ===== *)
theory JsValue
  imports Prelude
begin

text \<open>
  JavaScript values, for the code of libs/common/src that tests the type of what it is given: the
  exception filters and the interceptors.
\<close>

subsection \<open>JavaScript values\<close>

datatype js = JUndef | JNull | JBool bool | JNum int | JStr string | JArr "js list" | JObj "(string \<times> js) list"

text \<open>Reading a property: of an object the value or \<open>undefined\<close>; \<open>x?.p\<close> on anything else is \<open>undefined\<close>.\<close>

fun js_get :: "js \<Rightarrow> string \<Rightarrow> js" where
  "js_get (JObj ps) k = (case map_of ps k of None \<Rightarrow> JUndef | Some v \<Rightarrow> v)"
| "js_get _ k = JUndef"

fun js_truthy :: "js \<Rightarrow> bool" where
  "js_truthy JUndef = False"
| "js_truthy JNull = False"
| "js_truthy (JBool b) = b"
| "js_truthy (JNum n) = (n \<noteq> 0)"
| "js_truthy (JStr s) = (s \<noteq> '''')"
| "js_truthy (JArr xs) = True"
| "js_truthy (JObj ps) = True"

definition js_or :: "js \<Rightarrow> js \<Rightarrow> js" where
  "js_or x y = (if js_truthy x then x else y)"

definition js_nullish :: "js \<Rightarrow> js \<Rightarrow> js" where
  "js_nullish x y = (if x = JUndef \<or> x = JNull then y else x)"

fun is_str :: "js \<Rightarrow> bool" where
  "is_str (JStr s) = True"
| "is_str _ = False"

fun is_num :: "js \<Rightarrow> bool" where
  "is_num (JNum n) = True"
| "is_num _ = False"

fun is_arr :: "js \<Rightarrow> bool" where
  "is_arr (JArr xs) = True"
| "is_arr _ = False"

text \<open>\<open>typeof x === 'object'\<close> without \<open>null\<close>: objects and arrays.\<close>

fun is_obj :: "js \<Rightarrow> bool" where
  "is_obj (JObj ps) = True"
| "is_obj (JArr xs) = True"
| "is_obj _ = False"

text \<open>What \<open>JSON.parse(JSON.stringify(x))\<close> keeps: properties that are \<open>undefined\<close> disappear.\<close>

fun js_json :: "js \<Rightarrow> js" where
  "js_json (JObj ps) = JObj (map (\<lambda>(k, v). (k, js_json v)) (filter (\<lambda>(k, v). v \<noteq> JUndef) ps))"
| "js_json (JArr xs) = JArr (map (\<lambda>x. if x = JUndef then JNull else js_json x) xs)"
| "js_json x = x"

text \<open>\<open>k in x\<close> of an object, and \<open>typeof x === 'object'\<close>, which \<open>null\<close> satisfies.\<close>

definition js_has :: "string \<Rightarrow> js \<Rightarrow> bool" where
  "js_has k x = (case x of JObj ps \<Rightarrow> map_of ps k \<noteq> None | _ \<Rightarrow> False)"

definition typeof_object :: "js \<Rightarrow> bool" where
  "typeof_object x \<longleftrightarrow> is_obj x \<or> x = JNull"

end
