(* ===== verification/ErrorPath.thy ===== *)
theory ErrorPath
  imports JsValue
begin

text \<open>
  How an error travels: what a service throws, the RPC exception filter that turns it into an object, the
  JSON text that crosses the broker, the HTTP exception the gateway builds from it and the response of
  the global exception filter (libs/common/src: filters, utils, messages). Values whose type the code
  inspects at run time are JavaScript values here.
\<close>

subsection \<open>Messages\<close>

definition ERROR_MESSAGES :: "(string \<times> string) list" where
  "ERROR_MESSAGES =
    [(''user.not_found'', ''User not found''),
     (''user.email.already_exists'', ''Email already exists''),
     (''auth.invalid_credentials'', ''Invalid email or password''),
     (''auth.invalid_refresh_token'', ''Invalid refresh token''),
     (''auth.unauthorized'', ''Unauthorized access''),
     (''auth.token.missing'', ''Missing refresh token''),
     (''validation.failed'', ''Validation failed''),
     (''resource.not_found'', ''Resource not found''),
     (''database.duplicate_entry'', ''Duplicate entry''),
     (''database.foreign_key_violation'', ''Foreign key constraint violation''),
     (''database.query_failed'', ''Database query failed''),
     (''server.internal_error'', ''Something went wrong''),
     (''server.unexpected_error'', ''Unexpected error'')]"

definition SUCCESS_MESSAGES :: "(string \<times> string) list" where
  "SUCCESS_MESSAGES =
    [(''user.create.success'', ''User created successfully''),
     (''user.update.success'', ''User updated successfully''),
     (''user.delete.success'', ''User deleted successfully''),
     (''auth.login.success'', ''Logged in successfully''),
     (''auth.logout.success'', ''Logged out successfully''),
     (''auth.refresh.success'', ''Token refreshed successfully''),
     (''auth.profile.success'', ''Profile retrieved successfully''),
     (''booking.create.success'', ''Booking initiated successfully''),
     (''booking.confirm.success'', ''Booking confirmed successfully''),
     (''booking.cancel.success'', ''Booking cancelled successfully''),
     (''booking.extend.success'', ''Booking extended successfully''),
     (''booking.list.success'', ''Bookings retrieved successfully''),
     (''booking.get.success'', ''Booking retrieved successfully''),
     (''booking.availability.success'', ''Availability checked successfully''),
     (''airport.create.success'', ''Airport created successfully''),
     (''airport.list.success'', ''Airports retrieved successfully''),
     (''airport.search.success'', ''Airport retrieved successfully''),
     (''airport.get.success'', ''Airport retrieved successfully''),
     (''airport.update.success'', ''Airport updated successfully''),
     (''airport.delete.success'', ''Airport deleted successfully''),
     (''airport.statistics.success'', ''Airport statistics retrieved successfully''),
     (''city.create.success'', ''City created successfully''),
     (''city.list.success'', ''Cities retrieved successfully''),
     (''city.get.success'', ''City retrieved successfully''),
     (''city.update.success'', ''City updated successfully''),
     (''city.delete.success'', ''City deleted successfully''),
     (''city.restore.success'', ''City restored successfully''),
     (''city.statistics.success'', ''City statistics retrieved successfully''),
     (''airplane.create.success'', ''Airplane created successfully''),
     (''airplane.list.success'', ''Airplanes retrieved successfully''),
     (''airplane.get.success'', ''Airplane retrieved successfully''),
     (''airplane.update.success'', ''Airplane updated successfully''),
     (''airplane.delete.success'', ''Airplane deleted successfully''),
     (''seat.create.success'', ''Seat created successfully''),
     (''seat.bulk_create.success'', ''Seats created successfully''),
     (''seat.list.success'', ''Seats retrieved successfully''),
     (''seat.delete.success'', ''Seat deleted successfully''),
     (''flight.list.success'', ''Flights retrieved successfully''),
     (''flight.get.success'', ''Flight retrieved successfully''),
     (''flight.create.success'', ''Flight created successfully''),
     (''flight.delete.success'', ''Flight deleted successfully''),
     (''payment.intent.create.success'', ''Payment intent created successfully''),
     (''payment.intent.confirm.success'', ''Payment intent confirmed successfully''),
     (''payment.intent.get.success'', ''Payment intent retrieved successfully''),
     (''payment.intent.ledger.success'', ''Ledger entries returned successfully''),
     (''refund.create.success'', ''Refund created successfully''),
     (''refund.list.success'', ''Refunds retrieved successfully''),
     (''webhook.stripe.success'', ''Webhook processed successfully''),
     (''webhook.paypal.success'', ''Webhook processed successfully'')]"

definition MESSAGES :: "(string \<times> string) list" where
  "MESSAGES = SUCCESS_MESSAGES @ ERROR_MESSAGES"

definition isMessageKey :: "string \<Rightarrow> bool" where
  "isMessageKey k \<longleftrightarrow> map_of MESSAGES k \<noteq> None"

definition getMessage :: "string \<Rightarrow> string" where
  "getMessage k = the (map_of MESSAGES k)"

definition resolveMessage :: "string \<Rightarrow> string option \<times> string" where
  "resolveMessage s = (if isMessageKey s then (Some s, getMessage s) else (None, s))"

subsection \<open>The RPC exception filter\<close>

text \<open>
  A thrown value: for an \<open>HttpException\<close> its status and its response, and the properties of the object
  itself. NestJS builds the response of an exception made from a message: message, error name, status.
\<close>

record thrown =
  th_http :: "(int \<times> js) option"
  th_props :: js

definition nest_exception :: "int \<Rightarrow> string \<Rightarrow> string \<Rightarrow> js \<Rightarrow> thrown" where
  "nest_exception st message name ownCode =
     \<lparr>th_http = Some (st, JObj [(''message'', JStr message), (''error'', JStr name), (''statusCode'', JNum st)]),
      th_props = JObj [(''message'', JStr message), (''code'', ownCode)]\<rparr>"

definition DEFAULT_RPC_ERROR_CODES :: "int \<Rightarrow> string option" where
  "DEFAULT_RPC_ERROR_CODES st =
     (if st = 400 then Some ''validation.failed'' else if st = 401 then Some ''auth.unauthorized''
      else if st = 404 then Some ''resource.not_found'' else if st = 500 then Some ''server.internal_error''
      else None)"

definition rpc_code :: "js \<Rightarrow> js \<Rightarrow> js" where
  "rpc_code code status =
     js_or code (JStr (case status of
        JNum n \<Rightarrow> (case DEFAULT_RPC_ERROR_CODES n of None \<Rightarrow> ''server.internal_error'' | Some c \<Rightarrow> c)
      | _ \<Rightarrow> ''server.internal_error''))"

definition rpc_filter :: "thrown \<Rightarrow> js" where
  "rpc_filter x =
     (let (status, message, code) =
        (case th_http x of
           Some (st, response) \<Rightarrow> (JNum st, response, if is_obj response then js_get response ''code'' else JUndef)
         | None \<Rightarrow> (js_or (js_get (th_props x) ''status'') (JNum 500),
                    js_or (js_get (th_props x) ''message'') (JStr ''Internal server error''),
                    js_get (th_props x) ''code''))
      in JObj [(''status'', status), (''message'', message), (''code'', rpc_code code status),
               (''errorCode'', rpc_code code status), (''errors'', js_get (th_props x) ''errors'')])"

subsection \<open>The exception the gateway builds\<close>

definition rpc_status :: "js \<Rightarrow> js" where
  "rpc_status e =
     (if is_num (js_get e ''status'') then js_get e ''status''
      else if is_num (js_get e ''statusCode'') then js_get e ''statusCode''
      else if is_num (js_get (js_get e ''response'') ''status'') then js_get (js_get e ''response'') ''status''
      else if is_num (js_get (js_get e ''response'') ''statusCode'') then js_get (js_get e ''response'') ''statusCode''
      else JNum 500)"

text \<open>Message, code and errors taken from an object; \<open>stringify\<close> is \<open>JSON.stringify\<close>.\<close>

definition from_object :: "(js \<Rightarrow> string) \<Rightarrow> js \<Rightarrow> js \<times> js \<times> js" where
  "from_object stringify res =
     (let code = (if is_str (js_get res ''code'') then js_get res ''code'' else JUndef)
      in ((case code of
             JStr c \<Rightarrow> if c \<noteq> '''' \<and> isMessageKey c then JStr (getMessage c)
                      else js_or (js_or (js_get res ''message'') (js_get res ''error'')) (JStr (stringify res))
           | _ \<Rightarrow> js_or (js_or (js_get res ''message'') (js_get res ''error'')) (JStr (stringify res))),
          code, js_get res ''errors''))"

definition rpc_message :: "(js \<Rightarrow> string) \<Rightarrow> js \<Rightarrow> js \<times> js \<times> js" where
  "rpc_message stringify e =
     (if is_str (js_get e ''message'') then (js_get e ''message'', JUndef, JUndef)
      else if is_str (js_get e ''response'') then (js_get e ''response'', JUndef, JUndef)
      else if is_obj (js_get e ''response'') then from_object stringify (js_get e ''response'')
      else if is_obj (js_get e ''message'') then from_object stringify (js_get e ''message'')
      else if is_str (js_get e ''error'') then (js_get e ''error'', JUndef, JUndef)
      else (JStr ''Internal server error'', JUndef, JUndef))"

definition createHttpExceptionFromRpcError :: "(js \<Rightarrow> string) \<Rightarrow> js \<Rightarrow> thrown" where
  "createHttpExceptionFromRpcError stringify e =
     (let (message, code0, errors) = rpc_message stringify e;
          code = (if \<not> js_truthy code0 \<and> is_str (js_get e ''code'') then js_get e ''code'' else code0);
          response = JObj ((if js_truthy code then [(''code'', code)] else []) @ [(''message'', message)] @
                           (if errors \<noteq> JUndef then [(''errors'', errors)] else []))
      in \<lparr>th_http = Some (case rpc_status e of JNum n \<Rightarrow> n | _ \<Rightarrow> 500, response), th_props = JObj []\<rparr>)"


subsection \<open>The global exception filter\<close>

datatype raised =
  RHttp int js string
| RQuery js js js string
| RError string string
| RUnknown

text \<open>
  \<open>RHttp status response stack\<close>, \<open>RQuery detail code message stack\<close> (a \<open>QueryFailedError\<close>),
  \<open>RError message stack\<close>, or a value that is no \<open>Error\<close>.
\<close>

fun error_stack :: "raised \<Rightarrow> string option" where
  "error_stack (RHttp st res stack) = Some stack"
| "error_stack (RQuery detail code message stack) = Some stack"
| "error_stack (RError message stack) = Some stack"
| "error_stack RUnknown = None"

record http_info =
  hi_production :: bool
  hi_version :: string
  hi_now :: int
  hi_correlationId :: string
  hi_path :: string

record error_response =
  er_success :: bool
  er_version :: string
  er_statusCode :: int
  er_code :: "js"
  er_message :: js
  er_errorCode :: "js"
  er_data :: js
  er_timestamp :: int
  er_correlationId :: string
  er_path :: string
  er_errors :: js

definition DEFAULT_ERROR_CODES :: "int \<Rightarrow> js" where
  "DEFAULT_ERROR_CODES st =
     (if st = 400 then JStr ''validation.failed'' else if st = 401 then JStr ''auth.unauthorized''
      else if st = 404 then JStr ''resource.not_found'' else if st = 500 then JStr ''server.internal_error''
      else JUndef)"

text \<open>Status, message, code and errors of the response, before the default code.\<close>

definition http_parts :: "int \<Rightarrow> js \<Rightarrow> int \<times> js \<times> js \<times> js" where
  "http_parts st res =
     (if is_str res then (st, res, JUndef, JUndef)
      else if is_obj res then
        (let code = (if is_str (js_get res ''code'') then js_get res ''code'' else JUndef);
             message = (case code of
                JStr c \<Rightarrow> if c \<noteq> '''' \<and> isMessageKey c then JStr (getMessage c)
                         else js_nullish (js_nullish (js_get res ''message'') (js_get res ''error'')) (JStr ''Error'')
              | _ \<Rightarrow> js_nullish (js_nullish (js_get res ''message'') (js_get res ''error'')) (JStr ''Error''));
             errors = (if is_arr (js_get res ''errors'') then js_get res ''errors'' else JUndef)
         in if is_arr (js_get res ''message'')
            then (st, JStr (getMessage ''validation.failed''), JStr ''validation.failed'', js_get res ''message'')
            else (st, message, code, errors))
      else (st, JStr ''Error'', JUndef, JUndef))"

definition query_parts :: "bool \<Rightarrow> js \<Rightarrow> js \<Rightarrow> js \<Rightarrow> int \<times> js \<times> js \<times> js" where
  "query_parts production detail code message =
     (let errors = (if production then JUndef else JArr [js_or detail message])
      in if code = JStr ''23505''
         then (400, JStr (getMessage ''database.duplicate_entry''), JStr ''database.duplicate_entry'', errors)
         else if code = JStr ''23503''
         then (400, JStr (getMessage ''database.foreign_key_violation''), JStr ''database.foreign_key_violation'', errors)
         else (400, JStr (getMessage ''database.query_failed''), JStr ''database.query_failed'', errors))"

definition error_parts :: "bool \<Rightarrow> raised \<Rightarrow> int \<times> js \<times> js \<times> js" where
  "error_parts production x =
     (case x of
        RHttp st res stack \<Rightarrow> http_parts st res
      | RQuery detail code message stack \<Rightarrow> query_parts production detail code message
      | RError message stack \<Rightarrow>
          (500, JStr (if production then getMessage ''server.internal_error'' else message),
           JStr ''server.internal_error'', JUndef)
      | RUnknown \<Rightarrow> (500, JStr (getMessage ''server.unexpected_error''), JStr ''server.unexpected_error'', JUndef))"

definition global_filter :: "http_info \<Rightarrow> raised \<Rightarrow> error_response" where
  "global_filter h x =
     (let (st, message, code0, errors) = error_parts (hi_production h) x;
          code = js_nullish code0 (DEFAULT_ERROR_CODES st)
      in \<lparr>er_success = False, er_version = hi_version h, er_statusCode = st, er_code = code, er_message = message,
          er_errorCode = code, er_data = JNull, er_timestamp = hi_now h, er_correlationId = hi_correlationId h,
          er_path = hi_path h,
          er_errors = (if hi_production h then errors
                       else js_or errors (case error_stack x of None \<Rightarrow> JUndef | Some s \<Rightarrow> JArr [JStr s]))\<rparr>)"

text \<open>
  The way of an error that a service throws while it handles a message, to the client of the gateway. The
  authentication service puts the filter on its controller, the flight service shares its global filters with
  its microservice. The booking and the payment service do neither (\<open>connectMicroservice\<close> is called without
  \<open>inheritAppConfig\<close>), so Nest's own handler answers: a fixed object, whatever was thrown.
\<close>

datatype service = Auth_service | Flight_service | Booking_service | Payment_service

definition nest_rpc_filter :: "thrown \<Rightarrow> js" where
  "nest_rpc_filter x = JObj [(''status'', JStr ''error''), (''message'', JStr ''Internal server error'')]"

definition service_filter :: "service \<Rightarrow> thrown \<Rightarrow> js" where
  "service_filter s =
     (case s of Auth_service \<Rightarrow> rpc_filter | Flight_service \<Rightarrow> rpc_filter
      | Booking_service \<Rightarrow> nest_rpc_filter | Payment_service \<Rightarrow> nest_rpc_filter)"

definition gateway_error :: "(js \<Rightarrow> string) \<Rightarrow> http_info \<Rightarrow> string \<Rightarrow> service \<Rightarrow> thrown \<Rightarrow> error_response" where
  "gateway_error stringify h stack s x =
     (case th_http (createHttpExceptionFromRpcError stringify (js_json (service_filter s x))) of
        Some (st, res) \<Rightarrow> global_filter h (RHttp st res stack)
      | None \<Rightarrow> global_filter h RUnknown)"

subsection \<open>What the client sees\<close>

text \<open>The code that the filter gives a status.\<close>

definition default_code :: "int \<Rightarrow> string" where
  "default_code st = (case DEFAULT_RPC_ERROR_CODES st of None \<Rightarrow> ''server.internal_error'' | Some c \<Rightarrow> c)"

lemma default_code_key: "isMessageKey (default_code st)" "default_code st \<noteq> ''''"
  by (auto simp: default_code_def DEFAULT_RPC_ERROR_CODES_def isMessageKey_def MESSAGES_def SUCCESS_MESSAGES_def
      ERROR_MESSAGES_def)

text \<open>Status, code, message and errors, which is what an error response says.\<close>

definition shown :: "error_response \<Rightarrow> int \<times> js \<times> js \<times> js" where
  "shown r = (er_statusCode r, er_code r, er_message r, er_errors r)"

text \<open>An exception whose response is an object: the code there, and for a validation error the list of messages.\<close>

definition coded_exception :: "int \<Rightarrow> string \<Rightarrow> string \<Rightarrow> thrown" where
  "coded_exception st message code =
     \<lparr>th_http = Some (st, JObj [(''message'', JStr message), (''code'', JStr code)]), th_props = JObj [(''message'', JStr message)]\<rparr>"

definition validation_exception :: "js list \<Rightarrow> thrown" where
  "validation_exception messages =
     \<lparr>th_http = Some (400, JObj [(''message'', JArr messages), (''error'', JStr ''Bad Request''), (''statusCode'', JNum 400)]),
      th_props = JObj [(''message'', JStr ''Bad Request Exception'')]\<rparr>"

text \<open>An \<open>Error\<close> that is no HTTP exception; the driver of the database gives its errors a code.\<close>

definition plain_error :: "string \<Rightarrow> js \<Rightarrow> thrown" where
  "plain_error message code = \<lparr>th_http = None, th_props = JObj [(''message'', JStr message), (''code'', code)]\<rparr>"

text \<open>The stack of the gateway's exception is added outside production when there are no other errors.\<close>

definition errors_or_stack :: "http_info \<Rightarrow> string \<Rightarrow> js" where
  "errors_or_stack h stack = (if hi_production h then JUndef else JArr [JStr stack])"

lemma message_texts:
  "isMessageKey ''validation.failed''" "getMessage ''validation.failed'' = ''Validation failed''"
  "isMessageKey ''server.internal_error''" "getMessage ''server.internal_error'' = ''Something went wrong''"
  by (simp_all add: getMessage_def isMessageKey_def MESSAGES_def SUCCESS_MESSAGES_def ERROR_MESSAGES_def)


definition demo_info :: http_info where
  "demo_info = \<lparr>hi_production = False, hi_version = ''1.0'', hi_now = 0, hi_correlationId = '''', hi_path = ''/''\<rparr>"


end
