(* ===== verification/AuthGateway.thy ===== *)
theory AuthGateway
  imports AuthProps ErrorPath RateLimiter
begin

text \<open>
  The gateway's side of authentication: durations and cookies, the controller that calls the
  authentication service over the broker, and the guards of the gateway and of the services
  (libs/common/src/guards, apps/api-gateway/src). The theorems compose them with the service.
\<close>

subsection \<open>Durations\<close>

text \<open>\<open>parseInt(s, 10)\<close>: blanks, an optional sign, the longest run of digits; \<open>None\<close> is \<open>NaN\<close>.\<close>

definition parse_digits :: "string \<Rightarrow> int option" where
  "parse_digits s = (let ds = takeWhile is_digit s in if ds = [] then None else Some (int (read_nat ds)))"

definition parseInt :: "string \<Rightarrow> int option" where
  "parseInt s =
     (case dropWhile is_space s of
        [] \<Rightarrow> None
      | c # cs \<Rightarrow> if c = CHR ''-'' then map_option uminus (parse_digits cs)
                  else if c = CHR ''+'' then parse_digits cs else parse_digits (c # cs))"

text \<open>\<open>/^(\d+)([smhd]?)$/\<close> and the value in seconds.\<close>

definition unit_seconds :: "string \<Rightarrow> int option" where
  "unit_seconds u =
     (if u = '''' \<or> u = ''s'' then Some 1 else if u = ''m'' then Some 60 else if u = ''h'' then Some 3600
      else if u = ''d'' then Some 86400 else None)"

definition parseDurationToSeconds :: "string option \<Rightarrow> int \<Rightarrow> int" where
  "parseDurationToSeconds text defaultSeconds =
     (if \<not> truthy text then defaultSeconds
      else let ds = takeWhile is_digit (the text); u = dropWhile is_digit (the text)
           in if ds = [] \<or> unit_seconds u = None
              then (case parseInt (the text) of None \<Rightarrow> defaultSeconds | Some n \<Rightarrow> n)
              else int (read_nat ds) * the (unit_seconds u))"

lemma digits_then: "u = [] \<or> \<not> is_digit (hd u) \<Longrightarrow> takeWhile is_digit (show_nat n @ u) = show_nat n \<and>
    dropWhile is_digit (show_nat n @ u) = u"
  by (cases u) (auto simp: takeWhile_append dropWhile_append show_nat_digits)

text \<open>A printed number of seconds, minutes, hours or days is read back.\<close>

lemma parse_printed:
  assumes "unit_seconds u = Some k"
  shows "parseDurationToSeconds (Some (show_nat n @ u)) d = int n * k"
proof -
  have "u = [] \<or> \<not> is_digit (hd u)"
    using assms by (auto simp: unit_seconds_def is_digit_def split: if_splits)
  then show ?thesis
    using digits_then [of u n] assms by (simp add: parseDurationToSeconds_def read_show_nat)
qed

subsection \<open>Cookies\<close>

text \<open>A browser's cookies for the gateway, in the order it sends them; setting one again keeps its place.\<close>

record cookie =
  ck_name :: string
  ck_value :: string
  ck_expires :: int

fun set_cookie :: "cookie \<Rightarrow> cookie list \<Rightarrow> cookie list" where
  "set_cookie c [] = [c]"
| "set_cookie c (x # xs) = (if ck_name x = ck_name c then c # xs else x # set_cookie c xs)"

definition sent_cookies :: "int \<Rightarrow> cookie list \<Rightarrow> (string \<times> string) list" where
  "sent_cookies t jar = map (\<lambda>c. (ck_name c, ck_value c)) (filter (\<lambda>c. t < ck_expires c) jar)"

definition access_cookie :: "string option \<Rightarrow> string" where
  "access_cookie deviceId = ''accessToken_'' @ tpl ''undefined'' deviceId"

definition refresh_cookie :: "string option \<Rightarrow> string" where
  "refresh_cookie deviceId = ''refreshToken_'' @ tpl ''undefined'' deviceId"

definition cookie_ttl :: "int \<Rightarrow> int \<Rightarrow> int" where
  "cookie_ttl ttl missing = (if ttl = 0 then missing else ttl * 1000)"

definition setAccessToken :: "auth_platform \<Rightarrow> int \<Rightarrow> string \<Rightarrow> string option \<Rightarrow> cookie list \<Rightarrow> cookie list" where
  "setAccessToken pf t token deviceId = set_cookie \<lparr>ck_name = access_cookie deviceId, ck_value = token,
     ck_expires = t + cookie_ttl (accessTokenTTL pf) 3600000\<rparr>"

definition setRefreshToken :: "auth_platform \<Rightarrow> int \<Rightarrow> string \<Rightarrow> string option \<Rightarrow> cookie list \<Rightarrow> cookie list" where
  "setRefreshToken pf t token deviceId = set_cookie \<lparr>ck_name = refresh_cookie deviceId, ck_value = token,
     ck_expires = t + cookie_ttl (refreshTokenTTL pf) 604800000\<rparr>"

definition clearAuthCookies :: "string option \<Rightarrow> cookie list \<Rightarrow> cookie list" where
  "clearAuthCookies deviceId jar =
     filter (\<lambda>c. ck_name c \<noteq> access_cookie deviceId \<and> ck_name c \<noteq> refresh_cookie deviceId) jar"

subsection \<open>The controller\<close>

record 'd api_response =
  ap_success :: bool
  ap_data :: 'd
  ap_code :: "string option"
  ap_message :: string

definition success_response :: "'d \<Rightarrow> string \<Rightarrow> 'd api_response" where
  "success_response d codeOrMessage =
     \<lparr>ap_success = True, ap_data = d, ap_code = fst (resolveMessage codeOrMessage),
      ap_message = snd (resolveMessage codeOrMessage)\<rparr>"

text \<open>What a service throws, and the exception the gateway throws after it crossed the broker.\<close>

definition error_name :: "int \<Rightarrow> string" where
  "error_name st =
     (if st = 400 then ''Bad Request'' else if st = 401 then ''Unauthorized'' else if st = 403 then ''Forbidden''
      else if st = 404 then ''Not Found'' else if st = 409 then ''Conflict'' else ''Internal Server Error'')"

definition thrown_of :: "exn \<Rightarrow> thrown" where
  "thrown_of e =
     (case e of
        HttpExn st m c \<Rightarrow> nest_exception st m (error_name st) (case c of None \<Rightarrow> JUndef | Some x \<Rightarrow> JStr x)
      | JsError m \<Rightarrow> \<lparr>th_http = None, th_props = JObj [(''message'', JStr m)]\<rparr>
      | RpcError m \<Rightarrow> \<lparr>th_http = None, th_props = JObj [(''status'', JStr ''error''), (''message'', JStr m)]\<rparr>)"

definition exn_of :: "thrown \<Rightarrow> exn" where
  "exn_of x =
     (case th_http x of
        None \<Rightarrow> JsError ''Error''
      | Some (st, res) \<Rightarrow>
          HttpExn st (case js_get res ''message'' of JStr m \<Rightarrow> m | _ \<Rightarrow> ''Error'')
                     (case js_get res ''code'' of JStr c \<Rightarrow> Some c | _ \<Rightarrow> None))"

text \<open>
  A call over the broker: an error of the sending itself reaches the caller as it is, what the service throws
  goes through the service's filter and the JSON text of the answer.
\<close>

definition callService :: "(js \<Rightarrow> string) \<Rightarrow> service \<Rightarrow> ('x env_scheme, 'a) prog \<Rightarrow> ('x env_scheme, 'a) prog" where
  "callService stringify service m =
     andThen
       (tryCatch external (\<lambda>e. throw (exn_of (createHttpExceptionFromRpcError stringify (th_props (thrown_of e))))))
       (\<lambda>_. tryCatch m (\<lambda>e.
          throw (exn_of (createHttpExceptionFromRpcError stringify (js_json (service_filter service (thrown_of e)))))))"

definition client_type :: "ClientType option \<Rightarrow> ClientType" where
  "client_type x = (case x of None \<Rightarrow> WEB | Some c \<Rightarrow> c)"

definition gateway_register ::
  "(js \<Rightarrow> string) \<Rightarrow> auth_platform \<Rightarrow> SignUpDto \<Rightarrow> (auth_world, registered api_response) prog" where
  "gateway_register stringify pf dto =
     andThen (callService stringify Auth_service (register pf dto))
       (\<lambda>result. ret (success_response result ''user.create.success''))"

text \<open>The answer of login and refresh: a web client gets cookies, any other client the tokens.\<close>

definition answer_tokens ::
  "auth_platform \<Rightarrow> ClientType \<Rightarrow> string option \<Rightarrow> string \<Rightarrow> cookie list \<Rightarrow> tokens \<Rightarrow>
     (auth_world, tokens option api_response \<times> cookie list) prog" where
  "answer_tokens pf client deviceId code jar toks =
     andThen (gets now) (\<lambda>t.
       if client = WEB
       then ret (success_response None code,
                 setRefreshToken pf t (tk_refreshToken toks) deviceId
                   (setAccessToken pf t (tk_accessToken toks) deviceId jar))
       else ret (success_response (Some toks) code, jar))"

text \<open>The service handles \<open>auth.login\<close> as \<open>signIn(data)\<close>: the address the gateway adds is not passed on.\<close>

definition gateway_login ::
  "(js \<Rightarrow> string) \<Rightarrow> auth_platform \<Rightarrow> SignInDto \<Rightarrow> cookie list \<Rightarrow>
     (auth_world, tokens option api_response \<times> cookie list) prog" where
  "gateway_login stringify pf dto jar =
     andThen (callService stringify Auth_service (signIn pf dto None))
       (answer_tokens pf (client_type (si_clientType dto)) (si_deviceId dto) ''auth.login.success'' jar)"

definition gateway_refresh ::
  "(js \<Rightarrow> string) \<Rightarrow> auth_platform \<Rightarrow> RefreshTokenDto \<Rightarrow> cookie list \<Rightarrow>
     (auth_world, tokens option api_response \<times> cookie list) prog" where
  "gateway_refresh stringify pf dto jar =
     andThen (gets now) (\<lambda>t.
       let refreshToken = (if client_type (rt_clientType dto) = WEB
                           then map_of (sent_cookies t jar) (refresh_cookie (rt_deviceId dto))
                           else Some (rt_refreshToken dto))
       in if \<not> truthy refreshToken then throw (HttpExn 400 ''Bad Request Exception'' (Some ''auth.token.missing''))
          else andThen (callService stringify Auth_service (refreshTokens pf (dto\<lparr>rt_refreshToken := the refreshToken\<rparr>)))
                 (answer_tokens pf (client_type (rt_clientType dto)) (rt_deviceId dto) ''auth.refresh.success'' jar))"

definition gateway_logout ::
  "(js \<Rightarrow> string) \<Rightarrow> SignOutDto \<Rightarrow> cookie list \<Rightarrow> (auth_world, unit option api_response \<times> cookie list) prog" where
  "gateway_logout stringify dto jar =
     andThen (callService stringify Auth_service (signOut dto)) (\<lambda>_.
       ret (success_response None ''auth.logout.success'',
            if client_type (so_clientType dto) = WEB then clearAuthCookies (so_deviceId dto) jar else jar))"


subsection \<open>Guards\<close>

datatype AuthType = Bearer | NoAuth

datatype context_type = Http | Rpc | Ws

text \<open>
  What a guard looks at: the decorators of the handler and of its class (\<open>None\<close> where there is none), the
  headers, cookies and device ids of an HTTP request, what the rate limiter reads of it, the tokens in the data
  of a message, and the user.
\<close>

record exec_context =
  cx_type :: context_type
  cx_publicHandler :: "bool option"
  cx_publicClass :: "bool option"
  cx_rolesHandler :: "Role list option"
  cx_rolesClass :: "Role list option"
  cx_authHandler :: "AuthType list option"
  cx_authClass :: "AuthType list option"
  cx_skipHandler :: "bool option"
  cx_skipClass :: "bool option"
  cx_limitHandler :: "RateLimitConfig option"
  cx_limitClass :: "RateLimitConfig option"
  cx_request :: http_request
  cx_authorization :: "string option"
  cx_cookies :: "(string \<times> string) list option"
  cx_deviceHeader :: "string option"
  cx_bodyDeviceId :: "string option"
  cx_queryDeviceId :: "string option"
  cx_token :: "string option"
  cx_accessToken :: "string option"
  cx_user :: "request_user option"

definition getAllAndOverride :: "'a option \<Rightarrow> 'a option \<Rightarrow> 'a option" where
  "getAllAndOverride handler cls = (if handler = None then cls else handler)"

abbreviation is_public :: "exec_context \<Rightarrow> bool" where
  "is_public cx \<equiv> getAllAndOverride (cx_publicHandler cx) (cx_publicClass cx) = Some True"

abbreviation required_roles :: "exec_context \<Rightarrow> Role list option" where
  "required_roles cx \<equiv> getAllAndOverride (cx_rolesHandler cx) (cx_rolesClass cx)"

abbreviation skip_limit :: "exec_context \<Rightarrow> bool" where
  "skip_limit cx \<equiv> getAllAndOverride (cx_skipHandler cx) (cx_skipClass cx) = Some True"

abbreviation route_limit :: "exec_context \<Rightarrow> RateLimitConfig option" where
  "route_limit cx \<equiv> getAllAndOverride (cx_limitHandler cx) (cx_limitClass cx)"

text \<open>\<open>const [type, token] = authorization.split(' ')\<close>: the token of the type \<open>Bearer\<close>, if it is that type.\<close>

definition bearer :: "string option \<Rightarrow> string option option" where
  "bearer authorization =
     (case authorization of
        None \<Rightarrow> None
      | Some s \<Rightarrow> let parts = split_on CHR '' '' s
                  in if hd parts \<noteq> ''Bearer'' then None
                     else Some (case tl parts of [] \<Rightarrow> None | token # rest \<Rightarrow> Some token))"

definition starts_with :: "string \<Rightarrow> string \<Rightarrow> bool" where
  "starts_with p s \<longleftrightarrow> take (length p) s = p"

definition extractTokenFromHeader :: "exec_context \<Rightarrow> string option" where
  "extractTokenFromHeader cx =
     (case bearer (cx_authorization cx) of
        Some token \<Rightarrow> token
      | None \<Rightarrow>
          (case cx_cookies cx of
             None \<Rightarrow> None
           | Some cookies \<Rightarrow>
               (case find (\<lambda>key. starts_with ''accessToken_'' key) (map fst cookies) of
                  None \<Rightarrow> None
                | Some key \<Rightarrow> map_of cookies key)))"

definition verified_user ::
  "auth_platform \<Rightarrow> (access_payload \<Rightarrow> (auth_world, request_user) prog) \<Rightarrow> string \<Rightarrow> (auth_world, request_user) prog" where
  "verified_user pf send token =
     andThen (gets now) (\<lambda>t.
       case verify_access pf token t of
         None \<Rightarrow> throw (JsError ''JsonWebTokenError'')
       | Some payload \<Rightarrow> send payload)"

definition jwt_guard ::
  "auth_platform \<Rightarrow> (access_payload \<Rightarrow> (auth_world, request_user) prog) \<Rightarrow> exec_context \<Rightarrow>
     (auth_world, bool \<times> exec_context) prog" where
  "jwt_guard pf send cx =
     (if is_public cx then ret (True, cx)
      else (case cx_type cx of
          Http \<Rightarrow>
            (let token = extractTokenFromHeader cx
             in if \<not> truthy token then throw (HttpExn 401 ''Token not found'' None)
                else tryCatch (andThen (verified_user pf send (the token)) (\<lambda>u. ret (True, cx\<lparr>cx_user := Some u\<rparr>)))
                       (\<lambda>_. throw (HttpExn 401 ''Invalid token'' None)))
        | Rpc \<Rightarrow>
            (let token = or_opt (cx_token cx) (cx_accessToken cx)
             in if \<not> truthy token then throw (HttpExn 401 ''Token not found in RPC payload'' None)
                else tryCatch (andThen (verified_user pf send (the token)) (\<lambda>u. ret (True, cx\<lparr>cx_user := Some u\<rparr>)))
                       (\<lambda>_. throw (HttpExn 401 ''Invalid token in RPC payload'' None)))
        | Ws \<Rightarrow> ret (True, cx)))"

text \<open>The gateway's roles guard reads \<open>user.role\<close> for every required role; the services' guard tests it first.\<close>

definition gateway_roles_guard :: "exec_context \<Rightarrow> (auth_world, bool) prog" where
  "gateway_roles_guard cx =
     (case required_roles cx of
        None \<Rightarrow> ret True
      | Some rs \<Rightarrow>
          if rs = [] then ret False
          else (case cx_user cx of
                  None \<Rightarrow> throw (JsError ''Cannot read properties of undefined'')
                | Some u \<Rightarrow> ret (list_ex (\<lambda>role. ru_role u = Some role) rs)))"

definition roles_guard :: "exec_context \<Rightarrow> (auth_world, bool) prog" where
  "roles_guard cx =
     (case required_roles cx of
        None \<Rightarrow> ret True
      | Some rs \<Rightarrow>
          ret (case cx_user cx of
                 None \<Rightarrow> False
               | Some u \<Rightarrow> (case ru_role u of None \<Rightarrow> False | Some role \<Rightarrow> role \<in> set rs)))"

text \<open>
  The services' guard for access tokens, and the guard that tries one guard per type. The exception for a
  bad token takes its message from the library's error, for which one text stands here.
\<close>

definition extractDeviceId :: "exec_context \<Rightarrow> string option" where
  "extractDeviceId cx =
     (if cx_deviceHeader cx \<noteq> None then cx_deviceHeader cx
      else if cx_bodyDeviceId cx \<noteq> None then cx_bodyDeviceId cx
      else cx_queryDeviceId cx)"

definition payload_user :: "access_payload \<Rightarrow> request_user" where
  "payload_user p = \<lparr>ru_id = ac_id p, ru_email = ac_email p, ru_firstName = None, ru_lastName = None,
     ru_roles = ac_roles p, ru_role = None\<rparr>"

definition check_access_token ::
  "auth_platform \<Rightarrow> string option \<Rightarrow> exec_context \<Rightarrow> (auth_world, bool \<times> exec_context) prog" where
  "check_access_token pf token cx =
     (if \<not> truthy token then throw (HttpExn 401 ''Access token missing'' None)
      else andThen (gets now) (\<lambda>t.
        case verify_access pf (the token) t of
          None \<Rightarrow> throw (HttpExn 401 ''JsonWebTokenError'' None)
        | Some payload \<Rightarrow> ret (True, cx\<lparr>cx_user := Some (payload_user payload)\<rparr>)))"

definition access_token_guard :: "auth_platform \<Rightarrow> exec_context \<Rightarrow> (auth_world, bool \<times> exec_context) prog" where
  "access_token_guard pf cx =
     (let token = (case bearer (cx_authorization cx) of None \<Rightarrow> None | Some t \<Rightarrow> t);
          deviceId = extractDeviceId cx
      in if truthy token then check_access_token pf token cx
         else if \<not> truthy deviceId then throw (HttpExn 401 ''Device ID missing for web authentication'' None)
         else check_access_token pf
                (case cx_cookies cx of None \<Rightarrow> None | Some cookies \<Rightarrow> map_of cookies (access_cookie deviceId)) cx)"

definition typed_guard ::
  "auth_platform \<Rightarrow> exec_context \<Rightarrow> AuthType \<Rightarrow> (auth_world, bool \<times> exec_context) prog" where
  "typed_guard pf cx ty = (case ty of Bearer \<Rightarrow> access_token_guard pf cx | NoAuth \<Rightarrow> ret (True, cx))"

fun try_guards ::
  "auth_platform \<Rightarrow> exec_context \<Rightarrow> exn \<Rightarrow> AuthType list \<Rightarrow> (auth_world, bool \<times> exec_context) prog" where
  "try_guards pf cx lastError [] = throw lastError"
| "try_guards pf cx lastError (ty # tys) =
     andThen (tryCatch (andThen (typed_guard pf cx ty) (\<lambda>r. ret (Inr r))) (\<lambda>e. ret (Inl e))) (\<lambda>out.
       case out of
         Inl e \<Rightarrow> try_guards pf cx e tys
       | Inr (ok, cx') \<Rightarrow> if ok then ret (True, cx') else try_guards pf cx lastError tys)"

definition authentication_guard :: "auth_platform \<Rightarrow> exec_context \<Rightarrow> (auth_world, bool \<times> exec_context) prog" where
  "authentication_guard pf cx =
     (if is_public cx then ret (True, cx)
      else try_guards pf cx (HttpExn 401 ''Unauthorized'' None)
             (case getAllAndOverride (cx_authHandler cx) (cx_authClass cx) of None \<Rightarrow> [Bearer] | Some tys \<Rightarrow> tys))"

text \<open>
  The gateway works on the authentication service's world and on the store of the rate limiter. The limiter's
  guard sees the user that the token guard has set.
\<close>

type_synonym guard_world = "auth_world \<times> rl_world"

definition auth_limit :: RateLimitConfig where
  "auth_limit = \<lparr>points = 5, duration = 60, blockDuration = None, keyPrefix = None\<rparr>"

definition on_fst :: "('s, 'a) prog \<Rightarrow> ('s \<times> 't, 'a) prog" where
  "on_fst m s = (case m (fst s) of (r, w) \<Rightarrow> (r, w, snd s))"

definition limited_request :: "exec_context \<Rightarrow> request_user option \<Rightarrow> http_request" where
  "limited_request cx user = (cx_request cx)\<lparr>rq_userId := map_option ru_id user\<rparr>"

definition rate_guard :: "exec_context \<Rightarrow> (guard_world, bool) prog" where
  "rate_guard cx s =
     (case canActivate (skip_limit cx) (route_limit cx) (limited_request cx (cx_user cx)) (snd s) of
        (r, headers, l) \<Rightarrow> (r, fst s, l))"

text \<open>
  The guards of the gateway: those of its module in their order, then the one that \<open>main.ts\<close> adds. A guard that
  answers false is a 403.
\<close>

definition forbidden :: exn where
  "forbidden = HttpExn 403 ''Forbidden resource'' None"

definition gateway_guards ::
  "auth_platform \<Rightarrow> (access_payload \<Rightarrow> (auth_world, request_user) prog) \<Rightarrow> exec_context \<Rightarrow>
     (guard_world, exec_context) prog" where
  "gateway_guards pf send cx =
     andThen (on_fst (jwt_guard pf send cx)) (\<lambda>(ok, cx').
       if \<not> ok then throw forbidden
       else andThen (on_fst (gateway_roles_guard cx')) (\<lambda>allowed.
         if \<not> allowed then throw forbidden
         else andThen (rate_guard cx') (\<lambda>admitted. if admitted then ret cx' else throw forbidden)))"

definition service_guards :: "auth_platform \<Rightarrow> exec_context \<Rightarrow> (auth_world, exec_context) prog" where
  "service_guards pf cx =
     andThen (authentication_guard pf cx) (\<lambda>(ok, cx').
       if \<not> ok then throw forbidden
       else andThen (roles_guard cx') (\<lambda>allowed. if allowed then ret cx' else throw forbidden))"

text \<open>The message \<open>auth.validate\<close>, and the request for the own profile.\<close>

definition send_validate :: "access_payload \<Rightarrow> (auth_world, request_user) prog" where
  "send_validate payload = andThen external (\<lambda>_. validateUser (Some (ac_id payload)) (Some (ac_email payload)))"

definition getProfile :: "auth_platform \<Rightarrow> exec_context \<Rightarrow> (guard_world, request_user option api_response) prog" where
  "getProfile pf cx =
     andThen (gateway_guards pf send_validate cx) (\<lambda>cx'.
       andThen (on_fst (jwt_guard pf send_validate cx')) (\<lambda>(ok, cx'').
         if \<not> ok then throw forbidden else ret (success_response (cx_user cx'') ''auth.profile.success'')))"


subsection \<open>Who is admitted\<close>

definition profile :: "User \<Rightarrow> request_user" where
  "profile u = \<lparr>ru_id = us_id u, ru_email = us_email u, ru_firstName = Some (us_firstName u),
     ru_lastName = us_lastName u, ru_roles = [USER], ru_role = None\<rparr>"

text \<open>The active user whom a token names, if there is one.\<close>

definition token_user :: "auth_platform \<Rightarrow> auth_world \<Rightarrow> string \<Rightarrow> request_user option" where
  "token_user pf w token =
     (case verify_access pf token (now w) of
        None \<Rightarrow> None
      | Some p \<Rightarrow>
          (case find (\<lambda>u. us_id u = ac_id p \<and> us_email u = ac_email p) (users w) of
             None \<Rightarrow> None
           | Some u \<Rightarrow> if us_isActive u then Some (profile u) else None))"

lemma send_validate_run:
  assumes "faults w = []"
  shows "send_validate p w =
    ((case find (\<lambda>u. us_id u = ac_id p \<and> us_email u = ac_email p) (users w) of
        None \<Rightarrow> Inl (unauthorized ''Unauthorized'' ''auth.unauthorized'')
      | Some u \<Rightarrow> if us_isActive u then Inr (profile u) else Inl (unauthorized ''Unauthorized'' ''auth.unauthorized'')), w)"
  using assms
  by (simp add: send_validate_def validateUser_def find_user_def andThen_def throw_def ret_def profile_def
      split: option.split)

lemma verified_user_run:
  assumes "faults w = []"
  obtains (refused) e where "token_user pf w token = None" and "verified_user pf send_validate token w = (Inl e, w)"
  | (found) u where "token_user pf w token = Some u" and "verified_user pf send_validate token w = (Inr u, w)"
proof (cases "verify_access pf token (now w)")
  case None
  then show ?thesis
    using that(1) by (simp add: token_user_def verified_user_def andThen_def gets_def throw_def)
next
  case (Some p)
  then have "verified_user pf send_validate token w = send_validate p w"
    by (simp add: verified_user_def andThen_def gets_def)
  with Some show ?thesis
    using that by (auto simp: send_validate_run [OF assms] token_user_def split: option.splits if_splits)
qed

lemma jwt_guard_run:
  assumes "faults w = []" "cx_type cx = Http" "\<not> is_public cx"
  shows "jwt_guard pf send_validate cx w =
    ((if truthy (extractTokenFromHeader cx)
      then (case token_user pf w (the (extractTokenFromHeader cx)) of
              None \<Rightarrow> Inl (HttpExn 401 ''Invalid token'' None)
            | Some u \<Rightarrow> Inr (True, cx\<lparr>cx_user := Some u\<rparr>))
      else Inl (HttpExn 401 ''Token not found'' None)), w)"
proof (cases "truthy (extractTokenFromHeader cx)")
  case False
  with assms show ?thesis by (simp add: jwt_guard_def throw_def)
next
  case True
  show ?thesis
    by (rule verified_user_run [OF assms(1), of pf "the (extractTokenFromHeader cx)"])
      (use assms True in \<open>simp_all add: jwt_guard_def throw_def tryCatch_def andThen_def ret_def\<close>)
qed

lemma token_user_no_role: "token_user pf w token = Some u \<Longrightarrow> ru_role u = None"
  by (auto simp: token_user_def profile_def split: option.splits if_splits)

text \<open>
  The conditions under which the limiter's store works for a request: Redis is up, the key does not end in
  \<open>:blocked\<close>, and the two keys hold what the limiter writes there. Then its guard decides as the limiter does.
\<close>

definition limiter_ready :: "rl_world \<Rightarrow> exec_context \<Rightarrow> request_user option \<Rightarrow> bool" where
  "limiter_ready l cx user \<longleftrightarrow> faults l = [] \<and>
     (case route_limit cx of
        None \<Rightarrow> True
      | Some c \<Rightarrow> plain_key (generateKey (limited_request cx user)) \<and> 0 < blockSeconds (finalConfig l (Some c)) \<and>
          limiter_typed l (Some c) (generateKey (limited_request cx user)))"

definition rate_admitted :: "rl_world \<Rightarrow> exec_context \<Rightarrow> request_user option \<Rightarrow> bool" where
  "rate_admitted l cx user \<longleftrightarrow> skip_limit cx \<or>
     (case route_limit cx of
        None \<Rightarrow> True
      | Some c \<Rightarrow> limiter_admits l (Some c) (generateKey (limited_request cx user)))"

lemma rate_guard_run:
  assumes "limiter_ready l cx (cx_user cx)"
  shows "\<exists>l'. rate_guard cx (w, l) = (if rate_admitted l cx (cx_user cx) then Inr True else Inl tooManyRequests, w, l') \<and>
    (skip_limit cx \<or> route_limit cx = None \<longrightarrow> l' = l)"
proof (cases "skip_limit cx \<or> route_limit cx = None")
  case True
  then show ?thesis by (auto simp: rate_guard_def canActivate_def rate_admitted_def)
next
  case False
  then obtain c where c: "route_limit cx = Some c" by blast
  with assms have "plain_key (generateKey (limited_request cx (cx_user cx)))" "faults l = []"
    "0 < blockSeconds (finalConfig l (Some c))" "limiter_typed l (Some c) (generateKey (limited_request cx (cx_user cx)))"
    by (simp_all add: limiter_ready_def)
  from guard_verdict [OF this(2,1,3,4)] obtain hs l' where
    "canActivate False (Some c) (limited_request cx (cx_user cx)) l =
      (if limiter_admits l (Some c) (generateKey (limited_request cx (cx_user cx))) then Inr True else Inl tooManyRequests, hs, l')" .
  with False c show ?thesis by (auto simp: rate_guard_def rate_admitted_def)
qed

lemma on_fst_pair [simp]: "on_fst m (w, l) = (fst (m w), snd (m w), l)"
  by (simp add: on_fst_def split: prod.split)

text \<open>What is left of the guards once the token guard has let a request pass.\<close>

lemma limited_user [simp]:
  "limited_request (cx\<lparr>cx_user := x\<rparr>) u = limited_request cx u"
  "limiter_ready l (cx\<lparr>cx_user := x\<rparr>) u = limiter_ready l cx u"
  "rate_admitted l (cx\<lparr>cx_user := x\<rparr>) u = rate_admitted l cx u"
proof -
  show same: "limited_request (cx\<lparr>cx_user := x\<rparr>) u = limited_request cx u" by (simp add: limited_request_def)
  show "limiter_ready l (cx\<lparr>cx_user := x\<rparr>) u = limiter_ready l cx u"
    by (simp add: limiter_ready_def same cong: option.case_cong)
  show "rate_admitted l (cx\<lparr>cx_user := x\<rparr>) u = rate_admitted l cx u"
    by (simp add: rate_admitted_def same cong: option.case_cong)
qed

text \<open>What the other guards do once the token guard has let a request pass.\<close>

lemma guards_after_jwt:
  assumes "jwt_guard pf send cx w = (Inr (True, cx'), w)"
    and "\<And>u. cx_user cx' = Some u \<Longrightarrow> ru_role u = None" and "limiter_ready l cx' (cx_user cx')"
  obtains (closed) e where "required_roles cx' \<noteq> None" "gateway_guards pf send cx (w, l) = (Inl e, w, l)"
  | (limited) l' where "required_roles cx' = None" "gateway_guards pf send cx (w, l) =
        (if rate_admitted l cx' (cx_user cx') then Inr cx' else Inl tooManyRequests, w, l')"
      "skip_limit cx' \<or> route_limit cx' = None \<Longrightarrow> l' = l"
proof (cases "required_roles cx'")
  case (Some rs)
  have "list_ex (\<lambda>role. ru_role u = Some role) rs = False" if "cx_user cx' = Some u" for u
    using assms(2) [OF that] by (simp add: list_ex_iff)
  with Some closed show thesis
    by (cases "rs = []"; cases "cx_user cx'")
      (auto simp: gateway_guards_def gateway_roles_guard_def assms(1) andThen_def throw_def ret_def)
next
  case None
  obtain l' where l': "rate_guard cx' (w, l) = (if rate_admitted l cx' (cx_user cx') then Inr True else Inl tooManyRequests, w, l')"
    "skip_limit cx' \<or> route_limit cx' = None \<longrightarrow> l' = l"
    using rate_guard_run [OF assms(3)] by blast
  with None show thesis
    by (intro limited [of l']) (auto simp: gateway_guards_def gateway_roles_guard_def assms(1) andThen_def throw_def ret_def)
qed

text \<open>The user of a request on a route: none on a public one, else whom the token names.\<close>

definition request_identity :: "auth_platform \<Rightarrow> auth_world \<Rightarrow> exec_context \<Rightarrow> request_user option" where
  "request_identity pf w cx =
     (if is_public cx \<or> \<not> truthy (extractTokenFromHeader cx) then None
      else token_user pf w (the (extractTokenFromHeader cx)))"

text \<open>C27. The gateway admits an HTTP request exactly when three conditions hold: its route requires no role; the
  route is public or the request comes with a token (of the Authorization header, or of the first access token
  cookie) that verifies and names an active user; and the rate limiter lets it pass, which it does when the
  route has no limit or, for the key of the user or else the address and of the route, no block is in force and
  fewer than \<open>points\<close> entries are in the window. Every route that requires a role is therefore closed to everyone,
  since no user of a request has the property the roles guard reads. The condition is that database, broker and
  Redis answer (\<open>faults\<close>, \<open>limiter_ready\<close>); when Redis fails the limiter lets every request pass.
\<close>

lemma gateway_admission_exact:
  assumes "faults w = []" "cx_type cx = Http" "cx_user cx = None"
    and "limiter_ready l cx (request_identity pf w cx)"
  shows "(\<exists>cx' v. gateway_guards pf send_validate cx (w, l) = (Inr cx', v)) \<longleftrightarrow>
    required_roles cx = None \<and>
    (is_public cx \<or>
     truthy (extractTokenFromHeader cx) \<and> token_user pf w (the (extractTokenFromHeader cx)) \<noteq> None) \<and>
    (skip_limit cx \<or> (case route_limit cx of None \<Rightarrow> True | Some c \<Rightarrow>
       limiter_admits l (Some c) (generateKey (limited_request cx (request_identity pf w cx)))))"
proof -
  let ?admitted = "rate_admitted l cx (request_identity pf w cx)"
  have passes: "(\<exists>c v. gateway_guards pf send_validate cx (w, l) = (Inr c, v)) \<longleftrightarrow> required_roles cx = None \<and> ?admitted"
    if j: "jwt_guard pf send_validate cx w = (Inr (True, cx\<lparr>cx_user := request_identity pf w cx\<rparr>), w)"
  proof (rule guards_after_jwt [OF j, of l])
    show "ru_role u = None" if "cx_user (cx\<lparr>cx_user := request_identity pf w cx\<rparr>) = Some u" for u
      using that by (auto simp: request_identity_def split: if_splits dest: token_user_no_role)
  qed (use assms(4) in auto)
  show ?thesis
  proof (cases "is_public cx \<or> truthy (extractTokenFromHeader cx) \<and> token_user pf w (the (extractTokenFromHeader cx)) \<noteq> None")
    case True
    have "jwt_guard pf send_validate cx w = (Inr (True, cx\<lparr>cx_user := request_identity pf w cx\<rparr>), w)"
    proof (cases "is_public cx")
      case True
      moreover have "cx\<lparr>cx_user := None\<rparr> = cx" using assms(3) by simp
      ultimately show ?thesis by (simp add: jwt_guard_def ret_def request_identity_def)
    next
      case False
      with True show ?thesis by (auto simp: jwt_guard_run [OF assms(1,2) False] request_identity_def)
    qed
    from passes [OF this] True show ?thesis by (simp add: rate_admitted_def)
  next
    case False
    then have "\<not> is_public cx" by blast
    with False show ?thesis
      by (auto simp: gateway_guards_def jwt_guard_run [OF assms(1,2)] andThen_def split: option.split)
  qed
qed


subsection \<open>A browser's session\<close>

lemma set_cookie_names: "ck_name ` set (set_cookie c jar) = insert (ck_name c) (ck_name ` set jar)"
  by (induction jar) auto

lemma sent_set_same: "t < ck_expires c \<Longrightarrow> map_of (sent_cookies t (set_cookie c jar)) (ck_name c) = Some (ck_value c)"
  by (induction jar) (auto simp: sent_cookies_def)

lemma sent_set_other: "k \<noteq> ck_name c \<Longrightarrow> map_of (sent_cookies t (set_cookie c jar)) k = map_of (sent_cookies t jar) k"
  by (induction jar) (auto simp: sent_cookies_def)

lemma refresh_not_access: "\<not> starts_with ''accessToken_'' (refresh_cookie d)"
  by (simp add: starts_with_def refresh_cookie_def)

lemma access_starts: "starts_with ''accessToken_'' (access_cookie d)"
  by (simp add: starts_with_def access_cookie_def)

lemma find_only:
  assumes "y \<in> set xs" "P y" "\<And>x. x \<in> set xs \<Longrightarrow> P x \<Longrightarrow> x = y"
  shows "find P xs = Some y"
proof (cases "find P xs")
  case None
  then show ?thesis using assms(1,2) by (auto simp: find_None_iff)
next
  case (Some x)
  then have "x \<in> set xs \<and> P x" by (auto simp: find_Some_iff)
  with Some assms(3) show ?thesis by simp
qed

text \<open>The token the gateway finds among the cookies that a login of a web client has set.\<close>

lemma session_token:
  assumes only: "\<forall>c\<in>set jar. starts_with ''accessToken_'' (ck_name c) \<longrightarrow> ck_name c = access_cookie d"
    and live: "t < s + cookie_ttl (accessTokenTTL pf) 3600000"
    and cx: "cx_authorization cx = None"
      "cx_cookies cx = Some (sent_cookies t (setRefreshToken pf s rt d (setAccessToken pf s tok d jar)))"
  shows "extractTokenFromHeader cx = Some tok"
proof -
  let ?jar = "setRefreshToken pf s rt d (setAccessToken pf s tok d jar)"
  have "access_cookie d \<noteq> refresh_cookie d" by (simp add: access_cookie_def refresh_cookie_def)
  then have m: "map_of (sent_cookies t ?jar) (access_cookie d) = Some tok"
    using live sent_set_same [of t "\<lparr>ck_name = access_cookie d, ck_value = tok,
      ck_expires = s + cookie_ttl (accessTokenTTL pf) 3600000\<rparr>" jar]
    by (simp add: setRefreshToken_def setAccessToken_def sent_set_other)
  have "find (\<lambda>key. starts_with ''accessToken_'' key) (map fst (sent_cookies t ?jar)) = Some (access_cookie d)"
  proof (rule find_only)
    show "access_cookie d \<in> set (map fst (sent_cookies t ?jar))"
      using m by (force dest: map_of_SomeD)
    show "starts_with ''accessToken_'' (access_cookie d)" by (rule access_starts)
    show "key = access_cookie d"
      if "key \<in> set (map fst (sent_cookies t ?jar))" "starts_with ''accessToken_'' key" for key
    proof -
      have "key \<in> ck_name ` set ?jar" using that(1) by (auto simp: sent_cookies_def)
      then show ?thesis
        using only that(2) refresh_not_access
        by (auto simp: setRefreshToken_def setAccessToken_def set_cookie_names)
    qed
  qed
  then show ?thesis using cx m by (simp add: extractTokenFromHeader_def bearer_def)
qed

lemma generate_access_token:
  assumes "generateTokens pf u d ip w = (Inr toks, v)"
  shows "tk_accessToken toks = sign_access pf (access_claims u) (now w)"
  using assms by (auto simp: generateTokens_def freshUuid_def)

lemma find_user_Inr: "find_user p w = (Inr r, v) \<Longrightarrow> r = find p (users w) \<and> users v = users w \<and> now v = now w"
  by (auto simp: find_user_def dbquery_eq split: if_splits)

lemma sign_in_access_token:
  assumes "signIn pf dto ip w = (Inr toks, v)" "find (\<lambda>u. us_email u = si_email dto) (users w) = Some u"
  shows "tk_accessToken toks = sign_access pf (access_claims u) (now w)"
proof -
  obtain found w1 where f: "find_user (\<lambda>u. us_email u = si_email dto) w = (Inr found, w1)"
    using assms(1) by (auto simp: signIn_def)
  have "found = Some u" "now w1 = now w" using find_user_Inr [OF f] assms(2) by simp_all
  with f assms(1) obtain w2 w3 where c: "check_password pf dto ip u w1 = (Inr (), w2)"
    and g: "generateTokens pf u (si_deviceId dto) ip w2 = (Inr toks, w3)"
    by (auto simp: signIn_def)
  have "w2 = w1" using c by (auto simp: check_password_def split: if_splits)
  with generate_access_token [OF g] \<open>now w1 = now w\<close> show ?thesis by simp
qed

lemma tryCatch_rethrow: "tryCatch p (\<lambda>e. throw (f e)) w = (Inr x, v) \<longleftrightarrow> p w = (Inr x, v)"
  by (cases "p w"; cases "fst (p w)") (auto simp: tryCatch_def throw_def)

lemma callService_Inr:
  assumes "callService stringify service m w = (Inr r, v)"
  shows "m (w\<lparr>faults := tl (faults w)\<rparr>) = (Inr r, v)"
proof -
  obtain a w1 where "tryCatch external (\<lambda>e. throw (exn_of (createHttpExceptionFromRpcError stringify
        (th_props (thrown_of e))))) w = (Inr a, w1)"
    and "tryCatch m (\<lambda>e. throw (exn_of (createHttpExceptionFromRpcError stringify
        (js_json (service_filter service (thrown_of e)))))) w1 = (Inr r, v)"
    using assms unfolding callService_def by (auto simp: andThen_def split: prod.splits sum.splits)
  then have "external w = (Inr a, w1)" "m w1 = (Inr r, v)" by (simp_all only: tryCatch_rethrow)
  then show ?thesis by (auto simp: external_def split: if_splits)
qed

lemma web_login:
  assumes "gateway_login stringify pf dto jar w = (Inr (r, jar'), v)" "client_type (si_clientType dto) = WEB"
    and "find (\<lambda>u. us_email u = si_email dto) (users w) = Some u"
  obtains rt where "jar' = setRefreshToken pf (now w) rt (si_deviceId dto)
      (setAccessToken pf (now w) (sign_access pf (access_claims u) (now w)) (si_deviceId dto) jar)"
    and "\<exists>new. users v = users w @ new"
proof -
  obtain toks where call: "callService stringify Auth_service (signIn pf dto None) w = (Inr toks, v)"
    and jar: "jar' = setRefreshToken pf (now v) (tk_refreshToken toks) (si_deviceId dto)
      (setAccessToken pf (now v) (tk_accessToken toks) (si_deviceId dto) jar)"
    using assms(1,2) by (auto simp: gateway_login_def answer_tokens_def)
  note run = callService_Inr [OF call]
  have "grows (w\<lparr>faults := tl (faults w)\<rparr>) v" by (rule staysD [OF grows_signIn run])
  then have v: "now v = now w" "\<exists>new. users v = users w @ new" by (auto simp: grows_def)
  have "tk_accessToken toks = sign_access pf (access_claims u) (now w)"
    using sign_in_access_token [OF run] assms(3) by simp
  with v jar show thesis using that by simp
qed

text \<open>C28. A web client that logged in at the gateway is known, as that user, for as long as its access token lives:
  with the cookies of the login, no access cookie of another device in the browser, and database, broker and
  Redis answering at the time of the request, every later request to a route without roles gets past the token
  and the roles guard, whatever requests the authentication service handled in between and whatever failed
  meanwhile. What is left is the rate limiter: on a route without a limit the request passes and changes
  nothing; on a route with one (those under /auth, five a minute) it passes if the limiter admits the key of that
  user and route, and is otherwise answered with status 429. The laws on tokens are those of a JWT signed for
  the claims: it is not empty and verifies to them until it expires.
\<close>

lemma web_session_admitted:
  assumes "gateway_login stringify pf dto jar w = (Inr (r, jar'), v)"
    and "client_type (si_clientType dto) = WEB"
    and "find (\<lambda>u. us_email u = si_email dto) (users w) = Some u" and "us_isActive u"
    and "\<forall>c\<in>set jar. starts_with ''accessToken_'' (ck_name c) \<longrightarrow> ck_name c = access_cookie (si_deviceId dto)"
    and "run_steps (auth_exec pf) v ops = w'" and "faults w' = []"
    and "now w' < now w + cookie_ttl (accessTokenTTL pf) 3600000"
    and "verify_access pf (sign_access pf (access_claims u) (now w)) (now w') = Some (access_claims u)"
    and "sign_access pf (access_claims u) (now w) \<noteq> ''''"
    and "cx_type cx = Http" "cx_authorization cx = None" "cx_cookies cx = Some (sent_cookies (now w') jar')"
    and "required_roles cx = None" "\<not> is_public cx" and "limiter_ready l cx (Some (profile u))"
  shows "\<exists>l'. gateway_guards pf send_validate cx (w', l) =
      (if rate_admitted l cx (Some (profile u)) then Inr (cx\<lparr>cx_user := Some (profile u)\<rparr>) else Inl tooManyRequests, w', l')
    \<and> (route_limit cx = None \<longrightarrow> rate_admitted l cx (Some (profile u)) \<and> l' = l)"
proof -
  obtain rt where jar: "jar' = setRefreshToken pf (now w) rt (si_deviceId dto)
      (setAccessToken pf (now w) (sign_access pf (access_claims u) (now w)) (si_deviceId dto) jar)"
    and "\<exists>new. users v = users w @ new"
    by (rule web_login [OF assms(1-3)])
  then obtain new where users: "users w' = users w @ new"
    using auth_run_users [of pf v ops] assms(6) by auto
  have token: "extractTokenFromHeader cx = Some (sign_access pf (access_claims u) (now w))"
    using session_token [OF assms(5,8,12)] assms(13) jar by simp
  have "find (\<lambda>x. us_id x = us_id u \<and> us_email x = us_email u) (users w) = Some u"
    using assms(3) by (auto simp: find_Some_iff)
  then have "find (\<lambda>x. us_id x = us_id u \<and> us_email x = us_email u) (users w') = Some u"
    unfolding users by (rule find_append_Some)
  then have "token_user pf w' (sign_access pf (access_claims u) (now w)) = Some (profile u)"
    using assms(4,9) by (simp add: token_user_def access_claims_def)
  then have "jwt_guard pf send_validate cx w' = (Inr (True, cx\<lparr>cx_user := Some (profile u)\<rparr>), w')"
    using token assms(10) by (simp add: jwt_guard_run [OF assms(7,11,15)])
  then show ?thesis
  proof (rule guards_after_jwt [of pf send_validate cx w' _ l])
    fix l'
    assume "gateway_guards pf send_validate cx (w', l) = (if rate_admitted l (cx\<lparr>cx_user := Some (profile u)\<rparr>)
          (cx_user (cx\<lparr>cx_user := Some (profile u)\<rparr>)) then Inr (cx\<lparr>cx_user := Some (profile u)\<rparr>) else Inl tooManyRequests, w', l')"
      and "skip_limit (cx\<lparr>cx_user := Some (profile u)\<rparr>) \<or> route_limit (cx\<lparr>cx_user := Some (profile u)\<rparr>) = None \<Longrightarrow> l' = l"
    moreover have "route_limit cx = None \<Longrightarrow> rate_admitted l cx (Some (profile u))" by (simp add: rate_admitted_def)
    ultimately show ?thesis by (intro exI [of _ l']) simp
  qed (use assms(14,16) in \<open>auto simp: profile_def\<close>)
qed


subsection \<open>Concrete requests\<close>

definition demo_http :: http_request where
  "demo_http = \<lparr>rq_userId = None, rq_apiKey = None, rq_forwardedFor = None, rq_realIp = None, rq_ip = Some ''10.0.0.1'',
     rq_remoteAddress = None, rq_method = ''GET'', rq_routePath = Some ''/api/v1/auth/me'', rq_url = ''/api/v1/auth/me''\<rparr>"

definition demo_context :: "(string \<times> string) list \<Rightarrow> exec_context" where
  "demo_context cookies = \<lparr>cx_type = Http, cx_publicHandler = None, cx_publicClass = None, cx_rolesHandler = None,
     cx_rolesClass = None, cx_authHandler = None, cx_authClass = None, cx_skipHandler = None, cx_skipClass = None,
     cx_limitHandler = None, cx_limitClass = None, cx_request = demo_http, cx_authorization = None,
     cx_cookies = Some cookies, cx_deviceHeader = None, cx_bodyDeviceId = None, cx_queryDeviceId = None,
     cx_token = None, cx_accessToken = None, cx_user = None\<rparr>"

definition demo_admin :: exec_context where
  "demo_admin = demo_context [(''accessToken_d1'', ''access'')]\<lparr>cx_rolesHandler := Some [ADMIN]\<rparr>"

definition demo_me :: "(string \<times> string) list \<Rightarrow> exec_context" where
  "demo_me cookies = demo_context cookies\<lparr>cx_limitClass := Some auth_limit\<rparr>"

definition demo_limiter :: rl_world where
  "demo_limiter = rl_demo (\<lambda>_. ''0.2'')"

lemma demo_limiter_ready: "limiter_ready demo_limiter (demo_me cookies) user"
proof -
  have "generateKey (limited_request (demo_me cookies) user) =
      (case user of None \<Rightarrow> ''ip:10.0.0.1'' | Some u \<Rightarrow>
         if ru_id u = 0 then ''ip:10.0.0.1'' else ''user:'' @ show_int (ru_id u)) @ '':GET:/api/v1/auth/me''"
    by (simp add: generateKey_def limited_request_def demo_me_def demo_context_def demo_http_def extractIp_def
        or_opt_def or_str_def split: option.split)
  then have "plain_key (generateKey (limited_request (demo_me cookies) user))"
    by (simp add: plain_key_def split: option.split)
  then show ?thesis
    by (simp add: limiter_ready_def demo_me_def demo_context_def getAllAndOverride_def demo_limiter_def rl_demo_def
        limiter_typed_def redis_get_def Let_def finalConfig_def blockSeconds_def auth_limit_def or_int_def)
qed

lemma demo_limiter_admits: "rate_admitted demo_limiter (demo_me cookies) user"
  by (simp add: rate_admitted_def demo_me_def demo_context_def getAllAndOverride_def demo_limiter_def rl_demo_def
      limiter_admits_def redis_get_def Let_def finalConfig_def auth_limit_def)

text \<open>A request for the own profile, whose route is limited.\<close>

lemma gateway_admission_exact_witness:
  "\<exists>cx' v. gateway_guards demo_platform send_validate (demo_me [(''accessToken_d1'', ''access'')])
     (demo_registered, demo_limiter) = (Inr cx', v)"
proof -
  let ?cx = "demo_me [(''accessToken_d1'', ''access'')]"
  have "required_roles ?cx = None" by code_simp
  moreover have "faults demo_registered = []" by code_simp
  moreover have "cx_type ?cx = Http" "cx_user ?cx = None" by code_simp+
  moreover have "truthy (extractTokenFromHeader ?cx)" by code_simp
  moreover have "token_user demo_platform demo_registered (the (extractTokenFromHeader ?cx)) \<noteq> None" by code_simp
  ultimately show ?thesis
    using gateway_admission_exact [of demo_registered ?cx demo_limiter demo_platform] demo_limiter_ready
      demo_limiter_admits [unfolded rate_admitted_def]
    by blast
qed

definition demo_jar :: "cookie list" where
  "demo_jar = snd (projr (fst (gateway_login (\<lambda>x. '''') demo_platform demo_sign_in [] demo_registered)))"

definition demo_logged_in :: auth_world where
  "demo_logged_in = snd (gateway_login (\<lambda>x. '''') demo_platform demo_sign_in [] demo_registered)"

definition demo_user :: User where
  "demo_user = hd (users demo_registered)"

lemma web_session_admitted_witness:
  "\<exists>l'. gateway_guards demo_platform send_validate (demo_me (sent_cookies 1000 demo_jar))
     (run_steps (auth_exec demo_platform) demo_logged_in [AuthTick 1000 []], demo_limiter) =
   (Inr (demo_me (sent_cookies 1000 demo_jar)\<lparr>cx_user := Some (profile demo_user)\<rparr>),
    run_steps (auth_exec demo_platform) demo_logged_in [AuthTick 1000 []], l')"
proof -
  have "\<not> isl (fst (gateway_login (\<lambda>x. '''') demo_platform demo_sign_in [] demo_registered))" by code_simp
  then obtain r where login: "gateway_login (\<lambda>x. '''') demo_platform demo_sign_in [] demo_registered =
      (Inr (r, demo_jar), demo_logged_in)"
    unfolding demo_jar_def demo_logged_in_def by (metis prod.collapse sum.collapse(2))
  let ?w = "run_steps (auth_exec demo_platform) demo_logged_in [AuthTick 1000 []]"
  have now: "now ?w = 1000" by code_simp
  let ?cx = "demo_me (sent_cookies 1000 demo_jar)"
  have c: "cx_cookies (demo_me (sent_cookies 1000 demo_jar)) = Some (sent_cookies (now ?w) demo_jar)"
    unfolding now by (simp add: demo_me_def demo_context_def)
  have "\<exists>l'. gateway_guards demo_platform send_validate ?cx (?w, demo_limiter) =
      (if rate_admitted demo_limiter ?cx (Some (profile demo_user)) then Inr (?cx\<lparr>cx_user := Some (profile demo_user)\<rparr>)
       else Inl tooManyRequests, ?w, l')
    \<and> (route_limit ?cx = None \<longrightarrow> rate_admitted demo_limiter ?cx (Some (profile demo_user)) \<and> l' = demo_limiter)"
  proof (rule web_session_admitted [OF login _ _ _ _ refl])
    show "client_type (si_clientType demo_sign_in) = WEB" by code_simp
    show "find (\<lambda>u. us_email u = si_email demo_sign_in) (users demo_registered) = Some demo_user" by code_simp
    show "us_isActive demo_user" by code_simp
    show "\<forall>c\<in>set []. starts_with ''accessToken_'' (ck_name c) \<longrightarrow> ck_name c = access_cookie (si_deviceId demo_sign_in)"
      by simp
    show "faults ?w = []" by code_simp
    show "now ?w < now demo_registered + cookie_ttl (accessTokenTTL demo_platform) 3600000" by code_simp
    show "verify_access demo_platform (sign_access demo_platform (access_claims demo_user) (now demo_registered)) (now ?w) =
        Some (access_claims demo_user)" by code_simp
    show "sign_access demo_platform (access_claims demo_user) (now demo_registered) \<noteq> ''''" by code_simp
    show "cx_cookies ?cx = Some (sent_cookies (now ?w) demo_jar)" by (rule c)
    show "limiter_ready demo_limiter ?cx (Some (profile demo_user))" by (rule demo_limiter_ready)
  qed (simp_all add: demo_me_def demo_context_def getAllAndOverride_def)
  then show ?thesis using demo_limiter_admits by auto
qed

end
