(* ===== verification/Interceptors.thy ===== *)
theory Interceptors
  imports JsValue
begin

text \<open>
  The interceptors and the middleware of libs/common/src: what the logging interceptor writes and hides,
  how responses are wrapped, the correlation ids of a request and the metrics of a handler.
\<close>

subsection \<open>What is hidden from the log\<close>

definition SENSITIVE_HEADERS :: "string list" where
  "SENSITIVE_HEADERS = [''authorization'', ''cookie'', ''set-cookie'', ''x-api-key'', ''x-auth-token'', ''x-session-token'',
     ''proxy-authorization'']"

definition SENSITIVE_BODY_FIELDS :: "string list" where
  "SENSITIVE_BODY_FIELDS = [''password'', ''token'', ''secret'', ''apiKey'', ''refreshToken'', ''accessToken'', ''authorization'']"

definition masked :: js where
  "masked = JStr ''***''"

definition sensitive :: "string \<Rightarrow> bool" where
  "sensitive k \<longleftrightarrow> k \<in> set SENSITIVE_BODY_FIELDS"

text \<open>\<open>sanitizeBody(body, depth)\<close>; a value that is no object is returned as it is.\<close>

primrec sanitizeBody :: "nat \<Rightarrow> js \<Rightarrow> js" where
  "sanitizeBody 0 body =
     (case body of
        JObj ps \<Rightarrow> JObj (map (\<lambda>(k, v). (k, if sensitive k then masked else v)) ps)
      | _ \<Rightarrow> body)"
| "sanitizeBody (Suc d) body =
     (case body of
        JObj ps \<Rightarrow> JObj (map (\<lambda>(k, v). (k, if sensitive k then masked else sanitizeBody d v)) ps)
      | JArr xs \<Rightarrow> JArr (map (sanitizeBody d) xs)
      | _ \<Rightarrow> body)"

definition sanitizeHeaders :: "(string \<times> js) list \<Rightarrow> (string \<times> js) list" where
  "sanitizeHeaders = map (\<lambda>(k, v). (k, if to_lower k \<in> set SENSITIVE_HEADERS then JStr ''[REDACTED]'' else v))"

subsection \<open>Personal data in paths\<close>

text \<open>
  \<open>replace(pattern, replacement)\<close> with a global pattern: from left to right, without overlaps. The matcher
  gives the length of the match at the start of a string, if there is one.
\<close>

function replace_all :: "(string \<Rightarrow> nat option) \<Rightarrow> string \<Rightarrow> string \<Rightarrow> string" where
  "replace_all match r [] = []"
| "replace_all match r (c # cs) =
     (case match (c # cs) of
        None \<Rightarrow> c # replace_all match r cs
      | Some n \<Rightarrow> if n = 0 then c # replace_all match r cs else r @ replace_all match r (drop n (c # cs)))"
  by pat_completeness auto

termination by (relation "measure (\<lambda>(_, _, s). length s)") auto

definition is_alpha :: "char \<Rightarrow> bool" where
  "is_alpha c \<longleftrightarrow> is_upper c \<or> is_upper (upper_char c)"

definition local_char :: "char \<Rightarrow> bool" where
  "local_char c \<longleftrightarrow> is_alpha c \<or> is_digit c \<or> c \<in> set ''._%+-''"

definition domain_char :: "char \<Rightarrow> bool" where
  "domain_char c \<longleftrightarrow> is_alpha c \<or> is_digit c \<or> c \<in> set ''.-''"

text \<open>
  The greedy domain: the last point with something before it and two letters or more behind it ends
  the host, then all letters that follow.
\<close>

definition domain_ends :: "string \<Rightarrow> nat list" where
  "domain_ends s =
     (let n = length (takeWhile domain_char s)
      in filter (\<lambda>i. 1 \<le> i \<and> s ! i = CHR ''.'' \<and> 2 \<le> length (takeWhile is_alpha (drop (Suc i) s))) [0..<n])"

definition email_match :: "string \<Rightarrow> nat option" where
  "email_match s =
     (let user = takeWhile local_char s; rest = dropWhile local_char s
      in if user = [] \<or> rest = [] \<or> hd rest \<noteq> CHR ''@'' then None
         else let ends = domain_ends (tl rest)
              in if ends = [] then None
                 else Some (length user + 1 + Suc (last ends) +
                        length (takeWhile is_alpha (drop (Suc (last ends)) (tl rest)))))"

definition token_char :: "char \<Rightarrow> bool" where
  "token_char c \<longleftrightarrow> is_alpha c \<or> is_digit c \<or> c = CHR ''-'' \<or> c = CHR ''_''"

definition jwt_match :: "string \<Rightarrow> nat option" where
  "jwt_match s =
     (if take 3 s \<noteq> ''eyJ'' then None
      else let a = takeWhile token_char (drop 3 s); r = dropWhile token_char (drop 3 s)
           in if a = [] \<or> r = [] \<or> hd r \<noteq> CHR ''.'' then None
              else let b = takeWhile token_char (tl r); r' = dropWhile token_char (tl r)
                   in if b = [] \<or> r' = [] \<or> hd r' \<noteq> CHR ''.'' then None
                      else Some (3 + length a + 1 + length b + 1 + length (takeWhile token_char (tl r'))))"

definition sanitizeUrl :: "string \<Rightarrow> string" where
  "sanitizeUrl url = replace_all jwt_match ''[jwt]'' (replace_all email_match ''[email]'' url)"

subsection \<open>The log\<close>

datatype log_level = LogInfo | LogWarn | LogError

definition SUPPRESSED_PATHS :: "string list" where
  "SUPPRESSED_PATHS = [''/health'', ''/healthz'', ''/readyz'', ''/livez'', ''/metrics'', ''/favicon.ico'']"

definition SLOW_REQUEST_THRESHOLD_MS :: int where
  "SLOW_REQUEST_THRESHOLD_MS = 3000"

definition MAX_BODY_LOG_CHARS :: nat where
  "MAX_BODY_LOG_CHARS = 2048"

definition truncate :: "string \<Rightarrow> string" where
  "truncate s =
     (if length s \<le> MAX_BODY_LOG_CHARS then s
      else take MAX_BODY_LOG_CHARS s @ ''...[truncated '' @ show_nat (length s - MAX_BODY_LOG_CHARS) @ '' chars]'')"

text \<open>\<open>stringify\<close> is \<open>safeStringify\<close>: \<open>JSON.stringify\<close>, which gives \<open>undefined\<close> for \<open>undefined\<close>.\<close>

definition stringifyBody :: "(js \<Rightarrow> string option) \<Rightarrow> js \<Rightarrow> string option" where
  "stringifyBody stringify body =
     (if body = JUndef \<or> body = JNull then None
      else case stringify (sanitizeBody 4 body) of
             None \<Rightarrow> None
           | Some s \<Rightarrow> if s = '''' then None else Some (truncate s))"

definition extract_ip :: "(string \<times> string) list \<Rightarrow> string option \<Rightarrow> string option \<Rightarrow> string" where
  "extract_ip headers remoteAddress ip =
     (case map_of headers ''x-forwarded-for'' of
        Some f \<Rightarrow> trim (hd (split_on CHR '','' f))
      | None \<Rightarrow>
          (case map_of headers ''x-real-ip'' of
             Some x \<Rightarrow> x
           | None \<Rightarrow> (case remoteAddress of Some a \<Rightarrow> a | None \<Rightarrow> (case ip of Some i \<Rightarrow> i | None \<Rightarrow> ''unknown''))))"

definition shouldLogBody :: "string \<Rightarrow> bool" where
  "shouldLogBody m \<longleftrightarrow> to_upper m \<in> set [''POST'', ''PUT'', ''PATCH'']"

text \<open>What a handler is called with, as far as the interceptor reads it.\<close>

record log_context =
  lx_http :: bool
  lx_dev :: bool
  lx_method :: string
  lx_url :: string
  lx_headers :: "(string \<times> string) list"
  lx_body :: js
  lx_remoteAddress :: "string option"
  lx_ip :: "string option"
  lx_requestCorrelationId :: "string option"
  lx_requestTraceId :: "string option"
  lx_handlerName :: string
  lx_freshId :: string

definition log_url :: "log_context \<Rightarrow> string" where
  "log_url x = (if lx_http x then sanitizeUrl (lx_url x) else lx_handlerName x)"

definition log_method :: "log_context \<Rightarrow> string" where
  "log_method x = (if lx_http x then lx_method x else ''RPC'')"

text \<open>A message carries its id in the property \<open>correlationId\<close> of its data.\<close>

definition log_correlationId :: "log_context \<Rightarrow> string" where
  "log_correlationId x =
     (if lx_http x then or_str (map_of (lx_headers x) ''x-correlation-id'') (or_str (lx_requestCorrelationId x) (lx_freshId x))
      else case js_get (lx_body x) ''correlationId'' of JStr s \<Rightarrow> or_str (Some s) (lx_freshId x) | _ \<Rightarrow> lx_freshId x)"

definition log_traceId :: "log_context \<Rightarrow> string" where
  "log_traceId x =
     (if lx_http x then or_str (map_of (lx_headers x) ''x-trace-id'')
        (or_str (map_of (lx_headers x) ''x-b3-traceid'') (or_str (lx_requestTraceId x) (log_correlationId x)))
      else lx_freshId x)"

definition suppressed :: "log_context \<Rightarrow> bool" where
  "suppressed x \<longleftrightarrow> lx_http x \<and> log_url x \<in> set SUPPRESSED_PATHS"

record log_entry =
  le_level :: log_level
  le_event :: string
  le_message :: string
  le_headers :: "(string \<times> js) list option"
  le_body :: "string option"
  le_alert :: bool

definition incoming_log :: "(js \<Rightarrow> string option) \<Rightarrow> log_context \<Rightarrow> log_entry option" where
  "incoming_log stringify x =
     (if suppressed x then None
      else Some \<lparr>le_level = LogInfo, le_event = (if lx_http x then ''http_request'' else ''message_received''),
        le_message = ''['' @ log_correlationId x @ ''] Incoming '' @ (if lx_http x then ''Request'' else ''Message'') @ '': '' @
          log_method x @ '' '' @ log_url x,
        le_headers = (if lx_http x \<and> lx_dev x then Some (sanitizeHeaders (map (\<lambda>(k, v). (k, JStr v)) (lx_headers x))) else None),
        le_body = (if lx_http x \<and> shouldLogBody (log_method x) then stringifyBody stringify (lx_body x)
                   else stringifyBody stringify (if lx_dev x then sanitizeBody 4 (lx_body x) else lx_body x)),
        le_alert = False\<rparr>)"

definition response_log :: "log_context \<Rightarrow> int \<Rightarrow> int \<Rightarrow> log_entry option" where
  "response_log x status duration =
     (let isSlow = SLOW_REQUEST_THRESHOLD_MS < duration
      in if suppressed x then None
         else Some \<lparr>le_level = (if lx_http x \<and> 500 \<le> status then LogError
                              else if lx_http x \<and> (400 \<le> status \<or> isSlow) then LogWarn else LogInfo),
           le_event = (if lx_http x then ''http_response'' else ''message_processed''),
           le_message = ''['' @ log_correlationId x @ ''] '' @ log_method x @ '' '' @ log_url x @ '' - '' @
             (if lx_http x then show_int status else ''OK'') @ '' ('' @ show_int duration @ ''ms)'',
           le_headers = None, le_body = None, le_alert = (lx_http x \<and> isSlow)\<rparr>)"

definition error_log :: "log_context \<Rightarrow> exn \<Rightarrow> int \<Rightarrow> log_entry" where
  "error_log x e duration =
     (let status = (case e of HttpExn st m c \<Rightarrow> st | JsError m \<Rightarrow> 500 | RpcError m \<Rightarrow> 500)
      in \<lparr>le_level = (if 500 \<le> status then LogError else LogWarn), le_event = ''error'',
          le_message = ''['' @ log_correlationId x @ ''] '' @ log_method x @ '' '' @ log_url x @ '' - '' @ show_int status @
            '' ('' @ show_int duration @ ''ms) - '' @ exn_message e,
          le_headers = None, le_body = None, le_alert = False\<rparr>)"

text \<open>The log of one handled call: the handler's result passes through, an exception is thrown again.\<close>

definition logged ::
  "(js \<Rightarrow> string option) \<Rightarrow> log_context \<Rightarrow> int \<Rightarrow> int \<Rightarrow> exn + 'a \<Rightarrow> (exn + 'a) \<times> log_entry list" where
  "logged stringify x status duration result =
     (let first = (case incoming_log stringify x of None \<Rightarrow> [] | Some e \<Rightarrow> [e])
      in case result of
           Inl e \<Rightarrow> (Inl e, first @ [error_log x e duration])
         | Inr r \<Rightarrow> (Inr r, first @ (case response_log x status duration of None \<Rightarrow> [] | Some l \<Rightarrow> [l])))"


subsection \<open>Exactly what is hidden\<close>

text \<open>A path into a value: the keys of objects and the indices of arrays.\<close>

datatype step = Key string | Idx nat

fun js_at :: "step list \<Rightarrow> js \<Rightarrow> js option" where
  "js_at [] x = Some x"
| "js_at (Key k # p) (JObj ps) = (case map_of ps k of None \<Rightarrow> None | Some v \<Rightarrow> js_at p v)"
| "js_at (Idx i # p) (JArr xs) = (if i < length xs then js_at p (xs ! i) else None)"
| "js_at _ _ = None"

fun hidden_step :: "step \<Rightarrow> bool" where
  "hidden_step (Key k) = sensitive k"
| "hidden_step (Idx i) = False"

lemma map_of_keyed: "map_of (map (\<lambda>(k, v). (k, f k v)) ps) k = map_option (f k) (map_of ps k)"
  by (induction ps) auto

definition seen_at :: "nat \<Rightarrow> step list \<Rightarrow> js \<Rightarrow> js \<Rightarrow> bool" where
  "seen_at n p v clean \<longleftrightarrow>
     (if \<exists>s\<in>set (take n p). hidden_step s
      then \<exists>i<n. i < length p \<and> hidden_step (p ! i) \<and> js_at (take (Suc i) p) clean = Some masked
      else js_at p clean = Some v)"

lemma seen_here: "0 < n \<Longrightarrow> hidden_step s \<Longrightarrow> js_at [s] clean = Some masked \<Longrightarrow> seen_at n (s # p) v clean"
  by (cases n) (auto simp: seen_at_def intro!: exI [of _ 0])

lemma seen_below:
  assumes "\<not> hidden_step s" "\<And>q. js_at (s # q) clean = js_at q inner" "seen_at n p v inner"
  shows "seen_at (Suc n) (s # p) v clean"
proof (cases "\<exists>t\<in>set (take n p). hidden_step t")
  case True
  with assms(3) obtain i where "i < n" "i < length p" "hidden_step (p ! i)" "js_at (take (Suc i) p) inner = Some masked"
    by (auto simp: seen_at_def)
  then have "Suc i < Suc n \<and> Suc i < length (s # p) \<and> hidden_step ((s # p) ! Suc i) \<and>
      js_at (take (Suc (Suc i)) (s # p)) clean = Some masked"
    using assms(2) by simp
  with True show ?thesis unfolding seen_at_def by auto
next
  case False
  with assms show ?thesis by (auto simp: seen_at_def)
qed

lemma sanitize_seen:
  assumes "js_at p body = Some v" "\<not> is_obj v"
  shows "seen_at (Suc d) p v (sanitizeBody d body)"
  using assms(1)
proof (induction d arbitrary: p body)
  case 0
  show ?case
  proof (cases p)
    case Nil
    with 0 assms(2) show ?thesis by (cases body) (auto simp: seen_at_def)
  next
    case (Cons s q)
    show ?thesis
    proof (cases s)
      case (Key k)
      with 0 Cons obtain ps u where b: "body = JObj ps" "map_of ps k = Some u" "js_at q u = Some v"
        by (cases body) (auto split: option.splits)
      show ?thesis
      proof (cases "sensitive k")
        case True
        then show ?thesis using Cons Key b by (auto intro!: seen_here simp: map_of_keyed)
      next
        case False
        then show ?thesis using Cons Key b by (auto simp: seen_at_def map_of_keyed)
      qed
    next
      case (Idx i)
      with 0 Cons show ?thesis by (cases body) (auto simp: seen_at_def split: if_splits)
    qed
  qed
next
  case (Suc d)
  show ?case
  proof (cases p)
    case Nil
    with Suc.prems assms(2) show ?thesis by (cases body) (auto simp: seen_at_def)
  next
    case (Cons s q)
    show ?thesis
    proof (cases s)
      case (Key k)
      with Suc.prems Cons obtain ps u where b: "body = JObj ps" "map_of ps k = Some u" "js_at q u = Some v"
        by (cases body) (auto split: option.splits)
      show ?thesis
      proof (cases "sensitive k")
        case True
        then show ?thesis using Cons Key b by (auto intro!: seen_here simp: map_of_keyed)
      next
        case False
        then have "js_at (s # r) (sanitizeBody (Suc d) body) = js_at r (sanitizeBody d u)" for r
          using Key b by (simp add: map_of_keyed)
        with Suc.IH [OF b(3)] False Key show ?thesis unfolding Cons by (intro seen_below) auto
      qed
    next
      case (Idx i)
      with Suc.prems Cons obtain xs where b: "body = JArr xs" "i < length xs" "js_at q (xs ! i) = Some v"
        by (cases body) (auto split: if_splits)
      then have "js_at (s # r) (sanitizeBody (Suc d) body) = js_at r (sanitizeBody d (xs ! i))" for r
        using Idx by simp
      with Suc.IH [OF b(3)] Idx show ?thesis unfolding Cons by (intro seen_below) auto
    qed
  qed
qed

text \<open>C33. What the log hides of a body: a value is masked, itself or inside a masked object, exactly when one
  of the first five steps of the path to it is a sensitive field (password, token, secret and the like), at
  any nesting of objects and arrays; every other value is logged unchanged, so a password below five levels
  appears in the log.\<close>

lemma sanitize_exact:
  assumes "js_at p body = Some v" and "\<not> is_obj v"
  shows "if \<exists>s\<in>set (take 5 p). hidden_step s
    then \<exists>i<5. i < length p \<and> hidden_step (p ! i) \<and> js_at (take (Suc i) p) (sanitizeBody 4 body) = Some (JStr ''***'')
    else js_at p (sanitizeBody 4 body) = Some v"
proof -
  have "seen_at 5 p v (sanitizeBody 4 body)" using sanitize_seen [OF assms, of 4] by simp
  then show ?thesis unfolding seen_at_def masked_def .
qed

lemma sanitize_exact_witness:
  "js_at [Key ''user'', Key ''password''] (sanitizeBody 4 (JObj [(''user'', JObj [(''password'', JStr ''s'')])])) \<noteq> Some (JStr ''s'') \<and>
   js_at [Idx 0, Idx 0, Idx 0, Idx 0, Idx 0, Key ''password'']
     (sanitizeBody 4 (JArr [JArr [JArr [JArr [JArr [JObj [(''password'', JStr ''s'')]]]]]])) = Some (JStr ''s'')"
proof -
  have "js_at [Idx 0, Idx 0, Idx 0, Idx 0, Idx 0, Key ''password'']
     (sanitizeBody 4 (JArr [JArr [JArr [JArr [JArr [JObj [(''password'', JStr ''s'')]]]]]])) = Some (JStr ''s'')"
    using sanitize_exact [of "[Idx 0, Idx 0, Idx 0, Idx 0, Idx 0, Key ''password'']"
        "JArr [JArr [JArr [JArr [JArr [JObj [(''password'', JStr ''s'')]]]]]]" "JStr ''s''"] by simp
  moreover have "js_at [Key ''user'', Key ''password''] (sanitizeBody 4 (JObj [(''user'', JObj [(''password'', JStr ''s'')])])) = Some masked"
    by code_simp
  ultimately show ?thesis by (simp add: masked_def)
qed

subsection \<open>Wrapping responses\<close>

definition isApiResponse :: "js \<Rightarrow> bool" where
  "isApiResponse x \<longleftrightarrow> is_obj x \<and> js_has ''success'' x \<and> js_has ''statusCode'' x \<and> js_has ''data'' x \<and> js_has ''timestamp'' x"

definition hasMetaProperty :: "js \<Rightarrow> bool" where
  "hasMetaProperty x \<longleftrightarrow> is_obj x \<and> js_has ''meta'' x \<and> typeof_object (js_get x ''meta'')"

text \<open>The decorator's metadata: a boolean, or options whose \<open>skipWrap\<close> may be missing.\<close>

datatype wrap_metadata = WrapBool bool | WrapOptions "bool option"

definition shouldSkipWrapping :: "wrap_metadata option \<Rightarrow> bool" where
  "shouldSkipWrapping m =
     (case m of None \<Rightarrow> False | Some (WrapBool b) \<Rightarrow> b
      | Some (WrapOptions skip) \<Rightarrow> (case skip of None \<Rightarrow> True | Some b \<Rightarrow> b))"

definition getStatusMessage :: "int \<Rightarrow> string" where
  "getStatusMessage st =
     (if 200 \<le> st \<and> st < 300 then ''Request successful'' else if 300 \<le> st \<and> st < 400 then ''Redirection''
      else if st = 400 then ''Bad request'' else if st = 401 then ''Unauthorized'' else if st = 403 then ''Forbidden''
      else if st = 404 then ''Not found'' else if 400 \<le> st \<and> st < 500 then ''Client error''
      else if st = 500 then ''Internal server error'' else if 500 \<le> st then ''Server error'' else ''Unknown status'')"

definition api_fields :: "int \<Rightarrow> string \<Rightarrow> js \<Rightarrow> string \<Rightarrow> string \<Rightarrow> string \<Rightarrow> js \<Rightarrow> js" where
  "api_fields st message payload timestamp correlationId version meta =
     JObj ([(''success'', JBool (200 \<le> st \<and> st < 300)), (''statusCode'', JNum st), (''message'', JStr message),
        (''data'', payload), (''timestamp'', JStr timestamp), (''correlationId'', JStr correlationId),
        (''version'', JStr version)] @ (if js_truthy meta then [(''meta'', meta)] else []))"

text \<open>\<open>const { meta, ...rest } = data\<close>; of an array the rest is an object with the indices as keys.\<close>

fun without_meta :: "js \<Rightarrow> js" where
  "without_meta (JObj ps) = JObj (filter (\<lambda>(k, v). k \<noteq> ''meta'') ps)"
| "without_meta x = x"

definition wrapResponse :: "js \<Rightarrow> int \<Rightarrow> string \<Rightarrow> string \<Rightarrow> string \<Rightarrow> js" where
  "wrapResponse data st timestamp correlationId apiVersion =
     (if hasMetaProperty data
      then api_fields st (getStatusMessage st) (without_meta data) timestamp correlationId apiVersion (js_get data ''meta'')
      else api_fields st (getStatusMessage st) data timestamp correlationId apiVersion JUndef)"

definition wrap_intercept :: "wrap_metadata option \<Rightarrow> bool \<Rightarrow> int \<Rightarrow> string \<Rightarrow> string \<Rightarrow> string \<Rightarrow> js \<Rightarrow> js" where
  "wrap_intercept metadata enableWrap st timestamp correlationId apiVersion data =
     (if shouldSkipWrapping metadata \<or> \<not> enableWrap \<or> isApiResponse data then data
      else wrapResponse data st timestamp correlationId apiVersion)"

text \<open>\<open>createApiResponse\<close> with its defaults for missing options.\<close>

definition createApiResponse ::
  "js \<Rightarrow> int option \<Rightarrow> string option \<Rightarrow> string option \<Rightarrow> string option \<Rightarrow> js \<Rightarrow> string \<Rightarrow> string \<Rightarrow> js" where
  "createApiResponse data statusCode message correlationId version meta timestamp freshId =
     api_fields (case statusCode of None \<Rightarrow> 200 | Some st \<Rightarrow> st)
       (case message of None \<Rightarrow> ''Request successful'' | Some m \<Rightarrow> m) data timestamp
       (case correlationId of None \<Rightarrow> freshId | Some c \<Rightarrow> c) (case version of None \<Rightarrow> ''1.0'' | Some v \<Rightarrow> v) meta"

lemma wrapped_is_response: "isApiResponse (wrapResponse x st t c v)"
  by (simp add: wrapResponse_def api_fields_def isApiResponse_def js_has_def)

text \<open>Wrapping is idempotent: a response that passes the interceptor again stays as it is.\<close>

lemma wrap_idempotent:
  "wrap_intercept m b st t c v (wrap_intercept m b st' t' c' v' x) = wrap_intercept m b st' t' c' v' x"
  using wrapped_is_response by (auto simp: wrap_intercept_def)

subsection \<open>Correlation ids and metrics\<close>

text \<open>
  The middleware: the ids it puts on the request and into the response, from the headers of the request;
  the second part of \<open>traceparent\<close> is the trace id.
\<close>

definition second_part :: "string \<Rightarrow> string option" where
  "second_part s = (case split_on CHR ''-'' s of a # b # rest \<Rightarrow> Some b | _ \<Rightarrow> None)"

definition correlation_ids :: "(string \<times> string) list \<Rightarrow> string \<Rightarrow> string \<times> string" where
  "correlation_ids headers freshId =
     (let correlationId =
        (case map_of headers ''x-correlation-id'' of Some c \<Rightarrow> c
         | None \<Rightarrow> (case map_of headers ''x-request-id'' of Some c \<Rightarrow> c | None \<Rightarrow> freshId));
        traceId =
        (case map_of headers ''x-b3-traceid'' of Some c \<Rightarrow> c
         | None \<Rightarrow> (case map_option second_part (map_of headers ''traceparent'') of Some (Some c) \<Rightarrow> c | _ \<Rightarrow> correlationId))
      in (correlationId, traceId))"

definition correlation_use ::
  "(string \<times> string) list \<Rightarrow> string \<Rightarrow> (string \<times> string) list \<times> (string \<times> string) list" where
  "correlation_use headers freshId =
     (let (correlationId, traceId) = correlation_ids headers freshId
      in ((''x-correlation-id'', correlationId) # filter (\<lambda>(k, v). k \<noteq> ''x-correlation-id'') headers,
          [(''x-correlation-id'', correlationId), (''x-trace-id'', traceId)]))"

text \<open>A metric: its name, the duration of a timing, and its tags.\<close>

type_synonym metric = "string \<times> int option \<times> (string \<times> string) list"

definition metrics_of :: "string option \<Rightarrow> string \<Rightarrow> int \<Rightarrow> string option \<Rightarrow> metric list" where
  "metrics_of operationName verb duration errorName =
     (if \<not> truthy operationName then []
      else let api = ''api.'' @ the operationName
           in case errorName of
                None \<Rightarrow> [(api @ ''.duration'', Some duration, [(''method'', verb), (''status'', ''success'')]),
                         (api @ ''.success'', None, [(''method'', verb)])]
              | Some e \<Rightarrow> [(api @ ''.duration'', Some duration, [(''method'', verb), (''status'', ''error'')]),
                           (api @ ''.error'', None, [(''method'', verb), (''error'', e)])])"

text \<open>A request that went through the middleware is logged under the id that the client gets back.\<close>

lemma logged_under_response_id:
  assumes "correlation_use headers freshId = (headers', response)" "lx_http x" "lx_headers x = headers'"
    and "\<forall>k v. map_of headers k = Some v \<longrightarrow> v \<noteq> ''''" "freshId \<noteq> ''''"
  shows "map_of response ''x-correlation-id'' = Some (log_correlationId x)"
proof -
  have "fst (correlation_ids headers freshId) \<noteq> ''''"
    using assms(4,5) by (auto simp: correlation_ids_def Let_def split: option.split)
  moreover have "map_of (lx_headers x) ''x-correlation-id'' = Some (fst (correlation_ids headers freshId))"
    unfolding assms(3) using assms(1) by (auto simp: correlation_use_def split: prod.splits)
  ultimately show ?thesis
    using assms(1,2) by (auto simp: correlation_use_def log_correlationId_def split: prod.splits)
qed

end
