(* ===== verification/MessageRetry.thy ===== *)
theory MessageRetry
  imports Prelude
begin

text \<open>
  How messages are acknowledged, retried and given up (libs/common/src/utils/rmq.helper.ts and
  rmq/rmq.module.ts, libs/message-broker). A rejected message is dead-lettered by the broker: the main
  queue sends it to the retry queue, where it expires after a delay and returns to the main queue; each
  time the broker counts it in the header \<open>x-death\<close>, the latest event first.
\<close>

subsection \<open>The queues of a service\<close>

record queue_args =
  qa_name :: string
  qa_deadLetterExchange :: "string option"
  qa_deadLetterRoutingKey :: "string option"
  qa_messageTtl :: "int option"
  qa_maxLength :: "int option"

definition main_queue :: "string \<Rightarrow> string" where
  "main_queue serviceName = serviceName @ ''_queue''"

definition retry_queue :: "string \<Rightarrow> string" where
  "retry_queue serviceName = serviceName @ ''_queue_retry''"

definition dead_queue :: "string \<Rightarrow> string" where
  "dead_queue serviceName = serviceName @ ''_queue_dead''"

definition asserted_queues :: "string \<Rightarrow> int \<Rightarrow> queue_args list" where
  "asserted_queues serviceName retryDelayMs =
    [\<lparr>qa_name = dead_queue serviceName, qa_deadLetterExchange = None, qa_deadLetterRoutingKey = None, qa_messageTtl = None,
       qa_maxLength = None\<rparr>,
     \<lparr>qa_name = retry_queue serviceName, qa_deadLetterExchange = Some '''',
       qa_deadLetterRoutingKey = Some (main_queue serviceName), qa_messageTtl = Some retryDelayMs, qa_maxLength = None\<rparr>,
     \<lparr>qa_name = main_queue serviceName, qa_deadLetterExchange = Some '''',
       qa_deadLetterRoutingKey = Some (retry_queue serviceName), qa_messageTtl = None, qa_maxLength = Some 10000\<rparr>]"

text \<open>
  Connecting: \<open>attempt n\<close> is what the n-th try gives. Without a try (no retries allowed) there is no
  connection, and the use of it throws.
\<close>

function connect_loop :: "(int \<Rightarrow> exn option) \<Rightarrow> int \<Rightarrow> int \<Rightarrow> exn + unit" where
  "connect_loop attempt maxRetries retries =
     (if retries < maxRetries
      then (case attempt retries of
              None \<Rightarrow> Inr ()
            | Some e \<Rightarrow> if maxRetries \<le> retries + 1 then Inl e else connect_loop attempt maxRetries (retries + 1))
      else Inl (JsError ''Cannot read properties of undefined''))"
  by pat_completeness auto

termination by (relation "measure (\<lambda>(_, m, r). nat (m - r))") auto

declare connect_loop.simps [simp del]

definition setupQueues :: "(int \<Rightarrow> exn option) \<Rightarrow> string \<Rightarrow> int \<Rightarrow> int \<Rightarrow> exn + queue_args list" where
  "setupQueues attempt serviceName retryDelayMs maxRetries =
     (case connect_loop attempt maxRetries 0 of
        Inl e \<Rightarrow> Inl e
      | Inr _ \<Rightarrow> Inr (asserted_queues serviceName retryDelayMs))"

subsection \<open>Acknowledging\<close>

datatype verdict = Ack | Nack

text \<open>The \<open>x-death\<close> header: queue and reason of each kind of event with its count.\<close>

type_synonym deaths = "((string \<times> string) \<times> int) list"

definition retryCount :: "deaths \<Rightarrow> int" where
  "retryCount ds = (case ds of [] \<Rightarrow> 0 | d # _ \<Rightarrow> snd d)"

definition isClientError :: "exn \<Rightarrow> bool" where
  "isClientError e = (case e of HttpExn st m c \<Rightarrow> 400 \<le> st \<and> st < 500 | JsError m \<Rightarrow> False | RpcError m \<Rightarrow> False)"

definition handleAck :: "int \<Rightarrow> deaths \<Rightarrow> exn + 'a \<Rightarrow> verdict \<times> (exn + 'a)" where
  "handleAck maxRetries ds result =
     (case result of
        Inr r \<Rightarrow> (Ack, Inr r)
      | Inl e \<Rightarrow>
          if isClientError e then (Ack, Inl e)
          else if maxRetries \<le> retryCount ds then (Ack, Inl e)
          else (Nack, Inl e))"

subsection \<open>The life of a message\<close>

definition deaths_of :: "string \<times> string \<Rightarrow> deaths \<Rightarrow> int" where
  "deaths_of k ds = (case map_of ds k of None \<Rightarrow> 0 | Some n \<Rightarrow> n)"

definition bump :: "string \<times> string \<Rightarrow> deaths \<Rightarrow> deaths" where
  "bump k ds = (k, deaths_of k ds + 1) # filter (\<lambda>d. fst d \<noteq> k) ds"

definition expired_in_retry :: "string \<Rightarrow> string \<times> string" where
  "expired_in_retry s = (retry_queue s, ''expired'')"

text \<open>Rejected in the main queue, then expired in the retry queue.\<close>

definition round_trip :: "string \<Rightarrow> deaths \<Rightarrow> deaths" where
  "round_trip s ds = bump (expired_in_retry s) (bump (main_queue s, ''rejected'') ds)"

lemma round_trip_hd: "round_trip s ds = (expired_in_retry s, deaths_of (expired_in_retry s) ds + 1) #
    filter (\<lambda>d. fst d \<noteq> expired_in_retry s) (bump (main_queue s, ''rejected'') ds)"
proof -
  have other: "expired_in_retry s \<noteq> (main_queue s, ''rejected'')" by (simp add: expired_in_retry_def)
  have "map_of (filter (\<lambda>d. fst d \<noteq> (main_queue s, ''rejected'')) ds) (expired_in_retry s) = map_of ds (expired_in_retry s)"
    using other by (induction ds) auto
  then have "deaths_of (expired_in_retry s) (bump (main_queue s, ''rejected'') ds) = deaths_of (expired_in_retry s) ds"
    using other by (simp add: deaths_of_def bump_def)
  then show ?thesis by (simp add: round_trip_def bump_def [of "expired_in_retry s"])
qed

lemma round_trip_count: "deaths_of (expired_in_retry s) (round_trip s ds) = deaths_of (expired_in_retry s) ds + 1"
  by (simp add: round_trip_hd deaths_of_def)

text \<open>
  All deliveries of a message: \<open>handle n\<close> is what the handler gives at its n-th delivery. The result of
  each is sent to the caller that waits for a reply.
\<close>

function deliveries :: "int \<Rightarrow> string \<Rightarrow> (nat \<Rightarrow> exn + 'a) \<Rightarrow> nat \<Rightarrow> deaths \<Rightarrow> (exn + 'a) list" where
  "deliveries maxRetries s handle n ds =
     (case handleAck maxRetries ds (handle n) of
        (Ack, r) \<Rightarrow> [r]
      | (Nack, r) \<Rightarrow> r # deliveries maxRetries s handle (Suc n) (round_trip s ds))"
  by pat_completeness auto

text \<open>The count of the retries grows until the limit stops it, whatever deaths the message came with.\<close>

termination
proof (relation "measures [\<lambda>(m, s, h, n, ds). nat (m - deaths_of (expired_in_retry s) ds),
    \<lambda>(m, s, h, n, ds). if ds \<noteq> [] \<and> fst (hd ds) = expired_in_retry s then 0 else 1 :: nat]", goal_cases)
  case 1
  then show ?case by simp
next
  case (2 m s h n ds v r)
  have nack: "retryCount ds < m" using 2 by (auto simp: handleAck_def split: sum.splits if_splits)
  show ?case
  proof (cases "deaths_of (expired_in_retry s) ds < m")
    case True
    then show ?thesis by (simp add: round_trip_count)
  next
    case False
    then have "\<not> (ds \<noteq> [] \<and> fst (hd ds) = expired_in_retry s)"
      using nack by (cases ds) (auto simp: retryCount_def deaths_of_def)
    with False show ?thesis by (simp add: round_trip_count) (simp add: round_trip_hd)
  qed
qed

declare deliveries.simps [simp del]

definition retried_error :: "exn + 'a \<Rightarrow> bool" where
  "retried_error r = (case r of Inl e \<Rightarrow> \<not> isClientError e | Inr _ \<Rightarrow> False)"

lemma deliveries_from:
  assumes "retryCount ds = int n" "deaths_of (expired_in_retry s) ds = int n" "n \<le> m"
  shows "deliveries (int m) s handle n ds =
    (case find (\<lambda>i. \<not> retried_error (handle i)) [n..<m] of
       Some i \<Rightarrow> map handle [n..<Suc i] | None \<Rightarrow> map handle [n..<Suc m])"
  using assms
proof (induction "m - n" arbitrary: n ds)
  case 0
  then have "n = m" by simp
  with 0 show ?case
    by (subst deliveries.simps) (auto simp: handleAck_def split: sum.split)
next
  case (Suc k)
  then have n: "n < m" by simp
  then have range: "[n..<m] = n # [Suc n..<m]" by (rule upt_conv_Cons)
  show ?case
  proof (cases "retried_error (handle n)")
    case False
    then show ?thesis unfolding range
      by (subst deliveries.simps) (auto simp: handleAck_def retried_error_def split: sum.splits)
  next
    case True
    then have "handleAck (int m) ds (handle n) = (Nack, handle n)"
      using n Suc.prems(1) by (auto simp: handleAck_def retried_error_def split: sum.splits)
    then have "deliveries (int m) s handle n ds = handle n # deliveries (int m) s handle (Suc n) (round_trip s ds)"
      by (subst deliveries.simps) simp
    moreover have "deliveries (int m) s handle (Suc n) (round_trip s ds) =
      (case find (\<lambda>i. \<not> retried_error (handle i)) [Suc n..<m] of
         Some i \<Rightarrow> map handle [Suc n..<Suc i] | None \<Rightarrow> map handle [Suc n..<Suc m])"
    proof (rule Suc.hyps(1))
      show "k = m - Suc n" using Suc.hyps(2) by simp
      show "retryCount (round_trip s ds) = int (Suc n)" using Suc.prems(2) by (simp add: round_trip_hd retryCount_def)
      show "deaths_of (expired_in_retry s) (round_trip s ds) = int (Suc n)" using Suc.prems(2) by (simp add: round_trip_count)
      show "Suc n \<le> m" using n by simp
    qed
    moreover have "find (\<lambda>i. \<not> retried_error (handle i)) [Suc n..<m] = Some i \<Longrightarrow> n < i" for i
      by (auto simp: find_Some_iff)
    ultimately show ?thesis unfolding range
      using True n by (auto simp: upt_conv_Cons simp del: upt_Suc split: option.split)
  qed
qed

text \<open>C34. A message is handled a bounded number of times: with the helper's limit of three retries a new
  message is delivered until the handler returns or throws a client error, at most four times, and every
  delivery's result is one of the handler's, in order. After the fourth failure the message is
  acknowledged and gone: it never reaches the dead letter queue that the setup creates.\<close>

lemma deliveries_terminate:
  "deliveries 3 s handle 0 [] =
     (case find (\<lambda>i. \<not> retried_error (handle i)) [0..<3] of
        Some i \<Rightarrow> map handle [0..<Suc i] | None \<Rightarrow> map handle [0..<4]) \<and>
   length (deliveries 3 s handle 0 []) \<le> 4 \<and>
   dead_queue s \<notin> set (map the (filter (\<lambda>k. k \<noteq> None) (map qa_deadLetterRoutingKey (asserted_queues s 10000))))"
proof -
  have "deliveries (int 3) s handle 0 [] =
    (case find (\<lambda>i. \<not> retried_error (handle i)) [0..<3] of
       Some i \<Rightarrow> map handle [0..<Suc i] | None \<Rightarrow> map handle [0..<Suc 3])"
    by (rule deliveries_from) (simp_all add: retryCount_def deaths_of_def)
  then have eq: "deliveries 3 s handle 0 [] =
     (case find (\<lambda>i. \<not> retried_error (handle i)) [0..<3] of
        Some i \<Rightarrow> map handle [0..<Suc i] | None \<Rightarrow> map handle [0..<4])"
    by (simp add: eval_nat_numeral)
  moreover have "find (\<lambda>i. \<not> retried_error (handle i)) [0..<3] = Some i \<Longrightarrow> i < 3" for i
    by (auto simp: find_Some_iff)
  then have "length (deliveries 3 s handle 0 []) \<le> 4"
    unfolding eq by (fastforce split: option.split)
  moreover have "dead_queue s \<notin> set (map the (filter (\<lambda>k. k \<noteq> None) (map qa_deadLetterRoutingKey (asserted_queues s 10000))))"
    by (simp add: asserted_queues_def dead_queue_def main_queue_def retry_queue_def)
  ultimately show ?thesis by simp
qed

subsection \<open>The connection and the subscriptions\<close>

text \<open>Within the allowed number of tries the loop ends at the first that connects, else with the last error.\<close>

lemma connect_loop_result:
  assumes "0 \<le> r" "r < m"
  shows "connect_loop attempt m r = Inr () \<longleftrightarrow> (\<exists>i\<in>{r..<m}. attempt i = None)"
  using assms
proof (induction attempt m r rule: connect_loop.induct)
  case (1 attempt m r)
  show ?case
  proof (cases "attempt r")
    case None
    then show ?thesis using 1(3) by (subst connect_loop.simps) auto
  next
    case (Some e)
    show ?thesis
    proof (cases "m \<le> r + 1")
      case True
      then have "{r..<m} = {r}" using 1(3) by auto
      then show ?thesis using Some True 1(3) by (subst connect_loop.simps) simp
    next
      case False
      have "{r..<m} = insert r {r + 1..<m}" using 1(3) by auto
      then show ?thesis using 1(1) [OF 1(3) Some False] 1(2) False Some 1(3) by (subst connect_loop.simps) simp
    qed
  qed
qed

text \<open>A subscription: its queue, and the verdict on a message whose content \<open>parse\<close> reads.\<close>

definition subscription_queue :: "string \<Rightarrow> queue_args" where
  "subscription_queue topic =
     \<lparr>qa_name = ''queue_'' @ map (\<lambda>c. if c = CHR ''.'' then CHR ''_'' else c) topic,
      qa_deadLetterExchange = Some ''flight_booking_dlx'', qa_deadLetterRoutingKey = None,
      qa_messageTtl = Some 86400000, qa_maxLength = None\<rparr>"

definition subscription_consume :: "(string \<Rightarrow> 'd option) \<Rightarrow> ('d \<Rightarrow> ('s, unit) prog) \<Rightarrow> string \<Rightarrow> ('s, verdict) prog" where
  "subscription_consume parse handler content =
     tryCatch
       (case parse content of
          None \<Rightarrow> throw (JsError ''SyntaxError'')
        | Some data \<Rightarrow> andThen (handler data) (\<lambda>_. ret Ack))
       (\<lambda>_. ret Nack)"

end
