(* ===== verification/Gateway.thy ===== *)
theory Gateway
  imports AuthGateway BookingService FlightService CatalogService
begin

text \<open>
  The API gateway (apps/api-gateway/src/controllers) in front of the services: for every route the
  decorators that say who may use it, the message it sends and the answer, composed with the guards and
  with what the services do. The payment service has no route here; its controllers are its own.
\<close>

subsection \<open>The services behind the gateway\<close>

record gateway_state =
  gs_auth :: auth_world
  gs_limiter :: rl_world
  gs_booking :: booking_world
  gs_flight :: flight_world

definition on_auth :: "(auth_world, 'a) prog \<Rightarrow> (gateway_state, 'a) prog" where
  "on_auth m s = (case m (gs_auth s) of (r, w) \<Rightarrow> (r, s\<lparr>gs_auth := w\<rparr>))"

definition on_guards :: "(guard_world, 'a) prog \<Rightarrow> (gateway_state, 'a) prog" where
  "on_guards m s = (case m (gs_auth s, gs_limiter s) of (r, w, l) \<Rightarrow> (r, s\<lparr>gs_auth := w, gs_limiter := l\<rparr>))"

definition on_booking :: "(booking_world, 'a) prog \<Rightarrow> (gateway_state, 'a) prog" where
  "on_booking m s = (case m (gs_booking s) of (r, w) \<Rightarrow> (r, s\<lparr>gs_booking := w\<rparr>))"

definition on_flight :: "(flight_world, 'a) prog \<Rightarrow> (gateway_state, 'a) prog" where
  "on_flight m s = (case m (gs_flight s) of (r, w) \<Rightarrow> (r, s\<lparr>gs_flight := w\<rparr>))"

text \<open>What the gateway is configured with: tokens, \<open>JSON.stringify\<close>, the payment client, the orders of the database.\<close>

record gateway_config =
  gc_platform :: auth_platform
  gc_stringify :: "js \<Rightarrow> string"
  gc_client :: payment_client
  gc_order :: db_order

text \<open>
  The decorators of a handler; the classes have neither \<open>@Public\<close> nor \<open>@Roles\<close>, and only \<open>AuthController\<close> has
  \<open>@RateLimit\<close>. Nothing has \<open>@SkipRateLimit\<close>.
\<close>

record access =
  ac_public :: "bool option"
  ac_required :: "Role list option"
  ac_limit :: "RateLimitConfig option"

definition public_route :: access where
  "public_route = \<lparr>ac_public = Some True, ac_required = None, ac_limit = None\<rparr>"

definition admin_route :: access where
  "admin_route = \<lparr>ac_public = None, ac_required = Some [ADMIN], ac_limit = None\<rparr>"

definition user_route :: access where
  "user_route = \<lparr>ac_public = None, ac_required = None, ac_limit = None\<rparr>"

definition auth_controller :: "access \<Rightarrow> access" where
  "auth_controller a = a\<lparr>ac_limit := Some auth_limit\<rparr>"

definition routed :: "access \<Rightarrow> exec_context \<Rightarrow> exec_context" where
  "routed a cx = cx\<lparr>cx_type := Http, cx_publicHandler := ac_public a, cx_publicClass := None,
     cx_rolesHandler := ac_required a, cx_rolesClass := None, cx_skipHandler := None, cx_skipClass := None,
     cx_limitHandler := None, cx_limitClass := ac_limit a, cx_user := None\<rparr>"

text \<open>A route: the global guards, then the handler.\<close>

definition guarded ::
  "gateway_config \<Rightarrow> access \<Rightarrow> exec_context \<Rightarrow> (exec_context \<Rightarrow> (gateway_state, 'a) prog) \<Rightarrow> (gateway_state, 'a) prog" where
  "guarded g a cx handler =
     andThen (on_guards (gateway_guards (gc_platform g) send_validate (routed a cx))) handler"

text \<open>A handler of the flight service's controllers: the message, and the answer with its code.\<close>

definition ask_flight :: "gateway_config \<Rightarrow> (flight_world, 'a) prog \<Rightarrow> string \<Rightarrow> (gateway_state, 'a api_response) prog" where
  "ask_flight g m code =
     andThen (on_flight (callService (gc_stringify g) Flight_service m)) (\<lambda>result. ret (success_response result code))"

subsection \<open>Flights\<close>

datatype flight_route =
  GetFlights SharedSearchFlightDto | GetFlight int | PostFlight SharedCreateFlightDto | DeleteFlightRoute int

datatype flight_reply = FlightList "Flight list" | OneFlight Flight | NoFlight

definition flight_access :: "flight_route \<Rightarrow> access" where
  "flight_access r = (case r of
     GetFlights q \<Rightarrow> public_route | GetFlight i \<Rightarrow> public_route
   | PostFlight d \<Rightarrow> admin_route | DeleteFlightRoute i \<Rightarrow> admin_route)"

definition flight_call :: "flight_route \<Rightarrow> (flight_world, flight_reply) prog" where
  "flight_call r = (case r of
     GetFlights q \<Rightarrow> andThen (search_flights q) (\<lambda>fs. ret (FlightList fs))
   | GetFlight i \<Rightarrow> andThen (findOne_flight i) (\<lambda>f. ret (OneFlight f))
   | PostFlight d \<Rightarrow> andThen (create_flight d) (\<lambda>f. ret (OneFlight f))
   | DeleteFlightRoute i \<Rightarrow> andThen (remove_flight i) (\<lambda>_. ret NoFlight))"

definition flight_code :: "flight_route \<Rightarrow> string" where
  "flight_code r = (case r of
     GetFlights q \<Rightarrow> ''flight.list.success'' | GetFlight i \<Rightarrow> ''flight.get.success''
   | PostFlight d \<Rightarrow> ''flight.create.success'' | DeleteFlightRoute i \<Rightarrow> ''flight.delete.success'')"

definition gateway_flight :: "gateway_config \<Rightarrow> exec_context \<Rightarrow> flight_route \<Rightarrow> (gateway_state, flight_reply api_response) prog" where
  "gateway_flight g cx r = guarded g (flight_access r) cx (\<lambda>_. ask_flight g (flight_call r) (flight_code r))"

subsection \<open>Cities\<close>

datatype city_route =
  PostCity city_data | GetCities QueryCityDto | GetCityStatistics | GetCity int | PatchCity int city_data | DeleteCity int

datatype city_reply =
  OneCity CityResponseDto | CityPage "CityResponseDto paginated" | CityNumbers "int \<times> int \<times> int" | NoCity

definition city_access :: "city_route \<Rightarrow> access" where
  "city_access r = (case r of
     PostCity d \<Rightarrow> admin_route | GetCities q \<Rightarrow> public_route | GetCityStatistics \<Rightarrow> admin_route
   | GetCity i \<Rightarrow> public_route | PatchCity i d \<Rightarrow> admin_route | DeleteCity i \<Rightarrow> admin_route)"

definition city_call :: "gateway_config \<Rightarrow> city_route \<Rightarrow> (flight_world, city_reply) prog" where
  "city_call g r = (case r of
     PostCity d \<Rightarrow> andThen (city_create d) (\<lambda>c. ret (OneCity c))
   | GetCities q \<Rightarrow> andThen (city_findAll (gc_order g) q) (\<lambda>p. ret (CityPage p))
   | GetCityStatistics \<Rightarrow> andThen city_getStatistics (\<lambda>n. ret (CityNumbers n))
   | GetCity i \<Rightarrow> andThen (city_findOne i) (\<lambda>c. ret (OneCity c))
   | PatchCity i d \<Rightarrow> andThen (city_update i d) (\<lambda>c. ret (OneCity c))
   | DeleteCity i \<Rightarrow> andThen (city_remove i) (\<lambda>_. ret NoCity))"

definition city_code :: "city_route \<Rightarrow> string" where
  "city_code r = (case r of
     PostCity d \<Rightarrow> ''city.create.success'' | GetCities q \<Rightarrow> ''city.list.success''
   | GetCityStatistics \<Rightarrow> ''city.statistics.success'' | GetCity i \<Rightarrow> ''city.get.success''
   | PatchCity i d \<Rightarrow> ''city.update.success'' | DeleteCity i \<Rightarrow> ''city.delete.success'')"

definition gateway_city :: "gateway_config \<Rightarrow> exec_context \<Rightarrow> city_route \<Rightarrow> (gateway_state, city_reply api_response) prog" where
  "gateway_city g cx r = guarded g (city_access r) cx (\<lambda>_. ask_flight g (city_call g r) (city_code r))"

subsection \<open>Airports\<close>

datatype airport_route =
  PostAirport airport_data | GetAirports QueryAirportDto | GetAirportByCode string | GetAirportStatistics
| GetAirport int | PatchAirport int airport_data | DeleteAirport int

datatype airport_reply = OneAirport AirportResponseDto | AirportPage "AirportResponseDto paginated" | NoAirport

definition airport_access :: "airport_route \<Rightarrow> access" where
  "airport_access r = (case r of
     PostAirport d \<Rightarrow> admin_route | GetAirports q \<Rightarrow> public_route | GetAirportByCode c \<Rightarrow> public_route
   | GetAirportStatistics \<Rightarrow> admin_route | GetAirport i \<Rightarrow> public_route | PatchAirport i d \<Rightarrow> admin_route
   | DeleteAirport i \<Rightarrow> admin_route)"

text \<open>The statistics route sends \<open>AIRPORT_FIND_ALL\<close> with a limit of zero, not the statistics message.\<close>

definition no_limit :: QueryAirportDto where
  "no_limit = \<lparr>bq_page = 1, bq_limit = 0, bq_sortBy = None, bq_sortOrder = None, bq_search = None, bq_active = None,
     qa_code = None, qa_icaoCode = None, qa_cityId = None, qa_cityName = None, qa_country = None\<rparr>"

definition airport_call :: "gateway_config \<Rightarrow> airport_route \<Rightarrow> (flight_world, airport_reply) prog" where
  "airport_call g r = (case r of
     PostAirport d \<Rightarrow> andThen (airport_create d) (\<lambda>c. ret (OneAirport c))
   | GetAirports q \<Rightarrow> andThen (airport_findAll (gc_order g) q) (\<lambda>p. ret (AirportPage p))
   | GetAirportByCode c \<Rightarrow> andThen (airport_findByCode c) (\<lambda>a. ret (OneAirport a))
   | GetAirportStatistics \<Rightarrow> andThen (airport_findAll (gc_order g) no_limit) (\<lambda>p. ret (AirportPage p))
   | GetAirport i \<Rightarrow> andThen (airport_findOne i) (\<lambda>a. ret (OneAirport a))
   | PatchAirport i d \<Rightarrow> andThen (airport_update i d) (\<lambda>a. ret (OneAirport a))
   | DeleteAirport i \<Rightarrow> andThen (airport_remove i) (\<lambda>_. ret NoAirport))"

definition airport_success :: "airport_route \<Rightarrow> string" where
  "airport_success r = (case r of
     PostAirport d \<Rightarrow> ''airport.create.success'' | GetAirports q \<Rightarrow> ''airport.list.success''
   | GetAirportByCode c \<Rightarrow> ''airport.search.success'' | GetAirportStatistics \<Rightarrow> ''airport.statistics.success''
   | GetAirport i \<Rightarrow> ''airport.get.success'' | PatchAirport i d \<Rightarrow> ''airport.update.success''
   | DeleteAirport i \<Rightarrow> ''airport.delete.success'')"

definition gateway_airport ::
  "gateway_config \<Rightarrow> exec_context \<Rightarrow> airport_route \<Rightarrow> (gateway_state, airport_reply api_response) prog" where
  "gateway_airport g cx r = guarded g (airport_access r) cx (\<lambda>_. ask_flight g (airport_call g r) (airport_success r))"

subsection \<open>Airplanes and seats\<close>

datatype airplane_route =
  PostAirplane airplane_data | GetAirplanes QueryAirplaneDto | GetAirplane int | PatchAirplane int airplane_data
| DeleteAirplane int

datatype airplane_reply = OneAirplane AirplaneResponseDto | AirplanePage "AirplaneResponseDto paginated" | NoAirplane

definition airplane_access :: "airplane_route \<Rightarrow> access" where
  "airplane_access r = (case r of
     PostAirplane d \<Rightarrow> admin_route | GetAirplanes q \<Rightarrow> public_route | GetAirplane i \<Rightarrow> public_route
   | PatchAirplane i d \<Rightarrow> admin_route | DeleteAirplane i \<Rightarrow> admin_route)"

definition airplane_call :: "gateway_config \<Rightarrow> airplane_route \<Rightarrow> (flight_world, airplane_reply) prog" where
  "airplane_call g r = (case r of
     PostAirplane d \<Rightarrow> andThen (airplane_create d) (\<lambda>p. ret (OneAirplane p))
   | GetAirplanes q \<Rightarrow> andThen (airplane_findAll (gc_order g) q) (\<lambda>p. ret (AirplanePage p))
   | GetAirplane i \<Rightarrow> andThen (airplane_findOne i) (\<lambda>p. ret (OneAirplane p))
   | PatchAirplane i d \<Rightarrow> andThen (airplane_update i d) (\<lambda>p. ret (OneAirplane p))
   | DeleteAirplane i \<Rightarrow> andThen (airplane_remove i) (\<lambda>_. ret NoAirplane))"

definition airplane_success :: "airplane_route \<Rightarrow> string" where
  "airplane_success r = (case r of
     PostAirplane d \<Rightarrow> ''airplane.create.success'' | GetAirplanes q \<Rightarrow> ''airplane.list.success''
   | GetAirplane i \<Rightarrow> ''airplane.get.success'' | PatchAirplane i d \<Rightarrow> ''airplane.update.success''
   | DeleteAirplane i \<Rightarrow> ''airplane.delete.success'')"

definition gateway_airplane ::
  "gateway_config \<Rightarrow> exec_context \<Rightarrow> airplane_route \<Rightarrow> (gateway_state, airplane_reply api_response) prog" where
  "gateway_airplane g cx r = guarded g (airplane_access r) cx (\<lambda>_. ask_flight g (airplane_call g r) (airplane_success r))"

datatype seat_route = PostSeat CreateSeatDto | PostSeats BulkCreateSeatsDto | GetSeats int | DeleteSeat int

datatype seat_reply = SeatList "Seat list" | OneSeat Seat | NoSeat

definition seat_access :: "seat_route \<Rightarrow> access" where
  "seat_access r = (case r of
     PostSeat d \<Rightarrow> admin_route | PostSeats d \<Rightarrow> admin_route | GetSeats i \<Rightarrow> public_route | DeleteSeat i \<Rightarrow> admin_route)"

definition seat_call :: "gateway_config \<Rightarrow> seat_route \<Rightarrow> (flight_world, seat_reply) prog" where
  "seat_call g r = (case r of
     PostSeat d \<Rightarrow> andThen (seat_create d) (\<lambda>x. ret (OneSeat x))
   | PostSeats d \<Rightarrow> andThen (seat_bulkCreate d) (\<lambda>xs. ret (SeatList xs))
   | GetSeats i \<Rightarrow> andThen (find_seats (gc_order g) i) (\<lambda>xs. ret (SeatList xs))
   | DeleteSeat i \<Rightarrow> andThen (seat_remove i) (\<lambda>_. ret NoSeat))"

definition seat_success :: "seat_route \<Rightarrow> string" where
  "seat_success r = (case r of
     PostSeat d \<Rightarrow> ''seat.create.success'' | PostSeats d \<Rightarrow> ''seat.bulk_create.success''
   | GetSeats i \<Rightarrow> ''seat.list.success'' | DeleteSeat i \<Rightarrow> ''seat.delete.success'')"

definition gateway_seat :: "gateway_config \<Rightarrow> exec_context \<Rightarrow> seat_route \<Rightarrow> (gateway_state, seat_reply api_response) prog" where
  "gateway_seat g cx r = guarded g (seat_access r) cx (\<lambda>_. ask_flight g (seat_call g r) (seat_success r))"

subsection \<open>Bookings\<close>

text \<open>
  The DTO of the gateway has neither a price nor a passenger. Its flight id is a string; the model takes
  the number that it spells without leading zeros, which every consumer prints and reads as the same.
\<close>

record GatewayBookingDto =
  gb_flightId :: int
  gb_seats :: int
  gb_seatPreference :: "string option"
  gb_seatClass :: "string option"
  gb_seatNumbers :: "string list option"

definition booking_payload :: "request_user \<Rightarrow> GatewayBookingDto \<Rightarrow> CreateBookingDto" where
  "booking_payload u d = \<lparr>cb_userId = ru_id u, cb_flightId = gb_flightId d, cb_seats = gb_seats d,
     cb_seatNumbers = gb_seatNumbers d, cb_seatClass = gb_seatClass d, cb_totalCost = None, cb_passengerName = None,
     cb_passengerEmail = None, cb_passengerPhone = None, cb_seatPreference = gb_seatPreference d\<rparr>"

datatype booking_route =
  PostBooking GatewayBookingDto | PostComplete string "string option" | PutCancel string "string option"
| PutExtend string | GetMine | GetBooking string | GetAvailability int string

datatype booking_reply =
  Receipt booking_receipt | Completion completion_receipt | Cancelled "string \<times> BookingStatus \<times> rat option"
| Extended "string \<times> int" | BookingList "Booking list" | OneBooking Booking
| Availability "int \<times> (string \<times> bool) list \<times> bool"

definition booking_call :: "gateway_config \<Rightarrow> request_user \<Rightarrow> booking_route \<Rightarrow> (booking_world, booking_reply) prog" where
  "booking_call g u r = (case r of
     PostBooking d \<Rightarrow> andThen (createBooking (gc_client g) (booking_payload u d) (ru_id u)) (\<lambda>x. ret (Receipt x))
   | PostComplete b tx \<Rightarrow> andThen (service_completeBooking b (ru_id u) tx) (\<lambda>x. ret (Completion x))
   | PutCancel b reason \<Rightarrow> andThen (service_cancelBooking b (ru_id u) reason) (\<lambda>x. ret (Cancelled x))
   | PutExtend b \<Rightarrow> andThen (extendBooking b (ru_id u)) (\<lambda>x. ret (Extended x))
   | GetMine \<Rightarrow> andThen (getMyBookings (ru_id u) None) (\<lambda>x. ret (BookingList x))
   | GetBooking b \<Rightarrow> andThen (getBooking b (ru_id u)) (\<lambda>x. ret (OneBooking x))
   | GetAvailability f xs \<Rightarrow> andThen (checkSeatAvailability f xs) (\<lambda>x. ret (Availability x)))"

definition booking_success :: "booking_route \<Rightarrow> string" where
  "booking_success r = (case r of
     PostBooking d \<Rightarrow> ''booking.create.success'' | PostComplete b tx \<Rightarrow> ''booking.confirm.success''
   | PutCancel b reason \<Rightarrow> ''booking.cancel.success'' | PutExtend b \<Rightarrow> ''booking.extend.success''
   | GetMine \<Rightarrow> ''booking.list.success'' | GetBooking b \<Rightarrow> ''booking.get.success''
   | GetAvailability f xs \<Rightarrow> ''booking.availability.success'')"

text \<open>The class asks for the token guard once more; the handlers read the id of the user it leaves.\<close>

definition booking_handler ::
  "gateway_config \<Rightarrow> booking_route \<Rightarrow> exec_context \<Rightarrow> (gateway_state, booking_reply api_response) prog" where
  "booking_handler g r cx =
     andThen (on_auth (jwt_guard (gc_platform g) send_validate cx)) (\<lambda>(ok, cx').
       if \<not> ok then throw forbidden
       else (case cx_user cx' of
               None \<Rightarrow> throw (JsError ''Cannot read properties of undefined'')
             | Some u \<Rightarrow>
                 andThen (on_booking (callService (gc_stringify g) Booking_service (booking_call g u r))) (\<lambda>result.
                   ret (success_response result (booking_success r)))))"

definition gateway_booking ::
  "gateway_config \<Rightarrow> exec_context \<Rightarrow> booking_route \<Rightarrow> (gateway_state, booking_reply api_response) prog" where
  "gateway_booking g cx r = guarded g user_route cx (booking_handler g r)"

subsection \<open>All requests\<close>

text \<open>
  A request of a client with what it sends along, and what happens besides: payment events and the jobs
  of the booking service, messages of the booking service that reach the flight service, time that passes, and
  new scripts of failures for the three services and the limiter.
\<close>

datatype gateway_request =
  BookingRequest booking_route | FlightRequest flight_route | CityRequest city_route | AirportRequest airport_route
| AirplaneRequest airplane_route | SeatRequest seat_route | RegisterRequest SignUpDto
| LoginRequest SignInDto "cookie list" | RefreshRequest RefreshTokenDto "cookie list"
| LogoutRequest SignOutDto "cookie list" | ProfileRequest

definition gateway_request :: "gateway_config \<Rightarrow> exec_context \<Rightarrow> gateway_request \<Rightarrow> gateway_state \<Rightarrow> gateway_state" where
  "gateway_request g cx x s =
     (case x of
        BookingRequest r \<Rightarrow> snd (gateway_booking g cx r s)
      | FlightRequest r \<Rightarrow> snd (gateway_flight g cx r s)
      | CityRequest r \<Rightarrow> snd (gateway_city g cx r s)
      | AirportRequest r \<Rightarrow> snd (gateway_airport g cx r s)
      | AirplaneRequest r \<Rightarrow> snd (gateway_airplane g cx r s)
      | SeatRequest r \<Rightarrow> snd (gateway_seat g cx r s)
      | RegisterRequest d \<Rightarrow>
          snd (guarded g (auth_controller public_route) cx (\<lambda>_. on_auth (gateway_register (gc_stringify g) (gc_platform g) d)) s)
      | LoginRequest d jar \<Rightarrow>
          snd (guarded g (auth_controller public_route) cx (\<lambda>_. on_auth (gateway_login (gc_stringify g) (gc_platform g) d jar)) s)
      | RefreshRequest d jar \<Rightarrow>
          snd (guarded g (auth_controller public_route) cx (\<lambda>_. on_auth (gateway_refresh (gc_stringify g) (gc_platform g) d jar)) s)
      | LogoutRequest d jar \<Rightarrow>
          snd (guarded g (auth_controller user_route) cx (\<lambda>_. on_auth (gateway_logout (gc_stringify g) d jar)) s)
      | ProfileRequest \<Rightarrow>
          snd (on_guards (getProfile (gc_platform g) (routed (auth_controller user_route) cx)) s))"

text \<open>
  A message of the exchange \<open>booking.events\<close> as \<open>FlightEventHandler\<close> subscribes to it: the routing key says which
  of the three events it is. The payload of each has the flight, the class and the number of seats; its
  metadata has the event id.
\<close>

definition seat_message :: "amqp_msg \<Rightarrow> (seat_event \<times> FlightSeatEvent) option" where
  "seat_message m =
     (if am_exchange m \<noteq> ''booking.events'' then None
      else (case (find (\<lambda>k. event_type k = am_routingKey m) [ReserveSeats, ConfirmSeats, ReleaseSeats],
                  ep_flightId (am_payload m), ep_seatClass (am_payload m), ep_seatCount (am_payload m)) of
              (Some k, Some i, Some c, Some n) \<Rightarrow>
                Some (k, \<lparr>ev_flightId = i, ev_bookingId = ep_bookingId (am_payload m), ev_seatClass = c,
                          ev_seatCount = n, ev_eventId = Some (am_eventId m)\<rparr>)
            | _ \<Rightarrow> None))"

text \<open>
  \<open>SeatEventArrives n\<close>: the broker hands the n-th message published so far to the handler of the flight service.
  It may do so late, repeatedly and in any order. (As long as no module registers the handler it never does.)
\<close>

datatype gateway_step =
  Request exec_context gateway_request | PaymentArrives PaymentCompletedEvent | RunCleanup | RunPublisher
| RunOutboxCleanup | SeatEventArrives nat | Passing int "bool list" "bool list" "bool list" "bool list"

definition deliver_published :: "nat \<Rightarrow> gateway_state \<Rightarrow> gateway_state" where
  "deliver_published n s =
     (if length (broker (gs_booking s)) \<le> n then s
      else (case seat_message (broker (gs_booking s) ! n) of
              None \<Rightarrow> s
            | Some (k, msg) \<Rightarrow> s\<lparr>gs_flight := snd (deliver k msg (gs_flight s))\<rparr>))"

definition gateway_exec :: "gateway_config \<Rightarrow> gateway_state \<Rightarrow> gateway_step \<Rightarrow> gateway_state" where
  "gateway_exec g s x =
     (case x of
        Request cx r \<Rightarrow> gateway_request g cx r s
      | PaymentArrives msg \<Rightarrow> s\<lparr>gs_booking := booking_exec (gc_client g) (gs_booking s) (PaymentCompleted msg)\<rparr>
      | RunCleanup \<Rightarrow> s\<lparr>gs_booking := booking_exec (gc_client g) (gs_booking s) CleanupJob\<rparr>
      | RunPublisher \<Rightarrow> s\<lparr>gs_booking := booking_exec (gc_client g) (gs_booking s) PublishJob\<rparr>
      | RunOutboxCleanup \<Rightarrow> s\<lparr>gs_booking := booking_exec (gc_client g) (gs_booking s) CleanupOutboxJob\<rparr>
      | SeatEventArrives n \<Rightarrow> deliver_published n s
      | Passing t fa fl fb ff \<Rightarrow>
          s\<lparr>gs_auth := (gs_auth s)\<lparr>now := max t (now (gs_auth s)), faults := fa\<rparr>,
            gs_limiter := (gs_limiter s)\<lparr>now := max t (now (gs_limiter s)), faults := fl\<rparr>,
            gs_booking := (gs_booking s)\<lparr>now := max t (now (gs_booking s)), faults := fb\<rparr>,
            gs_flight := (gs_flight s)\<lparr>now := max t (now (gs_flight s)), faults := ff\<rparr>\<rparr>)"

subsection \<open>A concrete gateway\<close>

definition demo_config :: gateway_config where
  "demo_config = \<lparr>gc_platform = demo_platform, gc_stringify = (\<lambda>x. ''''), gc_client = paymentClient LOCAL_MOCK (\<lambda>x. Inr None),
     gc_order = \<lparr>db_collate = (\<lambda>s t. length s \<le> length t), db_scan = (\<lambda>skip n i. i)\<rparr>\<rparr>"

definition empty_flights :: flight_world where
  "empty_flights = \<lparr>now = 0, uuidSrc = (\<lambda>n. ''''), uuidCtr = 0, serial = 1, faults = [], flights = [], processed = [],
     cities = [], airports = [], airplanes = [], seats = []\<rparr>"

definition demo_gateway :: "booking_world \<Rightarrow> gateway_state" where
  "demo_gateway w = \<lparr>gs_auth = demo_registered, gs_limiter = demo_limiter, gs_booking = w, gs_flight = empty_flights\<rparr>"

definition demo_request :: exec_context where
  "demo_request = demo_context [(''accessToken_d1'', ''access'')]"

end
