(* ===== verification/GatewayProps.thy ===== *)
theory GatewayProps
  imports Gateway
begin

text \<open>
  What the gateway guarantees once its guards, its controllers and the services are put together: who can
  change what through it.
\<close>

subsection \<open>What the guards let through\<close>

lemma gateway_external_Inr: "external w = (Inr x, v) \<Longrightarrow> v = w\<lparr>faults := tl (faults w)\<rparr>"
  by (auto simp: external_def split: if_splits)

lemma send_validate_Inr:
  assumes "send_validate p w = (Inr u, v)"
  shows "\<exists>x. find (\<lambda>u. us_id u = ac_id p \<and> us_email u = ac_email p) (users w) = Some x \<and> us_isActive x \<and> u = profile x"
proof -
  obtain a w1 where e: "external w = (Inr a, w1)"
    and f: "validateUser (Some (ac_id p)) (Some (ac_email p)) w1 = (Inr u, v)"
    using assms by (auto simp: send_validate_def)
  obtain found w2 where q: "find_user (\<lambda>u. us_id u = ac_id p \<and> us_email u = ac_email p) w1 = (Inr found, w2)"
    using f by (auto simp: validateUser_def split: if_splits)
  have "found = find (\<lambda>u. us_id u = ac_id p \<and> us_email u = ac_email p) (users w)"
    using find_user_Inr [OF q] gateway_external_Inr [OF e] by simp
  moreover obtain x where "found = Some x" "us_isActive x" "u = profile x"
    using f q by (cases found) (auto simp: validateUser_def profile_def split: if_splits)
  ultimately show ?thesis by metis
qed

lemma verified_user_Inr:
  assumes "verified_user pf send_validate token w = (Inr u, v)"
  shows "token_user pf w token = Some u"
proof -
  obtain p where p: "verify_access pf token (now w) = Some p" and s: "send_validate p w = (Inr u, v)"
    using assms by (auto simp: verified_user_def split: option.splits)
  from send_validate_Inr [OF s] p show ?thesis by (auto simp: token_user_def)
qed

lemma jwt_guard_Inr:
  assumes "jwt_guard pf send_validate cx w = (Inr (ok, cx'), v)" "cx_type cx = Http" "\<not> is_public cx"
  obtains token u where "extractTokenFromHeader cx = Some token" "token_user pf w token = Some u"
    "ok" "cx' = cx\<lparr>cx_user := Some u\<rparr>"
proof -
  have t: "truthy (extractTokenFromHeader cx)" using assms by (auto simp: jwt_guard_def Let_def split: if_splits)
  then obtain token where token: "extractTokenFromHeader cx = Some token"
    by (cases "extractTokenFromHeader cx") auto
  with assms t show thesis
    by (auto simp: jwt_guard_def tryCatch_rethrow Let_def intro!: that [OF token] dest: verified_user_Inr)
qed

text \<open>Without a limit on the route the limiter's guard does nothing.\<close>

lemma unlimited_guard: "skip_limit cx \<or> route_limit cx = None \<Longrightarrow> rate_guard cx s = (Inr True, s)"
  by (cases s) (auto simp: rate_guard_def canActivate_def)

lemma jwt_guard_context: "jwt_guard pf send cx w = (Inr (ok, cx'), v) \<Longrightarrow> \<exists>u. cx' = cx\<lparr>cx_user := u\<rparr>"
  by (cases "is_public cx"; cases "cx_type cx")
    (auto simp: jwt_guard_def ret_def throw_def Let_def tryCatch_rethrow split: if_splits
      intro: exI [of _ "cx_user cx"])

text \<open>A guarded handler runs, in the same state of the other services, or it does not and they stay.\<close>

lemma guards_limiter:
  assumes "gateway_guards pf send cx (w, l) = (r, w', l')" "route_limit cx = None"
  shows "l' = l"
proof -
  obtain q w1 where j: "jwt_guard pf send cx w = (q, w1)" by fastforce
  show ?thesis
  proof (cases q)
    case (Inl e)
    with j assms(1) show ?thesis by (simp add: gateway_guards_def andThen_def)
  next
    case (Inr okcx)
    obtain ok c where okcx: "okcx = (ok, c)" by (cases okcx)
    obtain u where "c = cx\<lparr>cx_user := u\<rparr>" using jwt_guard_context j Inr okcx by blast
    then have rate: "rate_guard c s = (Inr True, s)" for s using assms(2) by (simp add: unlimited_guard)
    show ?thesis
      using assms(1) j Inr okcx rate
      by (cases "gateway_roles_guard c w1"; cases "fst (gateway_roles_guard c w1)")
        (auto simp: gateway_guards_def andThen_def throw_def ret_def split: if_splits)
  qed
qed

lemma guarded_cases:
  obtains (refused) e and w :: auth_world and l :: rl_world
    where "guarded g a cx h s = (Inl e, s\<lparr>gs_auth := w, gs_limiter := l\<rparr>)" "ac_limit a = None \<Longrightarrow> l = gs_limiter s"
  | (runs) cx' and w :: auth_world and l :: rl_world where
      "gateway_guards (gc_platform g) send_validate (routed a cx) (gs_auth s, gs_limiter s) = (Inr cx', w, l)"
      "guarded g a cx h s = h cx' (s\<lparr>gs_auth := w, gs_limiter := l\<rparr>)" "ac_limit a = None \<Longrightarrow> l = gs_limiter s"
proof -
  obtain r w l where run: "gateway_guards (gc_platform g) send_validate (routed a cx) (gs_auth s, gs_limiter s) = (r, w, l)"
    by (metis prod.exhaust)
  have l: "l = gs_limiter s" if "ac_limit a = None"
    using guards_limiter [OF run] that by (simp add: routed_def getAllAndOverride_def)
  show thesis
  proof (cases r)
    case (Inl e)
    with run l show thesis by (intro refused [of e l w]) (simp_all add: guarded_def on_guards_def andThen_def)
  next
    case (Inr cx')
    with run l show thesis by (intro runs [OF run [unfolded Inr]]) (simp_all add: guarded_def on_guards_def andThen_def)
  qed
qed

lemma routed_simps [simp]:
  "cx_type (routed a cx) = Http" "is_public (routed a cx) \<longleftrightarrow> ac_public a = Some True"
  "required_roles (routed a cx) = ac_required a" "cx_user (routed a cx) = None"
  "extractTokenFromHeader (routed a cx) = extractTokenFromHeader cx"
  by (simp_all add: routed_def getAllAndOverride_def extractTokenFromHeader_def cong: option.case_cong)

lemma guards_Inr:
  assumes "gateway_guards pf send_validate (routed a cx) (w, l) = (Inr cx', v, l')" "ac_public a \<noteq> Some True"
  shows "ac_required a = None \<and> (\<exists>token u. extractTokenFromHeader cx = Some token \<and> token_user pf w token = Some u \<and>
    cx' = (routed a cx)\<lparr>cx_user := Some u\<rparr>)"
proof -
  obtain q w1 where jwt: "jwt_guard pf send_validate (routed a cx) w = (q, w1)" by fastforce
  with assms(1) obtain ok cx1 where "q = Inr (ok, cx1)"
    by (cases q) (auto simp: gateway_guards_def andThen_def)
  with jwt have j: "jwt_guard pf send_validate (routed a cx) w = (Inr (ok, cx1), w1)" by simp
  obtain p w2 where roles: "gateway_roles_guard cx1 w1 = (p, w2)" by fastforce
  have r: "gateway_roles_guard cx1 w1 = (Inr True, w2)" "cx' = cx1"
    using assms(1) roles
    by (cases p; auto simp: gateway_guards_def j andThen_def throw_def ret_def split: prod.splits sum.splits if_splits)+
  obtain token u where t: "extractTokenFromHeader cx = Some token" "token_user pf w token = Some u"
    "cx1 = (routed a cx)\<lparr>cx_user := Some u\<rparr>"
    by (rule jwt_guard_Inr [OF j]) (use assms(2) in auto)
  have "required_roles cx1 = ac_required a" unfolding t(3) by (simp add: routed_def getAllAndOverride_def)
  moreover have "\<not> list_ex (\<lambda>role. ru_role u = Some role) rs" for rs
    using token_user_no_role [OF t(2)] by (simp add: list_ex_iff)
  ultimately have "ac_required a = None"
    using r(1) t(3) by (cases "ac_required a") (auto simp: gateway_roles_guard_def split: if_splits)
  with t r(2) show ?thesis by auto
qed

subsection \<open>Catalogue and flights\<close>

definition same_catalog :: "flight_world \<Rightarrow> flight_world \<Rightarrow> bool" where
  "same_catalog w v \<longleftrightarrow> flights v = flights w \<and> processed v = processed w \<and> cities v = cities w \<and>
     airports v = airports w \<and> airplanes v = airplanes w \<and> seats v = seats w"

interpretation catalog_kept: world_relation same_catalog
  by unfold_locales (auto simp: same_catalog_def)

lemma kept_query: "stays same_catalog (dbquery f)"
  by (rule staysI) (simp add: dbquery_eq same_catalog_def)

lemma kept_external: "stays same_catalog external"
  by (rule staysI) (simp add: external_def same_catalog_def)

lemma kept_page: "stays same_catalog (page_query skip n f)"
  unfolding page_query_def by (rule staysI) (auto simp: dbcall_eq same_catalog_def split: sum.split)

lemmas kept_intros = catalog_kept.stays_intros kept_query kept_external kept_page

lemma kept_call: "stays same_catalog m \<Longrightarrow> stays same_catalog (callService f svc m)"
  unfolding callService_def by (intro kept_intros)

definition same_flights :: "gateway_state \<Rightarrow> gateway_state \<Rightarrow> bool" where
  "same_flights s t \<longleftrightarrow> same_catalog (gs_flight s) (gs_flight t)"

interpretation gateway_kept: world_relation same_flights
  by unfold_locales (auto simp: same_flights_def intro: catalog_kept.refl catalog_kept.trans)

lemma gateway_on_auth: "stays same_flights (on_auth m)"
  by (rule staysI) (auto simp: on_auth_def same_flights_def intro: catalog_kept.refl split: prod.split)

lemma gateway_on_guards: "stays same_flights (on_guards m)"
  by (rule staysI) (auto simp: on_guards_def same_flights_def intro: catalog_kept.refl split: prod.split)

lemma gateway_on_booking: "stays same_flights (on_booking m)"
  by (rule staysI) (auto simp: on_booking_def same_flights_def intro: catalog_kept.refl split: prod.split)

lemma gateway_on_flight: "stays same_catalog m \<Longrightarrow> stays same_flights (on_flight m)"
  by (auto simp: stays_def on_flight_def same_flights_def split: prod.split) (metis snd_conv)

lemma gateway_guarded: "(\<And>cx'. stays same_flights (h cx')) \<Longrightarrow> stays same_flights (guarded g a cx h)"
  unfolding guarded_def by (intro gateway_kept.stays_intros gateway_on_guards)

lemma gateway_ask: "stays same_catalog m \<Longrightarrow> stays same_flights (ask_flight g m code)"
  unfolding ask_flight_def by (intro gateway_kept.stays_intros gateway_on_flight kept_call)

text \<open>A route for administrators is never carried out.\<close>

lemma gateway_closed: "stays same_flights (guarded g admin_route cx h)"
proof (rule staysI)
  fix s
  show "same_flights s (snd (guarded g admin_route cx h s))"
  proof (rule guarded_cases [of g admin_route cx h s])
    fix e w l
    assume "guarded g admin_route cx h s = (Inl e, s\<lparr>gs_auth := w, gs_limiter := l\<rparr>)"
    then show ?thesis by (simp add: same_flights_def catalog_kept.refl)
  next
    fix cx' w l
    assume "gateway_guards (gc_platform g) send_validate (routed admin_route cx) (gs_auth s, gs_limiter s) = (Inr cx', w, l)"
    from guards_Inr [OF this] show ?thesis by (simp add: admin_route_def)
  qed
qed

lemma gateway_flight_kept: "stays same_flights (gateway_flight g cx r)"
proof (cases "flight_access r = admin_route")
  case True
  then show ?thesis by (simp add: gateway_flight_def gateway_closed)
next
  case False
  then have "stays same_catalog (flight_call r)"
    unfolding flight_call_def flight_access_def
    by (cases r) (simp_all add: search_flights_def findOne_flight_def find_flight_def require_def kept_intros)
  then show ?thesis unfolding gateway_flight_def by (intro gateway_guarded gateway_ask)
qed

lemma gateway_city_kept: "stays same_flights (gateway_city g cx r)"
proof (cases "city_access r = admin_route")
  case True
  then show ?thesis by (simp add: gateway_city_def gateway_closed)
next
  case False
  then have "stays same_catalog (city_call g r)"
    unfolding city_call_def city_access_def
    by (cases r) (simp_all add: city_findAll_def city_page_def city_findOne_def find_city_with_airports_def kept_intros)
  then show ?thesis unfolding gateway_city_def by (intro gateway_guarded gateway_ask)
qed

lemma gateway_airport_kept: "stays same_flights (gateway_airport g cx r)"
proof (cases "airport_access r = admin_route")
  case True
  then show ?thesis by (simp add: gateway_airport_def gateway_closed)
next
  case False
  then have "stays same_catalog (airport_call g r)"
    unfolding airport_call_def airport_access_def
    by (cases r) (simp_all add: airport_findAll_def airport_search_def search_rows_def airport_findOne_def
        airport_findByCode_def find_airport_by_id_def find_airport_by_code_def kept_intros)
  then show ?thesis unfolding gateway_airport_def by (intro gateway_guarded gateway_ask)
qed

lemma gateway_airplane_kept: "stays same_flights (gateway_airplane g cx r)"
proof (cases "airplane_access r = admin_route")
  case True
  then show ?thesis by (simp add: gateway_airplane_def gateway_closed)
next
  case False
  then have "stays same_catalog (airplane_call g r)"
    unfolding airplane_call_def airplane_access_def
    by (cases r) (simp_all add: airplane_findAll_def airplane_search_def search_rows_def airplane_findOne_def
        find_airplane_by_id_def kept_intros)
  then show ?thesis unfolding gateway_airplane_def by (intro gateway_guarded gateway_ask)
qed

lemma gateway_seat_kept: "stays same_flights (gateway_seat g cx r)"
proof (cases "seat_access r = admin_route")
  case True
  then show ?thesis by (simp add: gateway_seat_def gateway_closed)
next
  case False
  then have "stays same_catalog (seat_call g r)"
    unfolding seat_call_def seat_access_def by (cases r) (simp_all add: find_seats_def kept_intros)
  then show ?thesis unfolding gateway_seat_def by (intro gateway_guarded gateway_ask)
qed

lemma gateway_request_kept: "same_flights s (gateway_request g cx x s)"
proof -
  have b: "stays same_flights (gateway_booking g cx r)" for r
    unfolding gateway_booking_def booking_handler_def
    by (intro gateway_guarded gateway_kept.stays_intros gateway_on_auth gateway_on_booking)
  have o: "stays same_flights (guarded g a cx (\<lambda>_. on_auth m))" for a and m :: "(auth_world, 'y) prog"
    by (intro gateway_guarded gateway_on_auth)
  show ?thesis
    unfolding gateway_request_def
    by (cases x) (simp_all add: b o gateway_flight_kept gateway_city_kept gateway_airport_kept gateway_airplane_kept
        gateway_seat_kept gateway_on_guards stays_def [THEN iffD1, rule_format])
qed

text \<open>What the events of the booking service may change: the seats of a flight, its version and its time stamp.\<close>

definition only_seats :: "Flight \<Rightarrow> Flight \<Rightarrow> bool" where
  "only_seats f f' \<longleftrightarrow> f' = f\<lparr>fl_economySeatsAvailable := fl_economySeatsAvailable f',
     fl_businessSeatsAvailable := fl_businessSeatsAvailable f', fl_firstClassSeatsAvailable := fl_firstClassSeatsAvailable f',
     fl_premiumEconomySeatsAvailable := fl_premiumEconomySeatsAvailable f', fl_version := fl_version f',
     fl_updatedAt := fl_updatedAt f'\<rparr>"

definition seats_only :: "flight_world \<Rightarrow> flight_world \<Rightarrow> bool" where
  "seats_only w v \<longleftrightarrow> cities v = cities w \<and> airports v = airports w \<and> airplanes v = airplanes w \<and> seats v = seats w \<and>
     list_all2 only_seats (flights w) (flights v)"

lemma only_seats_refl: "only_seats f f"
  by (simp add: only_seats_def)

lemma only_seats_trans: "only_seats f f' \<Longrightarrow> only_seats f' f'' \<Longrightarrow> only_seats f f''"
  by (cases f; cases f'; cases f'') (simp add: only_seats_def)

interpretation so: world_relation seats_only
  by unfold_locales
    (auto simp: seats_only_def intro: list_all2_refl only_seats_refl list_all2_trans [OF only_seats_trans])

lemma so_kept: "same_catalog w v \<Longrightarrow> seats_only w v"
  by (simp add: same_catalog_def seats_only_def list_all2_refl only_seats_refl)

lemma so_dbcall: "(\<And>w. seats_only w (snd (f w))) \<Longrightarrow> stays seats_only (dbcall f)"
  unfolding dbcall_def
  by (intro so.stays_andThen) (simp_all add: stays_def external_def seats_only_def list_all2_refl only_seats_refl)

lemma so_increment: "stays seats_only (increment i field n)"
proof -
  have "only_seats f ((add_seats c n f)\<lparr>fl_version := a, fl_updatedAt := b\<rparr>)" for c f a b
    by (cases c; cases f) (simp_all add: only_seats_def)
  then have "seats_only w (snd (update_seats i c n w))" for c w
    by (auto simp: update_seats_def seats_only_def list_all2_map2 list_all2_same only_seats_refl)
  then show ?thesis unfolding increment_def by (intro so.stays_intros so_dbcall)
qed

lemma so_save: "stays seats_only (save_processed e ty b)"
  unfolding save_processed_def
  by (intro so_dbcall) (auto simp: seats_only_def list_all2_refl only_seats_refl split: option.split)

lemma so_tx:
  assumes "stays seats_only body"
  shows "stays seats_only (flight_tx body)"
proof (rule staysI)
  fix w
  obtain r v where v: "body (w\<lparr>faults := tl (faults w)\<rparr>) = (r, v)" by fastforce
  have "seats_only w v" using staysD [OF assms v] by (simp add: seats_only_def)
  then show "seats_only w (snd (flight_tx body w))"
    using v by (cases r) (auto simp: atomic_def andThen_def external_def ret_def seats_only_def flight_rollback_def
        list_all2_refl only_seats_refl)
qed

lemma so_deliver: "stays seats_only (deliver k m)"
  unfolding deliver_def handleReserveSeats_def handleConfirmSeats_def handleReleaseSeats_def reserve_body_def
    alreadyProcessed_def find_flight_def dbquery_def
  by (cases k) (auto intro!: so.stays_intros so_tx so_increment so_save so_dbcall so.refl)

lemma gateway_step_kept:
  assumes "\<forall>n. x \<noteq> SeatEventArrives n"
  shows "same_flights t (gateway_exec g t x)"
  using assms
  by (cases x) (simp_all add: gateway_exec_def gateway_request_kept, simp_all add: same_flights_def same_catalog_def)

interpretation closed_flights: guarded_machine "gateway_exec g" "\<lambda>_ x. \<forall>n. x \<noteq> SeatEventArrives n" "same_flights s" for g s
  by unfold_locales (blast intro: gateway_kept.trans gateway_step_kept)

interpretation closed_catalog: invariant_machine "gateway_exec g" "\<lambda>t. seats_only (gs_flight s) (gs_flight t)" for g and s :: gateway_state
proof unfold_locales
  fix t :: gateway_state and x
  assume t: "seats_only (gs_flight s) (gs_flight t)"
  have "seats_only (gs_flight t) (gs_flight (gateway_exec g t x))"
  proof (cases "\<exists>n. x = SeatEventArrives n")
    case True
    then show ?thesis
      using so_deliver
      by (auto simp: gateway_exec_def deliver_published_def stays_def so.refl split: option.split)
  next
    case False
    then have "same_flights t (gateway_exec g t x)" by (intro gateway_step_kept) blast
    then show ?thesis by (simp add: same_flights_def so_kept)
  qed
  with t show "seats_only (gs_flight s) (gs_flight (gateway_exec g t x))" by (rule so.trans)
qed

text \<open>C35. Nobody can change the catalogue through the gateway, and of the flights nothing but the seats: whatever
  requests any clients send with whatever tokens and cookies, in any order, under any failures and together with
  the jobs and payment events of the booking service, every city, airport, airplane and seat stays as it is. The
  flights change in one way only. When a seat event that the booking service has published reaches the event
  handler of the flight service (which no module registers so far), the four counts of available seats may change, with the version and the time of
  the update; without such a delivery the flights stay as they are too. Every route that writes the catalogue asks
  for the role ADMIN, which no user has for the gateway's guard.\<close>

theorem gateway_catalog_frozen:
  "let w = gs_flight s; w' = gs_flight (run_steps (gateway_exec g) s xs)
   in cities w' = cities w \<and> airports w' = airports w \<and> airplanes w' = airplanes w \<and> seats w' = seats w \<and>
      list_all2 (\<lambda>f f'. f' = f\<lparr>fl_economySeatsAvailable := fl_economySeatsAvailable f',
          fl_businessSeatsAvailable := fl_businessSeatsAvailable f',
          fl_firstClassSeatsAvailable := fl_firstClassSeatsAvailable f',
          fl_premiumEconomySeatsAvailable := fl_premiumEconomySeatsAvailable f', fl_version := fl_version f',
          fl_updatedAt := fl_updatedAt f'\<rparr>) (flights w) (flights w') \<and>
      (flights w' = flights w \<or> (\<exists>n. SeatEventArrives n \<in> set xs))"
proof -
  have "seats_only (gs_flight s) (gs_flight (run_steps (gateway_exec g) s xs))"
    by (rule closed_catalog.run_keeps) (rule so.refl)
  moreover have "flights (gs_flight (run_steps (gateway_exec g) s xs)) = flights (gs_flight s)"
    if none: "\<nexists>n. SeatEventArrives n \<in> set xs"
  proof -
    have "all_ok (gateway_exec g) (\<lambda>_ x. \<forall>n. x \<noteq> SeatEventArrives n) t xs" for t
      using none by (induction xs arbitrary: t) auto
    with gateway_kept.refl have "same_flights s (run_steps (gateway_exec g) s xs)" by (rule closed_flights.run_inv)
    then show ?thesis by (simp add: same_flights_def same_catalog_def)
  qed
  ultimately show ?thesis by (auto simp: seats_only_def only_seats_def [abs_def] Let_def)
qed

subsection \<open>Bookings and their owners\<close>

definition same_users :: "auth_world \<Rightarrow> auth_world \<Rightarrow> bool" where
  "same_users w v \<longleftrightarrow> users v = users w \<and> now v = now w"

interpretation users_kept: world_relation same_users
  by unfold_locales (auto simp: same_users_def)

lemma users_external: "stays same_users external"
  by (rule staysI) (simp add: external_def same_users_def)

lemma users_query: "stays same_users (dbquery f)"
  by (rule staysI) (simp add: dbquery_eq same_users_def)

lemma jwt_keeps_users: "stays same_users (jwt_guard pf send_validate cx)"
  unfolding jwt_guard_def verified_user_def send_validate_def validateUser_def find_user_def
  by (cases "cx_type cx") (simp_all add: users_kept.stays_intros users_external users_query)

definition guard_users :: "guard_world \<Rightarrow> guard_world \<Rightarrow> bool" where
  "guard_users s t \<longleftrightarrow> same_users (fst s) (fst t)"

interpretation guard_kept: world_relation guard_users
  by unfold_locales (auto simp: guard_users_def intro: users_kept.refl users_kept.trans)

lemma guard_kept_on_fst: "stays same_users m \<Longrightarrow> stays guard_users (on_fst m)"
  by (auto simp: stays_def guard_users_def)

lemma guard_kept_rate: "stays guard_users (rate_guard cx)"
  by (rule staysI) (auto simp: rate_guard_def guard_users_def intro: users_kept.refl split: prod.split)

lemma guards_keep_users: "stays guard_users (gateway_guards pf send_validate cx)"
  unfolding gateway_guards_def gateway_roles_guard_def
  by (intro guard_kept.stays_intros guard_kept_on_fst guard_kept_rate jwt_keeps_users users_kept.stays_intros)

text \<open>A booking request is refused, or it is carried out for the active user whom its token names.\<close>

lemma gateway_booking_cases:
  obtains (refused) e w where "gateway_booking g cx r s = (Inl e, s\<lparr>gs_auth := w\<rparr>)"
  | (served) token u w where "extractTokenFromHeader cx = Some token"
      "token_user (gc_platform g) (gs_auth s) token = Some u"
      "gateway_booking g cx r s =
         andThen (on_booking (callService (gc_stringify g) Booking_service (booking_call g u r)))
           (\<lambda>result. ret (success_response result (booking_success r))) (s\<lparr>gs_auth := w\<rparr>)"
proof -
  note run = gateway_booking_def
  show thesis
  proof (rule guarded_cases [of g user_route cx "booking_handler g r" s])
    fix e w l
    assume "guarded g user_route cx (booking_handler g r) s = (Inl e, s\<lparr>gs_auth := w, gs_limiter := l\<rparr>)"
      and "ac_limit user_route = None \<Longrightarrow> l = gs_limiter s"
    then show thesis by (intro refused) (simp add: run user_route_def)
  next
    fix cx' w l
    assume gd: "gateway_guards (gc_platform g) send_validate (routed user_route cx) (gs_auth s, gs_limiter s) = (Inr cx', w, l)"
      and h0: "guarded g user_route cx (booking_handler g r) s = booking_handler g r cx' (s\<lparr>gs_auth := w, gs_limiter := l\<rparr>)"
      and "ac_limit user_route = None \<Longrightarrow> l = gs_limiter s"
    then have h: "guarded g user_route cx (booking_handler g r) s = booking_handler g r cx' (s\<lparr>gs_auth := w\<rparr>)"
      by (simp add: user_route_def)
    have same: "users w = users (gs_auth s)" "now w = now (gs_auth s)"
      using staysD [OF guards_keep_users gd] by (simp_all add: guard_users_def same_users_def)
    obtain u where cx': "cx' = (routed user_route cx)\<lparr>cx_user := Some u\<rparr>"
      using guards_Inr [OF gd] by (auto simp: user_route_def)
    have props: "cx_type cx' = Http" "\<not> is_public cx'" "extractTokenFromHeader cx' = extractTokenFromHeader cx"
      unfolding cx' by (simp_all add: routed_def user_route_def getAllAndOverride_def extractTokenFromHeader_def
          cong: option.case_cong)
    obtain q w2 where j: "jwt_guard (gc_platform g) send_validate cx' w = (q, w2)" by fastforce
    show thesis
    proof (cases q)
      case (Inl e)
      then show thesis
        using h j by (intro refused [of e w2]) (simp add: run booking_handler_def on_auth_def andThen_def)
    next
      case (Inr okcx)
      obtain ok cx2 where q: "okcx = (ok, cx2)" by (cases okcx)
      obtain token v where x: "extractTokenFromHeader cx' = Some token"
        and t: "token_user (gc_platform g) w token = Some v" "ok" "cx2 = cx'\<lparr>cx_user := Some v\<rparr>"
        by (rule jwt_guard_Inr [OF j [unfolded Inr q] props(1,2)])
      have x: "extractTokenFromHeader cx = Some token" using x props(3) by simp
      have "token_user (gc_platform g) (gs_auth s) token = Some v" using t(1) unfolding token_user_def same .
      then show thesis
        using h j x t Inr q by (intro served [of token v w2]) (simp_all add: run booking_handler_def on_auth_def andThen_def)
    qed
  qed
qed

text \<open>A call that throws at once: its error comes back as an HTTP exception, and only the script moves on.\<close>

lemma callService_refused:
  assumes "\<And>fs. \<exists>e. m (w\<lparr>faults := fs\<rparr>) = (Inl e, w\<lparr>faults := tl fs\<rparr>)"
  shows "\<exists>e fs. callService f svc m w = (Inl e, w\<lparr>faults := fs\<rparr>)"
proof (rule external_cases [of w])
  assume run: "external w = (Inr (), w\<lparr>faults := tl (faults w)\<rparr>)"
  obtain e where "m (w\<lparr>faults := tl (faults w)\<rparr>) = (Inl e, w\<lparr>faults := tl (tl (faults w))\<rparr>)"
    using assms [of "tl (faults w)"] by blast
  then show ?thesis by (simp add: callService_def tryCatch_def throw_def andThen_def run) blast
next
  assume run: "external w = (Inl down, w\<lparr>faults := tl (faults w)\<rparr>)"
  show ?thesis by (simp add: callService_def tryCatch_def throw_def andThen_def run) blast
qed

text \<open>The four routes that name a booking.\<close>

definition about_booking :: "string \<Rightarrow> booking_route \<Rightarrow> bool" where
  "about_booking b r \<longleftrightarrow> (\<exists>tx. r = PostComplete b tx) \<or> (\<exists>reason. r = PutCancel b reason) \<or> r = PutExtend b \<or> r = GetBooking b"

definition owner_request :: "gateway_config \<Rightarrow> auth_world \<Rightarrow> exec_context \<Rightarrow> Booking \<Rightarrow> bool" where
  "owner_request g w cx b \<longleftrightarrow> (\<exists>token u. extractTokenFromHeader cx = Some token \<and>
     token_user (gc_platform g) w token = Some u \<and> ru_id u = bk_userId b)"

lemma foreign_call:
  assumes "find (\<lambda>b. bk_bookingReference b = r) (bookings w) = Some b" "bk_userId b \<noteq> ru_id u" "about_booking r route"
  shows "\<exists>e. booking_call g u route (w\<lparr>faults := fs\<rparr>) = (Inl e, w\<lparr>faults := tl fs\<rparr>)"
proof -
  have "\<exists>e. ownBooking r (ru_id u) (w\<lparr>faults := fs\<rparr>) = (Inl e, w\<lparr>faults := tl fs\<rparr>)"
    using own_foreign [of r "w\<lparr>faults := fs\<rparr>" b "ru_id u"] assms by simp
  with assms(3) show ?thesis
    by (auto simp: about_booking_def booking_call_def service_completeBooking_def service_cancelBooking_def
        extendBooking_def getBooking_def asBadRequest_def tryCatch_def andThen_def throw_def)
qed

text \<open>C36. Through the gateway a booking belongs to its owner: whoever asks to complete, cancel, extend or read it
  with anything but a token of the active user who made it gets an error, whatever fails on the way, and no
  table, lock, event or message of the booking service changes. The user id of the request comes from the
  token; nothing the client writes into the request can replace it.\<close>

theorem gateway_owner_only:
  assumes "find (\<lambda>b. bk_bookingReference b = r) (bookings (gs_booking s)) = Some b"
    and "about_booking r route" and "\<not> owner_request g (gs_auth s) cx b"
  shows "\<exists>e w fs. gateway_booking g cx route s =
    (Inl e, s\<lparr>gs_auth := w, gs_booking := (gs_booking s)\<lparr>faults := fs\<rparr>\<rparr>)"
proof (rule gateway_booking_cases [of g cx route s])
  fix e w
  assume "gateway_booking g cx route s = (Inl e, s\<lparr>gs_auth := w\<rparr>)"
  then show ?thesis by (intro exI [of _ e] exI [of _ w] exI [of _ "faults (gs_booking s)"]) simp
next
  fix token u w
  assume t: "extractTokenFromHeader cx = Some token" "token_user (gc_platform g) (gs_auth s) token = Some u"
    and run: "gateway_booking g cx route s = andThen (on_booking (callService (gc_stringify g) Booking_service (booking_call g u route)))
      (\<lambda>result. ret (success_response result (booking_success route))) (s\<lparr>gs_auth := w\<rparr>)"
  have "bk_userId b \<noteq> ru_id u" using assms(3) t by (auto simp: owner_request_def)
  then have "\<exists>e. booking_call g u route ((gs_booking s)\<lparr>faults := fs\<rparr>) = (Inl e, (gs_booking s)\<lparr>faults := tl fs\<rparr>)" for fs
    using foreign_call assms(1,2) by blast
  then obtain e fs where "callService (gc_stringify g) Booking_service (booking_call g u route) (gs_booking s) = (Inl e, (gs_booking s)\<lparr>faults := fs\<rparr>)"
    using callService_refused by blast
  then show ?thesis using run by (auto simp: andThen_def on_booking_def)
qed

text \<open>Without failures, a request with the token of an active user is served.\<close>

lemma gateway_booking_served:
  assumes "faults (gs_auth s) = []" "extractTokenFromHeader cx = Some token" "token \<noteq> ''''"
    and "token_user (gc_platform g) (gs_auth s) token = Some u"
  shows "gateway_booking g cx r s = andThen (on_booking (callService (gc_stringify g) Booking_service (booking_call g u r)))
    (\<lambda>result. ret (success_response result (booking_success r))) s"
proof -
  let ?cx = "(routed user_route cx)\<lparr>cx_user := Some u\<rparr>"
  have p: "cx_type ?cx = Http" "\<not> is_public ?cx" "extractTokenFromHeader ?cx = Some token"
    using assms(2) by (simp_all add: routed_def user_route_def getAllAndOverride_def extractTokenFromHeader_def
        cong: option.case_cong)
  have nr: "\<not> is_public (routed user_route cx)" "required_roles (routed user_route cx) = None"
    by (simp_all add: user_route_def)
  have one: "jwt_guard (gc_platform g) send_validate (routed user_route cx) (gs_auth s) = (Inr (True, ?cx), gs_auth s)"
    by (subst jwt_guard_run [OF assms(1) routed_simps(1) nr(1)]) (simp add: assms)
  have "required_roles ?cx = None" using nr(2) by simp
  moreover have "route_limit ?cx = None" by (simp add: routed_def user_route_def getAllAndOverride_def)
  then have "rate_guard ?cx t = (Inr True, t)" for t by (intro unlimited_guard) blast
  ultimately have guards: "gateway_guards (gc_platform g) send_validate (routed user_route cx) (gs_auth s, gs_limiter s) =
      (Inr ?cx, gs_auth s, gs_limiter s)"
    by (simp add: gateway_guards_def one andThen_def gateway_roles_guard_def ret_def)
  have two: "jwt_guard (gc_platform g) send_validate ?cx (gs_auth s) = (Inr (True, ?cx), gs_auth s)"
    by (subst jwt_guard_run [OF assms(1) p(1,2)]) (simp add: p(3) assms)
  show ?thesis
    by (simp add: gateway_booking_def guarded_def on_guards_def on_auth_def guards andThen_def booking_handler_def two)
qed

lemma own_found:
  assumes "faults w = []" "find (\<lambda>b. bk_bookingReference b = r) (bookings w) = Some b"
  shows "ownBooking r (bk_userId b) w = (Inr b, w)"
  using assms by (simp add: ownBooking_def findByReference_def andThen_def ret_def)

text \<open>C30. A booking can be completed through the gateway without a payment. When its owner posts any transaction id of
  up to 100 characters to the route for completion and nothing fails on the way, the booking that is held becomes
  BOOKED and paid under that id, whatever the payment client is and would answer: nothing asks it.\<close>

theorem gateway_completes_unpaid:
  assumes "held (gs_booking s) sg b" and "sg_status sg \<noteq> SG_BOOKING_CONFIRMED"
    and "faults (gs_auth s) = []" and "extractTokenFromHeader cx = Some token" and "token \<noteq> ''''"
    and "token_user (gc_platform g) (gs_auth s) token = Some u" and "ru_id u = bk_userId b"
    and "tx \<noteq> ''''" and "length tx \<le> 100"
  shows "\<exists>reply s' b'. gateway_booking g cx (PostComplete (bk_bookingReference b) (Some tx)) s = (Inr reply, s') \<and>
    api_response.ap_code reply = Some ''booking.confirm.success'' \<and> b' \<in> set (bookings (gs_booking s')) \<and>
    bk_bookingReference b' = bk_bookingReference b \<and> bk_status b' = BS_BOOKED \<and> bk_paymentStatus b' = PS_COMPLETED \<and>
    bk_paymentTransactionId b' = Some tx"
proof -
  let ?w = "gs_booking s" and ?r = "bk_bookingReference b" and ?b = "touch (now (gs_booking s)) (booked tx (now (gs_booking s))) b"
  have r: "?r = sg_bookingId sg" and f: "faults ?w = []" using assms(1) by (simp_all add: held_def ready_def)
  note found = held_find [OF assms(1), folded r]
  obtain v e1 e2 where c: "completeBooking ?r tx ?w = (Inr (Some ?b), v)" "completed tx ?w sg e1 e2 v"
    using complete_held [OF assms(1,2,9)] r by auto
  have v: "find (\<lambda>b. bk_bookingReference b = ?r) (bookings v) = Some ?b"
    using c(2) find_put_booking [OF held_find [OF assms(1)]] r by (simp add: completed_def)
  have "service_completeBooking ?r (ru_id u) (Some tx) ?w = (Inr \<lparr>rc_bookingId = bk_bookingReference ?b,
      rc_status = bk_status ?b, rc_paymentStatus = bk_paymentStatus ?b, rc_seatNumbers = bk_seatNumbers ?b,
      rc_flightNumber = bk_flightNumber ?b\<rparr>, v)"
    using own_found [OF f found] found c(1) f assms(7,8)
    by (simp add: service_completeBooking_def completeBookingFromPaymentEvent_def asBadRequest_def tryCatch_def
        findByReference_def)
  then obtain reply where "gateway_booking g cx (PostComplete ?r (Some tx)) s = (Inr reply, s\<lparr>gs_booking := v\<rparr>)"
    "api_response.ap_code reply = fst (resolveMessage ''booking.confirm.success'')"
    unfolding gateway_booking_served [OF assms(3-6)]
    using f by (simp add: on_booking_def callService_def andThen_def tryCatch_def booking_call_def ret_def
        success_response_def booking_success_def)
  moreover have "fst (resolveMessage ''booking.confirm.success'') = Some ''booking.confirm.success''"
    by (simp add: resolveMessage_def isMessageKey_def MESSAGES_def SUCCESS_MESSAGES_def)
  moreover have "?b \<in> set (bookings v)" using v by (auto simp: find_Some_iff)
  moreover have "bk_bookingReference ?b = ?r" "bk_status ?b = BS_BOOKED" "bk_paymentStatus ?b = PS_COMPLETED"
    "bk_paymentTransactionId ?b = Some tx"
    by (simp_all add: touch_def booked_def)
  ultimately show ?thesis by (intro exI [of _ reply] exI [of _ "s\<lparr>gs_booking := v\<rparr>"] exI [of _ ?b]) simp
qed

subsection \<open>Concrete requests\<close>

text \<open>A booking of a seat on flight 7, whose seat event reaches the flight service twice.\<close>

definition demo_flight :: Flight where
  "demo_flight = \<lparr>fl_id = 7, fl_flightNumber = ''AF 12'', fl_airplaneId = 1, fl_departureAirportId = 1,
     fl_arrivalAirportId = 2, fl_departureTime = 5000, fl_arrivalTime = 9000, fl_boardingGate = None, fl_terminal = None,
     fl_economyPrice = 100, fl_businessPrice = 300, fl_firstClassPrice = 500, fl_premiumEconomyPrice = 200,
     fl_economySeatsAvailable = 10, fl_businessSeatsAvailable = 4, fl_firstClassSeatsAvailable = 2,
     fl_premiumEconomySeatsAvailable = 3, fl_status = FS_SCHEDULED, fl_version = 1, fl_createdAt = 0, fl_updatedAt = 0\<rparr>"

definition demo_seat_gateway :: gateway_state where
  "demo_seat_gateway = (demo_gateway sample_world)\<lparr>gs_flight := empty_flights\<lparr>flights := [demo_flight]\<rparr>\<rparr>"

definition demo_seat_steps :: "gateway_step list" where
  "demo_seat_steps = [Request demo_request (BookingRequest (PostBooking \<lparr>gb_flightId = 7, gb_seats = 1, gb_seatPreference = None,
       gb_seatClass = None, gb_seatNumbers = Some [''12A'']\<rparr>)), RunPublisher, SeatEventArrives 1, SeatEventArrives 1]"

theorem gateway_catalog_frozen_witness:
  "map (\<lambda>f. (fl_economySeatsAvailable f, fl_version f))
     (flights (gs_flight (run_steps (gateway_exec demo_config) demo_seat_gateway demo_seat_steps))) = [(9, 2)] \<and>
   cities (gs_flight (run_steps (gateway_exec demo_config) demo_seat_gateway demo_seat_steps)) = []"
proof
  show "map (\<lambda>f. (fl_economySeatsAvailable f, fl_version f))
     (flights (gs_flight (run_steps (gateway_exec demo_config) demo_seat_gateway demo_seat_steps))) = [(9, 2)]"
    by code_simp
  have "cities (gs_flight demo_seat_gateway) = []" by (simp add: demo_seat_gateway_def empty_flights_def)
  then show "cities (gs_flight (run_steps (gateway_exec demo_config) demo_seat_gateway demo_seat_steps)) = []"
    using gateway_catalog_frozen [of demo_seat_gateway demo_config demo_seat_steps] by (simp add: Let_def)
qed

definition demo_pending :: booking_world where
  "demo_pending = sample_held SG_FLIGHT_RESERVED 3 BS_PENDING"

lemma demo_pending_found:
  "find (\<lambda>b. bk_bookingReference b = show_nat 1) (bookings demo_pending) = Some (sample_booking BS_PENDING)"
  "bk_bookingReference (sample_booking BS_PENDING) = show_nat 1" "bk_userId (sample_booking BS_PENDING) = 5"
  by (simp_all add: demo_pending_def sample_held_def sample_booking_def stored_booking_def sample_saga_def new_saga_def
      new_booking_def sample_dto_def blank_booking_def Let_def)

text \<open>The demo user has the id 1, the booking belongs to user 5.\<close>

theorem gateway_owner_only_witness:
  "\<exists>e w fs. gateway_booking demo_config demo_request (PutCancel (show_nat 1) None) (demo_gateway demo_pending) =
     (Inl e, (demo_gateway demo_pending)\<lparr>gs_auth := w, gs_booking := demo_pending\<lparr>faults := fs\<rparr>\<rparr>)"
proof -
  have found: "find (\<lambda>b. bk_bookingReference b = show_nat 1) (bookings (gs_booking (demo_gateway demo_pending))) =
      Some (sample_booking BS_PENDING)"
    using demo_pending_found(1) by (simp add: demo_gateway_def)
  have about: "about_booking (show_nat 1) (PutCancel (show_nat 1) None)" by (simp add: about_booking_def)
  have "extractTokenFromHeader demo_request = Some ''access''" by code_simp
  moreover have "map_option ru_id (token_user (gc_platform demo_config) (gs_auth (demo_gateway demo_pending)) ''access'') = Some 1"
    unfolding demo_gateway_def gateway_state.select_convs by code_simp
  ultimately have "\<not> owner_request demo_config (gs_auth (demo_gateway demo_pending)) demo_request (sample_booking BS_PENDING)"
    by (auto simp: owner_request_def demo_pending_found)
  from gateway_owner_only [OF found about this] show ?thesis by (simp add: demo_gateway_def)
qed

text \<open>The same user with the id 5.\<close>

definition demo_owner :: gateway_state where
  "demo_owner = (demo_gateway demo_pending)\<lparr>gs_auth := demo_auth_world\<lparr>users := [demo_user\<lparr>us_id := 5\<rparr>]\<rparr>\<rparr>"

definition demo_owner_config :: gateway_config where
  "demo_owner_config = demo_config\<lparr>gc_platform := demo_platform\<lparr>verify_access :=
     (\<lambda>tok t. Some \<lparr>ac_id = 5, ac_email = ''ann@x.io'', ac_roles = []\<rparr>)\<rparr>\<rparr>"

theorem gateway_completes_unpaid_witness:
  "\<exists>reply s' b'. gateway_booking demo_owner_config demo_request (PostComplete (show_nat 1) (Some ''free'')) demo_owner =
     (Inr reply, s') \<and> b' \<in> set (bookings (gs_booking s')) \<and> bk_status b' = BS_BOOKED \<and> bk_paymentStatus b' = PS_COMPLETED"
proof -
  have held: "held (gs_booking demo_owner) (sample_saga SG_FLIGHT_RESERVED 3) (sample_booking BS_PENDING)"
    by (simp add: demo_owner_def demo_gateway_def demo_pending_def sample_held_ok int4_ok_def)
  have saga: "sg_status (sample_saga SG_FLIGHT_RESERVED 3) \<noteq> SG_BOOKING_CONFIRMED" by (simp add: sample_saga_def)
  have quiet: "faults (gs_auth demo_owner) = []" by (simp add: demo_owner_def demo_auth_world_def)
  have token: "extractTokenFromHeader demo_request = Some ''access''" by code_simp
  have "map_option ru_id (token_user (gc_platform demo_owner_config) (demo_auth_world\<lparr>users := [demo_user\<lparr>us_id := 5\<rparr>]\<rparr>) ''access'') = Some 5"
    by code_simp
  then obtain u where user: "token_user (gc_platform demo_owner_config) (gs_auth demo_owner) ''access'' = Some u" "ru_id u = 5"
    by (auto simp: demo_owner_def)
  have owner: "ru_id u = bk_userId (sample_booking BS_PENDING)" using user(2) by (simp add: demo_pending_found)
  have "''access'' \<noteq> ''''" "''free'' \<noteq> ''''" "length ''free'' \<le> 100" by simp_all
  from gateway_completes_unpaid [OF held saga quiet token this(1) user(1) owner this(2,3)]
  show ?thesis unfolding demo_pending_found(2) by blast
qed

end
