(* ===== verification/GatewayCosts.thy ===== *)
theory GatewayCosts
  imports Gateway
begin

text \<open>
  What bookings cost. The saga takes the price from the request, and the request that the gateway sends
  has none; this theory follows the price through the booking service.
\<close>

subsection \<open>Programs that write no price\<close>

definition prices :: "booking_world \<Rightarrow> rat set" where
  "prices w = bk_totalCost ` set (bookings w)"

text \<open>No new price but zero, and the saga in memory still has the request it had.\<close>

definition same_costs :: "booking_world \<Rightarrow> booking_world \<Rightarrow> bool" where
  "same_costs w v \<longleftrightarrow> prices v \<subseteq> insert 0 (prices w) \<and> sg_payload (obj v) = sg_payload (obj w)"

definition no_new_cost :: "booking_world \<Rightarrow> booking_world \<Rightarrow> bool" where
  "no_new_cost w v \<longleftrightarrow> prices v \<subseteq> insert 0 (prices w)"

interpretation sc: world_relation same_costs
  by unfold_locales (auto simp: same_costs_def)

interpretation nc: world_relation no_new_cost
  by unfold_locales (auto simp: no_new_cost_def)

lemma nc_same: "stays same_costs m \<Longrightarrow> stays no_new_cost m"
  by (erule stays_mono) (simp add: same_costs_def no_new_cost_def)

lemma stays_reader: "(\<And>x. stays R (f x)) \<Longrightarrow> stays R (\<lambda>w. f w w)"
  by (simp add: stays_def)

lemma sc_leave: "(\<And>w. bookings (snd (m w)) = bookings w \<and> obj (snd (m w)) = obj w) \<Longrightarrow> stays same_costs m"
  by (auto simp: stays_def same_costs_def prices_def)

lemma sc_leaves:
  "stays same_costs external" "stays same_costs freshUuid" "stays same_costs (query q)" "stays same_costs (find_saga p)"
  "stays same_costs (findByReference r)" "stays same_costs (insert_saga s)" "stays same_costs (storeEvent ty ag ev pl)"
  "stays same_costs (update_event i f)" "stays same_costs (publish msg)" "stays same_costs cleanupOldEvents"
  "stays same_costs (releaseSeats_call fl b)"
  by (rule sc_leave; auto simp: external_def freshUuid_def query_eq find_saga_def findByReference_def insert_saga_def
      storeEvent_def update_event_def publish_def cleanupOldEvents_def releaseSeats_call_def stmt_eq modify_def
      andThen_def Let_def)+

lemma sc_lock_calls: "stays same_costs (lockSeats_call fl ss b u)" "stays same_costs (extendLock_call fl b n)"
  by (rule sc_leave; auto simp: lockSeats_call_def extendLock_call_def external_def throw_def andThen_def Let_def
      split: prod.splits sum.splits)+

lemma sc_save: "stays same_costs save_obj"
  by (rule staysI) (auto simp: save_obj_def stmt_eq Let_def same_costs_def prices_def)

lemma sc_set_obj: "(\<And>s. sg_payload (f s) = sg_payload s) \<Longrightarrow> stays same_costs (set_obj f)"
  by (rule staysI) (auto simp: same_costs_def prices_def)

lemma nc_set_obj: "stays no_new_cost (set_obj f)"
  by (rule staysI) (auto simp: no_new_cost_def prices_def)

lemma sc_update: "(\<And>b. bk_totalCost (f b) = bk_totalCost b) \<Longrightarrow> stays same_costs (update_bookings p f)"
  by (rule staysI) (auto simp: update_bookings_def stmt_eq same_costs_def prices_def touch_def)

lemma stays_tx:
  assumes "stays R body" and "\<And>w fs. R w (w\<lparr>faults := fs\<rparr>)" and "\<And>u v w. R u v \<Longrightarrow> R v w \<Longrightarrow> R u w"
    and "\<And>w v. R w v \<Longrightarrow> R w (v\<lparr>bookings := bookings w, sagas := sagas w, outbox := outbox w\<rparr>)"
  shows "stays R (transaction body)"
proof (rule staysI)
  fix w
  obtain r v where b: "body (w\<lparr>faults := tl (faults w)\<rparr>) = (r, v)" by fastforce
  have wb: "R w v" by (rule assms(3) [OF assms(2) staysD [OF assms(1) b]])
  then have wv: "R w (v\<lparr>faults := fs\<rparr>)" for fs by (rule assms(3)) (rule assms(2))
  show "R w (snd (transaction body w))"
    using b assms(4) [OF wb] assms(4) [OF wv] assms(4) [OF assms(2)] wv
    by (cases r) (auto simp: transaction_def andThen_def external_def ret_def)
qed

lemma sc_tx: "stays same_costs body \<Longrightarrow> stays same_costs (transaction body)"
  by (erule stays_tx) (auto simp: same_costs_def prices_def intro: sc.trans dest!: subsetD)

lemmas sc_intros = sc.stays_intros sc_leaves sc_lock_calls sc_save sc_tx

lemma sc_readers:
  "stays same_costs (\<lambda>w. storeEvent ty (ag w) ev (pl w) w)" "stays same_costs (\<lambda>w. publish (msg (now w)) w)"
  "stays same_costs (\<lambda>w. update_event i (g (now w)) w)"
  "stays same_costs (\<lambda>w. andThen (storeEvent ty (ag w) ev (pl w)) (\<lambda>_. ret ()) w)"
  by (rule stays_reader, intro sc_intros)+

lemma sc_update_readers:
  "stays same_costs (\<lambda>w. update_bookings (p w) (cancelled msg (now w)) w)"
  "stays same_costs (\<lambda>w. update_bookings (p w) (booked tx (now w)) w)"
  "stays same_costs (\<lambda>w. update_bookings (p w) (\<lambda>b. b\<lparr>bk_status := st\<rparr>) w)"
  by (rule stays_reader, rule sc_update, simp add: cancelled_def booked_def)+

lemma sc_compensate: "stays same_costs (compensate msg)"
proof -
  have parts: "stays same_costs compensate_event" "stays same_costs compensate_locks"
    unfolding compensate_event_def [abs_def] compensate_locks_def [abs_def]
    by (rule stays_reader, intro sc_intros)+
  have "stays same_costs (compensate_body m)" for m
    unfolding compensate_body_def by (intro sc_intros parts sc_update_readers sc_set_obj) simp_all
  then have "stays same_costs (tryCatch (transaction (compensate_body m)) (\<lambda>_. ret ()))" for m
    by (intro sc_intros)
  then show ?thesis by (auto simp: stays_def compensate_def sc.refl)
qed

lemma sc_compensating: "stays same_costs m \<Longrightarrow> stays same_costs (compensating m)"
  unfolding compensating_def by (intro sc_intros sc_compensate)

lemma sc_steps: "stays same_costs executeStep2_LockSeats" "stays same_costs executeStep3_ReserveFlightSeats"
proof -
  have two: "stays same_costs (step2_body l)" for l
    unfolding step2_body_def by (intro sc_intros sc_set_obj) simp
  have three: "stays same_costs step3_body"
    unfolding step3_body_def by (intro sc_intros sc_readers sc_update_readers sc_set_obj) simp
  have "stays same_costs (compensating (andThen (lockSeats_call f xs b u) (\<lambda>locked.
      if \<not> success locked then throw (g locked) else transaction (step2_body locked))))" for f xs b u g
    by (intro sc_intros sc_compensating two)
  then show "stays same_costs executeStep2_LockSeats"
    by (auto simp: stays_def executeStep2_LockSeats_def Let_def sc.refl)
  have "stays same_costs (compensating (transaction step3_body))"
    by (intro sc_intros sc_compensating three)
  then show "stays same_costs executeStep3_ReserveFlightSeats"
    by (auto simp: stays_def executeStep3_ReserveFlightSeats_def sc.refl)
qed

subsection \<open>A request without a price\<close>

text \<open>While the saga in memory has no price, the first step stores zero.\<close>

definition priceless :: "booking_world \<Rightarrow> booking_world \<Rightarrow> bool" where
  "priceless w v \<longleftrightarrow> (cb_totalCost (sg_payload (obj w)) = None \<longrightarrow>
     cb_totalCost (sg_payload (obj v)) = None \<and> no_new_cost w v)"

interpretation pl: world_relation priceless
  by unfold_locales (auto simp: priceless_def intro: nc.refl nc.trans)

lemma pl_same: "stays same_costs m \<Longrightarrow> stays priceless m"
  by (erule stays_mono) (auto simp: same_costs_def priceless_def no_new_cost_def)

lemma round2_zero: "round2 0 = 0"
proof -
  have "\<lfloor>1 / 2 :: rat\<rfloor> = 0" by (simp add: floor_eq_iff)
  then show ?thesis by (simp add: round2_def)
qed

lemma pl_insert: "stays priceless (\<lambda>w. insert_booking (new_booking (obj w) (now w)) w)"
proof (rule staysI)
  fix w :: booking_world
  have "bk_totalCost (new_booking (obj w) t) = 0" if "cb_totalCost (sg_payload (obj w)) = None" for t
    using that by (simp add: new_booking_def Let_def)
  then show "priceless w (snd (insert_booking (new_booking (obj w) (now w)) w))"
    by (auto simp: insert_booking_def stmt_eq Let_def priceless_def no_new_cost_def prices_def round2_zero)
qed

lemma pl_step1: "stays priceless executeStep1_CreateBooking"
proof -
  have "stays priceless step1_body"
    unfolding step1_body_def
    by (intro pl.stays_intros pl_insert pl_same sc_set_obj sc_save sc_readers) simp
  then have "stays priceless (transaction step1_body)"
    by (rule stays_tx) (auto simp: priceless_def no_new_cost_def prices_def dest!: subsetD)
  then show ?thesis by (auto simp: stays_def executeStep1_CreateBooking_def pl.refl)
qed

text \<open>Sequencing where the second part needs to know what the first returned.\<close>

lemma nc_then:
  assumes "stays no_new_cost m" "\<And>a w v. m w = (Inr a, v) \<Longrightarrow> P a" "\<And>a. P a \<Longrightarrow> stays no_new_cost (f a)"
  shows "stays no_new_cost (andThen m f)"
proof (rule staysI)
  fix w
  obtain r v where m: "m w = (r, v)" by fastforce
  have first: "no_new_cost w v" by (rule staysD [OF assms(1) m])
  show "no_new_cost w (snd (andThen m f w))"
  proof (cases r)
    case (Inl e)
    with m first show ?thesis by (simp add: andThen_def)
  next
    case (Inr a)
    with assms(3) [OF assms(2)] m have "no_new_cost v (snd (f a v))" by (simp add: stays_def)
    with m Inr first show ?thesis by (auto simp: andThen_def intro: nc.trans)
  qed
qed

lemma nc_run_saga:
  assumes "cb_totalCost dto = None"
  shows "stays no_new_cost (run_saga dto key)"
proof -
  let ?rest = "\<lambda>b. andThen executeStep1_CreateBooking (\<lambda>_. andThen executeStep2_LockSeats (\<lambda>_.
     andThen executeStep3_ReserveFlightSeats (\<lambda>_. findByReference b)))"
  have rest: "stays priceless (?rest b)" for b
    by (intro pl.stays_intros pl_step1 pl_same sc_steps sc_leaves)
  have start: "stays no_new_cost (andThen (set_obj (\<lambda>_. s)) (\<lambda>_. ?rest b))" if "cb_totalCost (sg_payload s) = None" for s b
  proof (rule staysI)
    fix w
    have "priceless (w\<lparr>obj := s\<rparr>) (snd (?rest b (w\<lparr>obj := s\<rparr>)))" using rest by (simp add: stays_def)
    with that show "no_new_cost w (snd (andThen (set_obj (\<lambda>_. s)) (\<lambda>_. ?rest b) w))"
      by (simp add: priceless_def no_new_cost_def prices_def andThen_def)
  qed
  have saved: "stays no_new_cost (andThen (insert_saga (new_saga a b dto key)) (\<lambda>s. andThen (set_obj (\<lambda>_. s)) (\<lambda>_. ?rest b)))" for a b
  proof (rule nc_then [where P = "\<lambda>s. cb_totalCost (sg_payload s) = None"])
    show "stays no_new_cost (insert_saga (new_saga a b dto key))" by (rule nc_same) (rule sc_leaves)
    show "insert_saga (new_saga a b dto key) w = (Inr s, v) \<Longrightarrow> cb_totalCost (sg_payload s) = None" for s w v
      using assms by (auto simp: new_saga_def dest!: insert_saga_Inr(10))
  qed (rule start)
  note fresh = nc.stays_andThen [OF nc_same [OF sc_leaves(2)]]
  show ?thesis unfolding run_saga_def by (rule fresh, rule fresh, rule saved)
qed

subsection \<open>The operations of the service\<close>

lemma nc_leaves:
  "stays no_new_cost external" "stays no_new_cost (query q)" "stays no_new_cost (find_saga p)"
  "stays no_new_cost (findByReference r)" "stays no_new_cost (releaseSeats_call f b)"
  "stays no_new_cost (extendLock_call f b n)" "stays no_new_cost (compensate msg)" "stays no_new_cost freshUuid"
  by (rule nc_same, intro sc_intros sc_compensate)+

lemma nc_complete: "stays no_new_cost (completeBooking b tx)"
proof -
  have "stays same_costs (complete_body b tx)"
    unfolding complete_body_def by (intro sc_intros sc_readers sc_update_readers sc_set_obj) simp
  then have "stays no_new_cost (transaction (complete_body b tx))" by (intro nc_same sc_tx)
  then show ?thesis
    unfolding completeBooking_def by (intro nc.stays_intros nc_leaves nc_set_obj)
qed

lemma nc_cancel: "stays no_new_cost (cancelBooking b reason)"
  unfolding cancelBooking_def by (intro nc.stays_intros nc_leaves nc_set_obj)

lemma nc_client: "stays no_new_cost (paymentClient mode rpc req)"
  unfolding paymentClient_def rpc_createPaymentIntent_def mock_createPaymentIntent_def
  by (simp add: nc.stays_intros nc_leaves)

lemma nc_bad:
  "stays no_new_cost m \<Longrightarrow> stays no_new_cost (asBadRequest m)"
  "stays no_new_cost m \<Longrightarrow> stays no_new_cost (textAsBadRequest m)"
  unfolding asBadRequest_def textAsBadRequest_def by (intro nc.stays_intros; assumption)+

lemma nc_create:
  assumes "cb_totalCost dto = None"
  shows "stays no_new_cost (createBooking (paymentClient mode rpc) dto u)"
proof -
  have "stays no_new_cost (executeBookingSaga (dto\<lparr>cb_userId := u\<rparr>) None)"
    using nc_run_saga assms by (simp add: executeBookingSaga_def)
  moreover have "stays no_new_cost (settle_payment (paymentClient mode rpc) b u)" for b
    unfolding settle_payment_def createPaymentIntentForBooking_def
    by (intro nc.stays_intros nc_leaves nc_client nc_complete)
  then have "stays no_new_cost (prepareBookingForPayment (paymentClient mode rpc) found u)" for found
    unfolding prepareBookingForPayment_def rollbackBookingAfterPaymentFailure_def
    by (intro nc.stays_intros nc_cancel)
  ultimately show ?thesis
    unfolding createBooking_def by (intro nc_bad nc.stays_intros)
qed

lemma nc_event: "stays no_new_cost (completeBookingFromPaymentEvent b tx)"
  unfolding completeBookingFromPaymentEvent_def by (intro nc.stays_intros nc_leaves nc_complete)

lemma nc_own: "stays no_new_cost (ownBooking b u)"
  unfolding ownBooking_def by (intro nc.stays_intros nc_leaves)

lemma nc_extend: "stays no_new_cost (extendBooking b u)"
proof -
  have "stays no_new_cost (update_booking i (\<lambda>b. b\<lparr>bk_expiresAt := x\<rparr>))" for i x
    unfolding update_booking_def by (intro nc.stays_intros nc_leaves nc_same sc_update) simp
  then show ?thesis
    unfolding extendBooking_def by (intro nc_bad nc.stays_intros nc_own nc_leaves)
qed

lemma nc_call: "gc_client g = paymentClient mode rpc \<Longrightarrow> stays no_new_cost (booking_call g u r)"
  unfolding booking_call_def
  by (cases r)
    (simp_all add: nc.stays_andThen nc.stays_ret nc.stays_gets nc_create booking_payload_def service_completeBooking_def
      service_cancelBooking_def nc_bad nc_own nc_event nc_cancel nc_extend getMyBookings_def findByUserId_def nc_leaves
      getBooking_def checkSeatAvailability_def nc.stays_option nc.stays_throw)

lemma nc_publish: "stays no_new_cost publishPendingEvents"
proof -
  have "stays same_costs (publishEvent e)" for e
    unfolding publishEvent_def moveToDeadLetterQueue_def by (intro sc_intros sc_readers)
  then show ?thesis
    unfolding publishPendingEvents_def by (intro nc_same sc_intros)
qed

lemma nc_jobs:
  "stays no_new_cost (handlePaymentCompleted msg)" "stays no_new_cost cleanupExpiredBookings"
  "stays no_new_cost cleanupOldEvents"
  unfolding handlePaymentCompleted_def cleanupExpiredBookings_def cleanup_one_def [abs_def] findExpiredBookings_def
  by (intro nc.stays_intros nc_event nc_cancel nc_leaves nc_same [OF sc_leaves(10)])+

subsection \<open>The gateway\<close>

definition gateway_cost :: "gateway_state \<Rightarrow> gateway_state \<Rightarrow> bool" where
  "gateway_cost s t \<longleftrightarrow> no_new_cost (gs_booking s) (gs_booking t)"

interpretation gc: world_relation gateway_cost
  by unfold_locales (auto simp: gateway_cost_def intro: nc.refl nc.trans)

lemma gc_services:
  "stays gateway_cost (on_auth m)" "stays gateway_cost (on_guards k)" "stays gateway_cost (on_flight m')"
  "stays no_new_cost n \<Longrightarrow> stays gateway_cost (on_booking n)"
  by (auto simp: stays_def on_auth_def on_guards_def on_flight_def on_booking_def gateway_cost_def intro: nc.refl split: prod.split)
    (metis snd_conv)

lemma gc_guarded: "(\<And>cx'. stays gateway_cost (h cx')) \<Longrightarrow> stays gateway_cost (guarded g a cx h)"
  unfolding guarded_def by (intro gc.stays_intros gc_services)

lemma gc_flight_routes:
  "stays gateway_cost (gateway_flight g cx fr)" "stays gateway_cost (gateway_city g cx cr)"
  "stays gateway_cost (gateway_airport g cx ar)" "stays gateway_cost (gateway_airplane g cx pr)"
  "stays gateway_cost (gateway_seat g cx sr)"
  unfolding gateway_flight_def gateway_city_def gateway_airport_def gateway_airplane_def gateway_seat_def ask_flight_def
  by (intro gc_guarded gc.stays_intros gc_services)+

lemma gc_booking:
  assumes "gc_client g = paymentClient mode rpc"
  shows "stays gateway_cost (gateway_booking g cx r)"
proof -
  have "stays no_new_cost (callService f Booking_service (booking_call g u r))" for f u
    unfolding callService_def by (intro nc.stays_intros nc_leaves nc_call [OF assms])
  then show ?thesis
    unfolding gateway_booking_def booking_handler_def by (intro gc_guarded gc.stays_intros gc_services)
qed

lemma gc_request:
  assumes "gc_client g = paymentClient mode rpc"
  shows "gateway_cost s (gateway_request g cx x s)"
proof -
  have o: "stays gateway_cost (guarded g a cx (\<lambda>_. on_auth m))" for a and m :: "(auth_world, 'y) prog"
    by (intro gc_guarded gc_services)
  show ?thesis
    unfolding gateway_request_def
    by (cases x) (simp_all add: o gc_booking [OF assms] gc_flight_routes gc_services stays_def [THEN iffD1, rule_format])
qed

interpretation costs: invariant_machine "gateway_exec (g\<lparr>gc_client := paymentClient mode rpc\<rparr>)" "gateway_cost s" for g mode rpc s
proof unfold_locales
  fix t x
  assume t: "gateway_cost s t"
  let ?g = "g\<lparr>gc_client := paymentClient mode rpc\<rparr>"
  have "gateway_cost t (gateway_exec ?g t x)"
  proof (cases x)
    case (Request cx r)
    then show ?thesis using gc_request [of ?g mode rpc t cx r] by (simp add: gateway_exec_def)
  next
    case (SeatEventArrives n)
    then show ?thesis by (simp add: gateway_exec_def deliver_published_def gateway_cost_def nc.refl split: option.split prod.split)
  next
    case (Passing n fa fl fb ff)
    then show ?thesis by (auto simp: gateway_exec_def gateway_cost_def no_new_cost_def prices_def)
  qed (simp_all add: gateway_exec_def gateway_cost_def booking_exec_def nc_jobs nc_publish
      stays_def [THEN iffD1, rule_format])
  with t show "gateway_cost s (gateway_exec ?g t x)" by (rule gc.trans)
qed

text \<open>C37. Every booking made through the gateway is free of charge: from an empty table of bookings, whatever
  requests any clients send, whatever payment events and jobs run and whatever fails, each booking has the
  total cost zero, and what the payment client is asked to charge for it is zero cents. The gateway's DTO
  has no price, and no other code of the booking service computes one.\<close>

theorem gateway_bookings_free:
  assumes "gc_client g = paymentClient mode rpc" and "bookings (gs_booking s) = []"
    and "b \<in> set (bookings (gs_booking (run_steps (gateway_exec g) s xs)))"
  shows "bk_totalCost b = 0 \<and> pr_amountCents (payment_request b u) = 0"
proof -
  have "gateway_cost s (run_steps (gateway_exec (g\<lparr>gc_client := paymentClient mode rpc\<rparr>)) s xs)"
    by (rule costs.run_keeps) (rule gc.refl)
  moreover have "g\<lparr>gc_client := paymentClient mode rpc\<rparr> = g" using assms(1) by simp
  ultimately have "gateway_cost s (run_steps (gateway_exec g) s xs)" by simp
  then have "bk_totalCost b = 0"
    using assms(2,3) by (auto simp: gateway_cost_def no_new_cost_def prices_def)
  moreover have "\<lfloor>1 / 2 :: rat\<rfloor> = 0" by (simp add: floor_eq_iff)
  ultimately show ?thesis by (simp add: payment_request_def)
qed

definition demo_booking_dto :: GatewayBookingDto where
  "demo_booking_dto = \<lparr>gb_flightId = 7, gb_seats = 1, gb_seatPreference = None, gb_seatClass = None, gb_seatNumbers = Some [''12A'']\<rparr>"

definition demo_booked :: gateway_state where
  "demo_booked = run_steps (gateway_exec demo_config) (demo_gateway sample_world)
     [Request demo_request (BookingRequest (PostBooking demo_booking_dto))]"

lemma gateway_bookings_free_witness:
  "map bk_totalCost (bookings (gs_booking demo_booked)) = [0]"
proof -
  have "gc_client demo_config = paymentClient LOCAL_MOCK (\<lambda>x. Inr None)" by (simp add: demo_config_def)
  moreover have "bookings (gs_booking (demo_gateway sample_world)) = []" by (simp add: demo_gateway_def sample_world_def)
  ultimately have free: "bk_totalCost b = 0" if "b \<in> set (bookings (gs_booking demo_booked))" for b
    using that gateway_bookings_free [of demo_config LOCAL_MOCK "\<lambda>x. Inr None" "demo_gateway sample_world" b]
    unfolding demo_booked_def by blast
  have "length (bookings (gs_booking demo_booked)) = 1" by code_simp
  then obtain b where "bookings (gs_booking demo_booked) = [b]" by (auto simp: length_Suc_conv)
  with free show ?thesis by simp
qed

end
