(* ===== verification/Sql.thy ===== *)
theory Sql
  imports Prelude
begin

text \<open>
  The SQL of the migrations, as PostgreSQL documents it: tables with typed columns, keys, indexes and rows,
  and the statements the migration files of the services are made of, the helpers of TypeORM's query
  runner among them. A statement either fails and changes nothing or answers with the new database.
\<close>

subsection \<open>Values and types\<close>

text \<open>
  A cell is a value of a PostgreSQL type: the text of an integer, a uuid or an address has been read. An
  enumeration is named; its labels are kept by the database.
\<close>

datatype cell =
  CNull | CInt int | CNumeric rat | CText string | CTexts "string list" | CBool bool | CTime int
| CJson string | CUuid string | CInet string

datatype sql_type =
  TyInt | TyVarchar "nat option" | TyChar nat | TyText | TyTextArray | TyBool | TyNumeric nat nat
| TyTimestamp | TyTimestampTz | TyJsonb | TyUuid | TyInet | TyEnum string

type_synonym enum_types = "(string \<times> string list) list"

definition blanks :: "string \<Rightarrow> bool" where
  "blanks s \<longleftrightarrow> list_all (\<lambda>c. c = CHR '' '') s"

text \<open>\<open>numeric(p,s)\<close> rounds to \<open>s\<close> decimals, halves away from zero.\<close>

definition round_scale :: "nat \<Rightarrow> rat \<Rightarrow> rat" where
  "round_scale s x =
     (if 0 \<le> x then of_int \<lfloor>x * 10 ^ s + 1 / 2\<rfloor> / 10 ^ s else - (of_int \<lfloor>(- x) * 10 ^ s + 1 / 2\<rfloor> / 10 ^ s))"

text \<open>
  The value a column stores, if the type accepts it. Blanks beyond the length of a \<open>varchar(n)\<close> are cut off,
  a \<open>char(n)\<close> is filled up with them.
\<close>

fun store_value :: "enum_types \<Rightarrow> sql_type \<Rightarrow> cell \<Rightarrow> cell option" where
  "store_value types TyInt c =
     (case c of CInt i \<Rightarrow> if -2147483648 \<le> i \<and> i \<le> 2147483647 then Some c else None | _ \<Rightarrow> None)"
| "store_value types (TyVarchar None) c = (case c of CText s \<Rightarrow> Some c | _ \<Rightarrow> None)"
| "store_value types (TyVarchar (Some n)) c =
     (case c of CText s \<Rightarrow> if blanks (drop n s) then Some (CText (take n s)) else None | _ \<Rightarrow> None)"
| "store_value types (TyChar n) c =
     (case c of CText s \<Rightarrow>
        if blanks (drop n s) then Some (CText (take n s @ replicate (n - length s) (CHR '' ''))) else None
      | _ \<Rightarrow> None)"
| "store_value types TyText c = (case c of CText s \<Rightarrow> Some c | _ \<Rightarrow> None)"
| "store_value types TyTextArray c = (case c of CTexts ss \<Rightarrow> Some c | _ \<Rightarrow> None)"
| "store_value types TyBool c = (case c of CBool b \<Rightarrow> Some c | _ \<Rightarrow> None)"
| "store_value types (TyNumeric p s) c =
     (case c of CNumeric x \<Rightarrow>
        let y = round_scale s x in if \<bar>y\<bar> < 10 ^ (p - s) then Some (CNumeric y) else None
      | _ \<Rightarrow> None)"
| "store_value types TyTimestamp c = (case c of CTime t \<Rightarrow> Some c | _ \<Rightarrow> None)"
| "store_value types TyTimestampTz c = (case c of CTime t \<Rightarrow> Some c | _ \<Rightarrow> None)"
| "store_value types TyJsonb c = (case c of CJson j \<Rightarrow> Some c | _ \<Rightarrow> None)"
| "store_value types TyUuid c = (case c of CUuid u \<Rightarrow> Some c | _ \<Rightarrow> None)"
| "store_value types TyInet c = (case c of CInet a \<Rightarrow> Some c | _ \<Rightarrow> None)"
| "store_value types (TyEnum e) c =
     (case c of CText s \<Rightarrow>
        (case map_of types e of None \<Rightarrow> None | Some labels \<Rightarrow> if s \<in> set labels then Some c else None)
      | _ \<Rightarrow> None)"

definition store_cell :: "enum_types \<Rightarrow> sql_type \<Rightarrow> cell \<Rightarrow> cell option" where
  "store_cell types ty c = (if c = CNull then Some CNull else store_value types ty c)"

subsection \<open>Tables\<close>

datatype col_default = NoDefault | Constant cell | FromSequence | Now | RandomUuid

record column =
  col_name :: string
  col_type :: sql_type
  col_nullable :: bool
  col_default :: col_default

text \<open>The condition of a partial index; a label may be cast to a named type.\<close>

datatype condition = InLabels string "string list" "string option" | NotNull string | Both condition condition

datatype on_delete = NoAction | Restrict | Cascade
datatype comparison = Before | Differs

text \<open>Constraints with their names.\<close>

datatype rule =
  PrimaryKey string
| UniqueKey "string list"
| ForeignKey string string string on_delete
| Check comparison string string

record index =
  ix_name :: string
  ix_unique :: bool
  ix_columns :: "string list"
  ix_where :: "condition option"

type_synonym row = "(string \<times> cell) list"

record table =
  t_columns :: "column list"
  t_rules :: "(string \<times> rule) list"
  t_indexes :: "index list"
  t_rows :: "row list"
  t_next :: int

record database =
  db_types :: enum_types
  db_tables :: "(string \<times> table) list"

definition empty_database :: database where
  "empty_database = \<lparr>db_types = [], db_tables = []\<rparr>"

definition names :: "table \<Rightarrow> string list" where
  "names t = map col_name (t_columns t)"

definition cell_of :: "row \<Rightarrow> string \<Rightarrow> cell" where
  "cell_of r c = (case map_of r c of None \<Rightarrow> CNull | Some v \<Rightarrow> v)"

fun holds :: "condition \<Rightarrow> row \<Rightarrow> bool" where
  "holds (InLabels c labels ty) r = (case cell_of r c of CText s \<Rightarrow> s \<in> set labels | _ \<Rightarrow> False)"
| "holds (NotNull c) r = (cell_of r c \<noteq> CNull)"
| "holds (Both p q) r = (holds p r \<and> holds q r)"

fun condition_columns :: "condition \<Rightarrow> string list" where
  "condition_columns (InLabels c labels ty) = [c]"
| "condition_columns (NotNull c) = [c]"
| "condition_columns (Both p q) = condition_columns p @ condition_columns q"

fun condition_types :: "condition \<Rightarrow> string list" where
  "condition_types (InLabels c labels ty) = (case ty of None \<Rightarrow> [] | Some t \<Rightarrow> [t])"
| "condition_types (NotNull c) = []"
| "condition_types (Both p q) = condition_types p @ condition_types q"

definition where_columns :: "index \<Rightarrow> string list" where
  "where_columns ix = (case ix_where ix of None \<Rightarrow> [] | Some p \<Rightarrow> condition_columns p)"

definition where_types :: "index \<Rightarrow> string list" where
  "where_types ix = (case ix_where ix of None \<Rightarrow> [] | Some p \<Rightarrow> condition_types p)"

definition indexed_rows :: "condition option \<Rightarrow> row list \<Rightarrow> row list" where
  "indexed_rows cond rows = (case cond of None \<Rightarrow> rows | Some p \<Rightarrow> filter (holds p) rows)"

text \<open>The keys that may not repeat: those of the constraints and of the unique indexes.\<close>

fun rule_keys :: "rule \<Rightarrow> (string list \<times> condition option) list" where
  "rule_keys (PrimaryKey c) = [([c], None)]"
| "rule_keys (UniqueKey cs) = [(cs, None)]"
| "rule_keys _ = []"

definition index_keys :: "index \<Rightarrow> (string list \<times> condition option) list" where
  "index_keys ix = (if ix_unique ix then [(ix_columns ix, ix_where ix)] else [])"

definition unique_keys :: "table \<Rightarrow> (string list \<times> condition option) list" where
  "unique_keys t = concat (map (rule_keys \<circ> snd) (t_rules t)) @ concat (map index_keys (t_indexes t))"

definition key_of :: "string list \<Rightarrow> row \<Rightarrow> cell list" where
  "key_of cs r = map (cell_of r) cs"

text \<open>Rows with a null in the key are different from every row.\<close>

definition keys_of :: "string list \<times> condition option \<Rightarrow> row list \<Rightarrow> cell list list" where
  "keys_of k rows = filter (\<lambda>xs. CNull \<notin> set xs) (map (key_of (fst k)) (indexed_rows (snd k) rows))"

fun cell_before :: "cell \<Rightarrow> cell \<Rightarrow> bool" where
  "cell_before (CInt a) (CInt b) = (a < b)"
| "cell_before (CTime a) (CTime b) = (a < b)"
| "cell_before _ _ = False"

text \<open>A check whose operand is null is not violated.\<close>

fun check_holds :: "rule \<Rightarrow> row \<Rightarrow> bool" where
  "check_holds (Check cmp a b) r =
     (let x = cell_of r a; y = cell_of r b in
      x = CNull \<or> y = CNull \<or> (case cmp of Before \<Rightarrow> cell_before x y | Differs \<Rightarrow> x \<noteq> y))"
| "check_holds _ r = True"

definition rows_of :: "database \<Rightarrow> string \<Rightarrow> row list" where
  "rows_of db t = (case map_of (db_tables db) t of None \<Rightarrow> [] | Some tab \<Rightarrow> t_rows tab)"

definition column_values :: "database \<Rightarrow> string \<Rightarrow> string \<Rightarrow> cell list" where
  "column_values db t c = map (\<lambda>r. cell_of r c) (rows_of db t)"

fun reference_holds :: "database \<Rightarrow> rule \<Rightarrow> row \<Rightarrow> bool" where
  "reference_holds db (ForeignKey c t rc act) r =
     (cell_of r c = CNull \<or> cell_of r c \<in> set (column_values db t rc))"
| "reference_holds db _ r = True"

fun rule_columns :: "rule \<Rightarrow> string list" where
  "rule_columns (PrimaryKey c) = [c]"
| "rule_columns (UniqueKey cs) = cs"
| "rule_columns (ForeignKey c t rc act) = [c]"
| "rule_columns (Check cmp a b) = [a, b]"

text \<open>The tables and columns that a table refers to.\<close>

fun rule_target :: "rule \<Rightarrow> (string \<times> string) list" where
  "rule_target (ForeignKey c t rc act) = [(t, rc)]"
| "rule_target _ = []"

definition targets :: "table \<Rightarrow> (string \<times> string) list" where
  "targets t = concat (map (rule_target \<circ> snd) (t_rules t))"

fun type_name :: "sql_type \<Rightarrow> string option" where
  "type_name (TyEnum e) = Some e"
| "type_name _ = None"

definition type_known :: "enum_types \<Rightarrow> sql_type \<Rightarrow> bool" where
  "type_known types ty = (case type_name ty of None \<Rightarrow> True | Some e \<Rightarrow> e \<in> set (map fst types))"

subsection \<open>Errors\<close>

datatype pg_error =
  UndefinedTable string
| UndefinedColumn string
| UndefinedType string
| DuplicateTable string
| DuplicateColumn string
| InvalidValue string
| NotNullViolation string
| CheckViolation
| UniqueViolation
| ForeignKeyViolation
| DependentObjects string
| NotFoundByTypeorm string

definition put_table :: "string \<Rightarrow> table \<Rightarrow> database \<Rightarrow> database" where
  "put_table n t db = db\<lparr>db_tables := map (\<lambda>(m, u). (m, if m = n then t else u)) (db_tables db)\<rparr>"

definition with_table :: "database \<Rightarrow> string \<Rightarrow> (table \<Rightarrow> pg_error + 'a) \<Rightarrow> pg_error + 'a" where
  "with_table db n f = (case map_of (db_tables db) n of None \<Rightarrow> Inl (UndefinedTable n) | Some t \<Rightarrow> f t)"

subsection \<open>Statements\<close>

text \<open>A value of an INSERT: a literal, or a scalar subselect \<open>(SELECT c FROM t WHERE k = v)\<close>.\<close>

datatype expr = Lit cell | Lookup string string string cell

text \<open>
  \<open>CREATE TYPE\<close> and \<open>ADD CONSTRAINT\<close> stand in a \<open>DO\<close> block that looks for the name first; \<open>CREATE TABLE\<close> is
  always \<open>IF NOT EXISTS\<close>, for TypeORM's \<open>createTable(table, true)\<close> too. A flag says \<open>IF EXISTS\<close> or
  \<open>IF NOT EXISTS\<close> where it may be missing. \<open>InsertInto\<close> has the columns of its \<open>ON CONFLICT ... DO NOTHING\<close>,
  \<open>UpdateFrom\<close> is \<open>UPDATE t SET c = u.sc FROM u WHERE t.k = u.sk AND t.c IS NULL\<close>.
\<close>

datatype statement =
  CreateType string "string list"
| DropType bool string
| CreateTable string "column list" "(string \<times> rule) list"
| DropTable bool string
| CreateIndex bool string index
| DropIndex bool string
| RunnerDropIndex string string
| RunnerDropForeignKey string string
| AddRule string string rule
| AddColumn bool string column
| DropColumn bool string string
| InsertInto string "string list" "expr list list" "string list option"
| DeleteFrom string
| UpdateFrom string string string string string string

text \<open>The transaction's time and the generated uuids, by table row.\<close>

record sql_env =
  env_now :: int
  env_uuid :: "int \<Rightarrow> string"

definition default_cell :: "sql_env \<Rightarrow> table \<Rightarrow> column \<Rightarrow> cell" where
  "default_cell env t c = (case col_default c of
     NoDefault \<Rightarrow> CNull
   | Constant v \<Rightarrow> v
   | FromSequence \<Rightarrow> CInt (t_next t)
   | Now \<Rightarrow> CTime (env_now env)
   | RandomUuid \<Rightarrow> CUuid (env_uuid env (t_next t)))"

text \<open>The names of tables, indexes and key constraints share one name space.\<close>

definition table_relations :: "string \<times> table \<Rightarrow> string list" where
  "table_relations nt = fst nt # map ix_name (t_indexes (snd nt)) @
     map fst (filter (\<lambda>nr. rule_keys (snd nr) \<noteq> []) (t_rules (snd nt)))"

definition relation_names :: "database \<Rightarrow> string list" where
  "relation_names db = concat (map table_relations (db_tables db))"

definition rule_names :: "database \<Rightarrow> string list" where
  "rule_names db = concat (map (\<lambda>nt. map fst (t_rules (snd nt))) (db_tables db))"

text \<open>A foreign key refers to a column with a key of its own.\<close>

definition target_ok :: "database \<Rightarrow> string \<times> string \<Rightarrow> bool" where
  "target_ok db tc = (case map_of (db_tables db) (fst tc) of
     None \<Rightarrow> False
   | Some u \<Rightarrow> snd tc \<in> set (names u) \<and>
       (PrimaryKey (snd tc) \<in> set (map snd (t_rules u)) \<or> UniqueKey [snd tc] \<in> set (map snd (t_rules u))))"

definition targeted :: "database \<Rightarrow> string \<Rightarrow> (string \<times> string) list" where
  "targeted db n = filter (\<lambda>tc. fst tc = n) (concat (map (\<lambda>mu. targets (snd mu)) (db_tables db)))"

definition targeted_by_others :: "database \<Rightarrow> string \<Rightarrow> bool" where
  "targeted_by_others db n \<longleftrightarrow>
     list_ex (\<lambda>mu. fst mu \<noteq> n \<and> list_ex (\<lambda>tc. fst tc = n) (targets (snd mu))) (db_tables db)"

subsubsection \<open>Rows\<close>

fun store_row :: "enum_types \<Rightarrow> (column \<times> cell) list \<Rightarrow> pg_error + row" where
  "store_row types [] = Inr []"
| "store_row types ((c, v) # cvs) = (case store_cell types (col_type c) v of
     None \<Rightarrow> Inl (InvalidValue (col_name c))
   | Some w \<Rightarrow> (case store_row types cvs of Inl e \<Rightarrow> Inl e | Inr r \<Rightarrow> Inr ((col_name c, w) # r)))"

definition given_cell :: "sql_env \<Rightarrow> table \<Rightarrow> (string \<times> cell option) list \<Rightarrow> column \<Rightarrow> cell" where
  "given_cell env t given c = (case map_of given (col_name c) of
     Some (Some v) \<Rightarrow> v
   | _ \<Rightarrow> default_cell env t c)"

definition missing_value :: "table \<Rightarrow> row \<Rightarrow> column option" where
  "missing_value t r = find (\<lambda>c. \<not> col_nullable c \<and> cell_of r (col_name c) = CNull) (t_columns t)"

definition clash :: "row \<Rightarrow> row list \<Rightarrow> string list \<times> condition option \<Rightarrow> bool" where
  "clash r rows k \<longleftrightarrow> list_ex (\<lambda>xs. xs \<in> set (keys_of k rows)) (keys_of k [r])"

definition conflict_keys :: "table \<Rightarrow> string list option \<Rightarrow> (string list \<times> condition option) list" where
  "conflict_keys t target = (case target of
     None \<Rightarrow> unique_keys t
   | Some cs \<Rightarrow> filter (\<lambda>k. set (fst k) = set cs \<and> snd k = None) (unique_keys t))"

text \<open>
  One row of an INSERT, with \<open>None\<close> for \<open>DEFAULT\<close> and the keys whose repetition is passed over. A number drawn
  from a sequence is spent also when the row is passed over; that a failed statement spends it too only leaves
  gaps in the numbers, and is left out.
\<close>

definition insert_row ::
  "sql_env \<Rightarrow> string \<Rightarrow> (string \<times> cell option) list \<Rightarrow> (table \<Rightarrow> (string list \<times> condition option) list) \<Rightarrow>
   database \<Rightarrow> pg_error + database" where
  "insert_row env n given passed db = with_table db n (\<lambda>t.
     case find (\<lambda>g. fst g \<notin> set (names t)) given of Some g \<Rightarrow> Inl (UndefinedColumn (fst g)) | None \<Rightarrow>
     case store_row (db_types db) (map (\<lambda>c. (c, given_cell env t given c)) (t_columns t)) of Inl e \<Rightarrow> Inl e | Inr r \<Rightarrow>
     case missing_value t r of Some c \<Rightarrow> Inl (NotNullViolation (col_name c)) | None \<Rightarrow>
     if \<not> list_all (\<lambda>nr. check_holds (snd nr) r) (t_rules t) then Inl CheckViolation
     else if list_ex (clash r (t_rows t)) (passed t) then Inr (put_table n (t\<lparr>t_next := t_next t + 1\<rparr>) db)
     else if list_ex (clash r (t_rows t)) (unique_keys t) then Inl UniqueViolation
     else let db' = put_table n (t\<lparr>t_rows := t_rows t @ [r], t_next := t_next t + 1\<rparr>) db in
       if list_all (\<lambda>nr. reference_holds db' (snd nr) r) (t_rules t) then Inr db' else Inl ForeignKeyViolation)"

fun eval_expr :: "database \<Rightarrow> expr \<Rightarrow> cell" where
  "eval_expr db (Lit v) = v"
| "eval_expr db (Lookup t c k v) =
     (case find (\<lambda>r. cell_of r k = v) (rows_of db t) of None \<Rightarrow> CNull | Some r \<Rightarrow> cell_of r c)"

fun insert_rows ::
  "sql_env \<Rightarrow> database \<Rightarrow> string \<Rightarrow> string list \<Rightarrow> string list option \<Rightarrow> expr list list \<Rightarrow> database \<Rightarrow>
   pg_error + database" where
  "insert_rows env db0 n cs target [] db = Inr db"
| "insert_rows env db0 n cs target (es # ess) db =
     (case insert_row env n (zip cs (map (\<lambda>e. Some (eval_expr db0 e)) es)) (\<lambda>t. conflict_keys t target) db of
        Inl e \<Rightarrow> Inl e
      | Inr db' \<Rightarrow> insert_rows env db0 n cs target ess db')"

definition set_cell :: "string \<Rightarrow> cell \<Rightarrow> row \<Rightarrow> row" where
  "set_cell c v r = map (\<lambda>(m, w). (m, if m = c then v else w)) r"

definition joined_value :: "row list \<Rightarrow> string \<Rightarrow> string \<Rightarrow> cell \<Rightarrow> cell option" where
  "joined_value rows sc sk v =
     (if v = CNull then None else map_option (\<lambda>s. cell_of s sc) (find (\<lambda>s. cell_of s sk = v) rows))"

definition backfill :: "row list \<Rightarrow> string \<Rightarrow> string \<Rightarrow> string \<Rightarrow> string \<Rightarrow> row \<Rightarrow> row" where
  "backfill rows c sc k sk r =
     (if cell_of r c \<noteq> CNull then r
      else case joined_value rows sc sk (cell_of r k) of None \<Rightarrow> r | Some v \<Rightarrow> set_cell c v r)"

subsubsection \<open>Definitions of tables\<close>

definition first_error :: "(bool \<times> pg_error) list \<Rightarrow> pg_error option" where
  "first_error checks = map_option snd (find (\<lambda>be. \<not> fst be) checks)"

definition guard :: "(bool \<times> pg_error) list \<Rightarrow> (pg_error + 'a) \<Rightarrow> pg_error + 'a" where
  "guard checks m = (case first_error checks of Some e \<Rightarrow> Inl e | None \<Rightarrow> m)"

definition columns_exist :: "table \<Rightarrow> string list \<Rightarrow> bool" where
  "columns_exist t cs \<longleftrightarrow> set cs \<subseteq> set (names t)"

definition unique_ok :: "row list \<Rightarrow> string list \<times> condition option \<Rightarrow> bool" where
  "unique_ok rows k \<longleftrightarrow> distinct (keys_of k rows)"

definition update_tables :: "(table \<Rightarrow> table) \<Rightarrow> database \<Rightarrow> database" where
  "update_tables f db = db\<lparr>db_tables := map (\<lambda>(n, t). (n, f t)) (db_tables db)\<rparr>"

definition drop_index :: "string \<Rightarrow> table \<Rightarrow> table" where
  "drop_index i t = t\<lparr>t_indexes := filter (\<lambda>ix. ix_name ix \<noteq> i) (t_indexes t)\<rparr>"

definition add_column :: "column \<Rightarrow> cell \<Rightarrow> table \<Rightarrow> table" where
  "add_column c v t =
     t\<lparr>t_columns := t_columns t @ [c], t_rows := map (\<lambda>r. r @ [(col_name c, v)]) (t_rows t)\<rparr>"

text \<open>With a column go the constraints and indexes that mention it.\<close>

definition drop_column :: "string \<Rightarrow> table \<Rightarrow> table" where
  "drop_column c t =
     t\<lparr>t_columns := filter (\<lambda>d. col_name d \<noteq> c) (t_columns t),
       t_rules := filter (\<lambda>nr. c \<notin> set (rule_columns (snd nr))) (t_rules t),
       t_indexes := filter (\<lambda>ix. c \<notin> set (ix_columns ix @ where_columns ix)) (t_indexes t),
       t_rows := map (filter (\<lambda>cv. fst cv \<noteq> c)) (t_rows t)\<rparr>"

definition row_ok :: "enum_types \<Rightarrow> table \<Rightarrow> row \<Rightarrow> bool" where
  "row_ok types t r \<longleftrightarrow>
     map fst r = names t \<and>
     list_all (\<lambda>c. store_cell types (col_type c) (cell_of r (col_name c)) = Some (cell_of r (col_name c)) \<and>
                  (col_nullable c \<or> cell_of r (col_name c) \<noteq> CNull)) (t_columns t) \<and>
     list_all (\<lambda>nr. check_holds (snd nr) r) (t_rules t)"

definition references_ok :: "database \<Rightarrow> table \<Rightarrow> bool" where
  "references_ok db t \<longleftrightarrow> list_all (\<lambda>nr. list_all (reference_holds db (snd nr)) (t_rows t)) (t_rules t)"

fun exec :: "sql_env \<Rightarrow> statement \<Rightarrow> database \<Rightarrow> pg_error + database" where
  "exec env (CreateType e labels) db =
     Inr (if e \<in> set (map fst (db_types db)) then db else db\<lparr>db_types := db_types db @ [(e, labels)]\<rparr>)"
| "exec env (DropType if_exists e) db =
     (if e \<notin> set (map fst (db_types db)) then (if if_exists then Inr db else Inl (UndefinedType e))
      else guard
        [(list_all (\<lambda>nt. list_all (\<lambda>c. type_name (col_type c) \<noteq> Some e) (t_columns (snd nt)) \<and>
            list_all (\<lambda>ix. e \<notin> set (where_types ix)) (t_indexes (snd nt))) (db_tables db), DependentObjects e)]
        (Inr (db\<lparr>db_types := filter (\<lambda>tl. fst tl \<noteq> e) (db_types db)\<rparr>)))"
| "exec env (CreateTable n cols rules) db =
     (if n \<in> set (map fst (db_tables db)) then Inr db
      else let t = \<lparr>t_columns = cols, t_rules = rules, t_indexes = [], t_rows = [], t_next = 1\<rparr>;
               db' = db\<lparr>db_tables := db_tables db @ [(n, t)]\<rparr> in
        guard
          [(distinct (names t), DuplicateColumn n),
           (list_all (\<lambda>c. type_known (db_types db) (col_type c)) cols, UndefinedType n),
           (list_all (\<lambda>nr. columns_exist t (rule_columns (snd nr))) rules, UndefinedColumn n),
           (list_all (target_ok db') (targets t), UndefinedTable n)]
          (Inr db'))"
| "exec env (DropTable if_exists n) db =
     (if n \<notin> set (map fst (db_tables db)) then (if if_exists then Inr db else Inl (UndefinedTable n))
      else guard [(\<not> targeted_by_others db n, DependentObjects n)]
        (Inr (db\<lparr>db_tables := filter (\<lambda>mu. fst mu \<noteq> n) (db_tables db)\<rparr>)))"
| "exec env (CreateIndex if_not_exists n ix) db = with_table db n (\<lambda>t.
     guard
       [(columns_exist t (ix_columns ix @ where_columns ix), UndefinedColumn n),
        (set (where_types ix) \<subseteq> set (map fst (db_types db)), UndefinedType n)]
       (if ix_name ix \<in> set (relation_names db) then (if if_not_exists then Inr db else Inl (DuplicateTable (ix_name ix)))
        else guard [(list_all (unique_ok (t_rows t)) (index_keys ix), UniqueViolation)]
          (Inr (put_table n (t\<lparr>t_indexes := t_indexes t @ [ix]\<rparr>) db))))"
| "exec env (DropIndex if_exists i) db =
     (if list_ex (\<lambda>nt. i \<in> set (map ix_name (t_indexes (snd nt)))) (db_tables db)
      then Inr (update_tables (drop_index i) db)
      else if i \<in> set (rule_names db) then Inl (DependentObjects i)
      else if if_exists then Inr db else Inl (UndefinedTable i))"
| "exec env (RunnerDropIndex n i) db =
     (case map_of (db_tables db) n of None \<Rightarrow> Inl (NotFoundByTypeorm n) | Some t \<Rightarrow>
        if i \<in> set (map ix_name (t_indexes t)) then Inr (put_table n (drop_index i t) db)
        else Inl (NotFoundByTypeorm i))"
| "exec env (RunnerDropForeignKey n i) db =
     (case map_of (db_tables db) n of None \<Rightarrow> Inl (NotFoundByTypeorm n) | Some t \<Rightarrow>
        if list_ex (\<lambda>nr. fst nr = i \<and> rule_target (snd nr) \<noteq> []) (t_rules t)
        then Inr (put_table n (t\<lparr>t_rules := filter (\<lambda>nr. \<not> (fst nr = i \<and> rule_target (snd nr) \<noteq> [])) (t_rules t)\<rparr>) db)
        else Inl (NotFoundByTypeorm i))"
| "exec env (AddRule n i ru) db =
     (if i \<in> set (rule_names db) then Inr db
      else with_table db n (\<lambda>t.
        guard
          [(columns_exist t (rule_columns ru), UndefinedColumn n),
           (list_all (target_ok db) (rule_target ru), UndefinedTable n),
           (list_all (unique_ok (t_rows t)) (rule_keys ru), UniqueViolation),
           (list_all (check_holds ru) (t_rows t), CheckViolation),
           (list_all (reference_holds db ru) (t_rows t), ForeignKeyViolation)]
          (Inr (put_table n (t\<lparr>t_rules := t_rules t @ [(i, ru)]\<rparr>) db))))"
| "exec env (AddColumn if_not_exists n c) db = with_table db n (\<lambda>t.
     if col_name c \<in> set (names t) then (if if_not_exists then Inr db else Inl (DuplicateColumn (col_name c)))
     else guard [(type_known (db_types db) (col_type c), UndefinedType n)]
       (case store_cell (db_types db) (col_type c) (default_cell env t c) of
          None \<Rightarrow> Inl (InvalidValue (col_name c))
        | Some v \<Rightarrow> guard [(col_nullable c \<or> v \<noteq> CNull \<or> t_rows t = [], NotNullViolation (col_name c))]
            (Inr (put_table n (add_column c v t) db))))"
| "exec env (DropColumn if_exists n c) db = with_table db n (\<lambda>t.
     if c \<notin> set (names t) then (if if_exists then Inr db else Inl (UndefinedColumn c))
     else guard [((n, c) \<notin> set (targeted db n), DependentObjects c)] (Inr (put_table n (drop_column c t) db)))"
| "exec env (InsertInto n cs ess target) db = with_table db n (\<lambda>t.
     guard [(target = None \<or> conflict_keys t target \<noteq> [], UndefinedColumn n)]
       (insert_rows env db n cs target ess db))"
| "exec env (DeleteFrom n) db = with_table db n (\<lambda>t.
     guard
       [(list_all (\<lambda>mu. fst mu = n \<or> list_all (\<lambda>nr. (\<forall>tc\<in>set (rule_target (snd nr)). fst tc \<noteq> n) \<or>
            list_all (\<lambda>r. list_all (\<lambda>c. cell_of r c = CNull) (rule_columns (snd nr))) (t_rows (snd mu)))
            (t_rules (snd mu))) (db_tables db), ForeignKeyViolation)]
       (Inr (put_table n (t\<lparr>t_rows := []\<rparr>) db)))"
| "exec env (UpdateFrom n c u sc k sk) db = with_table db n (\<lambda>t. with_table db u (\<lambda>s.
     guard [(columns_exist t [c, k], UndefinedColumn n), (columns_exist s [sc, sk], UndefinedColumn u)]
       (let t' = t\<lparr>t_rows := map (backfill (t_rows s) c sc k sk) (t_rows t)\<rparr>; db' = put_table n t' db in
        guard
          [(list_all (row_ok (db_types db) t') (t_rows t'), InvalidValue c),
           (list_all (unique_ok (t_rows t')) (unique_keys t'), UniqueViolation),
           (references_ok db' t', ForeignKeyViolation)]
          (Inr db'))))"

fun run :: "sql_env \<Rightarrow> statement list \<Rightarrow> database \<Rightarrow> pg_error + database" where
  "run env [] db = Inr db"
| "run env (s # ss) db = (case exec env s db of Inl e \<Rightarrow> Inl e | Inr db' \<Rightarrow> run env ss db')"

declare exec.simps [simp del]

subsection \<open>Well-formed databases\<close>

text \<open>
  What PostgreSQL guarantees: names resolve, every row fits its columns and checks, keys do not repeat and
  references exist.
\<close>

definition index_ok :: "enum_types \<Rightarrow> table \<Rightarrow> index \<Rightarrow> bool" where
  "index_ok types t ix \<longleftrightarrow> columns_exist t (ix_columns ix @ where_columns ix) \<and>
     set (where_types ix) \<subseteq> set (map fst types)"

definition shape_ok :: "database \<Rightarrow> table \<Rightarrow> bool" where
  "shape_ok db t \<longleftrightarrow>
     distinct (names t) \<and>
     list_all (\<lambda>c. type_known (db_types db) (col_type c)) (t_columns t) \<and>
     list_all (\<lambda>nr. columns_exist t (rule_columns (snd nr))) (t_rules t) \<and>
     list_all (index_ok (db_types db) t) (t_indexes t) \<and>
     list_all (target_ok db) (targets t)"

definition table_ok :: "database \<Rightarrow> table \<Rightarrow> bool" where
  "table_ok db t \<longleftrightarrow> shape_ok db t \<and> list_all (row_ok (db_types db) t) (t_rows t) \<and>
     list_all (unique_ok (t_rows t)) (unique_keys t) \<and> references_ok db t"

definition database_ok :: "database \<Rightarrow> bool" where
  "database_ok db \<longleftrightarrow> distinct (map fst (db_tables db)) \<and> list_all (\<lambda>nt. table_ok db (snd nt)) (db_tables db)"

end
