(* ===== verification/SqlProps.thy ===== *)
theory SqlProps
  imports Sql
begin

text \<open>
  Every statement keeps a database well-formed, whatever it stores: first what stored values, keys and
  references depend on, then one lemma per statement.
\<close>

subsection \<open>Values\<close>

lemma round_scale_idem: "round_scale s (round_scale s x) = round_scale s x"
proof -
  have half: "\<lfloor>1 / 2 :: rat\<rfloor> = 0" by (simp add: floor_unique)
  have int: "\<lfloor>(of_int k / 10 ^ s) * 10 ^ s + 1 / 2 :: rat\<rfloor> = k" for k :: int
    by (simp add: floor_unique)
  show ?thesis
  proof (cases "0 \<le> x")
    case True
    then have "0 \<le> \<lfloor>x * 10 ^ s + 1 / 2\<rfloor>" by simp
    then show ?thesis using True int by (simp add: round_scale_def)
  next
    case False
    define k where "k = \<lfloor>(- x) * 10 ^ s + 1 / 2\<rfloor>"
    have "x * 10 ^ s \<le> 0" using False by (simp add: mult_nonpos_nonneg)
    then have k: "0 \<le> k" unfolding k_def by simp
    have r: "round_scale s x = - (of_int k / 10 ^ s)" using False by (simp add: round_scale_def k_def)
    show ?thesis
    proof (cases "k = 0")
      case True
      with half show ?thesis using r by (simp add: round_scale_def)
    next
      case False
      with k have "0 < (of_int k :: rat) / 10 ^ s" by simp
      then have "\<not> 0 \<le> - ((of_int k :: rat) / 10 ^ s)" by simp
      with half show ?thesis unfolding r by (simp add: round_scale_def int del: minus_divide_left)
    qed
  qed
qed

lemma blanks_Nil [simp]: "blanks []" by (simp add: blanks_def)

lemma store_value_idem: "store_value types ty c = Some d \<Longrightarrow> store_value types ty d = Some d"
  by (induction types ty c rule: store_value.induct)
    (auto simp: round_scale_idem Let_def split: cell.splits if_splits option.splits)

lemma store_value_not_null: "store_value types ty c = Some d \<Longrightarrow> d \<noteq> CNull"
  by (induction types ty c rule: store_value.induct)
    (auto simp: Let_def split: cell.splits if_splits option.splits)

lemma store_cell_idem: "store_cell types ty c = Some d \<Longrightarrow> store_cell types ty d = Some d"
  by (auto simp: store_cell_def dest: store_value_idem store_value_not_null split: if_splits)

lemma store_value_types:
  assumes "type_known types ty"
    and "\<And>e ls. type_name ty = Some e \<Longrightarrow> map_of types e = Some ls \<Longrightarrow> map_of types' e = Some ls"
  shows "store_value types' ty c = store_value types ty c"
proof (cases ty)
  case (TyEnum e)
  with assms(1) obtain ls where "map_of types e = Some ls"
    by (auto simp: type_known_def dest: weak_map_of_SomeI)
  then show ?thesis using assms(2) [of e ls] TyEnum by (cases c) simp_all
next
  case (TyVarchar n)
  then show ?thesis by (cases n) simp_all
qed simp_all

lemma store_cell_types:
  assumes "type_known types ty"
    and "\<And>e ls. type_name ty = Some e \<Longrightarrow> map_of types e = Some ls \<Longrightarrow> map_of types' e = Some ls"
  shows "store_cell types' ty c = store_cell types ty c"
  using store_value_types [OF assms] by (simp add: store_cell_def)

lemma type_known_mono:
  assumes "type_known types ty"
    and "\<And>e ls. type_name ty = Some e \<Longrightarrow> map_of types e = Some ls \<Longrightarrow> map_of types' e = Some ls"
  shows "type_known types' ty"
proof (cases "type_name ty")
  case (Some e)
  with assms(1) obtain ls where "map_of types e = Some ls"
    by (auto simp: type_known_def dest: weak_map_of_SomeI)
  with assms(2) Some have "map_of types' e = Some ls" by blast
  then have "e \<in> fst ` set types'" by (force dest: map_of_SomeD)
  then show ?thesis using Some by (simp add: type_known_def)
qed (simp add: type_known_def)

lemma holds_cong:
  "(\<And>c. c \<in> set (condition_columns p) \<Longrightarrow> cell_of r c = cell_of r' c) \<Longrightarrow> holds p r = holds p r'"
  by (induction p) auto

lemma check_holds_cong:
  "(\<And>c. c \<in> set (rule_columns ru) \<Longrightarrow> cell_of r c = cell_of r' c) \<Longrightarrow> check_holds ru r = check_holds ru r'"
  by (cases ru) (auto simp: Let_def)

lemma reference_holds_cong:
  assumes "\<And>c. c \<in> set (rule_columns ru) \<Longrightarrow> cell_of r c = cell_of r' c"
  shows "reference_holds db ru r = reference_holds db ru r'"
  using assms by (cases ru) auto

subsection \<open>Keys\<close>

text \<open>The columns of a key, its condition included, decide about repetitions.\<close>

definition key_columns :: "string list \<times> condition option \<Rightarrow> string list" where
  "key_columns k = fst k @ (case snd k of None \<Rightarrow> [] | Some p \<Rightarrow> condition_columns p)"

lemma key_of_cong: "(\<And>c. c \<in> set cs \<Longrightarrow> cell_of r c = cell_of r' c) \<Longrightarrow> key_of cs r = key_of cs r'"
  by (simp add: key_of_def)

lemma keys_of_map:
  assumes "\<And>r c. r \<in> set rows \<Longrightarrow> c \<in> set (key_columns k) \<Longrightarrow> cell_of (f r) c = cell_of r c"
  shows "keys_of k (map f rows) = keys_of k rows"
proof (cases "snd k")
  case None
  have "map (key_of (fst k)) (map f rows) = map (key_of (fst k)) rows"
    using assms by (auto simp: key_columns_def intro!: key_of_cong)
  then show ?thesis using None by (simp only: keys_of_def indexed_rows_def option.case)
next
  case (Some p)
  have h: "holds p (f r) = holds p r" if "r \<in> set rows" for r
    using assms that Some by (intro holds_cong) (simp add: key_columns_def)
  have k: "key_of (fst k) (f r) = key_of (fst k) r" if "r \<in> set rows" for r
    using assms that by (intro key_of_cong) (simp add: key_columns_def)
  have "map (key_of (fst k)) (filter (holds p) (map f rows)) = map (key_of (fst k)) (filter (holds p) rows)"
    using h k by (induction rows) auto
  then show ?thesis using Some by (simp only: keys_of_def indexed_rows_def option.case)
qed

lemma keys_of_append: "keys_of k (xs @ ys) = keys_of k xs @ keys_of k ys"
  by (cases "snd k") (simp_all add: keys_of_def indexed_rows_def)

lemma keys_of_Nil [simp]: "keys_of k [] = []"
  by (cases "snd k") (simp_all add: keys_of_def indexed_rows_def)

lemma unique_ok_Nil [simp]: "unique_ok [] k"
  by (simp add: unique_ok_def)

lemma keys_of_single: "length (keys_of k [r]) \<le> 1"
  by (cases "snd k") (simp_all add: keys_of_def indexed_rows_def)

lemma unique_ok_snoc:
  assumes "unique_ok rows k" "\<not> clash r rows k"
  shows "unique_ok (rows @ [r]) k"
proof -
  have "keys_of k [r] = [] \<or> (\<exists>x. keys_of k [r] = [x])"
    using keys_of_single [of k r] by (cases "keys_of k [r]") auto
  then show ?thesis using assms by (auto simp: unique_ok_def clash_def keys_of_append)
qed

lemma unique_ok_map:
  assumes "\<And>r c. r \<in> set rows \<Longrightarrow> c \<in> set (key_columns k) \<Longrightarrow> cell_of (f r) c = cell_of r c"
  shows "unique_ok (map f rows) k \<longleftrightarrow> unique_ok rows k"
  using keys_of_map [of rows k f] assms by (simp add: unique_ok_def)

lemma unique_keys_columns:
  assumes "shape_ok db t" "k \<in> set (unique_keys t)"
  shows "set (key_columns k) \<subseteq> set (names t)"
proof -
  from assms(2) consider
      (rule_key) nr where "nr \<in> set (t_rules t)" "k \<in> set (rule_keys (snd nr))"
    | (index) ix where "ix \<in> set (t_indexes t)" "k \<in> set (index_keys ix)"
    by (auto simp: unique_keys_def)
  then show ?thesis
  proof cases
    case rule_key
    then have "set (rule_columns (snd nr)) \<subseteq> set (names t)"
      using assms(1) by (auto simp: shape_ok_def list_all_iff columns_exist_def)
    moreover have "set (key_columns k) \<subseteq> set (rule_columns (snd nr))"
      using rule_key(2) by (cases "snd nr") (auto simp: key_columns_def)
    ultimately show ?thesis by blast
  next
    case index
    then show ?thesis using assms(1)
      by (auto simp: shape_ok_def list_all_iff index_ok_def columns_exist_def index_keys_def key_columns_def
          where_columns_def split: if_splits option.splits)
  qed
qed

subsection \<open>What a table depends on\<close>

definition uses_type :: "table \<Rightarrow> string \<Rightarrow> bool" where
  "uses_type t e \<longleftrightarrow> (\<exists>c\<in>set (t_columns t). type_name (col_type c) = Some e) \<or>
     (\<exists>ix\<in>set (t_indexes t). e \<in> set (where_types ix))"

lemma row_ok_types:
  assumes "list_all (\<lambda>c. type_known types (col_type c)) (t_columns t)"
    and "\<And>e ls. uses_type t e \<Longrightarrow> map_of types e = Some ls \<Longrightarrow> map_of types' e = Some ls"
  shows "row_ok types' t r \<longleftrightarrow> row_ok types t r"
proof -
  have "store_cell types' (col_type c) v = store_cell types (col_type c) v" if "c \<in> set (t_columns t)" for c v
    using assms that by (intro store_cell_types) (auto simp: list_all_iff uses_type_def)
  then show ?thesis by (simp add: row_ok_def list_all_iff)
qed

lemma shape_ok_mono:
  assumes "shape_ok db t"
    and types: "\<And>e ls. uses_type t e \<Longrightarrow> map_of (db_types db) e = Some ls \<Longrightarrow> map_of (db_types db') e = Some ls"
    and targets: "\<And>tc. tc \<in> set (targets t) \<Longrightarrow> target_ok db tc \<Longrightarrow> target_ok db' tc"
  shows "shape_ok db' t"
proof -
  have "type_known (db_types db') (col_type c)" if "c \<in> set (t_columns t)" for c
  proof (rule type_known_mono)
    show "type_known (db_types db) (col_type c)" using assms(1) that by (simp add: shape_ok_def list_all_iff)
    show "map_of (db_types db') e = Some ls"
      if "type_name (col_type c) = Some e" "map_of (db_types db) e = Some ls" for e ls
      using types that \<open>c \<in> set (t_columns t)\<close> by (auto simp: uses_type_def)
  qed
  moreover have "index_ok (db_types db') t ix" if ix: "ix \<in> set (t_indexes t)" for ix
  proof -
    have i: "index_ok (db_types db) t ix" using assms(1) ix by (simp add: shape_ok_def list_all_iff)
    have "e \<in> fst ` set (db_types db')" if "e \<in> set (where_types ix)" for e
    proof -
      from i that have "e \<in> fst ` set (db_types db)" by (auto simp: index_ok_def)
      then obtain ls where "map_of (db_types db) e = Some ls" by (auto dest: weak_map_of_SomeI)
      then have "map_of (db_types db') e = Some ls" using types that ix by (auto simp: uses_type_def)
      then show ?thesis by (force dest: map_of_SomeD)
    qed
    then show ?thesis using i by (auto simp: index_ok_def)
  qed
  ultimately show ?thesis using assms(1) targets by (simp add: shape_ok_def list_all_iff)
qed

lemma sql_table_mono:
  assumes "table_ok db t"
    and "\<And>e ls. uses_type t e \<Longrightarrow> map_of (db_types db) e = Some ls \<Longrightarrow> map_of (db_types db') e = Some ls"
    and "\<And>tc. tc \<in> set (targets t) \<Longrightarrow> target_ok db tc \<Longrightarrow> target_ok db' tc"
    and "\<And>nr r. nr \<in> set (t_rules t) \<Longrightarrow> r \<in> set (t_rows t) \<Longrightarrow> reference_holds db (snd nr) r \<Longrightarrow>
           reference_holds db' (snd nr) r"
  shows "table_ok db' t"
proof -
  have s: "shape_ok db t" using assms(1) by (simp add: table_ok_def)
  have "shape_ok db' t" by (rule shape_ok_mono [OF s assms(2,3)])
  moreover have "row_ok (db_types db') t r = row_ok (db_types db) t r" for r
    using s assms(2) by (intro row_ok_types) (auto simp: shape_ok_def)
  moreover have "references_ok db' t"
    using assms(1,4) by (auto simp: table_ok_def references_ok_def list_all_iff)
  ultimately show ?thesis using assms(1) by (simp add: table_ok_def list_all_iff)
qed

subsection \<open>Replacing a table\<close>

lemma map_of_put: "map_of (db_tables (put_table n t db)) m =
   (if m = n then map_option (\<lambda>_. t) (map_of (db_tables db) n) else map_of (db_tables db) m)"
proof -
  have "map_of (map (\<lambda>(k, u). (k, if k = n then t else u)) xs) m =
    (if m = n then map_option (\<lambda>_. t) (map_of xs n) else map_of xs m)" for xs :: "(string \<times> table) list"
    by (induction xs) auto
  then show ?thesis by (simp add: put_table_def)
qed

lemma put_table_simps [simp]:
  "db_types (put_table n t db) = db_types db"
  "map fst (db_tables (put_table n t db)) = map fst (db_tables db)"
  by (auto simp: put_table_def)

lemma put_table_cases:
  assumes "(m, u) \<in> set (db_tables (put_table n t db))"
  obtains "m = n" "u = t" | "m \<noteq> n" "(m, u) \<in> set (db_tables db)"
  using assms by (auto simp: put_table_def split: if_splits)

lemma rows_of_put:
  "map_of (db_tables db) n = Some u \<Longrightarrow> rows_of (put_table n t db) m = (if m = n then t_rows t else rows_of db m)"
  by (simp add: rows_of_def map_of_put)

lemma database_tableD:
  assumes "database_ok db" "map_of (db_tables db) n = Some t"
  shows "table_ok db t"
  using assms by (auto simp: database_ok_def list_all_iff dest!: map_of_SomeD)

lemma put_table_ok:
  assumes ok: "database_ok db" and n: "map_of (db_tables db) n = Some t" and t': "table_ok (put_table n t' db) t'"
    and target: "\<And>m u tc. m \<noteq> n \<Longrightarrow> (m, u) \<in> set (db_tables db) \<Longrightarrow> tc \<in> set (targets u) \<Longrightarrow> fst tc = n \<Longrightarrow>
      target_ok db tc \<Longrightarrow> target_ok (put_table n t' db) tc"
    and refs: "\<And>m u nr r. m \<noteq> n \<Longrightarrow> (m, u) \<in> set (db_tables db) \<Longrightarrow> nr \<in> set (t_rules u) \<Longrightarrow> r \<in> set (t_rows u) \<Longrightarrow>
      reference_holds db (snd nr) r \<Longrightarrow> reference_holds (put_table n t' db) (snd nr) r"
  shows "database_ok (put_table n t' db)"
proof -
  have "table_ok (put_table n t' db) u" if "(m, u) \<in> set (db_tables (put_table n t' db))" for m u
    using that
  proof (cases rule: put_table_cases)
    case 1
    then show ?thesis using t' by simp
  next
    case 2
    with ok have "table_ok db u" by (auto simp: database_ok_def list_all_iff)
    then show ?thesis
    proof (rule sql_table_mono)
      show "target_ok (put_table n t' db) tc" if "tc \<in> set (targets u)" "target_ok db tc" for tc
        using target [OF 2(1,2) that(1) _ that(2)] that(2) by (cases "fst tc = n") (auto simp: target_ok_def map_of_put)
      show "reference_holds (put_table n t' db) (snd nr) r"
        if "nr \<in> set (t_rules u)" "r \<in> set (t_rows u)" "reference_holds db (snd nr) r" for nr r
        using refs [OF 2 that] .
    qed simp
  qed
  moreover have "distinct (map fst (db_tables (put_table n t' db)))" using ok by (simp add: database_ok_def)
  ultimately show ?thesis by (auto simp: database_ok_def list_all_iff)
qed

text \<open>The table still has what other tables refer to: keyed columns and their values.\<close>

definition keeps_column :: "table \<Rightarrow> table \<Rightarrow> string \<Rightarrow> bool" where
  "keeps_column t t' c \<longleftrightarrow>
     (c \<in> set (names t) \<longrightarrow> c \<in> set (names t')) \<and>
     (PrimaryKey c \<in> set (map snd (t_rules t)) \<longrightarrow> PrimaryKey c \<in> set (map snd (t_rules t'))) \<and>
     (UniqueKey [c] \<in> set (map snd (t_rules t)) \<longrightarrow> UniqueKey [c] \<in> set (map snd (t_rules t'))) \<and>
     (\<forall>r\<in>set (t_rows t). cell_of r c \<noteq> CNull \<longrightarrow> cell_of r c \<in> set (map (\<lambda>r. cell_of r c) (t_rows t')))"

lemma keeps_column_target:
  assumes "map_of (db_tables db) n = Some t" "keeps_column t t' (snd tc)" "fst tc = n" "target_ok db tc"
  shows "target_ok (put_table n t' db) tc"
  using assms by (auto simp: target_ok_def map_of_put keeps_column_def)

lemma keeps_column_reference:
  assumes n: "map_of (db_tables db) n = Some t"
    and k: "\<And>c. (n, c) \<in> set (rule_target ru) \<Longrightarrow> keeps_column t t' c"
    and r: "reference_holds db ru r"
  shows "reference_holds (put_table n t' db) ru r"
proof (cases ru)
  case (ForeignKey c m rc act)
  show ?thesis
  proof (cases "cell_of r c = CNull \<or> m \<noteq> n")
    case True
    then show ?thesis using r ForeignKey n by (auto simp: column_values_def rows_of_put)
  next
    case False
    with r ForeignKey n obtain s where "s \<in> set (t_rows t)" "cell_of s rc = cell_of r c"
      by (auto simp: column_values_def rows_of_def)
    moreover have "keeps_column t t' rc" using k ForeignKey False by simp
    ultimately have "cell_of r c \<in> set (map (\<lambda>r. cell_of r rc) (t_rows t'))"
      using False unfolding keeps_column_def by metis
    then show ?thesis using ForeignKey False n by (auto simp: column_values_def rows_of_put)
  qed
qed simp_all

lemma targeted_iff:
  "(n, c) \<in> set (targeted db n) \<longleftrightarrow> (\<exists>m u. (m, u) \<in> set (db_tables db) \<and> (n, c) \<in> set (targets u))"
  by (force simp: targeted_def)

lemma rule_target_targets: "nr \<in> set (t_rules u) \<Longrightarrow> tc \<in> set (rule_target (snd nr)) \<Longrightarrow> tc \<in> set (targets u)"
  by (auto simp: targets_def)

lemma put_table_kept:
  assumes ok: "database_ok db" and n: "map_of (db_tables db) n = Some t" and t': "table_ok (put_table n t' db) t'"
    and k: "\<And>c. (n, c) \<in> set (targeted db n) \<Longrightarrow> keeps_column t t' c"
  shows "database_ok (put_table n t' db)"
  using ok n t'
proof (rule put_table_ok)
  show "target_ok (put_table n t' db) tc"
    if "m \<noteq> n" "(m, u) \<in> set (db_tables db)" "tc \<in> set (targets u)" "fst tc = n" "target_ok db tc" for m u tc
  proof (rule keeps_column_target [OF n _ that(4,5)])
    have "(n, snd tc) \<in> set (targeted db n)" unfolding targeted_iff using that(2,3,4) by (cases tc) auto
    then show "keeps_column t t' (snd tc)" by (rule k)
  qed
  show "reference_holds (put_table n t' db) (snd nr) r"
    if "m \<noteq> n" "(m, u) \<in> set (db_tables db)" "nr \<in> set (t_rules u)" "r \<in> set (t_rows u)"
      "reference_holds db (snd nr) r" for m u nr r
  proof (rule keeps_column_reference [OF n _ that(5)])
    show "keeps_column t t' c" if "(n, c) \<in> set (rule_target (snd nr))" for c
      using k rule_target_targets [OF \<open>nr \<in> set (t_rules u)\<close> that] \<open>(m, u) \<in> set (db_tables db)\<close>
      by (auto simp: targeted_iff)
  qed
qed

lemma keeps_column_same:
  "names t' = names t \<Longrightarrow> set (map snd (t_rules t)) \<subseteq> set (map snd (t_rules t')) \<Longrightarrow>
   set (t_rows t) \<subseteq> set (t_rows t') \<Longrightarrow> keeps_column t t' c"
  unfolding keeps_column_def by auto

text \<open>The table's own references, when its rows stay and referenced columns are kept.\<close>

lemma own_references:
  assumes ok: "table_ok db t" and n: "map_of (db_tables db) n = Some t"
    and k: "\<And>c. (n, c) \<in> set (targets t) \<Longrightarrow> keeps_column t t' c"
    and sub: "set (t_rules t') \<subseteq> set (t_rules t)"
    and same: "\<And>nr. nr \<in> set (t_rules t') \<Longrightarrow>
      \<forall>r'\<in>set (t_rows t'). \<exists>r\<in>set (t_rows t). \<forall>c\<in>set (rule_columns (snd nr)). cell_of r' c = cell_of r c"
  shows "references_ok (put_table n t' db) t'"
  unfolding references_ok_def list_all_iff
proof (intro ballI)
  fix nr r' assume nr: "nr \<in> set (t_rules t')" and r': "r' \<in> set (t_rows t')"
  with same obtain r where r: "r \<in> set (t_rows t)" "\<And>c. c \<in> set (rule_columns (snd nr)) \<Longrightarrow> cell_of r' c = cell_of r c"
    by blast
  have "nr \<in> set (t_rules t)" using nr sub by blast
  then have "reference_holds db (snd nr) r" using ok r(1) by (auto simp: table_ok_def references_ok_def list_all_iff)
  then have "reference_holds db (snd nr) r'" using reference_holds_cong [of "snd nr" r' r db] r(2) by blast
  moreover have "keeps_column t t' c" if "(n, c) \<in> set (rule_target (snd nr))" for c
    using k rule_target_targets [OF \<open>nr \<in> set (t_rules t)\<close> that] by blast
  ultimately show "reference_holds (put_table n t' db) (snd nr) r'"
    by (intro keeps_column_reference [OF n]) blast+
qed

subsection \<open>Statements\<close>

lemma guard_Inr: "guard checks m = Inr x \<longleftrightarrow> list_all fst checks \<and> m = Inr x"
proof -
  have "first_error checks = None \<longleftrightarrow> list_all fst checks"
    by (auto simp: first_error_def find_None_iff list_all_iff)
  then show ?thesis by (auto simp: guard_def split: option.splits)
qed

lemma with_table_Inr: "with_table db n f = Inr x \<longleftrightarrow> (\<exists>t. map_of (db_tables db) n = Some t \<and> f t = Inr x)"
  by (auto simp: with_table_def split: option.splits)

lemma shape_ok_put:
  assumes "shape_ok db t" "map_of (db_tables db) n = Some t" "t_columns t' = t_columns t"
    and "set (t_rules t') \<subseteq> set (t_rules t)" "set (t_indexes t') \<subseteq> set (t_indexes t)"
    and k: "\<And>c. (n, c) \<in> set (targets t) \<Longrightarrow> keeps_column t t' c"
  shows "shape_ok (put_table n t' db) t'"
proof -
  have nm: "names t' = names t" using assms(3) by (simp add: names_def)
  have "target_ok (put_table n t' db) tc" if tc: "tc \<in> set (targets t')" for tc
  proof -
    from tc assms(4) have t: "tc \<in> set (targets t)" by (auto simp: targets_def)
    with assms(1) have ok: "target_ok db tc" by (simp add: shape_ok_def list_all_iff)
    show ?thesis
    proof (cases "fst tc = n")
      case True
      with t have "keeps_column t t' (snd tc)" by (intro k) auto
      then show ?thesis using assms(2) True ok by (intro keeps_column_target)
    next
      case False
      then show ?thesis using ok by (simp add: target_ok_def map_of_put)
    qed
  qed
  then show ?thesis using assms(1,3,4,5) nm
    by (auto simp: shape_ok_def list_all_iff columns_exist_def index_ok_def)
qed

lemma row_ok_cong: "t_columns t' = t_columns t \<Longrightarrow> t_rules t' = t_rules t \<Longrightarrow> row_ok types t' = row_ok types t"
  by (rule ext) (simp add: row_ok_def names_def)

lemma unique_keys_cong: "t_rules t' = t_rules t \<Longrightarrow> t_indexes t' = t_indexes t \<Longrightarrow> unique_keys t' = unique_keys t"
  by (simp add: unique_keys_def)

lemma rows_changed_ok:
  fixes t :: table
  defines "t' rows j \<equiv> t\<lparr>t_rows := rows, t_next := j\<rparr>"
  assumes ok: "database_ok db" and n: "map_of (db_tables db) n = Some t"
    and k: "\<And>c. (n, c) \<in> set (targeted db n) \<Longrightarrow> keeps_column t (t' rows j) c"
    and r: "list_all (row_ok (db_types db) t) rows" and u: "list_all (unique_ok rows) (unique_keys t)"
    and refs: "references_ok (put_table n (t' rows j) db) (t' rows j)"
  shows "database_ok (put_table n (t' rows j) db)"
  using ok n _ k
proof (rule put_table_kept)
  have t: "table_ok db t" by (rule database_tableD [OF ok n])
  have own: "(n, c) \<in> set (targeted db n)" if "(n, c) \<in> set (targets t)" for c
    using that n by (auto simp: targeted_iff dest!: map_of_SomeD)
  have "shape_ok (put_table n (t' rows j) db) (t' rows j)"
  proof (rule shape_ok_put [OF _ n])
    show "keeps_column t (t' rows j) c" if "(n, c) \<in> set (targets t)" for c using own that by (intro k)
  qed (use t in \<open>simp_all add: table_ok_def t'_def\<close>)
  moreover have "row_ok (db_types db) (t' rows j) = row_ok (db_types db) t"
    by (rule row_ok_cong) (simp_all add: t'_def)
  moreover have "unique_keys (t' rows j) = unique_keys t" by (rule unique_keys_cong) (simp_all add: t'_def)
  ultimately show "table_ok (put_table n (t' rows j) db) (t' rows j)"
    using r u refs by (simp add: table_ok_def t'_def)
qed

lemma next_changed_ok:
  assumes "database_ok db" "map_of (db_tables db) n = Some t"
  shows "database_ok (put_table n (t\<lparr>t_next := j\<rparr>) db)"
proof -
  have t: "table_ok db t" by (rule database_tableD [OF assms])
  have k: "keeps_column t (t\<lparr>t_next := j\<rparr>) c" for c by (rule keeps_column_same) (simp_all add: names_def)
  have "references_ok (put_table n (t\<lparr>t_next := j\<rparr>) db) (t\<lparr>t_next := j\<rparr>)"
    by (rule own_references [OF t assms(2)]) (use k in auto)
  then show ?thesis
    using rows_changed_ok [where rows = "t_rows t" and j = j, OF assms] t k by (simp add: table_ok_def)
qed

lemma store_row_names: "store_row types cvs = Inr r \<Longrightarrow> map fst r = map (col_name \<circ> fst) cvs"
  by (induction types cvs arbitrary: r rule: store_row.induct) (auto split: option.splits sum.splits)

lemma store_row_cell:
  assumes "store_row types cvs = Inr r" "distinct (map (col_name \<circ> fst) cvs)" "(c, v) \<in> set cvs"
  shows "store_cell types (col_type c) v = Some (cell_of r (col_name c))"
  using assms
proof (induction types cvs arbitrary: r rule: store_row.induct)
  case (2 types d w cvs)
  from 2(2) obtain x r' where x: "store_cell types (col_type d) w = Some x" "store_row types cvs = Inr r'"
    "r = (col_name d, x) # r'" by (auto split: option.splits sum.splits)
  show ?case
  proof (cases "(c, v) = (d, w)")
    case True
    then show ?thesis using x by (simp add: cell_of_def)
  next
    case False
    then have in_cvs: "(c, v) \<in> set cvs" using 2(4) by auto
    then have "col_name c \<in> (col_name \<circ> fst) ` set cvs" by force
    moreover have "col_name d \<notin> (col_name \<circ> fst) ` set cvs" using 2(3) by (simp add: comp_def)
    ultimately have "col_name c \<noteq> col_name d" by metis
    moreover have "store_cell types (col_type c) v = Some (cell_of r' (col_name c))"
      using 2(1) [OF x(1) x(2)] 2(3) in_cvs by simp
    ultimately show ?thesis using x(3) by (simp add: cell_of_def)
  qed
qed simp

lemma find_names: "find P xs = None \<Longrightarrow> x \<in> set xs \<Longrightarrow> \<not> P x"
  by (auto simp: find_None_iff)

text \<open>A row that an INSERT adds fits the table.\<close>

lemma built_row_ok:
  assumes shape: "shape_ok db t"
    and r: "store_row (db_types db) (map (\<lambda>c. (c, f c)) (t_columns t)) = Inr r"
    and m: "missing_value t r = None" and ch: "list_all (\<lambda>nr. check_holds (snd nr) r) (t_rules t)"
  shows "row_ok (db_types db) t r"
  unfolding row_ok_def
proof (intro conjI)
  show "map fst r = names t" using store_row_names [OF r] by (simp add: names_def comp_def)
  show "list_all (\<lambda>nr. check_holds (snd nr) r) (t_rules t)" by (rule ch)
  have d: "distinct (map (col_name \<circ> fst) (map (\<lambda>c. (c, f c)) (t_columns t)))"
    using shape by (simp add: shape_ok_def names_def comp_def)
  show "list_all (\<lambda>c. store_cell (db_types db) (col_type c) (cell_of r (col_name c)) = Some (cell_of r (col_name c)) \<and>
    (col_nullable c \<or> cell_of r (col_name c) \<noteq> CNull)) (t_columns t)"
    unfolding list_all_iff
  proof (intro ballI conjI)
    fix c assume c: "c \<in> set (t_columns t)"
    then have "store_cell (db_types db) (col_type c) (f c) = Some (cell_of r (col_name c))"
      by (intro store_row_cell [OF r d]) auto
    then show "store_cell (db_types db) (col_type c) (cell_of r (col_name c)) = Some (cell_of r (col_name c))"
      by (rule store_cell_idem)
    show "col_nullable c \<or> cell_of r (col_name c) \<noteq> CNull"
      using find_names [OF m [unfolded missing_value_def] c] by blast
  qed
qed

text \<open>What a successful INSERT of a row did.\<close>

lemma insert_row_cases:
  assumes "insert_row env n given passed db = Inr db'"
  obtains (skipped) t where "map_of (db_tables db) n = Some t" "db' = put_table n (t\<lparr>t_next := t_next t + 1\<rparr>) db"
  | (added) t r where "map_of (db_tables db) n = Some t"
      "store_row (db_types db) (map (\<lambda>c. (c, given_cell env t given c)) (t_columns t)) = Inr r"
      "missing_value t r = None" "list_all (\<lambda>nr. check_holds (snd nr) r) (t_rules t)"
      "\<not> list_ex (clash r (t_rows t)) (unique_keys t)"
      "db' = put_table n (t\<lparr>t_rows := t_rows t @ [r], t_next := t_next t + 1\<rparr>) db"
      "list_all (\<lambda>nr. reference_holds db' (snd nr) r) (t_rules t)"
  using assms
  by (auto simp: insert_row_def with_table_Inr Let_def split: option.splits sum.splits if_splits)

lemma insert_row_ok:
  assumes ok: "database_ok db" and ins: "insert_row env n given passed db = Inr db'"
  shows "database_ok db'"
  using ins
proof (cases rule: insert_row_cases)
  case (skipped t)
  then show ?thesis using next_changed_ok ok by simp
next
  case (added t r)
  have t: "table_ok db t" by (rule database_tableD [OF ok added(1)])
  let ?t = "t\<lparr>t_rows := t_rows t @ [r], t_next := t_next t + 1\<rparr>"
  have k: "keeps_column t ?t c" for c by (rule keeps_column_same) (auto simp: names_def)
  have row: "row_ok (db_types db) t r"
    using t added(2,3,4) by (intro built_row_ok) (simp_all add: table_ok_def)
  have "reference_holds (put_table n ?t db) (snd nr) x"
    if nr: "nr \<in> set (t_rules t)" and x: "x \<in> set (t_rows t)" for nr x
  proof (rule keeps_column_reference [OF added(1) k])
    show "reference_holds db (snd nr) x" using t nr x by (auto simp: table_ok_def references_ok_def list_all_iff)
  qed
  with added(6,7) have refs: "references_ok (put_table n ?t db) ?t"
    by (auto simp: references_ok_def list_all_iff)
  show ?thesis unfolding added(6)
  proof (rule rows_changed_ok [OF ok added(1) k _ _ refs])
    show "list_all (row_ok (db_types db) t) (t_rows t @ [r])" using t row by (simp add: table_ok_def)
    show "list_all (unique_ok (t_rows t @ [r])) (unique_keys t)"
      using t added(5) by (auto simp: table_ok_def list_all_iff list_ex_iff intro!: unique_ok_snoc)
  qed
qed

lemma insert_rows_ok:
  "insert_rows env db0 n cs target ess db = Inr db' \<Longrightarrow> database_ok db \<Longrightarrow> database_ok db'"
  by (induction env db0 n cs target ess db rule: insert_rows.induct) (auto split: sum.splits dest: insert_row_ok)

subsubsection \<open>Types, tables and indexes\<close>

lemma reference_holds_types: "reference_holds (db\<lparr>db_types := ts\<rparr>) ru r = reference_holds db ru r"
  by (cases ru) (simp_all add: column_values_def rows_of_def)

lemma target_ok_types: "target_ok (db\<lparr>db_types := ts\<rparr>) tc = target_ok db tc"
  by (simp add: target_ok_def)

lemma types_changed_ok:
  assumes ok: "database_ok db"
    and types: "\<And>n u e ls. (n, u) \<in> set (db_tables db) \<Longrightarrow> uses_type u e \<Longrightarrow> map_of (db_types db) e = Some ls \<Longrightarrow>
      map_of ts e = Some ls"
  shows "database_ok (db\<lparr>db_types := ts\<rparr>)"
proof -
  have "table_ok (db\<lparr>db_types := ts\<rparr>) u" if u: "(n, u) \<in> set (db_tables db)" for n u
  proof -
    from ok u have "table_ok db u" by (auto simp: database_ok_def list_all_iff)
    then show ?thesis
    proof (rule sql_table_mono)
      show "map_of (db_types (db\<lparr>db_types := ts\<rparr>)) e = Some ls"
        if "uses_type u e" "map_of (db_types db) e = Some ls" for e ls using types [OF u that] by simp
    qed (simp_all add: target_ok_types reference_holds_types)
  qed
  then show ?thesis using ok by (auto simp: database_ok_def list_all_iff)
qed

lemma exec_create_type_ok:
  assumes "database_ok db" "exec env (CreateType e labels) db = Inr db'"
  shows "database_ok db'"
proof (cases "e \<in> set (map fst (db_types db))")
  case False
  then have "db' = db\<lparr>db_types := db_types db @ [(e, labels)]\<rparr>" using assms(2) by (simp add: exec.simps(1))
  then show ?thesis using types_changed_ok [OF assms(1), of "db_types db @ [(e, labels)]"] by simp
next
  case True
  then have "db' = db" using assms(2) by (simp add: exec.simps(1))
  then show ?thesis using assms(1) by simp
qed

lemma map_of_filter_name: "x \<noteq> e \<Longrightarrow> map_of (filter (\<lambda>tl. fst tl \<noteq> e) xs) x = map_of xs x"
  by (induction xs) auto

lemma exec_drop_type_ok:
  assumes "database_ok db" "exec env (DropType b e) db = Inr db'"
  shows "database_ok db'"
proof (cases "e \<in> set (map fst (db_types db))")
  case True
  with assms(2) have unused: "\<not> uses_type u e" if "(n, u) \<in> set (db_tables db)" for n u
    using that by (fastforce simp: exec.simps guard_Inr list_all_iff uses_type_def)
  have "db' = db\<lparr>db_types := filter (\<lambda>tl. fst tl \<noteq> e) (db_types db)\<rparr>"
    using assms(2) True by (auto simp: exec.simps guard_Inr)
  moreover have "map_of (filter (\<lambda>tl. fst tl \<noteq> e) (db_types db)) x = Some ls"
    if "(n, u) \<in> set (db_tables db)" "uses_type u x" "map_of (db_types db) x = Some ls" for n u x ls
    using that unused [OF that(1)] by (subst map_of_filter_name) auto
  ultimately show ?thesis using types_changed_ok [OF assms(1)] by simp
qed (use assms in \<open>auto simp: exec.simps split: if_splits\<close>)

lemma exec_create_table_ok:
  assumes ok: "database_ok db" and ex: "exec env (CreateTable n cols rules) db = Inr db'"
  shows "database_ok db'"
proof (cases "n \<in> set (map fst (db_tables db))")
  case False
  define t where "t = \<lparr>t_columns = cols, t_rules = rules, t_indexes = [], t_rows = [], t_next = 1\<rparr>"
  let ?db = "db\<lparr>db_tables := db_tables db @ [(n, t)]\<rparr>"
  have db': "db' = ?db" and checks: "distinct (names t)" "list_all (\<lambda>c. type_known (db_types db) (col_type c)) cols"
    "list_all (\<lambda>nr. columns_exist t (rule_columns (snd nr))) rules" "list_all (target_ok ?db) (targets t)"
    using ex False by (auto simp: exec.simps guard_Inr Let_def t_def)
  have "table_ok ?db t" using checks by (simp add: table_ok_def shape_ok_def references_ok_def t_def list_all_iff)
  moreover have old: "map_of (db_tables db @ [(n, t)]) m = Some u" if "map_of (db_tables db) m = Some u" for m u
    using that by simp
  moreover have "table_ok ?db u" if u: "(m, u) \<in> set (db_tables db)" for m u
  proof -
    from ok u have t_ok: "table_ok db u" by (auto simp: database_ok_def list_all_iff)
    then show ?thesis
    proof (rule sql_table_mono)
      show "target_ok ?db tc" if "target_ok db tc" for tc
        using that by (auto simp: target_ok_def split: option.splits)
      show "reference_holds ?db (snd nr) r" if nr: "nr \<in> set (t_rules u)" and h: "reference_holds db (snd nr) r" for nr r
      proof (cases "snd nr")
        case (ForeignKey c x rc act)
        then have "target_ok db (x, rc)"
          using t_ok nr rule_target_targets [OF nr, of "(x, rc)"] by (auto simp: table_ok_def shape_ok_def list_all_iff)
        then obtain w where "map_of (db_tables db) x = Some w" by (auto simp: target_ok_def split: option.splits)
        then have "rows_of ?db x = rows_of db x" using old by (simp add: rows_of_def)
        then show ?thesis using h ForeignKey by (simp add: column_values_def)
      qed simp_all
    qed simp
  qed
  ultimately show ?thesis using ok False by (auto simp: db' database_ok_def list_all_iff)
qed (use assms in \<open>auto simp: exec.simps\<close>)

lemma exec_drop_table_ok:
  assumes ok: "database_ok db" and ex: "exec env (DropTable b n) db = Inr db'"
  shows "database_ok db'"
proof (cases "n \<in> set (map fst (db_tables db))")
  case True
  let ?db = "db\<lparr>db_tables := filter (\<lambda>mu. fst mu \<noteq> n) (db_tables db)\<rparr>"
  have db': "db' = ?db" and free: "\<not> targeted_by_others db n" using ex True by (auto simp: exec.simps guard_Inr)
  have keep: "map_of (db_tables ?db) m = map_of (db_tables db) m" if "m \<noteq> n" for m
    using that by (simp add: map_of_filter_name)
  have "table_ok ?db u" if u: "(m, u) \<in> set (db_tables db)" "m \<noteq> n" for m u
  proof -
    have away: "fst tc \<noteq> n" if "tc \<in> set (targets u)" for tc
      using free u that by (fastforce simp: targeted_by_others_def list_ex_iff)
    from ok u have "table_ok db u" by (auto simp: database_ok_def list_all_iff)
    then show ?thesis
    proof (rule sql_table_mono)
      show "target_ok ?db tc" if "tc \<in> set (targets u)" "target_ok db tc" for tc
        using that keep [OF away [OF that(1)]] by (simp add: target_ok_def)
      show "reference_holds ?db (snd nr) r" if nr: "nr \<in> set (t_rules u)" and h: "reference_holds db (snd nr) r" for nr r
      proof (cases "snd nr")
        case (ForeignKey c x rc act)
        then have "x \<noteq> n" using away rule_target_targets [OF nr, of "(x, rc)"] by fastforce
        then have "rows_of ?db x = rows_of db x" using keep by (simp add: rows_of_def)
        then show ?thesis using h ForeignKey by (simp add: column_values_def)
      qed simp_all
    qed simp
  qed
  then show ?thesis using ok by (auto simp: db' database_ok_def list_all_iff distinct_map_filter)
qed (use assms in \<open>auto simp: exec.simps split: if_splits\<close>)

lemma keeps_column_rules:
  "t_columns t' = t_columns t \<Longrightarrow> t_rows t' = t_rows t \<Longrightarrow>
   PrimaryKey c \<in> set (map snd (t_rules t)) \<longrightarrow> PrimaryKey c \<in> set (map snd (t_rules t')) \<Longrightarrow>
   UniqueKey [c] \<in> set (map snd (t_rules t)) \<longrightarrow> UniqueKey [c] \<in> set (map snd (t_rules t')) \<Longrightarrow>
   keeps_column t t' c"
  by (simp add: keeps_column_def names_def)

lemma target_put_kept:
  assumes "map_of (db_tables db) n = Some t" "\<And>c. keeps_column t t' c" "target_ok db tc"
  shows "target_ok (put_table n t' db) tc"
  using assms keeps_column_target [of db n t t' tc]
  by (cases "fst tc = n") (auto simp: target_ok_def map_of_put)

lemma unique_keys_append:
  "set (unique_keys (t\<lparr>t_rules := t_rules t @ rs, t_indexes := t_indexes t @ is\<rparr>)) =
     set (unique_keys t) \<union> (\<Union>nr\<in>set rs. set (rule_keys (snd nr))) \<union> (\<Union>ix\<in>set is. set (index_keys ix))"
  by (auto simp: unique_keys_def)

text \<open>New constraints and indexes that the rows fulfil.\<close>

lemma table_extended_ok:
  fixes t :: table
  defines "t' rs is \<equiv> t\<lparr>t_rules := t_rules t @ rs, t_indexes := t_indexes t @ is\<rparr>"
  assumes ok: "database_ok db" and n: "map_of (db_tables db) n = Some t"
    and rs: "\<And>nr. nr \<in> set rs \<Longrightarrow> columns_exist t (rule_columns (snd nr)) \<and> list_all (target_ok db) (rule_target (snd nr)) \<and>
      list_all (unique_ok (t_rows t)) (rule_keys (snd nr)) \<and> list_all (check_holds (snd nr)) (t_rows t) \<and>
      list_all (reference_holds db (snd nr)) (t_rows t)"
    and ixs: "\<And>ix. ix \<in> set is \<Longrightarrow> index_ok (db_types db) t ix \<and> list_all (unique_ok (t_rows t)) (index_keys ix)"
  shows "database_ok (put_table n (t' rs is) db)"
proof -
  have t: "table_ok db t" by (rule database_tableD [OF ok n])
  have cols: "t_columns (t' rs is) = t_columns t" "names (t' rs is) = names t" "t_rows (t' rs is) = t_rows t"
    "t_rules (t' rs is) = t_rules t @ rs" "t_indexes (t' rs is) = t_indexes t @ is"
    by (simp_all add: t'_def names_def)
  have k: "keeps_column t (t' rs is) c" for c by (rule keeps_column_rules) (auto simp: cols)
  have ref: "reference_holds (put_table n (t' rs is) db) ru r" if "reference_holds db ru r" for ru r
    using keeps_column_reference [OF n k that] .
  have "shape_ok (put_table n (t' rs is) db) (t' rs is)"
    using t rs ixs target_put_kept [OF n k]
    unfolding table_ok_def shape_ok_def cols list_all_iff columns_exist_def index_ok_def targets_def
    by (simp add: ball_Un)
  moreover have "list_all (row_ok (db_types db) (t' rs is)) (t_rows t)"
    using t rs unfolding table_ok_def row_ok_def cols list_all_iff by (simp add: ball_Un)
  moreover have "list_all (unique_ok (t_rows t)) (unique_keys (t' rs is))"
    using t rs ixs unfolding t'_def by (auto simp: table_ok_def list_all_iff unique_keys_append)
  moreover have "references_ok (put_table n (t' rs is) db) (t' rs is)"
    using t rs ref unfolding table_ok_def references_ok_def cols list_all_iff by (simp add: ball_Un)
  ultimately have "table_ok (put_table n (t' rs is) db) (t' rs is)" by (simp add: table_ok_def cols)
  then show ?thesis using k by (intro put_table_kept [OF ok n])
qed

lemma exec_create_index_ok:
  assumes ok: "database_ok db" and ex: "exec env (CreateIndex b n ix) db = Inr db'"
  shows "database_ok db'"
proof -
  obtain t where n: "map_of (db_tables db) n = Some t" and i: "index_ok (db_types db) t ix"
    and u: "db' = db \<or> db' = put_table n (t\<lparr>t_indexes := t_indexes t @ [ix]\<rparr>) db \<and>
      list_all (unique_ok (t_rows t)) (index_keys ix)"
    using ex by (auto simp: exec.simps(5) with_table_Inr guard_Inr index_ok_def split: if_splits)
  from u show ?thesis
  proof (elim disjE conjE)
    assume "db' = put_table n (t\<lparr>t_indexes := t_indexes t @ [ix]\<rparr>) db" "list_all (unique_ok (t_rows t)) (index_keys ix)"
    then show ?thesis using table_extended_ok [OF ok n, of "[]" "[ix]"] i by simp
  qed (simp add: ok)
qed

lemma exec_add_rule_ok:
  assumes ok: "database_ok db" and ex: "exec env (AddRule n i ru) db = Inr db'"
  shows "database_ok db'"
proof (cases "i \<in> set (rule_names db)")
  case True
  then show ?thesis using ok ex by (simp add: exec.simps(9))
next
  case False
  then obtain t where n: "map_of (db_tables db) n = Some t"
    and c: "columns_exist t (rule_columns ru)" "list_all (target_ok db) (rule_target ru)"
      "list_all (unique_ok (t_rows t)) (rule_keys ru)" "list_all (check_holds ru) (t_rows t)"
      "list_all (reference_holds db ru) (t_rows t)"
    and db': "db' = put_table n (t\<lparr>t_rules := t_rules t @ [(i, ru)]\<rparr>) db"
    using ex by (auto simp: exec.simps(9) with_table_Inr guard_Inr)
  show ?thesis using table_extended_ok [OF ok n, of "[(i, ru)]" "[]"] c by (simp add: db')
qed

text \<open>Constraints and indexes that are dropped, unless another table refers to their columns.\<close>

lemma table_reduced:
  assumes t: "table_ok db t" and cols: "t_columns t' = t_columns t" "t_rows t' = t_rows t"
    and sub: "set (t_rules t') \<subseteq> set (t_rules t)" "set (t_indexes t') \<subseteq> set (t_indexes t)"
    and types: "db_types db' = db_types db"
    and target: "\<And>tc. target_ok db tc \<Longrightarrow> target_ok db' tc"
    and ref: "\<And>ru r. reference_holds db ru r \<Longrightarrow> reference_holds db' ru r"
  shows "table_ok db' t'"
proof -
  have nm: "names t' = names t" using cols by (simp add: names_def)
  have tg: "set (targets t') \<subseteq> set (targets t)" using sub by (auto simp: targets_def)
  have uk: "set (unique_keys t') \<subseteq> set (unique_keys t)" using sub by (auto simp: unique_keys_def)
  have "shape_ok db' t'"
    using t cols nm sub tg target
    by (auto simp: table_ok_def shape_ok_def types list_all_iff columns_exist_def index_ok_def)
  moreover have "list_all (row_ok (db_types db) t') (t_rows t)"
    using t sub unfolding table_ok_def row_ok_def cols nm list_all_iff by blast
  moreover have "list_all (unique_ok (t_rows t)) (unique_keys t')" using t uk by (auto simp: table_ok_def list_all_iff)
  moreover have "references_ok db' t'"
    using t sub ref unfolding table_ok_def references_ok_def cols list_all_iff by blast
  ultimately show ?thesis by (simp add: table_ok_def types cols)
qed

lemma put_table_reduced:
  assumes ok: "database_ok db" and n: "map_of (db_tables db) n = Some t"
    and cols: "t_columns t' = t_columns t" "t_rows t' = t_rows t"
    and sub: "set (t_rules t') \<subseteq> set (t_rules t)" "set (t_indexes t') \<subseteq> set (t_indexes t)"
    and k: "\<And>c. keeps_column t t' c"
  shows "database_ok (put_table n t' db)"
proof (rule put_table_kept [OF ok n _ k])
  show "table_ok (put_table n t' db) t'"
  proof (rule table_reduced [OF database_tableD [OF ok n] cols sub])
    show "target_ok (put_table n t' db) tc" if "target_ok db tc" for tc by (rule target_put_kept [OF n k that])
    show "reference_holds (put_table n t' db) ru r" if "reference_holds db ru r" for ru r
      using keeps_column_reference [OF n k that] .
  qed simp
qed

lemma drop_index_simps [simp]:
  "t_columns (drop_index i t) = t_columns t" "t_rows (drop_index i t) = t_rows t"
  "t_rules (drop_index i t) = t_rules t" "set (t_indexes (drop_index i t)) \<subseteq> set (t_indexes t)"
  "names (drop_index i t) = names t"
  by (auto simp: drop_index_def names_def)

lemma exec_runner_drop_index_ok:
  assumes ok: "database_ok db" and ex: "exec env (RunnerDropIndex n i) db = Inr db'"
  shows "database_ok db'"
proof -
  from ex obtain t where n: "map_of (db_tables db) n = Some t" and db': "db' = put_table n (drop_index i t) db"
    by (auto simp: exec.simps(7) split: option.splits if_splits)
  show ?thesis unfolding db' by (rule put_table_reduced [OF ok n]) (auto intro: keeps_column_rules)
qed

lemma exec_runner_drop_key_ok:
  assumes ok: "database_ok db" and ex: "exec env (RunnerDropForeignKey n i) db = Inr db'"
  shows "database_ok db'"
proof -
  let ?f = "\<lambda>t. t\<lparr>t_rules := filter (\<lambda>nr. \<not> (fst nr = i \<and> rule_target (snd nr) \<noteq> [])) (t_rules t)\<rparr>"
  from ex obtain t where n: "map_of (db_tables db) n = Some t" and db': "db' = put_table n (?f t) db"
    by (auto simp: exec.simps(8) split: option.splits if_splits)
  have "keeps_column t (?f t) c" for c by (rule keeps_column_rules) force+
  then show ?thesis unfolding db' by (intro put_table_reduced [OF ok n]) auto
qed

lemma map_of_update: "map_of (db_tables (update_tables f db)) n = map_option f (map_of (db_tables db) n)"
proof -
  have "map_of (map (\<lambda>(n, t). (n, f t)) xs) n = map_option f (map_of xs n)" for xs
    by (induction xs) auto
  then show ?thesis by (simp add: update_tables_def)
qed

lemma exec_drop_index_ok:
  assumes ok: "database_ok db" and ex: "exec env (DropIndex b i) db = Inr db'"
  shows "database_ok db'"
proof -
  let ?db = "update_tables (drop_index i) db"
  have target: "target_ok ?db tc" if "target_ok db tc" for tc
    using that by (auto simp: target_ok_def map_of_update split: option.splits)
  have rows: "rows_of ?db m = rows_of db m" for m by (simp add: rows_of_def map_of_update split: option.splits)
  have ref: "reference_holds ?db ru r" if "reference_holds db ru r" for ru r
    using that by (cases ru) (simp_all add: column_values_def rows)
  have types: "db_types ?db = db_types db" and fsts: "map fst (db_tables ?db) = map fst (db_tables db)"
    by (simp_all add: update_tables_def case_prod_unfold comp_def)
  have "table_ok ?db (drop_index i u)" if u: "(m, u) \<in> set (db_tables db)" for m u
  proof (rule table_reduced [of db u])
    show "table_ok db u" using ok u by (auto simp: database_ok_def list_all_iff)
  qed (simp_all add: types target ref)
  then have "\<forall>nt\<in>set (db_tables ?db). table_ok ?db (snd nt)" by (auto simp: update_tables_def)
  then have "database_ok ?db" using ok unfolding database_ok_def fsts list_all_iff by blast
  then show ?thesis using ok ex by (auto simp: exec.simps(6) split: if_splits)
qed

subsubsection \<open>Columns and rows\<close>

lemma cell_of_snoc: "m \<notin> set (map fst r) \<Longrightarrow> cell_of (r @ [(m, v)]) d = (if d = m then v else cell_of r d)"
proof -
  assume "m \<notin> set (map fst r)"
  then have "map_of r m = None" by (auto simp: map_of_eq_None_iff)
  then show ?thesis by (auto simp: cell_of_def map_add_def split: option.splits)
qed

lemma cell_of_filter: "d \<noteq> c \<Longrightarrow> cell_of (filter (\<lambda>cv. fst cv \<noteq> c) r) d = cell_of r d"
  by (simp add: cell_of_def map_of_filter_name)

lemma cell_of_not_null: "cell_of r c \<noteq> CNull \<Longrightarrow> c \<in> set (map fst r)"
  by (auto simp: cell_of_def split: option.splits dest!: map_of_SomeD intro: rev_image_eqI)

lemma row_names: "table_ok db t \<Longrightarrow> r \<in> set (t_rows t) \<Longrightarrow> map fst r = names t"
  by (simp add: table_ok_def list_all_iff row_ok_def)

lemma add_column_ok:
  assumes ok: "database_ok db" and n: "map_of (db_tables db) n = Some t"
    and new: "col_name c \<notin> set (names t)" and ty: "type_known (db_types db) (col_type c)"
    and v: "store_cell (db_types db) (col_type c) w = Some v" "col_nullable c \<or> v \<noteq> CNull \<or> t_rows t = []"
  shows "database_ok (put_table n (add_column c v t) db)"
proof -
  let ?t = "add_column c v t"
  have t: "table_ok db t" by (rule database_tableD [OF ok n])
  have nm: "names ?t = names t @ [col_name c]" and simps: "t_rules ?t = t_rules t" "t_indexes ?t = t_indexes t"
    "t_columns ?t = t_columns t @ [c]" "t_rows ?t = map (\<lambda>r. r @ [(col_name c, v)]) (t_rows t)"
    by (simp_all add: add_column_def names_def)
  have cell: "cell_of (r @ [(col_name c, v)]) d = (if d = col_name c then v else cell_of r d)"
    if "r \<in> set (t_rows t)" for r d
    using row_names [OF t that] new by (intro cell_of_snoc) simp
  have old: "cell_of (r @ [(col_name c, v)]) d = cell_of r d" if "r \<in> set (t_rows t)" "d \<in> set (names t)" for r d
    using cell [OF that(1), of d] that(2) new by auto
  have k: "keeps_column t ?t d" for d
  proof -
    have "cell_of r d \<in> set (map (\<lambda>r. cell_of r d) (t_rows ?t))"
      if r: "r \<in> set (t_rows t)" and x: "cell_of r d \<noteq> CNull" for r
    proof -
      have "d \<in> set (names t)" using cell_of_not_null [OF x] row_names [OF t r] by simp
      then have "cell_of (r @ [(col_name c, v)]) d = cell_of r d" by (rule old [OF r])
      then show ?thesis using r by (force simp: simps)
    qed
    then show ?thesis by (simp add: keeps_column_def nm simps)
  qed
  have "shape_ok (put_table n ?t db) ?t"
    using t new ty target_put_kept [OF n k]
    unfolding table_ok_def shape_ok_def simps list_all_iff columns_exist_def index_ok_def targets_def nm
    by (simp add: ball_Un) blast
  moreover have "list_all (row_ok (db_types db) ?t) (t_rows ?t)"
  proof -
    have "row_ok (db_types db) ?t (r @ [(col_name c, v)])" if r: "r \<in> set (t_rows t)" for r
    proof -
      have ro: "row_ok (db_types db) t r" using t r by (simp add: table_ok_def list_all_iff)
      have "check_holds (snd nr) (r @ [(col_name c, v)])" if nr: "nr \<in> set (t_rules t)" for nr
      proof -
        have "set (rule_columns (snd nr)) \<subseteq> set (names t)"
          using t nr by (simp add: table_ok_def shape_ok_def list_all_iff columns_exist_def)
        then have "check_holds (snd nr) (r @ [(col_name c, v)]) = check_holds (snd nr) r"
          by (intro check_holds_cong old [OF r]) blast
        then show ?thesis using ro nr by (simp add: row_ok_def list_all_iff)
      qed
      moreover have in_names: "col_name d \<in> set (names t)" if "d \<in> set (t_columns t)" for d using that by (simp add: names_def)
      moreover have "col_name d \<noteq> col_name c" if "d \<in> set (t_columns t)" for d using in_names [OF that] new by auto
      moreover have "t_rows t \<noteq> []" using r by auto
      ultimately show ?thesis using ro v store_cell_idem [OF v(1)] cell [OF r]
        by (simp add: row_ok_def simps nm list_all_iff old [OF r])
    qed
    then show ?thesis by (simp add: simps list_all_iff)
  qed
  moreover have "list_all (unique_ok (t_rows ?t)) (unique_keys ?t)"
    unfolding list_all_iff
  proof
    fix q assume "q \<in> set (unique_keys ?t)"
    then have q: "q \<in> set (unique_keys t)" by (simp add: unique_keys_def simps)
    moreover have "shape_ok db t" using t by (simp add: table_ok_def)
    ultimately have "set (key_columns q) \<subseteq> set (names t)" by (intro unique_keys_columns)
    then have "unique_ok (t_rows ?t) q = unique_ok (t_rows t) q"
      unfolding simps by (intro unique_ok_map old) auto
    then show "unique_ok (t_rows ?t) q" using t q by (simp add: table_ok_def list_all_iff)
  qed
  moreover have "references_ok (put_table n ?t db) ?t"
  proof (rule own_references [OF t n k])
    show "\<forall>r'\<in>set (t_rows ?t). \<exists>r\<in>set (t_rows t). \<forall>d\<in>set (rule_columns (snd nr)). cell_of r' d = cell_of r d"
      if "nr \<in> set (t_rules ?t)" for nr
    proof -
      have "set (rule_columns (snd nr)) \<subseteq> set (names t)"
        using t that by (simp add: simps table_ok_def shape_ok_def list_all_iff columns_exist_def)
      then have "cell_of (r @ [(col_name c, v)]) d = cell_of r d"
        if "r \<in> set (t_rows t)" "d \<in> set (rule_columns (snd nr))" for r d
        using old that by blast
      then show ?thesis by (simp add: simps) blast
    qed
  qed (simp add: simps)
  ultimately have "table_ok (put_table n ?t db) ?t" by (simp add: table_ok_def)
  then show ?thesis using k by (intro put_table_kept [OF ok n])
qed

lemma exec_add_column_ok:
  assumes ok: "database_ok db" and ex: "exec env (AddColumn b n c) db = Inr db'"
  shows "database_ok db'"
proof -
  from ex obtain t where n: "map_of (db_tables db) n = Some t"
    and e: "(if col_name c \<in> set (names t) then (if b then Inr db else Inl (DuplicateColumn (col_name c)))
      else guard [(type_known (db_types db) (col_type c), UndefinedType n)]
       (case store_cell (db_types db) (col_type c) (default_cell env t c) of
          None \<Rightarrow> Inl (InvalidValue (col_name c))
        | Some v \<Rightarrow> guard [(col_nullable c \<or> v \<noteq> CNull \<or> t_rows t = [], NotNullViolation (col_name c))]
            (Inr (put_table n (add_column c v t) db)))) = Inr db'"
    by (auto simp: exec.simps(10) with_table_Inr)
  show ?thesis
  proof (cases "col_name c \<in> set (names t)")
    case True
    with e ok show ?thesis by (simp split: if_splits)
  next
    case False
    with e obtain v where "type_known (db_types db) (col_type c)"
      "store_cell (db_types db) (col_type c) (default_cell env t c) = Some v"
      "col_nullable c \<or> v \<noteq> CNull \<or> t_rows t = []" and db': "db' = put_table n (add_column c v t) db"
      by (auto simp: guard_Inr split: option.splits)
    then show ?thesis unfolding db' using False by (intro add_column_ok [OF ok n])
  qed
qed

lemma drop_column_ok:
  assumes ok: "database_ok db" and n: "map_of (db_tables db) n = Some t" and free: "(n, c) \<notin> set (targeted db n)"
  shows "database_ok (put_table n (drop_column c t) db)"
proof -
  let ?t = "drop_column c t"
  have t: "table_ok db t" by (rule database_tableD [OF ok n])
  have nm: "names ?t = filter (\<lambda>x. x \<noteq> c) (names t)" by (simp add: drop_column_def names_def filter_map comp_def)
  have simps: "t_columns ?t = filter (\<lambda>d. col_name d \<noteq> c) (t_columns t)"
    "t_rules ?t = filter (\<lambda>nr. c \<notin> set (rule_columns (snd nr))) (t_rules t)"
    "t_indexes ?t = filter (\<lambda>ix. c \<notin> set (ix_columns ix @ where_columns ix)) (t_indexes t)"
    "t_rows ?t = map (filter (\<lambda>cv. fst cv \<noteq> c)) (t_rows t)"
    by (simp_all add: drop_column_def)
  have k: "keeps_column t ?t d" if "(n, d) \<in> set (targeted db n)" for d
  proof -
    have "d \<noteq> c" using that free by auto
    then show ?thesis by (force simp: keeps_column_def nm simps cell_of_filter)
  qed
  have own: "(n, d) \<in> set (targeted db n)" if "(n, d) \<in> set (targets t)" for d
    using that n by (auto simp: targeted_iff dest!: map_of_SomeD)
  have target: "target_ok (put_table n ?t db) tc" if "tc \<in> set (targets t)" "target_ok db tc" for tc
  proof (cases "fst tc = n")
    case True
    with that(1) have "(n, snd tc) \<in> set (targets t)" by (metis prod.collapse)
    then have "keeps_column t ?t (snd tc)" using k own by blast
    then show ?thesis using True that(2) by (rule keeps_column_target [OF n])
  qed (use that(2) in \<open>simp add: target_ok_def map_of_put\<close>)
  have tg: "set (targets ?t) \<subseteq> set (targets t)" by (auto simp: targets_def simps)
  have cols: "nr \<in> set (t_rules ?t) \<Longrightarrow> set (rule_columns (snd nr)) \<subseteq> set (names ?t)" for nr
    using t by (auto simp: simps nm table_ok_def shape_ok_def list_all_iff columns_exist_def)
  have "shape_ok (put_table n ?t db) ?t"
    unfolding shape_ok_def list_all_iff
  proof (intro conjI ballI)
    show "distinct (names ?t)" using t by (simp add: nm table_ok_def shape_ok_def)
    show "type_known (db_types (put_table n ?t db)) (col_type d)" if "d \<in> set (t_columns ?t)" for d
      using t that by (simp add: simps table_ok_def shape_ok_def list_all_iff)
    show "columns_exist ?t (rule_columns (snd nr))" if "nr \<in> set (t_rules ?t)" for nr
      using cols [OF that] by (simp add: columns_exist_def)
    show "index_ok (db_types (put_table n ?t db)) ?t ix" if "ix \<in> set (t_indexes ?t)" for ix
      using t that by (auto simp: simps nm table_ok_def shape_ok_def list_all_iff index_ok_def columns_exist_def)
    show "target_ok (put_table n ?t db) tc" if "tc \<in> set (targets ?t)" for tc
      using t that tg target [of tc] by (auto simp: table_ok_def shape_ok_def list_all_iff)
  qed
  moreover have "row_ok (db_types db) ?t (filter (\<lambda>cv. fst cv \<noteq> c) r)" if r: "r \<in> set (t_rows t)" for r
  proof -
    have ro: "row_ok (db_types db) t r" using t r by (simp add: table_ok_def list_all_iff)
    have "map fst (filter (\<lambda>cv. fst cv \<noteq> c) r) = filter (\<lambda>x. x \<noteq> c) (map fst r)"
      by (simp add: filter_map comp_def)
    then have "map fst (filter (\<lambda>cv. fst cv \<noteq> c) r) = names ?t" using ro by (simp add: row_ok_def nm)
    moreover have "check_holds (snd nr) (filter (\<lambda>cv. fst cv \<noteq> c) r)" if nr: "nr \<in> set (t_rules ?t)" for nr
    proof -
      have "check_holds (snd nr) (filter (\<lambda>cv. fst cv \<noteq> c) r) = check_holds (snd nr) r"
        using cols [OF nr] by (intro check_holds_cong cell_of_filter) (auto simp: nm)
      then show ?thesis using ro nr by (simp add: row_ok_def simps list_all_iff)
    qed
    ultimately show ?thesis using ro by (simp add: row_ok_def simps list_all_iff cell_of_filter)
  qed
  then have "list_all (row_ok (db_types db) ?t) (t_rows ?t)" by (simp add: simps list_all_iff)
  moreover have "list_all (unique_ok (t_rows ?t)) (unique_keys ?t)"
    unfolding list_all_iff
  proof
    fix q assume q: "q \<in> set (unique_keys ?t)"
    have "set (key_columns q) \<subseteq> set (names ?t)"
      using unique_keys_columns [OF \<open>shape_ok (put_table n ?t db) ?t\<close> q] .
    then have "unique_ok (t_rows ?t) q = unique_ok (t_rows t) q"
      unfolding simps by (intro unique_ok_map cell_of_filter) (auto simp: nm)
    moreover have "q \<in> set (unique_keys t)" using q by (fastforce simp: unique_keys_def simps)
    ultimately show "unique_ok (t_rows ?t) q" using t by (simp add: table_ok_def list_all_iff)
  qed
  moreover have "references_ok (put_table n ?t db) ?t"
  proof (rule own_references [OF t n])
    show "keeps_column t ?t d" if "(n, d) \<in> set (targets t)" for d by (rule k [OF own [OF that]])
    show "\<forall>r'\<in>set (t_rows ?t). \<exists>r\<in>set (t_rows t). \<forall>d\<in>set (rule_columns (snd nr)). cell_of r' d = cell_of r d"
      if "nr \<in> set (t_rules ?t)" for nr
    proof -
      have "cell_of (filter (\<lambda>cv. fst cv \<noteq> c) r) d = cell_of r d" if "d \<in> set (rule_columns (snd nr))" for r d
        using cols [OF \<open>nr \<in> set (t_rules ?t)\<close>] that by (intro cell_of_filter) (auto simp: nm)
      then show ?thesis by (simp add: simps) blast
    qed
  qed (auto simp: simps)
  ultimately have "table_ok (put_table n ?t db) ?t" by (simp add: table_ok_def)
  then show ?thesis using k by (intro put_table_kept [OF ok n])
qed

lemma exec_drop_column_ok:
  assumes ok: "database_ok db" and ex: "exec env (DropColumn b n c) db = Inr db'"
  shows "database_ok db'"
proof -
  from ex obtain t where "map_of (db_tables db) n = Some t"
    and "db' = db \<or> (n, c) \<notin> set (targeted db n) \<and> db' = put_table n (drop_column c t) db"
    by (auto simp: exec.simps(11) with_table_Inr guard_Inr split: if_splits)
  then show ?thesis using ok drop_column_ok by blast
qed

lemma exec_delete_ok:
  assumes ok: "database_ok db" and ex: "exec env (DeleteFrom n) db = Inr db'"
  shows "database_ok db'"
proof -
  from ex obtain t where n: "map_of (db_tables db) n = Some t" and db': "db' = put_table n (t\<lparr>t_rows := []\<rparr>) db"
    and free: "\<And>m u nr. (m, u) \<in> set (db_tables db) \<Longrightarrow> nr \<in> set (t_rules u) \<Longrightarrow> m \<noteq> n \<Longrightarrow>
      (\<forall>tc\<in>set (rule_target (snd nr)). fst tc \<noteq> n) \<or>
      (\<forall>r\<in>set (t_rows u). \<forall>c\<in>set (rule_columns (snd nr)). cell_of r c = CNull)"
    by (fastforce simp: exec.simps(13) with_table_Inr guard_Inr list_all_iff)
  let ?t = "t\<lparr>t_rows := []\<rparr>"
  have t: "table_ok db t" by (rule database_tableD [OF ok n])
  have same: "t_columns ?t = t_columns t" "t_rules ?t = t_rules t" "t_indexes ?t = t_indexes t" "names ?t = names t"
    "targets ?t = targets t"
    by (simp_all add: names_def targets_def)
  have target: "target_ok (put_table n ?t db) tc" if "target_ok db tc" for tc
    using that n by (auto simp: target_ok_def map_of_put names_def split: if_splits)
  have "shape_ok (put_table n ?t db) ?t"
    using t target unfolding table_ok_def shape_ok_def index_ok_def columns_exist_def same list_all_iff by simp
  then have t': "table_ok (put_table n ?t db) ?t" by (simp add: table_ok_def references_ok_def list_all_iff)
  show ?thesis unfolding db'
  proof (rule put_table_ok [OF ok n t' target])
    show "reference_holds (put_table n ?t db) (snd nr) r"
      if "m \<noteq> n" "(m, u) \<in> set (db_tables db)" "nr \<in> set (t_rules u)" "r \<in> set (t_rows u)"
        "reference_holds db (snd nr) r" for m u nr r
    proof (cases "snd nr")
      case (ForeignKey c x rc act)
      show ?thesis
      proof (cases "x = n")
        case True
        then have "cell_of r c = CNull" using free [OF that(2,3,1)] that(4) ForeignKey by auto
        then show ?thesis using ForeignKey by simp
      next
        case False
        then show ?thesis using ForeignKey that(5) n by (simp add: column_values_def rows_of_put)
      qed
    qed simp_all
  qed
qed

lemma cell_of_set: "cell_of (set_cell c v r) d = (if d = c \<and> d \<in> set (map fst r) then v else cell_of r d)"
proof -
  have "map_of (set_cell c v r) d = map_option (\<lambda>w. if d = c then v else w) (map_of r d)"
    by (induction r) (auto simp: set_cell_def)
  moreover have "d \<in> set (map fst r) \<longleftrightarrow> map_of r d \<noteq> None" by (simp add: map_of_eq_None_iff)
  ultimately show ?thesis by (auto simp: cell_of_def)
qed

lemma cell_of_backfill: "cell_of r d \<noteq> CNull \<Longrightarrow> cell_of (backfill rows c sc k sk r) d = cell_of r d"
  by (auto simp: backfill_def cell_of_set split: option.splits)

lemma exec_update_ok:
  assumes ok: "database_ok db" and ex: "exec env (UpdateFrom n c u sc k sk) db = Inr db'"
  shows "database_ok db'"
proof -
  from ex obtain t and s :: table where n: "map_of (db_tables db) n = Some t"
    and x: "list_all (row_ok (db_types db) (t\<lparr>t_rows := map (backfill (t_rows s) c sc k sk) (t_rows t)\<rparr>))
        (map (backfill (t_rows s) c sc k sk) (t_rows t))"
      "list_all (unique_ok (map (backfill (t_rows s) c sc k sk) (t_rows t)))
        (unique_keys (t\<lparr>t_rows := map (backfill (t_rows s) c sc k sk) (t_rows t)\<rparr>))"
    and refs: "references_ok (put_table n (t\<lparr>t_rows := map (backfill (t_rows s) c sc k sk) (t_rows t)\<rparr>) db)
        (t\<lparr>t_rows := map (backfill (t_rows s) c sc k sk) (t_rows t)\<rparr>)"
    and db': "db' = put_table n (t\<lparr>t_rows := map (backfill (t_rows s) c sc k sk) (t_rows t)\<rparr>) db"
    by (auto simp: exec.simps(14) with_table_Inr guard_Inr Let_def)
  define rows where "rows = map (backfill (t_rows s) c sc k sk) (t_rows t)"
  have self: "t\<lparr>t_rows := rows, t_next := t_next t\<rparr> = t\<lparr>t_rows := rows\<rparr>" by simp
  have "row_ok (db_types db) (t\<lparr>t_rows := rows\<rparr>) = row_ok (db_types db) t" by (rule row_ok_cong) simp_all
  then have r: "list_all (row_ok (db_types db) t) rows" using x(1) by (simp add: rows_def)
  have "unique_keys (t\<lparr>t_rows := rows\<rparr>) = unique_keys t" by (rule unique_keys_cong) simp_all
  then have uk: "list_all (unique_ok rows) (unique_keys t)" using x(2) by (simp add: rows_def)
  have kc: "keeps_column t (t\<lparr>t_rows := rows\<rparr>) d" for d
    unfolding keeps_column_def rows_def
    by (auto simp: names_def image_iff intro!: bexI cell_of_backfill [symmetric])
  show ?thesis
    using rows_changed_ok [where rows = rows and j = "t_next t", OF ok n _ r uk] kc refs
    by (simp add: db' self rows_def)
qed

lemma exec_insert_ok:
  assumes "database_ok db" "exec env (InsertInto n cs ess target) db = Inr db'"
  shows "database_ok db'"
  using assms by (auto simp: exec.simps(12) with_table_Inr guard_Inr dest: insert_rows_ok)

lemmas exec_cases_ok = exec_create_type_ok exec_drop_type_ok exec_create_table_ok exec_drop_table_ok
  exec_create_index_ok exec_drop_index_ok exec_runner_drop_index_ok exec_runner_drop_key_ok exec_add_rule_ok
  exec_add_column_ok exec_drop_column_ok exec_insert_ok exec_delete_ok exec_update_ok

lemma exec_ok: "database_ok db \<Longrightarrow> exec env s db = Inr db' \<Longrightarrow> database_ok db'"
  by (cases s; hypsubst; (rule exec_cases_ok, assumption, assumption))

lemma run_ok: "run env ss db = Inr db' \<Longrightarrow> database_ok db \<Longrightarrow> database_ok db'"
  by (induction ss arbitrary: db) (auto split: sum.splits dest: exec_ok)

lemma empty_database_ok: "database_ok empty_database"
  by (simp add: database_ok_def empty_database_def)

end
