(* ===== verification/Migrations.thy ===== *)
theory Migrations
  imports Sql
begin

text \<open>
  The migrations of the booking, flight and payment services (apps/*/src/migrations), statement by statement.
  Constraint names that TypeORM derives by hashing are written out as \<open>PK_\<close> and \<open>UQ_\<close> with the table and
  column; PostgreSQL's own are its documented ones. A column without \<open>isNullable\<close> is not null in TypeORM.
\<close>

definition col :: "string \<Rightarrow> sql_type \<Rightarrow> bool \<Rightarrow> col_default \<Rightarrow> column" where
  "col n ty nullable d = \<lparr>col_name = n, col_type = ty, col_nullable = nullable, col_default = d\<rparr>"

definition plain_index :: "string \<Rightarrow> string list \<Rightarrow> index" where
  "plain_index n cs = \<lparr>ix_name = n, ix_unique = False, ix_columns = cs, ix_where = None\<rparr>"

definition unique_index :: "string \<Rightarrow> string list \<Rightarrow> index" where
  "unique_index n cs = \<lparr>ix_name = n, ix_unique = True, ix_columns = cs, ix_where = None\<rparr>"

definition partial_index :: "string \<Rightarrow> string list \<Rightarrow> condition \<Rightarrow> index" where
  "partial_index n cs p = \<lparr>ix_name = n, ix_unique = False, ix_columns = cs, ix_where = Some p\<rparr>"

text \<open>A migration class: its name, the timestamp at its end, \<open>up\<close> and \<open>down\<close>.\<close>

record migration =
  mig_name :: string
  mig_time :: int
  mig_up :: "statement list"
  mig_down :: "statement list"

subsection \<open>Booking service\<close>

definition create_bookings :: statement where
  "create_bookings = CreateTable ''bookings''
    [col ''id'' TyInt False FromSequence,
     col ''booking_reference'' (TyVarchar (Some 10)) False NoDefault,
     col ''flight_id'' TyInt False NoDefault,
     col ''user_id'' TyInt False NoDefault,
     col ''no_of_seats'' TyInt False (Constant (CInt 1)),
     col ''total_cost'' (TyNumeric 10 2) False NoDefault,
     col ''status'' (TyEnum ''booking_status'') False (Constant (CText ''INITIATED'')),
     col ''payment_status'' (TyEnum ''payment_status'') False (Constant (CText ''PENDING'')),
     col ''passenger_name'' (TyVarchar (Some 200)) True NoDefault,
     col ''passenger_email'' (TyVarchar (Some 255)) True NoDefault,
     col ''passenger_phone'' (TyVarchar (Some 20)) True NoDefault,
     col ''flight_number'' (TyVarchar (Some 20)) True NoDefault,
     col ''departure_airport_code'' (TyVarchar (Some 3)) True NoDefault,
     col ''arrival_airport_code'' (TyVarchar (Some 3)) True NoDefault,
     col ''departure_time'' TyTimestampTz True NoDefault,
     col ''arrival_time'' TyTimestampTz True NoDefault,
     col ''seat_numbers'' (TyVarchar (Some 100)) True NoDefault,
     col ''seat_class'' (TyVarchar (Some 50)) True NoDefault,
     col ''payment_method'' (TyVarchar (Some 50)) True NoDefault,
     col ''payment_transaction_id'' (TyVarchar (Some 100)) True NoDefault,
     col ''paid_at'' TyTimestampTz True NoDefault,
     col ''cancelled_at'' TyTimestampTz True NoDefault,
     col ''cancellation_reason'' TyText True NoDefault,
     col ''refund_amount'' (TyNumeric 10 2) True NoDefault,
     col ''refunded_at'' TyTimestampTz True NoDefault,
     col ''expires_at'' TyTimestampTz True NoDefault,
     col ''version'' TyInt False (Constant (CInt 0)),
     col ''booking_source'' (TyVarchar (Some 50)) True NoDefault,
     col ''ip_address'' TyInet True NoDefault,
     col ''metadata'' TyJsonb True NoDefault,
     col ''created_at'' TyTimestamp False Now,
     col ''updated_at'' TyTimestamp False Now]
    [(''PK_bookings'', PrimaryKey ''id''),
     (''UQ_bookings_booking_reference'', UniqueKey [''booking_reference''])]"

definition create_booking_table_up :: "statement list" where
  "create_booking_table_up =
    [CreateType ''booking_status''
       [''INITIATED'', ''PENDING'', ''BOOKED'', ''CANCELLED'', ''EXPIRED'', ''REFUNDED''],
     CreateType ''payment_status''
       [''PENDING'', ''PROCESSING'', ''COMPLETED'', ''FAILED'', ''REFUNDED''],
     create_bookings,
     CreateIndex True ''bookings'' (plain_index ''idx_bookings_user_id'' [''user_id'']),
     CreateIndex True ''bookings'' (plain_index ''idx_bookings_flight_id'' [''flight_id'']),
     CreateIndex True ''bookings'' (plain_index ''idx_bookings_status'' [''status'']),
     CreateIndex True ''bookings'' (plain_index ''idx_bookings_created_at'' [''created_at'']),
     CreateIndex True ''bookings'' (plain_index ''idx_bookings_user_status'' [''user_id'', ''status'']),
     CreateIndex True ''bookings'' (partial_index ''idx_bookings_active'' [''user_id'', ''flight_id'']
       (InLabels ''status'' [''INITIATED'', ''PENDING'', ''BOOKED''] None)),
     CreateIndex True ''bookings'' (partial_index ''idx_bookings_expired'' [''expires_at'']
       (Both (InLabels ''status'' [''INITIATED''] None) (NotNull ''expires_at'')))]"

definition create_booking_table_down :: "statement list" where
  "create_booking_table_down =
    [DropTable False ''bookings'',
     DropType True ''booking_status'',
     DropType True ''payment_status'']"

definition create_booking_table :: migration where
  "create_booking_table = \<lparr>mig_name = ''CreateBookingTable1738342079000'', mig_time = 1738342079000,
     mig_up = create_booking_table_up, mig_down = create_booking_table_down\<rparr>"

definition update_booking_table_up :: "statement list" where
  "update_booking_table_up =
    [DropIndex True ''idx_bookings_user_id'',
     DropIndex True ''idx_bookings_flight_id'',
     DropIndex True ''idx_bookings_status'',
     DropIndex True ''idx_bookings_created_at'',
     DropIndex True ''idx_bookings_user_status'',
     DropIndex True ''idx_bookings_active'',
     DropIndex True ''idx_bookings_expired'',
     DropColumn False ''bookings'' ''seat_numbers'',
     AddColumn False ''bookings'' (col ''seat_numbers'' TyTextArray True NoDefault)]"

definition update_booking_table_down :: "statement list" where
  "update_booking_table_down =
    [DropColumn False ''bookings'' ''seat_numbers'',
     AddColumn False ''bookings'' (col ''seat_numbers'' (TyVarchar (Some 100)) True NoDefault),
     CreateIndex False ''bookings'' (partial_index ''idx_bookings_expired'' [''expires_at'']
       (Both (InLabels ''status'' [''INITIATED''] (Some ''bookings_status_enum'')) (NotNull ''expires_at''))),
     CreateIndex False ''bookings'' (partial_index ''idx_bookings_active'' [''flight_id'', ''user_id'']
       (InLabels ''status'' [''INITIATED'', ''PENDING'', ''BOOKED''] (Some ''bookings_status_enum''))),
     CreateIndex False ''bookings'' (plain_index ''idx_bookings_user_status'' [''status'', ''user_id'']),
     CreateIndex False ''bookings'' (plain_index ''idx_bookings_created_at'' [''created_at'']),
     CreateIndex False ''bookings'' (plain_index ''idx_bookings_status'' [''status'']),
     CreateIndex False ''bookings'' (plain_index ''idx_bookings_flight_id'' [''flight_id'']),
     CreateIndex False ''bookings'' (plain_index ''idx_bookings_user_id'' [''user_id''])]"

definition update_booking_table :: migration where
  "update_booking_table = \<lparr>mig_name = ''UpdateBookingTable1769880717238'', mig_time = 1769880717238,
     mig_up = update_booking_table_up, mig_down = update_booking_table_down\<rparr>"

definition add_booking_indexes_up :: "statement list" where
  "add_booking_indexes_up =
    [CreateIndex True ''bookings'' (plain_index ''idx_bookings_user_id'' [''user_id'']),
     CreateIndex True ''bookings'' (plain_index ''idx_bookings_flight_id'' [''flight_id'']),
     CreateIndex True ''bookings'' (plain_index ''idx_bookings_status'' [''status'']),
     CreateIndex True ''bookings'' (plain_index ''idx_bookings_created_at'' [''created_at'']),
     CreateIndex True ''bookings'' (plain_index ''idx_bookings_user_status'' [''user_id'', ''status'']),
     CreateIndex True ''bookings'' (partial_index ''idx_bookings_active'' [''user_id'', ''flight_id'']
       (InLabels ''status'' [''INITIATED'', ''PENDING'', ''BOOKED''] None)),
     CreateIndex True ''bookings'' (partial_index ''idx_bookings_expired'' [''expires_at'']
       (Both (InLabels ''status'' [''INITIATED''] None) (NotNull ''expires_at''))),
     CreateIndex True ''bookings'' (unique_index ''idx_bookings_reference'' [''booking_reference''])]"

definition add_booking_indexes_down :: "statement list" where
  "add_booking_indexes_down =
    [DropIndex True ''idx_bookings_user_id'',
     DropIndex True ''idx_bookings_flight_id'',
     DropIndex True ''idx_bookings_status'',
     DropIndex True ''idx_bookings_created_at'',
     DropIndex True ''idx_bookings_user_status'',
     DropIndex True ''idx_bookings_active'',
     DropIndex True ''idx_bookings_expired'',
     DropIndex True ''idx_bookings_reference'']"

definition add_booking_indexes :: migration where
  "add_booking_indexes = \<lparr>mig_name = ''AddBookingIndexes1769883744310'', mig_time = 1769883744310,
     mig_up = add_booking_indexes_up, mig_down = add_booking_indexes_down\<rparr>"

definition create_saga_states :: statement where
  "create_saga_states = CreateTable ''saga_states''
    [col ''id'' TyInt False FromSequence,
     col ''saga_id'' (TyVarchar (Some 36)) False NoDefault,
     col ''saga_type'' (TyVarchar (Some 50)) False NoDefault,
     col ''booking_id'' (TyVarchar (Some 36)) False NoDefault,
     col ''status'' (TyEnum ''saga_states_status_enum'') False (Constant (CText ''INITIATED'')),
     col ''current_step'' TyInt False (Constant (CInt 0)),
     col ''total_steps'' TyInt False (Constant (CInt 6)),
     col ''payload'' TyJsonb False NoDefault,
     col ''context'' TyJsonb True NoDefault,
     col ''error_message'' TyText True NoDefault,
     col ''retry_count'' TyInt False (Constant (CInt 0)),
     col ''max_retries'' TyInt False (Constant (CInt 3)),
     col ''last_error_at'' TyTimestamp True NoDefault,
     col ''completed_at'' TyTimestamp True NoDefault,
     col ''compensated_at'' TyTimestamp True NoDefault,
     col ''idempotency_key'' (TyVarchar (Some 100)) True NoDefault,
     col ''created_at'' TyTimestamp False Now,
     col ''updated_at'' TyTimestamp False Now]
    [(''PK_saga_states'', PrimaryKey ''id''),
     (''UQ_saga_states_saga_id'', UniqueKey [''saga_id''])]"

definition create_outbox_events :: statement where
  "create_outbox_events = CreateTable ''outbox_events''
    [col ''id'' TyInt False FromSequence,
     col ''event_id'' (TyVarchar (Some 36)) False NoDefault,
     col ''aggregate_type'' (TyVarchar (Some 50)) False NoDefault,
     col ''aggregate_id'' (TyVarchar (Some 36)) False NoDefault,
     col ''event_type'' (TyVarchar (Some 100)) False NoDefault,
     col ''payload'' TyJsonb False NoDefault,
     col ''status'' (TyEnum ''outbox_events_status_enum'') False (Constant (CText ''PENDING'')),
     col ''retry_count'' TyInt False (Constant (CInt 0)),
     col ''max_retries'' TyInt False (Constant (CInt 3)),
     col ''last_error'' TyText True NoDefault,
     col ''published_at'' TyTimestamp True NoDefault,
     col ''trace_id'' (TyVarchar (Some 32)) True NoDefault,
     col ''span_id'' (TyVarchar (Some 16)) True NoDefault,
     col ''created_at'' TyTimestamp False Now]
    [(''PK_outbox_events'', PrimaryKey ''id''),
     (''UQ_outbox_events_event_id'', UniqueKey [''event_id''])]"

definition add_saga_and_outbox_up :: "statement list" where
  "add_saga_and_outbox_up =
    [CreateType ''saga_states_status_enum''
       [''INITIATED'', ''SEATS_LOCKED'', ''FLIGHT_RESERVED'', ''PAYMENT_PROCESSING'', ''PAYMENT_COMPLETED'', ''BOOKING_CONFIRMED'', ''FAILED'', ''COMPENSATING'', ''COMPENSATED''],
     create_saga_states,
     CreateIndex True ''saga_states'' (plain_index ''IDX_3ba29ee0383d442fa0e4f6dbba'' [''created_at'']),
     CreateIndex True ''saga_states'' (plain_index ''IDX_c707d2bbf2290a58023d4f9b16'' [''status'']),
     CreateIndex True ''saga_states'' (plain_index ''IDX_b55caaedced424e15f452ea7bd'' [''booking_id'']),
     CreateType ''outbox_events_status_enum''
       [''PENDING'', ''PROCESSING'', ''PUBLISHED'', ''FAILED''],
     create_outbox_events,
     CreateIndex True ''outbox_events'' (plain_index ''IDX_287c7ad6ab8e2fc1f2e25b59e4'' [''event_type'']),
     CreateIndex True ''outbox_events'' (plain_index ''IDX_85ca65d119cee338ec8d714bfa'' [''aggregate_id'']),
     CreateIndex True ''outbox_events'' (plain_index ''IDX_cc0d2a98103923a41a9aebc384'' [''status'', ''created_at''])]"

definition add_saga_and_outbox_down :: "statement list" where
  "add_saga_and_outbox_down =
    [DropTable False ''outbox_events'',
     DropType False ''outbox_events_status_enum'',
     DropTable False ''saga_states'',
     DropType False ''saga_states_status_enum'']"

definition add_saga_and_outbox :: migration where
  "add_saga_and_outbox = \<lparr>mig_name = ''AddSagaAndOutbox1770486663295'', mig_time = 1770486663295,
     mig_up = add_saga_and_outbox_up, mig_down = add_saga_and_outbox_down\<rparr>"

definition booking_migrations :: "migration list" where
  "booking_migrations = [create_booking_table, update_booking_table, add_booking_indexes, add_saga_and_outbox]"

subsection \<open>Flight service\<close>

definition create_cities :: statement where
  "create_cities = CreateTable ''cities''
    [col ''id'' TyInt False FromSequence,
     col ''name'' (TyVarchar (Some 100)) False NoDefault,
     col ''country'' (TyVarchar (Some 100)) False NoDefault,
     col ''country_code'' (TyVarchar (Some 10)) True NoDefault,
     col ''timezone'' (TyVarchar (Some 50)) True NoDefault,
     col ''latitude'' (TyNumeric 10 7) True NoDefault,
     col ''longitude'' (TyNumeric 10 7) True NoDefault,
     col ''active'' TyBool False (Constant (CBool True)),
     col ''created_at'' TyTimestamp False Now,
     col ''updated_at'' TyTimestamp False Now]
    [(''PK_cities'', PrimaryKey ''id'')]"

definition create_cities_up :: "statement list" where
  "create_cities_up =
    [create_cities,
     CreateIndex True ''cities'' (unique_index ''idx_cities_name'' [''name'']),
     CreateIndex True ''cities'' (unique_index ''cities_name_country_unique'' [''name'', ''country'']),
     CreateIndex True ''cities'' (plain_index ''idx_cities_country'' [''country''])]"

definition create_cities_down :: "statement list" where
  "create_cities_down =
    [RunnerDropIndex ''cities'' ''idx_cities_name'',
     RunnerDropIndex ''cities'' ''idx_cities_country'',
     DropTable False ''cities'']"

definition create_cities_table :: migration where
  "create_cities_table = \<lparr>mig_name = ''CreateCitiesTable1769390108705'', mig_time = 1769390108705,
     mig_up = create_cities_up, mig_down = create_cities_down\<rparr>"

definition create_airports :: statement where
  "create_airports = CreateTable ''airports''
    [col ''id'' TyInt False FromSequence,
     col ''name'' (TyVarchar (Some 200)) False NoDefault,
     col ''code'' (TyVarchar (Some 3)) False NoDefault,
     col ''icao_code'' (TyVarchar (Some 4)) True NoDefault,
     col ''address'' TyText True NoDefault,
     col ''city'' (TyVarchar (Some 100)) True NoDefault,
     col ''country'' (TyVarchar (Some 100)) True NoDefault,
     col ''latitude'' (TyNumeric 10 7) True NoDefault,
     col ''longitude'' (TyNumeric 10 7) True NoDefault,
     col ''timezone'' (TyVarchar (Some 50)) True NoDefault,
     col ''city_id'' TyInt False NoDefault,
     col ''active'' TyBool False (Constant (CBool True)),
     col ''created_at'' TyTimestamp False Now,
     col ''updated_at'' TyTimestamp False Now]
    [(''PK_airports'', PrimaryKey ''id''),
     (''UQ_airports_code'', UniqueKey [''code''])]"

definition create_airports_up :: "statement list" where
  "create_airports_up =
    [create_airports,
     CreateIndex True ''airports'' (unique_index ''idx_airports_code'' [''code'']),
     CreateIndex True ''airports'' (plain_index ''idx_airports_name'' [''name'']),
     CreateIndex True ''airports'' (plain_index ''idx_airports_city_id'' [''city_id'']),
     CreateIndex True ''airports'' (plain_index ''idx_airports_active'' [''active'']),
     AddRule ''airports'' ''FK_35db242a805855ae374834fd9f8'' (ForeignKey ''city_id'' ''cities'' ''id'' Restrict)]"

definition create_airports_down :: "statement list" where
  "create_airports_down =
    [RunnerDropIndex ''airports'' ''idx_airports_code'',
     RunnerDropIndex ''airports'' ''idx_airports_name'',
     RunnerDropIndex ''airports'' ''idx_airports_city_id'',
     RunnerDropIndex ''airports'' ''idx_airports_active'',
     RunnerDropForeignKey ''airports'' ''airports_city_id'',
     DropTable False ''airports'']"

definition create_airports_table :: migration where
  "create_airports_table = \<lparr>mig_name = ''CreateAirportsTable1769447107324'', mig_time = 1769447107324,
     mig_up = create_airports_up, mig_down = create_airports_down\<rparr>"

definition create_airplanes :: statement where
  "create_airplanes = CreateTable ''airplanes''
    [col ''id'' TyInt False FromSequence,
     col ''model_number'' (TyVarchar (Some 50)) False NoDefault,
     col ''manufacturer'' (TyVarchar (Some 100)) False NoDefault,
     col ''registration_number'' (TyVarchar (Some 50)) True NoDefault,
     col ''total_capacity'' TyInt False (Constant (CInt 0)),
     col ''economy_seats'' TyInt False (Constant (CInt 0)),
     col ''business_seats'' TyInt False (Constant (CInt 0)),
     col ''first_class_seats'' TyInt False (Constant (CInt 0)),
     col ''premium_economy_seats'' TyInt False (Constant (CInt 0)),
     col ''year_manufactured'' TyInt True NoDefault,
     col ''max_range_km'' TyInt True NoDefault,
     col ''cruising_speed_kmh'' TyInt True NoDefault,
     col ''active'' TyBool False (Constant (CBool True)),
     col ''created_at'' TyTimestamp False Now,
     col ''updated_at'' TyTimestamp False Now]
    [(''PK_airplanes'', PrimaryKey ''id''),
     (''UQ_airplanes_registration_number'', UniqueKey [''registration_number''])]"

definition create_airplanes_up :: "statement list" where
  "create_airplanes_up =
    [create_airplanes,
     CreateIndex True ''airplanes'' (plain_index ''idx_airplanes_model_number'' [''model_number'']),
     CreateIndex True ''airplanes'' (plain_index ''idx_airplanes_manufacturer'' [''manufacturer'']),
     CreateIndex True ''airplanes'' (unique_index ''idx_airplanes_registration_number'' [''registration_number'']),
     CreateIndex True ''airplanes'' (plain_index ''idx_airplanes_active'' [''active''])]"

definition create_airplanes_down :: "statement list" where
  "create_airplanes_down =
    [DropTable True ''airplanes'']"

definition create_airplanes_table :: migration where
  "create_airplanes_table = \<lparr>mig_name = ''CreateAirplanesTable1769447907351'', mig_time = 1769447907351,
     mig_up = create_airplanes_up, mig_down = create_airplanes_down\<rparr>"

definition create_seats :: statement where
  "create_seats = CreateTable ''seats''
    [col ''id'' TyInt False FromSequence,
     col ''airplane_id'' TyInt False NoDefault,
     col ''row'' TyInt False NoDefault,
     col ''col'' (TyChar 1) False NoDefault,
     col ''type'' (TyEnum ''seat_type'') False (Constant (CText ''ECONOMY'')),
     col ''created_at'' TyTimestamp False Now,
     col ''updated_at'' TyTimestamp False Now]
    [(''PK_seats'', PrimaryKey ''id'')]"

definition create_seats_up :: "statement list" where
  "create_seats_up =
    [CreateType ''seat_type''
       [''ECONOMY'', ''BUSINESS'', ''FIRST_CLASS'', ''PREMIUM_ECONOMY''],
     create_seats,
     AddRule ''seats'' ''uq_seats_airplane_row_col'' (UniqueKey [''airplane_id'', ''row'', ''col'']),
     CreateIndex True ''seats'' (plain_index ''idx_seats_airplane_id'' [''airplane_id'']),
     CreateIndex True ''seats'' (unique_index ''seats_airplane_row_col_unique'' [''airplane_id'', ''row'', ''col'']),
     CreateIndex True ''seats'' (plain_index ''idx_seats_type'' [''type'']),
     AddRule ''seats'' ''FK_airplane_seats'' (ForeignKey ''airplane_id'' ''airplanes'' ''id'' Cascade)]"

definition create_seats_down :: "statement list" where
  "create_seats_down =
    [DropTable False ''seats'',
     DropType True ''seat_type'']"

definition create_seats_table :: migration where
  "create_seats_table = \<lparr>mig_name = ''CreateSeatsTable1769448089690'', mig_time = 1769448089690,
     mig_up = create_seats_up, mig_down = create_seats_down\<rparr>"

definition create_flights :: statement where
  "create_flights = CreateTable ''flights''
    [col ''id'' TyInt False FromSequence,
     col ''flight_number'' (TyVarchar (Some 20)) False NoDefault,
     col ''airplane_id'' TyInt False NoDefault,
     col ''departure_airport_id'' TyInt False NoDefault,
     col ''arrival_airport_id'' TyInt False NoDefault,
     col ''departure_time'' TyTimestampTz False NoDefault,
     col ''arrival_time'' TyTimestampTz False NoDefault,
     col ''boarding_gate'' (TyVarchar (Some 10)) True NoDefault,
     col ''terminal'' (TyVarchar (Some 10)) True NoDefault,
     col ''economy_price'' (TyNumeric 10 2) False NoDefault,
     col ''business_price'' (TyNumeric 10 2) False NoDefault,
     col ''first_class_price'' (TyNumeric 10 2) False NoDefault,
     col ''premium_economy_price'' (TyNumeric 10 2) False NoDefault,
     col ''economy_seats_available'' TyInt False NoDefault,
     col ''business_seats_available'' TyInt False NoDefault,
     col ''first_class_seats_available'' TyInt False NoDefault,
     col ''premium_economy_seats_available'' TyInt False NoDefault,
     col ''status'' (TyEnum ''flight_status'') False (Constant (CText ''SCHEDULED'')),
     col ''version'' TyInt False (Constant (CInt 0)),
     col ''created_at'' TyTimestamp False Now,
     col ''updated_at'' TyTimestamp False Now]
    [(''PK_flights'', PrimaryKey ''id'')]"

definition create_flights_up :: "statement list" where
  "create_flights_up =
    [CreateType ''flight_status''
       [''SCHEDULED'', ''DELAYED'', ''BOARDING'', ''DEPARTED'', ''IN_FLIGHT'', ''ARRIVED'', ''CANCELLED''],
     create_flights,
     AddRule ''flights'' ''chk_flights_times'' (Check Before ''departure_time'' ''arrival_time''),
     AddRule ''flights'' ''chk_flights_airports'' (Check Differs ''departure_airport_id'' ''arrival_airport_id''),
     CreateIndex True ''flights'' (plain_index ''idx_flights_flight_number'' [''flight_number'']),
     CreateIndex True ''flights'' (unique_index ''flights_number_departure_unique'' [''flight_number'', ''departure_time'']),
     CreateIndex True ''flights'' (plain_index ''idx_flights_departure'' [''departure_airport_id'', ''departure_time'']),
     CreateIndex True ''flights'' (plain_index ''idx_flights_arrival'' [''arrival_airport_id'', ''arrival_time'']),
     CreateIndex True ''flights'' (plain_index ''idx_flights_status'' [''status'']),
     CreateIndex True ''flights'' (plain_index ''idx_flights_departure_time'' [''departure_time'']),
     AddRule ''flights'' ''FK_airplane_flights'' (ForeignKey ''airplane_id'' ''airplanes'' ''id'' Restrict),
     AddRule ''flights'' ''FK_departure_airport_flights'' (ForeignKey ''departure_airport_id'' ''airports'' ''id'' Restrict),
     AddRule ''flights'' ''FK_arrival_airport_flights'' (ForeignKey ''arrival_airport_id'' ''airports'' ''id'' Restrict)]"

definition create_flights_down :: "statement list" where
  "create_flights_down =
    [DropTable False ''flights'',
     DropType True ''flight_status'']"

definition create_flights_table :: migration where
  "create_flights_table = \<lparr>mig_name = ''CreateFlightsTable1769449052055'', mig_time = 1769449052055,
     mig_up = create_flights_up, mig_down = create_flights_down\<rparr>"

definition seed_cities :: "expr list list" where
  "seed_cities =
    [[Lit (CText ''New York''), Lit (CText ''USA''), Lit (CText ''America/New_York'')],
     [Lit (CText ''Los Angeles''), Lit (CText ''USA''), Lit (CText ''America/Los_Angeles'')],
     [Lit (CText ''London''), Lit (CText ''UK''), Lit (CText ''Europe/London'')],
     [Lit (CText ''Dubai''), Lit (CText ''UAE''), Lit (CText ''Asia/Dubai'')],
     [Lit (CText ''Singapore''), Lit (CText ''Singapore''), Lit (CText ''Asia/Singapore'')],
     [Lit (CText ''Tokyo''), Lit (CText ''Japan''), Lit (CText ''Asia/Tokyo'')],
     [Lit (CText ''Mumbai''), Lit (CText ''India''), Lit (CText ''Asia/Kolkata'')],
     [Lit (CText ''Delhi''), Lit (CText ''India''), Lit (CText ''Asia/Kolkata'')],
     [Lit (CText ''Dhaka''), Lit (CText ''Bangladesh''), Lit (CText ''Asia/Dhaka'')]]"

definition seed_airports :: "expr list list" where
  "seed_airports =
    [[Lit (CText ''John F. Kennedy International Airport''), Lit (CText ''JFK''), Lit (CText ''KJFK''), Lit (CText ''Queens, NY 11430''),
      Lit (CNumeric (406413 / 10000)), Lit (CNumeric (- 737781 / 10000)), Lookup ''cities'' ''id'' ''name'' (CText ''New York'')],
     [Lit (CText ''Los Angeles International Airport''), Lit (CText ''LAX''), Lit (CText ''KLAX''), Lit (CText ''Los Angeles, CA 90045''),
      Lit (CNumeric (339416 / 10000)), Lit (CNumeric (- 1184085 / 10000)), Lookup ''cities'' ''id'' ''name'' (CText ''Los Angeles'')],
     [Lit (CText ''London Heathrow Airport''), Lit (CText ''LHR''), Lit (CText ''EGLL''), Lit (CText ''Longford TW6, UK''),
      Lit (CNumeric (514700 / 10000)), Lit (CNumeric (- 4543 / 10000)), Lookup ''cities'' ''id'' ''name'' (CText ''London'')],
     [Lit (CText ''Dubai International Airport''), Lit (CText ''DXB''), Lit (CText ''OMDB''), Lit (CText ''Dubai, UAE''),
      Lit (CNumeric (252532 / 10000)), Lit (CNumeric (553657 / 10000)), Lookup ''cities'' ''id'' ''name'' (CText ''Dubai'')],
     [Lit (CText ''Singapore Changi Airport''), Lit (CText ''SIN''), Lit (CText ''WSSS''), Lit (CText ''Singapore 819663''),
      Lit (CNumeric (13644 / 10000)), Lit (CNumeric (1039915 / 10000)), Lookup ''cities'' ''id'' ''name'' (CText ''Singapore'')],
     [Lit (CText ''Tokyo Haneda Airport''), Lit (CText ''HND''), Lit (CText ''RJTT''), Lit (CText ''Tokyo 144-0041''),
      Lit (CNumeric (355494 / 10000)), Lit (CNumeric (1397798 / 10000)), Lookup ''cities'' ''id'' ''name'' (CText ''Tokyo'')],
     [Lit (CText ''Chhatrapati Shivaji International Airport''), Lit (CText ''BOM''), Lit (CText ''VABB''), Lit (CText ''Mumbai 400099''),
      Lit (CNumeric (190896 / 10000)), Lit (CNumeric (728656 / 10000)), Lookup ''cities'' ''id'' ''name'' (CText ''Mumbai'')],
     [Lit (CText ''Indira Gandhi International Airport''), Lit (CText ''DEL''), Lit (CText ''VIDP''), Lit (CText ''New Delhi 110037''),
      Lit (CNumeric (285562 / 10000)), Lit (CNumeric (771000 / 10000)), Lookup ''cities'' ''id'' ''name'' (CText ''Delhi'')],
     [Lit (CText ''Hazrat Shahjalal International Airport''), Lit (CText ''DAC''), Lit (CText ''VGHS''), Lit (CText ''Dhaka 1229''),
      Lit (CNumeric (238433 / 10000)), Lit (CNumeric (903978 / 10000)), Lookup ''cities'' ''id'' ''name'' (CText ''Dhaka'')]]"

definition seed_airplanes :: "expr list list" where
  "seed_airplanes =
    [[Lit (CText ''737-800''), Lit (CText ''Boeing''),
      Lit (CInt 189), Lit (CInt 162), Lit (CInt 20), Lit (CInt 4), Lit (CInt 3), Lit (CInt 2020), Lit (CText ''N12345''), Lit (CBool True)],
     [Lit (CText ''A320''), Lit (CText ''Airbus''),
      Lit (CInt 180), Lit (CInt 150), Lit (CInt 24), Lit (CInt 6), Lit (CInt 0), Lit (CInt 2021), Lit (CText ''A67890''), Lit (CBool True)],
     [Lit (CText ''777-300ER''), Lit (CText ''Boeing''),
      Lit (CInt 396), Lit (CInt 264), Lit (CInt 96), Lit (CInt 8), Lit (CInt 28), Lit (CInt 2019), Lit (CText ''N98765''), Lit (CBool True)],
     [Lit (CText ''A380''), Lit (CText ''Airbus''),
      Lit (CInt 544), Lit (CInt 399), Lit (CInt 96), Lit (CInt 14), Lit (CInt 35), Lit (CInt 2018), Lit (CText ''A11111''), Lit (CBool True)],
     [Lit (CText ''787-9''), Lit (CText ''Boeing''),
      Lit (CInt 296), Lit (CInt 234), Lit (CInt 48), Lit (CInt 6), Lit (CInt 8), Lit (CInt 2022), Lit (CText ''N22222''), Lit (CBool True)]]"

text \<open>\<open>generate_series(a, b)\<close> with the letters A to F.\<close>

definition seat_block :: "int \<Rightarrow> int \<Rightarrow> string \<Rightarrow> expr list list" where
  "seat_block a b ty = concat (map (\<lambda>r. map (\<lambda>c.
     [Lookup ''airplanes'' ''id'' ''registration_number'' (CText ''N12345''), Lit (CInt r), Lit (CText [c]), Lit (CText ty)])
     ''ABCDEF'') [a..b])"

definition seed_seats :: "expr list list" where
  "seed_seats = seat_block 1 4 ''FIRST_CLASS'' @ seat_block 5 7 ''BUSINESS'' @ seat_block 8 35 ''ECONOMY''"

text \<open>Times in milliseconds of the epoch.\<close>

definition seed_flights :: "expr list list" where
  "seed_flights =
    [[Lit (CText ''BA112''), Lookup ''airplanes'' ''id'' ''registration_number'' (CText ''N12345''),
      Lookup ''airports'' ''id'' ''code'' (CText ''JFK''), Lookup ''airports'' ''id'' ''code'' (CText ''LHR''),
      Lit (CTime 1738434600000), Lit (CTime 1738478700000), Lit (CText ''B22''), Lit (CText ''7''),
      Lit (CNumeric 850), Lit (CNumeric 3500), Lit (CNumeric 8500), Lit (CNumeric 1200),
      Lit (CInt 162), Lit (CInt 20), Lit (CInt 4), Lit (CInt 3), Lit (CText ''SCHEDULED''), Lit (CInt 0)],
     [Lit (CText ''SQ37''), Lookup ''airplanes'' ''id'' ''registration_number'' (CText ''N98765''),
      Lookup ''airports'' ''id'' ''code'' (CText ''LAX''), Lookup ''airports'' ''id'' ''code'' (CText ''SIN''),
      Lit (CTime 1738540200000), Lit (CTime 1738654500000), Lit (CText ''A15''), Lit (CText ''2''),
      Lit (CNumeric 1200), Lit (CNumeric 5500), Lit (CNumeric 12000), Lit (CNumeric 1800),
      Lit (CInt 264), Lit (CInt 96), Lit (CInt 8), Lit (CInt 28), Lit (CText ''SCHEDULED''), Lit (CInt 0)],
     [Lit (CText ''EK201''), Lookup ''airplanes'' ''id'' ''registration_number'' (CText ''A11111''),
      Lookup ''airports'' ''id'' ''code'' (CText ''DXB''), Lookup ''airports'' ''id'' ''code'' (CText ''JFK''),
      Lit (CTime 1738578000000), Lit (CTime 1738600200000), Lit (CText ''C7''), Lit (CText ''3''),
      Lit (CNumeric 1450), Lit (CNumeric 6200), Lit (CNumeric 15000), Lit (CNumeric 2100),
      Lit (CInt 399), Lit (CInt 96), Lit (CInt 14), Lit (CInt 35), Lit (CText ''SCHEDULED''), Lit (CInt 0)],
     [Lit (CText ''EK582''), Lookup ''airplanes'' ''id'' ''registration_number'' (CText ''A67890''),
      Lookup ''airports'' ''id'' ''code'' (CText ''DAC''), Lookup ''airports'' ''id'' ''code'' (CText ''DXB''),
      Lit (CTime 1738720800000), Lit (CTime 1738733400000), Lit (CText ''D12''), Lit (CText ''2''),
      Lit (CNumeric 450), Lit (CNumeric 1800), Lit (CNumeric 4500), Lit (CNumeric 650),
      Lit (CInt 150), Lit (CInt 24), Lit (CInt 6), Lit (CInt 0), Lit (CText ''SCHEDULED''), Lit (CInt 0)],
     [Lit (CText ''BA138''), Lookup ''airplanes'' ''id'' ''registration_number'' (CText ''N22222''),
      Lookup ''airports'' ''id'' ''code'' (CText ''BOM''), Lookup ''airports'' ''id'' ''code'' (CText ''LHR''),
      Lit (CTime 1738852800000), Lit (CTime 1738869300000), Lit (CText ''E8''), Lit (CText ''5''),
      Lit (CNumeric 780), Lit (CNumeric 3200), Lit (CNumeric 7800), Lit (CNumeric 1100),
      Lit (CInt 234), Lit (CInt 48), Lit (CInt 6), Lit (CInt 8), Lit (CText ''SCHEDULED''), Lit (CInt 0)]]"

definition seed_initial_data_up :: "statement list" where
  "seed_initial_data_up =
    [InsertInto ''cities'' [''name'', ''country'', ''timezone''] seed_cities (Some [''name'', ''country'']),
     InsertInto ''airports''
       [''name'', ''code'', ''icao_code'', ''address'', ''latitude'', ''longitude'', ''city_id''] seed_airports (Some [''code'']),
     InsertInto ''airplanes''
       [''model_number'', ''manufacturer'', ''total_capacity'', ''economy_seats'', ''business_seats'', ''first_class_seats'',
        ''premium_economy_seats'', ''year_manufactured'', ''registration_number'', ''active'']
       seed_airplanes (Some [''registration_number'']),
     InsertInto ''seats'' [''airplane_id'', ''row'', ''col'', ''type''] seed_seats None,
     InsertInto ''flights''
       [''flight_number'', ''airplane_id'', ''departure_airport_id'', ''arrival_airport_id'', ''departure_time'', ''arrival_time'',
        ''boarding_gate'', ''terminal'', ''economy_price'', ''business_price'', ''first_class_price'', ''premium_economy_price'',
        ''economy_seats_available'', ''business_seats_available'', ''first_class_seats_available'',
        ''premium_economy_seats_available'', ''status'', ''version'']
       seed_flights (Some [''flight_number'', ''departure_time''])]"

definition seed_initial_data_down :: "statement list" where
  "seed_initial_data_down =
    [DeleteFrom ''flights'',
     DeleteFrom ''seats'',
     DeleteFrom ''airplanes'',
     DeleteFrom ''airports'',
     DeleteFrom ''cities'']"

definition seed_initial_data :: migration where
  "seed_initial_data = \<lparr>mig_name = ''SeedInitialData1769475507497'', mig_time = 1769475507497,
     mig_up = seed_initial_data_up, mig_down = seed_initial_data_down\<rparr>"

definition update_flight_table_up :: "statement list" where
  "update_flight_table_up =
    [DropIndex True ''cities_name_idx'',
     CreateIndex True ''cities'' (unique_index ''cities_name_country_unique'' [''name'', ''country'']),
     CreateIndex True ''seats'' (unique_index ''seats_airplane_row_col_unique'' [''airplane_id'', ''row'', ''col'']),
     CreateIndex True ''flights'' (unique_index ''flights_number_departure_unique'' [''flight_number'', ''departure_time''])]"

definition update_flight_table_down :: "statement list" where
  "update_flight_table_down =
    [DropIndex True ''cities_name_country_unique'',
     CreateIndex False ''cities'' (plain_index ''cities_name_idx'' [''name'']),
     DropIndex True ''seats_airplane_row_col_unique'',
     DropIndex True ''flights_number_departure_unique'']"

definition update_flight_table :: migration where
  "update_flight_table = \<lparr>mig_name = ''UpdateFlightTable1769880993945'', mig_time = 1769880993945,
     mig_up = update_flight_table_up, mig_down = update_flight_table_down\<rparr>"

definition create_processed_events :: statement where
  "create_processed_events = CreateTable ''processed_events''
    [col ''id'' TyInt False FromSequence,
     col ''event_id'' (TyVarchar None) False NoDefault,
     col ''event_type'' (TyVarchar None) False NoDefault,
     col ''aggregate_id'' (TyVarchar None) False NoDefault,
     col ''processed_at'' TyTimestamp False Now]
    [(''PK_processed_events'', PrimaryKey ''id''),
     (''UQ_processed_events_event_id'', UniqueKey [''event_id''])]"

definition add_processed_event :: migration where
  "add_processed_event = \<lparr>mig_name = ''AddProcessedEvent1770486672901'', mig_time = 1770486672901,
     mig_up = [create_processed_events], mig_down = [DropTable False ''processed_events'']\<rparr>"

definition flight_migrations :: "migration list" where
  "flight_migrations =
    [create_cities_table, create_airports_table, create_airplanes_table, create_seats_table, create_flights_table,
     seed_initial_data, update_flight_table, add_processed_event]"

subsection \<open>Payment service\<close>

definition create_payment_intents :: statement where
  "create_payment_intents = CreateTable ''payment_intents''
    [col ''id'' TyUuid False RandomUuid,
     col ''booking_id'' TyInt False NoDefault,
     col ''user_id'' TyInt False NoDefault,
     col ''amount'' TyInt False NoDefault,
     col ''currency'' (TyVarchar (Some 3)) False (Constant (CText ''USD'')),
     col ''gateway'' (TyVarchar (Some 50)) False NoDefault,
     col ''gateway_payment_id'' (TyVarchar (Some 255)) False NoDefault,
     col ''status'' (TyVarchar (Some 50)) False (Constant (CText ''pending'')),
     col ''client_secret'' TyText True NoDefault,
     col ''metadata'' TyJsonb True NoDefault,
     col ''created_at'' TyTimestamp False Now,
     col ''updated_at'' TyTimestamp False Now]
    [(''payment_intents_pkey'', PrimaryKey ''id''),
     (''payment_intents_gateway_payment_id_key'', UniqueKey [''gateway_payment_id''])]"

definition create_payment_transactions :: statement where
  "create_payment_transactions = CreateTable ''payment_transactions''
    [col ''id'' TyUuid False RandomUuid,
     col ''payment_intent_id'' TyUuid False NoDefault,
     col ''transaction_type'' (TyVarchar (Some 50)) False NoDefault,
     col ''amount'' TyInt False NoDefault,
     col ''currency'' (TyVarchar (Some 3)) False NoDefault,
     col ''gateway'' (TyVarchar (Some 50)) False NoDefault,
     col ''gateway_transaction_id'' (TyVarchar (Some 255)) False NoDefault,
     col ''status'' (TyVarchar (Some 50)) False (Constant (CText ''pending'')),
     col ''error_message'' TyText True NoDefault,
     col ''raw_response'' TyJsonb True NoDefault,
     col ''created_at'' TyTimestamp False Now]
    [(''payment_transactions_pkey'', PrimaryKey ''id''),
     (''payment_transactions_gateway_transaction_id_key'', UniqueKey [''gateway_transaction_id'']),
     (''FK_payment_transactions_payment_intent'', ForeignKey ''payment_intent_id'' ''payment_intents'' ''id'' NoAction)]"

definition create_refunds :: statement where
  "create_refunds = CreateTable ''refunds''
    [col ''id'' TyUuid False RandomUuid,
     col ''payment_transaction_id'' TyUuid False NoDefault,
     col ''booking_id'' TyInt False NoDefault,
     col ''amount'' TyInt False NoDefault,
     col ''reason'' TyText True NoDefault,
     col ''status'' (TyVarchar (Some 50)) False (Constant (CText ''pending'')),
     col ''gateway_refund_id'' (TyVarchar (Some 255)) True NoDefault,
     col ''created_at'' TyTimestamp False Now]
    [(''refunds_pkey'', PrimaryKey ''id''),
     (''FK_refunds_payment_transaction'', ForeignKey ''payment_transaction_id'' ''payment_transactions'' ''id'' NoAction)]"

definition create_payment_audit_log :: statement where
  "create_payment_audit_log = CreateTable ''payment_audit_log''
    [col ''id'' TyUuid False RandomUuid,
     col ''entity_type'' (TyVarchar (Some 50)) False NoDefault,
     col ''entity_id'' TyUuid False NoDefault,
     col ''action'' (TyVarchar (Some 50)) False NoDefault,
     col ''user_id'' TyInt True NoDefault,
     col ''ip_address'' TyInet True NoDefault,
     col ''user_agent'' TyText True NoDefault,
     col ''changes'' TyJsonb True NoDefault,
     col ''created_at'' TyTimestamp False Now]
    [(''payment_audit_log_pkey'', PrimaryKey ''id'')]"

definition initial_payment_schema_up :: "statement list" where
  "initial_payment_schema_up =
    [create_payment_intents,
     CreateIndex True ''payment_intents'' (plain_index ''IDX_payment_intents_booking_id'' [''booking_id'']),
     CreateIndex True ''payment_intents'' (plain_index ''IDX_payment_intents_user_id'' [''user_id'']),
     CreateIndex True ''payment_intents'' (plain_index ''IDX_payment_intents_status'' [''status'']),
     CreateIndex True ''payment_intents'' (plain_index ''IDX_payment_intents_gateway_payment_id'' [''gateway_payment_id'']),
     CreateIndex True ''payment_intents'' (plain_index ''IDX_payment_intents_created_at'' [''created_at'']),
     create_payment_transactions,
     CreateIndex True ''payment_transactions'' (plain_index ''IDX_payment_transactions_payment_intent_id'' [''payment_intent_id'']),
     CreateIndex True ''payment_transactions'' (plain_index ''IDX_payment_transactions_gateway_transaction_id'' [''gateway_transaction_id'']),
     CreateIndex True ''payment_transactions'' (plain_index ''IDX_payment_transactions_status'' [''status'']),
     CreateIndex True ''payment_transactions'' (plain_index ''IDX_payment_transactions_created_at'' [''created_at'']),
     create_refunds,
     CreateIndex True ''refunds'' (plain_index ''IDX_refunds_payment_transaction_id'' [''payment_transaction_id'']),
     CreateIndex True ''refunds'' (plain_index ''IDX_refunds_booking_id'' [''booking_id'']),
     CreateIndex True ''refunds'' (plain_index ''IDX_refunds_status'' [''status'']),
     CreateIndex True ''refunds'' (plain_index ''IDX_refunds_created_at'' [''created_at'']),
     create_payment_audit_log,
     CreateIndex True ''payment_audit_log'' (plain_index ''IDX_payment_audit_log_entity'' [''entity_type'', ''entity_id'']),
     CreateIndex True ''payment_audit_log'' (plain_index ''IDX_payment_audit_log_user_id'' [''user_id'']),
     CreateIndex True ''payment_audit_log'' (plain_index ''IDX_payment_audit_log_action'' [''action'']),
     CreateIndex True ''payment_audit_log'' (plain_index ''IDX_payment_audit_log_created_at'' [''created_at''])]"

definition initial_payment_schema_down :: "statement list" where
  "initial_payment_schema_down =
    [DropTable True ''payment_audit_log'',
     DropTable True ''refunds'',
     DropTable True ''payment_transactions'',
     DropTable True ''payment_intents'']"

definition initial_payment_schema :: migration where
  "initial_payment_schema = \<lparr>mig_name = ''InitialPaymentSchema1708041000000'', mig_time = 1708041000000,
     mig_up = initial_payment_schema_up, mig_down = initial_payment_schema_down\<rparr>"

definition create_payments :: statement where
  "create_payments = CreateTable ''payments''
    [col ''id'' TyUuid False RandomUuid,
     col ''booking_id'' TyInt False NoDefault,
     col ''user_id'' TyInt False NoDefault,
     col ''amount'' TyInt False NoDefault,
     col ''currency'' (TyVarchar (Some 3)) False (Constant (CText ''USD'')),
     col ''payment_method'' (TyVarchar (Some 50)) False NoDefault,
     col ''gateway'' (TyVarchar (Some 50)) False NoDefault,
     col ''gateway_payment_id'' (TyVarchar (Some 255)) False NoDefault,
     col ''status'' (TyVarchar (Some 50)) False (Constant (CText ''pending'')),
     col ''client_secret'' TyText True NoDefault,
     col ''correlation_id'' (TyVarchar (Some 100)) True NoDefault,
     col ''failure_code'' (TyVarchar (Some 100)) True NoDefault,
     col ''failure_reason'' TyText True NoDefault,
     col ''confirmed_at'' TyTimestamp True NoDefault,
     col ''refunded_at'' TyTimestamp True NoDefault,
     col ''expires_at'' TyTimestamp True NoDefault,
     col ''metadata'' TyJsonb True NoDefault,
     col ''version'' TyInt False (Constant (CInt 1)),
     col ''created_at'' TyTimestamp False Now,
     col ''updated_at'' TyTimestamp False Now]
    [(''payments_pkey'', PrimaryKey ''id''),
     (''payments_gateway_payment_id_key'', UniqueKey [''gateway_payment_id''])]"

definition create_idempotency_keys :: statement where
  "create_idempotency_keys = CreateTable ''idempotency_keys''
    [col ''id'' TyUuid False RandomUuid,
     col ''idempotency_key'' (TyVarchar (Some 255)) False NoDefault,
     col ''scope'' (TyVarchar (Some 100)) False NoDefault,
     col ''request_hash'' (TyVarchar (Some 128)) False NoDefault,
     col ''resource_type'' (TyVarchar (Some 100)) True NoDefault,
     col ''resource_id'' TyUuid True NoDefault,
     col ''status'' (TyVarchar (Some 50)) False (Constant (CText ''processing'')),
     col ''response_code'' TyInt True NoDefault,
     col ''response_body'' TyJsonb True NoDefault,
     col ''last_error'' TyText True NoDefault,
     col ''locked_at'' TyTimestamp True NoDefault,
     col ''expires_at'' TyTimestamp True NoDefault,
     col ''created_at'' TyTimestamp False Now,
     col ''updated_at'' TyTimestamp False Now]
    [(''idempotency_keys_pkey'', PrimaryKey ''id''),
     (''UQ_idempotency_scope_key'', UniqueKey [''scope'', ''idempotency_key''])]"

definition create_ledger_entries :: statement where
  "create_ledger_entries = CreateTable ''ledger_entries''
    [col ''id'' TyUuid False RandomUuid,
     col ''payment_id'' TyUuid True NoDefault,
     col ''refund_id'' TyUuid True NoDefault,
     col ''booking_id'' TyInt False NoDefault,
     col ''account_code'' (TyVarchar (Some 100)) False NoDefault,
     col ''entry_type'' (TyVarchar (Some 50)) False NoDefault,
     col ''direction'' (TyVarchar (Some 50)) False NoDefault,
     col ''amount'' TyInt False NoDefault,
     col ''currency'' (TyVarchar (Some 3)) False NoDefault,
     col ''reference_type'' (TyVarchar (Some 100)) False NoDefault,
     col ''reference_id'' (TyVarchar (Some 255)) False NoDefault,
     col ''description'' TyText True NoDefault,
     col ''occurred_at'' TyTimestamp False NoDefault,
     col ''metadata'' TyJsonb True NoDefault,
     col ''created_at'' TyTimestamp False Now]
    [(''ledger_entries_pkey'', PrimaryKey ''id'')]"

definition create_webhook_events :: statement where
  "create_webhook_events = CreateTable ''webhook_events''
    [col ''id'' TyUuid False RandomUuid,
     col ''gateway'' (TyVarchar (Some 50)) False NoDefault,
     col ''event_id'' (TyVarchar (Some 255)) False NoDefault,
     col ''event_type'' (TyVarchar (Some 100)) False NoDefault,
     col ''status'' (TyVarchar (Some 50)) False (Constant (CText ''received'')),
     col ''payment_id'' TyUuid True NoDefault,
     col ''gateway_payment_id'' (TyVarchar (Some 255)) True NoDefault,
     col ''payload_hash'' (TyVarchar (Some 128)) True NoDefault,
     col ''payload'' TyJsonb False NoDefault,
     col ''last_error'' TyText True NoDefault,
     col ''received_at'' TyTimestamp False Now,
     col ''processed_at'' TyTimestamp True NoDefault,
     col ''created_at'' TyTimestamp False Now,
     col ''updated_at'' TyTimestamp False Now]
    [(''webhook_events_pkey'', PrimaryKey ''id''),
     (''UQ_webhook_gateway_event'', UniqueKey [''gateway'', ''event_id''])]"

definition upgrade_payment_domain_up :: "statement list" where
  "upgrade_payment_domain_up =
    [create_payments,
     CreateIndex True ''payments'' (plain_index ''IDX_payments_booking_id'' [''booking_id'']),
     CreateIndex True ''payments'' (plain_index ''IDX_payments_user_id'' [''user_id'']),
     CreateIndex True ''payments'' (plain_index ''IDX_payments_status'' [''status'']),
     CreateIndex True ''payments'' (plain_index ''IDX_payments_gateway_payment_id'' [''gateway_payment_id'']),
     CreateIndex True ''payments'' (plain_index ''IDX_payments_created_at'' [''created_at'']),
     create_idempotency_keys,
     CreateIndex True ''idempotency_keys'' (plain_index ''IDX_idempotency_keys_status'' [''status'']),
     CreateIndex True ''idempotency_keys'' (plain_index ''IDX_idempotency_keys_expires_at'' [''expires_at'']),
     AddColumn True ''refunds'' (col ''payment_id'' TyUuid True NoDefault),
     AddColumn True ''refunds'' (col ''idempotency_key'' (TyVarchar (Some 255)) True NoDefault),
     AddColumn True ''refunds'' (col ''failure_reason'' TyText True NoDefault),
     AddColumn True ''refunds'' (col ''processed_at'' TyTimestamp True NoDefault),
     AddColumn True ''refunds'' (col ''updated_at'' TyTimestamp False Now),
     AddColumn True ''refunds'' (col ''metadata'' TyJsonb True NoDefault),
     UpdateFrom ''refunds'' ''payment_id'' ''payment_transactions'' ''payment_intent_id'' ''payment_transaction_id'' ''id'',
     CreateIndex True ''refunds'' (plain_index ''IDX_refunds_payment_id'' [''payment_id'']),
     CreateIndex True ''refunds''
       \<lparr>ix_name = ''IDX_refunds_gateway_refund_id'', ix_unique = True, ix_columns = [''gateway_refund_id''],
        ix_where = Some (NotNull ''gateway_refund_id'')\<rparr>,
     create_ledger_entries,
     CreateIndex True ''ledger_entries'' (plain_index ''IDX_ledger_entries_payment_id'' [''payment_id'']),
     CreateIndex True ''ledger_entries'' (plain_index ''IDX_ledger_entries_refund_id'' [''refund_id'']),
     CreateIndex True ''ledger_entries'' (plain_index ''IDX_ledger_entries_booking_id'' [''booking_id'']),
     CreateIndex True ''ledger_entries'' (plain_index ''IDX_ledger_entries_entry_type'' [''entry_type'']),
     CreateIndex True ''ledger_entries'' (plain_index ''IDX_ledger_entries_occurred_at'' [''occurred_at'']),
     create_webhook_events,
     CreateIndex True ''webhook_events'' (plain_index ''IDX_webhook_events_status'' [''status'']),
     CreateIndex True ''webhook_events'' (plain_index ''IDX_webhook_events_received_at'' [''received_at''])]"

definition upgrade_payment_domain_down :: "statement list" where
  "upgrade_payment_domain_down =
    [DropTable True ''webhook_events'',
     DropTable True ''ledger_entries'',
     DropTable True ''idempotency_keys'',
     DropTable True ''payments'',
     DropIndex True ''IDX_refunds_payment_id'',
     DropIndex True ''IDX_refunds_gateway_refund_id'',
     DropColumn True ''refunds'' ''payment_id'',
     DropColumn True ''refunds'' ''idempotency_key'',
     DropColumn True ''refunds'' ''failure_reason'',
     DropColumn True ''refunds'' ''processed_at'',
     DropColumn True ''refunds'' ''updated_at'',
     DropColumn True ''refunds'' ''metadata'']"

definition upgrade_payment_domain :: migration where
  "upgrade_payment_domain = \<lparr>mig_name = ''UpgradePaymentDomain1772000000000'', mig_time = 1772000000000,
     mig_up = upgrade_payment_domain_up, mig_down = upgrade_payment_domain_down\<rparr>"

definition payment_migrations :: "migration list" where
  "payment_migrations = [initial_payment_schema, upgrade_payment_domain]"

subsection \<open>Running and reverting\<close>

text \<open>
  \<open>migration:run\<close> runs the pending migrations in the order of their timestamps, \<open>migration:revert\<close> the \<open>down\<close>
  of the latest one that was run; each is one transaction. The names of those that were run are kept.
\<close>

record migration_state =
  ms_executed :: "string list"
  ms_database :: database

definition fresh_database :: migration_state where
  "fresh_database = \<lparr>ms_executed = [], ms_database = empty_database\<rparr>"

definition pending :: "migration list \<Rightarrow> migration_state \<Rightarrow> migration list" where
  "pending ms s = filter (\<lambda>m. mig_name m \<notin> set (ms_executed s)) (sort_key mig_time ms)"

definition migrate :: "sql_env \<Rightarrow> migration list \<Rightarrow> migration_state \<Rightarrow> pg_error + migration_state" where
  "migrate env ms s =
     (case run env (concat (map mig_up (pending ms s))) (ms_database s) of
        Inl e \<Rightarrow> Inl e
      | Inr db \<Rightarrow> Inr \<lparr>ms_executed = ms_executed s @ map mig_name (pending ms s), ms_database = db\<rparr>)"

definition latest_executed :: "migration list \<Rightarrow> migration_state \<Rightarrow> migration option" where
  "latest_executed ms s = find (\<lambda>m. mig_name m \<in> set (ms_executed s)) (rev (sort_key mig_time ms))"

definition revert :: "sql_env \<Rightarrow> migration list \<Rightarrow> migration_state \<Rightarrow> pg_error + migration_state" where
  "revert env ms s =
     (case latest_executed ms s of
        None \<Rightarrow> Inr s
      | Some m \<Rightarrow> (case run env (mig_down m) (ms_database s) of
          Inl e \<Rightarrow> Inl e
        | Inr db \<Rightarrow> Inr \<lparr>ms_executed = filter (\<lambda>n. n \<noteq> mig_name m) (ms_executed s), ms_database = db\<rparr>))"

end
