(* ===== verification/Entities.thy ===== *)
theory Entities
  imports Migrations
begin

text \<open>
  The TypeORM entities of the services (apps/*/src/entities) as the insertions and queries TypeORM makes of
  them, and when a table can take what an entity declares. Without a \<open>name\<close> a column is called like the
  property: the data sources set no naming strategy.
\<close>

datatype role = Plain | Generated | Version

record entity_column =
  en_property :: string
  en_role :: role
  en_column :: column

record entity =
  e_table :: string
  e_types :: enum_types
  e_columns :: "entity_column list"

definition ent :: "string \<Rightarrow> role \<Rightarrow> column \<Rightarrow> entity_column" where
  "ent p r c = \<lparr>en_property = p, en_role = r, en_column = c\<rparr>"

subsection \<open>Booking service\<close>

definition booking_entity :: entity where
  "booking_entity = \<lparr>e_table = ''bookings'', e_types =
    [(''bookings_status_enum'', [''INITIATED'', ''PENDING'', ''BOOKED'', ''CANCELLED'', ''EXPIRED'', ''REFUNDED'']),
     (''bookings_payment_status_enum'', [''PENDING'', ''PROCESSING'', ''COMPLETED'', ''FAILED'', ''REFUNDED''])], e_columns =
    [ent ''id'' Generated (col ''id'' TyInt False FromSequence),
     ent ''bookingReference'' Plain (col ''booking_reference'' (TyVarchar (Some 36)) False NoDefault),
     ent ''flightId'' Plain (col ''flight_id'' TyInt False NoDefault),
     ent ''userId'' Plain (col ''user_id'' TyInt False NoDefault),
     ent ''noOfSeats'' Plain (col ''no_of_seats'' TyInt False (Constant (CInt 1))),
     ent ''totalCost'' Plain (col ''total_cost'' (TyNumeric 10 2) False NoDefault),
     ent ''status'' Plain (col ''status'' (TyEnum ''bookings_status_enum'') False (Constant (CText ''INITIATED''))),
     ent ''paymentStatus'' Plain (col ''payment_status'' (TyEnum ''bookings_payment_status_enum'') False (Constant (CText ''PENDING''))),
     ent ''passengerName'' Plain (col ''passenger_name'' (TyVarchar (Some 200)) True NoDefault),
     ent ''passengerEmail'' Plain (col ''passenger_email'' (TyVarchar (Some 255)) True NoDefault),
     ent ''passengerPhone'' Plain (col ''passenger_phone'' (TyVarchar (Some 20)) True NoDefault),
     ent ''flightNumber'' Plain (col ''flight_number'' (TyVarchar (Some 20)) True NoDefault),
     ent ''departureAirportCode'' Plain (col ''departure_airport_code'' (TyVarchar (Some 3)) True NoDefault),
     ent ''arrivalAirportCode'' Plain (col ''arrival_airport_code'' (TyVarchar (Some 3)) True NoDefault),
     ent ''departureTime'' Plain (col ''departure_time'' TyTimestampTz True NoDefault),
     ent ''arrivalTime'' Plain (col ''arrival_time'' TyTimestampTz True NoDefault),
     ent ''seatNumbers'' Plain (col ''seat_numbers'' TyTextArray True NoDefault),
     ent ''seatClass'' Plain (col ''seat_class'' (TyVarchar (Some 50)) True NoDefault),
     ent ''paymentMethod'' Plain (col ''payment_method'' (TyVarchar (Some 50)) True NoDefault),
     ent ''paymentTransactionId'' Plain (col ''payment_transaction_id'' (TyVarchar (Some 100)) True NoDefault),
     ent ''paidAt'' Plain (col ''paid_at'' TyTimestampTz True NoDefault),
     ent ''cancelledAt'' Plain (col ''cancelled_at'' TyTimestampTz True NoDefault),
     ent ''cancellationReason'' Plain (col ''cancellation_reason'' TyText True NoDefault),
     ent ''refundAmount'' Plain (col ''refund_amount'' (TyNumeric 10 2) True NoDefault),
     ent ''refundedAt'' Plain (col ''refunded_at'' TyTimestampTz True NoDefault),
     ent ''expiresAt'' Plain (col ''expires_at'' TyTimestampTz True NoDefault),
     ent ''version'' Version (col ''version'' TyInt False NoDefault),
     ent ''bookingSource'' Plain (col ''booking_source'' (TyVarchar (Some 50)) True NoDefault),
     ent ''ipAddress'' Plain (col ''ip_address'' TyInet True NoDefault),
     ent ''metadata'' Plain (col ''metadata'' TyJsonb True NoDefault),
     ent ''createdAt'' Generated (col ''created_at'' TyTimestamp False Now),
     ent ''updatedAt'' Generated (col ''updated_at'' TyTimestamp False Now)]\<rparr>"

definition saga_state_entity :: entity where
  "saga_state_entity = \<lparr>e_table = ''saga_states'', e_types =
    [(''saga_states_status_enum'', [''INITIATED'', ''SEATS_LOCKED'', ''FLIGHT_RESERVED'', ''PAYMENT_PROCESSING'', ''PAYMENT_COMPLETED'', ''BOOKING_CONFIRMED'', ''FAILED'', ''COMPENSATING'', ''COMPENSATED''])], e_columns =
    [ent ''id'' Generated (col ''id'' TyInt False FromSequence),
     ent ''sagaId'' Plain (col ''saga_id'' (TyVarchar (Some 36)) False NoDefault),
     ent ''sagaType'' Plain (col ''saga_type'' (TyVarchar (Some 50)) False NoDefault),
     ent ''bookingId'' Plain (col ''booking_id'' (TyVarchar (Some 36)) False NoDefault),
     ent ''status'' Plain (col ''status'' (TyEnum ''saga_states_status_enum'') False (Constant (CText ''INITIATED''))),
     ent ''currentStep'' Plain (col ''current_step'' TyInt False (Constant (CInt 0))),
     ent ''totalSteps'' Plain (col ''total_steps'' TyInt False (Constant (CInt 6))),
     ent ''payload'' Plain (col ''payload'' TyJsonb False NoDefault),
     ent ''context'' Plain (col ''context'' TyJsonb True NoDefault),
     ent ''errorMessage'' Plain (col ''error_message'' TyText True NoDefault),
     ent ''retryCount'' Plain (col ''retry_count'' TyInt False (Constant (CInt 0))),
     ent ''maxRetries'' Plain (col ''max_retries'' TyInt False (Constant (CInt 3))),
     ent ''lastErrorAt'' Plain (col ''last_error_at'' TyTimestamp True NoDefault),
     ent ''completedAt'' Plain (col ''completed_at'' TyTimestamp True NoDefault),
     ent ''compensatedAt'' Plain (col ''compensated_at'' TyTimestamp True NoDefault),
     ent ''idempotencyKey'' Plain (col ''idempotency_key'' (TyVarchar (Some 100)) True NoDefault),
     ent ''createdAt'' Generated (col ''created_at'' TyTimestamp False Now),
     ent ''updatedAt'' Generated (col ''updated_at'' TyTimestamp False Now)]\<rparr>"

definition outbox_event_entity :: entity where
  "outbox_event_entity = \<lparr>e_table = ''outbox_events'', e_types =
    [(''outbox_events_status_enum'', [''PENDING'', ''PROCESSING'', ''PUBLISHED'', ''FAILED''])], e_columns =
    [ent ''id'' Generated (col ''id'' TyInt False FromSequence),
     ent ''eventId'' Plain (col ''event_id'' (TyVarchar (Some 36)) False NoDefault),
     ent ''aggregateType'' Plain (col ''aggregate_type'' (TyVarchar (Some 50)) False NoDefault),
     ent ''aggregateId'' Plain (col ''aggregate_id'' (TyVarchar (Some 36)) False NoDefault),
     ent ''eventType'' Plain (col ''event_type'' (TyVarchar (Some 100)) False NoDefault),
     ent ''payload'' Plain (col ''payload'' TyJsonb False NoDefault),
     ent ''status'' Plain (col ''status'' (TyEnum ''outbox_events_status_enum'') False (Constant (CText ''PENDING''))),
     ent ''retryCount'' Plain (col ''retry_count'' TyInt False (Constant (CInt 0))),
     ent ''maxRetries'' Plain (col ''max_retries'' TyInt False (Constant (CInt 3))),
     ent ''lastError'' Plain (col ''last_error'' TyText True NoDefault),
     ent ''publishedAt'' Plain (col ''published_at'' TyTimestamp True NoDefault),
     ent ''traceId'' Plain (col ''trace_id'' (TyVarchar (Some 32)) True NoDefault),
     ent ''spanId'' Plain (col ''span_id'' (TyVarchar (Some 16)) True NoDefault),
     ent ''createdAt'' Generated (col ''created_at'' TyTimestamp False Now)]\<rparr>"

subsection \<open>Flight service\<close>

definition city_entity :: entity where
  "city_entity = \<lparr>e_table = ''cities'', e_types =
    [], e_columns =
    [ent ''id'' Generated (col ''id'' TyInt False FromSequence),
     ent ''name'' Plain (col ''name'' (TyVarchar (Some 100)) False NoDefault),
     ent ''country'' Plain (col ''country'' (TyVarchar (Some 100)) False NoDefault),
     ent ''countryCode'' Plain (col ''country_code'' (TyVarchar (Some 10)) True NoDefault),
     ent ''timezone'' Plain (col ''timezone'' (TyVarchar (Some 50)) True NoDefault),
     ent ''latitude'' Plain (col ''latitude'' (TyNumeric 10 7) True NoDefault),
     ent ''longitude'' Plain (col ''longitude'' (TyNumeric 10 7) True NoDefault),
     ent ''active'' Plain (col ''active'' TyBool False (Constant (CBool True))),
     ent ''createdAt'' Generated (col ''created_at'' TyTimestamp False Now),
     ent ''updatedAt'' Generated (col ''updated_at'' TyTimestamp False Now)]\<rparr>"

definition airport_entity :: entity where
  "airport_entity = \<lparr>e_table = ''airports'', e_types =
    [], e_columns =
    [ent ''id'' Generated (col ''id'' TyInt False FromSequence),
     ent ''name'' Plain (col ''name'' (TyVarchar (Some 200)) False NoDefault),
     ent ''code'' Plain (col ''code'' (TyVarchar (Some 3)) False NoDefault),
     ent ''icaoCode'' Plain (col ''icao_code'' (TyVarchar (Some 4)) True NoDefault),
     ent ''address'' Plain (col ''address'' TyText True NoDefault),
     ent ''city_denormalized'' Plain (col ''city_denormalized'' (TyVarchar (Some 100)) True NoDefault),
     ent ''country_denormalized'' Plain (col ''country_denormalized'' (TyVarchar (Some 100)) True NoDefault),
     ent ''latitude'' Plain (col ''latitude'' (TyNumeric 10 7) True NoDefault),
     ent ''longitude'' Plain (col ''longitude'' (TyNumeric 10 7) True NoDefault),
     ent ''timezone'' Plain (col ''timezone'' (TyVarchar (Some 50)) True NoDefault),
     ent ''cityId'' Plain (col ''city_id'' TyInt False NoDefault),
     ent ''active'' Plain (col ''active'' TyBool False (Constant (CBool True))),
     ent ''createdAt'' Generated (col ''created_at'' TyTimestamp False Now),
     ent ''updatedAt'' Generated (col ''updated_at'' TyTimestamp False Now)]\<rparr>"

definition airplane_entity :: entity where
  "airplane_entity = \<lparr>e_table = ''airplanes'', e_types =
    [], e_columns =
    [ent ''id'' Generated (col ''id'' TyInt False FromSequence),
     ent ''modelNumber'' Plain (col ''model_number'' (TyVarchar (Some 50)) False NoDefault),
     ent ''manufacturer'' Plain (col ''manufacturer'' (TyVarchar (Some 100)) False NoDefault),
     ent ''registrationNumber'' Plain (col ''registration_number'' (TyVarchar (Some 50)) True NoDefault),
     ent ''totalCapacity'' Plain (col ''total_capacity'' TyInt False (Constant (CInt 0))),
     ent ''economySeats'' Plain (col ''economy_seats'' TyInt False (Constant (CInt 0))),
     ent ''businessSeats'' Plain (col ''business_seats'' TyInt False (Constant (CInt 0))),
     ent ''firstClassSeats'' Plain (col ''first_class_seats'' TyInt False (Constant (CInt 0))),
     ent ''premiumEconomySeats'' Plain (col ''premium_economy_seats'' TyInt False (Constant (CInt 0))),
     ent ''yearManufactured'' Plain (col ''year_manufactured'' TyInt True NoDefault),
     ent ''maxRangeKm'' Plain (col ''max_range_km'' TyInt True NoDefault),
     ent ''cruisingSpeedKmh'' Plain (col ''cruising_speed_kmh'' TyInt True NoDefault),
     ent ''active'' Plain (col ''active'' TyBool False (Constant (CBool True))),
     ent ''createdAt'' Generated (col ''created_at'' TyTimestamp False Now),
     ent ''updatedAt'' Generated (col ''updated_at'' TyTimestamp False Now)]\<rparr>"

definition seat_entity :: entity where
  "seat_entity = \<lparr>e_table = ''seats'', e_types =
    [(''seat_type'', [''ECONOMY'', ''BUSINESS'', ''FIRST_CLASS'', ''PREMIUM_ECONOMY''])], e_columns =
    [ent ''id'' Generated (col ''id'' TyInt False FromSequence),
     ent ''airplaneId'' Plain (col ''airplane_id'' TyInt False NoDefault),
     ent ''row'' Plain (col ''row'' TyInt False NoDefault),
     ent ''col'' Plain (col ''col'' (TyChar 1) False NoDefault),
     ent ''type'' Plain (col ''type'' (TyEnum ''seat_type'') False (Constant (CText ''ECONOMY''))),
     ent ''createdAt'' Generated (col ''created_at'' TyTimestamp False Now),
     ent ''updatedAt'' Generated (col ''updated_at'' TyTimestamp False Now)]\<rparr>"

definition flight_entity :: entity where
  "flight_entity = \<lparr>e_table = ''flights'', e_types =
    [(''flight_status'', [''SCHEDULED'', ''DELAYED'', ''CANCELLED'', ''DEPARTED'', ''ARRIVED'', ''BOARDING'', ''IN_FLIGHT''])], e_columns =
    [ent ''id'' Generated (col ''id'' TyInt False FromSequence),
     ent ''flightNumber'' Plain (col ''flight_number'' (TyVarchar (Some 20)) False NoDefault),
     ent ''airplaneId'' Plain (col ''airplane_id'' TyInt False NoDefault),
     ent ''departureAirportId'' Plain (col ''departure_airport_id'' TyInt False NoDefault),
     ent ''arrivalAirportId'' Plain (col ''arrival_airport_id'' TyInt False NoDefault),
     ent ''departureTime'' Plain (col ''departure_time'' TyTimestampTz False NoDefault),
     ent ''arrivalTime'' Plain (col ''arrival_time'' TyTimestampTz False NoDefault),
     ent ''boardingGate'' Plain (col ''boarding_gate'' (TyVarchar (Some 10)) True NoDefault),
     ent ''terminal'' Plain (col ''terminal'' (TyVarchar (Some 10)) True NoDefault),
     ent ''economyPrice'' Plain (col ''economy_price'' (TyNumeric 10 2) False NoDefault),
     ent ''businessPrice'' Plain (col ''business_price'' (TyNumeric 10 2) False NoDefault),
     ent ''firstClassPrice'' Plain (col ''first_class_price'' (TyNumeric 10 2) False NoDefault),
     ent ''premiumEconomyPrice'' Plain (col ''premium_economy_price'' (TyNumeric 10 2) False NoDefault),
     ent ''economySeatsAvailable'' Plain (col ''economy_seats_available'' TyInt False NoDefault),
     ent ''businessSeatsAvailable'' Plain (col ''business_seats_available'' TyInt False NoDefault),
     ent ''firstClassSeatsAvailable'' Plain (col ''first_class_seats_available'' TyInt False NoDefault),
     ent ''premiumEconomySeatsAvailable'' Plain (col ''premium_economy_seats_available'' TyInt False NoDefault),
     ent ''status'' Plain (col ''status'' (TyEnum ''flight_status'') False (Constant (CText ''SCHEDULED''))),
     ent ''version'' Version (col ''version'' TyInt False NoDefault),
     ent ''createdAt'' Generated (col ''created_at'' TyTimestamp False Now),
     ent ''updatedAt'' Generated (col ''updated_at'' TyTimestamp False Now)]\<rparr>"

definition processed_event_entity :: entity where
  "processed_event_entity = \<lparr>e_table = ''processed_events'', e_types =
    [], e_columns =
    [ent ''id'' Generated (col ''id'' TyInt False FromSequence),
     ent ''eventId'' Plain (col ''event_id'' (TyVarchar None) False NoDefault),
     ent ''eventType'' Plain (col ''event_type'' (TyVarchar None) False NoDefault),
     ent ''aggregateId'' Plain (col ''aggregate_id'' (TyVarchar None) False NoDefault),
     ent ''processedAt'' Generated (col ''processed_at'' TyTimestamp False Now)]\<rparr>"

subsection \<open>Payment service\<close>

definition payment_entity :: entity where
  "payment_entity = \<lparr>e_table = ''payments'', e_types =
    [(''payments_status_enum'', [''pending'', ''requires_action'', ''processing'', ''confirmed'', ''failed'', ''partially_refunded'', ''refunded'', ''canceled''])], e_columns =
    [ent ''id'' Generated (col ''id'' TyUuid False RandomUuid),
     ent ''bookingId'' Plain (col ''booking_id'' TyInt False NoDefault),
     ent ''userId'' Plain (col ''user_id'' TyInt False NoDefault),
     ent ''amount'' Plain (col ''amount'' TyInt False NoDefault),
     ent ''currency'' Plain (col ''currency'' (TyVarchar (Some 3)) False (Constant (CText ''USD''))),
     ent ''paymentMethod'' Plain (col ''payment_method'' (TyVarchar (Some 50)) False NoDefault),
     ent ''gateway'' Plain (col ''gateway'' (TyVarchar (Some 50)) False NoDefault),
     ent ''gatewayPaymentId'' Plain (col ''gateway_payment_id'' (TyVarchar (Some 255)) False NoDefault),
     ent ''status'' Plain (col ''status'' (TyEnum ''payments_status_enum'') False (Constant (CText ''pending''))),
     ent ''clientSecret'' Plain (col ''client_secret'' TyText True NoDefault),
     ent ''correlationId'' Plain (col ''correlation_id'' (TyVarchar (Some 100)) True NoDefault),
     ent ''failureCode'' Plain (col ''failure_code'' (TyVarchar (Some 100)) True NoDefault),
     ent ''failureReason'' Plain (col ''failure_reason'' TyText True NoDefault),
     ent ''confirmedAt'' Plain (col ''confirmed_at'' TyTimestamp True NoDefault),
     ent ''refundedAt'' Plain (col ''refunded_at'' TyTimestamp True NoDefault),
     ent ''expiresAt'' Plain (col ''expires_at'' TyTimestamp True NoDefault),
     ent ''metadata'' Plain (col ''metadata'' TyJsonb True NoDefault),
     ent ''version'' Version (col ''version'' TyInt False NoDefault),
     ent ''createdAt'' Generated (col ''created_at'' TyTimestamp False Now),
     ent ''updatedAt'' Generated (col ''updated_at'' TyTimestamp False Now)]\<rparr>"

definition idempotency_key_entity :: entity where
  "idempotency_key_entity = \<lparr>e_table = ''idempotency_keys'', e_types =
    [(''idempotency_keys_status_enum'', [''processing'', ''completed'', ''failed''])], e_columns =
    [ent ''id'' Generated (col ''id'' TyUuid False RandomUuid),
     ent ''idempotencyKey'' Plain (col ''idempotency_key'' (TyVarchar (Some 255)) False NoDefault),
     ent ''scope'' Plain (col ''scope'' (TyVarchar (Some 100)) False NoDefault),
     ent ''requestHash'' Plain (col ''request_hash'' (TyVarchar (Some 128)) False NoDefault),
     ent ''resourceType'' Plain (col ''resource_type'' (TyVarchar (Some 100)) True NoDefault),
     ent ''resourceId'' Plain (col ''resource_id'' TyUuid True NoDefault),
     ent ''status'' Plain (col ''status'' (TyEnum ''idempotency_keys_status_enum'') False (Constant (CText ''processing''))),
     ent ''responseCode'' Plain (col ''response_code'' TyInt True NoDefault),
     ent ''responseBody'' Plain (col ''response_body'' TyJsonb True NoDefault),
     ent ''lastError'' Plain (col ''last_error'' TyText True NoDefault),
     ent ''lockedAt'' Plain (col ''locked_at'' TyTimestamp True NoDefault),
     ent ''expiresAt'' Plain (col ''expires_at'' TyTimestamp True NoDefault),
     ent ''createdAt'' Generated (col ''created_at'' TyTimestamp False Now),
     ent ''updatedAt'' Generated (col ''updated_at'' TyTimestamp False Now)]\<rparr>"

definition refund_entity :: entity where
  "refund_entity = \<lparr>e_table = ''refunds'', e_types =
    [(''refunds_status_enum'', [''pending'', ''processing'', ''succeeded'', ''failed'', ''canceled''])], e_columns =
    [ent ''id'' Generated (col ''id'' TyUuid False RandomUuid),
     ent ''paymentId'' Plain (col ''payment_id'' TyUuid False NoDefault),
     ent ''bookingId'' Plain (col ''booking_id'' TyInt False NoDefault),
     ent ''amount'' Plain (col ''amount'' TyInt False NoDefault),
     ent ''reason'' Plain (col ''reason'' TyText True NoDefault),
     ent ''idempotencyKey'' Plain (col ''idempotency_key'' (TyVarchar (Some 255)) True NoDefault),
     ent ''status'' Plain (col ''status'' (TyEnum ''refunds_status_enum'') False (Constant (CText ''pending''))),
     ent ''gatewayRefundId'' Plain (col ''gateway_refund_id'' (TyVarchar (Some 255)) True NoDefault),
     ent ''failureReason'' Plain (col ''failure_reason'' TyText True NoDefault),
     ent ''processedAt'' Plain (col ''processed_at'' TyTimestamp True NoDefault),
     ent ''metadata'' Plain (col ''metadata'' TyJsonb True NoDefault),
     ent ''createdAt'' Generated (col ''created_at'' TyTimestamp False Now),
     ent ''updatedAt'' Generated (col ''updated_at'' TyTimestamp False Now)]\<rparr>"

definition ledger_entry_entity :: entity where
  "ledger_entry_entity = \<lparr>e_table = ''ledger_entries'', e_types =
    [(''ledger_entries_entry_type_enum'', [''payment'', ''refund'']),
     (''ledger_entries_direction_enum'', [''debit'', ''credit''])], e_columns =
    [ent ''id'' Generated (col ''id'' TyUuid False RandomUuid),
     ent ''paymentId'' Plain (col ''payment_id'' TyUuid True NoDefault),
     ent ''refundId'' Plain (col ''refund_id'' TyUuid True NoDefault),
     ent ''bookingId'' Plain (col ''booking_id'' TyInt False NoDefault),
     ent ''accountCode'' Plain (col ''account_code'' (TyVarchar (Some 100)) False NoDefault),
     ent ''entryType'' Plain (col ''entry_type'' (TyEnum ''ledger_entries_entry_type_enum'') False NoDefault),
     ent ''direction'' Plain (col ''direction'' (TyEnum ''ledger_entries_direction_enum'') False NoDefault),
     ent ''amount'' Plain (col ''amount'' TyInt False NoDefault),
     ent ''currency'' Plain (col ''currency'' (TyVarchar (Some 3)) False NoDefault),
     ent ''referenceType'' Plain (col ''referenceType'' (TyVarchar (Some 100)) False NoDefault),
     ent ''referenceId'' Plain (col ''reference_id'' (TyVarchar (Some 255)) False NoDefault),
     ent ''description'' Plain (col ''description'' TyText True NoDefault),
     ent ''occurredAt'' Plain (col ''occurred_at'' TyTimestamp False NoDefault),
     ent ''metadata'' Plain (col ''metadata'' TyJsonb True NoDefault),
     ent ''createdAt'' Generated (col ''created_at'' TyTimestamp False Now)]\<rparr>"

definition webhook_event_entity :: entity where
  "webhook_event_entity = \<lparr>e_table = ''webhook_events'', e_types =
    [(''webhook_events_status_enum'', [''received'', ''processed'', ''failed''])], e_columns =
    [ent ''id'' Generated (col ''id'' TyUuid False RandomUuid),
     ent ''gateway'' Plain (col ''gateway'' (TyVarchar (Some 50)) False NoDefault),
     ent ''eventId'' Plain (col ''event_id'' (TyVarchar (Some 255)) False NoDefault),
     ent ''eventType'' Plain (col ''eventType'' (TyVarchar (Some 100)) False NoDefault),
     ent ''status'' Plain (col ''status'' (TyEnum ''webhook_events_status_enum'') False (Constant (CText ''received''))),
     ent ''paymentId'' Plain (col ''payment_id'' TyUuid True NoDefault),
     ent ''gatewayPaymentId'' Plain (col ''gateway_payment_id'' (TyVarchar (Some 255)) True NoDefault),
     ent ''payloadHash'' Plain (col ''payload_hash'' (TyVarchar (Some 128)) True NoDefault),
     ent ''payload'' Plain (col ''payload'' TyJsonb False NoDefault),
     ent ''lastError'' Plain (col ''last_error'' TyText True NoDefault),
     ent ''receivedAt'' Plain (col ''received_at'' TyTimestamp False Now),
     ent ''processedAt'' Plain (col ''processed_at'' TyTimestamp True NoDefault),
     ent ''createdAt'' Generated (col ''created_at'' TyTimestamp False Now),
     ent ''updatedAt'' Generated (col ''updated_at'' TyTimestamp False Now)]\<rparr>"

definition payment_audit_log_entity :: entity where
  "payment_audit_log_entity = \<lparr>e_table = ''payment_audit_log'', e_types =
    [(''payment_audit_log_action_enum'', [''intent_created'', ''idempotency_replayed'', ''payment_confirmation_requested'', ''payment_captured'', ''payment_failed'', ''refund_created'', ''refund_processed'', ''ledger_entry_created'', ''webhook_received'', ''webhook_processed'', ''webhook_deduped''])], e_columns =
    [ent ''id'' Generated (col ''id'' TyUuid False RandomUuid),
     ent ''entityType'' Plain (col ''entity_type'' (TyVarchar (Some 50)) False NoDefault),
     ent ''entityId'' Plain (col ''entity_id'' TyUuid False NoDefault),
     ent ''action'' Plain (col ''action'' (TyEnum ''payment_audit_log_action_enum'') False NoDefault),
     ent ''userId'' Plain (col ''user_id'' TyInt True NoDefault),
     ent ''ipAddress'' Plain (col ''ip_address'' TyInet True NoDefault),
     ent ''userAgent'' Plain (col ''user_agent'' TyText True NoDefault),
     ent ''changes'' Plain (col ''changes'' TyJsonb True NoDefault),
     ent ''createdAt'' Generated (col ''created_at'' TyTimestamp False Now)]\<rparr>"


subsection \<open>Saving and reading\<close>

text \<open>
  The INSERT of a new object: all columns of the entity; an undefined property is \<open>DEFAULT\<close>, an undefined
  version 1. \<open>None\<close> is undefined, \<open>Some CNull\<close> is null.
\<close>

type_synonym js_object = "string \<Rightarrow> cell option"

definition inserted_cell :: "js_object \<Rightarrow> entity_column \<Rightarrow> cell option" where
  "inserted_cell obj ec =
     (case obj (en_property ec) of
        Some v \<Rightarrow> Some v
      | None \<Rightarrow> if en_role ec = Version then Some (CInt 1) else None)"

definition save_entity :: "sql_env \<Rightarrow> entity \<Rightarrow> js_object \<Rightarrow> database \<Rightarrow> pg_error + database" where
  "save_entity env e obj db =
     insert_row env (e_table e) (map (\<lambda>ec. (col_name (en_column ec), inserted_cell obj ec)) (e_columns e)) (\<lambda>t. []) db"

text \<open>A query selects all columns of the entity.\<close>

definition find_rows :: "entity \<Rightarrow> (row \<Rightarrow> bool) \<Rightarrow> database \<Rightarrow> pg_error + row list" where
  "find_rows e P db = with_table db (e_table e) (\<lambda>t.
     case find (\<lambda>ec. col_name (en_column ec) \<notin> set (names t)) (e_columns e) of
       Some ec \<Rightarrow> Inl (UndefinedColumn (col_name (en_column ec)))
     | None \<Rightarrow> Inr (filter P (t_rows t)))"

subsection \<open>Does a table take what an entity declares?\<close>

text \<open>Every value the first type takes is taken by the second one.\<close>

fun type_fits :: "enum_types \<Rightarrow> enum_types \<Rightarrow> sql_type \<Rightarrow> sql_type \<Rightarrow> bool" where
  "type_fits etypes types (TyVarchar (Some m)) ty =
     (case ty of TyVarchar None \<Rightarrow> True | TyVarchar (Some n) \<Rightarrow> m \<le> n | TyText \<Rightarrow> True | _ \<Rightarrow> False)"
| "type_fits etypes types (TyEnum e) ty =
     (let labels = (case map_of etypes e of None \<Rightarrow> [] | Some ls \<Rightarrow> ls) in
      case ty of
        TyEnum d \<Rightarrow> (case map_of types d of None \<Rightarrow> labels = [] | Some ls \<Rightarrow> set labels \<subseteq> set ls)
      | TyVarchar (Some n) \<Rightarrow> list_all (\<lambda>l. length l \<le> n) labels
      | _ \<Rightarrow> False)"
| "type_fits etypes types ety ty = (ety = ty)"

text \<open>What a default produces is a value of the column.\<close>

definition default_fits :: "enum_types \<Rightarrow> column \<Rightarrow> bool" where
  "default_fits types c = (case col_default c of
     NoDefault \<Rightarrow> col_nullable c
   | Constant v \<Rightarrow> v \<noteq> CNull \<and> store_cell types (col_type c) v \<noteq> None
   | FromSequence \<Rightarrow> col_type c = TyInt
   | Now \<Rightarrow> col_type c \<in> {TyTimestamp, TyTimestampTz}
   | RandomUuid \<Rightarrow> col_type c = TyUuid)"

definition column_fits :: "enum_types \<Rightarrow> enum_types \<Rightarrow> entity_column \<Rightarrow> column \<Rightarrow> bool" where
  "column_fits etypes types ec c \<longleftrightarrow>
     (let d = en_column ec in
      type_fits etypes types (col_type d) (col_type c) \<and>
      (col_nullable d \<longrightarrow> col_nullable c) \<and>
      (col_nullable d \<or> col_default d \<noteq> NoDefault \<longrightarrow> default_fits types c))"

definition column_of :: "table \<Rightarrow> string \<Rightarrow> column option" where
  "column_of t n = find (\<lambda>c. col_name c = n) (t_columns t)"

definition entity_fits :: "database \<Rightarrow> entity \<Rightarrow> bool" where
  "entity_fits db e = (case map_of (db_tables db) (e_table e) of None \<Rightarrow> False | Some t \<Rightarrow>
     list_all (\<lambda>ec. case column_of t (col_name (en_column ec)) of
         None \<Rightarrow> False | Some c \<Rightarrow> column_fits (e_types e) (db_types db) ec c) (e_columns e) \<and>
     list_all (\<lambda>c. col_name c \<in> set (map (col_name \<circ> en_column) (e_columns e)) \<or> default_fits (db_types db) c)
       (t_columns t))"

text \<open>An object that follows the declarations of its entity.\<close>

definition value_typed :: "enum_types \<Rightarrow> entity_column \<Rightarrow> cell option \<Rightarrow> bool" where
  "value_typed etypes ec v \<longleftrightarrow>
     (let d = en_column ec in case v of
        None \<Rightarrow> col_nullable d \<or> col_default d \<noteq> NoDefault
      | Some w \<Rightarrow> store_cell etypes (col_type d) w \<noteq> None \<and> (col_nullable d \<or> w \<noteq> CNull))"

definition object_typed :: "entity \<Rightarrow> js_object \<Rightarrow> bool" where
  "object_typed e obj \<longleftrightarrow> list_all (\<lambda>ec. value_typed (e_types e) ec (inserted_cell obj ec)) (e_columns e)"

end
