(* ===== verification/SchemaProps.thy ===== *)
theory SchemaProps
  imports Entities SqlProps
begin

text \<open>
  What the migrations make of a database, and whether the entities of the services fit the tables: an entity
  that fits its table is never refused for a column, and which entities fit after the migrations.
\<close>

subsection \<open>The schema alone\<close>

text \<open>Tables with their columns and the labels of the types: all that the columns of a statement are checked against.\<close>

definition schema_of :: "database \<Rightarrow> enum_types \<times> (string \<times> column list) list" where
  "schema_of db = (db_types db, map (\<lambda>nt. (fst nt, t_columns (snd nt))) (db_tables db))"

lemma schema_lookup:
  "map_of (snd (schema_of db)) n = map_option t_columns (map_of (db_tables db) n)"
proof -
  have "map_of (map (\<lambda>nt. (fst nt, t_columns (snd nt))) xs) n = map_option t_columns (map_of xs n)"
    for xs :: "(string \<times> table) list"
    by (induction xs) auto
  then show ?thesis by (simp add: schema_of_def)
qed

lemma same_schema_table:
  assumes "schema_of db = schema_of db'" "map_of (db_tables db') n = Some t'"
  obtains t where "map_of (db_tables db) n = Some t" "t_columns t = t_columns t'" "db_types db = db_types db'"
proof -
  have "map_of (snd (schema_of db)) n = map_of (snd (schema_of db')) n" using assms(1) by simp
  then have "map_option t_columns (map_of (db_tables db) n) = Some (t_columns t')"
    unfolding schema_lookup using assms(2) by simp
  moreover have "db_types db = db_types db'" using assms(1) by (simp add: schema_of_def)
  ultimately show thesis using that by auto
qed

lemma entity_fits_schema:
  assumes "schema_of db = schema_of db'" "entity_fits db' e"
  shows "entity_fits db e"
proof -
  from assms(2) obtain t' where t': "map_of (db_tables db') (e_table e) = Some t'"
    by (auto simp: entity_fits_def split: option.splits)
  obtain t where t: "map_of (db_tables db) (e_table e) = Some t" "t_columns t = t_columns t'" "db_types db = db_types db'"
    by (rule same_schema_table [OF assms(1) t'])
  then have "column_of t = column_of t'" by (simp add: column_of_def fun_eq_iff)
  then show ?thesis using assms(2) t t' by (simp add: entity_fits_def cong: option.case_cong)
qed

subsection \<open>An entity that fits is stored\<close>

lemma store_value_longer:
  assumes "blanks (drop m s)" "m \<le> n"
  shows "blanks (drop n s)"
proof -
  have "drop n s = drop (n - m) (drop m s)" using assms(2) by simp
  then have "set (drop n s) \<subseteq> set (drop m s)" by (metis set_drop_subset)
  then show ?thesis using assms(1) by (auto simp: blanks_def list_all_iff)
qed

lemma type_fits_store:
  assumes "type_fits etypes types ety ty" "store_value etypes ety c \<noteq> None"
  shows "store_value types ty c \<noteq> None"
proof (cases ety)
  case (TyVarchar m)
  then show ?thesis
  proof (cases m)
    case None
    then have "ty = TyVarchar None" using assms(1) TyVarchar by simp
    then show ?thesis using assms(2) TyVarchar None by (cases c) simp_all
  next
    case (Some k)
    then obtain s where s: "c = CText s" "blanks (drop k s)"
      using assms(2) TyVarchar by (auto split: cell.splits if_splits)
    show ?thesis
    proof (cases ty)
      case (TyVarchar n)
      then show ?thesis using assms(1) \<open>ety = TyVarchar m\<close> Some s store_value_longer
        by (cases n) auto
    qed (use assms(1) \<open>ety = TyVarchar m\<close> Some s in simp_all)
  qed
next
  case (TyEnum e)
  then obtain s ls where s: "c = CText s" "map_of etypes e = Some ls" "s \<in> set ls"
    using assms(2) by (auto split: cell.splits option.splits if_splits)
  show ?thesis
  proof (cases ty)
    case (TyVarchar n)
    then show ?thesis using assms(1) \<open>ety = TyEnum e\<close> s
      by (cases n) (auto simp: list_all_iff Let_def)
  next
    case (TyEnum d)
    then show ?thesis using assms(1) \<open>ety = TyEnum e\<close> s by (auto simp: Let_def split: option.splits)
  qed (use assms(1) \<open>ety = TyEnum e\<close> s in \<open>simp_all add: Let_def\<close>)
qed (use assms in auto)

lemma type_fits_cell:
  "type_fits etypes types ety ty \<Longrightarrow> store_cell etypes ety c \<noteq> None \<Longrightarrow> store_cell types ty c \<noteq> None"
  using type_fits_store by (auto simp: store_cell_def split: if_splits)

definition serials_in_range :: "database \<Rightarrow> bool" where
  "serials_in_range db \<longleftrightarrow> list_all (\<lambda>nt. 0 \<le> t_next (snd nt) \<and> t_next (snd nt) \<le> 2147483647) (db_tables db)"

lemma default_fits_stored:
  assumes "default_fits types c" "0 \<le> t_next t" "t_next t \<le> 2147483647"
  shows "\<exists>v. store_cell types (col_type c) (default_cell env t c) = Some v \<and> (v = CNull \<longrightarrow> col_nullable c)"
proof (cases "col_default c")
  case (Constant w)
  then obtain v where v: "store_cell types (col_type c) w = Some v" "w \<noteq> CNull"
    using assms(1) by (auto simp: default_fits_def)
  then have "v \<noteq> CNull" by (auto simp: store_cell_def dest: store_value_not_null)
  then show ?thesis using v Constant by (auto simp: default_cell_def)
qed (use assms in \<open>auto simp: default_fits_def default_cell_def store_cell_def\<close>)

lemma store_cell_null: "store_cell types ty v = Some CNull \<Longrightarrow> v = CNull"
  by (auto simp: store_cell_def dest: store_value_not_null split: if_splits)

lemma store_row_total:
  "(\<And>c v. (c, v) \<in> set cvs \<Longrightarrow> store_cell types (col_type c) v \<noteq> None) \<Longrightarrow> \<exists>r. store_row types cvs = Inr r"
proof (induction cvs)
  case (Cons cv cvs)
  then obtain r where "store_row types cvs = Inr r" by fastforce
  moreover obtain w where "store_cell types (col_type (fst cv)) (snd cv) = Some w"
    using Cons.prems [of "fst cv" "snd cv"] by auto
  ultimately show ?case by (cases cv) simp
qed simp

text \<open>Every column of the table gets a value it takes.\<close>

lemma fitting_value:
  assumes fits: "entity_fits db e" and t: "map_of (db_tables db) (e_table e) = Some t" and dist: "distinct (names t)"
    and obj: "object_typed e obj" and rng: "0 \<le> t_next t" "t_next t \<le> 2147483647" and c: "c \<in> set (t_columns t)"
  defines "given \<equiv> map (\<lambda>ec. (col_name (en_column ec), inserted_cell obj ec)) (e_columns e)"
  shows "\<exists>v. store_cell (db_types db) (col_type c) (given_cell env t given c) = Some v \<and> (v = CNull \<longrightarrow> col_nullable c)"
proof (cases "map_of given (col_name c)")
  case None
  then have "col_name c \<notin> set (map (col_name \<circ> en_column) (e_columns e))"
    by (auto simp: given_def map_of_eq_None_iff image_image)
  then have "default_fits (db_types db) c" using fits t c by (auto simp: entity_fits_def list_all_iff)
  then show ?thesis using default_fits_stored [OF _ rng] None by (auto simp: given_cell_def)
next
  case (Some x)
  then obtain ec where ec: "ec \<in> set (e_columns e)" "col_name (en_column ec) = col_name c" "x = inserted_cell obj ec"
    by (auto simp: given_def dest!: map_of_SomeD)
  from fits t ec(1) obtain c' where c': "column_of t (col_name c) = Some c'"
    "column_fits (e_types e) (db_types db) ec c'"
    by (auto simp: entity_fits_def list_all_iff ec(2) split: option.splits)
  have "c' \<in> set (t_columns t)" "col_name c' = col_name c"
    using c'(1) by (auto simp: column_of_def find_Some_iff)
  then have "c' = c" using dist c by (auto simp: names_def distinct_map dest: inj_onD)
  then have cf: "column_fits (e_types e) (db_types db) ec c" using c'(2) by simp
  have typed: "value_typed (e_types e) ec (inserted_cell obj ec)" using obj ec(1) by (simp add: object_typed_def list_all_iff)
  show ?thesis
  proof (cases "inserted_cell obj ec")
    case None
    then have "default_fits (db_types db) c" using cf typed by (auto simp: column_fits_def value_typed_def Let_def)
    then show ?thesis using default_fits_stored [OF _ rng] Some ec(3) None by (auto simp: given_cell_def)
  next
    case (Some w)
    then have w: "store_cell (e_types e) (col_type (en_column ec)) w \<noteq> None"
      "col_nullable (en_column ec) \<or> w \<noteq> CNull" using typed by (simp_all add: value_typed_def Let_def)
    moreover have "type_fits (e_types e) (db_types db) (col_type (en_column ec)) (col_type c)"
      "col_nullable (en_column ec) \<longrightarrow> col_nullable c" using cf by (simp_all add: column_fits_def Let_def)
    ultimately obtain v where "store_cell (db_types db) (col_type c) w = Some v" "v = CNull \<Longrightarrow> col_nullable c"
      using type_fits_cell store_cell_null by blast
    then show ?thesis using \<open>map_of given (col_name c) = Some x\<close> ec(3) Some by (auto simp: given_cell_def)
  qed
qed

text \<open>What is left that can refuse an object: a check, a key or a reference.\<close>

lemma save_fitting:
  assumes ok: "database_ok db" and fits: "entity_fits db e" and obj: "object_typed e obj" and rng: "serials_in_range db"
    and err: "save_entity env e obj db = Inl er"
  shows "er \<in> {CheckViolation, UniqueViolation, ForeignKeyViolation}"
proof -
  define given where "given = map (\<lambda>ec. (col_name (en_column ec), inserted_cell obj ec)) (e_columns e)"
  from fits obtain t where t: "map_of (db_tables db) (e_table e) = Some t" by (auto simp: entity_fits_def split: option.splits)
  have tab: "table_ok db t" by (rule database_tableD [OF ok t])
  then have dist: "distinct (names t)" by (simp add: table_ok_def shape_ok_def)
  have next_t: "0 \<le> t_next t" "t_next t \<le> 2147483647"
    using rng t by (auto simp: serials_in_range_def list_all_iff dest!: map_of_SomeD)
  have "fst g \<in> set (names t)" if g: "g \<in> set given" for g
  proof -
    from g obtain ec where ec: "ec \<in> set (e_columns e)" "fst g = col_name (en_column ec)" by (auto simp: given_def)
    then have "column_of t (fst g) \<noteq> None" using fits t by (auto simp: entity_fits_def list_all_iff split: option.splits)
    then obtain c where "c \<in> set (t_columns t)" "col_name c = fst g" by (auto simp: column_of_def find_None_iff)
    then show ?thesis by (metis names_def imageI set_map)
  qed
  then have known: "find (\<lambda>g. fst g \<notin> set (names t)) given = None" by (auto simp: find_None_iff)
  have vals: "\<exists>v. store_cell (db_types db) (col_type c) (given_cell env t given c) = Some v \<and> (v = CNull \<longrightarrow> col_nullable c)"
    if "c \<in> set (t_columns t)" for c
    using fitting_value [OF fits t dist obj next_t that] unfolding given_def .
  let ?cvs = "map (\<lambda>c. (c, given_cell env t given c)) (t_columns t)"
  have "store_cell (db_types db) (col_type c) v \<noteq> None" if "(c, v) \<in> set ?cvs" for c v using vals that by fastforce
  then obtain r where r: "store_row (db_types db) ?cvs = Inr r" using store_row_total by blast
  have "distinct (map (col_name \<circ> fst) ?cvs)" using dist by (simp add: names_def comp_def)
  then have "store_cell (db_types db) (col_type c) (given_cell env t given c) = Some (cell_of r (col_name c))"
    if "c \<in> set (t_columns t)" for c
    using that by (intro store_row_cell [OF r]) auto
  with vals have "col_nullable c \<or> cell_of r (col_name c) \<noteq> CNull" if "c \<in> set (t_columns t)" for c using that by fastforce
  then have "missing_value t r = None" by (auto simp: missing_value_def find_None_iff)
  then show ?thesis using err t known r
    by (auto simp: save_entity_def insert_row_def with_table_def Let_def given_def [symmetric] split: if_splits)
qed

subsection \<open>The database after all migrations, and reverting them\<close>

definition migrated :: "sql_env \<Rightarrow> migration list \<Rightarrow> database" where
  "migrated env ms = (case migrate env ms fresh_database of Inl e \<Rightarrow> empty_database | Inr s \<Rightarrow> ms_database s)"

fun reverts :: "sql_env \<Rightarrow> migration list \<Rightarrow> nat \<Rightarrow> migration_state \<Rightarrow> pg_error + migration_state" where
  "reverts env ms 0 s = Inr s"
| "reverts env ms (Suc k) s = (case revert env ms s of Inl e \<Rightarrow> Inl e | Inr s' \<Rightarrow> reverts env ms k s')"

text \<open>All migrations, then \<open>migration:revert\<close> as often as given.\<close>

definition history :: "sql_env \<Rightarrow> migration list \<Rightarrow> nat \<Rightarrow> pg_error + migration_state" where
  "history env ms k = (case migrate env ms fresh_database of Inl e \<Rightarrow> Inl e | Inr s \<Rightarrow> reverts env ms k s)"

lemma run_append: "run env (xs @ ys) db = (case run env xs db of Inl e \<Rightarrow> Inl e | Inr db' \<Rightarrow> run env ys db')"
  by (induction xs arbitrary: db) (auto split: sum.splits)

lemma col_simps: "col_name (col n ty b d) = n" "col_type (col n ty b d) = ty" "col_nullable (col n ty b d) = b"
  "col_default (col n ty b d) = d"
  by (simp_all add: col_def)

text \<open>The state after all migrations.\<close>

definition all_migrated :: "migration list \<Rightarrow> database \<Rightarrow> migration_state" where
  "all_migrated ms d = \<lparr>ms_executed = map mig_name ms, ms_database = d\<rparr>"

lemma migrate_ok: "migrate env ms fresh_database = Inr s \<Longrightarrow> database_ok (ms_database s)"
  by (auto simp: migrate_def fresh_database_def split: sum.splits dest: run_ok [OF _ empty_database_ok])

end
