(* ===== verification/BookingSchema.thy ===== *)
theory BookingSchema
  imports SchemaProps
begin

text \<open>The database that the booking service's migrations make, and the rest of its history.\<close>

definition booking_end :: "sql_env \<Rightarrow> migration_state \<Rightarrow> bool" where
  "booking_end env s \<longleftrightarrow>
     s = all_migrated booking_migrations (ms_database s) \<and>
     map (entity_fits (ms_database s)) [saga_state_entity, outbox_event_entity] = [True, True] \<and>
     (case map_of (db_tables (ms_database s)) ''bookings'' of None \<Rightarrow> False | Some t \<Rightarrow>
        column_of t ''booking_reference'' = Some (col ''booking_reference'' (TyVarchar (Some 10)) False NoDefault)) \<and>
     (case reverts env booking_migrations 2 s of Inl e \<Rightarrow> False | Inr s' \<Rightarrow>
        ms_executed s' = map mig_name [create_booking_table, update_booking_table] \<and>
        (case revert env booking_migrations s' of Inl e \<Rightarrow> e = UndefinedType ''bookings'' | Inr s'' \<Rightarrow> False))"

lemma booking_story:
  "case migrate env booking_migrations fresh_database of Inl e \<Rightarrow> False | Inr s \<Rightarrow> booking_end env s"
  by code_simp

lemma booking_migrated:
  obtains s where "migrate env booking_migrations fresh_database = Inr s" "booking_end env s"
    "migrated env booking_migrations = ms_database s" "database_ok (ms_database s)"
  using booking_story [of env] migrate_ok [of env booking_migrations] by (auto simp: migrated_def split: sum.splits)

end
