(* ===== verification/PaymentSchema.thy ===== *)
theory PaymentSchema
  imports SchemaProps
begin

text \<open>The database that the payment service's migrations make, and the rest of its history.\<close>

definition payment_end :: "sql_env \<Rightarrow> migration_state \<Rightarrow> bool" where
  "payment_end env s \<longleftrightarrow>
     map (entity_fits (ms_database s)) [payment_entity, idempotency_key_entity, payment_audit_log_entity] =
       [True, True, True] \<and>
     (case map_of (db_tables (ms_database s)) ''refunds'' of None \<Rightarrow> False | Some t \<Rightarrow>
        column_of t ''payment_transaction_id'' = Some (col ''payment_transaction_id'' TyUuid False NoDefault)) \<and>
     find_rows ledger_entry_entity (\<lambda>r. True) (ms_database s) = Inl (UndefinedColumn ''referenceType'') \<and>
     find_rows webhook_event_entity (\<lambda>r. True) (ms_database s) = Inl (UndefinedColumn ''eventType'') \<and>
     reverts env payment_migrations 2 s = Inr fresh_database"

lemma payment_story:
  "case migrate env payment_migrations fresh_database of Inl e \<Rightarrow> False | Inr s \<Rightarrow> payment_end env s"
  by code_simp

lemma payment_migrated:
  obtains s where "migrate env payment_migrations fresh_database = Inr s" "payment_end env s"
    "migrated env payment_migrations = ms_database s" "database_ok (ms_database s)"
  using payment_story [of env] migrate_ok [of env payment_migrations] by (auto simp: migrated_def split: sum.splits)

end
