(* ===== verification/Seeds.thy ===== *)
theory Seeds
  imports SchemaProps
begin

text \<open>
  The seed migration of the flight service: what a multi-row INSERT stores when no row repeats a key, and the
  database the flight service's migrations leave behind.
\<close>

subsection \<open>A batch of rows\<close>

text \<open>
  The rows an INSERT builds, numbered from \<open>j\<close>, unless one of them is refused for a column, a check or a
  reference.
\<close>

fun planned_rows ::
  "sql_env \<Rightarrow> database \<Rightarrow> table \<Rightarrow> string list \<Rightarrow> int \<Rightarrow> expr list list \<Rightarrow> row list option" where
  "planned_rows env db t cs j [] = Some []"
| "planned_rows env db t cs j (es # ess) =
     (let given = zip cs (map (\<lambda>e. Some (eval_expr db e)) es) in
      if list_ex (\<lambda>g. fst g \<notin> set (names t)) given then None
      else case store_row (db_types db) (map (\<lambda>c. (c, given_cell env (t\<lparr>t_next := j\<rparr>) given c)) (t_columns t)) of
        Inl e \<Rightarrow> None
      | Inr r \<Rightarrow>
          if missing_value t r = None \<and> list_all (\<lambda>nr. check_holds (snd nr) r \<and> reference_holds db (snd nr) r) (t_rules t)
          then map_option ((#) r) (planned_rows env db t cs (j + 1) ess) else None)"

lemma clash_free:
  assumes "distinct (keys_of k (rows @ r # rs))"
  shows "\<not> clash r rows k"
  using assms by (auto simp: clash_def list_ex_iff keys_of_append [of k rows "r # rs"]
      keys_of_append [of k "[r]" rs, simplified])

lemma put_put: "put_table n t (put_table n u db) = put_table n t db"
  by (simp add: put_table_def case_prod_unfold comp_def)

lemma put_same:
  assumes "distinct (map fst (db_tables db))" "map_of (db_tables db) n = Some t"
  shows "put_table n t db = db"
proof -
  have "(case mu of (m, u) \<Rightarrow> (m, if m = n then t else u)) = mu" if mu: "mu \<in> set (db_tables db)" for mu
  proof (cases mu)
    case (Pair m u)
    with mu assms(1) have "map_of (db_tables db) m = Some u" by simp
    then show ?thesis using Pair assms(2) by auto
  qed
  then have "map (\<lambda>(m, u). (m, if m = n then t else u)) (db_tables db) = db_tables db" by (intro map_idI) auto
  then show ?thesis by (simp add: put_table_def)
qed

lemma reference_other_table:
  assumes "\<And>tc. tc \<in> set (rule_target ru) \<Longrightarrow> rows_of db (fst tc) = rows_of db' (fst tc)"
  shows "reference_holds db ru r = reference_holds db' ru r"
  using assms by (cases ru) (simp_all add: column_values_def)

lemma insert_rows_planned:
  assumes "distinct (map fst (db_tables db))" "map_of (db_tables db) n = Some t"
    and "planned_rows env db0 t0 cs (t_next t) ess = Some rs"
    and "t_columns t = t_columns t0" "t_rules t = t_rules t0" "db_types db = db_types db0"
    and "\<And>k. k \<in> set (unique_keys t) \<Longrightarrow> distinct (keys_of k (t_rows t @ rs))"
    and "\<And>m. m \<noteq> n \<Longrightarrow> rows_of db m = rows_of db0 m" and "\<And>tc. tc \<in> set (targets t) \<Longrightarrow> fst tc \<noteq> n"
  shows "insert_rows env db0 n cs target ess db =
    Inr (put_table n (t\<lparr>t_rows := t_rows t @ rs, t_next := t_next t + int (length ess)\<rparr>) db)"
  using assms
proof (induction ess arbitrary: db t rs)
  case Nil
  then show ?case by (simp add: put_same)
next
  case (Cons es ess)
  let ?given = "zip cs (map (\<lambda>e. Some (eval_expr db0 e)) es)"
  from Cons.prems(3) obtain r rs' where known: "\<not> list_ex (\<lambda>g. fst g \<notin> set (names t0)) ?given"
    and r: "store_row (db_types db0) (map (\<lambda>c. (c, given_cell env (t0\<lparr>t_next := t_next t\<rparr>) ?given c)) (t_columns t0)) = Inr r"
    and m: "missing_value t0 r = None"
    and ch: "list_all (\<lambda>nr. check_holds (snd nr) r \<and> reference_holds db0 (snd nr) r) (t_rules t0)"
    and rs': "planned_rows env db0 t0 cs (t_next t + 1) ess = Some rs'" "rs = r # rs'"
    by (auto simp: Let_def split: if_splits sum.splits)
  have nm: "names t = names t0" using Cons.prems(4) by (simp add: names_def)
  have gc: "given_cell env (t0\<lparr>t_next := t_next t\<rparr>) ?given c = given_cell env t ?given c" for c
  proof -
    have d: "default_cell env (t0\<lparr>t_next := t_next t\<rparr>) c = default_cell env t c"
      by (simp add: default_cell_def split: col_default.split)
    show ?thesis unfolding given_cell_def d ..
  qed
  have r': "store_row (db_types db) (map (\<lambda>c. (c, given_cell env t ?given c)) (t_columns t)) = Inr r"
    using r gc Cons.prems(4,6) by simp
  have m': "missing_value t r = None" using m Cons.prems(4) by (simp add: missing_value_def)
  have free: "\<not> clash r (t_rows t) k" if "k \<in> set (unique_keys t)" for k
    using Cons.prems(7) [OF that] rs'(2) by (intro clash_free [of k "t_rows t" r rs']) simp
  have sub: "set (conflict_keys t target) \<subseteq> set (unique_keys t)"
    by (auto simp: conflict_keys_def split: option.splits)
  let ?t = "t\<lparr>t_rows := t_rows t @ [r], t_next := t_next t + 1\<rparr>"
  have rows: "rows_of (put_table n ?t db) x = rows_of db0 x" if "x \<noteq> n" for x
    using that Cons.prems(2,8) by (simp add: rows_of_put)
  have "reference_holds (put_table n ?t db) (snd nr) r" if nr: "nr \<in> set (t_rules t)" for nr
  proof -
    have "reference_holds (put_table n ?t db) (snd nr) r = reference_holds db0 (snd nr) r"
      using Cons.prems(9) rule_target_targets [OF nr] rows by (intro reference_other_table) blast
    then show ?thesis using ch nr Cons.prems(5) by (simp add: list_all_iff)
  qed
  moreover have "list_all (\<lambda>nr. check_holds (snd nr) r) (t_rules t)"
    using ch Cons.prems(5) by (simp add: list_all_iff)
  moreover have "find (\<lambda>g. fst g \<notin> set (names t)) ?given = None"
    using known nm by (auto simp: find_None_iff list_ex_iff)
  ultimately have step: "insert_row env n ?given (\<lambda>t. conflict_keys t target) db = Inr (put_table n ?t db)"
    using Cons.prems(2) r' m' free sub
    by (auto simp: insert_row_def with_table_def Let_def list_all_iff list_ex_iff)
  have "insert_rows env db0 n cs target ess (put_table n ?t db) =
    Inr (put_table n (?t\<lparr>t_rows := t_rows ?t @ rs', t_next := t_next ?t + int (length ess)\<rparr>) (put_table n ?t db))"
  proof (rule Cons.IH)
    show "distinct (map fst (db_tables (put_table n ?t db)))" using Cons.prems(1) by simp
    show "map_of (db_tables (put_table n ?t db)) n = Some ?t" using Cons.prems(2) by (simp add: map_of_put)
    show "distinct (keys_of k (t_rows ?t @ rs'))" if "k \<in> set (unique_keys ?t)" for k
      using Cons.prems(7) [of k] that rs'(2) by (simp add: unique_keys_def)
    show "fst tc \<noteq> n" if "tc \<in> set (targets ?t)" for tc
      using Cons.prems(9) that by (simp add: targets_def)
  qed (use Cons.prems rs' rows in simp_all)
  then show ?case using step rs'(2) by (simp add: put_put algebra_simps)
qed

text \<open>The same with its conditions checked: an executable shortcut for one INSERT.\<close>

definition plant ::
  "sql_env \<Rightarrow> string \<Rightarrow> string list \<Rightarrow> expr list list \<Rightarrow> string list option \<Rightarrow> database \<Rightarrow> database option" where
  "plant env n cs ess target db = (case map_of (db_tables db) n of None \<Rightarrow> None | Some t \<Rightarrow>
     (case planned_rows env db t cs (t_next t) ess of None \<Rightarrow> None | Some rs \<Rightarrow>
        if list_all (\<lambda>k. distinct (keys_of k (t_rows t @ rs))) (unique_keys t) \<and>
           list_all (\<lambda>tc. fst tc \<noteq> n) (targets t) \<and> distinct (map fst (db_tables db)) \<and>
           (target = None \<or> conflict_keys t target \<noteq> [])
        then Some (put_table n (t\<lparr>t_rows := t_rows t @ rs, t_next := t_next t + int (length ess)\<rparr>) db)
        else None))"

lemma plant_insert:
  assumes "plant env n cs ess target db = Some db'"
  shows "exec env (InsertInto n cs ess target) db = Inr db'"
proof -
  from assms obtain t rs where t: "map_of (db_tables db) n = Some t"
    and rs: "planned_rows env db t cs (t_next t) ess = Some rs"
    and c: "list_all (\<lambda>k. distinct (keys_of k (t_rows t @ rs))) (unique_keys t)"
      "list_all (\<lambda>tc. fst tc \<noteq> n) (targets t)" "distinct (map fst (db_tables db))"
      "target = None \<or> conflict_keys t target \<noteq> []"
    and db': "db' = put_table n (t\<lparr>t_rows := t_rows t @ rs, t_next := t_next t + int (length ess)\<rparr>) db"
    by (auto simp: plant_def split: option.splits if_splits)
  have "insert_rows env db n cs target ess db = Inr db'"
    unfolding db' by (rule insert_rows_planned [OF c(3) t rs]) (use c in \<open>auto simp: list_all_iff\<close>)
  then show ?thesis using t c(4) by (simp add: exec.simps(12) with_table_def guard_def first_error_def)
qed

subsection \<open>The seats of the first airplane\<close>

text \<open>Row, letter and class of the seats, and their rows in the table.\<close>

definition seat_places :: "(int \<times> char \<times> string) list" where
  "seat_places = concat (map (\<lambda>(a, b, ty). concat (map (\<lambda>r. map (\<lambda>c. (r, c, ty)) ''ABCDEF'') [a..b]))
     [(1, 4, ''FIRST_CLASS''), (5, 7, ''BUSINESS''), (8, 35, ''ECONOMY'')])"

definition seat_exprs :: "int \<times> char \<times> string \<Rightarrow> expr list" where
  "seat_exprs p = [Lookup ''airplanes'' ''id'' ''registration_number'' (CText ''N12345''), Lit (CInt (fst p)),
     Lit (CText [fst (snd p)]), Lit (CText (snd (snd p)))]"

definition seat_row :: "sql_env \<Rightarrow> int \<Rightarrow> int \<times> char \<times> string \<Rightarrow> row" where
  "seat_row env j p = [(''id'', CInt j), (''airplane_id'', CInt 1), (''row'', CInt (fst p)), (''col'', CText [fst (snd p)]),
     (''type'', CText (snd (snd p))), (''created_at'', CTime (env_now env)), (''updated_at'', CTime (env_now env))]"

fun seat_rows :: "sql_env \<Rightarrow> int \<Rightarrow> (int \<times> char \<times> string) list \<Rightarrow> row list" where
  "seat_rows env j [] = []"
| "seat_rows env j (p # ps) = seat_row env j p # seat_rows env (j + 1) ps"

lemma seed_seats_places: "seed_seats = map seat_exprs seat_places"
  by (simp add: seed_seats_def seat_places_def seat_block_def map_concat seat_exprs_def comp_def)

lemma seat_places_product: "map (\<lambda>p. (fst p, fst (snd p))) seat_places = List.product [1..35] ''ABCDEF''"
  by code_simp

definition seat_types :: "string list" where
  "seat_types = [''ECONOMY'', ''BUSINESS'', ''FIRST_CLASS'', ''PREMIUM_ECONOMY'']"

definition place_ok :: "int \<times> char \<times> string \<Rightarrow> bool" where
  "place_ok p \<longleftrightarrow> 1 \<le> fst p \<and> fst p \<le> 35 \<and> snd (snd p) \<in> set seat_types"

lemma places_ok: "list_all place_ok seat_places"
  by code_simp

definition seats_table :: table where
  "seats_table = \<lparr>t_columns = [col ''id'' TyInt False FromSequence, col ''airplane_id'' TyInt False NoDefault,
       col ''row'' TyInt False NoDefault, col ''col'' (TyChar 1) False NoDefault,
       col ''type'' (TyEnum ''seat_type'') False (Constant (CText ''ECONOMY'')), col ''created_at'' TyTimestamp False Now,
       col ''updated_at'' TyTimestamp False Now],
     t_rules = [(''PK_seats'', PrimaryKey ''id''),
       (''uq_seats_airplane_row_col'', UniqueKey [''airplane_id'', ''row'', ''col'']),
       (''FK_airplane_seats'', ForeignKey ''airplane_id'' ''airplanes'' ''id'' Cascade)],
     t_indexes = [plain_index ''idx_seats_airplane_id'' [''airplane_id''],
       unique_index ''seats_airplane_row_col_unique'' [''airplane_id'', ''row'', ''col''],
       plain_index ''idx_seats_type'' [''type'']],
     t_rows = [], t_next = 1\<rparr>"

lemma planned_seats:
  assumes plane: "eval_expr db (Lookup ''airplanes'' ''id'' ''registration_number'' (CText ''N12345'')) = CInt 1"
    and types: "map_of (db_types db) ''seat_type'' = Some seat_types"
    and ref: "CInt 1 \<in> set (column_values db ''airplanes'' ''id'')"
  shows "list_all place_ok ps \<Longrightarrow> 1 \<le> j \<Longrightarrow> j + int (length ps) \<le> 1000 \<Longrightarrow>
    planned_rows env db seats_table [''airplane_id'', ''row'', ''col'', ''type''] j (map seat_exprs ps) =
      Some (seat_rows env j ps)"
proof (induction ps arbitrary: j)
  case (Cons p ps)
  have IH: "planned_rows env db seats_table [''airplane_id'', ''row'', ''col'', ''type''] (j + 1) (map seat_exprs ps) =
      Some (seat_rows env (j + 1) ps)"
    using Cons by simp
  have p: "1 \<le> fst p" "fst p \<le> 35" "snd (snd p) \<in> set seat_types" and j: "1 \<le> j" "j \<le> 1000"
    using Cons.prems by (simp_all add: place_ok_def)
  have row: "store_row (db_types db) (map (\<lambda>c. (c, given_cell env (seats_table\<lparr>t_next := j\<rparr>)
      (zip [''airplane_id'', ''row'', ''col'', ''type''] (map (\<lambda>e. Some (eval_expr db e)) (seat_exprs p))) c))
      (t_columns seats_table)) = Inr (seat_row env j p)"
    using p j types plane
    by (simp add: seats_table_def seat_exprs_def given_cell_def default_cell_def col_def store_cell_def seat_row_def)
  show ?case
    using IH row ref
    by (simp add: Let_def)
       (simp add: seats_table_def names_def col_def seat_exprs_def missing_value_def seat_row_def cell_of_def)
qed simp

lemma length_seat_rows [simp]: "length (seat_rows env j ps) = length ps"
  by (induction ps arbitrary: j) auto

lemma seat_ids: "map (key_of [''id'']) (seat_rows env j ps) = map (\<lambda>i. [CInt (j + int i)]) [0..<length ps]"
proof (induction ps arbitrary: j)
  case (Cons p ps)
  have "map (\<lambda>i. [CInt (j + int i)]) [0..<length (p # ps)] =
    [CInt j] # map (\<lambda>i. [CInt (j + 1 + int i)]) [0..<length ps]"
    unfolding list.size(4) upt_conv_Cons [OF zero_less_Suc] One_nat_def [symmetric] Suc_eq_plus1 [symmetric]
    by (simp add: map_Suc_upt [symmetric] upt_conv_Cons del: upt_Suc)
  then show ?case using Cons by (simp add: key_of_def seat_row_def cell_of_def)
qed simp

lemma seat_keys:
  "map (key_of [''airplane_id'', ''row'', ''col'']) (seat_rows env j ps) =
     map (\<lambda>p. [CInt 1, CInt (fst p), CText [fst (snd p)]]) ps"
  by (induction ps arbitrary: j) (auto simp: key_of_def seat_row_def cell_of_def)

lemma seat_rows_unique:
  assumes "k \<in> set (unique_keys seats_table)"
  shows "distinct (keys_of k (seat_rows env j seat_places))"
proof -
  have "distinct (map (\<lambda>i. [CInt (j + int i)]) [0..<length seat_places])"
    by (simp add: distinct_map inj_on_def)
  then have ids: "distinct (map (key_of [''id'']) (seat_rows env j seat_places))" by (simp only: seat_ids)
  have "distinct (map (\<lambda>p. (fst p, fst (snd p))) seat_places)"
    unfolding seat_places_product by (rule distinct_product) simp_all
  then have "distinct (map (\<lambda>x. [CInt (fst x), CText [snd x]]) (map (\<lambda>p. (fst p, fst (snd p))) seat_places))"
    unfolding distinct_map [of _ "map _ seat_places"] by (auto simp: inj_on_def)
  then have "distinct (map ((#) (CInt 1)) (map (\<lambda>x. [CInt (fst x), CText [snd x]]) (map (\<lambda>p. (fst p, fst (snd p))) seat_places)))"
    by (simp add: distinct_map inj_on_def)
  then have "distinct (map (\<lambda>p. [CInt 1, CInt (fst p), CText [fst (snd p)]]) seat_places)" by (simp add: comp_def)
  then have places: "distinct (map (key_of [''airplane_id'', ''row'', ''col'']) (seat_rows env j seat_places))"
    by (simp only: seat_keys)
  have "k \<in> {([''id''], None), ([''airplane_id'', ''row'', ''col''], None)}"
    using assms by (simp add: unique_keys_def seats_table_def index_keys_def plain_index_def unique_index_def)
  then show ?thesis using ids places by (auto simp: keys_of_def indexed_rows_def intro: distinct_filter)
qed

text \<open>The seats table once its rows are in.\<close>

definition filled_seats :: "sql_env \<Rightarrow> table" where
  "filled_seats env = seats_table\<lparr>t_rows := seat_rows env 1 seat_places, t_next := 211\<rparr>"

lemma plant_seats:
  assumes t: "map_of (db_tables db) ''seats'' = Some seats_table" and d: "distinct (map fst (db_tables db))"
    and plane: "eval_expr db (Lookup ''airplanes'' ''id'' ''registration_number'' (CText ''N12345'')) = CInt 1"
    and types: "map_of (db_types db) ''seat_type'' = Some seat_types"
    and ref: "CInt 1 \<in> set (column_values db ''airplanes'' ''id'')"
  shows "exec env (InsertInto ''seats'' [''airplane_id'', ''row'', ''col'', ''type''] seed_seats None) db =
    Inr (put_table ''seats'' (filled_seats env) db)"
proof (rule plant_insert)
  have len: "length seat_places = 210"
    using arg_cong [OF seat_places_product, of length] by (simp only: length_map) (simp add: length_product)
  have "planned_rows env db seats_table [''airplane_id'', ''row'', ''col'', ''type''] 1 (map seat_exprs seat_places) =
    Some (seat_rows env 1 seat_places)"
    using planned_seats [OF plane types ref places_ok, of 1 env] len by simp
  then have "planned_rows env db seats_table [''airplane_id'', ''row'', ''col'', ''type''] (t_next seats_table)
      (map seat_exprs seat_places) = Some (seat_rows env 1 seat_places)"
    by (simp add: seats_table_def)
  moreover have "t_rows seats_table = []" "t_next seats_table = 1"
    "list_all (\<lambda>tc. fst tc \<noteq> ''seats'') (targets seats_table)"
    by (simp_all add: seats_table_def targets_def)
  ultimately show "plant env ''seats'' [''airplane_id'', ''row'', ''col'', ''type''] seed_seats None db =
      Some (put_table ''seats'' (filled_seats env) db)"
    using t d seat_rows_unique len by (simp add: plant_def seed_seats_places filled_seats_def list_all_iff)
qed

subsection \<open>All migrations of the flight service\<close>

definition plant_statement :: "sql_env \<Rightarrow> statement \<Rightarrow> database \<Rightarrow> database option" where
  "plant_statement env s db = (case s of InsertInto n cs ess target \<Rightarrow> plant env n cs ess target db | _ \<Rightarrow> None)"

fun plants :: "sql_env \<Rightarrow> statement list \<Rightarrow> database \<Rightarrow> database option" where
  "plants env [] db = Some db"
| "plants env (s # ss) db = (case plant_statement env s db of None \<Rightarrow> None | Some db' \<Rightarrow> plants env ss db')"

lemma plants_run: "plants env ss db = Some db' \<Longrightarrow> run env ss db = Inr db'"
  by (induction ss arbitrary: db)
    (auto simp: plant_statement_def plant_insert split: option.splits statement.splits)

definition flight_tables_up :: "statement list" where
  "flight_tables_up = create_cities_up @ create_airports_up @ create_airplanes_up @ create_seats_up @ create_flights_up"

definition seeded_planes :: "sql_env \<Rightarrow> database option" where
  "seeded_planes env = (case run env flight_tables_up empty_database of Inl e \<Rightarrow> None
     | Inr d \<Rightarrow> plants env (take 3 seed_initial_data_up) d)"

definition flight_entities :: "entity list" where
  "flight_entities = [city_entity, airport_entity, airplane_entity, seat_entity, flight_entity, processed_event_entity]"

text \<open>What follows from the state before the seats, whatever the rows of the seats are.\<close>

definition flight_end :: "database \<Rightarrow> sql_env \<Rightarrow> bool" where
  "flight_end d env \<longleftrightarrow>
     map (entity_fits d) flight_entities = [True, False, True, True, True, True] \<and>
     (case find_rows airport_entity (\<lambda>r. True) d of Inl e \<Rightarrow> e = UndefinedColumn ''city_denormalized'' | Inr rs \<Rightarrow> False) \<and>
     (let s = \<lparr>ms_executed = map mig_name flight_migrations, ms_database = d\<rparr> in
       (case reverts env flight_migrations 6 s of Inl e \<Rightarrow> False
        | Inr s' \<Rightarrow> ms_executed s' = map mig_name (take 2 flight_migrations) \<and>
            (case revert env flight_migrations s' of
               Inl e \<Rightarrow> e = NotFoundByTypeorm ''airports_city_id'' | Inr s'' \<Rightarrow> False)))"

definition flight_rest :: "sql_env \<Rightarrow> row list \<Rightarrow> int \<Rightarrow> database \<Rightarrow> bool" where
  "flight_rest env rows j d \<longleftrightarrow>
     (case plants env (drop 4 seed_initial_data_up) (put_table ''seats'' (seats_table\<lparr>t_rows := rows, t_next := j\<rparr>) d) of
        None \<Rightarrow> False
      | Some d' \<Rightarrow> (case run env (update_flight_table_up @ [create_processed_events]) d' of
          Inl e \<Rightarrow> False
        | Inr d'' \<Rightarrow> flight_end d'' env))"

definition planes_facts :: "database \<Rightarrow> bool" where
  "planes_facts d \<longleftrightarrow>
     map_of (db_tables d) ''seats'' = Some seats_table \<and> distinct (map fst (db_tables d)) \<and>
     eval_expr d (Lookup ''airplanes'' ''id'' ''registration_number'' (CText ''N12345'')) = CInt 1 \<and>
     map_of (db_types d) ''seat_type'' = Some seat_types \<and> CInt 1 \<in> set (column_values d ''airplanes'' ''id'')"

lemma flight_story:
  "case seeded_planes env of None \<Rightarrow> False | Some d \<Rightarrow> planes_facts d \<and> flight_rest env rows j d"
  by code_simp

lemma flight_ups: "concat (map mig_up flight_migrations) =
  flight_tables_up @ take 3 seed_initial_data_up @
  [InsertInto ''seats'' [''airplane_id'', ''row'', ''col'', ''type''] seed_seats None] @
  drop 4 seed_initial_data_up @ update_flight_table_up @ [create_processed_events]"
  by (simp add: flight_migrations_def flight_tables_up_def seed_initial_data_up_def create_cities_table_def
      create_airports_table_def create_airplanes_table_def create_seats_table_def create_flights_table_def
      seed_initial_data_def update_flight_table_def add_processed_event_def)

lemma pending_all:
  "pending booking_migrations fresh_database = booking_migrations"
  "pending flight_migrations fresh_database = flight_migrations"
  "pending payment_migrations fresh_database = payment_migrations"
  by (simp_all add: pending_def fresh_database_def booking_migrations_def flight_migrations_def payment_migrations_def
      create_booking_table_def update_booking_table_def add_booking_indexes_def add_saga_and_outbox_def
      create_cities_table_def create_airports_table_def create_airplanes_table_def create_seats_table_def
      create_flights_table_def seed_initial_data_def update_flight_table_def add_processed_event_def
      initial_payment_schema_def upgrade_payment_domain_def)

lemma flight_migrated:
  obtains d where "migrate env flight_migrations fresh_database =
      Inr \<lparr>ms_executed = map mig_name flight_migrations, ms_database = d\<rparr>" "flight_end d env"
proof -
  obtain d where d: "seeded_planes env = Some d" "planes_facts d" "flight_rest env (seat_rows env 1 seat_places) 211 d"
    using flight_story [of env "seat_rows env 1 seat_places" 211] by (auto split: option.splits)
  then obtain d0 where d0: "run env flight_tables_up empty_database = Inr d0"
    "run env (take 3 seed_initial_data_up) d0 = Inr d"
    by (auto simp: seeded_planes_def plants_run split: sum.splits)
  have seats: "exec env (InsertInto ''seats'' [''airplane_id'', ''row'', ''col'', ''type''] seed_seats None) d =
    Inr (put_table ''seats'' (filled_seats env) d)"
    using d(2) unfolding planes_facts_def by (intro plant_seats) auto
  from d(3) obtain d1 d2 where
    "plants env (drop 4 seed_initial_data_up) (put_table ''seats'' (filled_seats env) d) = Some d1"
    and d2: "run env (update_flight_table_up @ [create_processed_events]) d1 = Inr d2" "flight_end d2 env"
    by (auto simp: flight_rest_def filled_seats_def split: option.splits sum.splits)
  then have d1: "run env (drop 4 seed_initial_data_up) (put_table ''seats'' (filled_seats env) d) = Inr d1"
    by (intro plants_run)
  have all: "run env (concat (map mig_up flight_migrations)) empty_database = Inr d2"
    unfolding flight_ups run_append d0 sum.case run.simps seats d1
    by (rule d2(1) [unfolded run_append run.simps])
  have "migrate env flight_migrations fresh_database =
      Inr \<lparr>ms_executed = map mig_name flight_migrations, ms_database = d2\<rparr>"
    unfolding migrate_def pending_all by (simp add: all fresh_database_def)
  then show thesis using that d2(2) by blast
qed

end
