(* ===== verification/MigrationProps.thy ===== *)
theory MigrationProps
  imports Seeds BookingSchema PaymentSchema
begin

text \<open>
  The databases that the migrations make, against what the services do with them: which entities are stored
  and which are refused, whatever rows there are, and how far the migrations can be reverted.
\<close>

subsection \<open>The three databases\<close>

lemma flights_migrated:
  obtains d where "migrate env flight_migrations fresh_database = Inr (all_migrated flight_migrations d)"
    "flight_end d env" "migrated env flight_migrations = d" "database_ok d"
proof -
  obtain d where d: "migrate env flight_migrations fresh_database =
      Inr \<lparr>ms_executed = map mig_name flight_migrations, ms_database = d\<rparr>" "flight_end d env"
    by (rule flight_migrated)
  from migrate_ok [OF d(1)] have "database_ok d" by simp
  then show thesis using that d by (simp add: migrated_def all_migrated_def)
qed

subsection \<open>Refused whatever the rows are\<close>

lemma unknown_column:
  assumes "find_rows e (\<lambda>r. True) d = Inl (UndefinedColumn c)" and s: "schema_of db = schema_of d"
  shows "find_rows e P db = Inl (UndefinedColumn c)" "save_entity env e obj db = Inl (UndefinedColumn c)"
proof -
  from assms(1) obtain t' ec where t': "map_of (db_tables d) (e_table e) = Some t'"
    and ec: "find (\<lambda>ec. col_name (en_column ec) \<notin> set (names t')) (e_columns e) = Some ec" "c = col_name (en_column ec)"
    by (auto simp: find_rows_def with_table_def split: option.splits)
  obtain t where t: "map_of (db_tables db) (e_table e) = Some t" "t_columns t = t_columns t'"
    by (rule same_schema_table [OF s t'])
  then have nm: "names t = names t'" by (simp add: names_def)
  show "find_rows e P db = Inl (UndefinedColumn c)" using t nm ec by (simp add: find_rows_def with_table_def)
  have "find (\<lambda>g. fst g \<notin> set (names t)) (map (\<lambda>ec. (col_name (en_column ec), inserted_cell obj ec)) xs) =
      map_option (\<lambda>ec. (col_name (en_column ec), inserted_cell obj ec))
        (find (\<lambda>ec. col_name (en_column ec) \<notin> set (names t')) xs)" for xs
    by (induction xs) (simp_all add: nm)
  then show "save_entity env e obj db = Inl (UndefinedColumn c)"
    using t ec by (simp add: save_entity_def insert_row_def with_table_def)
qed

text \<open>What a stored object says about each column of the table.\<close>

lemma saved_value:
  assumes "save_entity env e obj db = Inr db'" "map_of (db_tables db) (e_table e) = Some t" "distinct (names t)"
    "c \<in> set (t_columns t)"
  shows "\<exists>v. store_cell (db_types db) (col_type c)
    (given_cell env t (map (\<lambda>ec. (col_name (en_column ec), inserted_cell obj ec)) (e_columns e)) c) = Some v \<and>
    (col_nullable c \<or> v \<noteq> CNull)"
proof -
  let ?given = "map (\<lambda>ec. (col_name (en_column ec), inserted_cell obj ec)) (e_columns e)"
  from assms(1,2) obtain r where r: "store_row (db_types db) (map (\<lambda>c. (c, given_cell env t ?given c)) (t_columns t)) = Inr r"
    and m: "missing_value t r = None"
    by (auto simp: save_entity_def insert_row_def with_table_def split: option.splits sum.splits)
  have "store_cell (db_types db) (col_type c) (given_cell env t ?given c) = Some (cell_of r (col_name c))"
    using assms(3,4) by (intro store_row_cell [OF r]) (auto simp: names_def comp_def)
  moreover have "col_nullable c \<or> cell_of r (col_name c) \<noteq> CNull"
    using find_names [OF m [unfolded missing_value_def] assms(4)] by blast
  ultimately show ?thesis by blast
qed

lemma column_of_in: "column_of t n = Some c \<Longrightarrow> c \<in> set (t_columns t) \<and> col_name c = n"
  by (auto simp: column_of_def find_Some_iff)

lemma schema_column:
  assumes "schema_of db = schema_of d" "database_ok d" "map_of (db_tables d) n = Some t'" "column_of t' m = Some c"
  obtains t where "map_of (db_tables db) n = Some t" "distinct (names t)" "c \<in> set (t_columns t)" "col_name c = m"
proof -
  obtain t where t: "map_of (db_tables db) n = Some t" "t_columns t = t_columns t'"
    by (rule same_schema_table [OF assms(1,3)])
  moreover have "distinct (names t')" using database_tableD [OF assms(2,3)] by (simp add: table_ok_def shape_ok_def)
  ultimately show thesis using that column_of_in [OF assms(4)] by (simp add: names_def)
qed

lemma refund_refused:
  assumes "schema_of db = schema_of (migrated env payment_migrations)"
  shows "save_entity env' refund_entity obj db \<noteq> Inr db'"
proof
  assume saved: "save_entity env' refund_entity obj db = Inr db'"
  obtain s where s: "payment_end env s" "migrated env payment_migrations = ms_database s" "database_ok (ms_database s)"
    by (rule payment_migrated)
  from s(1) obtain t' where t': "map_of (db_tables (ms_database s)) ''refunds'' = Some t'"
    "column_of t' ''payment_transaction_id'' = Some (col ''payment_transaction_id'' TyUuid False NoDefault)"
    by (auto simp: payment_end_def split: option.splits)
  obtain t where t: "map_of (db_tables db) ''refunds'' = Some t" "distinct (names t)"
    "col ''payment_transaction_id'' TyUuid False NoDefault \<in> set (t_columns t)"
    using schema_column [OF assms [unfolded s(2)] s(3) t'] .
  have "map_of (map (\<lambda>ec. (col_name (en_column ec), inserted_cell obj ec)) (e_columns refund_entity))
    ''payment_transaction_id'' = None"
    by (simp add: refund_entity_def ent_def col_def)
  then show False
    using saved_value [OF saved _ t(2,3)] t(1)
    by (simp add: refund_entity_def given_cell_def default_cell_def col_def store_cell_def)
qed

lemma map_of_values: "map_of (map (\<lambda>x. (k x, f x)) xs) i = map_option f (map_of (map (\<lambda>x. (k x, x)) xs) i)"
  by (induction xs) auto

lemma long_reference_refused:
  assumes "schema_of db = schema_of (migrated env booking_migrations)"
    and obj: "obj ''bookingReference'' = Some (CText ref)" "10 < length ref" "CHR '' '' \<notin> set ref"
  shows "save_entity env' booking_entity obj db \<noteq> Inr db'"
proof
  assume saved: "save_entity env' booking_entity obj db = Inr db'"
  obtain s where s: "booking_end env s" "migrated env booking_migrations = ms_database s" "database_ok (ms_database s)"
    by (rule booking_migrated)
  from s(1) obtain t' where t': "map_of (db_tables (ms_database s)) ''bookings'' = Some t'"
    "column_of t' ''booking_reference'' = Some (col ''booking_reference'' (TyVarchar (Some 10)) False NoDefault)"
    by (auto simp: booking_end_def split: option.splits)
  obtain t where t: "map_of (db_tables db) ''bookings'' = Some t" "distinct (names t)"
    "col ''booking_reference'' (TyVarchar (Some 10)) False NoDefault \<in> set (t_columns t)"
    using schema_column [OF assms(1) [unfolded s(2)] s(3) t'] .
  have "map_of (map (\<lambda>ec. (col_name (en_column ec), ec)) (e_columns booking_entity)) ''booking_reference'' =
      Some (ent ''bookingReference'' Plain (col ''booking_reference'' (TyVarchar (Some 36)) False NoDefault))"
    by code_simp
  then have "map_of (map (\<lambda>ec. (col_name (en_column ec), inserted_cell obj ec)) (e_columns booking_entity))
    ''booking_reference'' =
      Some (inserted_cell obj (ent ''bookingReference'' Plain (col ''booking_reference'' (TyVarchar (Some 36)) False NoDefault)))"
    using map_of_values [of "\<lambda>ec. col_name (en_column ec)" "inserted_cell obj"] by simp
  moreover have "inserted_cell obj (ent ''bookingReference'' Plain (col ''booking_reference'' (TyVarchar (Some 36)) False NoDefault)) =
      Some (CText ref)"
    using obj(1) by (simp add: inserted_cell_def ent_def)
  moreover have table: "e_table booking_entity = ''bookings''" by (simp add: booking_entity_def)
  moreover have "\<not> blanks (drop 10 ref)"
  proof -
    have "drop 10 ref \<noteq> []" using obj(2) by simp
    then have h: "hd (drop 10 ref) \<in> set (drop 10 ref)" by (rule hd_in_set)
    then have "hd (drop 10 ref) \<in> set ref" by (rule in_set_dropD)
    then have "hd (drop 10 ref) \<noteq> CHR '' ''" using obj(3) by metis
    with h show ?thesis by (auto simp: blanks_def list_all_iff)
  qed
  ultimately show False
    using saved_value [OF saved _ t(2,3)] t(1) table
    by (simp add: given_cell_def store_cell_def col_simps del: map_map)
qed

subsection \<open>Properties\<close>

text \<open>The entities that fit the tables their service's migrations make.\<close>

definition stored_entities :: "(migration list \<times> entity) list" where
  "stored_entities =
     [(booking_migrations, saga_state_entity), (booking_migrations, outbox_event_entity),
      (flight_migrations, city_entity), (flight_migrations, airplane_entity), (flight_migrations, seat_entity),
      (flight_migrations, flight_entity), (flight_migrations, processed_event_entity),
      (payment_migrations, payment_entity), (payment_migrations, idempotency_key_entity),
      (payment_migrations, payment_audit_log_entity)]"

lemma stored_entities_fit:
  assumes "(ms, e) \<in> set stored_entities"
  shows "entity_fits (migrated env ms) e"
proof -
  obtain b where b: "migrated env booking_migrations = ms_database b" "booking_end env b"
    by (rule booking_migrated)
  obtain p where p: "migrated env payment_migrations = ms_database p" "payment_end env p"
    by (rule payment_migrated)
  obtain f where f: "migrated env flight_migrations = f" "flight_end f env" by (rule flights_migrated)
  show ?thesis using assms b p f
    by (auto simp: stored_entities_def booking_end_def payment_end_def flight_end_def flight_entities_def)
qed

text \<open>C38. After all migrations, whatever rows the tables have got, ten of the services' fifteen entities are
  stored as they are declared: an object whose properties follow the entity's column types, lengths, labels
  and nullability is refused for no column; only a check, a repeated key or a missing reference can refuse it.\<close>

theorem migrated_entities_stored:
  assumes "(ms, e) \<in> set stored_entities" and "schema_of db = schema_of (migrated env ms)" and "database_ok db"
    and "serials_in_range db" and "object_typed e obj" and "save_entity env' e obj db = Inl er"
  shows "er \<in> {CheckViolation, UniqueViolation, ForeignKeyViolation}"
proof -
  have "entity_fits db e" by (rule entity_fits_schema [OF assms(2) stored_entities_fit [OF assms(1)]])
  then show ?thesis using assms(3-6) by (intro save_fitting)
qed

definition demo_env :: sql_env where
  "demo_env = \<lparr>env_now = 1000, env_uuid = (\<lambda>i. ''3f333df6-90a4-4fda-8dd3-9485d27cee36'')\<rparr>"

definition demo_event :: js_object where
  "demo_event = map_of [(''eventId'', CText ''e1''), (''aggregateType'', CText ''Booking''), (''aggregateId'', CText ''b1''),
     (''eventType'', CText ''booking.created''), (''payload'', CJson ''{}''), (''status'', CText ''PENDING'')]"

definition saved_events :: "database \<Rightarrow> database" where
  "saved_events db = (case save_entity demo_env outbox_event_entity demo_event db of Inl e \<Rightarrow> empty_database | Inr db' \<Rightarrow> db')"

definition demo_events_db :: database where
  "demo_events_db = saved_events (migrated demo_env booking_migrations)"

definition saved_twice :: "database \<Rightarrow> database \<Rightarrow> bool" where
  "saved_twice db db' \<longleftrightarrow> schema_of db' = schema_of db \<and> serials_in_range db' \<and>
     save_entity demo_env outbox_event_entity demo_event db' = Inl UniqueViolation"

lemma event_saved_twice:
  "case migrate demo_env booking_migrations fresh_database of Inl e \<Rightarrow> False
     | Inr s \<Rightarrow> saved_twice (ms_database s) (saved_events (ms_database s))"
  by code_simp
lemma migrated_entities_stored_witness:
  "\<exists>er. save_entity demo_env outbox_event_entity demo_event demo_events_db = Inl er \<and>
     er \<in> {CheckViolation, UniqueViolation, ForeignKeyViolation}"
proof -
  obtain s where m: "migrate demo_env booking_migrations fresh_database = Inr s" "booking_end demo_env s"
    and s: "migrated demo_env booking_migrations = ms_database s" "database_ok (ms_database s)"
    by (rule booking_migrated)
  have "database_ok demo_events_db"
    using s by (auto simp: demo_events_db_def saved_events_def save_entity_def empty_database_ok intro: insert_row_ok
        split: sum.splits)
  moreover have "saved_twice (migrated demo_env booking_migrations) demo_events_db"
    using event_saved_twice m unfolding demo_events_db_def s(1) by simp
  moreover from this have "schema_of demo_events_db = schema_of (migrated demo_env booking_migrations)"
    "serials_in_range demo_events_db" "save_entity demo_env outbox_event_entity demo_event demo_events_db = Inl UniqueViolation"
    by (simp_all add: saved_twice_def)
  moreover have "object_typed outbox_event_entity demo_event" by code_simp
  moreover have "(booking_migrations, outbox_event_entity) \<in> set stored_entities" by (simp add: stored_entities_def)
  ultimately show ?thesis using migrated_entities_stored by blast
qed

text \<open>C39. After all migrations, whatever rows the tables have got, five entities cannot be used: a booking with a
  reference of 36 characters, which is what the saga gives every booking, is not stored, because the column takes
  ten; no refund is stored, because its table still demands the transaction it no longer has; ledger entries and
  webhook events are refused for columns that are called otherwise; and airports cannot even be read. So where
  the tables come from the migrations and not from the entities, no booking is made, no payment is confirmed with
  its ledger entries and no webhook is recorded.\<close>

theorem migrated_entities_refused:
  assumes "schema_of b = schema_of (migrated env booking_migrations)"
    and "schema_of f = schema_of (migrated env flight_migrations)"
    and "schema_of p = schema_of (migrated env payment_migrations)"
    and "obj ''bookingReference'' = Some (CText ref)" and "length ref = 36" and "CHR '' '' \<notin> set ref"
  shows "save_entity env' booking_entity obj b \<noteq> Inr db \<and>
    save_entity env' refund_entity obj p \<noteq> Inr db \<and>
    save_entity env' ledger_entry_entity obj p = Inl (UndefinedColumn ''referenceType'') \<and>
    save_entity env' webhook_event_entity obj p = Inl (UndefinedColumn ''eventType'') \<and>
    find_rows webhook_event_entity P p = Inl (UndefinedColumn ''eventType'') \<and>
    find_rows airport_entity P f = Inl (UndefinedColumn ''city_denormalized'')"
proof -
  obtain s where s: "payment_end env s" "migrated env payment_migrations = ms_database s" by (rule payment_migrated)
  obtain d where d: "flight_end d env" "migrated env flight_migrations = d" by (rule flights_migrated)
  have a: "find_rows airport_entity (\<lambda>r. True) d = Inl (UndefinedColumn ''city_denormalized'')"
    using d(1) by (auto simp: flight_end_def split: sum.splits)
  have u: "find_rows ledger_entry_entity (\<lambda>r. True) (ms_database s) = Inl (UndefinedColumn ''referenceType'')"
    "find_rows webhook_event_entity (\<lambda>r. True) (ms_database s) = Inl (UndefinedColumn ''eventType'')"
    using s(1) by (simp_all add: payment_end_def)
  have p: "schema_of p = schema_of (ms_database s)" and f: "schema_of f = schema_of d" using assms(2,3) s(2) d(2) by simp_all
  have "10 < length ref" using assms(5) by simp
  then have "save_entity env' booking_entity obj b \<noteq> Inr db" using long_reference_refused assms(1,4,6) by metis
  then show ?thesis
    using refund_refused [OF assms(3)] unknown_column [OF u(1) p] unknown_column [OF u(2) p] unknown_column [OF a f]
    by blast
qed

definition demo_booking_object :: js_object where
  "demo_booking_object = map_of [(''bookingReference'', CText ''6ba7b810-9dad-11d1-80b4-00c04fd430c8'')]"

lemma migrated_entities_refused_witness:
  "find_rows airport_entity (\<lambda>r. True) (migrated demo_env flight_migrations) = Inl (UndefinedColumn ''city_denormalized'') \<and>
   save_entity demo_env booking_entity demo_booking_object (migrated demo_env booking_migrations) \<noteq> Inr empty_database"
proof -
  have "demo_booking_object ''bookingReference'' = Some (CText ''6ba7b810-9dad-11d1-80b4-00c04fd430c8'')"
    by (simp add: demo_booking_object_def)
  moreover have "length ''6ba7b810-9dad-11d1-80b4-00c04fd430c8'' = 36"
    "CHR '' '' \<notin> set ''6ba7b810-9dad-11d1-80b4-00c04fd430c8''" by simp_all
  ultimately show ?thesis using migrated_entities_refused [OF refl refl refl] by blast
qed

lemma reverts_Suc: "reverts env ms (Suc k) s = (case reverts env ms k s of Inl e \<Rightarrow> Inl e | Inr s' \<Rightarrow> revert env ms s')"
proof (induction k arbitrary: s)
  case 0
  then show ?case by (simp split: sum.split)
next
  case (Suc k)
  show ?case
  proof (cases "revert env ms s")
    case (Inr s')
    then show ?thesis using Suc [of s'] by simp
  qed simp
qed

text \<open>C40. How far the migrations can be reverted. The payment service's two are undone without a trace: the fresh
  database is back. The booking service's reversal stops at the second migration, whose indexes name an enum type
  that no migration makes, and the flight service's, all seeds and tables above them gone, at the airports, whose
  \<open>down\<close> drops a foreign key by a name no migration gave it; the tables below stay.\<close>

theorem migrations_revert:
  "history env payment_migrations 2 = Inr fresh_database \<and>
   map_sum id ms_executed (history env booking_migrations 2) =
     Inr [''CreateBookingTable1738342079000'', ''UpdateBookingTable1769880717238''] \<and>
   history env booking_migrations 3 = Inl (UndefinedType ''bookings'') \<and>
   map_sum id ms_executed (history env flight_migrations 6) =
     Inr [''CreateCitiesTable1769390108705'', ''CreateAirportsTable1769447107324''] \<and>
   history env flight_migrations 7 = Inl (NotFoundByTypeorm ''airports_city_id'')"
proof -
  obtain b where b: "migrate env booking_migrations fresh_database = Inr b" "booking_end env b" by (rule booking_migrated)
  obtain p where p: "migrate env payment_migrations fresh_database = Inr p" "payment_end env p" by (rule payment_migrated)
  obtain d where d: "migrate env flight_migrations fresh_database = Inr (all_migrated flight_migrations d)"
    "flight_end d env" by (rule flights_migrated)
  have 3: "reverts env ms 3 s = (case reverts env ms 2 s of Inl e \<Rightarrow> Inl e | Inr s' \<Rightarrow> revert env ms s')" for ms s
    using reverts_Suc [of env ms 2] by (simp add: eval_nat_numeral)
  have 7: "reverts env ms 7 s = (case reverts env ms 6 s of Inl e \<Rightarrow> Inl e | Inr s' \<Rightarrow> revert env ms s')" for ms s
    using reverts_Suc [of env ms 6] by (simp add: eval_nat_numeral)
  have "history env payment_migrations 2 = Inr fresh_database"
    using p unfolding history_def by (simp add: payment_end_def)
  moreover have "map_sum id ms_executed (history env booking_migrations 2) =
      Inr [''CreateBookingTable1738342079000'', ''UpdateBookingTable1769880717238'']"
    "history env booking_migrations 3 = Inl (UndefinedType ''bookings'')"
    using b unfolding history_def 3 booking_end_def
    by (auto simp: create_booking_table_def update_booking_table_def split: sum.splits)
  moreover have "map_sum id ms_executed (history env flight_migrations 6) =
      Inr [''CreateCitiesTable1769390108705'', ''CreateAirportsTable1769447107324'']"
    "history env flight_migrations 7 = Inl (NotFoundByTypeorm ''airports_city_id'')"
    using d unfolding history_def 7 flight_end_def all_migrated_def
    by (auto simp: Let_def flight_migrations_def create_cities_table_def create_airports_table_def split: sum.splits)
  ultimately show ?thesis by blast
qed

end
