(* ===== verification/DataMigration.thy ===== *)
theory DataMigration
  imports SchemaProps
begin

text \<open>
  What the two migrations that change existing tables do to the rows that are there: the booking service's
  UpdateBookingTable and the payment service's UpgradePaymentDomain, on any database on which they succeed.
\<close>

subsection \<open>Rows under a statement\<close>

lemma drop_index_rows: "exec env (DropIndex b i) db = Inr db' \<Longrightarrow> rows_of db' n = rows_of db n"
  by (auto simp: exec.simps rows_of_def map_of_update drop_index_def option.map_comp comp_def split: if_splits option.split)

lemma drop_indexes_rows: "run env (map (DropIndex b) is) db = Inr db' \<Longrightarrow> rows_of db' n = rows_of db n"
proof (induction "is" arbitrary: db)
  case (Cons i "is")
  then obtain db1 where "exec env (DropIndex b i) db = Inr db1" "run env (map (DropIndex b) is) db1 = Inr db'"
    by (auto split: sum.splits)
  then show ?case using Cons.IH [of db1] drop_index_rows [of env b i db db1 n] by simp
qed simp

text \<open>Dropping a column and adding it again keeps the rows and empties the column.\<close>

lemma readded_column:
  assumes "run env [DropColumn False n c, AddColumn False n (col c ty True NoDefault)] db = Inr db'"
  shows "rows_of db' n = map (\<lambda>r. filter (\<lambda>cv. fst cv \<noteq> c) r @ [(c, CNull)]) (rows_of db n)"
proof -
  from assms obtain t db1 where t: "map_of (db_tables db) n = Some t" "db1 = put_table n (drop_column c t) db"
    and add: "exec env (AddColumn False n (col c ty True NoDefault)) db1 = Inr db'"
    by (auto simp: exec.simps(11) with_table_Inr guard_Inr split: sum.splits if_splits)
  from t have t1: "map_of (db_tables db1) n = Some (drop_column c t)" by (simp add: map_of_put)
  then have "db' = put_table n (add_column (col c ty True NoDefault) CNull (drop_column c t)) db1"
    using add by (auto simp: exec.simps(10) with_table_Inr guard_Inr col_simps default_cell_def store_cell_def split: if_splits)
  then show ?thesis
    using t t1 by (simp add: rows_of_def map_of_put add_column_def drop_column_def col_simps comp_def)
qed

text \<open>Nothing but an INSERT into a table makes its first row.\<close>

lemma insert_row_other:
  assumes "insert_row env m given passed db = Inr db'" "m \<noteq> n"
  shows "rows_of db' n = rows_of db n"
  using assms by (auto simp: insert_row_def with_table_Inr Let_def rows_of_def map_of_put split: option.splits sum.splits if_splits)

lemma insert_rows_other:
  assumes "insert_rows env db0 m cs target ess db = Inr db'" "m \<noteq> n"
  shows "rows_of db' n = rows_of db n"
  using assms
proof (induction ess arbitrary: db)
  case (Cons es ess)
  then show ?case by (auto simp: insert_row_other split: sum.splits)
qed simp

fun inserts_into :: "string \<Rightarrow> statement \<Rightarrow> bool" where
  "inserts_into n (InsertInto m cs ess target) \<longleftrightarrow> m = n"
| "inserts_into n _ \<longleftrightarrow> False"


lemma drop_column_rows: "rows_of db n = [] \<Longrightarrow> map_of (db_tables db) m = Some t \<Longrightarrow> rows_of (put_table m (drop_column c t) db) n = []"
  by (auto simp: rows_of_def map_of_put drop_column_def)

lemma exec_no_first_row:
  assumes "exec env s db = Inr db'" "rows_of db n = []" "\<not> inserts_into n s"
  shows "rows_of db' n = []"
proof (cases s)
  case (CreateTable m cols rules)
  then show ?thesis using assms
    by (auto simp: exec.simps(3) Let_def guard_Inr rows_of_def map_add_def split: if_splits option.splits)
next
  case (DropTable b m)
  have "map_of (filter (\<lambda>mu. fst mu \<noteq> m) xs) n = (if n = m then None else map_of xs n)" for xs :: "(string \<times> table) list"
    by (induction xs) auto
  then show ?thesis using assms DropTable by (auto simp: exec.simps(4) guard_Inr rows_of_def split: if_splits)
next
  case (DropIndex b i)
  then show ?thesis using assms drop_index_rows by simp
next
  case (InsertInto m cs ess target)
  then show ?thesis using assms by (auto simp: exec.simps(12) with_table_Inr guard_Inr dest: insert_rows_other)
next
  case (UpdateFrom m c u sc k sk)
  then show ?thesis using assms
    by (auto simp: exec.simps(14) with_table_Inr guard_Inr Let_def rows_of_def map_of_put split: if_splits)
qed (use assms in \<open>auto simp: exec.simps with_table_Inr guard_Inr rows_of_def map_of_put drop_column_def add_column_def
      drop_index_def split: if_splits option.splits\<close>)

lemma run_no_first_row:
  assumes "run env ss db = Inr db'" "rows_of db n = []" "list_all (\<lambda>s. \<not> inserts_into n s) ss"
  shows "rows_of db' n = []"
  using assms
proof (induction ss arbitrary: db)
  case (Cons s ss)
  then show ?case by (auto split: sum.splits dest: exec_no_first_row)
qed simp


text \<open>A statement about another table leaves the rows of this one alone.\<close>

fun writes_rows :: "string \<Rightarrow> statement \<Rightarrow> bool" where
  "writes_rows n (InsertInto m cs ess target) \<longleftrightarrow> m = n"
| "writes_rows n (UpdateFrom m c u sc k sk) \<longleftrightarrow> m = n"
| "writes_rows n (DeleteFrom m) \<longleftrightarrow> m = n"
| "writes_rows n (AddColumn b m c) \<longleftrightarrow> m = n"
| "writes_rows n (DropColumn b m c) \<longleftrightarrow> m = n"
| "writes_rows n (DropTable b m) \<longleftrightarrow> m = n"
| "writes_rows n _ \<longleftrightarrow> False"

lemma exec_other_rows:
  assumes "exec env s db = Inr db'" "\<not> writes_rows n s"
  shows "rows_of db' n = rows_of db n"
proof (cases s)
  case (CreateTable m cols rules)
  then show ?thesis using assms
    by (auto simp: exec.simps(3) Let_def guard_Inr rows_of_def map_add_def weak_map_of_SomeI
        dest: map_of_SomeD split: if_splits option.splits)
next
  case (DropTable b m)
  have "map_of (filter (\<lambda>mu. fst mu \<noteq> m) xs) n = (if n = m then None else map_of xs n)" for xs :: "(string \<times> table) list"
    by (induction xs) auto
  then show ?thesis using assms DropTable by (auto simp: exec.simps(4) guard_Inr rows_of_def split: if_splits)
next
  case (DropIndex b i)
  then show ?thesis using assms drop_index_rows by simp
next
  case (InsertInto m cs ess target)
  then show ?thesis using assms by (auto simp: exec.simps(12) with_table_Inr guard_Inr dest: insert_rows_other)
next
  case (UpdateFrom m c u sc k sk)
  then show ?thesis using assms
    by (auto simp: exec.simps(14) with_table_Inr guard_Inr Let_def rows_of_def map_of_put split: if_splits)
qed (use assms in \<open>auto simp: exec.simps with_table_Inr guard_Inr rows_of_def map_of_put
      drop_index_def split: if_splits option.splits\<close>)

lemma run_other_rows:
  assumes "run env ss db = Inr db'" "list_all (\<lambda>s. \<not> writes_rows n s) ss"
  shows "rows_of db' n = rows_of db n"
  using assms
proof (induction ss arbitrary: db)
  case (Cons s ss)
  then show ?case by (auto split: sum.splits dest: exec_other_rows)
qed simp

subsection \<open>The two migrations\<close>

lemma run_appendE:
  assumes "run env (xs @ ys) db = Inr db'"
  obtains db1 where "run env xs db = Inr db1" "run env ys db1 = Inr db'"
  using assms by (auto simp: run_append split: sum.splits)

text \<open>
  UpdateBookingTable changes the type of \<open>seat_numbers\<close> by dropping the column: all bookings stay and all lose
  their seats.
\<close>

theorem update_booking_table_data:
  assumes "run env update_booking_table_up db = Inr db'"
  shows "length (rows_of db' ''bookings'') = length (rows_of db ''bookings'')"
    and "r \<in> set (rows_of db' ''bookings'') \<Longrightarrow> cell_of r ''seat_numbers'' = CNull"
proof -
  let ?indexes = "[''idx_bookings_user_id'', ''idx_bookings_flight_id'', ''idx_bookings_status'', ''idx_bookings_created_at'',
    ''idx_bookings_user_status'', ''idx_bookings_active'', ''idx_bookings_expired'']"
  let ?column = "[DropColumn False ''bookings'' ''seat_numbers'',
    AddColumn False ''bookings'' (col ''seat_numbers'' TyTextArray True NoDefault)]"
  have "run env (map (DropIndex True) ?indexes @ ?column) db = Inr db'"
    using assms by (simp add: update_booking_table_up_def)
  then obtain db1 where 1: "run env (map (DropIndex True) ?indexes) db = Inr db1" and 2: "run env ?column db1 = Inr db'"
    by (rule run_appendE)
  have rows: "rows_of db' ''bookings'' =
      map (\<lambda>r. filter (\<lambda>cv. fst cv \<noteq> ''seat_numbers'') r @ [(''seat_numbers'', CNull)]) (rows_of db ''bookings'')"
    using readded_column [OF 2] drop_indexes_rows [OF 1, of "''bookings''"] by simp
  then show "length (rows_of db' ''bookings'') = length (rows_of db ''bookings'')" by simp
  have "map_of (filter (\<lambda>cv. fst cv \<noteq> c) r @ [(c, CNull)]) c = Some CNull" for c and r :: row
    by (induction r) auto
  then show "r \<in> set (rows_of db' ''bookings'') \<Longrightarrow> cell_of r ''seat_numbers'' = CNull"
    by (auto simp: rows cell_of_def simp del: map_of_append)
qed

text \<open>
  UpgradePaymentDomain makes the table of payments and leaves it empty: the payment intents stay where they were,
  in a table that no entity reads any more.
\<close>

theorem upgrade_payment_domain_data:
  assumes "run env upgrade_payment_domain_up db = Inr db'" "''payments'' \<notin> set (map fst (db_tables db))"
  shows "rows_of db' ''payments'' = []" "rows_of db' ''payment_intents'' = rows_of db ''payment_intents''"
proof -
  have "map_of (db_tables db) ''payments'' = None" using assms(2) by (simp add: map_of_eq_None_iff)
  then have "rows_of db ''payments'' = []" by (simp add: rows_of_def)
  moreover have "list_all (\<lambda>s. \<not> inserts_into ''payments'' s) upgrade_payment_domain_up" by code_simp
  ultimately show "rows_of db' ''payments'' = []" by (rule run_no_first_row [OF assms(1)])
  have "list_all (\<lambda>s. \<not> writes_rows ''payment_intents'' s) upgrade_payment_domain_up" by code_simp
  then show "rows_of db' ''payment_intents'' = rows_of db ''payment_intents''" by (rule run_other_rows [OF assms(1)])
qed

end
