(* ===== verification/Repositories.thy ===== *)
theory Repositories
  imports CatalogProps FlightInventory
begin

text \<open>
  The repository methods of the flight service (apps/flight-service/src/modules) that no service calls: searches,
  counts, updates and deletions that are there for later use. They keep the same tables, so what the catalogue
  guarantees has to survive them. A \<open>FindOptionsWhere\<close> is the predicate it stands for, none of it selects all rows.
\<close>

subsection \<open>What the five repositories share\<close>

definition selected :: "('a \<Rightarrow> bool) option \<Rightarrow> 'a list \<Rightarrow> 'a list" where
  "selected cond xs = (case cond of None \<Rightarrow> xs | Some P \<Rightarrow> filter P xs)"

definition count_rows :: "(flight_world \<Rightarrow> 'a list) \<Rightarrow> ('a \<Rightarrow> bool) option \<Rightarrow> (flight_world, int) prog" where
  "count_rows rows cond = dbquery (\<lambda>w. int (length (selected cond (rows w))))"

definition row_exists :: "(flight_world \<Rightarrow> 'a list) \<Rightarrow> ('a \<Rightarrow> bool) \<Rightarrow> (flight_world, bool) prog" where
  "row_exists rows P = andThen (count_rows rows (Some P)) (\<lambda>count. ret (0 < count))"

text \<open>Two sort fields, the second for rows that agree in the first.\<close>

definition order_by2 ::
  "db_order \<Rightarrow> int \<Rightarrow> int \<Rightarrow> ('a \<Rightarrow> sort_key) \<Rightarrow> ('a \<Rightarrow> sort_key) \<Rightarrow> 'a list \<Rightarrow> 'a list" where
  "order_by2 db skip n k1 k2 xs = sort_by (row_le (db_collate db) k1 False) (order_by db skip n k2 False xs)"

subsection \<open>Cities\<close>

definition city_rows :: "db_order \<Rightarrow> (City \<Rightarrow> bool) option \<Rightarrow> (flight_world, City list) prog" where
  "city_rows db cond =
     dbquery (\<lambda>w. order_by db 0 0 (\<lambda>c. KStr (Some (ct_name c))) False (selected cond (cities w)))"

definition city_rows_page ::
  "db_order \<Rightarrow> int \<Rightarrow> int \<Rightarrow> (City \<Rightarrow> bool) option \<Rightarrow> (flight_world, City list \<times> int) prog" where
  "city_rows_page db skip n cond =
     page_query skip n (\<lambda>w. order_by db skip n (\<lambda>c. KStr (Some (ct_name c))) False (selected cond (cities w)))"

definition city_match :: "QueryCityDto \<Rightarrow> City \<Rightarrow> bool" where
  "city_match q c \<longleftrightarrow>
     (truthy (bq_search q) \<longrightarrow>
        ilike (contains_pattern (the (bq_search q))) (ct_name c) \<or>
        ilike (contains_pattern (the (bq_search q))) (ct_country c)) \<and>
     (truthy (qc_country q) \<longrightarrow> ilike (contains_pattern (the (qc_country q))) (ct_country c)) \<and>
     (truthy (qc_countryCode q) \<longrightarrow> ct_countryCode c = qc_countryCode q) \<and>
     (truthy (qc_timezone q) \<longrightarrow> ct_timezone c = qc_timezone q) \<and>
     (case bq_active q of None \<Rightarrow> True | Some b \<Rightarrow> ct_active c = b)"

definition city_sort_fields :: "(string \<times> (City \<Rightarrow> sort_key)) list" where
  "city_sort_fields =
     [(''id'', \<lambda>c. KNum (Some (of_int (ct_id c)))), (''name'', \<lambda>c. KStr (Some (ct_name c))),
      (''country'', \<lambda>c. KStr (Some (ct_country c))), (''countryCode'', \<lambda>c. KStr (ct_countryCode c)),
      (''timezone'', \<lambda>c. KStr (ct_timezone c)), (''latitude'', \<lambda>c. KNum (ct_latitude c)),
      (''longitude'', \<lambda>c. KNum (ct_longitude c)), (''active'', \<lambda>c. KBool (ct_active c)),
      (''createdAt'', \<lambda>c. KNum (Some (of_int (ct_createdAt c)))), (''updatedAt'', \<lambda>c. KNum (Some (of_int (ct_updatedAt c))))]"

definition city_search :: "db_order \<Rightarrow> QueryCityDto \<Rightarrow> (flight_world, City list \<times> int) prog" where
  "city_search db q = search_rows db city_sort_fields ''name'' q (\<lambda>w. filter (city_match q) (cities w))"

text \<open>A city with airports is kept by the reference of the airports, which restricts its deletion.\<close>

definition hard_delete_city :: "int \<Rightarrow> (flight_world, bool) prog" where
  "hard_delete_city i = dbcall (\<lambda>w.
     if \<exists>a\<in>set (airports w). ap_cityId a = i then (Inl db_error, w)
     else (Inr (\<exists>c\<in>set (cities w). ct_id c = i), w\<lparr>cities := filter (\<lambda>c. ct_id c \<noteq> i) (cities w)\<rparr>))"

definition city_exists :: "(City \<Rightarrow> bool) \<Rightarrow> (flight_world, bool) prog" where
  "city_exists P = row_exists cities P"

definition city_count :: "(City \<Rightarrow> bool) option \<Rightarrow> (flight_world, int) prog" where
  "city_count cond = count_rows cities cond"

text \<open>
  The count is selected under a name that is no property of the entity, so \<open>getManyAndCount\<close> drops it and
  \<open>Number(undefined || 0)\<close> stands in its place.
\<close>

definition cities_with_airport_count ::
  "db_order \<Rightarrow> int \<Rightarrow> int \<Rightarrow> (City \<Rightarrow> bool) option \<Rightarrow> (flight_world, (City \<times> int) list \<times> int) prog" where
  "cities_with_airport_count db skip n cond =
     andThen (city_rows_page db skip n cond) (\<lambda>(xs, count). ret (map (\<lambda>c. (c, 0)) xs, count))"

subsection \<open>Airports and airplanes\<close>

definition airport_rows ::
  "db_order \<Rightarrow> (Airport \<Rightarrow> bool) option \<Rightarrow> (flight_world, (Airport \<times> City option) list) prog" where
  "airport_rows db cond = dbquery (\<lambda>w.
     map (with_city w) (order_by db 0 0 (\<lambda>a. KStr (Some (ap_name a))) False (selected cond (airports w))))"

definition airport_rows_page ::
  "db_order \<Rightarrow> int \<Rightarrow> int \<Rightarrow> (Airport \<Rightarrow> bool) option \<Rightarrow>
     (flight_world, (Airport \<times> City option) list \<times> int) prog" where
  "airport_rows_page db skip n cond = page_query skip n (\<lambda>w.
     map (with_city w) (order_by db skip n (\<lambda>a. KStr (Some (ap_name a))) False (selected cond (airports w))))"

definition airport_exists :: "(Airport \<Rightarrow> bool) \<Rightarrow> (flight_world, bool) prog" where
  "airport_exists P = row_exists airports P"

definition airport_count :: "(Airport \<Rightarrow> bool) option \<Rightarrow> (flight_world, int) prog" where
  "airport_count cond = count_rows airports cond"

definition airplane_order :: "db_order \<Rightarrow> int \<Rightarrow> int \<Rightarrow> Airplane list \<Rightarrow> Airplane list" where
  "airplane_order db skip n =
     order_by2 db skip n (\<lambda>p. KStr (Some (pl_manufacturer p))) (\<lambda>p. KStr (Some (pl_modelNumber p)))"

definition airplane_rows ::
  "db_order \<Rightarrow> (Airplane \<Rightarrow> bool) option \<Rightarrow> (flight_world, Airplane list) prog" where
  "airplane_rows db cond = dbquery (\<lambda>w. airplane_order db 0 0 (selected cond (airplanes w)))"

definition airplane_rows_page ::
  "db_order \<Rightarrow> int \<Rightarrow> int \<Rightarrow> (Airplane \<Rightarrow> bool) option \<Rightarrow> (flight_world, Airplane list \<times> int) prog" where
  "airplane_rows_page db skip n cond =
     page_query skip n (\<lambda>w. airplane_order db skip n (selected cond (airplanes w)))"

definition airplane_exists :: "(Airplane \<Rightarrow> bool) \<Rightarrow> (flight_world, bool) prog" where
  "airplane_exists P = row_exists airplanes P"

definition airplane_count :: "(Airplane \<Rightarrow> bool) option \<Rightarrow> (flight_world, int) prog" where
  "airplane_count cond = count_rows airplanes cond"

subsection \<open>Seats\<close>

definition find_seat :: "int \<Rightarrow> (flight_world, (Seat \<times> Airplane option) option) prog" where
  "find_seat i = dbquery (\<lambda>w.
     map_option (\<lambda>s. (s, find (\<lambda>p. pl_id p = sr_airplaneId s) (airplanes w))) (find (\<lambda>s. sr_id s = i) (seats w)))"

definition delete_seats_of :: "int \<Rightarrow> (flight_world, unit) prog" where
  "delete_seats_of i = dbcall (\<lambda>w. (Inr (), w\<lparr>seats := filter (\<lambda>s. sr_airplaneId s \<noteq> i) (seats w)\<rparr>))"


subsection \<open>Flights\<close>

text \<open>\<open>relations\<close>: the rows a flight refers to.\<close>

record FlightRelations =
  fr_flight :: Flight
  fr_airplane :: "Airplane option"
  fr_departureAirport :: "Airport option"
  fr_arrivalAirport :: "Airport option"

definition with_relations :: "flight_world \<Rightarrow> Flight \<Rightarrow> FlightRelations" where
  "with_relations w f = \<lparr>fr_flight = f, fr_airplane = find (\<lambda>p. pl_id p = fl_airplaneId f) (airplanes w),
     fr_departureAirport = find (\<lambda>a. ap_id a = fl_departureAirportId f) (airports w),
     fr_arrivalAirport = find (\<lambda>a. ap_id a = fl_arrivalAirportId f) (airports w)\<rparr>"

definition flight_rows :: "(Flight \<Rightarrow> bool) option \<Rightarrow> (flight_world, FlightRelations list) prog" where
  "flight_rows cond = dbquery (\<lambda>w. map (with_relations w) (selected cond (flights w)))"

definition flight_rows_page ::
  "db_order \<Rightarrow> int \<Rightarrow> int \<Rightarrow> (Flight \<Rightarrow> bool) option \<Rightarrow> (flight_world, FlightRelations list \<times> int) prog" where
  "flight_rows_page db skip n cond = page_query skip n (\<lambda>w.
     map (with_relations w) (order_by db skip n (\<lambda>f. KNum (Some (of_int (fl_departureTime f)))) False
       (selected cond (flights w))))"

definition flight_exists :: "(Flight \<Rightarrow> bool) \<Rightarrow> (flight_world, bool) prog" where
  "flight_exists P = row_exists flights P"

definition flight_count :: "(Flight \<Rightarrow> bool) option \<Rightarrow> (flight_world, int) prog" where
  "flight_count cond = count_rows flights cond"

text \<open>The columns an update may name; it also counts the version up and sets the update time.\<close>

record flight_change =
  fc_flightNumber :: "string field"
  fc_airplaneId :: "int field"
  fc_departureAirportId :: "int field"
  fc_arrivalAirportId :: "int field"
  fc_departureTime :: "int field"
  fc_arrivalTime :: "int field"
  fc_boardingGate :: "string field"
  fc_terminal :: "string field"
  fc_economyPrice :: "rat field"
  fc_businessPrice :: "rat field"
  fc_firstClassPrice :: "rat field"
  fc_premiumEconomyPrice :: "rat field"
  fc_economySeatsAvailable :: "int field"
  fc_businessSeatsAvailable :: "int field"
  fc_firstClassSeatsAvailable :: "int field"
  fc_premiumEconomySeatsAvailable :: "int field"
  fc_status :: "FlightStatus field"

definition flight_nulls :: "flight_change \<Rightarrow> bool" where
  "flight_nulls d \<longleftrightarrow> fc_flightNumber d = Null \<or> fc_airplaneId d = Null \<or> fc_departureAirportId d = Null \<or>
     fc_arrivalAirportId d = Null \<or> fc_departureTime d = Null \<or> fc_arrivalTime d = Null \<or> fc_economyPrice d = Null \<or>
     fc_businessPrice d = Null \<or> fc_firstClassPrice d = Null \<or> fc_premiumEconomyPrice d = Null \<or>
     fc_economySeatsAvailable d = Null \<or> fc_businessSeatsAvailable d = Null \<or> fc_firstClassSeatsAvailable d = Null \<or>
     fc_premiumEconomySeatsAvailable d = Null \<or> fc_status d = Null"

definition apply_flight :: "flight_change \<Rightarrow> int \<Rightarrow> Flight \<Rightarrow> Flight" where
  "apply_flight d t f = f\<lparr>fl_flightNumber := set_value (fc_flightNumber d) (fl_flightNumber f),
     fl_airplaneId := set_value (fc_airplaneId d) (fl_airplaneId f),
     fl_departureAirportId := set_value (fc_departureAirportId d) (fl_departureAirportId f),
     fl_arrivalAirportId := set_value (fc_arrivalAirportId d) (fl_arrivalAirportId f),
     fl_departureTime := set_value (fc_departureTime d) (fl_departureTime f),
     fl_arrivalTime := set_value (fc_arrivalTime d) (fl_arrivalTime f),
     fl_boardingGate := set_nullable (fc_boardingGate d) (fl_boardingGate f),
     fl_terminal := set_nullable (fc_terminal d) (fl_terminal f),
     fl_economyPrice := round2 (set_value (fc_economyPrice d) (fl_economyPrice f)),
     fl_businessPrice := round2 (set_value (fc_businessPrice d) (fl_businessPrice f)),
     fl_firstClassPrice := round2 (set_value (fc_firstClassPrice d) (fl_firstClassPrice f)),
     fl_premiumEconomyPrice := round2 (set_value (fc_premiumEconomyPrice d) (fl_premiumEconomyPrice f)),
     fl_economySeatsAvailable := set_value (fc_economySeatsAvailable d) (fl_economySeatsAvailable f),
     fl_businessSeatsAvailable := set_value (fc_businessSeatsAvailable d) (fl_businessSeatsAvailable f),
     fl_firstClassSeatsAvailable := set_value (fc_firstClassSeatsAvailable d) (fl_firstClassSeatsAvailable f),
     fl_premiumEconomySeatsAvailable := set_value (fc_premiumEconomySeatsAvailable d) (fl_premiumEconomySeatsAvailable f),
     fl_status := set_value (fc_status d) (fl_status f), fl_version := fl_version f + 1, fl_updatedAt := t\<rparr>"

definition flight_refused :: "Flight \<Rightarrow> flight_world \<Rightarrow> bool" where
  "flight_refused f w \<longleftrightarrow> \<not> flight_columns_ok f \<or>
     (\<exists>x\<in>set (flights w). fl_id x \<noteq> fl_id f \<and> fl_flightNumber x = fl_flightNumber f \<and>
        fl_departureTime x = fl_departureTime f) \<or>
     \<not> (\<exists>p\<in>set (airplanes w). pl_id p = fl_airplaneId f) \<or>
     \<not> (\<exists>a\<in>set (airports w). ap_id a = fl_departureAirportId f) \<or>
     \<not> (\<exists>a\<in>set (airports w). ap_id a = fl_arrivalAirportId f)"

definition write_flight :: "int \<Rightarrow> flight_change \<Rightarrow> (flight_world, nat) prog" where
  "write_flight i d = dbcall (\<lambda>w.
     case find (\<lambda>f. fl_id f = i) (flights w) of
       None \<Rightarrow> (Inr 0, w)
     | Some f \<Rightarrow>
         let f' = apply_flight d (now w) f
         in if flight_nulls d \<or> flight_refused f' w then (Inl db_error, w)
            else (Inr 1, w\<lparr>flights := map (\<lambda>x. if fl_id x = i then f' else x) (flights w)\<rparr>))"

definition update_flight_row :: "int \<Rightarrow> flight_change \<Rightarrow> (flight_world, Flight) prog" where
  "update_flight_row i d =
     andThen (write_flight i d) (\<lambda>_.
     andThen (find_flight i) (require (''Flight with ID '' @ show_int i @ '' not found'')))"


subsection \<open>The tables stay well-formed\<close>

datatype repository_op =
  ServiceRequest catalog_op
| CityRows "(City \<Rightarrow> bool) option" | CityRowsPage int int "(City \<Rightarrow> bool) option" | CitySearch QueryCityDto
| CityHardDelete int | CityExists "City \<Rightarrow> bool" | CityCount "(City \<Rightarrow> bool) option"
| CitiesWithAirportCount int int "(City \<Rightarrow> bool) option"
| AirportRows "(Airport \<Rightarrow> bool) option" | AirportRowsPage int int "(Airport \<Rightarrow> bool) option"
| AirportExists "Airport \<Rightarrow> bool" | AirportCount "(Airport \<Rightarrow> bool) option"
| AirplaneRows "(Airplane \<Rightarrow> bool) option" | AirplaneRowsPage int int "(Airplane \<Rightarrow> bool) option"
| AirplaneExists "Airplane \<Rightarrow> bool" | AirplaneCount "(Airplane \<Rightarrow> bool) option"
| FindSeat int | DeleteSeatsOf int
| FlightRows "(Flight \<Rightarrow> bool) option" | FlightRowsPage int int "(Flight \<Rightarrow> bool) option"
| FlightExists "Flight \<Rightarrow> bool" | FlightCount "(Flight \<Rightarrow> bool) option" | FlightUpdate int flight_change

definition repository_exec :: "db_order \<Rightarrow> flight_world \<Rightarrow> repository_op \<Rightarrow> flight_world" where
  "repository_exec db w x =
     (case x of
        ServiceRequest c \<Rightarrow> catalog_exec db w c
      | CityRows cond \<Rightarrow> snd (city_rows db cond w)
      | CityRowsPage s n cond \<Rightarrow> snd (city_rows_page db s n cond w)
      | CitySearch q \<Rightarrow> snd (city_search db q w)
      | CityHardDelete i \<Rightarrow> snd (hard_delete_city i w)
      | CityExists P \<Rightarrow> snd (city_exists P w)
      | CityCount cond \<Rightarrow> snd (city_count cond w)
      | CitiesWithAirportCount s n cond \<Rightarrow> snd (cities_with_airport_count db s n cond w)
      | AirportRows cond \<Rightarrow> snd (airport_rows db cond w)
      | AirportRowsPage s n cond \<Rightarrow> snd (airport_rows_page db s n cond w)
      | AirportExists P \<Rightarrow> snd (airport_exists P w)
      | AirportCount cond \<Rightarrow> snd (airport_count cond w)
      | AirplaneRows cond \<Rightarrow> snd (airplane_rows db cond w)
      | AirplaneRowsPage s n cond \<Rightarrow> snd (airplane_rows_page db s n cond w)
      | AirplaneExists P \<Rightarrow> snd (airplane_exists P w)
      | AirplaneCount cond \<Rightarrow> snd (airplane_count cond w)
      | FindSeat i \<Rightarrow> snd (find_seat i w)
      | DeleteSeatsOf i \<Rightarrow> snd (delete_seats_of i w)
      | FlightRows cond \<Rightarrow> snd (flight_rows cond w)
      | FlightRowsPage s n cond \<Rightarrow> snd (flight_rows_page db s n cond w)
      | FlightExists P \<Rightarrow> snd (flight_exists P w)
      | FlightCount cond \<Rightarrow> snd (flight_count cond w)
      | FlightUpdate i d \<Rightarrow> snd (update_flight_row i d w))"

lemma catalog_counts [keeps_intro]:
  "keeps catalog_ok (count_rows rows cond)" "keeps catalog_ok (row_exists rows P)"
  unfolding row_exists_def count_rows_def by (intro keeps_intro)+

lemma catalog_reads:
  "keeps catalog_ok (city_rows db cond)" "keeps catalog_ok (city_rows_page db s n cond)"
  "keeps catalog_ok (city_search db q)" "keeps catalog_ok (cities_with_airport_count db s n cond)"
  "keeps catalog_ok (airport_rows db cond')" "keeps catalog_ok (airport_rows_page db s n cond')"
  "keeps catalog_ok (airplane_rows db cond'')" "keeps catalog_ok (airplane_rows_page db s n cond'')"
  "keeps catalog_ok (find_seat i)" "keeps catalog_ok (flight_rows cf)" "keeps catalog_ok (flight_rows_page db s n cf)"
  unfolding city_rows_def city_rows_page_def city_search_def cities_with_airport_count_def airport_rows_def
    airport_rows_page_def airplane_rows_def airplane_rows_page_def find_seat_def flight_rows_def flight_rows_page_def
  by (intro keeps_intro)+

lemma catalog_hard_delete: "keeps catalog_ok (hard_delete_city i)"
  unfolding hard_delete_city_def
proof (rule keeps_dbcall, erule catalog_faults)
  fix w assume w: "catalog_ok w"
  have "ap_cityId ` set (airports w) \<subseteq> ct_id ` set (filter (\<lambda>c. ct_id c \<noteq> i) (cities w))"
    if "\<not> (\<exists>a\<in>set (airports w). ap_cityId a = i)"
  proof
    fix j assume j: "j \<in> ap_cityId ` set (airports w)"
    then have "j \<in> ct_id ` set (cities w)" using w by (auto simp: catalog_ok_def)
    moreover have "j \<noteq> i" using j that by auto
    ultimately show "j \<in> ct_id ` set (filter (\<lambda>c. ct_id c \<noteq> i) (cities w))" by auto
  qed
  then show "catalog_ok (snd (if \<exists>a\<in>set (airports w). ap_cityId a = i then (Inl db_error, w)
     else (Inr (\<exists>c\<in>set (cities w). ct_id c = i), w\<lparr>cities := filter (\<lambda>c. ct_id c \<noteq> i) (cities w)\<rparr>)))"
    using w by (auto simp: catalog_ok_def table_filter)
qed

lemma catalog_delete_seats_of: "keeps catalog_ok (delete_seats_of i)"
  unfolding delete_seats_of_def
  by (rule keeps_dbcall) (auto simp: catalog_ok_def intro: table_filter)

lemma catalog_update_flight: "keeps catalog_ok (update_flight_row i d)"
  unfolding update_flight_row_def write_flight_def find_flight_def require_def
  by (auto intro!: keeps_intro keeps_dbcall simp: catalog_faults catalog_ok_def Let_def split: option.split)

interpretation repositories: invariant_machine "repository_exec db" catalog_ok for db
proof unfold_locales
  fix w x
  assume w: "catalog_ok w"
  then show "catalog_ok (repository_exec db w x)"
    by (cases x) (auto simp: repository_exec_def city_exists_def city_count_def airport_exists_def airport_count_def
        airplane_exists_def airplane_count_def flight_exists_def flight_count_def
        intro: catalog.step_keeps keepsD [OF catalog_counts(1)] keepsD [OF catalog_counts(2)] catalog_reads [THEN keepsD]
          keepsD [OF catalog_hard_delete] keepsD [OF catalog_delete_seats_of] keepsD [OF catalog_update_flight])
qed


text \<open>A city just made is taken back by deleting it: nothing refers to it yet.\<close>

lemma create_hard_delete:
  assumes "catalog_ok w" and "create_city d w = (Inr c, v)" and "faults v = []"
  shows "hard_delete_city (ct_id c) v = (Inr True, v\<lparr>cities := cities w\<rparr>)"
proof -
  let ?c = "new_city d (serial w) (now w)"
  have c: "ct_id c = serial w" "ct_id ?c = serial w" "cities v = cities w @ [?c]" "airports v = airports w"
    using assms(2) by (auto simp: create_city_def dbcall_eq Let_def new_city_def apply_city_def split: if_splits)
  have ids: "\<forall>x\<in>set (cities w). ct_id x < serial w" and refs: "ap_cityId ` set (airports w) \<subseteq> ct_id ` set (cities w)"
    using assms(1) by (auto simp: catalog_ok_def table_ok_def)
  have "ap_cityId a \<noteq> serial w" if "a \<in> set (airports w)" for a
  proof -
    have "ap_cityId a \<in> ct_id ` set (cities w)" using refs that by (rule subsetD [OF _ imageI])
    then show ?thesis using ids by auto
  qed
  moreover have "filter (\<lambda>x. ct_id x \<noteq> serial w) (cities w) = cities w"
    using ids by (intro filter_True) auto
  ultimately show ?thesis using c assms(3) by (simp add: hard_delete_city_def dbcall_eq)
qed

text \<open>An update of a flight keeps the table of flights: columns, keys and references.\<close>

definition flights_ok :: "flight_world \<Rightarrow> bool" where
  "flights_ok w \<longleftrightarrow>
     table_ok fl_id (\<lambda>f. Some (fl_flightNumber f, fl_departureTime f)) flight_columns_ok (serial w) (flights w) \<and>
     fl_airplaneId ` set (flights w) \<subseteq> pl_id ` set (airplanes w) \<and>
     fl_departureAirportId ` set (flights w) \<subseteq> ap_id ` set (airports w) \<and>
     fl_arrivalAirportId ` set (flights w) \<subseteq> ap_id ` set (airports w)"

lemma flights_update: "keeps flights_ok (update_flight_row i d)"
proof -
  have "keeps flights_ok (write_flight i d)"
    unfolding write_flight_def
  proof (rule keeps_dbcall)
    fix w assume w: "flights_ok w"
    show "flights_ok (snd (case find (\<lambda>f. fl_id f = i) (flights w) of None \<Rightarrow> (Inr 0, w)
      | Some f \<Rightarrow> let f' = apply_flight d (now w) f in if flight_nulls d \<or> flight_refused f' w then (Inl db_error, w)
            else (Inr 1, w\<lparr>flights := map (\<lambda>x. if fl_id x = i then f' else x) (flights w)\<rparr>)))"
    proof (cases "find (\<lambda>f. fl_id f = i) (flights w)")
      case (Some f)
      let ?f = "apply_flight d (now w) f"
      have i: "fl_id ?f = i" using find_ident [OF Some] by (simp add: apply_flight_def)
      have "flights_ok (w\<lparr>flights := map (\<lambda>x. if fl_id x = i then ?f else x) (flights w)\<rparr>)" if ok: "\<not> flight_refused ?f w"
      proof -
        have "table_ok fl_id (\<lambda>f. Some (fl_flightNumber f, fl_departureTime f)) flight_columns_ok (serial w)
            (map (\<lambda>x. if fl_id x = i then ?f else x) (flights w))"
          by (rule table_update) (use w i ok in \<open>auto simp: flights_ok_def clashes_def flight_refused_def\<close>)
        moreover have image: "g ` set (map (\<lambda>x. if fl_id x = i then ?f else x) (flights w)) \<subseteq> A"
          if "g ` set (flights w) \<subseteq> A" "g ?f \<in> A" for g :: "Flight \<Rightarrow> int" and A
          using that by auto
        moreover have "fl_airplaneId ?f \<in> pl_id ` set (airplanes w)" "fl_departureAirportId ?f \<in> ap_id ` set (airports w)"
          "fl_arrivalAirportId ?f \<in> ap_id ` set (airports w)"
          using ok unfolding flight_refused_def by (metis imageI)+
        ultimately show ?thesis using w by (simp add: flights_ok_def del: set_map)
      qed
      then show ?thesis using w Some by (simp add: Let_def)
    qed (use w in simp)
  qed (simp add: flights_ok_def)
  then show ?thesis
    unfolding update_flight_row_def find_flight_def require_def
    by (auto intro!: keeps_intro keeps_dbquery simp: flights_ok_def split: option.split)
qed


subsection \<open>Pages of a search\<close>

text \<open>The pages of a search for cities that the sort field tells apart, put together, are the matching rows.\<close>

lemma city_search_pages:
  assumes "faults w = []" "0 < bq_limit q" "map_of city_sort_fields (or_str (bq_sortBy q) ''name'') = Some key"
    "descending (bq_sortOrder q) = Some desc" "linear_collation (db_collate db)"
    "distinct (map key (filter (city_match q) (cities w)))"
  shows "\<exists>n xs. mset xs = mset (filter (city_match q) (cities w)) \<and> sorted_wrt (row_le (db_collate db) key desc) xs \<and>
    concat (map (\<lambda>p. fst (projr (fst (city_search db (q\<lparr>bq_page := p\<rparr>) w)))) [1..n]) = xs"
proof -
  let ?rows = "\<lambda>w. filter (city_match q) (cities w)"
  have kind: "same_kind (key x) (key y)" for x y
    using map_of_SomeD [OF assms(3)] by (auto simp: city_sort_fields_def)
  have match: "city_match (q\<lparr>bq_page := p\<rparr>) = city_match q" for p by (simp add: city_match_def fun_eq_iff)
  obtain xs where xs: "mset xs = mset (?rows w)" "sorted_wrt (row_le (db_collate db) key desc) xs"
    and page: "\<And>p. 1 \<le> p \<Longrightarrow> search_rows db city_sort_fields ''name'' (q\<lparr>bq_page := p\<rparr>) ?rows w =
       (Inr (take (nat (bq_limit q)) (drop (nat (p - 1) * nat (bq_limit q)) xs), int (length xs)), w)"
    and pages: "concat (map (\<lambda>p. take (nat (bq_limit q)) (drop (nat (p - 1) * nat (bq_limit q)) xs))
       [1..- ((- int (length xs)) div bq_limit q)]) = xs"
    using search_pages [where rows = ?rows, OF assms(1-5) kind assms(6)] by metis
  have "map (\<lambda>p. fst (projr (fst (city_search db (q\<lparr>bq_page := p\<rparr>) w)))) [1..- ((- int (length xs)) div bq_limit q)] =
      map (\<lambda>p. take (nat (bq_limit q)) (drop (nat (p - 1) * nat (bq_limit q)) xs)) [1..- ((- int (length xs)) div bq_limit q)]"
    by (rule map_cong [OF refl]) (simp add: city_search_def match page)
  with xs pages show ?thesis by metis
qed

subsection \<open>Properties\<close>

text \<open>The catalogue is typed by its schema, whoever writes it: starting from empty tables, after any requests of
  the services and any calls of the repositories, those that no service makes included, in any order and under any
  failures of the database, every row fits its columns, the identifiers are distinct, no two cities share name and
  country, no two airports a code (and codes are upper case), no two airplanes a registration number and no two
  seats of an airplane a position, and every airport's city and every seat's airplane exist.\<close>

theorem repositories_typed:
  assumes "empty_catalog w" and "run_steps (repository_exec db) w ops = w'"
  shows "catalog_ok w'"
proof -
  have "catalog_ok w" using assms(1) by (simp add: empty_catalog_def catalog_ok_def table_ok_def)
  from repositories.run_keeps [OF this, of db ops] show ?thesis using assms(2) by simp
qed

definition demo_calls :: "repository_op list" where
  "demo_calls = map ServiceRequest demo_requests @
     [CityHardDelete 1, DeleteSeatsOf 3, CityHardDelete 0, CitySearch \<lparr>bq_page = 1, bq_limit = 10, bq_sortBy = None,
        bq_sortOrder = None, bq_search = Some ''y'', bq_active = None, qc_country = None, qc_countryCode = None,
        qc_timezone = None\<rparr>]"

lemma repositories_typed_witness:
  "catalog_ok (run_steps (repository_exec demo_order) demo_catalog demo_calls) \<and>
   map ct_id (cities (run_steps (repository_exec demo_order) demo_catalog demo_calls)) = [1] \<and>
   seats (run_steps (repository_exec demo_order) demo_catalog demo_calls) = []"
proof -
  have "empty_catalog demo_catalog" by (simp add: empty_catalog_def demo_catalog_def)
  from repositories_typed [OF this refl]
  have "catalog_ok (run_steps (repository_exec demo_order) demo_catalog demo_calls)" .
  moreover have "map ct_id (cities (run_steps (repository_exec demo_order) demo_catalog demo_calls)) = [1]"
    "seats (run_steps (repository_exec demo_order) demo_catalog demo_calls) = []" by code_simp+
  ultimately show ?thesis by blast
qed

end
