(* ===== verification/ServiceRoutes.thy ===== *)
theory ServiceRoutes
  imports Gateway PaymentProps FlightInventory
begin

text \<open>
  The HTTP routes that the booking, payment and flight services serve on their own ports, beside the queues
  (BookingController, PaymentIntentController, RefundController, WebhookController, FlightController). No guard is
  installed in front of them, so \<open>request.user\<close> is what the caller of the handler put there: nothing. Each route
  does what the message of the same name does, which carries the invariants of the services over to them.
\<close>

subsection \<open>Bookings\<close>

datatype booking_http =
  HttpCreateBooking CreateBookingDto | HttpCompleteBooking string "string option"
| HttpCancelBooking string "string option" | HttpExtendBooking string | HttpMyBookings "string option"
| HttpGetBooking string | HttpSeatAvailability int string

definition no_user :: exn where
  "no_user = JsError ''Cannot read properties of undefined (reading 'id')''"

definition with_user :: "int option \<Rightarrow> (int \<Rightarrow> ('s, 'a) prog) \<Rightarrow> ('s, 'a) prog" where
  "with_user user f = (case user of None \<Rightarrow> throw no_user | Some u \<Rightarrow> f u)"

definition answering :: "string \<Rightarrow> ('a \<Rightarrow> 'b) \<Rightarrow> ('s, 'a) prog \<Rightarrow> ('s, 'b api_response) prog" where
  "answering code f m = andThen m (\<lambda>x. ret (success_response (f x) code))"

definition booking_http ::
  "payment_client \<Rightarrow> int option \<Rightarrow> booking_http \<Rightarrow> (booking_world, booking_reply api_response) prog" where
  "booking_http client user r =
     (case r of
        HttpCreateBooking dto \<Rightarrow>
          with_user user (\<lambda>u. answering ''booking.create.success'' Receipt (createBooking client dto u))
      | HttpCompleteBooking b tx \<Rightarrow>
          with_user user (\<lambda>u. answering ''booking.confirm.success'' Completion (service_completeBooking b u tx))
      | HttpCancelBooking b reason \<Rightarrow>
          with_user user (\<lambda>u. answering ''booking.cancel.success'' Cancelled (service_cancelBooking b u reason))
      | HttpExtendBooking b \<Rightarrow> with_user user (\<lambda>u. answering ''booking.extend.success'' Extended (extendBooking b u))
      | HttpMyBookings st \<Rightarrow> with_user user (\<lambda>u. answering ''booking.list.success'' BookingList (getMyBookings u st))
      | HttpGetBooking b \<Rightarrow> with_user user (\<lambda>u. answering ''booking.get.success'' OneBooking (getBooking b u))
      | HttpSeatAvailability f xs \<Rightarrow>
          answering ''booking.availability.success'' Availability (checkSeatAvailability f xs))"

text \<open>The message of the same name, with the user of the request.\<close>

fun booking_message :: "int \<Rightarrow> booking_http \<Rightarrow> booking_op" where
  "booking_message u (HttpCreateBooking dto) = HandleCreateBooking (dto\<lparr>cb_userId := u\<rparr>)"
| "booking_message u (HttpCompleteBooking b tx) = HandleCompleteBooking b u tx"
| "booking_message u (HttpCancelBooking b reason) = HandleCancelBooking b u reason"
| "booking_message u (HttpExtendBooking b) = HandleExtendBooking b u"
| "booking_message u (HttpMyBookings st) = HandleGetMyBookings u st"
| "booking_message u (HttpGetBooking b) = HandleGetBooking b u"
| "booking_message u (HttpSeatAvailability f xs) = HandleCheckAvailability f xs"

lemma snd_answering [simp]: "snd (answering code f m w) = snd (m w)"
  by (cases "m w") (simp add: answering_def andThen_def ret_def split: sum.split)

lemma with_user_simps [simp]: "with_user None f w = (Inl no_user, w)" "with_user (Some u) f = f u"
  by (simp_all add: with_user_def throw_def)

subsection \<open>Payments, refunds and webhooks\<close>

datatype payment_reply =
  PaymentReply Payment | LedgerReply "LedgerEntry list" | RefundReply Refund | RefundsReply "Refund list" | Received

datatype payment_route =
  PostIntent CreatePaymentIntentDto "string option" | PostConfirm string "string option" "string option"
| GetPaymentRoute string | GetPaymentByBooking int | GetLedgerRoute QueryLedgerEntriesDto
| PostRefund CreateRefundDto "string option" | GetRefundsRoute int
| PostStripeWebhook string "string option" | PostPayPalWebhook string "string option"

definition payment_http :: "platform \<Rightarrow> payment_route \<Rightarrow> (payment_world, payment_reply api_response) prog" where
  "payment_http pf r =
     (case r of
        PostIntent dto key \<Rightarrow> answering ''payment.intent.create.success'' PaymentReply (createPaymentIntent pf dto key)
      | PostConfirm i g key \<Rightarrow> answering ''payment.intent.confirm.success'' PaymentReply (confirmPaymentIntent pf i g key)
      | GetPaymentRoute i \<Rightarrow> answering ''payment.intent.get.success'' PaymentReply (getPaymentIntent i)
      | GetPaymentByBooking b \<Rightarrow> answering ''payment.intent.get.success'' PaymentReply (getPaymentIntentByBooking b)
      | GetLedgerRoute q \<Rightarrow> answering ''payment.intent.ledger.success'' LedgerReply (getLedgerEntries q)
      | PostRefund dto key \<Rightarrow> answering ''refund.create.success'' RefundReply (createRefund pf dto key)
      | GetRefundsRoute b \<Rightarrow> answering ''refund.list.success'' RefundsReply (getRefundsByBooking b)
      | PostStripeWebhook payload s \<Rightarrow>
          answering ''webhook.stripe.success'' (\<lambda>_. Received) (handleStripeWebhook pf payload s)
      | PostPayPalWebhook payload s \<Rightarrow>
          answering ''webhook.paypal.success'' (\<lambda>_. Received) (handlePayPalWebhook pf payload s))"

fun payment_message :: "payment_route \<Rightarrow> payment_op" where
  "payment_message (PostIntent dto key) = CreateIntent dto key"
| "payment_message (PostConfirm i g key) = ConfirmIntent i g key"
| "payment_message (GetPaymentRoute i) = GetIntent i"
| "payment_message (GetPaymentByBooking b) = GetIntentByBooking b"
| "payment_message (GetLedgerRoute q) = GetLedger q"
| "payment_message (PostRefund dto key) = RequestRefund dto key"
| "payment_message (GetRefundsRoute b) = GetRefunds b"
| "payment_message (PostStripeWebhook payload s) = StripeWebhook payload s"
| "payment_message (PostPayPalWebhook payload s) = PayPalWebhook payload s"

subsection \<open>Flights\<close>

datatype flight_http = HttpCreateFlight SharedCreateFlightDto | HttpSearchFlights SharedSearchFlightDto
| HttpFindFlight int | HttpRemoveFlight int

datatype flight_answer = FlightAnswer Flight | FlightsAnswer "Flight list" | NothingLeft

definition mapped :: "('a \<Rightarrow> 'b) \<Rightarrow> ('s, 'a) prog \<Rightarrow> ('s, 'b) prog" where
  "mapped f m = andThen m (\<lambda>x. ret (f x))"

definition flight_http :: "flight_http \<Rightarrow> (flight_world, flight_answer) prog" where
  "flight_http r =
     (case r of
        HttpCreateFlight dto \<Rightarrow> mapped FlightAnswer (create_flight dto)
      | HttpSearchFlights dto \<Rightarrow> mapped FlightsAnswer (search_flights dto)
      | HttpFindFlight i \<Rightarrow> mapped FlightAnswer (findOne_flight i)
      | HttpRemoveFlight i \<Rightarrow> mapped (\<lambda>_. NothingLeft) (remove_flight i))"

fun flight_message :: "flight_http \<Rightarrow> flight_op" where
  "flight_message (HttpCreateFlight dto) = CreateFlight dto"
| "flight_message (HttpSearchFlights dto) = SearchFlights dto"
| "flight_message (HttpFindFlight i) = FindFlight i"
| "flight_message (HttpRemoveFlight i) = DeleteFlight i"

lemma snd_mapped [simp]: "snd (mapped f m w) = snd (m w)"
  by (cases "m w") (simp add: mapped_def andThen_def ret_def split: sum.split)

subsection \<open>The routes against the messages\<close>

text \<open>With a user in the request a route does what the message does with that user.\<close>

lemma booking_route_message: "snd (booking_http client (Some u) r w) = booking_exec client w (booking_message u r)"
  by (cases r) (simp_all add: booking_http_def booking_exec_def createBooking_def)

lemma payment_route_message: "snd (payment_http pf r w) = payment_exec pf w (payment_message r)"
  by (cases r) (simp_all add: payment_http_def payment_exec_def)

lemma flight_route_message: "snd (flight_http r w) = flight_exec w (flight_message r)"
  by (cases r) (simp_all add: flight_http_def flight_exec_def)

text \<open>Without a user every route but the availability of seats fails before it does anything.\<close>

lemma booking_route_no_user:
  assumes "\<And>f xs. r \<noteq> HttpSeatAvailability f xs"
  shows "booking_http client None r w = (Inl no_user, w)"
  using assms by (cases r) (auto simp: booking_http_def)

text \<open>Messages and routes mixed: the invariants of the services hold for both.\<close>

datatype booking_step = FromQueue booking_op | FromHttp "int option" booking_http

definition booking_step_exec :: "payment_client \<Rightarrow> booking_world \<Rightarrow> booking_step \<Rightarrow> booking_world" where
  "booking_step_exec client w x =
     (case x of FromQueue op \<Rightarrow> booking_exec client w op | FromHttp user r \<Rightarrow> snd (booking_http client user r w))"

lemma booking_http_no_user_state: "snd (booking_http client None r w) = w \<or>
    (\<exists>f xs. r = HttpSeatAvailability f xs \<and> snd (booking_http client None r w) = booking_exec client w (HandleCheckAvailability f xs))"
  by (cases r) (simp_all add: booking_http_def booking_exec_def)

interpretation booking_routes: invariant_machine "booking_step_exec (paymentClient mode rpc)" saga_inv for mode rpc
proof unfold_locales
  fix w x
  assume w: "saga_inv w"
  then show "saga_inv (booking_step_exec (paymentClient mode rpc) w x)"
  proof (cases x)
    case (FromHttp user r)
    then show ?thesis
      using w booking_http_no_user_state [of "paymentClient mode rpc" r w]
      by (cases user) (auto simp: booking_step_exec_def booking_route_message intro: payments.bookings.step_keeps)
  qed (simp add: booking_step_exec_def payments.bookings.step_keeps)
qed

datatype payment_step = PaymentQueue payment_op | PaymentHttp payment_route

definition payment_step_exec :: "platform \<Rightarrow> payment_world \<Rightarrow> payment_step \<Rightarrow> payment_world" where
  "payment_step_exec pf w x =
     (case x of PaymentQueue op \<Rightarrow> payment_exec pf w op | PaymentHttp r \<Rightarrow> snd (payment_http pf r w))"

interpretation payment_routes: invariant_machine "payment_step_exec pf" books_ok for pf
  by unfold_locales (auto simp: payment_step_exec_def payment_route_message intro: ledgers.step_keeps split: payment_step.split)

end
