(* ===== verification/Health.thy ===== *)
theory Health
  imports Prelude
begin

text \<open>
  The health routes (libs/common/src/health: controller and indicators; apps/api-gateway/src/controllers/
  health.controller.ts). What the process finds out about the database, RabbitMQ, Redis and its own memory is
  a record of probes; \<open>HealthCheckService.check\<close> of @nestjs/terminus runs all indicators, answers 200 when all
  are up, 503 when one threw a HealthCheckError, and passes any other error on.
\<close>

subsection \<open>Indicators\<close>

datatype indicator_result = Up string | HealthCheckError string string | Broken exn

text \<open>
  What happened: \<open>None\<close> for success, else the message of the error. A connection to RabbitMQ is closed once when
  all is well and, if that fails, once more. The two memory checks belong to the library.
\<close>

record probes =
  pb_pingCheck :: "string option"
  pb_connect :: "string option"
  pb_close :: "string option"
  pb_closeAgain :: "string option"
  pb_ping :: "string option"
  pb_checkHeap :: "int \<Rightarrow> string option"
  pb_checkRSS :: "int \<Rightarrow> string option"

definition reported :: "string \<Rightarrow> string option \<Rightarrow> indicator_result" where
  "reported key problem = (case problem of None \<Rightarrow> Up key | Some m \<Rightarrow> HealthCheckError key m)"

definition rabbitmq_isHealthy :: "probes \<Rightarrow> string \<Rightarrow> indicator_result" where
  "rabbitmq_isHealthy p key =
     (case pb_connect p of
        Some m \<Rightarrow> HealthCheckError key m
      | None \<Rightarrow>
          (case pb_close p of
             None \<Rightarrow> Up key
           | Some m \<Rightarrow> (case pb_closeAgain p of None \<Rightarrow> HealthCheckError key m | Some m' \<Rightarrow> Broken (JsError m'))))"

definition redis_isHealthy :: "probes \<Rightarrow> string \<Rightarrow> indicator_result" where
  "redis_isHealthy p key = reported key (pb_ping p)"

subsection \<open>The check\<close>

record health_report =
  hr_info :: "string list"
  hr_error :: "(string \<times> string) list"

datatype health_answer = Ok200 health_report | Unavailable503 health_report | Failed500 exn

fun up_keys :: "indicator_result list \<Rightarrow> string list" where
  "up_keys [] = []"
| "up_keys (Up k # xs) = k # up_keys xs"
| "up_keys (_ # xs) = up_keys xs"

fun down_keys :: "indicator_result list \<Rightarrow> (string \<times> string) list" where
  "down_keys [] = []"
| "down_keys (HealthCheckError k m # xs) = (k, m) # down_keys xs"
| "down_keys (_ # xs) = down_keys xs"

fun first_broken :: "indicator_result list \<Rightarrow> exn option" where
  "first_broken [] = None"
| "first_broken (Broken e # xs) = Some e"
| "first_broken (_ # xs) = first_broken xs"

definition health_check :: "indicator_result list \<Rightarrow> health_answer" where
  "health_check rs =
     (let report = \<lparr>hr_info = up_keys rs, hr_error = down_keys rs\<rparr>
      in case first_broken rs of
           Some e \<Rightarrow> Failed500 e
         | None \<Rightarrow> if down_keys rs = [] then Ok200 report else Unavailable503 report)"

definition mb :: int where
  "mb = 1024 * 1024"

definition memory_indicators :: "probes \<Rightarrow> indicator_result list" where
  "memory_indicators p =
     [reported ''memory_heap'' (pb_checkHeap p (200 * mb)), reported ''memory_rss'' (pb_checkRSS p (300 * mb))]"

text \<open>A service asks its database as well, the gateway has none.\<close>

definition service_readiness :: "probes \<Rightarrow> health_answer" where
  "service_readiness p = health_check
     ([reported ''database'' (pb_pingCheck p), rabbitmq_isHealthy p ''rabbitmq'', redis_isHealthy p ''redis''] @
      memory_indicators p)"

definition gateway_readiness :: "probes \<Rightarrow> health_answer" where
  "gateway_readiness p = health_check
     ([rabbitmq_isHealthy p ''rabbitmq'', redis_isHealthy p ''redis''] @ memory_indicators p)"

definition liveness :: "probes \<Rightarrow> health_answer" where
  "liveness p = health_check []"

datatype health_route = HealthCheck | HealthLiveness | HealthReadiness

definition service_health :: "health_route \<Rightarrow> probes \<Rightarrow> health_answer" where
  "service_health r p = (case r of
     HealthCheck \<Rightarrow> service_readiness p | HealthLiveness \<Rightarrow> liveness p | HealthReadiness \<Rightarrow> service_readiness p)"

definition gateway_health :: "health_route \<Rightarrow> probes \<Rightarrow> health_answer" where
  "gateway_health r p = (case r of
     HealthCheck \<Rightarrow> gateway_readiness p | HealthLiveness \<Rightarrow> liveness p | HealthReadiness \<Rightarrow> gateway_readiness p)"

subsection \<open>When a process is ready\<close>

lemma up_or_not: "down_keys rs = [] \<and> first_broken rs = None \<longleftrightarrow> list_all (\<lambda>r. \<exists>k. r = Up k) rs"
  by (induction rs rule: down_keys.induct) auto

lemma health_ok: "(\<exists>rep. health_check rs = Ok200 rep) \<longleftrightarrow> list_all (\<lambda>r. \<exists>k. r = Up k) rs"
  unfolding up_or_not [symmetric] by (auto simp: health_check_def Let_def split: option.split)

lemma health_ok_keys: "health_check rs = Ok200 rep \<Longrightarrow> map Up (hr_info rep) = rs \<and> hr_error rep = []"
proof -
  assume "health_check rs = Ok200 rep"
  moreover from this have "list_all (\<lambda>r. \<exists>k. r = Up k) rs" using health_ok by blast
  moreover from this have "map Up (up_keys rs) = rs" by (induction rs rule: up_keys.induct) auto
  ultimately show ?thesis by (auto simp: health_check_def Let_def split: option.splits if_splits)
qed

lemma reported_up [simp]: "(\<exists>k. reported key x = Up k) \<longleftrightarrow> x = None"
  by (simp add: reported_def split: option.split)

lemma rabbitmq_up [simp]: "(\<exists>k. rabbitmq_isHealthy p key = Up k) \<longleftrightarrow> pb_connect p = None \<and> pb_close p = None"
  by (simp add: rabbitmq_isHealthy_def split: option.split)

text \<open>A gateway is ready exactly when the broker, Redis and its memory are; a service needs its database too.\<close>

lemma gateway_ready:
  "(\<exists>rep. gateway_readiness p = Ok200 rep) \<longleftrightarrow>
     pb_connect p = None \<and> pb_close p = None \<and> pb_ping p = None \<and> pb_checkHeap p (200 * mb) = None \<and>
     pb_checkRSS p (300 * mb) = None"
  by (auto simp: gateway_readiness_def health_ok memory_indicators_def redis_isHealthy_def)

lemma service_ready: "(\<exists>rep. service_readiness p = Ok200 rep) \<longleftrightarrow> pb_pingCheck p = None \<and> (\<exists>rep. gateway_readiness p = Ok200 rep)"
  by (auto simp: service_readiness_def gateway_readiness_def health_ok)

lemma always_alive: "service_health HealthLiveness p = Ok200 \<lparr>hr_info = [], hr_error = []\<rparr>"
  by (simp add: service_health_def liveness_def health_check_def Let_def)

text \<open>Only a RabbitMQ connection that cannot be closed twice makes the route fail otherwise than with 503.\<close>

lemma readiness_failure:
  assumes "service_health r p = Failed500 e"
  shows "\<exists>m m'. pb_close p = Some m \<and> pb_closeAgain p = Some m' \<and> e = JsError m'"
  using assms
  by (cases r) (auto simp: service_health_def service_readiness_def liveness_def health_check_def Let_def reported_def
      rabbitmq_isHealthy_def redis_isHealthy_def memory_indicators_def split: option.splits if_splits)

end
