(* ===== verification/Persistence.thy ===== *)
theory Persistence
  imports JsValue
begin

text \<open>
  Two helpers for services to build on: the repository with soft deletion (libs/database/src/abstract.entity.ts
  and abstract.repository.ts) and the cache (libs/common/src/services/cache.service.ts).
\<close>

subsection \<open>Entities that are deleted softly\<close>

record AbstractEntity =
  ae_id :: string
  ae_createdAt :: int
  ae_updatedAt :: int
  ae_deletedAt :: "int option"
  ae_createdBy :: "string option"
  ae_updatedBy :: "string option"

text \<open>The table of a subclass; what the subclass adds to the entity is the extension of the record.\<close>

record 'x entity_world = env +
  items :: "'x AbstractEntity_scheme list"

type_synonym ('x, 'a) repository = "('x entity_world, 'a) prog"

definition not_found :: exn where
  "not_found = NotFound ''Entity not found.''"

text \<open>\<open>save\<close>: an entity without id is inserted with a new one, one with the id of a row replaces the row.\<close>

definition entity_create :: "'x AbstractEntity_scheme \<Rightarrow> ('x, 'x AbstractEntity_scheme) repository" where
  "entity_create e = dbcall (\<lambda>w.
     if ae_id e = '''' then
       let e' = e\<lparr>ae_id := uuidSrc w (uuidCtr w), ae_createdAt := now w, ae_updatedAt := now w\<rparr>
       in (Inr e', w\<lparr>uuidCtr := Suc (uuidCtr w), items := items w @ [e']\<rparr>)
     else if \<exists>r\<in>set (items w). ae_id r = ae_id e then
       let e' = e\<lparr>ae_updatedAt := now w\<rparr>
       in (Inr e', w\<lparr>items := map (\<lambda>r. if ae_id r = ae_id e then e' else r) (items w)\<rparr>)
     else let e' = e\<lparr>ae_createdAt := now w, ae_updatedAt := now w\<rparr> in (Inr e', w\<lparr>items := items w @ [e']\<rparr>))"

text \<open>A condition is the predicate it stands for. Queries leave deleted rows out, updates and deletions do not.\<close>

definition visible :: "('x AbstractEntity_scheme \<Rightarrow> bool) \<Rightarrow> 'x AbstractEntity_scheme \<Rightarrow> bool" where
  "visible P r \<longleftrightarrow> P r \<and> ae_deletedAt r = None"

definition entity_findOne :: "('x AbstractEntity_scheme \<Rightarrow> bool) \<Rightarrow> ('x, 'x AbstractEntity_scheme) repository" where
  "entity_findOne P =
     andThen (dbquery (\<lambda>w. find (visible P) (items w))) (\<lambda>found.
       case found of None \<Rightarrow> throw not_found | Some e \<Rightarrow> ret e)"

definition entity_find :: "('x AbstractEntity_scheme \<Rightarrow> bool) \<Rightarrow> ('x, 'x AbstractEntity_scheme list) repository" where
  "entity_find P = dbquery (\<lambda>w. filter (visible P) (items w))"

text \<open>One UPDATE: the number of rows it changed.\<close>

definition change_rows ::
  "('x AbstractEntity_scheme \<Rightarrow> bool) \<Rightarrow> ('x AbstractEntity_scheme \<Rightarrow> 'x AbstractEntity_scheme) \<Rightarrow> ('x, nat) repository" where
  "change_rows P f = dbcall (\<lambda>w.
     (Inr (length (filter P (items w))),
      w\<lparr>items := map (\<lambda>r. if P r then (f r)\<lparr>ae_updatedAt := now w\<rparr> else r) (items w)\<rparr>))"

definition affected_or_missing :: "('x, nat) repository \<Rightarrow> ('x, unit) repository" where
  "affected_or_missing m = andThen m (\<lambda>affected. if affected = 0 then throw not_found else ret ())"

definition entity_findOneAndUpdate ::
  "('x AbstractEntity_scheme \<Rightarrow> bool) \<Rightarrow> ('x AbstractEntity_scheme \<Rightarrow> 'x AbstractEntity_scheme) \<Rightarrow>
     ('x, 'x AbstractEntity_scheme) repository" where
  "entity_findOneAndUpdate P f = andThen (affected_or_missing (change_rows P f)) (\<lambda>_. entity_findOne P)"

definition entity_findOneAndDelete :: "('x AbstractEntity_scheme \<Rightarrow> bool) \<Rightarrow> ('x, unit) repository" where
  "entity_findOneAndDelete P =
     andThen (gets now) (\<lambda>t. affected_or_missing (change_rows P (\<lambda>r. r\<lparr>ae_deletedAt := Some t\<rparr>)))"

definition entity_restore :: "('x AbstractEntity_scheme \<Rightarrow> bool) \<Rightarrow> ('x, unit) repository" where
  "entity_restore P = affected_or_missing (change_rows P (\<lambda>r. r\<lparr>ae_deletedAt := None\<rparr>))"

text \<open>A condition on the columns of the subclass, or on the id, that no operation here changes.\<close>

definition steady :: "('x AbstractEntity_scheme \<Rightarrow> bool) \<Rightarrow> bool" where
  "steady P \<longleftrightarrow> (\<forall>r d t. P (r\<lparr>ae_deletedAt := d, ae_updatedAt := t\<rparr>) = P r)"

lemma change_rows_run:
  assumes "faults w = []"
  shows "change_rows P f w = (Inr (length (filter P (items w))),
    w\<lparr>items := map (\<lambda>r. if P r then (f r)\<lparr>ae_updatedAt := now w\<rparr> else r) (items w)\<rparr>)"
  using assms by (simp add: change_rows_def)

text \<open>What is found is never deleted, and what is deleted is no longer found.\<close>

lemma find_holds: "find P xs = Some x \<Longrightarrow> P x"
  by (induction xs) (auto split: if_splits)

lemma found_not_deleted:
  assumes "entity_findOne P w = (Inr e, w')"
  shows "P e \<and> ae_deletedAt e = None"
proof -
  from assms have "find (visible P) (items w') = Some e"
    by (auto simp: entity_findOne_def dbquery_def dbcall_def split: option.splits)
  then have "visible P e" by (rule find_holds)
  then show ?thesis by (simp add: visible_def)
qed

lemma deleted_not_found:
  assumes "faults w = []" "steady P" "entity_findOneAndDelete P w = (Inr (), v)"
  shows "entity_findOne P v = (Inl not_found, v)" "entity_find P v = (Inr [], v)"
proof -
  have v: "v = w\<lparr>items := map (\<lambda>r. if P r then r\<lparr>ae_deletedAt := Some (now w), ae_updatedAt := now w\<rparr> else r) (items w)\<rparr>"
    using assms(1,3) by (auto simp: entity_findOneAndDelete_def affected_or_missing_def change_rows_run split: if_splits)
  have "filter (visible P) (items v) = []"
    using assms(2) by (auto simp: v visible_def steady_def filter_empty_conv)
  moreover from this have "find (visible P) (items v) = None"
    by (simp add: find_None_iff filter_empty_conv)
  ultimately show "entity_findOne P v = (Inl not_found, v)" "entity_find P v = (Inr [], v)"
    using assms(1) by (simp_all add: entity_findOne_def entity_find_def v prog_simps)
qed

text \<open>Deleting and restoring gives back what the table had, but for the update times.\<close>

lemma delete_restore:
  assumes "faults w = []" "steady P" "\<exists>r\<in>set (items w). P r" "\<forall>r\<in>set (items w). ae_deletedAt r = None"
  shows "\<exists>v v'. entity_findOneAndDelete P w = (Inr (), v) \<and> entity_restore P v = (Inr (), v') \<and>
    items v' = map (\<lambda>r. if P r then r\<lparr>ae_updatedAt := now w\<rparr> else r) (items w)"
proof -
  define del where "del r = (if P r then r\<lparr>ae_deletedAt := Some (now w), ae_updatedAt := now w\<rparr> else r)" for r
  let ?v = "w\<lparr>items := map del (items w)\<rparr>"
  from assms(3) have n: "filter P (items w) \<noteq> []" by (auto simp: filter_empty_conv)
  then have d: "entity_findOneAndDelete P w = (Inr (), ?v)"
    using assms(1) by (simp add: entity_findOneAndDelete_def affected_or_missing_def change_rows_run prog_simps
        del_def [abs_def])
  have P: "P (del r) = P r" for r using assms(2) by (simp add: steady_def del_def)
  have "map (\<lambda>r. if P r then r\<lparr>ae_deletedAt := None, ae_updatedAt := now w\<rparr> else r) (map del (items w)) =
      map (\<lambda>r. if P r then r\<lparr>ae_updatedAt := now w\<rparr> else r) (items w)"
    using assms(4) by (auto simp: P) (auto simp: del_def)
  moreover have "filter (P \<circ> del) (items w) \<noteq> []" using n by (simp add: comp_def P)
  ultimately have "entity_restore P ?v =
      (Inr (), ?v\<lparr>items := map (\<lambda>r. if P r then r\<lparr>ae_updatedAt := now w\<rparr> else r) (items w)\<rparr>)"
    using assms(1) by (simp add: entity_restore_def affected_or_missing_def change_rows_run prog_simps
        del: map_map map_eq_conv cong: if_cong)
  with d show ?thesis by auto
qed

text \<open>
  An update does not ask whether the row is deleted: it changes a deleted row and then answers that there is none.
\<close>

lemma update_of_deleted:
  assumes "faults w = []" "items w = [r]" "P r" "P ((f r)\<lparr>ae_updatedAt := now w\<rparr>)" "ae_deletedAt (f r) \<noteq> None"
  shows "entity_findOneAndUpdate P f w = (Inl not_found, w\<lparr>items := [(f r)\<lparr>ae_updatedAt := now w\<rparr>]\<rparr>)"
  using assms by (simp add: entity_findOneAndUpdate_def affected_or_missing_def change_rows_run entity_findOne_def
      visible_def prog_simps)

subsection \<open>The cache\<close>

text \<open>The cache manager is a library: its operations, and the optional ones of its store.\<close>

record 's cache_manager =
  cm_get :: "string \<Rightarrow> ('s, js) prog"
  cm_set :: "string \<Rightarrow> js \<Rightarrow> int option \<Rightarrow> ('s, unit) prog"
  cm_del :: "string \<Rightarrow> ('s, unit) prog"
  cm_reset :: "('s, unit) prog option"
  cm_clear :: "('s, unit) prog option"
  cm_flushall :: "('s, unit) prog option"
  cm_keys :: "(string \<Rightarrow> ('s, string list) prog) option"

definition cache_get :: "'s cache_manager \<Rightarrow> string \<Rightarrow> ('s, js) prog" where
  "cache_get m key = tryCatch (andThen (cm_get m key) (\<lambda>v. ret (js_or v JNull))) (\<lambda>_. ret JNull)"

definition cache_set :: "'s cache_manager \<Rightarrow> string \<Rightarrow> js \<Rightarrow> int option \<Rightarrow> ('s, unit) prog" where
  "cache_set m key v ttl = tryCatch (cm_set m key v ttl) (\<lambda>_. ret ())"

definition cache_del :: "'s cache_manager \<Rightarrow> string \<Rightarrow> ('s, unit) prog" where
  "cache_del m key = tryCatch (cm_del m key) (\<lambda>_. ret ())"

definition cache_reset :: "'s cache_manager \<Rightarrow> ('s, unit) prog" where
  "cache_reset m = tryCatch
     (case cm_reset m of Some f \<Rightarrow> f
      | None \<Rightarrow> (case cm_clear m of Some f \<Rightarrow> f
                | None \<Rightarrow> (case cm_flushall m of Some f \<Rightarrow> f | None \<Rightarrow> ret ()))) (\<lambda>_. ret ())"

definition cache_keys :: "'s cache_manager \<Rightarrow> string \<Rightarrow> ('s, string list) prog" where
  "cache_keys m pattern = tryCatch (case cm_keys m of Some f \<Rightarrow> f pattern | None \<Rightarrow> ret []) (\<lambda>_. ret [])"

text \<open>A broken cache is a cache without entries: no operation throws.\<close>

lemma caught: "\<exists>x. fst (tryCatch m (\<lambda>_. ret y) w) = Inr x"
  by (auto simp: tryCatch_def ret_def split: prod.split sum.split)

lemma cache_never_throws:
  "\<exists>x. fst (cache_get m key w) = Inr x" "\<exists>x. fst (cache_set m key v ttl w) = Inr x" "\<exists>x. fst (cache_del m key w) = Inr x"
  "\<exists>x. fst (cache_reset m w) = Inr x" "\<exists>x. fst (cache_keys m pattern w) = Inr x"
  unfolding cache_get_def cache_set_def cache_del_def cache_reset_def cache_keys_def by (rule caught)+

text \<open>What is read is the stored value if it is truthy; a stored zero, false or empty string reads as a miss.\<close>

lemma cache_hit: "cm_get m key w = (Inr v, w') \<Longrightarrow> cache_get m key w = (Inr (if js_truthy v then v else JNull), w')"
  by (simp add: cache_get_def js_or_def prog_simps)

end
