(* ===== verification/Storage.thy ===== *)
theory Storage
  imports Prelude "HOL-Library.List_Lexorder" "HOL-Library.Char_ord"
begin

text \<open>
  Files in an S3 bucket (libs/storage/src/storage.provider.ts, of which libs/common/src/storage.provider.ts is a
  copy). The bucket is the list of its objects, at most one per key; a request may fail. The service lists
  at most a thousand keys per request, in their order, and says so with a token that the code does not read.
\<close>

subsection \<open>The bucket\<close>

record s3_object =
  so_body :: string
  so_contentType :: string
  so_originalName :: string

record storage_world = env +
  bucket :: "(string \<times> s3_object) list"

definition no_such_key :: exn where
  "no_such_key = JsError ''NoSuchKey''"

definition put_object :: "string \<Rightarrow> s3_object \<Rightarrow> (storage_world, unit) prog" where
  "put_object k x = dbcall (\<lambda>w. (Inr (), w\<lparr>bucket := (k, x) # filter (\<lambda>kx. fst kx \<noteq> k) (bucket w)\<rparr>))"

definition get_object :: "string \<Rightarrow> (storage_world, s3_object) prog" where
  "get_object k = dbcall (\<lambda>w. (case map_of (bucket w) k of None \<Rightarrow> Inl no_such_key | Some x \<Rightarrow> Inr x, w))"

definition delete_object :: "string \<Rightarrow> (storage_world, unit) prog" where
  "delete_object k = dbcall (\<lambda>w. (Inr (), w\<lparr>bucket := filter (\<lambda>kx. fst kx \<noteq> k) (bucket w)\<rparr>))"

definition list_objects :: "string \<Rightarrow> (storage_world, string list) prog" where
  "list_objects p = dbquery (\<lambda>w. take 1000 (sort (filter (\<lambda>k. take (length p) k = p) (map fst (bucket w)))))"

subsection \<open>The provider\<close>

record file_upload =
  fu_buffer :: string
  fu_originalName :: string
  fu_mimetype :: string
  fu_size :: int
  fu_folder :: "string option"

record upload_result =
  ur_key :: string
  ur_url :: string
  ur_bucket :: string
  ur_size :: int

text \<open>\<open>originalName.split('.').pop()\<close>: what follows the last point, the whole name if there is none.\<close>

definition fileExtension :: "string \<Rightarrow> string" where
  "fileExtension name = last (split_on (CHR ''.'') name)"

definition upload_key :: "string \<Rightarrow> file_upload \<Rightarrow> string" where
  "upload_key uuid f = or_str (fu_folder f) ''uploads'' @ ''/'' @ uuid @ ''.'' @ fileExtension (fu_originalName f)"

text \<open>The presigned address is a function of bucket, key and seconds, which the client library computes.\<close>

type_synonym presigner = "string \<Rightarrow> string \<Rightarrow> int \<Rightarrow> string"

definition getSignedUrl :: "presigner \<Rightarrow> string \<Rightarrow> string \<Rightarrow> int option \<Rightarrow> (storage_world, string) prog" where
  "getSignedUrl sign bucketName key expiresIn =
     ret (sign bucketName key (case expiresIn of None \<Rightarrow> 3600 | Some n \<Rightarrow> n))"

definition uploadFile :: "presigner \<Rightarrow> string \<Rightarrow> file_upload \<Rightarrow> (storage_world, upload_result) prog" where
  "uploadFile sign bucketName f =
     andThen freshUuid (\<lambda>uuid.
       let key = upload_key uuid f
       in andThen (put_object key
            \<lparr>so_body = fu_buffer f, so_contentType = fu_mimetype f, so_originalName = fu_originalName f\<rparr>) (\<lambda>_.
          andThen (getSignedUrl sign bucketName key None) (\<lambda>url.
            ret \<lparr>ur_key = key, ur_url = url, ur_bucket = bucketName, ur_size = fu_size f\<rparr>)))"

definition downloadFile :: "string \<Rightarrow> (storage_world, string) prog" where
  "downloadFile key = andThen (get_object key) (\<lambda>x. ret (so_body x))"

definition deleteFile :: "string \<Rightarrow> (storage_world, unit) prog" where
  "deleteFile key = delete_object key"

definition listFiles :: "string option \<Rightarrow> (storage_world, string list) prog" where
  "listFiles prefix = list_objects (case prefix of None \<Rightarrow> '''' | Some p \<Rightarrow> p)"

subsection \<open>What it keeps\<close>

lemma bucket_faults [simp]: "bucket (w\<lparr>faults := fs\<rparr>) = bucket w"
  by simp

text \<open>A file that was uploaded is downloaded as it was, and every other file stays as it is.\<close>

lemma upload_download:
  assumes "faults w = []" "uploadFile sign b f w = (Inr r, v)"
  shows "downloadFile (ur_key r) v = (Inr (fu_buffer f), v)"
    and "k \<noteq> ur_key r \<Longrightarrow> map_of (bucket v) k = map_of (bucket w) k"
proof -
  let ?k = "upload_key (uuidSrc w (uuidCtr w)) f"
  have r: "ur_key r = ?k" "faults v = []"
    "bucket v = (?k, \<lparr>so_body = fu_buffer f, so_contentType = fu_mimetype f, so_originalName = fu_originalName f\<rparr>) #
       filter (\<lambda>kx. fst kx \<noteq> ?k) (bucket w)"
    using assms by (auto simp: uploadFile_def freshUuid_def put_object_def getSignedUrl_def Let_def)
  then show "downloadFile (ur_key r) v = (Inr (fu_buffer f), v)"
    by (simp add: downloadFile_def get_object_def prog_simps)
  have "map_of (filter (\<lambda>kx. fst kx \<noteq> j) xs) k = map_of xs k" if "k \<noteq> j" for j and xs :: "(string \<times> s3_object) list"
    using that by (induction xs) auto
  then show "k \<noteq> ur_key r \<Longrightarrow> map_of (bucket v) k = map_of (bucket w) k" using r by simp
qed

lemma delete_download:
  assumes "faults w = []"
  shows "deleteFile k w = (Inr (), w\<lparr>bucket := filter (\<lambda>kx. fst kx \<noteq> k) (bucket w)\<rparr>)"
    and "downloadFile k (snd (deleteFile k w)) = (Inl no_such_key, snd (deleteFile k w))"
proof -
  show d: "deleteFile k w = (Inr (), w\<lparr>bucket := filter (\<lambda>kx. fst kx \<noteq> k) (bucket w)\<rparr>)"
    using assms by (simp add: deleteFile_def delete_object_def)
  have "map_of (filter (\<lambda>kx. fst kx \<noteq> k) xs) k = None" for xs :: "(string \<times> s3_object) list"
    by (induction xs) auto
  then show "downloadFile k (snd (deleteFile k w)) = (Inl no_such_key, snd (deleteFile k w))"
    using assms by (simp add: d downloadFile_def get_object_def prog_simps)
qed

text \<open>Up to a thousand files of a prefix are listed, of more only the first thousand.\<close>

lemma list_exact:
  assumes "faults w = []" "length (filter (\<lambda>k. take (length p) k = p) (map fst (bucket w))) \<le> 1000"
  shows "\<exists>ks. listFiles (Some p) w = (Inr ks, w) \<and> sorted ks \<and>
    set ks = {k. k \<in> fst ` set (bucket w) \<and> take (length p) k = p}"
  using assms by (auto simp: listFiles_def list_objects_def)

lemma list_truncated:
  assumes "faults w = []" "1000 < length (filter (\<lambda>k. take (length p) k = p) (map fst (bucket w)))"
  shows "\<exists>ks. listFiles (Some p) w = (Inr ks, w) \<and> length ks = 1000"
  using assms by (simp add: listFiles_def list_objects_def)

end
