(* ===== verification/BrokerTopology.thy ===== *)
theory BrokerTopology
  imports MessageRetry
begin

text \<open>
  The exchanges, queues and bindings that libs/message-broker/src/rabbitmq.provider.ts declares, and where a
  topic exchange of RabbitMQ sends a message: to each queue with a binding whose pattern matches the routing
  key, word by word, \<open>*\<close> for any one word and \<open>#\<close> for any number of words.
\<close>

subsection \<open>Topics\<close>

function topic_match :: "string list \<Rightarrow> string list \<Rightarrow> bool" where
  "topic_match [] ws = (ws = [])"
| "topic_match (p # ps) ws =
     (if p = ''#'' then topic_match ps ws \<or> (case ws of [] \<Rightarrow> False | w # ws' \<Rightarrow> topic_match (p # ps) ws')
      else (case ws of [] \<Rightarrow> False | w # ws' \<Rightarrow> (p = ''*'' \<or> p = w) \<and> topic_match ps ws'))"
  by pat_completeness auto

termination by (relation "measure (\<lambda>(ps, ws). length ps + length ws)") auto

declare topic_match.simps(2) [simp del]

lemma topic_match_Cons [simp]:
  "topic_match (p # ps) [] \<longleftrightarrow> p = ''#'' \<and> topic_match ps []"
  "topic_match (p # ps) (w # ws) \<longleftrightarrow>
     (if p = ''#'' then topic_match ps (w # ws) \<or> topic_match (p # ps) ws else (p = ''*'' \<or> p = w) \<and> topic_match ps ws)"
  by (simp_all add: topic_match.simps(2) [of p ps])
lemma hash_matches: "topic_match [''#''] ws"
  by (induction ws) simp_all

lemma plain_matches:
  assumes "''#'' \<notin> set ps" "''*'' \<notin> set ps"
  shows "topic_match ps ws \<longleftrightarrow> ws = ps"
  using assms
proof (induction ps arbitrary: ws)
  case (Cons p ps)
  then show ?case by (cases ws) auto
qed simp

definition words_of :: "string \<Rightarrow> string list" where
  "words_of key = split_on (CHR ''.'') key"

subsection \<open>Exchanges, queues and messages\<close>

record binding =
  bd_queue :: string
  bd_exchange :: string
  bd_pattern :: string

record broker_message =
  bm_routingKey :: string
  bm_content :: string

record broker_world = env +
  exchanges :: "string list"
  declared :: "queue_args list"
  bindings :: "binding list"
  queued :: "(string \<times> broker_message) list"

definition main_exchange :: string where
  "main_exchange = ''flight_booking_exchange''"

definition dlx_exchange :: string where
  "dlx_exchange = ''flight_booking_dlx''"

text \<open>The queues that get a message from an exchange; a queue with two matching bindings gets it once.\<close>

definition targets :: "broker_world \<Rightarrow> string \<Rightarrow> string \<Rightarrow> string list" where
  "targets w ex key = remdups (map bd_queue
     (filter (\<lambda>b. bd_exchange b = ex \<and> topic_match (words_of (bd_pattern b)) (words_of key)) (bindings w)))"

definition deliver_to :: "string \<Rightarrow> broker_message \<Rightarrow> broker_world \<Rightarrow> broker_world" where
  "deliver_to ex m w = w\<lparr>queued := queued w @ map (\<lambda>q. (q, m)) (targets w ex (bm_routingKey m))\<rparr>"

subsection \<open>The provider\<close>

definition dead_letter_args :: queue_args where
  "dead_letter_args = \<lparr>qa_name = ''dead_letter_queue'', qa_deadLetterExchange = None, qa_deadLetterRoutingKey = None,
     qa_messageTtl = None, qa_maxLength = None\<rparr>"

text \<open>The set-up of the channel: each declaration is a call of the broker.\<close>

definition declare_exchange :: "string \<Rightarrow> (broker_world, unit) prog" where
  "declare_exchange ex = dbcall (\<lambda>w. (Inr (), w\<lparr>exchanges := ex # exchanges w\<rparr>))"

definition declare_queue :: "queue_args \<Rightarrow> (broker_world, unit) prog" where
  "declare_queue q = dbcall (\<lambda>w. (Inr (), w\<lparr>declared := q # declared w\<rparr>))"

definition bind_queue :: "string \<Rightarrow> string \<Rightarrow> string \<Rightarrow> (broker_world, unit) prog" where
  "bind_queue q ex pattern = dbcall (\<lambda>w.
     (Inr (), w\<lparr>bindings := \<lparr>bd_queue = q, bd_exchange = ex, bd_pattern = pattern\<rparr> # bindings w\<rparr>))"

definition provider_connect :: "(broker_world, unit) prog" where
  "provider_connect =
     andThen (declare_exchange main_exchange) (\<lambda>_.
     andThen (declare_exchange dlx_exchange) (\<lambda>_.
     andThen (declare_queue dead_letter_args) (\<lambda>_.
       bind_queue ''dead_letter_queue'' dlx_exchange ''#'')))"

definition provider_subscribe :: "string \<Rightarrow> (broker_world, unit) prog" where
  "provider_subscribe pattern =
     andThen (declare_queue (subscription_queue pattern)) (\<lambda>_.
       bind_queue (qa_name (subscription_queue pattern)) main_exchange pattern)"

text \<open>\<open>publish\<close> logs the error and throws it again; \<open>emit\<close> swallows it.\<close>

definition provider_publish :: "string \<Rightarrow> string \<Rightarrow> (broker_world, unit) prog" where
  "provider_publish pattern data =
     dbcall (\<lambda>w. (Inr (), deliver_to main_exchange \<lparr>bm_routingKey = pattern, bm_content = data\<rparr> w))"

definition provider_emit :: "string \<Rightarrow> string \<Rightarrow> (broker_world, unit) prog" where
  "provider_emit pattern data = tryCatch (provider_publish pattern data) (\<lambda>_. ret ())"

text \<open>
  A message at the head of a subscription's queue: the verdict of the consumer, and what the broker does with it.
  A rejected message goes to the dead letter exchange of its queue with the routing key it had.
\<close>

definition settle :: "verdict \<Rightarrow> string \<Rightarrow> broker_message \<Rightarrow> broker_world \<Rightarrow> broker_world" where
  "settle v q m w =
     (let w' = w\<lparr>queued := remove1 (q, m) (queued w)\<rparr>
      in case v of Ack \<Rightarrow> w' | Nack \<Rightarrow> deliver_to dlx_exchange m w')"

subsection \<open>No message of a subscription is lost\<close>

lemma connected:
  assumes "faults w = []" "provider_connect w = (Inr (), v)"
  shows "\<lparr>bd_queue = ''dead_letter_queue'', bd_exchange = dlx_exchange, bd_pattern = ''#''\<rparr> \<in> set (bindings v)"
  using assms by (simp add: provider_connect_def declare_exchange_def declare_queue_def bind_queue_def) auto

lemma words_hash: "words_of ''#'' = [''#'']"
  by (simp add: words_of_def)

text \<open>With the provider's set-up, a rejected message of any routing key is in the dead letter queue afterwards.\<close>

lemma rejected_dead_lettered:
  assumes "\<lparr>bd_queue = ''dead_letter_queue'', bd_exchange = dlx_exchange, bd_pattern = ''#''\<rparr> \<in> set (bindings w)"
  shows "(''dead_letter_queue'', m) \<in> set (queued (settle Nack q m w))"
proof -
  have "''dead_letter_queue'' \<in> set (targets (w\<lparr>queued := remove1 (q, m) (queued w)\<rparr>) dlx_exchange (bm_routingKey m))"
    using assms by (force simp: targets_def words_hash hash_matches)
  then show ?thesis by (simp add: settle_def deliver_to_def Let_def)
qed

text \<open>A message reaches the queue of a subscription exactly to the routing key it is published under.\<close>

lemma published_to_subscription:
  assumes "faults w = []" "\<lparr>bd_queue = q, bd_exchange = main_exchange, bd_pattern = pattern\<rparr> \<in> set (bindings w)"
    and "''#'' \<notin> set (words_of pattern)" "''*'' \<notin> set (words_of pattern)"
  shows "(q, \<lparr>bm_routingKey = pattern, bm_content = data\<rparr>) \<in> set (queued (snd (provider_publish pattern data w)))"
proof -
  have "q \<in> set (targets w main_exchange pattern)"
    using assms(2-4) by (force simp: targets_def plain_matches)
  then show ?thesis using assms(1) by (simp add: provider_publish_def deliver_to_def)
qed

text \<open>Nobody keeps a message to which no queue is bound: publishing it succeeds and it is gone.\<close>

lemma unrouted_lost:
  assumes "faults w = []" "targets w main_exchange pattern = []"
  shows "provider_publish pattern data w = (Inr (), w)"
  using assms by (simp add: provider_publish_def deliver_to_def)

text \<open>Two patterns that differ in points and underscores share a queue, so each consumer gets the other's messages.\<close>

lemma shared_queue: "qa_name (subscription_queue ''flight.seats'') = qa_name (subscription_queue ''flight_seats'')"
  by (simp add: subscription_queue_def)

end
