(* ===== verification/Spec2Isabelle.thy ===== *)
theory Spec2Isabelle
  imports Prelude Tables Redis SeatLock RateLimiter BookingModel Outbox Saga SagaProps BookingService
    PaymentModel PaymentService PaymentProps PaymentReplay FlightModel FlightService FlightInventory
    CatalogModel CatalogService CatalogProps AuthService AuthProps JsValue ErrorPath AuthGateway
    Interceptors MessageRetry Gateway GatewayProps GatewayCosts Sql SqlProps Migrations Entities SchemaProps
    BookingSchema PaymentSchema Seeds MigrationProps DataMigration Repositories ServiceRoutes Health Persistence
    Storage BrokerTopology
begin

text \<open>
  Verification library of the flight-bookings repository, a NestJS monorepo in TypeScript (paths are relative to
  the repository's root).

  The program. A browser or an app talks to the API gateway (apps/api-gateway), which checks who is asking and
  passes the request over RabbitMQ to a service: authentication (apps/auth-service), the flight catalogue and
  the seats left (apps/flight-service), bookings (apps/booking-service). The booking service runs a saga: it
  makes a booking, locks its seats in Redis (libs/seat-lock), requests the reservation through an outbox table
  and asks the payment service (apps/payment-service) for a payment; a payment that succeeds comes back as a
  message and completes the booking. The flight service has a handler that counts the seats down when the outbox
  publishes the events; no module of the repository registers it yet, and the models deliver the events to it in
  steps of their own. Shared code (guards, filters, interceptors, retry of messages, rate limiter) is under libs.

  How code becomes definitions. An async method is a program of the type in Prelude: it takes the state of its
  component and gives the state after it with a value or a thrown exception, so that what was written before
  a throw stays written unless a transaction undoes it. Every statement on a table, publication and call of
  another process may fail: the state holds the list of coming faults, and a theorem about all runs holds for
  all such lists. Tables are lists of rows in insertion order, with the columns of the entity as a record.
  Times are milliseconds, cents and ids are integers, a \<open>decimal\<close> is a rational. A Lua script is one
  atomic step of Redis. Functions are in the order of the source and keep its names.

  Theories, and the code they model.
  \<^item> Prelude (JavaScript helpers, exceptions, programs, faults, contracts about runs), Tables (rows, keys, column
    types), JsValue (values whose type the code tests), Redis (\<open>get\<close>, \<open>setex\<close>, \<open>del\<close> with expiry, as a locale
    that the model of Redis interprets).
  \<^item> SeatLock: libs/seat-lock. RateLimiter: libs/rate-limiter, service and guard.
  \<^item> BookingModel (entities and repositories of apps/booking-service), Outbox (outbox.service.ts), Saga and SagaProps
    (saga-orchestrator.service.ts), BookingService (booking.service.ts, the clean-up job, the payment events,
    the two payment clients behind the locale \<open>payment_port\<close>).
  \<^item> PaymentModel (entities, dto, statements of apps/payment-service), PaymentService (gateways, payment, refund and
    webhook services), PaymentProps and PaymentReplay (what holds of them).
  \<^item> FlightModel, FlightService (flight service, its consumer of booking events), FlightInventory (the abstract
    inventory it refines), CatalogModel, CatalogService, CatalogProps (cities, airports, airplanes, seats).
  \<^item> AuthService, AuthProps (apps/auth-service), AuthGateway (cookies, the gateway's auth controller, all guards: the
    gateway's token, roles and rate limiter's guard in the order in which app.module.ts and main.ts install them).
  \<^item> ErrorPath (rpc and global exception filters, which service installs the first, messages), Interceptors (logging, wrapping, metrics, correlation
    ids), MessageRetry (rmq.helper.ts, rmq.module.ts, rabbitmq.provider.ts).
  \<^item> Repositories: the repository methods no service calls, over the same tables. Health: the health routes.
    Persistence: the repository with soft deletion and the cache service of libs. Storage: libs/storage.
    BrokerTopology: what libs/message-broker declares at the broker and where its messages go.
  \<^item> Gateway, GatewayProps, GatewayCosts: the controllers of the gateway in front of the models of the services,
    and the messages of the booking service's outbox on their way to the flight service's handler.
    ServiceRoutes: the HTTP routes of the services themselves, which do what the messages do.
  \<^item> Sql, SqlProps (tables of PostgreSQL and the statements the migrations use), Migrations (all fourteen migrations),
    Entities (the fifteen entities as TypeORM writes and reads them), SchemaProps, BookingSchema,
    PaymentSchema and Seeds (the three migrated databases), MigrationProps, DataMigration (what becomes of the rows).

  What the lemmas show.
  \<^item> Each component that keeps a state has a step function over its operations (\<open>lock_exec\<close>, \<open>rl_exec\<close>, \<open>outbox_exec\<close>,
    \<open>booking_exec\<close>, \<open>payment_exec\<close>, \<open>flight_exec\<close>, \<open>catalog_exec\<close>, \<open>auth_exec\<close>, \<open>gateway_exec\<close>) and an invariant; the
    contracts \<open>invariant_machine\<close> and \<open>guarded_machine\<close> carry it over runs, \<open>world_relation\<close> carries a
    relation between two states through the programs. Each is interpreted on the model's own functions.
  \<^item> Seats: at most one booking holds a seat; the inventory counts each event once and never oversells.
  \<^item> Bookings: every booking has one saga and their states agree, on every path and under faults; each failure
    path is followed to its end; an event marked as published has reached the broker.
  \<^item> Money: the ledger is a double entry book, refunds stay within the payment, repeated requests and webhooks are
    answered from what is stored; the cases in which this fails are theorems as well.
  \<^item> Limits: a key is admitted in at most \<open>points\<close> different milliseconds of any window; requests of one millisecond
    are not told apart. The guard's verdict is stated by the block key and the entries of the window.
  \<^item> Access: which requests the gateway admits, that a refresh token works once, that only the owner touches a booking,
    what of an error reaches the client from which service, which fields never reach the log.
  \<^item> Schema: every statement keeps a database well-formed (types, NOT NULL, keys, references); which entities the
    migrated tables can store, and how far the migrations can be undone.

  Termination and bounds. No definition needs fuel: loops over lists are recursion on the list, the loops that
  retry a connection or redeliver a message are functions with a measure, the number of tries left, and so
  are the matching of patterns and the replacement of text.

  Parameters, with what is assumed of them where they occur: JSON Web Tokens and bcrypt (records of functions),
  the answers of Stripe and of the payment service to each call, uuids and the clock, the orders of the database
  (its collation, and for each query the order of rows with equal keys), the random numbers of Redis's scripts, its
  reply to KEYS, the text JSON.stringify gives. TypeORM, Redis, RabbitMQ and PostgreSQL
  behave as documented: a transaction is undone as a whole, a rejected message is dead-lettered and counted.

  A microservice without a filter of its own answers an error with \<open>{status: 'error', message: 'Internal server
  error'}\<close>, as NestJS documents.

  Limits of the model. Requests, messages and jobs of one service run one after the other in any order, each to its
  end or to the call that fails; so races between two requests that read before either writes (two refunds of one
  payment) are outside. One clock stands for a service's process and its Redis; in the gateway each service and the
  limiter has its own, and time passes for all of them together. The services' own theories take tables as the entities declare them (which is what
  \<open>synchronize\<close> makes in development); the schema theories compare this with the tables the migrations make. The
  gateway's model takes the flight id of a request in its canonical spelling. In the schema,
  names TypeORM derives by hashing are \<open>PK_\<close> and \<open>UQ_\<close> names, and ON DELETE CASCADE
  is not needed by any statement. A bulk creation of seats is modelled up to 191 columns, beyond which the code names
  columns by other characters than letters.

  Not modelled: start-up, dependency injection and configuration objects (no logic of their own), tracing and
  logging (nothing reads them back, apart from what the logging interceptor hides), the
  notification service (a stub), the conversion of prices to cents in price.util.ts (unused; it rests on
  the rounding of floating point products), API documentation and the tests.
\<close>

end
